(* ===== verification/Prelude.thy ===== *)
theory Prelude
  imports Main "HOL-Library.Word" "HOL-Library.AList" "HOL-Library.Multiset"
begin

text \<open>
  Shared vocabulary of the development: Go's sized integers, Go maps, the outcome of a Go
  call that may panic, and the generic lemmas on association lists, finds and folds that the
  component theories use.

  Go maps are association lists.  The order of the list is one of the iteration orders that
  Go may choose for \<^verbatim>\<open>range\<close>; every definition that ranges over a map follows the list, and
  every theorem quantifies over the list, hence over the iteration order.
\<close>

section \<open>Go types\<close>

type_synonym i32 = "32 word"
type_synonym i64 = "64 word"

type_synonym goerror = string

type_synonym ('k, 'v) gomap = "('k \<times> 'v) list"

datatype 'a outcome = Ret 'a | Panic string

abbreviation nil_deref :: string where
  "nil_deref \<equiv> ''invalid memory address or nil pointer dereference''"

abbreviation index_out_of_range :: string where
  "index_out_of_range \<equiv> ''index out of range''"

named_theorems alist_simps \<open>lookup and key sets of updated and deleted association lists\<close>
named_theorems go_defs \<open>definitions of small operations that proofs unfold\<close>

section \<open>Maps\<close>

text \<open>Reading a missing key of a Go map gives the zero value of the element type.\<close>

definition gm_get :: "'v \<Rightarrow> ('k, 'v) gomap \<Rightarrow> 'k \<Rightarrow> 'v" where
  "gm_get z m k = (case map_of m k of None \<Rightarrow> z | Some v \<Rightarrow> v)"

abbreviation gm_has :: "('k, 'v) gomap \<Rightarrow> 'k \<Rightarrow> bool" where
  "gm_has m k \<equiv> k \<in> fst ` set m"

definition gm_wf :: "('k, 'v) gomap \<Rightarrow> bool" where
  "gm_wf m = distinct (map fst m)"

lemma map_of_update [alist_simps, simp]:
  "map_of (AList.update k v m) k' = (if k' = k then Some v else map_of m k')"
  by (simp add: update_conv')

lemma map_of_delete [alist_simps, simp]:
  "map_of (AList.delete k m) k' = (if k' = k then None else map_of m k')"
  by (simp add: delete_conv')

lemma gm_get_update [alist_simps, simp]:
  "gm_get z (AList.update k v m) k' = (if k' = k then v else gm_get z m k')"
  by (simp add: gm_get_def)

lemma gm_get_empty [simp]: "gm_get z [] k = z"
  by (simp add: gm_get_def)

lemma gm_get_Cons [simp]: "gm_get z ((k, v) # m) k' = (if k' = k then v else gm_get z m k')"
  by (simp add: gm_get_def)

lemma gm_wf_Nil [simp]: "gm_wf []"
  by (simp add: gm_wf_def)

lemma gm_wf_update [simp, intro]: "gm_wf m \<Longrightarrow> gm_wf (AList.update k v m)"
  by (simp add: gm_wf_def distinct_update)

lemma gm_wf_delete [simp, intro]: "gm_wf m \<Longrightarrow> gm_wf (AList.delete k m)"
  by (simp add: gm_wf_def distinct_delete)

lemma gm_has_map_of: "gm_has m k \<longleftrightarrow> (\<exists>v. map_of m k = Some v)"
  by (metis domIff dom_map_of_conv_image_fst not_Some_eq)

section \<open>Printing\<close>

text \<open>The decimal digits of a number, as the format verb \<^verbatim>\<open>%d\<close> prints them.\<close>

fun show_nat :: "nat \<Rightarrow> string" where
  "show_nat n = (if n < 10 then [char_of (48 + n)] else show_nat (n div 10) @ [char_of (48 + n mod 10)])"

declare show_nat.simps [simp del]

end
