(* ===== verification/K8s_Objects.thy ===== *)
theory K8s_Objects
  imports Prelude
begin

text \<open>
  The Kubernetes API objects that the program reads and writes, cut down to the fields it
  uses: owner references, containers and pods (core v1), and the accessors of the vendored
  helper packages that every plugin calls (pod priority, pod group label).

  A quantity (\<^verbatim>\<open>resource.Quantity\<close>) is an exact decimal with at most nine fractional digits;
  it is an \<open>int\<close> that counts billionths (nano-units).  Times are \<open>int\<close> nanoseconds.
\<close>

section \<open>Objects\<close>

type_synonym quantity = int

type_synonym ResourceList = "(string, quantity) gomap"

record OwnerReference =
  or_APIVersion :: string
  or_Kind :: string
  or_Name :: string

record Container =
  c_Requests :: ResourceList
  c_Limits :: ResourceList

record PodCondition =
  pc_Type :: string
  pc_Status :: string
  pc_LastTransitionTime :: int

record v1_Pod =
  pod_Namespace :: string
  pod_Name :: string
  pod_UID :: string
  pod_Labels :: "(string, string) gomap"
  pod_Annotations :: "(string, string) gomap option"
  pod_OwnerReferences :: "OwnerReference list"
  pod_DeletionTimestamp :: "int option"
  pod_NodeName :: string
  pod_Priority :: "i32 option"
  pod_PriorityClassName :: string
  pod_PreemptionPolicy :: "string option"
  pod_Containers :: "Container list"
  pod_InitContainers :: "Container list"
  pod_Overhead :: "ResourceList option"
  pod_Phase :: string
  pod_Conditions :: "PodCondition list"
  pod_NominatedNodeName :: string
  pod_StartTime :: "int option"
  pod_QOSClass :: string

text \<open>The pod whose every field has Go's zero value.\<close>

definition zero_pod :: v1_Pod where
  "zero_pod = \<lparr>pod_Namespace = '''', pod_Name = '''', pod_UID = '''', pod_Labels = [],
     pod_Annotations = None, pod_OwnerReferences = [], pod_DeletionTimestamp = None,
     pod_NodeName = '''', pod_Priority = None, pod_PriorityClassName = '''',
     pod_PreemptionPolicy = None, pod_Containers = [], pod_InitContainers = [],
     pod_Overhead = None, pod_Phase = '''', pod_Conditions = [],
     pod_NominatedNodeName = '''', pod_StartTime = None, pod_QOSClass = ''''\<rparr>"

section \<open>Accessors\<close>

text \<open>\<^verbatim>\<open>corev1helpers.PodPriority\<close>: a pod without a priority has priority 0.\<close>

definition PodPriority :: "v1_Pod \<Rightarrow> i32" where
  "PodPriority pod = (case pod_Priority pod of Some p \<Rightarrow> p | None \<Rightarrow> 0)"

text \<open>Reading a nil annotation map gives no value for any key.\<close>

definition annotation :: "v1_Pod \<Rightarrow> string \<Rightarrow> string option" where
  "annotation pod k = (case pod_Annotations pod of None \<Rightarrow> None | Some m \<Rightarrow> map_of m k)"

text \<open>Writing an annotation after allocating the map when it is nil.\<close>

definition set_annotation :: "string \<Rightarrow> string \<Rightarrow> v1_Pod \<Rightarrow> v1_Pod" where
  "set_annotation k v pod =
     pod\<lparr>pod_Annotations := Some (AList.update k v (case pod_Annotations pod of None \<Rightarrow> [] | Some m \<Rightarrow> m))\<rparr>"

lemma annotation_set_annotation [simp]:
  "annotation (set_annotation k v pod) k' = (if k' = k then Some v else annotation pod k')"
  by (simp add: annotation_def set_annotation_def split: option.splits)

lemma set_annotation_frame [simp]:
  "pod_Name (set_annotation k v pod) = pod_Name pod"
  "pod_Namespace (set_annotation k v pod) = pod_Namespace pod"
  "pod_NodeName (set_annotation k v pod) = pod_NodeName pod"
  "pod_OwnerReferences (set_annotation k v pod) = pod_OwnerReferences pod"
  "pod_Conditions (set_annotation k v pod) = pod_Conditions pod"
  by (simp_all add: set_annotation_def)

end
