(* ===== verification/Wam_Services.thy ===== *)
theory Wam_Services
  imports K8s_Objects
begin

text \<open>
  The services that the WAM process and the WAM scheduler plugin call and that are not part of
  the repository: the Redis server (LPUSH, LPOP, LREM), the Kubernetes API server (pods,
  replica sets, deployments and their scale subresource), the UUID generator, the JSON codec
  and the clock.  They are fields of a record of operations over an arbitrary world state
  \<open>'w\<close>; the handlers take the record as an argument.  What the handlers rely on is stated
  as locales: the documented laws of Redis lists, of the scale subresource, of pod objects,
  of the codec and of the clock.
\<close>

section \<open>Data exchanged with the services\<close>

text \<open>\<^verbatim>\<open>SchedulingSuggestion\<close> of \<^verbatim>\<open>actions/create.go\<close> and of \<^verbatim>\<open>wam/plugin.go\<close> have the same fields.\<close>

record SchedulingSuggestion =
  ss_ID :: string
  ss_NodeName :: string

record ReplicaSet =
  rs_OwnerReferences :: "OwnerReference list"

record Scale =
  sc_ResourceVersion :: nat
  sc_Replicas :: i32

record Deployment =
  d_StatusReplicas :: i32
  d_Selector :: "(string, string) gomap option"

record watch_event =
  we_Type :: string
  we_Object :: "v1_Pod option"

datatype lpop_result = Popped string | RedisNil | RedisErr goerror

record 'w services =
  json_Marshal :: "SchedulingSuggestion \<Rightarrow> string"
  json_Unmarshal :: "string \<Rightarrow> goerror + SchedulingSuggestion"
  uuid_NewUUID :: "'w \<Rightarrow> string \<times> 'w"
  rdb_LPush :: "string \<Rightarrow> string \<Rightarrow> 'w \<Rightarrow> goerror option \<times> 'w"
  rdb_LRem :: "string \<Rightarrow> int \<Rightarrow> string \<Rightarrow> 'w \<Rightarrow> goerror option \<times> 'w"
  rdb_LPop :: "string \<Rightarrow> 'w \<Rightarrow> lpop_result \<times> 'w"
  k_GetPod :: "string \<Rightarrow> string \<Rightarrow> 'w \<Rightarrow> (goerror + v1_Pod) \<times> 'w"
  k_UpdatePod :: "string \<Rightarrow> v1_Pod \<Rightarrow> 'w \<Rightarrow> goerror option \<times> 'w"
  k_PatchPodAnnotation :: "string \<Rightarrow> string \<Rightarrow> string \<Rightarrow> string \<Rightarrow> 'w \<Rightarrow> goerror option \<times> 'w"
  k_ListPods :: "string \<Rightarrow> (string, string) gomap \<Rightarrow> 'w \<Rightarrow> (goerror + v1_Pod list) \<times> 'w"
  k_WatchPods :: "string \<Rightarrow> nat \<Rightarrow> 'w \<Rightarrow> (goerror + watch_event list) \<times> 'w"
  k_GetReplicaSet :: "string \<Rightarrow> string \<Rightarrow> 'w \<Rightarrow> (goerror + ReplicaSet) \<times> 'w"
  k_GetDeployment :: "string \<Rightarrow> string \<Rightarrow> 'w \<Rightarrow> (goerror + Deployment) \<times> 'w"
  k_GetScale :: "string \<Rightarrow> string \<Rightarrow> 'w \<Rightarrow> (goerror + Scale) \<times> 'w"
  k_UpdateScale :: "string \<Rightarrow> string \<Rightarrow> Scale \<Rightarrow> 'w \<Rightarrow> goerror option \<times> 'w"
  t_Now :: "'w \<Rightarrow> nat"
  t_Sleep :: "nat \<Rightarrow> 'w \<Rightarrow> 'w"

section \<open>Laws\<close>

text \<open>
  Redis lists: \<open>Q w q\<close> is the content of the list with key \<open>q\<close>, head first.  LPUSH
  puts an element at the head, LPOP takes the head, LREM with count 1 removes the first
  occurrence (\<open>remove1\<close>).  A failed command leaves the lists as they are.  The other
  services do not touch Redis.
\<close>

locale redis_lists =
  fixes S :: "'w services"
    and Q :: "'w \<Rightarrow> string \<Rightarrow> string list"
  assumes lpush_ok: "rdb_LPush S q x w = (None, w') \<Longrightarrow> Q w' = (Q w)(q := x # Q w q)"
    and lpush_err: "rdb_LPush S q x w = (Some e, w') \<Longrightarrow> Q w' = Q w"
    and lrem_ok: "rdb_LRem S q 1 x w = (None, w') \<Longrightarrow> Q w' = (Q w)(q := remove1 x (Q w q))"
    and lrem_err: "rdb_LRem S q 1 x w = (Some e, w') \<Longrightarrow> Q w' = Q w"
    and lpop_some: "rdb_LPop S q w = (Popped x, w') \<Longrightarrow>
          \<exists>xs. Q w q = x # xs \<and> Q w' = (Q w)(q := xs)"
    and lpop_nil: "rdb_LPop S q w = (RedisNil, w') \<Longrightarrow> Q w q = [] \<and> Q w' = Q w"
    and lpop_err: "rdb_LPop S q w = (RedisErr e, w') \<Longrightarrow> Q w' = Q w"
    and uuid_Q: "Q (snd (uuid_NewUUID S w)) = Q w"
    and get_scale_Q: "Q (snd (k_GetScale S ns n w)) = Q w"
    and update_scale_Q: "Q (snd (k_UpdateScale S ns n s w)) = Q w"
    and get_rs_Q: "Q (snd (k_GetReplicaSet S ns n w)) = Q w"
    and get_dep_Q: "Q (snd (k_GetDeployment S ns n w)) = Q w"
    and get_pod_Q: "Q (snd (k_GetPod S ns n w)) = Q w"
    and update_pod_Q: "Q (snd (k_UpdatePod S ns p w)) = Q w"

text \<open>
  The scale subresource: \<open>R w (ns, n)\<close> is the desired replica count of a deployment.  A
  successful read returns it and changes nothing; a successful update writes the count it
  was given; failed calls change nothing; no other service changes replica counts.
\<close>

locale scale_api =
  fixes S :: "'w services"
    and R :: "'w \<Rightarrow> string \<times> string \<Rightarrow> i32 option"
  assumes get_scale_ok: "k_GetScale S ns n w = (Inr s, w') \<Longrightarrow> R w (ns, n) = Some (sc_Replicas s)"
    and get_scale_R: "R (snd (k_GetScale S ns n w)) = R w"
    and update_scale_ok: "k_UpdateScale S ns n s w = (None, w') \<Longrightarrow>
          R w' = (R w)((ns, n) := Some (sc_Replicas s))"
    and update_scale_err: "k_UpdateScale S ns n s w = (Some e, w') \<Longrightarrow> R w' = R w"
    and uuid_R: "R (snd (uuid_NewUUID S w)) = R w"
    and lpush_R: "R (snd (rdb_LPush S q x w)) = R w"
    and lrem_R: "R (snd (rdb_LRem S q c x w)) = R w"
    and get_rs_R: "R (snd (k_GetReplicaSet S ns n w)) = R w"
    and get_dep_R: "R (snd (k_GetDeployment S ns n w)) = R w"
    and get_pod_R: "R (snd (k_GetPod S ns n w)) = R w"
    and update_pod_R: "R (snd (k_UpdatePod S ns p w)) = R w"

text \<open>
  Pod objects: \<open>P w (ns, n)\<close> is the stored pod.  Reads return the stored object; a
  successful update stores the object it was given; nothing else changes pods.
\<close>

locale pod_api =
  fixes S :: "'w services"
    and P :: "'w \<Rightarrow> string \<times> string \<Rightarrow> v1_Pod option"
  assumes get_pod_ok: "k_GetPod S ns n w = (Inr p, w') \<Longrightarrow>
          P w (ns, n) = Some p \<and> pod_Namespace p = ns \<and> pod_Name p = n"
    and get_pod_P: "P (snd (k_GetPod S ns n w)) = P w"
    and update_pod_ok: "k_UpdatePod S ns p w = (None, w') \<Longrightarrow>
          P w' = (P w)((ns, pod_Name p) := Some p)"
    and update_pod_err: "k_UpdatePod S ns p w = (Some e, w') \<Longrightarrow> P w' = P w"
    and get_rs_P: "P (snd (k_GetReplicaSet S ns n w)) = P w"
    and get_dep_P: "P (snd (k_GetDeployment S ns n w)) = P w"
    and get_scale_P: "P (snd (k_GetScale S ns n w)) = P w"
    and update_scale_P: "P (snd (k_UpdateScale S ns n s w)) = P w"

text \<open>The codec: decoding an encoded suggestion gives it back.\<close>

locale suggestion_codec =
  fixes S :: "'w services"
    and ok :: "SchedulingSuggestion \<Rightarrow> bool"
  assumes unmarshal_marshal: "ok sug \<Longrightarrow> json_Unmarshal S (json_Marshal S sug) = Inr sug"

text \<open>The clock, in seconds: sleeping takes at least the time asked for, listing never turns it back.\<close>

locale wall_clock =
  fixes S :: "'w services"
  assumes now_sleep: "t_Now S w + d \<le> t_Now S (t_Sleep S d w)"
    and now_list: "t_Now S w \<le> t_Now S (snd (k_ListPods S ns sel w))"

end
