(* ===== verification/Wam_Create.thy ===== *)
theory Wam_Create
  imports Wam_Services
begin

text \<open>
  The create action: \<^verbatim>\<open>wam/pkg/actions/common.go\<close> and \<^verbatim>\<open>create.go\<close>.  A create pushes a scheduling
  suggestion to the queue of the workload, reads the deployment's scale and writes it back
  incremented; when a scale call fails the suggestion is taken off the queue again.

  Pointers that may be nil are options; dereferencing nil is the outcome \<open>Panic\<close>.
\<close>

section \<open>Data (common.go, create.go)\<close>

record Workload =
  wl_Namespace :: string
  wl_APIVersion :: string
  wl_Kind :: string
  wl_Name :: string

record Pod =
  p_Namespace :: string
  p_Name :: string

record Node =
  n_Name :: string

record CreateArgs =
  ca_Workload :: Workload
  ca_Node :: Node

section \<open>Operations\<close>

text \<open>
  \<^verbatim>\<open>getPodsDeployment\<close>: the owners of the pod in order; for each replica set the first owner of
  kind Deployment; a replica set that cannot be read ends the search with an error.
\<close>

fun deployment_of_owners ::
  "'w services \<Rightarrow> string \<Rightarrow> OwnerReference list \<Rightarrow> 'w \<Rightarrow> (goerror + OwnerReference) \<times> 'w" where
  "deployment_of_owners S ns [] w = (Inl ''error getting deployment'', w)"
| "deployment_of_owners S ns (owner # owners) w =
     (if or_Kind owner = ''ReplicaSet'' then
        (case k_GetReplicaSet S ns (or_Name owner) w of
           (Inl e, w') \<Rightarrow> (Inl (''error getting replicaset: '' @ e), w')
         | (Inr rs, w') \<Rightarrow>
             (case find (\<lambda>o'. or_Kind o' = ''Deployment'') (rs_OwnerReferences rs) of
                Some d \<Rightarrow> (Inr d, w')
              | None \<Rightarrow> deployment_of_owners S ns owners w'))
      else deployment_of_owners S ns owners w)"

definition getPodsDeployment ::
  "'w services \<Rightarrow> v1_Pod \<Rightarrow> 'w \<Rightarrow> (goerror + OwnerReference) \<times> 'w" where
  "getPodsDeployment S pod w = deployment_of_owners S (pod_Namespace pod) (pod_OwnerReferences pod) w"

text \<open>\<^verbatim>\<open>Workload.QueueName\<close>.\<close>

definition QueueName :: "Workload \<Rightarrow> string" where
  "QueueName wl = wl_Namespace wl @ '':'' @ wl_APIVersion wl @ '':'' @ wl_Kind wl @ '':'' @ wl_Name wl"

text \<open>\<^verbatim>\<open>validateCreateReq\<close> returns an error or nil and may fill in the namespace of its argument.\<close>

definition validateCreateReq :: "CreateArgs \<Rightarrow> goerror option \<times> CreateArgs" where
  "validateCreateReq args =
     (if wl_APIVersion (ca_Workload args) \<noteq> ''apps/v1'' then
        (Some ''only apps/v1 workload API version is supported'', args)
      else if wl_Kind (ca_Workload args) \<noteq> ''Deployment'' then
        (Some ''only Deployment kind is supported'', args)
      else
        (let args = (if wl_Namespace (ca_Workload args) = ''''
                     then args\<lparr>ca_Workload := (ca_Workload args)\<lparr>wl_Namespace := ''default''\<rparr>\<rparr>
                     else args)
         in if wl_Name (ca_Workload args) = '''' then (Some ''workload name is required'', args)
            else if n_Name (ca_Node args) = '''' then (Some ''node name is required'', args)
            else (None, args)))"

definition addSchedulingSuggestion ::
  "'w services \<Rightarrow> string \<Rightarrow> string \<Rightarrow> 'w \<Rightarrow> (SchedulingSuggestion \<times> goerror option) \<times> 'w" where
  "addSchedulingSuggestion S queue nodeName w =
     (case uuid_NewUUID S w of (uid, w1) \<Rightarrow>
        let sug = \<lparr>ss_ID = uid, ss_NodeName = nodeName\<rparr> in
        (case rdb_LPush S queue (json_Marshal S sug) w1 of
           (Some e, w2) \<Rightarrow> ((sug, Some e), w2)
         | (None, w2) \<Rightarrow> ((sug, None), w2)))"

definition removeSchedulingSuggestion ::
  "'w services \<Rightarrow> string \<Rightarrow> SchedulingSuggestion \<Rightarrow> 'w \<Rightarrow> goerror option \<times> 'w" where
  "removeSchedulingSuggestion S queue sug w = rdb_LRem S queue 1 (json_Marshal S sug) w"

text \<open>
  \<^verbatim>\<open>CreateHandler\<close>.  Its two results are the suggestion (nil on failure) and the error.  In the
  two failure branches after the push the variable \<^verbatim>\<open>err\<close> is overwritten by the result of
  \<^verbatim>\<open>removeSchedulingSuggestion\<close> before it is returned.
\<close>

definition CreateHandler ::
  "'w services \<Rightarrow> CreateArgs option \<Rightarrow> 'w
     \<Rightarrow> (SchedulingSuggestion option \<times> goerror option) outcome \<times> 'w" where
  "CreateHandler S args w =
     (case args of
        None \<Rightarrow> (Panic nil_deref, w)
      | Some args \<Rightarrow>
          let queue = QueueName (ca_Workload args);
              ns = wl_Namespace (ca_Workload args);
              name = wl_Name (ca_Workload args)
          in (case addSchedulingSuggestion S queue (n_Name (ca_Node args)) w of
                ((sug, Some e), w1) \<Rightarrow> (Ret (None, Some e), w1)
              | ((sug, None), w1) \<Rightarrow>
                  (case k_GetScale S ns name w1 of
                     (Inl e, w2) \<Rightarrow>
                       (case removeSchedulingSuggestion S queue sug w2 of
                          (err, w3) \<Rightarrow> (Ret (None, err), w3))
                   | (Inr scale, w2) \<Rightarrow>
                       let s = scale\<lparr>sc_Replicas := sc_Replicas scale + 1\<rparr> in
                       (case k_UpdateScale S ns name s w2 of
                          (Some e, w3) \<Rightarrow>
                            (case removeSchedulingSuggestion S queue sug w3 of
                               (err, w4) \<Rightarrow> (Ret (None, err), w4))
                        | (None, w3) \<Rightarrow> (Ret (Some sug, None), w3)))))"

section \<open>Looking up the deployment\<close>

text \<open>The search only reads replica sets: whatever those reads keep, the search keeps.\<close>

lemma deployment_of_owners_frame:
  assumes "\<And>n w. f (snd (k_GetReplicaSet S ns n w)) = f w"
  shows "f (snd (deployment_of_owners S ns os w)) = f w"
proof (induction os arbitrary: w)
  case Nil
  then show ?case by simp
next
  case (Cons a os)
  show ?case
  proof (cases "k_GetReplicaSet S ns (or_Name a) w")
    case (Pair r w')
    with assms [of "or_Name a" w] have "f w' = f w" by simp
    with Cons.IH Pair show ?thesis by (auto split: sum.splits option.splits)
  qed
qed

lemma deployment_of_owners_kind:
  "deployment_of_owners S ns os w = (Inr d, w') \<Longrightarrow> or_Kind d = ''Deployment''"
  by (induction os arbitrary: w)
     (auto split: if_splits prod.splits sum.splits option.splits simp: find_Some_iff)

lemma getPodsDeployment_kind:
  "getPodsDeployment S pod w = (Inr d, w') \<Longrightarrow> or_Kind d = ''Deployment''"
  by (simp add: getPodsDeployment_def deployment_of_owners_kind)

section \<open>Requests\<close>

lemma validateCreateReq_ok:
  "validateCreateReq args = (None, args') \<Longrightarrow>
     wl_APIVersion (ca_Workload args') = ''apps/v1'' \<and> wl_Kind (ca_Workload args') = ''Deployment''
     \<and> wl_Namespace (ca_Workload args') \<noteq> '''' \<and> wl_Name (ca_Workload args') \<noteq> ''''
     \<and> n_Name (ca_Node args') \<noteq> ''''"
  by (auto simp: validateCreateReq_def Let_def split: if_splits)

section \<open>Queue names\<close>

text \<open>
  Kubernetes names contain no colon.  Under that hypothesis the queue name determines the
  workload.
\<close>

lemma append_colon_inject:
  "CHR '':'' \<notin> set a \<Longrightarrow> CHR '':'' \<notin> set b \<Longrightarrow> a @ '':'' @ x = b @ '':'' @ y \<longleftrightarrow> a = b \<and> x = y"
proof (induction a arbitrary: b)
  case Nil
  then show ?case by (cases b) auto
next
  case (Cons c a)
  then show ?case by (cases b) auto
qed

definition colon_free :: "Workload \<Rightarrow> bool" where
  "colon_free wl = (CHR '':'' \<notin> set (wl_Namespace wl) \<and> CHR '':'' \<notin> set (wl_APIVersion wl)
     \<and> CHR '':'' \<notin> set (wl_Kind wl))"

lemma QueueName_eq_iff:
  "colon_free a \<Longrightarrow> colon_free b \<Longrightarrow> QueueName a = QueueName b \<longleftrightarrow> a = b"
  by (cases a; cases b) (simp add: QueueName_def colon_free_def append_colon_inject del: append.simps)

section \<open>The create action over a lawful backend\<close>

locale wam_backend = redis_lists S Q + scale_api S R + pod_api S P
  for S :: "'w services"
    and Q :: "'w \<Rightarrow> string \<Rightarrow> string list"
    and R :: "'w \<Rightarrow> string \<times> string \<Rightarrow> i32 option"
    and P :: "'w \<Rightarrow> string \<times> string \<Rightarrow> v1_Pod option"
begin

lemma getPodsDeployment_frame:
  "getPodsDeployment S pod w = (r, w') \<Longrightarrow> Q w' = Q w \<and> R w' = R w \<and> P w' = P w"
  using deployment_of_owners_frame [of Q, OF get_rs_Q] deployment_of_owners_frame [of R, OF get_rs_R]
    deployment_of_owners_frame [of P, OF get_rs_P]
  unfolding getPodsDeployment_def by (metis snd_conv)

lemma addSchedulingSuggestion_spec:
  assumes "addSchedulingSuggestion S q n w = ((sug, err), w')"
  shows "ss_NodeName sug = n \<and> R w' = R w \<and>
    (case err of None \<Rightarrow> Q w' = (Q w)(q := json_Marshal S sug # Q w q) | Some e \<Rightarrow> Q w' = Q w)"
proof -
  obtain uid w1 where u: "uuid_NewUUID S w = (uid, w1)" by (cases "uuid_NewUUID S w")
  have w1: "Q w1 = Q w" "R w1 = R w" using uuid_Q [of w] uuid_R [of w] u by simp_all
  let ?s = "\<lparr>ss_ID = uid, ss_NodeName = n\<rparr>"
  obtain e w2 where p: "rdb_LPush S q (json_Marshal S ?s) w1 = (e, w2)"
    by (cases "rdb_LPush S q (json_Marshal S ?s) w1")
  have "R w2 = R w" using lpush_R [of q "json_Marshal S ?s" w1] p w1 by simp
  then show ?thesis using assms u p w1 lpush_ok lpush_err
    by (cases e) (auto simp: addSchedulingSuggestion_def Let_def)
qed

lemma removeSchedulingSuggestion_spec:
  assumes "removeSchedulingSuggestion S q sug w = (err, w')"
  shows "R w' = R w \<and>
    (case err of None \<Rightarrow> Q w' = (Q w)(q := remove1 (json_Marshal S sug) (Q w q)) | Some e \<Rightarrow> Q w' = Q w)"
  using assms lrem_R [of q 1 "json_Marshal S sug" w] lrem_ok lrem_err
  unfolding removeSchedulingSuggestion_def by (cases err) auto

lemma get_scale_frame:
  "k_GetScale S ns n w = (r, w') \<Longrightarrow> Q w' = Q w \<and> R w' = R w"
  using get_scale_Q get_scale_R by (metis snd_conv)

lemma update_scale_frame:
  "k_UpdateScale S ns n s w = (r, w') \<Longrightarrow> Q w' = Q w"
  using update_scale_Q by (metis snd_conv)

text \<open>Taking off the suggestion that was just pushed restores the queues.\<close>

lemma push_remove_restores:
  assumes "Q w1 = (Q w)(q := x # Q w q)" and "Q w3 = Q w1"
    and "removeSchedulingSuggestion S q sug w3 = (err, w4)" and "x = json_Marshal S sug"
  shows "R w4 = R w3 \<and> (case err of None \<Rightarrow> Q w4 = Q w | Some e \<Rightarrow> Q w4 = (Q w)(q := x # Q w q))"
  using removeSchedulingSuggestion_spec [OF assms(3)] assms(1,2,4)
  by (cases err) auto

lemma CreateHandler_success:
  assumes "CreateHandler S (Some args) w = (Ret (Some sug, err), w')"
  shows "err = None \<and> ss_NodeName sug = n_Name (ca_Node args)
    \<and> Q w' = (Q w)(QueueName (ca_Workload args) := json_Marshal S sug # Q w (QueueName (ca_Workload args)))
    \<and> (\<exists>r. R w (wl_Namespace (ca_Workload args), wl_Name (ca_Workload args)) = Some r
        \<and> R w' = (R w)((wl_Namespace (ca_Workload args), wl_Name (ca_Workload args)) := Some (r + 1)))"
proof -
  let ?ns = "wl_Namespace (ca_Workload args)" and ?n = "wl_Name (ca_Workload args)"
  obtain w1 w2 scale where a: "addSchedulingSuggestion S (QueueName (ca_Workload args)) (n_Name (ca_Node args)) w = ((sug, None), w1)"
    and g: "k_GetScale S ?ns ?n w1 = (Inr scale, w2)"
    and u: "k_UpdateScale S ?ns ?n (scale\<lparr>sc_Replicas := sc_Replicas scale + 1\<rparr>) w2 = (None, w')"
    and "err = None"
    using assms by (auto simp: CreateHandler_def Let_def split: prod.splits option.splits sum.splits)
  then show ?thesis
    using addSchedulingSuggestion_spec [OF a] get_scale_frame [OF g] get_scale_ok [OF g]
      update_scale_frame [OF u] update_scale_ok [OF u] by auto
qed

lemma CreateHandler_failure:
  assumes "CreateHandler S (Some args) w = (Ret (None, err), w')"
  shows "R w' = R w \<and> (Q w' = Q w \<or> (\<exists>sug e. err = Some e \<and>
    Q w' = (Q w)(QueueName (ca_Workload args) := json_Marshal S sug # Q w (QueueName (ca_Workload args)))))"
proof -
  let ?q = "QueueName (ca_Workload args)"
  let ?ns = "wl_Namespace (ca_Workload args)" and ?n = "wl_Name (ca_Workload args)"
  obtain sug e1 w1 where a: "addSchedulingSuggestion S ?q (n_Name (ca_Node args)) w = ((sug, e1), w1)"
    by (metis prod.exhaust)
  note A = addSchedulingSuggestion_spec [OF a]
  obtain g w2 where g: "k_GetScale S ?ns ?n w1 = (g, w2)" by fastforce
  note G = get_scale_frame [OF g]
  show ?thesis
  proof (cases e1)
    case (Some e)
    then show ?thesis using assms a A by (auto simp: CreateHandler_def Let_def)
  next
    case None
    then have Q1: "Q w1 = (Q w)(?q := json_Marshal S sug # Q w ?q)" and R1: "R w1 = R w" using A by auto
    have "\<exists>w3. Q w3 = Q w1 \<and> R w3 = R w1 \<and> removeSchedulingSuggestion S ?q sug w3 = (err, w')"
    proof (cases g)
      case (Inl e)
      then show ?thesis using assms a None g G
        by (auto simp: CreateHandler_def Let_def split: prod.splits)
    next
      case (Inr scale)
      let ?s = "scale\<lparr>sc_Replicas := sc_Replicas scale + 1\<rparr>"
      obtain e3 w3 where u: "k_UpdateScale S ?ns ?n ?s w2 = (Some e3, w3)"
        and r: "removeSchedulingSuggestion S ?q sug w3 = (err, w')"
        using assms a None g Inr by (auto simp: CreateHandler_def Let_def split: prod.splits option.splits)
      then show ?thesis using G update_scale_frame [OF u] update_scale_err [OF u] by auto
    qed
    then obtain w3 where Q3: "Q w3 = Q w1" and R3: "R w3 = R w1"
      and rm: "removeSchedulingSuggestion S ?q sug w3 = (err, w')" by blast
    show ?thesis using push_remove_restores [OF Q1 Q3 rm refl] R1 R3 by (cases err) auto
  qed
qed

end

lemma CreateHandler_no_panic: "\<exists>r w'. CreateHandler S (Some args) w = (Ret r, w')"
  by (auto simp: CreateHandler_def Let_def split: prod.splits option.splits sum.splits)

text \<open>
  A scale call that fails after a successful push is reported as no error at all when the
  suggestion could be removed.
\<close>

lemma CreateHandler_get_scale_failed:
  assumes "addSchedulingSuggestion S (QueueName (ca_Workload args)) (n_Name (ca_Node args)) w = ((sug, None), w1)"
    and "k_GetScale S (wl_Namespace (ca_Workload args)) (wl_Name (ca_Workload args)) w1 = (Inl e, w2)"
  shows "CreateHandler S (Some args) w =
    (case removeSchedulingSuggestion S (QueueName (ca_Workload args)) sug w2 of (err, w3) \<Rightarrow> (Ret (None, err), w3))"
  using assms by (simp add: CreateHandler_def Let_def)

end
