(* ===== verification/Wam_Delete.thy ===== *)
theory Wam_Delete
  imports Wam_Create
begin

text \<open>
  The delete action, \<^verbatim>\<open>wam/pkg/actions/delete.go\<close>: it marks the pod as the cheapest to delete and
  decrements the replica count of the pod's deployment, which leaves the removal to the
  ReplicaSet controller.
\<close>

record DeleteArgs =
  da_Pod :: Pod

definition validateDeleteReq :: "DeleteArgs \<Rightarrow> goerror option \<times> DeleteArgs" where
  "validateDeleteReq args =
     (let args = (if p_Namespace (da_Pod args) = ''''
                  then args\<lparr>da_Pod := (da_Pod args)\<lparr>p_Namespace := ''default''\<rparr>\<rparr> else args)
      in if p_Name (da_Pod args) = '''' then (Some ''pod's name must be specified'', args)
         else (None, args))"

abbreviation deletion_cost :: string where
  "deletion_cost \<equiv> ''controller.kubernetes.io/pod-deletion-cost''"

text \<open>
  \<^verbatim>\<open>DeleteHandler\<close> returns nothing: every early return is \<open>Ret ()\<close>.  A failed pod update panics.
\<close>

definition DeleteHandler :: "'w services \<Rightarrow> DeleteArgs \<Rightarrow> 'w \<Rightarrow> unit outcome \<times> 'w" where
  "DeleteHandler S args w =
     (let ns = p_Namespace (da_Pod args) in
      case k_GetPod S ns (p_Name (da_Pod args)) w of
        (Inl e, w1) \<Rightarrow> (Ret (), w1)
      | (Inr pod, w1) \<Rightarrow>
          (case getPodsDeployment S pod w1 of
             (Inl e, w2) \<Rightarrow> (Ret (), w2)
           | (Inr deployment, w2) \<Rightarrow>
               (case k_UpdatePod S ns (set_annotation deletion_cost ''-1000'' pod) w2 of
                  (Some e, w3) \<Rightarrow> (Panic e, w3)
                | (None, w3) \<Rightarrow>
                    (case k_GetScale S ns (or_Name deployment) w3 of
                       (Inl e, w4) \<Rightarrow> (Ret (), w4)
                     | (Inr scale, w4) \<Rightarrow>
                         (case k_UpdateScale S ns (or_Name deployment)
                                 (scale\<lparr>sc_Replicas := sc_Replicas scale - 1\<rparr>) w4 of
                            (Some e, w5) \<Rightarrow> (Ret (), w5)
                          | (None, w5) \<Rightarrow> (Ret (), w5))))))"

text \<open>A delete takes off at most one replica, of one deployment, and marks at most the one pod.\<close>

definition at_most_one_less ::
  "string \<Rightarrow> (string \<times> string \<Rightarrow> i32 option) \<Rightarrow> (string \<times> string \<Rightarrow> i32 option) \<Rightarrow> bool" where
  "at_most_one_less ns R R' = (R' = R \<or> (\<exists>d r. R (ns, d) = Some r \<and> R' = R((ns, d) := Some (r - 1))))"

definition marked_only ::
  "string \<times> string \<Rightarrow> (string \<times> string \<Rightarrow> v1_Pod option) \<Rightarrow> (string \<times> string \<Rightarrow> v1_Pod option) \<Rightarrow> bool" where
  "marked_only k P P' = (P' = P \<or> (\<exists>p. P k = Some p \<and> P' = P(k := Some (set_annotation deletion_cost ''-1000'' p))))"

context wam_backend
begin

lemma get_pod_frame: "k_GetPod S ns n w = (r, w') \<Longrightarrow> Q w' = Q w \<and> R w' = R w \<and> P w' = P w"
  using get_pod_Q get_pod_R get_pod_P by (metis snd_conv)

lemma update_pod_frame: "k_UpdatePod S ns p w = (r, w') \<Longrightarrow> Q w' = Q w \<and> R w' = R w"
  using update_pod_Q update_pod_R by (metis snd_conv)

lemma scale_frame_P:
  "k_GetScale S ns n w = (r, w') \<Longrightarrow> P w' = P w"
  "k_UpdateScale S ns n s w = (e, w') \<Longrightarrow> P w' = P w"
  using get_scale_P update_scale_P by (metis snd_conv)+

lemma decrement_spec:
  assumes "k_GetScale S ns d w = (Inr scale, w1)"
    and "k_UpdateScale S ns d (scale\<lparr>sc_Replicas := sc_Replicas scale - 1\<rparr>) w1 = (e, w2)"
  shows "at_most_one_less ns (R w) (R w2) \<and> P w2 = P w \<and> Q w2 = Q w"
proof -
  have "R w1 = R w" "R w (ns, d) = Some (sc_Replicas scale)" "Q w1 = Q w" "P w1 = P w"
    using get_scale_frame [OF assms(1)] get_scale_ok [OF assms(1)] scale_frame_P(1) [OF assms(1)] by auto
  then show ?thesis
    using assms(2) update_scale_ok [of ns d _ w1 w2] update_scale_err [of ns d _ w1]
      scale_frame_P(2) [OF assms(2)] update_scale_frame [OF assms(2)]
    by (cases e) (auto simp: at_most_one_less_def)
qed

text \<open>The part of the handler after the pod update.\<close>

lemma scale_down_frame:
  assumes "(case k_GetScale S ns d w of (Inl e, w4) \<Rightarrow> (Ret (), w4)
     | (Inr scale, w4) \<Rightarrow>
         (case k_UpdateScale S ns d (scale\<lparr>sc_Replicas := sc_Replicas scale - 1\<rparr>) w4 of
            (Some e, w5) \<Rightarrow> (Ret (), w5) | (None, w5) \<Rightarrow> (Ret (), w5))) = (r, w')"
  shows "at_most_one_less ns (R w) (R w') \<and> P w' = P w \<and> Q w' = Q w"
proof -
  obtain s w4 where s: "k_GetScale S ns d w = (s, w4)" by fastforce
  show ?thesis
  proof (cases s)
    case (Inl e)
    then show ?thesis using assms s get_scale_frame [OF s] scale_frame_P(1) [OF s]
      by (simp add: at_most_one_less_def)
  next
    case (Inr sc)
    obtain e w5 where u: "k_UpdateScale S ns d (sc\<lparr>sc_Replicas := sc_Replicas sc - 1\<rparr>) w4 = (e, w5)"
      by fastforce
    then have "w' = w5" using assms s Inr by (auto split: option.splits)
    then show ?thesis using decrement_spec [OF s [unfolded Inr] u] by simp
  qed
qed

lemma DeleteHandler_frame:
  assumes "DeleteHandler S args w = (r, w')"
  shows "Q w' = Q w \<and> at_most_one_less (p_Namespace (da_Pod args)) (R w) (R w')
    \<and> marked_only (p_Namespace (da_Pod args), p_Name (da_Pod args)) (P w) (P w')"
proof -
  let ?ns = "p_Namespace (da_Pod args)" and ?n = "p_Name (da_Pod args)"
  obtain g w1 where g: "k_GetPod S ?ns ?n w = (g, w1)" by fastforce
  note G = get_pod_frame [OF g]
  show ?thesis
  proof (cases g)
    case (Inl e)
    then show ?thesis using assms g G by (simp add: DeleteHandler_def at_most_one_less_def marked_only_def)
  next
    case (Inr pod)
    note pod = get_pod_ok [OF g [unfolded Inr]]
    obtain d w2 where d: "getPodsDeployment S pod w1 = (d, w2)" by fastforce
    note D = getPodsDeployment_frame [OF d]
    let ?p = "set_annotation deletion_cost ''-1000'' pod"
    obtain u w3 where u: "k_UpdatePod S ?ns ?p w2 = (u, w3)" by fastforce
    note U = update_pod_frame [OF u]
    have P3: "marked_only (?ns, ?n) (P w) (P w3)"
      using u pod G D update_pod_ok [of ?ns ?p w2 w3] update_pod_err [of ?ns ?p w2 _ w3]
      by (cases u) (auto simp: marked_only_def)
    show ?thesis
    proof (cases "(\<exists>e. d = Inl e) \<or> (\<exists>e. u = Some e)")
      case True
      then have "w' = w2 \<or> w' = w3" using assms g Inr d u by (auto simp: DeleteHandler_def Let_def split: sum.splits)
      then show ?thesis using G D U P3 by (auto simp: at_most_one_less_def marked_only_def)
    next
      case False
      then obtain dep where "d = Inr dep" "u = None" by (cases d; cases u) auto
      then show ?thesis using assms g Inr d u scale_down_frame [of ?ns "or_Name dep" w3 r w'] G D U P3
        by (auto simp: DeleteHandler_def Let_def)
    qed
  qed
qed

text \<open>When every call succeeds both effects happen.\<close>

lemma DeleteHandler_effect:
  assumes "k_GetPod S (p_Namespace (da_Pod args)) (p_Name (da_Pod args)) w = (Inr pod, w1)"
    and "getPodsDeployment S pod w1 = (Inr dep, w2)"
    and "k_UpdatePod S (p_Namespace (da_Pod args)) (set_annotation deletion_cost ''-1000'' pod) w2 = (None, w3)"
    and "k_GetScale S (p_Namespace (da_Pod args)) (or_Name dep) w3 = (Inr scale, w4)"
    and "k_UpdateScale S (p_Namespace (da_Pod args)) (or_Name dep)
           (scale\<lparr>sc_Replicas := sc_Replicas scale - 1\<rparr>) w4 = (None, w5)"
  shows "DeleteHandler S args w = (Ret (), w5)
    \<and> R w (p_Namespace (da_Pod args), or_Name dep) = Some (sc_Replicas scale)
    \<and> R w5 = (R w)((p_Namespace (da_Pod args), or_Name dep) := Some (sc_Replicas scale - 1))
    \<and> P w5 = (P w)((p_Namespace (da_Pod args), p_Name (da_Pod args)) :=
        Some (set_annotation deletion_cost ''-1000'' pod))"
  using assms get_pod_ok [OF assms(1)] get_pod_frame [OF assms(1)] getPodsDeployment_frame [OF assms(2)]
    update_pod_frame [OF assms(3)] update_pod_ok [OF assms(3)] get_scale_frame [OF assms(4)]
    get_scale_ok [OF assms(4)] scale_frame_P(1) [OF assms(4)] update_scale_ok [OF assms(5)]
    scale_frame_P(2) [OF assms(5)]
  by (simp add: DeleteHandler_def)

end

end
