(* ===== verification/Wam_Move.thy ===== *)
theory Wam_Move
  imports Wam_Delete
begin

text \<open>
  The move action, \<^verbatim>\<open>wam/pkg/actions/move.go\<close>: create a replica on the wanted node, wait until a
  pod that carries the suggestion's id is ready, then delete the old pod.

  The watch is the list of events that the watching goroutine receives before the watch is
  stopped or the timeout fires.  The goroutine closes a channel at a ready event; closing it
  a second time panics, as closing a closed channel does in Go.
\<close>

section \<open>Data and request checks\<close>

record MoveArgs =
  ma_Pod :: Pod
  ma_Node :: Node

definition validateMoveReq :: "MoveArgs \<Rightarrow> goerror option \<times> MoveArgs" where
  "validateMoveReq args =
     (let args = (if p_Namespace (ma_Pod args) = ''''
                  then args\<lparr>ma_Pod := (ma_Pod args)\<lparr>p_Namespace := ''default''\<rparr>\<rparr> else args)
      in if p_Name (ma_Pod args) = '''' then (Some ''pod's name must be specified'', args)
         else if n_Name (ma_Node args) = '''' then (Some ''node name is required'', args)
         else (None, args))"

section \<open>Steps\<close>

text \<open>\<^verbatim>\<open>MoveArgs.toCreateArgs\<close> and \<^verbatim>\<open>MoveArgs.toDeleteArgs\<close>.\<close>

definition move_toCreateArgs ::
  "'w services \<Rightarrow> MoveArgs \<Rightarrow> 'w \<Rightarrow> (goerror + CreateArgs) \<times> 'w" where
  "move_toCreateArgs S ma w =
     (case k_GetPod S (p_Namespace (ma_Pod ma)) (p_Name (ma_Pod ma)) w of
        (Inl e, w1) \<Rightarrow> (Inl e, w1)
      | (Inr pod, w1) \<Rightarrow>
          (case getPodsDeployment S pod w1 of
             (Inl e, w2) \<Rightarrow> (Inl e, w2)
           | (Inr deployment, w2) \<Rightarrow>
               (Inr \<lparr>ca_Workload = \<lparr>wl_Namespace = p_Namespace (ma_Pod ma),
                                    wl_APIVersion = or_APIVersion deployment,
                                    wl_Kind = or_Kind deployment,
                                    wl_Name = or_Name deployment\<rparr>,
                     ca_Node = ma_Node ma\<rparr>, w2)))"

definition move_toDeleteArgs :: "MoveArgs \<Rightarrow> DeleteArgs" where
  "move_toDeleteArgs ma = \<lparr>da_Pod = ma_Pod ma\<rparr>"

abbreviation suggestion_id_annotation :: string where
  "suggestion_id_annotation \<equiv> ''example.com/scheduling-suggestion-id''"

definition hasSchedulingSuggestionID :: "v1_Pod \<Rightarrow> string \<Rightarrow> bool" where
  "hasSchedulingSuggestionID pod i = (annotation pod suggestion_id_annotation = Some i)"

definition isPodReady :: "v1_Pod \<Rightarrow> bool" where
  "isPodReady pod = (\<exists>c \<in> set (pod_Conditions pod). pc_Type c = ''Ready'' \<and> pc_Status c = ''True'')"

text \<open>The event closes the channel: a ready pod with the suggestion's id was added or modified.\<close>

definition ready_event :: "string \<Rightarrow> watch_event \<Rightarrow> bool" where
  "ready_event i ev = (case we_Object ev of
     None \<Rightarrow> False
   | Some pod \<Rightarrow> hasSchedulingSuggestionID pod i \<and> we_Type ev \<in> {''ADDED'', ''MODIFIED''} \<and> isPodReady pod)"

text \<open>
  The goroutine: the flag says whether the channel has been closed.  Every pod event reads
  the id of the suggestion, through a pointer that may be nil.
\<close>

fun watch_goroutine :: "SchedulingSuggestion option \<Rightarrow> watch_event list \<Rightarrow> bool \<Rightarrow> bool outcome" where
  "watch_goroutine sug [] closed = Ret closed"
| "watch_goroutine sug (ev # evs) closed =
     (case we_Object ev of
        None \<Rightarrow> watch_goroutine sug evs closed
      | Some pod \<Rightarrow>
          (case sug of
             None \<Rightarrow> Panic nil_deref
           | Some s \<Rightarrow>
               if ready_event (ss_ID s) ev
               then (if closed then Panic ''close of closed channel'' else watch_goroutine sug evs True)
               else watch_goroutine sug evs closed))"

definition waitToBeReady ::
  "'w services \<Rightarrow> string \<Rightarrow> SchedulingSuggestion option \<Rightarrow> nat \<Rightarrow> 'w \<Rightarrow> goerror option outcome \<times> 'w" where
  "waitToBeReady S ns sug timeout w =
     (case k_WatchPods S ns timeout w of
        (Inl e, w1) \<Rightarrow> (Ret (Some e), w1)
      | (Inr evs, w1) \<Rightarrow>
          (case watch_goroutine sug evs False of
             Panic m \<Rightarrow> (Panic m, w1)
           | Ret True \<Rightarrow> (Ret None, w1)
           | Ret False \<Rightarrow>
               (case sug of
                  None \<Rightarrow> (Panic nil_deref, w1)
                | Some s \<Rightarrow> (Ret (Some (''waiting for pod with '' @ ss_ID s @ '' exceeded timeout'')), w1))))"

text \<open>
  \<^verbatim>\<open>MoveHandler\<close> logs the errors of its three steps and goes on: after a failed lookup the create
  step gets a nil pointer, after a failed create the wait step gets a nil suggestion, after
  a failed wait the old pod is deleted all the same.
\<close>

definition MoveHandler :: "'w services \<Rightarrow> MoveArgs \<Rightarrow> 'w \<Rightarrow> unit outcome \<times> 'w" where
  "MoveHandler S args w =
     (case move_toCreateArgs S args w of (r, w1) \<Rightarrow>
      let createArgs = (case r of Inl e \<Rightarrow> None | Inr ca \<Rightarrow> Some ca) in
      (case CreateHandler S createArgs w1 of
         (Panic m, w2) \<Rightarrow> (Panic m, w2)
       | (Ret (sug, err), w2) \<Rightarrow>
           (case waitToBeReady S (p_Namespace (ma_Pod args)) sug 300 w2 of
              (Panic m, w3) \<Rightarrow> (Panic m, w3)
            | (Ret err, w3) \<Rightarrow> DeleteHandler S (move_toDeleteArgs args) w3)))"

section \<open>Properties of the steps\<close>

lemma move_toCreateArgs_workload:
  "move_toCreateArgs S ma w = (Inr ca, w') \<Longrightarrow>
     wl_Namespace (ca_Workload ca) = p_Namespace (ma_Pod ma) \<and> wl_Kind (ca_Workload ca) = ''Deployment''
     \<and> ca_Node ca = ma_Node ma"
  by (auto simp: move_toCreateArgs_def split: prod.splits sum.splits dest: getPodsDeployment_kind)

text \<open>The goroutine over a live suggestion counts the ready events.\<close>

lemma watch_goroutine_closed:
  "watch_goroutine (Some s) evs True =
     (if \<exists>ev \<in> set evs. ready_event (ss_ID s) ev then Panic ''close of closed channel'' else Ret True)"
  by (induction evs) (auto simp: ready_event_def split: option.splits)

lemma watch_goroutine_open:
  "watch_goroutine (Some s) evs False =
     (case filter (ready_event (ss_ID s)) evs of
        [] \<Rightarrow> Ret False | [_] \<Rightarrow> Ret True | _ \<Rightarrow> Panic ''close of closed channel'')"
proof (induction evs)
  case Nil
  then show ?case by simp
next
  case (Cons ev evs)
  show ?case
  proof (cases "we_Object ev")
    case None
    then show ?thesis using Cons by (simp add: ready_event_def)
  next
    case (Some pod)
    have "(\<exists>ev \<in> set evs. ready_event (ss_ID s) ev) = (filter (ready_event (ss_ID s)) evs \<noteq> [])"
      by (simp add: filter_empty_conv)
    then show ?thesis using Cons Some
      by (simp add: watch_goroutine_closed split: list.splits)
  qed
qed

lemma waitToBeReady_nil:
  assumes "k_WatchPods S ns t w = (Inr evs, w1)"
  shows "waitToBeReady S ns None t w = (Panic nil_deref, w1)"
proof -
  have "watch_goroutine None evs False = Ret False \<or> watch_goroutine None evs False = Panic nil_deref"
    by (induction evs) (auto split: option.splits)
  then show ?thesis using assms by (auto simp: waitToBeReady_def)
qed

text \<open>A failed lookup of the workload crashes the handler: nothing is created or deleted.\<close>

lemma MoveHandler_lookup_failed:
  "move_toCreateArgs S args w = (Inl e, w1) \<Longrightarrow> MoveHandler S args w = (Panic nil_deref, w1)"
  by (simp add: MoveHandler_def CreateHandler_def)

lemma MoveHandler_create_failed:
  assumes "move_toCreateArgs S args w = (Inr ca, w1)"
    and "CreateHandler S (Some ca) w1 = (Ret (None, err), w2)"
    and "k_WatchPods S (p_Namespace (ma_Pod args)) 300 w2 = (Inr evs, w3)"
  shows "MoveHandler S args w = (Panic nil_deref, w3)"
  using assms waitToBeReady_nil [OF assms(3)] by (simp add: MoveHandler_def)

lemma MoveHandler_deletes_after_timeout:
  assumes "move_toCreateArgs S args w = (Inr ca, w1)"
    and "CreateHandler S (Some ca) w1 = (Ret (Some sug, None), w2)"
    and "waitToBeReady S (p_Namespace (ma_Pod args)) (Some sug) 300 w2 = (Ret err, w3)"
  shows "MoveHandler S args w = DeleteHandler S (move_toDeleteArgs args) w3"
  using assms by (simp add: MoveHandler_def)

context wam_backend
begin

lemma move_toCreateArgs_frame:
  assumes "move_toCreateArgs S args w = (r, w')"
  shows "Q w' = Q w \<and> R w' = R w \<and> P w' = P w"
proof -
  obtain g w1 where g: "k_GetPod S (p_Namespace (ma_Pod args)) (p_Name (ma_Pod args)) w = (g, w1)" by fastforce
  show ?thesis
  proof (cases g)
    case (Inl e)
    then show ?thesis using assms g get_pod_frame [OF g] by (simp add: move_toCreateArgs_def)
  next
    case (Inr pod)
    obtain d w2 where d: "getPodsDeployment S pod w1 = (d, w2)" by fastforce
    then have "w' = w2" using assms g Inr by (auto simp: move_toCreateArgs_def split: sum.splits)
    then show ?thesis using get_pod_frame [OF g] getPodsDeployment_frame [OF d] by simp
  qed
qed

end

end
