(* ===== verification/Wam_Swap.thy ===== *)
theory Wam_Swap
  imports Wam_Move
begin

text \<open>
  The swap action, \<^verbatim>\<open>wam/pkg/actions/swap.go\<close>: pod X and the pods Y change nodes.  The handler
  reads all pods, computes for every deployment involved the number of replicas that must
  remain, prepares the create requests, deletes all pods, polls until every deployment has
  shrunk to its target or five minutes have passed, and then creates the replacements.

  The polling loop takes fuel; \<open>swap_wait_returns\<close> shows that \<open>swap_fuel\<close> iterations are
  always enough, because every iteration sleeps 30 of the 300 seconds of the timer.
\<close>

section \<open>Data and request checks\<close>

record TargetScaleKey =
  tk_Namespace :: string
  tk_DeploymentName :: string

record SwapArgs =
  sa_X :: Pod
  sa_Y :: "Pod list"

type_synonym targets = "(TargetScaleKey, i32) gomap"
type_synonym selectors = "(TargetScaleKey, (string, string) gomap) gomap"

text \<open>
  \<^verbatim>\<open>validateSwapReq\<close>: the loop over Y works on a copy of each element, so the default namespace
  it assigns is lost; only X is changed.
\<close>

fun validate_y :: "nat \<Rightarrow> Pod list \<Rightarrow> goerror option" where
  "validate_y i [] = None"
| "validate_y i (pod # pods) =
     (let pod = (if p_Namespace pod = '''' then pod\<lparr>p_Namespace := ''default''\<rparr> else pod)
      in if p_Name pod = '''' then Some (''y pod's, at index '' @ show_nat i @ '', name must be specified'')
         else validate_y (Suc i) pods)"

definition validateSwapReq :: "SwapArgs \<Rightarrow> goerror option \<times> SwapArgs" where
  "validateSwapReq args =
     (let args = (if p_Namespace (sa_X args) = ''''
                  then args\<lparr>sa_X := (sa_X args)\<lparr>p_Namespace := ''default''\<rparr>\<rparr> else args)
      in if p_Name (sa_X args) = '''' then (Some ''x pod's name must be specified'', args)
         else (validate_y 0 (sa_Y args), args))"

section \<open>Steps\<close>

text \<open>\<^verbatim>\<open>Pod.toDeleteArgs\<close> and \<^verbatim>\<open>Pod.toCreateArgs\<close>.\<close>

definition pod_toDeleteArgs :: "Pod \<Rightarrow> DeleteArgs" where
  "pod_toDeleteArgs p = \<lparr>da_Pod = \<lparr>p_Namespace = p_Namespace p, p_Name = p_Name p\<rparr>\<rparr>"

definition pod_toCreateArgs ::
  "'w services \<Rightarrow> Pod \<Rightarrow> string \<Rightarrow> 'w \<Rightarrow> (goerror + CreateArgs) \<times> 'w" where
  "pod_toCreateArgs S p nodeName w =
     (case k_GetPod S (p_Namespace p) (p_Name p) w of
        (Inl e, w1) \<Rightarrow> (Inl e, w1)
      | (Inr pod, w1) \<Rightarrow>
          (case getPodsDeployment S pod w1 of
             (Inl e, w2) \<Rightarrow> (Inl e, w2)
           | (Inr deployment, w2) \<Rightarrow>
               (Inr \<lparr>ca_Workload = \<lparr>wl_Namespace = p_Namespace p,
                                    wl_APIVersion = or_APIVersion deployment,
                                    wl_Kind = or_Kind deployment,
                                    wl_Name = or_Name deployment\<rparr>,
                     ca_Node = \<lparr>n_Name = nodeName\<rparr>\<rparr>, w2)))"

text \<open>The state of the first loop of \<^verbatim>\<open>SwapHandler\<close>.\<close>

record swap_state =
  sw_targetScales :: targets
  sw_selectors :: selectors
  sw_nodeX :: string
  sw_nodeY :: string

definition swap_init :: swap_state where
  "swap_init = \<lparr>sw_targetScales = [], sw_selectors = [], sw_nodeX = '''', sw_nodeY = ''''\<rparr>"

text \<open>The node check of the loop: None when the handler aborts.\<close>

definition swap_node :: "nat \<Rightarrow> string \<Rightarrow> swap_state \<Rightarrow> swap_state option" where
  "swap_node i nodeName st =
     (if i = 0 then Some (st\<lparr>sw_nodeX := nodeName\<rparr>)
      else if sw_nodeY st = '''' then Some (st\<lparr>sw_nodeY := nodeName\<rparr>)
      else if sw_nodeY st \<noteq> nodeName then None
      else Some st)"

text \<open>
  The bookkeeping of the loop.  The error of the deployment read is dropped in the code, so a
  failed read is the zero deployment (no replicas, nil selector), whose selector is then
  dereferenced when the deployment is seen for the first time.
\<close>

definition swap_target :: "TargetScaleKey \<Rightarrow> Deployment \<Rightarrow> swap_state \<Rightarrow> swap_state outcome" where
  "swap_target key dep st =
     (case (if gm_has (sw_targetScales st) key then Ret st
            else (case d_Selector dep of
                    None \<Rightarrow> Panic nil_deref
                  | Some m \<Rightarrow>
                      Ret (st\<lparr>sw_targetScales := AList.update key (d_StatusReplicas dep) (sw_targetScales st),
                              sw_selectors := AList.update key m (sw_selectors st)\<rparr>)))
      of Panic m \<Rightarrow> Panic m
       | Ret st \<Rightarrow> Ret (st\<lparr>sw_targetScales :=
           AList.update key (gm_get 0 (sw_targetScales st) key - 1) (sw_targetScales st)\<rparr>))"

definition zero_deployment :: Deployment where
  "zero_deployment = \<lparr>d_StatusReplicas = 0, d_Selector = None\<rparr>"

text \<open>One iteration: None stands for the early returns of the handler.\<close>

definition swap_scan_pod ::
  "'w services \<Rightarrow> nat \<Rightarrow> Pod \<Rightarrow> swap_state \<Rightarrow> 'w \<Rightarrow> swap_state option outcome \<times> 'w" where
  "swap_scan_pod S i pod st w =
     (case k_GetPod S (p_Namespace pod) (p_Name pod) w of
        (Inl e, w1) \<Rightarrow> (Ret None, w1)
      | (Inr podObj, w1) \<Rightarrow>
          (case swap_node i (pod_NodeName podObj) st of
             None \<Rightarrow> (Ret None, w1)
           | Some st \<Rightarrow>
               (case getPodsDeployment S podObj w1 of
                  (Inl e, w2) \<Rightarrow> (Ret None, w2)
                | (Inr deployment, w2) \<Rightarrow>
                    (case k_GetDeployment S (p_Namespace pod) (or_Name deployment) w2 of
                       (r, w3) \<Rightarrow>
                         let deploymentObj = (case r of Inl e \<Rightarrow> zero_deployment | Inr d \<Rightarrow> d);
                             key = \<lparr>tk_Namespace = p_Namespace pod, tk_DeploymentName = or_Name deployment\<rparr>
                         in (case swap_target key deploymentObj st of
                               Panic m \<Rightarrow> (Panic m, w3)
                             | Ret st \<Rightarrow> (Ret (Some st), w3))))))"

fun swap_scan ::
  "'w services \<Rightarrow> nat \<Rightarrow> Pod list \<Rightarrow> swap_state \<Rightarrow> 'w \<Rightarrow> swap_state option outcome \<times> 'w" where
  "swap_scan S i [] st w = (Ret (Some st), w)"
| "swap_scan S i (pod # pods) st w =
     (case swap_scan_pod S i pod st w of
        (Panic m, w1) \<Rightarrow> (Panic m, w1)
      | (Ret None, w1) \<Rightarrow> (Ret None, w1)
      | (Ret (Some st), w1) \<Rightarrow> swap_scan S (Suc i) pods st w1)"

text \<open>The create requests: X goes to the node of Y, every Y to the node of X.\<close>

fun swap_createArgs ::
  "'w services \<Rightarrow> nat \<Rightarrow> Pod list \<Rightarrow> string \<Rightarrow> string \<Rightarrow> 'w \<Rightarrow> (goerror + CreateArgs list) \<times> 'w" where
  "swap_createArgs S i [] nodeX nodeY w = (Inr [], w)"
| "swap_createArgs S i (pod # pods) nodeX nodeY w =
     (case pod_toCreateArgs S pod (if i = 0 then nodeY else nodeX) w of
        (Inl e, w1) \<Rightarrow> (Inl e, w1)
      | (Inr ca, w1) \<Rightarrow>
          (case swap_createArgs S (Suc i) pods nodeX nodeY w1 of
             (Inl e, w2) \<Rightarrow> (Inl e, w2)
           | (Inr cas, w2) \<Rightarrow> (Inr (ca # cas), w2)))"

fun swap_deletes :: "'w services \<Rightarrow> Pod list \<Rightarrow> 'w \<Rightarrow> unit outcome \<times> 'w" where
  "swap_deletes S [] w = (Ret (), w)"
| "swap_deletes S (pod # pods) w =
     (case DeleteHandler S (pod_toDeleteArgs pod) w of
        (Panic m, w1) \<Rightarrow> (Panic m, w1)
      | (Ret _, w1) \<Rightarrow> swap_deletes S pods w1)"

text \<open>One pass over the remaining targets; a met target is removed from the map.\<close>

fun swap_poll ::
  "'w services \<Rightarrow> TargetScaleKey list \<Rightarrow> targets \<Rightarrow> selectors \<Rightarrow> 'w \<Rightarrow> targets outcome \<times> 'w" where
  "swap_poll S [] ts sel w = (Ret ts, w)"
| "swap_poll S (key # keys) ts sel w =
     (case k_ListPods S (tk_Namespace key) (gm_get [] sel key) w of
        (Inl e, w1) \<Rightarrow> (Panic e, w1)
      | (Inr items, w1) \<Rightarrow>
          let currentScale = (of_nat (length items) :: i32) in
          if sint currentScale \<le> sint (gm_get 0 ts key)
          then swap_poll S keys (AList.delete key ts) sel w1
          else swap_poll S keys ts sel w1)"

datatype swap_wait_result = AllMet | TimedOut | WaitPanic string | OutOfFuel

fun swap_wait ::
  "'w services \<Rightarrow> nat \<Rightarrow> nat \<Rightarrow> targets \<Rightarrow> selectors \<Rightarrow> 'w \<Rightarrow> swap_wait_result \<times> 'w" where
  "swap_wait S 0 deadline ts sel w = (OutOfFuel, w)"
| "swap_wait S (Suc fuel) deadline ts sel w =
     (if ts = [] then (AllMet, w)
      else if deadline \<le> t_Now S w then (TimedOut, w)
      else (case swap_poll S (map fst ts) ts sel (t_Sleep S 30 w) of
              (Panic m, w1) \<Rightarrow> (WaitPanic m, w1)
            | (Ret ts, w1) \<Rightarrow> swap_wait S fuel deadline ts sel w1))"

definition swap_fuel :: nat where
  "swap_fuel = 11"

fun swap_creates :: "'w services \<Rightarrow> CreateArgs list \<Rightarrow> 'w \<Rightarrow> unit outcome \<times> 'w" where
  "swap_creates S [] w = (Ret (), w)"
| "swap_creates S (ca # cas) w =
     (case CreateHandler S (Some ca) w of
        (Panic m, w1) \<Rightarrow> (Panic m, w1)
      | (Ret _, w1) \<Rightarrow> swap_creates S cas w1)"

text \<open>\<^verbatim>\<open>SwapHandler\<close>; \<open>Ret None\<close> is the model running out of fuel, which never happens.\<close>

definition SwapHandler :: "'w services \<Rightarrow> SwapArgs \<Rightarrow> 'w \<Rightarrow> unit option outcome \<times> 'w" where
  "SwapHandler S args w =
     (let pods = sa_X args # sa_Y args in
      case swap_scan S 0 pods swap_init w of
        (Panic m, w1) \<Rightarrow> (Panic m, w1)
      | (Ret None, w1) \<Rightarrow> (Ret (Some ()), w1)
      | (Ret (Some st), w1) \<Rightarrow>
          (case swap_createArgs S 0 pods (sw_nodeX st) (sw_nodeY st) w1 of
             (Inl e, w2) \<Rightarrow> (Ret (Some ()), w2)
           | (Inr createArgs, w2) \<Rightarrow>
               (case swap_deletes S pods w2 of
                  (Panic m, w3) \<Rightarrow> (Panic m, w3)
                | (Ret _, w3) \<Rightarrow>
                    (case swap_wait S swap_fuel (t_Now S w3 + 300) (sw_targetScales st) (sw_selectors st) w3 of
                       (WaitPanic m, w4) \<Rightarrow> (Panic m, w4)
                     | (TimedOut, w4) \<Rightarrow> (Ret (Some ()), w4)
                     | (OutOfFuel, w4) \<Rightarrow> (Ret None, w4)
                     | (AllMet, w4) \<Rightarrow>
                         (case swap_creates S createArgs w4 of
                            (Panic m, w5) \<Rightarrow> (Panic m, w5)
                          | (Ret _, w5) \<Rightarrow> (Ret (Some ()), w5))))))"

section \<open>The polling loop returns\<close>

context wall_clock
begin

lemma swap_poll_clock: "t_Now S w \<le> t_Now S (snd (swap_poll S keys ts sel w))"
proof (induction keys arbitrary: ts w)
  case Nil
  then show ?case by simp
next
  case (Cons key keys)
  obtain r w1 where l: "k_ListPods S (tk_Namespace key) (gm_get [] sel key) w = (r, w1)" by fastforce
  then have "t_Now S w \<le> t_Now S w1" using now_list by (metis snd_conv)
  then show ?case using l Cons.IH [where w = w1] by (auto simp: Let_def split: sum.splits intro: order_trans)
qed

lemma swap_wait_fuel:
  "deadline \<le> t_Now S w + 30 * fuel \<Longrightarrow> fst (swap_wait S (Suc fuel) deadline ts sel w) \<noteq> OutOfFuel"
proof (induction fuel arbitrary: ts w)
  case 0
  then show ?case by simp
next
  case (Suc fuel)
  show ?case
  proof (cases "ts = [] \<or> deadline \<le> t_Now S w")
    case True
    then show ?thesis by auto
  next
    case False
    obtain r w1 where p: "swap_poll S (map fst ts) ts sel (t_Sleep S 30 w) = (r, w1)" by fastforce
    have "t_Now S w + 30 \<le> t_Now S w1"
      using now_sleep [of w 30] swap_poll_clock [of "t_Sleep S 30 w" "map fst ts" ts sel] p by simp
    then show ?thesis using False p Suc.prems Suc.IH [where w = w1] by (auto split: outcome.splits)
  qed
qed

lemma swap_wait_returns:
  "fst (swap_wait S swap_fuel (t_Now S w + 300) ts sel w) \<noteq> OutOfFuel"
proof -
  have "swap_fuel = Suc 10" by (simp add: swap_fuel_def)
  then show ?thesis using swap_wait_fuel [of "t_Now S w + 300" w 10] by simp
qed

lemma SwapHandler_returns: "fst (SwapHandler S args w) \<noteq> Ret None"
proof -
  have "swap_wait S swap_fuel (t_Now S w3 + 300) ts sel w3 \<noteq> (OutOfFuel, w4)" for ts sel w3 w4
    using swap_wait_returns [of w3 ts sel] by auto
  then show ?thesis
    by (auto simp: SwapHandler_def Let_def
          split: prod.splits outcome.splits option.splits sum.splits swap_wait_result.splits)
qed

end

section \<open>Nothing happens before every pod has been resolved\<close>

context wam_backend
begin

lemma get_dep_frame: "k_GetDeployment S ns n w = (r, w') \<Longrightarrow> Q w' = Q w \<and> R w' = R w \<and> P w' = P w"
  using get_dep_Q get_dep_R get_dep_P by (metis snd_conv)

lemma swap_scan_pod_frame:
  assumes "swap_scan_pod S i pod st w = (r, w')"
  shows "Q w' = Q w \<and> R w' = R w \<and> P w' = P w"
proof -
  obtain g w1 where g: "k_GetPod S (p_Namespace pod) (p_Name pod) w = (g, w1)" by fastforce
  show ?thesis
  proof (cases "\<exists>podObj st'. g = Inr podObj \<and> swap_node i (pod_NodeName podObj) st = Some st'")
    case False
    then have "w' = w1" using assms g by (auto simp: swap_scan_pod_def split: sum.splits option.splits)
    then show ?thesis using get_pod_frame [OF g] by simp
  next
    case True
    then obtain podObj st' where p: "g = Inr podObj" "swap_node i (pod_NodeName podObj) st = Some st'" by blast
    obtain d w2 where d: "getPodsDeployment S podObj w1 = (d, w2)" by fastforce
    have w2: "Q w2 = Q w \<and> R w2 = R w \<and> P w2 = P w"
      using get_pod_frame [OF g] getPodsDeployment_frame [OF d] by auto
    show ?thesis
    proof (cases d)
      case (Inl e)
      then show ?thesis using assms g p d w2 by (simp add: swap_scan_pod_def)
    next
      case (Inr dep)
      obtain x w3 where x: "k_GetDeployment S (p_Namespace pod) (or_Name dep) w2 = (x, w3)" by fastforce
      then have "w' = w3" using assms g p d Inr
        by (auto simp: swap_scan_pod_def Let_def split: outcome.splits)
      then show ?thesis using w2 get_dep_frame [OF x] by auto
    qed
  qed
qed

lemma swap_scan_frame:
  "swap_scan S i pods st w = (r, w') \<Longrightarrow> Q w' = Q w \<and> R w' = R w \<and> P w' = P w"
proof (induction pods arbitrary: i st w)
  case Nil
  then show ?case by simp
next
  case (Cons pod pods)
  obtain x w1 where x: "swap_scan_pod S i pod st w = (x, w1)" by fastforce
  note X = swap_scan_pod_frame [OF x]
  show ?case
  proof (cases "\<exists>st'. x = Ret (Some st')")
    case True
    then obtain st' where st': "x = Ret (Some st')" by blast
    then have "swap_scan S (Suc i) pods st' w1 = (r, w')" using Cons.prems x by simp
    from Cons.IH [OF this] X show ?thesis by auto
  next
    case False
    then have "w' = w1" using Cons.prems x by (auto split: outcome.splits option.splits)
    then show ?thesis using X by simp
  qed
qed

lemma pod_toCreateArgs_frame:
  assumes "pod_toCreateArgs S p n w = (r, w')"
  shows "Q w' = Q w \<and> R w' = R w \<and> P w' = P w"
proof -
  obtain g w1 where g: "k_GetPod S (p_Namespace p) (p_Name p) w = (g, w1)" by fastforce
  show ?thesis
  proof (cases g)
    case (Inl e)
    then show ?thesis using assms g get_pod_frame [OF g] by (simp add: pod_toCreateArgs_def)
  next
    case (Inr pod)
    obtain d w2 where d: "getPodsDeployment S pod w1 = (d, w2)" by fastforce
    then have "w' = w2" using assms g Inr by (auto simp: pod_toCreateArgs_def split: sum.splits)
    then show ?thesis using get_pod_frame [OF g] getPodsDeployment_frame [OF d] by simp
  qed
qed

lemma swap_createArgs_frame:
  "swap_createArgs S i pods nx ny w = (r, w') \<Longrightarrow> Q w' = Q w \<and> R w' = R w \<and> P w' = P w"
proof (induction pods arbitrary: i w r w')
  case Nil
  then show ?case by simp
next
  case (Cons pod pods)
  obtain x w1 where x: "pod_toCreateArgs S pod (if i = 0 then ny else nx) w = (x, w1)" by fastforce
  note X = pod_toCreateArgs_frame [OF x]
  obtain y w2 where y: "swap_createArgs S (Suc i) pods nx ny w1 = (y, w2)" by fastforce
  have "w' = w1 \<or> w' = w2" using Cons.prems x y by (auto split: sum.splits)
  then show ?case using X Cons.IH [OF y] by auto
qed

lemma SwapHandler_abort_frame:
  assumes "swap_scan S 0 (sa_X args # sa_Y args) swap_init w = (Ret sr, w1)"
    and "sr = None \<or> (\<exists>st e w2. sr = Some st \<and>
           swap_createArgs S 0 (sa_X args # sa_Y args) (sw_nodeX st) (sw_nodeY st) w1 = (Inl e, w2))"
    and "SwapHandler S args w = (r, w')"
  shows "r = Ret (Some ()) \<and> Q w' = Q w \<and> R w' = R w \<and> P w' = P w"
proof (cases sr)
  case None
  then show ?thesis using assms(1,3) swap_scan_frame [OF assms(1)]
    by (simp add: SwapHandler_def Let_def del: swap_scan.simps)
next
  case (Some st)
  then obtain e w2 where c: "swap_createArgs S 0 (sa_X args # sa_Y args) (sw_nodeX st) (sw_nodeY st) w1 = (Inl e, w2)"
    using assms(2) by blast
  then show ?thesis using assms(1,3) Some swap_scan_frame [OF assms(1)] swap_createArgs_frame [OF c]
    by (simp add: SwapHandler_def Let_def del: swap_scan.simps swap_createArgs.simps)
qed

end

section \<open>Where the replacements go\<close>

lemma pod_toCreateArgs_node:
  "pod_toCreateArgs S p n w = (Inr ca, w') \<Longrightarrow>
     n_Name (ca_Node ca) = n \<and> wl_Namespace (ca_Workload ca) = p_Namespace p \<and> wl_Kind (ca_Workload ca) = ''Deployment''"
  by (auto simp: pod_toCreateArgs_def split: prod.splits sum.splits dest: getPodsDeployment_kind)

lemma swap_createArgs_nodes:
  "swap_createArgs S i pods nx ny w = (Inr cas, w') \<Longrightarrow>
     map (n_Name \<circ> ca_Node) cas = map (\<lambda>j. if j = 0 then ny else nx) [i..<i + length pods]
     \<and> map (wl_Namespace \<circ> ca_Workload) cas = map p_Namespace pods"
proof (induction pods arbitrary: i w cas)
  case Nil
  then show ?case by simp
next
  case (Cons pod pods)
  then obtain ca w1 cas' where x: "pod_toCreateArgs S pod (if i = 0 then ny else nx) w = (Inr ca, w1)"
    and y: "swap_createArgs S (Suc i) pods nx ny w1 = (Inr cas', w')" and "cas = ca # cas'"
    by (auto split: prod.splits sum.splits)
  moreover have "[i..<i + length (pod # pods)] = i # [Suc i..<Suc i + length pods]"
    by (simp add: upt_rec)
  ultimately show ?case using pod_toCreateArgs_node [OF x] Cons.IH [OF y] by simp
qed

section \<open>Targets and nodes computed by the scan\<close>

text \<open>
  While the handler reads, nothing else changes the cluster: at the world \<open>w\<close> the reads
  return the fixed answers \<open>GP\<close>, \<open>GR\<close> and \<open>GD\<close>.
\<close>

locale stable_reads =
  fixes S :: "'w services" and w :: 'w
    and GP :: "string \<Rightarrow> string \<Rightarrow> goerror + v1_Pod"
    and GR :: "string \<Rightarrow> string \<Rightarrow> goerror + ReplicaSet"
    and GD :: "string \<Rightarrow> string \<Rightarrow> goerror + Deployment"
  assumes stable_pod: "k_GetPod S ns n w = (GP ns n, w)"
    and stable_rs: "k_GetReplicaSet S ns n w = (GR ns n, w)"
    and stable_dep: "k_GetDeployment S ns n w = (GD ns n, w)"

text \<open>The deployment key of a pod, when it can be resolved, and the pod's node.\<close>

definition swap_key :: "'w services \<Rightarrow> 'w \<Rightarrow> Pod \<Rightarrow> TargetScaleKey option" where
  "swap_key S w p =
     (case fst (k_GetPod S (p_Namespace p) (p_Name p) w) of
        Inl e \<Rightarrow> None
      | Inr pod \<Rightarrow> (case fst (getPodsDeployment S pod w) of
          Inl e \<Rightarrow> None
        | Inr d \<Rightarrow> Some \<lparr>tk_Namespace = p_Namespace p, tk_DeploymentName = or_Name d\<rparr>))"

definition swap_node_of :: "'w services \<Rightarrow> 'w \<Rightarrow> Pod \<Rightarrow> string" where
  "swap_node_of S w p = (case fst (k_GetPod S (p_Namespace p) (p_Name p) w) of
     Inl e \<Rightarrow> '''' | Inr pod \<Rightarrow> pod_NodeName pod)"

definition swap_replicas :: "'w services \<Rightarrow> 'w \<Rightarrow> TargetScaleKey \<Rightarrow> i32" where
  "swap_replicas S w key = d_StatusReplicas
     (case fst (k_GetDeployment S (tk_Namespace key) (tk_DeploymentName key) w) of
        Inl e \<Rightarrow> zero_deployment | Inr d \<Rightarrow> d)"

lemma swap_target_Ret:
  "swap_target key dep st = Ret st' \<Longrightarrow>
     map_of (sw_targetScales st') = (map_of (sw_targetScales st))(key \<mapsto>
       (case map_of (sw_targetScales st) key of Some v \<Rightarrow> v - 1 | None \<Rightarrow> d_StatusReplicas dep - 1))
     \<and> sw_nodeX st' = sw_nodeX st \<and> sw_nodeY st' = sw_nodeY st"
  unfolding swap_target_def gm_has_map_of
  by (cases "map_of (sw_targetScales st) key"; cases "d_Selector dep")
     (auto simp: gm_get_def fun_eq_iff)

lemma swap_node_frame:
  "swap_node i n st = Some st' \<Longrightarrow> sw_targetScales st' = sw_targetScales st"
  by (auto simp: swap_node_def split: if_splits)

lemma swap_node_Y:
  "0 < i \<Longrightarrow> swap_node i n st = Some st' \<Longrightarrow> sw_nodeX st' = sw_nodeX st \<and>
     sw_nodeY st' = (if sw_nodeY st = '''' then n else sw_nodeY st) \<and> (sw_nodeY st \<noteq> '''' \<longrightarrow> n = sw_nodeY st)"
  by (auto simp: swap_node_def split: if_splits)

context stable_reads
begin

lemma deployment_of_owners_stable: "snd (deployment_of_owners S ns os w) = w"
  by (induction os) (auto simp: stable_rs split: sum.splits option.splits)

lemma getPodsDeployment_stable: "getPodsDeployment S pod w = (r, w') \<Longrightarrow> w' = w"
  using deployment_of_owners_stable by (metis getPodsDeployment_def snd_conv)

lemma swap_scan_pod_stable:
  assumes "swap_scan_pod S i pod st w = (Ret (Some st1), w1)"
  shows "w1 = w \<and> (\<exists>key st2. swap_key S w pod = Some key
    \<and> map_of (sw_targetScales st1) = (map_of (sw_targetScales st))(key \<mapsto>
        (case map_of (sw_targetScales st) key of Some v \<Rightarrow> v - 1 | None \<Rightarrow> swap_replicas S w key - 1))
    \<and> swap_node i (swap_node_of S w pod) st = Some st2 \<and> sw_nodeX st1 = sw_nodeX st2 \<and> sw_nodeY st1 = sw_nodeY st2)"
proof -
  obtain podObj st2 where p: "GP (p_Namespace pod) (p_Name pod) = Inr podObj"
    and n: "swap_node i (pod_NodeName podObj) st = Some st2"
    using assms by (auto simp: swap_scan_pod_def stable_pod split: sum.splits option.splits)
  obtain d w2 where d: "getPodsDeployment S podObj w = (d, w2)" by fastforce
  have w2: "w2 = w" using getPodsDeployment_stable [OF d] .
  obtain dep where dep: "d = Inr dep" using assms p n d
    by (auto simp: swap_scan_pod_def stable_pod split: sum.splits)
  let ?key = "\<lparr>tk_Namespace = p_Namespace pod, tk_DeploymentName = or_Name dep\<rparr>"
  let ?D = "case GD (p_Namespace pod) (or_Name dep) of Inl e \<Rightarrow> zero_deployment | Inr d \<Rightarrow> d"
  have "swap_target ?key ?D st2 = Ret st1 \<and> w1 = w" using assms p n d w2 dep
    by (auto simp: swap_scan_pod_def stable_pod stable_dep Let_def split: outcome.splits)
  moreover have "swap_key S w pod = Some ?key" using p d dep by (simp add: swap_key_def stable_pod)
  moreover have "swap_node i (swap_node_of S w pod) st = Some st2" using p n by (simp add: swap_node_of_def stable_pod)
  ultimately show ?thesis using swap_target_Ret [of ?key ?D st2 st1] swap_node_frame [OF n]
    by (cases "map_of (sw_targetScales st) ?key") (simp_all add: swap_replicas_def stable_dep)
qed

lemma swap_scan_targets:
  "swap_scan S i pods st w = (Ret (Some st'), w') \<Longrightarrow>
     w' = w \<and> map_of (sw_targetScales st') key =
       (let c = length (filter (\<lambda>p. swap_key S w p = Some key) pods) in
        case map_of (sw_targetScales st) key of
          Some v \<Rightarrow> Some (v - of_nat c)
        | None \<Rightarrow> if c = 0 then None else Some (swap_replicas S w key - of_nat c))"
proof (induction pods arbitrary: i st)
  case Nil
  then show ?case by (simp split: option.splits)
next
  case (Cons pod pods)
  then obtain st1 w1 where 1: "swap_scan_pod S i pod st w = (Ret (Some st1), w1)"
    and 2: "swap_scan S (Suc i) pods st1 w1 = (Ret (Some st'), w')"
    by (auto split: prod.splits outcome.splits option.splits)
  from swap_scan_pod_stable [OF 1] obtain k where w1: "w1 = w" and k: "swap_key S w pod = Some k"
    and m: "map_of (sw_targetScales st1) = (map_of (sw_targetScales st))(k \<mapsto>
        (case map_of (sw_targetScales st) k of Some v \<Rightarrow> v - 1 | None \<Rightarrow> swap_replicas S w k - 1))"
    by auto
  show ?case using Cons.IH [OF 2 [unfolded w1]] k m
    by (auto simp: Let_def algebra_simps split: option.splits)
qed

lemma swap_scan_nodes:
  "swap_scan S i pods st w = (Ret (Some st'), w') \<Longrightarrow> 0 < i \<Longrightarrow>
     sw_nodeX st' = sw_nodeX st
     \<and> (sw_nodeY st \<noteq> '''' \<longrightarrow> sw_nodeY st' = sw_nodeY st \<and> (\<forall>p \<in> set pods. swap_node_of S w p = sw_nodeY st))
     \<and> (\<forall>p \<in> set pods. swap_node_of S w p \<in> {'''', sw_nodeY st'})"
proof (induction pods arbitrary: i st)
  case Nil
  then show ?case by simp
next
  case (Cons pod pods)
  then obtain st1 w1 where 1: "swap_scan_pod S i pod st w = (Ret (Some st1), w1)"
    and 2: "swap_scan S (Suc i) pods st1 w1 = (Ret (Some st'), w')"
    by (auto split: prod.splits outcome.splits option.splits)
  from swap_scan_pod_stable [OF 1] swap_node_Y [OF Cons.prems(2)]
  have w1: "w1 = w" and X: "sw_nodeX st1 = sw_nodeX st"
    and Y: "sw_nodeY st1 = (if sw_nodeY st = '''' then swap_node_of S w pod else sw_nodeY st)"
      "sw_nodeY st \<noteq> '''' \<longrightarrow> swap_node_of S w pod = sw_nodeY st" by auto
  have IH: "sw_nodeX st' = sw_nodeX st1"
    "sw_nodeY st1 \<noteq> '''' \<Longrightarrow> sw_nodeY st' = sw_nodeY st1 \<and> (\<forall>p \<in> set pods. swap_node_of S w p = sw_nodeY st1)"
    "\<forall>p \<in> set pods. swap_node_of S w p \<in> {'''', sw_nodeY st'}"
    using Cons.IH [OF 2 [unfolded w1]] by simp_all
  show ?case
  proof (cases "sw_nodeY st = ''''")
    case True
    then show ?thesis using IH X Y by (cases "swap_node_of S w pod = ''''") simp_all
  next
    case False
    then show ?thesis using IH X Y by simp
  qed
qed

text \<open>The whole scan from the handler's initial state.\<close>

lemma swap_scan_init:
  assumes "swap_scan S 0 (x # ys) swap_init w = (Ret (Some st), w')"
  shows "w' = w \<and> sw_nodeX st = swap_node_of S w x \<and> (\<forall>y \<in> set ys. swap_node_of S w y \<in> {'''', sw_nodeY st})
    \<and> (\<forall>key. map_of (sw_targetScales st) key =
        (let c = length (filter (\<lambda>p. swap_key S w p = Some key) (x # ys)) in
         if c = 0 then None else Some (swap_replicas S w key - of_nat c)))"
proof -
  obtain st1 w1 where 1: "swap_scan_pod S 0 x swap_init w = (Ret (Some st1), w1)"
    and 2: "swap_scan S 1 ys st1 w1 = (Ret (Some st), w')"
    using assms by (auto split: prod.splits outcome.splits option.splits)
  from swap_scan_pod_stable [OF 1] have "w1 = w" "sw_nodeX st1 = swap_node_of S w x"
    by (auto simp: swap_node_def swap_init_def)
  then have "sw_nodeX st = swap_node_of S w x \<and> (\<forall>y \<in> set ys. swap_node_of S w y \<in> {'''', sw_nodeY st})"
    using swap_scan_nodes [of 1 ys st1 st w'] 2 by simp
  then show ?thesis using swap_scan_targets [OF assms] by (simp add: swap_init_def)
qed

end

end
