(* ===== verification/Wam_Rpc.thy ===== *)
theory Wam_Rpc
  imports Wam_Swap
begin

text \<open>
  The RPC service, \<^verbatim>\<open>wam/pkg/actions/service.go\<close>.  Each method checks its arguments, sets the reply
  and starts the handler in a goroutine; the caller only learns that the request was
  accepted.  The result of a method is its error, the reply message and the goroutine it
  started, if any.
\<close>

datatype action = CreateAction CreateArgs | DeleteAction DeleteArgs | MoveAction MoveArgs | SwapAction SwapArgs

type_synonym rpc_result = "goerror option \<times> string \<times> action option"

definition rpc_Create :: "CreateArgs \<Rightarrow> string \<Rightarrow> rpc_result" where
  "rpc_Create args reply =
     (case validateCreateReq args of
        (Some e, args) \<Rightarrow> (Some e, reply, None)
      | (None, args) \<Rightarrow> (None, ''ok'', Some (CreateAction args)))"

definition rpc_Delete :: "DeleteArgs \<Rightarrow> string \<Rightarrow> rpc_result" where
  "rpc_Delete args reply =
     (case validateDeleteReq args of
        (Some e, args) \<Rightarrow> (Some e, reply, None)
      | (None, args) \<Rightarrow> (None, ''ok'', Some (DeleteAction args)))"

definition rpc_Move :: "MoveArgs \<Rightarrow> string \<Rightarrow> rpc_result" where
  "rpc_Move args reply =
     (case validateMoveReq args of
        (Some e, args) \<Rightarrow> (Some e, reply, None)
      | (None, args) \<Rightarrow> (None, ''ok'', Some (MoveAction args)))"

definition rpc_Swap :: "SwapArgs \<Rightarrow> string \<Rightarrow> rpc_result" where
  "rpc_Swap args reply =
     (case validateSwapReq args of
        (Some e, args) \<Rightarrow> (Some e, reply, None)
      | (None, args) \<Rightarrow> (None, ''ok'', Some (SwapAction args)))"

text \<open>What an accepted request guarantees to its handler.\<close>

fun action_wf :: "action \<Rightarrow> bool" where
  "action_wf (CreateAction a) =
     (wl_APIVersion (ca_Workload a) = ''apps/v1'' \<and> wl_Kind (ca_Workload a) = ''Deployment''
      \<and> wl_Namespace (ca_Workload a) \<noteq> '''' \<and> wl_Name (ca_Workload a) \<noteq> '''' \<and> n_Name (ca_Node a) \<noteq> '''')"
| "action_wf (DeleteAction a) = (p_Namespace (da_Pod a) \<noteq> '''' \<and> p_Name (da_Pod a) \<noteq> '''')"
| "action_wf (MoveAction a) =
     (p_Namespace (ma_Pod a) \<noteq> '''' \<and> p_Name (ma_Pod a) \<noteq> '''' \<and> n_Name (ma_Node a) \<noteq> '''')"
| "action_wf (SwapAction a) =
     (p_Namespace (sa_X a) \<noteq> '''' \<and> p_Name (sa_X a) \<noteq> '''' \<and> (\<forall>y \<in> set (sa_Y a). p_Name y \<noteq> ''''))"

lemma validate_y_None: "validate_y i ys = None \<longleftrightarrow> (\<forall>y \<in> set ys. p_Name y \<noteq> '''')"
  by (induction ys arbitrary: i) (auto simp: Let_def)

text \<open>A started handler has well-formed arguments; a refused request starts nothing.\<close>

lemma rpc_Create_wf:
  "rpc_Create a reply = (err, msg, act) \<Longrightarrow> (act = None \<longleftrightarrow> err \<noteq> None) \<and> (\<forall>x. act = Some x \<longrightarrow> action_wf x)"
  by (auto simp: rpc_Create_def split: prod.splits option.splits dest: validateCreateReq_ok)

lemma rpc_Delete_wf:
  "rpc_Delete a reply = (err, msg, act) \<Longrightarrow> (act = None \<longleftrightarrow> err \<noteq> None) \<and> (\<forall>x. act = Some x \<longrightarrow> action_wf x)"
  by (auto simp: rpc_Delete_def validateDeleteReq_def Let_def split: prod.splits option.splits if_splits)

lemma rpc_Move_wf:
  "rpc_Move a reply = (err, msg, act) \<Longrightarrow> (act = None \<longleftrightarrow> err \<noteq> None) \<and> (\<forall>x. act = Some x \<longrightarrow> action_wf x)"
  by (auto simp: rpc_Move_def validateMoveReq_def Let_def split: prod.splits option.splits if_splits)

lemma rpc_Swap_wf:
  "rpc_Swap a reply = (err, msg, act) \<Longrightarrow> (act = None \<longleftrightarrow> err \<noteq> None) \<and> (\<forall>x. act = Some x \<longrightarrow> action_wf x)"
  by (auto simp: rpc_Swap_def validateSwapReq_def Let_def validate_y_None split: prod.splits option.splits if_splits)

end
