(* ===== verification/Framework.thy ===== *)
theory Framework
  imports K8s_Objects
begin

text \<open>
  The part of the scheduler framework (vendored \<^verbatim>\<open>k8s.io/kubernetes/pkg/scheduler/framework\<close>) that
  the plugins share: status codes and statuses.  A nil \<^verbatim>\<open>*Status\<close> means success.
\<close>

datatype Code = Success | Error | Unschedulable | UnschedulableAndUnresolvable | Wait | Skip

type_synonym Status = "(Code \<times> string) option"

definition status_Code :: "Status \<Rightarrow> Code" where
  "status_Code s = (case s of None \<Rightarrow> Success | Some (c, m) \<Rightarrow> c)"

definition IsSuccess :: "Status \<Rightarrow> bool" where
  "IsSuccess s = (status_Code s = Success)"

definition NewStatus :: "Code \<Rightarrow> string \<Rightarrow> Status" where
  "NewStatus c m = Some (c, m)"

lemma status_Code_simps [simp]:
  "status_Code None = Success" "status_Code (NewStatus c m) = c"
  by (simp_all add: status_Code_def NewStatus_def)

lemma IsSuccess_simps [simp]:
  "IsSuccess None" "IsSuccess (NewStatus c m) \<longleftrightarrow> c = Success"
  by (simp_all add: IsSuccess_def)

end
