(* ===== verification/Wam_Plugin.thy ===== *)
theory Wam_Plugin
  imports Wam_Create Framework
begin

text \<open>
  The WAM scheduler plugin, \<^verbatim>\<open>wam-scheduler/pkg/wam/plugin.go\<close>.  PreFilter takes a suggestion from the
  queue of the pod's deployment and stores it in the cycle state, Filter admits only the
  suggested node, PostBind writes the suggestion's id to the pod.

  The cycle state maps keys to data of several types.  The data under the plugin's key is a
  pointer to a suggestion, possibly nil, or data of another type.
\<close>

section \<open>Data\<close>

datatype StateData = SuggestionData "SchedulingSuggestion option" | OtherData

type_synonym CycleState = "(string, StateData) gomap"

abbreviation schedulingSuggestionKey :: string where
  "schedulingSuggestionKey \<equiv> ''scheduling-suggestion''"

text \<open>\<^verbatim>\<open>SchedulingSuggestion.Clone\<close>: a fresh suggestion with the same fields.\<close>

definition Clone_suggestion :: "SchedulingSuggestion \<Rightarrow> SchedulingSuggestion" where
  "Clone_suggestion sg = \<lparr>ss_ID = ss_ID sg, ss_NodeName = ss_NodeName sg\<rparr>"

section \<open>Operations\<close>

definition queueName :: "OwnerReference \<Rightarrow> string \<Rightarrow> string" where
  "queueName r namespace = namespace @ '':'' @ or_APIVersion r @ '':'' @ or_Kind r @ '':'' @ or_Name r"

fun deploymentName_of_owners ::
  "'w services \<Rightarrow> string \<Rightarrow> string \<Rightarrow> OwnerReference list \<Rightarrow> 'w \<Rightarrow> (goerror + OwnerReference) \<times> 'w" where
  "deploymentName_of_owners S ns pn [] w = (Inl (''deployment not found for pod '' @ pn), w)"
| "deploymentName_of_owners S ns pn (ownerRef # refs) w =
     (if or_Kind ownerRef = ''ReplicaSet'' then
        (case k_GetReplicaSet S ns (or_Name ownerRef) w of
           (Inl e, w') \<Rightarrow> (Inl e, w')
         | (Inr rs, w') \<Rightarrow>
             (case find (\<lambda>r. or_Kind r = ''Deployment'') (rs_OwnerReferences rs) of
                Some d \<Rightarrow> (Inr d, w')
              | None \<Rightarrow> deploymentName_of_owners S ns pn refs w'))
      else deploymentName_of_owners S ns pn refs w)"

definition getDeploymentName ::
  "'w services \<Rightarrow> v1_Pod \<Rightarrow> 'w \<Rightarrow> (goerror + OwnerReference) \<times> 'w" where
  "getDeploymentName S pod w =
     deploymentName_of_owners S (pod_Namespace pod) (pod_Name pod) (pod_OwnerReferences pod) w"

text \<open>\<^verbatim>\<open>PreFilter\<close> returns a status and the updated cycle state.\<close>

definition PreFilter ::
  "'w services \<Rightarrow> CycleState \<Rightarrow> v1_Pod \<Rightarrow> 'w \<Rightarrow> (Status \<times> CycleState) \<times> 'w" where
  "PreFilter S state pod w =
     (case getDeploymentName S pod w of
        (Inl e, w1) \<Rightarrow> ((None, state), w1)
      | (Inr deployment, w1) \<Rightarrow>
          (case rdb_LPop S (queueName deployment (pod_Namespace pod)) w1 of
             (RedisNil, w2) \<Rightarrow> ((NewStatus Success '''', state), w2)
           | (RedisErr e, w2) \<Rightarrow> ((NewStatus Error '''', state), w2)
           | (Popped sugEncoded, w2) \<Rightarrow>
               (case json_Unmarshal S sugEncoded of
                  Inl e \<Rightarrow> ((NewStatus Error '''', state), w2)
                | Inr suggestion \<Rightarrow>
                    ((NewStatus Success '''',
                      AList.update schedulingSuggestionKey
                        (SuggestionData (Some \<lparr>ss_ID = ss_ID suggestion, ss_NodeName = ss_NodeName suggestion\<rparr>)) state),
                     w2))))"

definition Filter :: "CycleState \<Rightarrow> string \<Rightarrow> Status" where
  "Filter state nodeName =
     (case map_of state schedulingSuggestionKey of
        None \<Rightarrow> None
      | Some OtherData \<Rightarrow> NewStatus Success ''''
      | Some (SuggestionData None) \<Rightarrow> NewStatus Success ''''
      | Some (SuggestionData (Some suggestion)) \<Rightarrow>
          if nodeName = ss_NodeName suggestion
          then NewStatus Success (''found suggested node '' @ ss_NodeName suggestion)
          else NewStatus Unschedulable '''')"

definition PostBind :: "'w services \<Rightarrow> CycleState \<Rightarrow> v1_Pod \<Rightarrow> 'w \<Rightarrow> unit outcome \<times> 'w" where
  "PostBind S state pod w =
     (case map_of state schedulingSuggestionKey of
        None \<Rightarrow> (Ret (), w)
      | Some OtherData \<Rightarrow> (Ret (), w)
      | Some (SuggestionData None) \<Rightarrow> (Panic nil_deref, w)
      | Some (SuggestionData (Some suggestion)) \<Rightarrow>
          (case k_PatchPodAnnotation S (pod_Namespace pod) (pod_Name pod)
                  ''example.com/scheduling-suggestion-id'' (ss_ID suggestion) w of
             (e, w1) \<Rightarrow> (Ret (), w1)))"

section \<open>Agreement with the WAM service\<close>

lemma suggestion_copy [simp]: "\<lparr>ss_ID = ss_ID sg, ss_NodeName = ss_NodeName sg\<rparr> = sg"
  by simp

lemma Clone_suggestion_id [simp]: "Clone_suggestion sg = sg"
  by (simp add: Clone_suggestion_def)

text \<open>The plugin and the service find the same deployment and leave the same world.\<close>

lemma deploymentName_of_owners_eq:
  "deploymentName_of_owners S ns pn os w = (r, w') \<Longrightarrow>
     snd (deployment_of_owners S ns os w) = w' \<and>
     (case r of Inl e \<Rightarrow> \<exists>e'. fst (deployment_of_owners S ns os w) = Inl e'
      | Inr d \<Rightarrow> fst (deployment_of_owners S ns os w) = Inr d)"
proof (induction os arbitrary: w)
  case Nil
  then show ?case by auto
next
  case (Cons a os)
  then show ?case by (auto split: if_splits prod.splits sum.splits option.splits)
qed

lemma getDeploymentName_iff:
  "getDeploymentName S pod w = (Inr d, w') \<longleftrightarrow> getPodsDeployment S pod w = (Inr d, w')"
proof -
  obtain r w1 where "getDeploymentName S pod w = (r, w1)" by fastforce
  then show ?thesis using deploymentName_of_owners_eq [of S "pod_Namespace pod" "pod_Name pod" "pod_OwnerReferences pod" w r w1]
    unfolding getDeploymentName_def getPodsDeployment_def
    by (cases "deployment_of_owners S (pod_Namespace pod) (pod_OwnerReferences pod) w") (auto split: sum.splits)
qed

lemma queueName_QueueName:
  "queueName d ns = QueueName \<lparr>wl_Namespace = ns, wl_APIVersion = or_APIVersion d, wl_Kind = or_Kind d, wl_Name = or_Name d\<rparr>"
  by (simp add: queueName_def QueueName_def)

section \<open>Filtering\<close>

lemma Filter_suggestion:
  "map_of state schedulingSuggestionKey = Some (SuggestionData (Some sug)) \<Longrightarrow>
     IsSuccess (Filter state n) \<longleftrightarrow> n = ss_NodeName sug"
  by (simp add: Filter_def)

lemma Filter_no_suggestion:
  "map_of state schedulingSuggestionKey \<in> {None, Some OtherData, Some (SuggestionData None)} \<Longrightarrow>
     IsSuccess (Filter state n)"
  by (auto simp: Filter_def)

context wam_backend
begin

lemma getDeploymentName_frame:
  assumes "getDeploymentName S pod w = (r, w')"
  shows "Q w' = Q w \<and> R w' = R w \<and> P w' = P w"
proof -
  have "snd (deployment_of_owners S (pod_Namespace pod) (pod_OwnerReferences pod) w) = w'"
    using assms deploymentName_of_owners_eq [of S "pod_Namespace pod" "pod_Name pod"]
    unfolding getDeploymentName_def by auto
  then show ?thesis using getPodsDeployment_frame unfolding getPodsDeployment_def by (metis prod.collapse)
qed

text \<open>The queue after PreFilter: the head is gone exactly when Redis returned an element.\<close>

lemma PreFilter_queue:
  assumes "getDeploymentName S pod w = (Inr d, w1)" and "PreFilter S state pod w = ((st, state'), w')"
    and "Q w (queueName d (pod_Namespace pod)) = x # xs"
  shows "(status_Code st = Error \<and> state' = state) \<or>
    (Q w' = (Q w)(queueName d (pod_Namespace pod) := xs) \<and>
     (\<exists>sug. json_Unmarshal S x = Inr sug \<and> status_Code st = Success
        \<and> state' = AList.update schedulingSuggestionKey (SuggestionData (Some sug)) state))"
proof -
  let ?q = "queueName d (pod_Namespace pod)"
  have w1: "Q w1 = Q w" using getDeploymentName_frame [OF assms(1)] by simp
  obtain l w2 where l: "rdb_LPop S ?q w1 = (l, w2)" by fastforce
  show ?thesis
  proof (cases l)
    case (Popped y)
    with lpop_some [OF l [unfolded Popped]] w1 assms(3) have "y = x" and "Q w2 = (Q w)(?q := xs)" by auto
    then show ?thesis using assms(1,2) l Popped by (auto simp: PreFilter_def split: sum.splits)
  next
    case RedisNil
    with lpop_nil [OF l [unfolded RedisNil]] w1 assms(3) show ?thesis by simp
  next
    case (RedisErr e)
    then show ?thesis using assms(1,2) l by (auto simp: PreFilter_def)
  qed
qed

end

end
