(* ===== verification/Wam_Interleaving.thy ===== *)
theory Wam_Interleaving
  imports Wam_Create
begin

text \<open>
  Create requests run in goroutines, so their steps interleave (the code marks the scale
  update with a note on race conditions).  \<open>create_step\<close> is \<^verbatim>\<open>CreateHandler\<close> cut at its calls to the
  services; \<open>create_run_CreateHandler\<close> shows that running the steps of one request gives the
  handler.  \<open>sys_step\<close> interleaves the steps of any number of requests.

  The scale subresource carries a resource version, and the API server refuses an update
  whose version is not the current one.  Under that law the interleaved requests never lose
  an increment.
\<close>

section \<open>One request, step by step\<close>

datatype create_pc =
    CStart
  | CPushed SchedulingSuggestion
  | CRead SchedulingSuggestion Scale
  | CRollback SchedulingSuggestion
  | CDone "SchedulingSuggestion option \<times> goerror option"

fun create_step :: "'w services \<Rightarrow> CreateArgs \<Rightarrow> create_pc \<Rightarrow> 'w \<Rightarrow> create_pc \<times> 'w" where
  "create_step S args CStart w =
     (case addSchedulingSuggestion S (QueueName (ca_Workload args)) (n_Name (ca_Node args)) w of
        ((sug, Some e), w1) \<Rightarrow> (CDone (None, Some e), w1)
      | ((sug, None), w1) \<Rightarrow> (CPushed sug, w1))"
| "create_step S args (CPushed sug) w =
     (case k_GetScale S (wl_Namespace (ca_Workload args)) (wl_Name (ca_Workload args)) w of
        (Inl e, w1) \<Rightarrow> (CRollback sug, w1)
      | (Inr scale, w1) \<Rightarrow> (CRead sug scale, w1))"
| "create_step S args (CRead sug scale) w =
     (case k_UpdateScale S (wl_Namespace (ca_Workload args)) (wl_Name (ca_Workload args))
             (scale\<lparr>sc_Replicas := sc_Replicas scale + 1\<rparr>) w of
        (Some e, w1) \<Rightarrow> (CRollback sug, w1)
      | (None, w1) \<Rightarrow> (CDone (Some sug, None), w1))"
| "create_step S args (CRollback sug) w =
     (case removeSchedulingSuggestion S (QueueName (ca_Workload args)) sug w of
        (err, w1) \<Rightarrow> (CDone (None, err), w1))"
| "create_step S args (CDone r) w = (CDone r, w)"

fun create_run :: "nat \<Rightarrow> 'w services \<Rightarrow> CreateArgs \<Rightarrow> create_pc \<Rightarrow> 'w \<Rightarrow> create_pc \<times> 'w" where
  "create_run 0 S args pc w = (pc, w)"
| "create_run (Suc n) S args pc w = (case create_step S args pc w of (pc', w') \<Rightarrow> create_run n S args pc' w')"

text \<open>Four steps finish any request, with the result and the world of the handler.\<close>

lemma create_run_CreateHandler:
  "CreateHandler S (Some args) w = (Ret r, w') \<longleftrightarrow> create_run 4 S args CStart w = (CDone r, w')"
  by (simp add: CreateHandler_def Let_def eval_nat_numeral split: prod.split option.split sum.split)

section \<open>Many requests\<close>

type_synonym key = "string \<times> string"

definition create_key :: "CreateArgs \<Rightarrow> key" where
  "create_key args = (wl_Namespace (ca_Workload args), wl_Name (ca_Workload args))"

text \<open>One of the \<open>N\<close> requests makes a step.\<close>

inductive sys_step ::
  "'w services \<Rightarrow> (nat \<Rightarrow> CreateArgs) \<Rightarrow> nat \<Rightarrow> (nat \<Rightarrow> create_pc) \<times> 'w \<Rightarrow> (nat \<Rightarrow> create_pc) \<times> 'w \<Rightarrow> bool"
  for S args N where
  step: "i < N \<Longrightarrow> create_step S (args i) (pcs i) w = (pc, w') \<Longrightarrow>
     sys_step S args N (pcs, w) (pcs(i := pc), w')"

inductive sys_reachable ::
  "'w services \<Rightarrow> (nat \<Rightarrow> CreateArgs) \<Rightarrow> nat \<Rightarrow> 'w \<Rightarrow> (nat \<Rightarrow> create_pc) \<times> 'w \<Rightarrow> bool"
  for S args N w0 where
  init: "sys_reachable S args N w0 (\<lambda>i. CStart, w0)"
| more: "sys_reachable S args N w0 s \<Longrightarrow> sys_step S args N s t \<Longrightarrow> sys_reachable S args N w0 t"

text \<open>A request that runs alone for some steps is one of the interleavings.\<close>

lemma sys_reachable_run:
  assumes "i < N"
  shows "sys_reachable S args N w0 (pcs, w) \<Longrightarrow> create_run n S (args i) (pcs i) w = (pc', w') \<Longrightarrow>
     sys_reachable S args N w0 (pcs(i := pc'), w')"
proof (induction n arbitrary: pcs w)
  case 0
  then have "pcs(i := pc') = pcs" and "w' = w" by auto
  with 0 show ?case by metis
next
  case (Suc n)
  obtain pc1 w1 where 1: "create_step S (args i) (pcs i) w = (pc1, w1)" by fastforce
  have "sys_reachable S args N w0 (pcs(i := pc1), w1)"
    using Suc.prems(1) sys_step.step [of i N S args pcs w pc1 w1, OF assms 1] by (blast intro: sys_reachable.more)
  from Suc.IH [OF this] Suc.prems(2) 1 show ?case by (simp del: fun_upd_apply add: fun_upd_same)
qed

definition succeeded :: "create_pc \<Rightarrow> bool" where
  "succeeded pc = (\<exists>sug. pc = CDone (Some sug, None))"

text \<open>The laws of the versioned scale subresource: \<open>V\<close> is the resource version.\<close>

locale versioned_scale =
  fixes S :: "'w services"
    and R :: "'w \<Rightarrow> key \<Rightarrow> i32 option"
    and V :: "'w \<Rightarrow> key \<Rightarrow> nat"
  assumes vget: "k_GetScale S ns n w = (Inr s, w') \<Longrightarrow>
          R w (ns, n) = Some (sc_Replicas s) \<and> V w (ns, n) = sc_ResourceVersion s"
    and vget_frame: "k_GetScale S ns n w = (r, w') \<Longrightarrow> R w' = R w \<and> V w' = V w"
    and vupdate: "k_UpdateScale S ns n s w = (None, w') \<Longrightarrow>
          V w (ns, n) = sc_ResourceVersion s
          \<and> R w' = (R w)((ns, n) := Some (sc_Replicas s))
          \<and> (\<exists>v > V w (ns, n). V w' = (V w)((ns, n) := v))"
    and vupdate_err: "k_UpdateScale S ns n s w = (Some e, w') \<Longrightarrow> R w' = R w \<and> V w' = V w"
    and vpush: "addSchedulingSuggestion S q node w = (a, w') \<Longrightarrow> R w' = R w \<and> V w' = V w"
    and vrem: "removeSchedulingSuggestion S q sug w = (err, w') \<Longrightarrow> R w' = R w \<and> V w' = V w"
begin

lemma step_keeps:
  assumes "create_step S a pc w = (pc', w')" and "\<not> succeeded pc'" and "\<not> succeeded pc"
  shows "R w' = R w \<and> V w' = V w"
  using assms
  by (cases pc) (auto simp: succeeded_def split: prod.splits option.splits sum.splits
      dest: vget_frame vupdate_err vpush vrem)

lemma step_read:
  assumes "create_step S a pc w = (CRead sug sc, w')"
  shows "V w (create_key a) = sc_ResourceVersion sc \<and> R w (create_key a) = Some (sc_Replicas sc)"
  using assms
  by (cases pc) (auto simp: create_key_def split: prod.splits option.splits sum.splits dest: vget)

lemma step_succeeds:
  assumes "create_step S a pc w = (pc', w')" and "succeeded pc'" and "\<not> succeeded pc"
  obtains sug sc v where "pc = CRead sug sc" "V w (create_key a) = sc_ResourceVersion sc"
    "R w' = (R w)(create_key a := Some (sc_Replicas sc + 1))" "V w (create_key a) < v"
    "V w' = (V w)(create_key a := v)"
proof (cases pc)
  case (CRead sug sc)
  then have "k_UpdateScale S (wl_Namespace (ca_Workload a)) (wl_Name (ca_Workload a))
      (sc\<lparr>sc_Replicas := sc_Replicas sc + 1\<rparr>) w = (None, w')"
    using assms by (auto simp: succeeded_def split: prod.splits option.splits)
  from vupdate [OF this] show ?thesis using CRead that by (auto simp: create_key_def)
qed (use assms in \<open>auto simp: succeeded_def split: prod.splits option.splits sum.splits\<close>)

lemma step_done: "succeeded pc \<Longrightarrow> create_step S a pc w = (pc, w)"
  by (auto simp: succeeded_def)

end

text \<open>
  The invariant: every deployment has the replicas it had at the start plus one for each
  successful request for it; a count that a request holds is current as long as its version is.
\<close>

definition winners :: "(nat \<Rightarrow> CreateArgs) \<Rightarrow> nat \<Rightarrow> (nat \<Rightarrow> create_pc) \<Rightarrow> key \<Rightarrow> nat set" where
  "winners args N pcs k = {i. i < N \<and> create_key (args i) = k \<and> succeeded (pcs i)}"

definition reads_current ::
  "('w \<Rightarrow> key \<Rightarrow> i32 option) \<Rightarrow> ('w \<Rightarrow> key \<Rightarrow> nat) \<Rightarrow> (nat \<Rightarrow> CreateArgs) \<Rightarrow> nat \<Rightarrow> (nat \<Rightarrow> create_pc) \<times> 'w \<Rightarrow> bool" where
  "reads_current R V args N s = (\<forall>i sug sc. i < N \<longrightarrow> fst s i = CRead sug sc \<longrightarrow>
     (let k = create_key (args i) in sc_ResourceVersion sc \<le> V (snd s) k
      \<and> (sc_ResourceVersion sc = V (snd s) k \<longrightarrow> R (snd s) k = Some (sc_Replicas sc))))"

lemma winners_finite [simp]: "finite (winners args N pcs k)"
  by (rule finite_subset [of _ "{..<N}"]) (auto simp: winners_def)

lemma winners_unchanged:
  "succeeded pc = succeeded (pcs i) \<Longrightarrow> winners args N (pcs(i := pc)) k = winners args N pcs k"
  by (auto simp: winners_def)

lemma winners_grow:
  "i < N \<Longrightarrow> succeeded pc \<Longrightarrow> \<not> succeeded (pcs i) \<Longrightarrow>
     card (winners args N (pcs(i := pc)) k) =
       (if k = create_key (args i) then Suc (card (winners args N pcs k)) else card (winners args N pcs k))"
proof -
  assume *: "i < N" "succeeded pc" "\<not> succeeded (pcs i)"
  then have "winners args N (pcs(i := pc)) k =
      (if k = create_key (args i) then insert i (winners args N pcs k) else winners args N pcs k)"
    and "i \<notin> winners args N pcs k"
    by (auto simp: winners_def)
  then show ?thesis by (auto simp: card_insert_if)
qed

context versioned_scale
begin

lemma reads_current_step:
  assumes "reads_current R V args N s" and "sys_step S args N s t"
  shows "reads_current R V args N t"
  using assms(2)
proof (cases rule: sys_step.cases)
  case (step i pcs w pc w')
  show ?thesis
  proof (cases "succeeded pc \<and> \<not> succeeded (pcs i)")
    case False
    have same: "R w' = R w \<and> V w' = V w \<or> pc = pcs i \<and> w' = w"
    proof (cases "succeeded (pcs i)")
      case True
      then show ?thesis using step(4) step_done by auto
    next
      case F: False
      then show ?thesis using False step_keeps [OF step(4)] by auto
    qed
    show ?thesis unfolding reads_current_def
      using assms(1) same step step_read [of "args i" "pcs i" w _ _ w']
      by (auto simp: reads_current_def Let_def)
  next
    case True
    then obtain sug sc v where s: "V w (create_key (args i)) = sc_ResourceVersion sc"
      "R w' = (R w)(create_key (args i) := Some (sc_Replicas sc + 1))"
      "V w (create_key (args i)) < v" "V w' = (V w)(create_key (args i) := v)" "pcs i = CRead sug sc"
      using step_succeeds [OF step(4)] by metis
    show ?thesis unfolding reads_current_def
    proof (intro allI impI)
      fix j sug' sc' assume j: "j < N" "fst t j = CRead sug' sc'"
      then have "j \<noteq> i" using True step by (auto simp: succeeded_def)
      then have "let k = create_key (args j) in sc_ResourceVersion sc' \<le> V w k
          \<and> (sc_ResourceVersion sc' = V w k \<longrightarrow> R w k = Some (sc_Replicas sc'))"
        using assms(1) step j by (auto simp: reads_current_def)
      then show "let k = create_key (args j) in sc_ResourceVersion sc' \<le> V (snd t) k
          \<and> (sc_ResourceVersion sc' = V (snd t) k \<longrightarrow> R (snd t) k = Some (sc_Replicas sc'))"
        using s step by (auto simp: Let_def)
    qed
  qed
qed

lemma count_step:
  assumes "reads_current R V args N s" and "sys_step S args N s t"
    and "\<forall>k. R (snd s) k = map_option (\<lambda>r. r + of_nat (card (winners args N (fst s) k))) (R w0 k)"
  shows "R (snd t) k = map_option (\<lambda>r. r + of_nat (card (winners args N (fst t) k))) (R w0 k)"
  using assms(2)
proof (cases rule: sys_step.cases)
  case (step i pcs w pc w')
  show ?thesis
  proof (cases "succeeded pc \<and> \<not> succeeded (pcs i)")
    case False
    then have "succeeded pc = succeeded (pcs i)" and "R w' = R w"
      using step_done [of "pcs i" "args i" w] step_keeps [OF step(4)] step(4) by auto
    then show ?thesis using spec [OF assms(3), of k] step winners_unchanged by simp
  next
    case True
    then obtain sug sc v where s: "V w (create_key (args i)) = sc_ResourceVersion sc"
      "R w' = (R w)(create_key (args i) := Some (sc_Replicas sc + 1))" "pcs i = CRead sug sc"
      using step_succeeds [OF step(4)] by metis
    then have "R w (create_key (args i)) = Some (sc_Replicas sc)"
      using assms(1) step by (auto simp: reads_current_def Let_def)
    then show ?thesis using spec [OF assms(3), of k] step s True winners_grow [of i N pc pcs args k]
      by (auto simp: algebra_simps)
  qed
qed

theorem interleaved_counts:
  "sys_reachable S args N w0 s \<Longrightarrow> reads_current R V args N s \<and>
     (\<forall>k. R (snd s) k = map_option (\<lambda>r. r + of_nat (card (winners args N (fst s) k))) (R w0 k))"
proof (induction rule: sys_reachable.induct)
  case init
  then show ?case by (auto simp: reads_current_def winners_def succeeded_def option.map_ident)
next
  case (more s t)
  then show ?case using reads_current_step count_step by blast
qed

end

end
