(* ===== verification/Suggestion_Json.thy ===== *)
theory Suggestion_Json
  imports Wam_Services
begin

text \<open>
  A codec for suggestions that satisfies the law of the services: the encoder writes what Go's
  \<^verbatim>\<open>encoding/json\<close> (1.22) writes for a struct with the two string fields \<^verbatim>\<open>id\<close> and \<^verbatim>\<open>node_name\<close>, with its
  escapes for quotes, backslashes, control characters and the characters less-than,
  greater-than and ampersand; the decoder reads flat objects of string members with white
  space between tokens.  The round trip is proved for ASCII strings; bytes above 127 are
  outside the domain of the law because Go replaces invalid UTF-8.
\<close>

section \<open>Encoder\<close>

abbreviation quote :: char where "quote \<equiv> CHR 0x22"
abbreviation bslash :: char where "bslash \<equiv> CHR 0x5C"

definition hexdigit :: "nat \<Rightarrow> char" where
  "hexdigit n = char_of (if n < 10 then 48 + n else 87 + n)"

definition json_escape :: "char \<Rightarrow> string" where
  "json_escape c =
     (if c = quote \<or> c = bslash then [bslash, c]
      else if c = CHR 0x08 then [bslash, CHR ''b'']
      else if c = CHR 0x0C then [bslash, CHR ''f'']
      else if c = CHR 0x0A then [bslash, CHR ''n'']
      else if c = CHR 0x0D then [bslash, CHR ''r'']
      else if c = CHR 0x09 then [bslash, CHR ''t'']
      else if (of_char c :: nat) < 32 \<or> c \<in> {CHR ''<'', CHR ''>'', CHR 0x26}
        then bslash # ''u00'' @ [hexdigit (of_char c div 16), hexdigit (of_char c mod 16)]
      else [c])"

definition json_string :: "string \<Rightarrow> string" where
  "json_string s = quote # concat (map json_escape s) @ [quote]"

definition marshal_suggestion :: "SchedulingSuggestion \<Rightarrow> string" where
  "marshal_suggestion sug =
     ''{'' @ json_string ''id'' @ '':'' @ json_string (ss_ID sug) @ '','' @
     json_string ''node_name'' @ '':'' @ json_string (ss_NodeName sug) @ ''}''"

section \<open>Decoder\<close>

definition unhex :: "char \<Rightarrow> nat option" where
  "unhex c = (let n = of_char c :: nat in
     if 48 \<le> n \<and> n < 58 then Some (n - 48)
     else if 97 \<le> n \<and> n < 103 then Some (n - 87)
     else if 65 \<le> n \<and> n < 71 then Some (n - 55) else None)"

definition unescape :: "char \<Rightarrow> char option" where
  "unescape c =
     (if c \<in> {quote, bslash, CHR ''/''} then Some c
      else map_of [(CHR ''b'', CHR 0x08), (CHR ''f'', CHR 0x0C), (CHR ''n'', CHR 0x0A),
                   (CHR ''r'', CHR 0x0D), (CHR ''t'', CHR 0x09)] c)"

text \<open>The characters of a string after its opening quote, and the text after the closing one.\<close>

fun parse_string :: "string \<Rightarrow> (string \<times> string) option" where
  "parse_string [] = None"
| "parse_string [c] = (if c = quote then Some ([], []) else None)"
| "parse_string (c # d # cs) =
     (if c = quote then Some ([], d # cs)
      else if c = bslash then
        (if d = CHR ''u'' then
           (case cs of
              a # b # x # y # rest \<Rightarrow>
                (if a = CHR ''0'' \<and> b = CHR ''0'' then
                   (case (unhex x, unhex y) of
                      (Some hi, Some lo) \<Rightarrow>
                        map_option (\<lambda>(s, r). (char_of (16 * hi + lo) # s, r)) (parse_string rest)
                    | _ \<Rightarrow> None)
                 else None)
            | _ \<Rightarrow> None)
         else (case unescape d of
                 Some e \<Rightarrow> map_option (\<lambda>(s, r). (e # s, r)) (parse_string cs)
               | None \<Rightarrow> None))
      else if (of_char c :: nat) < 32 then None
      else map_option (\<lambda>(s, r). (c # s, r)) (parse_string (d # cs)))"

definition skip_ws :: "string \<Rightarrow> string" where
  "skip_ws s = dropWhile (\<lambda>c. c \<in> {CHR '' '', CHR 0x09, CHR 0x0A, CHR 0x0D}) s"

definition parse_quoted :: "string \<Rightarrow> (string \<times> string) option" where
  "parse_quoted s = (case skip_ws s of [] \<Rightarrow> None | c # cs \<Rightarrow> if c = quote then parse_string cs else None)"

definition expect :: "char \<Rightarrow> string \<Rightarrow> string option" where
  "expect c s = (case skip_ws s of [] \<Rightarrow> None | d # ds \<Rightarrow> if d = c then Some ds else None)"

definition set_field :: "string \<Rightarrow> string \<Rightarrow> SchedulingSuggestion \<Rightarrow> SchedulingSuggestion" where
  "set_field k v sug = (if k = ''id'' then sug\<lparr>ss_ID := v\<rparr> else if k = ''node_name'' then sug\<lparr>ss_NodeName := v\<rparr> else sug)"

fun parse_members :: "nat \<Rightarrow> string \<Rightarrow> SchedulingSuggestion \<Rightarrow> (SchedulingSuggestion \<times> string) option" where
  "parse_members 0 s sug = None"
| "parse_members (Suc n) s sug =
     (case parse_quoted s of
        None \<Rightarrow> None
      | Some (k, s1) \<Rightarrow>
          (case Option.bind (expect (CHR '':'') s1) parse_quoted of
             None \<Rightarrow> None
           | Some (v, s2) \<Rightarrow>
               (case skip_ws s2 of
                  [] \<Rightarrow> None
                | c # s3 \<Rightarrow>
                    if c = CHR '','' then parse_members n s3 (set_field k v sug)
                    else if c = CHR ''}'' then Some (set_field k v sug, s3) else None)))"

definition unmarshal_suggestion :: "string \<Rightarrow> goerror + SchedulingSuggestion" where
  "unmarshal_suggestion s =
     (case Option.bind (expect (CHR ''{'') s) (\<lambda>r. parse_members (length s) r \<lparr>ss_ID = '''', ss_NodeName = ''''\<rparr>) of
        Some (sug, rest) \<Rightarrow> if skip_ws rest = [] then Inr sug else Inl ''invalid character after top-level value''
      | None \<Rightarrow> Inl ''invalid character'')"

section \<open>Round trip\<close>

definition ascii :: "string \<Rightarrow> bool" where
  "ascii s = (\<forall>c \<in> set s. (of_char c :: nat) < 128)"

definition ascii_suggestion :: "SchedulingSuggestion \<Rightarrow> bool" where
  "ascii_suggestion sug = (ascii (ss_ID sug) \<and> ascii (ss_NodeName sug))"

lemma unhex_hexdigit: "n < 16 \<Longrightarrow> unhex (hexdigit n) = Some n"
  by (simp add: unhex_def hexdigit_def Let_def)

lemma of_char_div_mod: "char_of (16 * (of_char c div 16) + of_char c mod 16 :: nat) = c"
  by (metis char_of_char mult_div_mod_eq)

lemma parse_string_escape:
  "rest \<noteq> [] \<Longrightarrow> (of_char c :: nat) < 128 \<Longrightarrow>
     parse_string (json_escape c @ rest) = map_option (\<lambda>(s, r). (c # s, r)) (parse_string rest)"
  by (cases rest) (auto simp: json_escape_def unescape_def unhex_hexdigit of_char_div_mod Let_def)

lemma parse_string_concat:
  "ascii s \<Longrightarrow> parse_string (concat (map json_escape s) @ quote # rest) = Some (s, rest)"
proof (induction s)
  case Nil
  then show ?case by (cases rest) auto
next
  case (Cons c s)
  then have "parse_string (json_escape c @ (concat (map json_escape s) @ quote # rest))
      = map_option (\<lambda>(s, r). (c # s, r)) (parse_string (concat (map json_escape s) @ quote # rest))"
    by (intro parse_string_escape) (auto simp: ascii_def)
  then show ?case using Cons by (simp add: ascii_def)
qed

lemma parse_quoted_json_string:
  "ascii s \<Longrightarrow> parse_quoted (json_string s @ rest) = Some (s, rest)"
  by (simp add: parse_quoted_def json_string_def skip_ws_def parse_string_concat)

lemma unmarshal_marshal_suggestion:
  assumes "ascii_suggestion sug"
  shows "unmarshal_suggestion (marshal_suggestion sug) = Inr sug"
proof -
  define body where "body = json_string ''id'' @ '':'' @ json_string (ss_ID sug) @ '','' @
     json_string ''node_name'' @ '':'' @ json_string (ss_NodeName sug) @ ''}''"
  have a: "ascii ''id''" "ascii ''node_name''" by (simp_all add: ascii_def)
  have b: "ascii (ss_ID sug)" "ascii (ss_NodeName sug)" using assms by (simp_all add: ascii_suggestion_def)
  have "parse_members (Suc (Suc n)) body z = Some (sug, [])" for n z
    unfolding body_def
    by (simp add: parse_quoted_json_string a b expect_def skip_ws_def set_field_def)
  moreover obtain n where "length (marshal_suggestion sug) = Suc (Suc n)"
    by (simp add: marshal_suggestion_def)
  moreover have "marshal_suggestion sug = CHR ''{'' # body"
    by (simp add: marshal_suggestion_def body_def)
  ultimately show ?thesis
    by (simp add: unmarshal_suggestion_def expect_def skip_ws_def del: parse_members.simps)
qed

end
