(* ===== verification/Wam_Cluster.thy ===== *)
theory Wam_Cluster
  imports Wam_Rpc Wam_Plugin Wam_Interleaving Suggestion_Json
begin

text \<open>
  An executable cluster that satisfies the laws of the services: Redis lists, pods, replica
  sets, deployments and versioned scales as finite maps, a clock, a counter for identifiers,
  the events a watch delivers, and the names of the calls that fail.  The locales of the WAM
  theories are interpreted on it, and the witnesses of the WAM properties run on it.
\<close>

record cluster =
  cl_Lists :: "string \<Rightarrow> string list"
  cl_Pods :: "(string \<times> string, v1_Pod) gomap"
  cl_ReplicaSets :: "(string \<times> string, ReplicaSet) gomap"
  cl_Deployments :: "(string \<times> string, Deployment) gomap"
  cl_Scales :: "(string \<times> string, Scale) gomap"
  cl_Events :: "watch_event list"
  cl_Now :: nat
  cl_NextID :: nat
  cl_Down :: "string list"

definition down :: "string \<Rightarrow> cluster \<Rightarrow> bool" where
  "down call w = (call \<in> set (cl_Down w))"

definition clpods :: "cluster \<Rightarrow> string \<times> string \<Rightarrow> v1_Pod option" where
  "clpods w = map_of (cl_Pods w)"

definition clreplicas :: "cluster \<Rightarrow> string \<times> string \<Rightarrow> i32 option" where
  "clreplicas w k = map_option sc_Replicas (map_of (cl_Scales w) k)"

definition clversion :: "cluster \<Rightarrow> string \<times> string \<Rightarrow> nat" where
  "clversion w k = (case map_of (cl_Scales w) k of None \<Rightarrow> 0 | Some s \<Rightarrow> sc_ResourceVersion s)"

definition cl_uuid :: "cluster \<Rightarrow> string \<times> cluster" where
  "cl_uuid w = (''id-'' @ show_nat (cl_NextID w), w\<lparr>cl_NextID := Suc (cl_NextID w)\<rparr>)"

definition cl_lpush :: "string \<Rightarrow> string \<Rightarrow> cluster \<Rightarrow> goerror option \<times> cluster" where
  "cl_lpush q x w = (if down ''LPush'' w then (Some ''connection refused'', w)
     else (None, w\<lparr>cl_Lists := (cl_Lists w)(q := x # cl_Lists w q)\<rparr>))"

definition cl_lrem :: "string \<Rightarrow> int \<Rightarrow> string \<Rightarrow> cluster \<Rightarrow> goerror option \<times> cluster" where
  "cl_lrem q c x w = (if down ''LRem'' w then (Some ''connection refused'', w)
     else if c = 1 then (None, w\<lparr>cl_Lists := (cl_Lists w)(q := remove1 x (cl_Lists w q))\<rparr>)
     else if c = 0 then (None, w\<lparr>cl_Lists := (cl_Lists w)(q := removeAll x (cl_Lists w q))\<rparr>)
     else (Some ''unsupported count'', w))"

definition cl_lpop :: "string \<Rightarrow> cluster \<Rightarrow> lpop_result \<times> cluster" where
  "cl_lpop q w = (if down ''LPop'' w then (RedisErr ''connection refused'', w)
     else (case cl_Lists w q of [] \<Rightarrow> (RedisNil, w)
           | x # xs \<Rightarrow> (Popped x, w\<lparr>cl_Lists := (cl_Lists w)(q := xs)\<rparr>)))"

definition cl_get :: "string \<Rightarrow> (string \<times> string, 'a) gomap \<Rightarrow> string \<Rightarrow> string \<Rightarrow> cluster \<Rightarrow> (goerror + 'a) \<times> cluster" where
  "cl_get call m ns n w = (if down call w then (Inl ''server unavailable'', w)
     else (case map_of m (ns, n) of None \<Rightarrow> (Inl ''not found'', w) | Some x \<Rightarrow> (Inr x, w)))"

definition cl_getpod :: "string \<Rightarrow> string \<Rightarrow> cluster \<Rightarrow> (goerror + v1_Pod) \<times> cluster" where
  "cl_getpod ns n w = (case cl_get ''GetPod'' (cl_Pods w) ns n w of
     (Inl e, w1) \<Rightarrow> (Inl e, w1)
   | (Inr p, w1) \<Rightarrow> if pod_Namespace p = ns \<and> pod_Name p = n then (Inr p, w1) else (Inl ''not found'', w1))"

definition cl_updatepod :: "string \<Rightarrow> v1_Pod \<Rightarrow> cluster \<Rightarrow> goerror option \<times> cluster" where
  "cl_updatepod ns p w = (if down ''UpdatePod'' w then (Some ''server unavailable'', w)
     else (None, w\<lparr>cl_Pods := AList.update (ns, pod_Name p) p (cl_Pods w)\<rparr>))"

definition cl_patch :: "string \<Rightarrow> string \<Rightarrow> string \<Rightarrow> string \<Rightarrow> cluster \<Rightarrow> goerror option \<times> cluster" where
  "cl_patch ns n k v w = (case map_of (cl_Pods w) (ns, n) of
     None \<Rightarrow> (Some ''not found'', w)
   | Some p \<Rightarrow> if down ''PatchPod'' w then (Some ''server unavailable'', w)
               else (None, w\<lparr>cl_Pods := AList.update (ns, n) (set_annotation k v p) (cl_Pods w)\<rparr>))"

definition cl_listpods :: "string \<Rightarrow> (string, string) gomap \<Rightarrow> cluster \<Rightarrow> (goerror + v1_Pod list) \<times> cluster" where
  "cl_listpods ns sel w = (if down ''ListPods'' w then (Inl ''server unavailable'', w)
     else (Inr (filter (\<lambda>p. \<forall>(k, v) \<in> set sel. map_of (pod_Labels p) k = Some v)
                 (map snd (filter (\<lambda>x. fst (fst x) = ns) (cl_Pods w)))), w))"

definition cl_watch :: "string \<Rightarrow> nat \<Rightarrow> cluster \<Rightarrow> (goerror + watch_event list) \<times> cluster" where
  "cl_watch ns t w = (if down ''Watch'' w then (Inl ''server unavailable'', w) else (Inr (cl_Events w), w))"

definition cl_updatescale :: "string \<Rightarrow> string \<Rightarrow> Scale \<Rightarrow> cluster \<Rightarrow> goerror option \<times> cluster" where
  "cl_updatescale ns n s w = (if down ''UpdateScale'' w then (Some ''server unavailable'', w)
     else (case map_of (cl_Scales w) (ns, n) of
             None \<Rightarrow> (Some ''not found'', w)
           | Some cur \<Rightarrow>
               if sc_ResourceVersion cur = sc_ResourceVersion s
               then (None, w\<lparr>cl_Scales := AList.update (ns, n)
                       (s\<lparr>sc_ResourceVersion := Suc (sc_ResourceVersion cur)\<rparr>) (cl_Scales w)\<rparr>)
               else (Some ''the object has been modified'', w)))"

definition cluster_services :: "cluster services" where
  "cluster_services = \<lparr>json_Marshal = marshal_suggestion, json_Unmarshal = unmarshal_suggestion,
     uuid_NewUUID = cl_uuid, rdb_LPush = cl_lpush, rdb_LRem = cl_lrem, rdb_LPop = cl_lpop,
     k_GetPod = cl_getpod, k_UpdatePod = cl_updatepod, k_PatchPodAnnotation = cl_patch,
     k_ListPods = cl_listpods, k_WatchPods = cl_watch,
     k_GetReplicaSet = (\<lambda>ns n w. cl_get ''GetReplicaSet'' (cl_ReplicaSets w) ns n w),
     k_GetDeployment = (\<lambda>ns n w. cl_get ''GetDeployment'' (cl_Deployments w) ns n w),
     k_GetScale = (\<lambda>ns n w. cl_get ''GetScale'' (cl_Scales w) ns n w),
     k_UpdateScale = cl_updatescale,
     t_Now = cl_Now, t_Sleep = (\<lambda>d w. w\<lparr>cl_Now := cl_Now w + d\<rparr>)\<rparr>"

lemmas cl_defs = cl_uuid_def cl_lpush_def cl_lrem_def cl_lpop_def cl_get_def cl_getpod_def cl_updatepod_def
  cl_patch_def cl_listpods_def cl_watch_def cl_updatescale_def clpods_def clreplicas_def clversion_def

lemma cluster_services_sel [simp]:
  "json_Marshal cluster_services = marshal_suggestion"
  "json_Unmarshal cluster_services = unmarshal_suggestion"
  "uuid_NewUUID cluster_services = cl_uuid"
  "rdb_LPush cluster_services = cl_lpush"
  "rdb_LRem cluster_services = cl_lrem"
  "rdb_LPop cluster_services = cl_lpop"
  "k_GetPod cluster_services = cl_getpod"
  "k_UpdatePod cluster_services = cl_updatepod"
  "k_PatchPodAnnotation cluster_services = cl_patch"
  "k_ListPods cluster_services = cl_listpods"
  "k_WatchPods cluster_services = cl_watch"
  "k_GetReplicaSet cluster_services ns n w = cl_get ''GetReplicaSet'' (cl_ReplicaSets w) ns n w"
  "k_GetDeployment cluster_services ns n w = cl_get ''GetDeployment'' (cl_Deployments w) ns n w"
  "k_GetScale cluster_services ns n w = cl_get ''GetScale'' (cl_Scales w) ns n w"
  "k_UpdateScale cluster_services = cl_updatescale"
  "t_Now cluster_services = cl_Now"
  "t_Sleep cluster_services d w = w\<lparr>cl_Now := cl_Now w + d\<rparr>"
  by (simp_all add: cluster_services_def)

section \<open>Interpretations\<close>

interpretation cl: redis_lists cluster_services cl_Lists
  by unfold_locales (auto simp: cl_defs split: if_splits list.splits option.splits sum.splits)

interpretation cl: scale_api cluster_services clreplicas
  by unfold_locales (auto simp: cl_defs fun_eq_iff split: if_splits list.splits option.splits sum.splits)

interpretation cl: pod_api cluster_services clpods
  by unfold_locales (auto simp: cl_defs fun_eq_iff split: if_splits list.splits option.splits sum.splits)

interpretation clb: wam_backend cluster_services cl_Lists clreplicas clpods
  by unfold_locales

interpretation cl: suggestion_codec cluster_services ascii_suggestion
  by unfold_locales (simp add: unmarshal_marshal_suggestion)

interpretation cl: wall_clock cluster_services
  by unfold_locales (auto simp: cl_defs)

lemma cl_get_world: "snd (cl_get call m ns n w) = w"
  by (simp add: cl_get_def split: option.splits)

lemma cl_getpod_world: "snd (cl_getpod ns n w) = w"
  by (simp add: cl_getpod_def cl_get_def split: option.splits)

interpretation clr: stable_reads cluster_services w "\<lambda>ns n. fst (cl_getpod ns n w)"
    "\<lambda>ns n. fst (cl_get ''GetReplicaSet'' (cl_ReplicaSets w) ns n w)"
    "\<lambda>ns n. fst (cl_get ''GetDeployment'' (cl_Deployments w) ns n w)" for w
  by unfold_locales (simp_all add: prod_eq_iff cl_get_world cl_getpod_world)

interpretation clv: versioned_scale cluster_services clreplicas clversion
  by unfold_locales
     (auto simp: cl_defs addSchedulingSuggestion_def removeSchedulingSuggestion_def Let_def fun_eq_iff
        split: if_splits option.splits intro!: exI [of _ "Suc n" for n])

end
