(* ===== verification/Wam_Properties.thy ===== *)
theory Wam_Properties
  imports Wam_Cluster
begin

text \<open>
  The properties of the WAM service and of its scheduler plugin, stated for every record of
  services that satisfies the laws, with witnesses on the executable cluster.
\<close>

section \<open>A small cluster\<close>

text \<open>
  One deployment \<^verbatim>\<open>web\<close> with three replicas, one of them the pod \<^verbatim>\<open>web-1\<close> on node \<^verbatim>\<open>n4\<close>, and a
  deployment \<^verbatim>\<open>db\<close> with the pod \<^verbatim>\<open>db-1\<close> on node \<^verbatim>\<open>n7\<close>.
\<close>

definition ref_rs :: "string \<Rightarrow> OwnerReference" where
  "ref_rs n = \<lparr>or_APIVersion = ''apps/v1'', or_Kind = ''ReplicaSet'', or_Name = n\<rparr>"

definition ref_dep :: "string \<Rightarrow> OwnerReference" where
  "ref_dep n = \<lparr>or_APIVersion = ''apps/v1'', or_Kind = ''Deployment'', or_Name = n\<rparr>"

definition pod_on :: "string \<Rightarrow> string \<Rightarrow> string \<Rightarrow> v1_Pod" where
  "pod_on n rs node = zero_pod\<lparr>pod_Namespace := ''default'', pod_Name := n,
     pod_OwnerReferences := [ref_rs rs], pod_NodeName := node\<rparr>"

definition cl0 :: cluster where
  "cl0 = \<lparr>cl_Lists = (\<lambda>q. []),
     cl_Pods = [((''default'', ''web-1''), pod_on ''web-1'' ''web-rs'' ''n4''),
                ((''default'', ''db-1''), pod_on ''db-1'' ''db-rs'' ''n7'')],
     cl_ReplicaSets = [((''default'', ''web-rs''), \<lparr>rs_OwnerReferences = [ref_dep ''web'']\<rparr>),
                       ((''default'', ''db-rs''), \<lparr>rs_OwnerReferences = [ref_dep ''db'']\<rparr>)],
     cl_Deployments = [((''default'', ''web''), \<lparr>d_StatusReplicas = 3, d_Selector = Some []\<rparr>),
                       ((''default'', ''db''), \<lparr>d_StatusReplicas = 1, d_Selector = Some []\<rparr>)],
     cl_Scales = [((''default'', ''web''), \<lparr>sc_ResourceVersion = 7, sc_Replicas = 3\<rparr>),
                  ((''default'', ''db''), \<lparr>sc_ResourceVersion = 2, sc_Replicas = 1\<rparr>)],
     cl_Events = [], cl_Now = 0, cl_NextID = 0, cl_Down = []\<rparr>"

definition create_web :: CreateArgs where
  "create_web = \<lparr>ca_Workload = \<lparr>wl_Namespace = ''default'', wl_APIVersion = ''apps/v1'',
     wl_Kind = ''Deployment'', wl_Name = ''web''\<rparr>, ca_Node = \<lparr>n_Name = ''n7''\<rparr>\<rparr>"

definition sug0 :: SchedulingSuggestion where
  "sug0 = \<lparr>ss_ID = ''id-0'', ss_NodeName = ''n7''\<rparr>"

definition cl1 :: cluster where
  "cl1 = cl0\<lparr>cl_NextID := 1,
     cl_Lists := (\<lambda>q. [])(QueueName (ca_Workload create_web) := [marshal_suggestion sug0]),
     cl_Scales := [((''default'', ''web''), \<lparr>sc_ResourceVersion = 8, sc_Replicas = 4\<rparr>),
                   ((''default'', ''db''), \<lparr>sc_ResourceVersion = 2, sc_Replicas = 1\<rparr>)]\<rparr>"

lemmas ex_defs = cl0_def create_web_def sug0_def cl1_def ref_rs_def ref_dep_def pod_on_def
lemmas cl_eval = cl_uuid_def cl_lpush_def cl_lrem_def cl_lpop_def cl_get_def cl_getpod_def cl_updatepod_def
  cl_patch_def cl_listpods_def cl_watch_def cl_updatescale_def down_def
lemmas create_eval = CreateHandler_def addSchedulingSuggestion_def removeSchedulingSuggestion_def Let_def

lemma show_nat_0 [simp]: "show_nat 0 = ''0''" "show_nat (Suc 0) = ''1''"
  by code_simp+

lemma create_cl0: "CreateHandler cluster_services (Some create_web) cl0 = (Ret (Some sug0, None), cl1)"
  by (simp add: create_eval cl_eval ex_defs)

section \<open>Create\<close>

text \<open>C1: A create that reports a suggestion has pushed exactly that suggestion, for the wanted node,
  to the head of the queue of its workload, has incremented the replica count of its
  deployment by one, and has changed no other queue and no other deployment.\<close>

theorem create_commits:
  assumes "wam_backend S Q R P"
    and "CreateHandler S (Some args) w = (Ret (Some sug, err), w')"
  shows "err = None \<and> ss_NodeName sug = n_Name (ca_Node args)
    \<and> Q w' = (Q w)(QueueName (ca_Workload args) := json_Marshal S sug # Q w (QueueName (ca_Workload args)))
    \<and> (\<exists>r. R w (wl_Namespace (ca_Workload args), wl_Name (ca_Workload args)) = Some r
        \<and> R w' = (R w)((wl_Namespace (ca_Workload args), wl_Name (ca_Workload args)) := Some (r + 1)))"
  using wam_backend.CreateHandler_success [OF assms] .

theorem create_commits_witness:
  "ss_NodeName sug0 = ''n7'' \<and> clreplicas cl1 = (clreplicas cl0)((''default'', ''web'') := Some 4)"
  using create_commits [OF clb.wam_backend_axioms create_cl0]
  by (auto simp: create_web_def clreplicas_def cl0_def split: if_splits)

text \<open>C2: A create that reports no suggestion has changed no replica count, and all queues are as
  before, except when the removal of the pushed suggestion failed; then an error is
  reported and the suggestion is still at the head of the queue.\<close>

theorem create_rolls_back:
  assumes "wam_backend S Q R P"
    and "CreateHandler S (Some args) w = (Ret (None, err), w')"
  shows "R w' = R w \<and> (Q w' = Q w \<or> (\<exists>sug e. err = Some e \<and>
    Q w' = (Q w)(QueueName (ca_Workload args) := json_Marshal S sug # Q w (QueueName (ca_Workload args)))))"
  using wam_backend.CreateHandler_failure [OF assms] .

definition cl_noscale :: cluster where
  "cl_noscale = cl0\<lparr>cl_Down := [''UpdateScale'']\<rparr>"

lemma create_cl_noscale:
  "CreateHandler cluster_services (Some create_web) cl_noscale = (Ret (None, None), cl_noscale\<lparr>cl_NextID := 1\<rparr>)"
  by (simp add: create_eval cl_eval ex_defs cl_noscale_def fun_eq_iff)

theorem create_rolls_back_witness:
  "clreplicas (cl_noscale\<lparr>cl_NextID := 1\<rparr>) = clreplicas cl_noscale
   \<and> cl_Lists (cl_noscale\<lparr>cl_NextID := 1\<rparr>) = cl_Lists cl_noscale"
  using create_rolls_back [OF clb.wam_backend_axioms create_cl_noscale] by simp

text \<open>When reading the scale fails after the suggestion was pushed, the error that the handler
  returns is the error of removing the suggestion: a successful removal makes the failed
  create report no error, together with a nil suggestion.\<close>

theorem create_masks_scale_error:
  assumes "addSchedulingSuggestion S (QueueName (ca_Workload args)) (n_Name (ca_Node args)) w = ((sug, None), w1)"
    and "k_GetScale S (wl_Namespace (ca_Workload args)) (wl_Name (ca_Workload args)) w1 = (Inl e, w2)"
    and "removeSchedulingSuggestion S (QueueName (ca_Workload args)) sug w2 = (err, w3)"
  shows "CreateHandler S (Some args) w = (Ret (None, err), w3)"
  using CreateHandler_get_scale_failed [OF assms(1,2)] assms(3) by simp

theorem create_masks_scale_error_witness:
  "fst (CreateHandler cluster_services (Some create_web) (cl0\<lparr>cl_Down := [''GetScale'']\<rparr>)) = Ret (None, None)"
proof -
  let ?q = "QueueName (ca_Workload create_web)"
  let ?w = "cl0\<lparr>cl_Down := [''GetScale'']\<rparr>"
  let ?w1 = "?w\<lparr>cl_NextID := 1, cl_Lists := (\<lambda>q. [])(?q := [marshal_suggestion sug0])\<rparr>"
  have 1: "addSchedulingSuggestion cluster_services ?q (n_Name (ca_Node create_web)) ?w = ((sug0, None), ?w1)"
    by (simp add: create_eval cl_eval ex_defs)
  have 2: "k_GetScale cluster_services (wl_Namespace (ca_Workload create_web)) (wl_Name (ca_Workload create_web)) ?w1
      = (Inl ''server unavailable'', ?w1)"
    by (simp add: cl_eval ex_defs)
  have 3: "removeSchedulingSuggestion cluster_services ?q sug0 ?w1 =
      (None, ?w1\<lparr>cl_Lists := (cl_Lists ?w1)(?q := [])\<rparr>)"
    by (simp add: create_eval cl_eval ex_defs)
  show ?thesis using create_masks_scale_error [OF 1 2 3] by simp
qed

text \<open>For workloads whose namespace, version and kind contain no colon, two workloads have the
  same queue exactly when they are equal.\<close>

theorem queue_per_workload:
  assumes "colon_free a" and "colon_free b"
  shows "QueueName a = QueueName b \<longleftrightarrow> a = b"
  using QueueName_eq_iff [OF assms] .

theorem queue_per_workload_witness:
  "QueueName (ca_Workload create_web) \<noteq> QueueName ((ca_Workload create_web)\<lparr>wl_Name := ''db''\<rparr>)"
  using queue_per_workload [of "ca_Workload create_web" "(ca_Workload create_web)\<lparr>wl_Name := ''db''\<rparr>"]
  by (simp add: colon_free_def create_web_def)

section \<open>Interleaved creates\<close>

text \<open>Cutting the create handler at its service calls and running the steps of one request gives
  the result and the final world of the handler; four steps always finish.\<close>

theorem create_handler_is_its_steps:
  "CreateHandler S (Some args) w = (Ret r, w') \<longleftrightarrow> create_run 4 S args CStart w = (CDone r, w')"
  by (rule create_run_CreateHandler)

text \<open>C3: However the steps of any number of create requests interleave, with an API server that refuses
  stale scale updates every deployment has at every moment the replicas it had at the
  start plus the number of successful requests for it: no increment is lost.\<close>

theorem interleaved_creates_lose_nothing:
  assumes "versioned_scale S R V" and "sys_reachable S args N w0 (pcs, w)"
  shows "R w k = map_option (\<lambda>r. r + of_nat (card {i. i < N \<and> create_key (args i) = k \<and> succeeded (pcs i)})) (R w0 k)"
  using versioned_scale.interleaved_counts [OF assms] unfolding winners_def by (metis snd_conv fst_conv)

theorem interleaved_creates_lose_nothing_witness:
  "clreplicas cl1 (''default'', ''web'') =
     map_option (\<lambda>r. r + of_nat (card {i. i < (2::nat) \<and> create_key create_web = (''default'', ''web'')
        \<and> succeeded (((\<lambda>i. CStart)(0 := CDone (Some sug0, None))) i)})) (clreplicas cl0 (''default'', ''web''))"
proof -
  have "create_run 4 cluster_services create_web CStart cl0 = (CDone (Some sug0, None), cl1)"
    using create_run_CreateHandler [THEN iffD1, OF create_cl0] .
  then have "sys_reachable cluster_services (\<lambda>i. create_web) 2 cl0 ((\<lambda>i. CStart)(0 := CDone (Some sug0, None)), cl1)"
    by (intro sys_reachable_run [OF _ sys_reachable.init]) simp_all
  from interleaved_creates_lose_nothing [OF clv.versioned_scale_axioms this] show ?thesis .
qed

section \<open>From the suggestion to the node\<close>

text \<open>The workload that the plugin reconstructs from a pod and its deployment.\<close>

definition workload_of :: "v1_Pod \<Rightarrow> OwnerReference \<Rightarrow> Workload" where
  "workload_of pod d = \<lparr>wl_Namespace = pod_Namespace pod, wl_APIVersion = or_APIVersion d,
     wl_Kind = or_Kind d, wl_Name = or_Name d\<rparr>"

lemma queueName_workload_of: "queueName d (pod_Namespace pod) = QueueName (workload_of pod d)"
  by (simp add: workload_of_def queueName_QueueName)

lemma PreFilter_head:
  assumes "wam_backend S Q R P" and "suggestion_codec S ok" and "ok sug"
    and "getDeploymentName S pod w = (Inr d, w1)" and "PreFilter S state pod w = ((st, state'), w')"
    and "status_Code st \<noteq> Error" and "Q w (QueueName (workload_of pod d)) = json_Marshal S sug # xs"
  shows "IsSuccess st \<and> (\<forall>n. IsSuccess (Filter state' n) \<longleftrightarrow> n = ss_NodeName sug)
    \<and> Q w' = (Q w)(QueueName (workload_of pod d) := xs)"
  using wam_backend.PreFilter_queue [OF assms(1,4,5)] suggestion_codec.unmarshal_marshal [OF assms(2,3)] assms(6,7)
  by (auto simp: queueName_workload_of IsSuccess_def [of st] Filter_suggestion)

text \<open>C4: After a successful create, the next pod of that deployment whose PreFilter does not report an
  error is admitted by Filter on the requested node and on no other node, and the queues
  are again as they were before the create.\<close>

theorem suggestion_reaches_filter:
  assumes "wam_backend S Q R P" and "suggestion_codec S ok"
    and "CreateHandler S (Some args) w = (Ret (Some sug, None), w1)" and "ok sug"
    and "getDeploymentName S pod w1 = (Inr d, w2)" and "ca_Workload args = workload_of pod d"
    and "PreFilter S state pod w1 = ((st, state'), w3)" and "status_Code st \<noteq> Error"
  shows "IsSuccess st \<and> (\<forall>n. IsSuccess (Filter state' n) \<longleftrightarrow> n = n_Name (ca_Node args)) \<and> Q w3 = Q w"
proof -
  note c = wam_backend.CreateHandler_success [OF assms(1,3)]
  then have "Q w1 (QueueName (workload_of pod d)) = json_Marshal S sug # Q w (QueueName (workload_of pod d))"
    using assms(6) by simp
  note f = PreFilter_head [OF assms(1,2,4,5,7,8) this]
  have "Q w3 = Q w"
    using f c assms(6) by (metis fun_upd_triv fun_upd_upd)
  then show ?thesis using f c by simp
qed

definition web_pod :: v1_Pod where
  "web_pod = pod_on ''web-4'' ''web-rs'' ''''"

lemmas plugin_eval = PreFilter_def getDeploymentName_def

lemma ascii_sug0: "ascii_suggestion sug0"
  by (simp add: ascii_suggestion_def ascii_def sug0_def)

lemma dep_of_web_pod: "getDeploymentName cluster_services web_pod cl1 = (Inr (ref_dep ''web''), cl1)"
  by (simp add: plugin_eval cl_eval ex_defs web_pod_def)

lemma queueName_web: "queueName (ref_dep ''web'') (pod_Namespace web_pod) = QueueName (ca_Workload create_web)"
  by (simp add: queueName_def QueueName_def create_web_def ref_dep_def web_pod_def pod_on_def)

lemma prefilter_web_pod:
  "PreFilter cluster_services [] web_pod cl1 =
     ((NewStatus Success '''', [(schedulingSuggestionKey, SuggestionData (Some sug0))]),
      cl1\<lparr>cl_Lists := (cl_Lists cl1)(QueueName (ca_Workload create_web) := [])\<rparr>)"
proof -
  have "cl_Lists cl1 (QueueName (ca_Workload create_web)) = [marshal_suggestion sug0]" by (simp add: cl1_def)
  moreover have "\<not> down ''LPop'' cl1" by (simp add: down_def cl1_def cl0_def)
  ultimately show ?thesis
    using dep_of_web_pod unmarshal_marshal_suggestion [OF ascii_sug0]
    by (simp add: PreFilter_def queueName_web cl_lpop_def)
qed

theorem suggestion_reaches_filter_witness:
  "\<forall>n. IsSuccess (Filter [(schedulingSuggestionKey, SuggestionData (Some sug0))] n) \<longleftrightarrow> n = ''n7''"
  using suggestion_reaches_filter [OF clb.wam_backend_axioms cl.suggestion_codec_axioms create_cl0 ascii_sug0
      dep_of_web_pod _ prefilter_web_pod]
  by (simp add: workload_of_def create_web_def ref_dep_def web_pod_def pod_on_def)

text \<open>C5: Suggestions of one workload are used last in, first out: after two creates the first pod
  scheduled gets the node of the second request and the second pod that of the first.\<close>

theorem suggestions_last_in_first_out:
  assumes "wam_backend S Q R P" and "suggestion_codec S ok"
    and "CreateHandler S (Some a1) w = (Ret (Some s1, None), w1)" and "ok s1"
    and "CreateHandler S (Some a2) w1 = (Ret (Some s2, None), w2)" and "ok s2"
    and "getDeploymentName S p1 w2 = (Inr d1, v1)" and "ca_Workload a1 = workload_of p1 d1" and "ca_Workload a2 = workload_of p1 d1"
    and "PreFilter S st p1 w2 = ((r1, st1), w3)" and "status_Code r1 \<noteq> Error"
    and "getDeploymentName S p2 w3 = (Inr d2, v2)" and "workload_of p2 d2 = workload_of p1 d1"
    and "PreFilter S st' p2 w3 = ((r2, st2), w4)" and "status_Code r2 \<noteq> Error"
  shows "(\<forall>n. IsSuccess (Filter st1 n) \<longleftrightarrow> n = n_Name (ca_Node a2))
    \<and> (\<forall>n. IsSuccess (Filter st2 n) \<longleftrightarrow> n = n_Name (ca_Node a1)) \<and> Q w4 = Q w"
proof -
  let ?q = "QueueName (workload_of p1 d1)"
  note c1 = wam_backend.CreateHandler_success [OF assms(1,3)] and c2 = wam_backend.CreateHandler_success [OF assms(1,5)]
  have Q2: "Q w2 ?q = json_Marshal S s2 # json_Marshal S s1 # Q w ?q"
    using c1 c2 assms(8,9) by simp
  note f1 = PreFilter_head [OF assms(1,2,6,7,10,11) Q2]
  have "Q w3 (QueueName (workload_of p2 d2)) = json_Marshal S s1 # Q w ?q" using f1 assms(13) by simp
  note f2 = PreFilter_head [OF assms(1,2,4,12,14,15) this]
  have "Q w2 = (Q w)(?q := Q w2 ?q)" using c1 c2 assms(8,9) by (metis fun_upd_same fun_upd_upd)
  then have "Q w4 = Q w" using f1 f2 assms(13) by (metis fun_upd_triv fun_upd_upd)
  then show ?thesis using f1 f2 c1 c2 by simp
qed

definition create_web4 :: CreateArgs where
  "create_web4 = create_web\<lparr>ca_Node := \<lparr>n_Name = ''n4''\<rparr>\<rparr>"

definition sug1 :: SchedulingSuggestion where
  "sug1 = \<lparr>ss_ID = ''id-1'', ss_NodeName = ''n4''\<rparr>"

definition web_queue :: "SchedulingSuggestion list \<Rightarrow> string \<Rightarrow> string list" where
  "web_queue sugs = (\<lambda>q. [])(QueueName (ca_Workload create_web) := map marshal_suggestion sugs)"

definition cl2 :: cluster where
  "cl2 = cl1\<lparr>cl_NextID := 2, cl_Lists := web_queue [sug1, sug0],
     cl_Scales := [((''default'', ''web''), \<lparr>sc_ResourceVersion = 9, sc_Replicas = 5\<rparr>),
                   ((''default'', ''db''), \<lparr>sc_ResourceVersion = 2, sc_Replicas = 1\<rparr>)]\<rparr>"

lemma create_cl1: "CreateHandler cluster_services (Some create_web4) cl1 = (Ret (Some sug1, None), cl2)"
  by (simp add: create_eval cl_eval ex_defs create_web4_def sug1_def cl2_def web_queue_def)

lemma prefilter_cl2:
  assumes "ascii_suggestion s"
  shows "getDeploymentName cluster_services web_pod (cl2\<lparr>cl_Lists := web_queue (s # ss)\<rparr>)
      = (Inr (ref_dep ''web''), cl2\<lparr>cl_Lists := web_queue (s # ss)\<rparr>)"
    and "PreFilter cluster_services [] web_pod (cl2\<lparr>cl_Lists := web_queue (s # ss)\<rparr>) =
      ((NewStatus Success '''', [(schedulingSuggestionKey, SuggestionData (Some s))]),
       cl2\<lparr>cl_Lists := web_queue ss\<rparr>)"
proof -
  let ?c = "cl2\<lparr>cl_Lists := web_queue (s # ss)\<rparr>"
  show d: "getDeploymentName cluster_services web_pod ?c = (Inr (ref_dep ''web''), ?c)"
    by (simp add: plugin_eval cl_eval ex_defs web_pod_def cl2_def)
  have "\<not> down ''LPop'' ?c" by (simp add: down_def cl2_def cl1_def cl0_def)
  then show "PreFilter cluster_services [] web_pod ?c =
      ((NewStatus Success '''', [(schedulingSuggestionKey, SuggestionData (Some s))]), cl2\<lparr>cl_Lists := web_queue ss\<rparr>)"
    using d unmarshal_marshal_suggestion [OF assms]
    by (simp add: PreFilter_def queueName_web cl_lpop_def web_queue_def)
qed

theorem suggestions_last_in_first_out_witness:
  "(\<forall>n. IsSuccess (Filter [(schedulingSuggestionKey, SuggestionData (Some sug1))] n) \<longleftrightarrow> n = ''n4'')
   \<and> (\<forall>n. IsSuccess (Filter [(schedulingSuggestionKey, SuggestionData (Some sug0))] n) \<longleftrightarrow> n = ''n7'')"
proof -
  have a1: "ascii_suggestion sug1" by (simp add: ascii_suggestion_def ascii_def sug1_def)
  have e: "cl2\<lparr>cl_Lists := web_queue [sug1, sug0]\<rparr> = cl2" by (simp add: cl2_def)
  have m: "ca_Workload create_web = workload_of web_pod (ref_dep ''web'')"
    "ca_Workload create_web4 = workload_of web_pod (ref_dep ''web'')"
    by (simp_all add: workload_of_def create_web_def create_web4_def ref_dep_def web_pod_def pod_on_def)
  note p1 = prefilter_cl2 [OF a1, of "[sug0]", unfolded e] and p2 = prefilter_cl2 [OF ascii_sug0, of "[]"]
  show ?thesis
    using suggestions_last_in_first_out [OF clb.wam_backend_axioms cl.suggestion_codec_axioms create_cl0 ascii_sug0
        create_cl1 a1 p1(1) m p1(2) _ p2(1) refl p2(2)]
    by (simp add: create_web_def create_web4_def)
qed

text \<open>The plugin and the service resolve a pod to the same deployment, from the same reads.\<close>

theorem plugin_and_service_agree:
  "getDeploymentName S pod w = (Inr d, w') \<longleftrightarrow> getPodsDeployment S pod w = (Inr d, w')"
  by (rule getDeploymentName_iff)

section \<open>Delete\<close>

text \<open>However its calls fail, a delete leaves the queues alone, takes at most one replica off one
  deployment of the pod's namespace, and changes no pod but the named one, to which it only
  adds the deletion-cost annotation.\<close>

theorem delete_touches_little:
  assumes "wam_backend S Q R P" and "DeleteHandler S args w = (r, w')"
  shows "Q w' = Q w
    \<and> (R w' = R w \<or> (\<exists>d n. R w (p_Namespace (da_Pod args), d) = Some n
         \<and> R w' = (R w)((p_Namespace (da_Pod args), d) := Some (n - 1))))
    \<and> (P w' = P w \<or> (\<exists>p. P w (p_Namespace (da_Pod args), p_Name (da_Pod args)) = Some p
         \<and> P w' = (P w)((p_Namespace (da_Pod args), p_Name (da_Pod args)) :=
             Some (set_annotation ''controller.kubernetes.io/pod-deletion-cost'' ''-1000'' p))))"
  using wam_backend.DeleteHandler_frame [OF assms] by (simp add: at_most_one_less_def marked_only_def)

definition delete_web1 :: DeleteArgs where
  "delete_web1 = \<lparr>da_Pod = \<lparr>p_Namespace = ''default'', p_Name = ''web-1''\<rparr>\<rparr>"

definition cl0_marked :: cluster where
  "cl0_marked = cl0\<lparr>cl_Pods := AList.update (''default'', ''web-1'')
     (set_annotation ''controller.kubernetes.io/pod-deletion-cost'' ''-1000'' (pod_on ''web-1'' ''web-rs'' ''n4'')) (cl_Pods cl0)\<rparr>"

definition cl0_deleted :: cluster where
  "cl0_deleted = cl0_marked\<lparr>cl_Scales := [((''default'', ''web''), \<lparr>sc_ResourceVersion = 8, sc_Replicas = 2\<rparr>),
                   ((''default'', ''db''), \<lparr>sc_ResourceVersion = 2, sc_Replicas = 1\<rparr>)]\<rparr>"

lemmas delete_eval = DeleteHandler_def getPodsDeployment_def delete_web1_def cl0_marked_def cl0_deleted_def Let_def

lemma delete_cl0: "DeleteHandler cluster_services delete_web1 cl0 = (Ret (), cl0_deleted)"
  by (simp add: delete_eval cl_eval ex_defs)

theorem delete_touches_little_witness: "cl_Lists cl0_deleted = cl_Lists cl0"
  using delete_touches_little [OF clb.wam_backend_axioms delete_cl0] by simp

text \<open>C6: When every call succeeds, the pod carries the deletion-cost annotation and the replica
  count of its deployment is one lower (in 32-bit arithmetic).\<close>

theorem delete_decrements:
  assumes "wam_backend S Q R P"
    and "k_GetPod S (p_Namespace (da_Pod args)) (p_Name (da_Pod args)) w = (Inr pod, w1)"
    and "getPodsDeployment S pod w1 = (Inr dep, w2)"
    and "k_UpdatePod S (p_Namespace (da_Pod args)) (set_annotation deletion_cost ''-1000'' pod) w2 = (None, w3)"
    and "k_GetScale S (p_Namespace (da_Pod args)) (or_Name dep) w3 = (Inr scale, w4)"
    and "k_UpdateScale S (p_Namespace (da_Pod args)) (or_Name dep)
           (scale\<lparr>sc_Replicas := sc_Replicas scale - 1\<rparr>) w4 = (None, w5)"
  shows "DeleteHandler S args w = (Ret (), w5)
    \<and> R w (p_Namespace (da_Pod args), or_Name dep) = Some (sc_Replicas scale)
    \<and> R w5 = (R w)((p_Namespace (da_Pod args), or_Name dep) := Some (sc_Replicas scale - 1))
    \<and> P w5 = (P w)((p_Namespace (da_Pod args), p_Name (da_Pod args)) :=
        Some (set_annotation deletion_cost ''-1000'' pod))"
  using wam_backend.DeleteHandler_effect [OF assms] .

theorem delete_decrements_witness:
  "clreplicas cl0 (''default'', ''web'') = Some 3
   \<and> clreplicas cl0_deleted = (clreplicas cl0)((''default'', ''web'') := Some 2)"
proof -
  have 1: "k_GetPod cluster_services ''default'' ''web-1'' cl0 = (Inr (pod_on ''web-1'' ''web-rs'' ''n4''), cl0)"
    "getPodsDeployment cluster_services (pod_on ''web-1'' ''web-rs'' ''n4'') cl0 = (Inr (ref_dep ''web''), cl0)"
    "k_UpdatePod cluster_services ''default'' (set_annotation deletion_cost ''-1000'' (pod_on ''web-1'' ''web-rs'' ''n4'')) cl0
       = (None, cl0_marked)"
    "k_GetScale cluster_services ''default'' (or_Name (ref_dep ''web'')) cl0_marked
       = (Inr \<lparr>sc_ResourceVersion = 7, sc_Replicas = 3\<rparr>, cl0_marked)"
    "k_UpdateScale cluster_services ''default'' (or_Name (ref_dep ''web'')) \<lparr>sc_ResourceVersion = 7, sc_Replicas = 2\<rparr> cl0_marked
       = (None, cl0_deleted)"
    by (simp_all add: delete_eval cl_eval ex_defs)
  show ?thesis
    using delete_decrements [OF clb.wam_backend_axioms, of delete_web1 cl0 "pod_on ''web-1'' ''web-rs'' ''n4''" cl0
        "ref_dep ''web''" cl0 cl0_marked "\<lparr>sc_ResourceVersion = 7, sc_Replicas = 3\<rparr>" cl0_marked cl0_deleted] 1
    by (simp add: delete_web1_def ref_dep_def)
qed

end
