(* ===== verification/Wam_Move_Properties.thy ===== *)
theory Wam_Move_Properties
  imports Wam_Properties
begin

text \<open>
  The properties of the move and swap actions and of the RPC methods, with witnesses on the
  executable cluster.
\<close>

section \<open>Move\<close>

text \<open>C7: Waiting for the new pod is decided by the number of watch events that show a ready pod with
  the suggestion's id: none, the wait times out with an error; one, the wait succeeds; two
  or more, the process panics because the channel is closed twice.\<close>

theorem wait_to_be_ready:
  assumes "k_WatchPods S ns t w = (Inr evs, w1)"
  shows "waitToBeReady S ns (Some sug) t w =
    (case length (filter (ready_event (ss_ID sug)) evs) of
       0 \<Rightarrow> (Ret (Some (''waiting for pod with '' @ ss_ID sug @ '' exceeded timeout'')), w1)
     | Suc 0 \<Rightarrow> (Ret None, w1)
     | _ \<Rightarrow> (Panic ''close of closed channel'', w1))"
  using assms by (auto simp: waitToBeReady_def watch_goroutine_open split: list.splits)

definition ready_pod :: v1_Pod where
  "ready_pod = (pod_on ''web-4'' ''web-rs'' ''n7'')\<lparr>
     pod_Annotations := Some [(suggestion_id_annotation, ''id-0'')],
     pod_Conditions := [\<lparr>pc_Type = ''Ready'', pc_Status = ''True'', pc_LastTransitionTime = 0\<rparr>]\<rparr>"

definition ready_ev :: watch_event where
  "ready_ev = \<lparr>we_Type = ''MODIFIED'', we_Object = Some ready_pod\<rparr>"

lemma ready_ev_ready: "ready_event (ss_ID sug0) ready_ev"
  by (simp add: ready_event_def ready_ev_def ready_pod_def sug0_def hasSchedulingSuggestionID_def annotation_def
      isPodReady_def)

lemma watch_events: "k_WatchPods cluster_services ns t (cl1\<lparr>cl_Events := evs\<rparr>) = (Inr evs, cl1\<lparr>cl_Events := evs\<rparr>)"
  by (simp add: cl_watch_def down_def cl1_def cl0_def)

theorem wait_to_be_ready_witness:
  "fst (waitToBeReady cluster_services ''default'' (Some sug0) 300 (cl1\<lparr>cl_Events := [ready_ev, ready_ev]\<rparr>))
     = Panic ''close of closed channel''
   \<and> fst (waitToBeReady cluster_services ''default'' (Some sug0) 300 (cl1\<lparr>cl_Events := [ready_ev]\<rparr>)) = Ret None"
  by (simp add: wait_to_be_ready [OF watch_events] ready_ev_ready)


definition move_web1 :: MoveArgs where
  "move_web1 = \<lparr>ma_Pod = \<lparr>p_Namespace = ''default'', p_Name = ''web-1''\<rparr>, ma_Node = \<lparr>n_Name = ''n7''\<rparr>\<rparr>"

lemma move_args_cl0: "move_toCreateArgs cluster_services move_web1 cl0 = (Inr create_web, cl0)"
  by (simp add: move_toCreateArgs_def getPodsDeployment_def cl_eval ex_defs move_web1_def)



text \<open>C9: When the create step of a move succeeded and the wait step returned, with or without an
  error, the deployment has one more replica, a suggestion for the wanted node was pushed, and
  the move goes on to delete the old pod.\<close>

theorem move_deletes_after_wait:
  assumes "wam_backend S Q R P" and "move_toCreateArgs S args w = (Inr ca, w1)"
    and "CreateHandler S (Some ca) w1 = (Ret (Some sug, None), w2)"
    and "waitToBeReady S (p_Namespace (ma_Pod args)) (Some sug) 300 w2 = (Ret err, w3)"
  shows "MoveHandler S args w = DeleteHandler S \<lparr>da_Pod = ma_Pod args\<rparr> w3
    \<and> ss_NodeName sug = n_Name (ma_Node args)
    \<and> Q w2 = (Q w)(QueueName (ca_Workload ca) := json_Marshal S sug # Q w (QueueName (ca_Workload ca)))
    \<and> (\<exists>n. R w (p_Namespace (ma_Pod args), wl_Name (ca_Workload ca)) = Some n
        \<and> R w2 = (R w)((p_Namespace (ma_Pod args), wl_Name (ca_Workload ca)) := Some (n + 1)))"
  using MoveHandler_deletes_after_timeout [OF assms(2-4)] wam_backend.CreateHandler_success [OF assms(1,3)]
    wam_backend.move_toCreateArgs_frame [OF assms(1,2)] move_toCreateArgs_workload [OF assms(2)]
  by (simp add: move_toDeleteArgs_def)

theorem move_deletes_after_wait_witness:
  "MoveHandler cluster_services move_web1 cl0 = DeleteHandler cluster_services delete_web1 cl1"
proof -
  have "waitToBeReady cluster_services ''default'' (Some sug0) 300 cl1 =
      (Ret (Some (''waiting for pod with '' @ ss_ID sug0 @ '' exceeded timeout'')), cl1)"
    by (simp add: waitToBeReady_def cl_watch_def down_def cl1_def cl0_def)
  then show ?thesis
    using move_deletes_after_wait [OF clb.wam_backend_axioms move_args_cl0 create_cl0]
    by (simp add: move_web1_def delete_web1_def)
qed

section \<open>Swap\<close>

text \<open>C10: The swap handler always returns: its polling loop ends after at most ten sleeps.\<close>

theorem swap_returns:
  assumes "wall_clock S"
  shows "\<exists>r w'. SwapHandler S args w = (r, w') \<and> r \<noteq> Ret None"
  using wall_clock.SwapHandler_returns [OF assms, of args w] by (metis prod.collapse)

theorem swap_returns_witness: "\<exists>r w'. SwapHandler cluster_services \<lparr>sa_X = da_Pod delete_web1, sa_Y = []\<rparr> cl0 = (r, w') \<and> r \<noteq> Ret None"
  using swap_returns [OF cl.wall_clock_axioms, of "\<lparr>sa_X = da_Pod delete_web1, sa_Y = []\<rparr>" cl0] .

text \<open>A swap that gives up while it reads the pods or prepares the create requests has changed
  no queue, no replica count and no pod.\<close>

theorem swap_abort_changes_nothing:
  assumes "wam_backend S Q R P"
    and "swap_scan S 0 (sa_X args # sa_Y args) swap_init w = (Ret sr, w1)"
    and "sr = None \<or> (\<exists>st e w2. sr = Some st \<and>
           swap_createArgs S 0 (sa_X args # sa_Y args) (sw_nodeX st) (sw_nodeY st) w1 = (Inl e, w2))"
    and "SwapHandler S args w = (r, w')"
  shows "r = Ret (Some ()) \<and> Q w' = Q w \<and> R w' = R w \<and> P w' = P w"
  using wam_backend.SwapHandler_abort_frame [OF assms] .

definition swap_gone :: SwapArgs where
  "swap_gone = \<lparr>sa_X = \<lparr>p_Namespace = ''default'', p_Name = ''web-1''\<rparr>,
     sa_Y = [\<lparr>p_Namespace = ''default'', p_Name = ''gone''\<rparr>]\<rparr>"

lemmas swap_eval = swap_scan_pod_def swap_node_def swap_target_def swap_init_def getPodsDeployment_def
  gm_has_map_of gm_get_def Let_def

lemma swap_scan_gone: "swap_scan cluster_services 0 (sa_X swap_gone # sa_Y swap_gone) swap_init cl0 = (Ret None, cl0)"
  by (simp add: swap_eval cl_eval ex_defs swap_gone_def)

theorem swap_abort_changes_nothing_witness:
  "fst (SwapHandler cluster_services swap_gone cl0) = Ret (Some ())"
proof -
  obtain r w' where e: "SwapHandler cluster_services swap_gone cl0 = (r, w')" by fastforce
  show ?thesis
    using swap_abort_changes_nothing [OF clb.wam_backend_axioms swap_scan_gone _ e] e by simp
qed

text \<open>C11: When nothing else changes the cluster while the pods are read, a completed scan has for
  every deployment involved the target of its current replicas minus the number of listed
  pods that belong to it, the node of X, and a node of Y that all scheduled pods of Y share.\<close>

theorem swap_scan_spec:
  assumes "stable_reads S w GP GR GD" and "swap_scan S 0 (x # ys) swap_init w = (Ret (Some st), w')"
  shows "w' = w \<and> sw_nodeX st = swap_node_of S w x \<and> (\<forall>y \<in> set ys. swap_node_of S w y \<in> {'''', sw_nodeY st})
    \<and> (\<forall>key. map_of (sw_targetScales st) key =
        (let c = length (filter (\<lambda>p. swap_key S w p = Some key) (x # ys)) in
         if c = 0 then None else Some (swap_replicas S w key - of_nat c)))"
  using stable_reads.swap_scan_init [OF assms] .

definition swap_web_db :: SwapArgs where
  "swap_web_db = \<lparr>sa_X = \<lparr>p_Namespace = ''default'', p_Name = ''web-1''\<rparr>,
     sa_Y = [\<lparr>p_Namespace = ''default'', p_Name = ''db-1''\<rparr>]\<rparr>"

definition swap_web_db_scan :: swap_state where
  "swap_web_db_scan = \<lparr>sw_targetScales = [(\<lparr>tk_Namespace = ''default'', tk_DeploymentName = ''web''\<rparr>, 2),
       (\<lparr>tk_Namespace = ''default'', tk_DeploymentName = ''db''\<rparr>, 0)],
     sw_selectors = [(\<lparr>tk_Namespace = ''default'', tk_DeploymentName = ''web''\<rparr>, []),
       (\<lparr>tk_Namespace = ''default'', tk_DeploymentName = ''db''\<rparr>, [])],
     sw_nodeX = ''n4'', sw_nodeY = ''n7''\<rparr>"

lemma swap_scan_web_db:
  "swap_scan cluster_services 0 (sa_X swap_web_db # sa_Y swap_web_db) swap_init cl0 = (Ret (Some swap_web_db_scan), cl0)"
  by (simp add: swap_eval cl_eval ex_defs swap_web_db_def swap_web_db_scan_def)

theorem swap_scan_spec_witness:
  "swap_node_of cluster_services cl0 (sa_X swap_web_db) = ''n4''
   \<and> swap_node_of cluster_services cl0 (hd (sa_Y swap_web_db)) \<in> {'''', ''n7''}"
  using swap_scan_spec [OF clr.stable_reads_axioms swap_scan_web_db]
  by (simp add: swap_web_db_scan_def) (simp add: swap_web_db_def)

text \<open>The create requests of a swap exchange the nodes: the replacement of X goes to the node
  of Y, every replacement of a Y pod to the node of X, each in its pod's namespace.\<close>

theorem swap_exchanges_nodes:
  assumes "swap_createArgs S 0 (x # ys) nodeX nodeY w = (Inr cas, w')"
  shows "map (n_Name \<circ> ca_Node) cas = nodeY # replicate (length ys) nodeX
    \<and> map (wl_Namespace \<circ> ca_Workload) cas = map p_Namespace (x # ys)"
proof -
  have "map (\<lambda>j. if j = 0 then nodeY else nodeX) [0..<Suc n] = nodeY # replicate n nodeX" for n
    by (rule nth_equalityI) (auto simp: nth_Cons' simp del: upt_Suc)
  then show ?thesis using swap_createArgs_nodes [OF assms] by (simp del: upt_Suc)
qed

theorem swap_exchanges_nodes_witness:
  "map (n_Name \<circ> ca_Node) [create_web, create_web\<lparr>ca_Workload := (ca_Workload create_web)\<lparr>wl_Name := ''db''\<rparr>,
     ca_Node := \<lparr>n_Name = ''n4''\<rparr>\<rparr>] = [''n7'', ''n4'']"
proof -
  have "swap_createArgs cluster_services 0 (sa_X swap_web_db # sa_Y swap_web_db) ''n4'' ''n7'' cl0 =
     (Inr [create_web, create_web\<lparr>ca_Workload := (ca_Workload create_web)\<lparr>wl_Name := ''db''\<rparr>, ca_Node := \<lparr>n_Name = ''n4''\<rparr>\<rparr>], cl0)"
    by (simp add: pod_toCreateArgs_def getPodsDeployment_def cl_eval ex_defs swap_web_db_def)
  from swap_exchanges_nodes [OF this] show ?thesis by (simp add: swap_web_db_def)
qed

section \<open>Requests\<close>

text \<open>A swap request is accepted exactly when all its pods have names; the started handler gets
  the default namespace for an X without one, while the pods of Y are passed on as sent, so
  a Y pod without a namespace keeps the empty namespace.\<close>

theorem swap_request:
  "rpc_Swap args reply =
     (if p_Name (sa_X args) \<noteq> '''' \<and> (\<forall>y \<in> set (sa_Y args). p_Name y \<noteq> '''')
      then (None, ''ok'', Some (SwapAction (args\<lparr>sa_X := (sa_X args)\<lparr>p_Namespace :=
              if p_Namespace (sa_X args) = '''' then ''default'' else p_Namespace (sa_X args)\<rparr>\<rparr>)))
      else (fst (validateSwapReq args), reply, None))"
  using validate_y_None [of 0 "sa_Y args"]
  by (cases "validate_y 0 (sa_Y args)") (auto simp: rpc_Swap_def validateSwapReq_def Let_def)

theorem swap_request_witness:
  "rpc_Swap \<lparr>sa_X = \<lparr>p_Namespace = '''', p_Name = ''a''\<rparr>, sa_Y = [\<lparr>p_Namespace = '''', p_Name = ''b''\<rparr>]\<rparr> '''' =
     (None, ''ok'', Some (SwapAction \<lparr>sa_X = \<lparr>p_Namespace = ''default'', p_Name = ''a''\<rparr>, sa_Y = [\<lparr>p_Namespace = '''', p_Name = ''b''\<rparr>]\<rparr>))"
  by (simp add: swap_request)

end
