(* ===== verification/Resource_Names.thy ===== *)
theory Resource_Names
  imports K8s_Objects "HOL-Library.Sublist"
begin

text \<open>
  Which resource names are scalar resources: the vendored helpers
  \<^verbatim>\<open>schedutil.IsScalarResourceName\<close>, \<^verbatim>\<open>v1helper.IsExtendedResourceName\<close> and
  \<^verbatim>\<open>validation.IsQualifiedName\<close>, with the two regular expressions written as checks on characters.
\<close>

section \<open>Strings\<close>

text \<open>\<^verbatim>\<open>strings.Split\<close> at one character.\<close>

fun split_at :: "char \<Rightarrow> string \<Rightarrow> string list" where
  "split_at c [] = [[]]"
| "split_at c (x # xs) = (if x = c then [] # split_at c xs
     else (case split_at c xs of [] \<Rightarrow> [[x]] | p # ps \<Rightarrow> (x # p) # ps))"

definition contains :: "string \<Rightarrow> string \<Rightarrow> bool" where
  "contains s t = list_ex (prefix t) (suffixes s)"

definition lower_alnum :: "char \<Rightarrow> bool" where
  "lower_alnum c = ((97 \<le> (of_char c :: nat) \<and> of_char c \<le> (122 :: nat)) \<or> (48 \<le> (of_char c :: nat) \<and> of_char c \<le> (57 :: nat)))"

definition alnum :: "char \<Rightarrow> bool" where
  "alnum c = (lower_alnum c \<or> (65 \<le> (of_char c :: nat) \<and> of_char c \<le> (90 :: nat)))"

section \<open>Qualified names\<close>

text \<open>\<^verbatim>\<open>[a-z0-9]([-a-z0-9]*[a-z0-9])?\<close>\<close>

definition dns1123Label :: "string \<Rightarrow> bool" where
  "dns1123Label s = (s \<noteq> [] \<and> lower_alnum (hd s) \<and> lower_alnum (last s) \<and> list_all (\<lambda>c. lower_alnum c \<or> c = CHR ''-'') s)"

definition IsDNS1123Subdomain :: "string \<Rightarrow> bool" where
  "IsDNS1123Subdomain s = (length s \<le> 253 \<and> list_all dns1123Label (split_at CHR ''.'' s))"

text \<open>\<^verbatim>\<open>([A-Za-z0-9][-A-Za-z0-9_.]*)?[A-Za-z0-9]\<close>\<close>

definition qualifiedNameRegexp :: "string \<Rightarrow> bool" where
  "qualifiedNameRegexp s = (s \<noteq> [] \<and> alnum (hd s) \<and> alnum (last s)
     \<and> list_all (\<lambda>c. alnum c \<or> c = CHR ''-'' \<or> c = CHR ''_'' \<or> c = CHR ''.'') s)"

text \<open>\<^verbatim>\<open>IsQualifiedName\<close> returns a list of errors; the callers only test whether it is empty.\<close>

definition IsQualifiedName :: "string \<Rightarrow> bool" where
  "IsQualifiedName s =
     (case split_at CHR ''/'' s of
        [name] \<Rightarrow> name \<noteq> [] \<and> length name \<le> 63 \<and> qualifiedNameRegexp name
      | [pre, name] \<Rightarrow> pre \<noteq> [] \<and> IsDNS1123Subdomain pre \<and> name \<noteq> [] \<and> length name \<le> 63 \<and> qualifiedNameRegexp name
      | _ \<Rightarrow> False)"

section \<open>Resource names\<close>

definition IsPrefixedNativeResource :: "string \<Rightarrow> bool" where
  "IsPrefixedNativeResource name = contains name ''kubernetes.io/''"

definition IsNativeResource :: "string \<Rightarrow> bool" where
  "IsNativeResource name = (\<not> contains name ''/'' \<or> IsPrefixedNativeResource name)"

definition IsExtendedResourceName :: "string \<Rightarrow> bool" where
  "IsExtendedResourceName name =
     (if IsNativeResource name \<or> prefix ''requests.'' name then False
      else IsQualifiedName (''requests.'' @ name))"

definition IsHugePageResourceName :: "string \<Rightarrow> bool" where
  "IsHugePageResourceName name = prefix ''hugepages-'' name"

definition IsAttachableVolumeResourceName :: "string \<Rightarrow> bool" where
  "IsAttachableVolumeResourceName name = prefix ''attachable-volumes-'' name"

definition IsScalarResourceName :: "string \<Rightarrow> bool" where
  "IsScalarResourceName name = (IsExtendedResourceName name \<or> IsHugePageResourceName name
     \<or> IsPrefixedNativeResource name \<or> IsAttachableVolumeResourceName name)"

definition ResourceCPU :: string where "ResourceCPU = ''cpu''"
definition ResourceMemory :: string where "ResourceMemory = ''memory''"
definition ResourcePods :: string where "ResourcePods = ''pods''"
definition ResourceEphemeralStorage :: string where "ResourceEphemeralStorage = ''ephemeral-storage''"

lemmas resource_name_defs = ResourceCPU_def ResourceMemory_def ResourcePods_def ResourceEphemeralStorage_def

lemma basic_distinct [simp]:
  "ResourceCPU \<noteq> ResourceMemory" "ResourceCPU \<noteq> ResourcePods" "ResourceCPU \<noteq> ResourceEphemeralStorage"
  "ResourceMemory \<noteq> ResourceCPU" "ResourceMemory \<noteq> ResourcePods" "ResourceMemory \<noteq> ResourceEphemeralStorage"
  "ResourcePods \<noteq> ResourceCPU" "ResourcePods \<noteq> ResourceMemory" "ResourcePods \<noteq> ResourceEphemeralStorage"
  "ResourceEphemeralStorage \<noteq> ResourceCPU" "ResourceEphemeralStorage \<noteq> ResourceMemory"
  "ResourceEphemeralStorage \<noteq> ResourcePods"
  by (simp_all add: resource_name_defs)

lemma basic_not_scalar [simp]:
  "\<not> IsScalarResourceName ResourceCPU" "\<not> IsScalarResourceName ResourceMemory"
  "\<not> IsScalarResourceName ResourcePods" "\<not> IsScalarResourceName ResourceEphemeralStorage"
  by code_simp+

lemma gpu_scalar [simp]: "IsScalarResourceName ''nvidia.com/gpu''"
  by code_simp

end
