(* ===== verification/Resources.thy ===== *)
theory Resources
  imports Resource_Names
begin

text \<open>
  Resource vectors: the vendored \<^verbatim>\<open>framework.Resource\<close> with its operations, the conversion
  \<^verbatim>\<open>util.ResourceList\<close> of \<^verbatim>\<open>pkg/util/resource.go\<close>, and the request of a pod,
  \<^verbatim>\<open>computePodResourceRequest\<close> of \<^verbatim>\<open>pkg/capacityscheduling/capacity_scheduling.go\<close>.

  Amounts are 64-bit words and all sums wrap, as Go's int64 does.  A nil scalar map and an
  empty one behave alike, so the map is never nil here.  \<open>rdim\<close> reads a vector by resource
  name; the lemmas describe every operation through it.
\<close>

section \<open>Quantities\<close>

text \<open>
  \<^verbatim>\<open>Quantity.ScaledValue\<close>: the amount in the given unit, rounded away from zero.  An amount beyond the
  int64 range gives 0 (the overflow result of the int64 representation).
\<close>

definition ScaledValue :: "int \<Rightarrow> quantity \<Rightarrow> i64" where
  "ScaledValue unit q =
     (let v = sgn q * ((\<bar>q\<bar> + unit - 1) div unit)
      in if - (2 ^ 63) \<le> v \<and> v < 2 ^ 63 then word_of_int v else 0)"

definition MilliValue :: "quantity \<Rightarrow> i64" where
  "MilliValue q = ScaledValue 1000000 q"

definition quantity_Value :: "quantity \<Rightarrow> i64" where
  "quantity_Value q = ScaledValue 1000000000 q"

definition NewQuantity :: "i64 \<Rightarrow> quantity" where
  "NewQuantity v = sint v * 1000000000"

definition NewMilliQuantity :: "i64 \<Rightarrow> quantity" where
  "NewMilliQuantity v = sint v * 1000000"

lemma ScaledValue_mult: "0 < unit \<Longrightarrow> ScaledValue unit (sint (v :: i64) * unit) = v"
proof -
  assume u: "0 < unit"
  have "(\<bar>sint v * unit\<bar> + unit - 1) div unit = \<bar>sint v\<bar>"
  proof -
    have "\<bar>sint v * unit\<bar> + unit - 1 = (unit - 1) + \<bar>sint v\<bar> * unit" using u by (simp add: abs_mult)
    moreover have "((unit - 1) + \<bar>sint v\<bar> * unit) div unit = \<bar>sint v\<bar> + (unit - 1) div unit"
      using u by (intro div_mult_self1) simp
    ultimately show ?thesis using u by (simp only: div_pos_pos_trivial add_0_right)
  qed
  then have "sgn (sint v * unit) * ((\<bar>sint v * unit\<bar> + unit - 1) div unit) = sint v"
    using u by (simp add: sgn_mult sgn_mult_abs)
  moreover have "- (2 ^ 63) \<le> sint v \<and> sint v < 2 ^ 63"
    using sint_ge [of v] sint_lt [of v] by simp
  ultimately show ?thesis by (simp add: ScaledValue_def Let_def)
qed

lemma Value_NewQuantity [simp]: "quantity_Value (NewQuantity v) = v"
  by (simp add: quantity_Value_def NewQuantity_def ScaledValue_mult)

lemma MilliValue_NewMilliQuantity [simp]: "MilliValue (NewMilliQuantity v) = v"
  by (simp add: MilliValue_def NewMilliQuantity_def ScaledValue_mult)

lemma Value_zero [simp]: "quantity_Value 0 = 0" "MilliValue 0 = 0"
  by (simp_all add: quantity_Value_def MilliValue_def ScaledValue_def)

section \<open>Vectors\<close>

record Resource =
  r_MilliCPU :: i64
  r_Memory :: i64
  r_EphemeralStorage :: i64
  r_AllowedPodNumber :: i64
  r_ScalarResources :: "(string, i64) gomap"

definition zero_Resource :: Resource where
  "zero_Resource = \<lparr>r_MilliCPU = 0, r_Memory = 0, r_EphemeralStorage = 0, r_AllowedPodNumber = 0, r_ScalarResources = []\<rparr>"

definition SetScalar :: "string \<Rightarrow> i64 \<Rightarrow> Resource \<Rightarrow> Resource" where
  "SetScalar name v r = r\<lparr>r_ScalarResources := AList.update name v (r_ScalarResources r)\<rparr>"

definition AddScalar :: "string \<Rightarrow> i64 \<Rightarrow> Resource \<Rightarrow> Resource" where
  "AddScalar name v r = SetScalar name (gm_get 0 (r_ScalarResources r) name + v) r"

fun Resource_add1 :: "string \<times> quantity \<Rightarrow> Resource \<Rightarrow> Resource" where
  "Resource_add1 (rName, rQuant) r =
     (if rName = ResourceCPU then r\<lparr>r_MilliCPU := r_MilliCPU r + MilliValue rQuant\<rparr>
      else if rName = ResourceMemory then r\<lparr>r_Memory := r_Memory r + quantity_Value rQuant\<rparr>
      else if rName = ResourcePods then r\<lparr>r_AllowedPodNumber := r_AllowedPodNumber r + quantity_Value rQuant\<rparr>
      else if rName = ResourceEphemeralStorage then r\<lparr>r_EphemeralStorage := r_EphemeralStorage r + quantity_Value rQuant\<rparr>
      else if IsScalarResourceName rName then AddScalar rName (quantity_Value rQuant) r
      else r)"

definition Resource_Add :: "Resource \<Rightarrow> ResourceList \<Rightarrow> Resource" where
  "Resource_Add r rl = fold Resource_add1 rl r"

definition NewResource :: "ResourceList \<Rightarrow> Resource" where
  "NewResource rl = Resource_Add zero_Resource rl"

definition Resource_Clone :: "Resource \<Rightarrow> Resource" where
  "Resource_Clone r = \<lparr>r_MilliCPU = r_MilliCPU r, r_Memory = r_Memory r, r_EphemeralStorage = r_EphemeralStorage r,
     r_AllowedPodNumber = r_AllowedPodNumber r,
     r_ScalarResources = fold (\<lambda>(k, v) m. AList.update k v m) (r_ScalarResources r) []\<rparr>"

text \<open>Go's \<^verbatim>\<open>max\<close> on int64.\<close>

definition max64 :: "i64 \<Rightarrow> i64 \<Rightarrow> i64" where
  "max64 a b = (if sint a < sint b then b else a)"

fun Resource_max1 :: "string \<times> quantity \<Rightarrow> Resource \<Rightarrow> Resource" where
  "Resource_max1 (rName, rQuantity) r =
     (if rName = ResourceMemory then r\<lparr>r_Memory := max64 (r_Memory r) (quantity_Value rQuantity)\<rparr>
      else if rName = ResourceCPU then r\<lparr>r_MilliCPU := max64 (r_MilliCPU r) (MilliValue rQuantity)\<rparr>
      else if rName = ResourceEphemeralStorage
        then r\<lparr>r_EphemeralStorage := max64 (r_EphemeralStorage r) (quantity_Value rQuantity)\<rparr>
      else if IsScalarResourceName rName
        then SetScalar rName (max64 (gm_get 0 (r_ScalarResources r) rName) (quantity_Value rQuantity)) r
      else r)"

definition SetMaxResource :: "Resource \<Rightarrow> ResourceList \<Rightarrow> Resource" where
  "SetMaxResource r rl = fold Resource_max1 rl r"

text \<open>\<^verbatim>\<open>util.ResourceList\<close>: the two formats of a quantity print differently and have the same value.\<close>

definition util_ResourceList :: "Resource \<Rightarrow> ResourceList" where
  "util_ResourceList r =
     fold (\<lambda>(rName, rQuant) result. AList.update rName (NewQuantity rQuant) result) (r_ScalarResources r)
       [(ResourceCPU, NewMilliQuantity (r_MilliCPU r)), (ResourceMemory, NewQuantity (r_Memory r)),
        (ResourcePods, NewQuantity (r_AllowedPodNumber r)),
        (ResourceEphemeralStorage, NewQuantity (r_EphemeralStorage r))]"

definition computePodResourceRequest :: "v1_Pod \<Rightarrow> Resource" where
  "computePodResourceRequest pod =
     (let result = fold (\<lambda>c r. Resource_Add r (c_Requests c)) (pod_Containers pod) zero_Resource;
          result = fold (\<lambda>c r. SetMaxResource r (c_Requests c)) (pod_InitContainers pod) result
      in (case pod_Overhead pod of None \<Rightarrow> result | Some o' \<Rightarrow> Resource_Add result o'))"

section \<open>Reading a vector by name\<close>

definition rdim :: "Resource \<Rightarrow> string \<Rightarrow> i64" where
  "rdim r n = (if n = ResourceCPU then r_MilliCPU r else if n = ResourceMemory then r_Memory r
     else if n = ResourcePods then r_AllowedPodNumber r else if n = ResourceEphemeralStorage then r_EphemeralStorage r
     else gm_get 0 (r_ScalarResources r) n)"

text \<open>The amount a quantity adds to a dimension.\<close>

definition qdim :: "string \<Rightarrow> quantity \<Rightarrow> i64" where
  "qdim n q = (if n = ResourceCPU then MilliValue q
     else if n \<in> {ResourceMemory, ResourcePods, ResourceEphemeralStorage} \<or> IsScalarResourceName n then quantity_Value q
     else 0)"

definition rldim :: "ResourceList \<Rightarrow> string \<Rightarrow> i64" where
  "rldim rl n = (case map_of rl n of None \<Rightarrow> 0 | Some q \<Rightarrow> qdim n q)"

definition Resource_wf :: "Resource \<Rightarrow> bool" where
  "Resource_wf r = (gm_wf (r_ScalarResources r) \<and> list_all (IsScalarResourceName \<circ> fst) (r_ScalarResources r))"

lemma rdim_zero [simp]: "rdim zero_Resource n = 0"
  by (simp add: rdim_def zero_Resource_def)

lemma Resource_wf_zero [simp]: "Resource_wf zero_Resource"
  by (simp add: Resource_wf_def zero_Resource_def)

lemma Resource_wf_keys: "Resource_wf r \<Longrightarrow> gm_has (r_ScalarResources r) k \<Longrightarrow> IsScalarResourceName k"
  by (auto simp: Resource_wf_def list_all_iff)

lemma list_all_update:
  "list_all (P \<circ> fst) m \<Longrightarrow> P k \<Longrightarrow> list_all (P \<circ> fst) (AList.update k v m)"
  by (induction m) auto

lemma Resource_wf_SetScalar [simp, intro]:
  "Resource_wf r \<Longrightarrow> IsScalarResourceName n \<Longrightarrow> Resource_wf (SetScalar n v r)"
  by (simp add: Resource_wf_def SetScalar_def list_all_update)

lemma rdim_SetScalar: "IsScalarResourceName n \<Longrightarrow> rdim (SetScalar n v r) m = (if m = n then v else rdim r m)"
  by (auto simp: rdim_def SetScalar_def)

text \<open>A fold that treats one dimension per entry.\<close>

lemma fold_dims:
  assumes "\<And>n q r m. D (f (n, q) r) m = (if m = n then h n q (D r m) else D r m)"
    and "gm_wf xs"
  shows "D (fold f xs r) m = (case map_of xs m of None \<Rightarrow> D r m | Some q \<Rightarrow> h m q (D r m))"
  using assms(2)
proof (induction xs arbitrary: r)
  case Nil
  then show ?case by simp
next
  case (Cons x xs)
  obtain k q where x: "x = (k, q)" by fastforce
  then have "map_of xs k = None" and "gm_wf xs" using Cons.prems by (simp_all add: gm_wf_def map_of_eq_None_iff)
  then show ?case using Cons.IH x by (auto simp: assms(1) split: option.splits)
qed

lemma scalar_gm_get: "IsScalarResourceName n \<Longrightarrow> gm_get 0 (r_ScalarResources r) n = rdim r n"
  by (auto simp: rdim_def)

lemma rdim_add1: "rdim (Resource_add1 (n, q) r) m = (if m = n then rdim r m + qdim n q else rdim r m)"
proof (cases "IsScalarResourceName n")
  case True
  then have "n \<notin> {ResourceCPU, ResourceMemory, ResourcePods, ResourceEphemeralStorage}" by auto
  then show ?thesis using True by (auto simp: AddScalar_def rdim_SetScalar qdim_def scalar_gm_get)
next
  case False
  then show ?thesis by (auto simp: rdim_def qdim_def)
qed

lemma rdim_Add: "gm_wf rl \<Longrightarrow> rdim (Resource_Add r rl) n = rdim r n + rldim rl n"
  unfolding Resource_Add_def rldim_def
  by (subst fold_dims [where h = "\<lambda>n q x. x + qdim n q"]) (simp_all only: rdim_add1, auto split: option.splits)

lemma Resource_wf_add1: "Resource_wf r \<Longrightarrow> Resource_wf (Resource_add1 x r)"
  by (cases x) (auto simp: AddScalar_def, simp_all add: Resource_wf_def)

lemma Resource_wf_Add [simp, intro]: "Resource_wf r \<Longrightarrow> Resource_wf (Resource_Add r rl)"
  unfolding Resource_Add_def by (induction rl arbitrary: r) (simp_all add: Resource_wf_add1)

text \<open>What an init container contributes; there is no case for pods.\<close>

definition mdim :: "string \<Rightarrow> quantity \<Rightarrow> i64 \<Rightarrow> i64" where
  "mdim n q x = (if n = ResourcePods \<or> (n \<notin> {ResourceCPU, ResourceMemory, ResourceEphemeralStorage} \<and> \<not> IsScalarResourceName n)
     then x else max64 x (qdim n q))"

lemma rdim_max1: "rdim (Resource_max1 (n, q) r) m = (if m = n then mdim n q (rdim r m) else rdim r m)"
proof (cases "IsScalarResourceName n")
  case True
  then have "n \<notin> {ResourceCPU, ResourceMemory, ResourcePods, ResourceEphemeralStorage}" by auto
  then show ?thesis using True by (auto simp: rdim_SetScalar qdim_def mdim_def scalar_gm_get)
next
  case False
  then show ?thesis by (auto simp: rdim_def qdim_def mdim_def)
qed

lemma rdim_SetMax:
  "gm_wf rl \<Longrightarrow> rdim (SetMaxResource r rl) n = (case map_of rl n of None \<Rightarrow> rdim r n | Some q \<Rightarrow> mdim n q (rdim r n))"
  unfolding SetMaxResource_def by (rule fold_dims) (simp_all only: rdim_max1)

lemma Resource_wf_max1: "Resource_wf r \<Longrightarrow> Resource_wf (Resource_max1 x r)"
  by (cases x) (auto, simp_all add: Resource_wf_def)

lemma Resource_wf_SetMax [simp, intro]: "Resource_wf r \<Longrightarrow> Resource_wf (SetMaxResource r rl)"
  unfolding SetMaxResource_def by (induction rl arbitrary: r) (simp_all add: Resource_wf_max1)

section \<open>Copies and conversions\<close>

lemma map_of_fold_update:
  "gm_wf xs \<Longrightarrow> map_of (fold (\<lambda>(k, v) m. AList.update k (f v) m) xs m) n =
     (case map_of xs n of None \<Rightarrow> map_of m n | Some v \<Rightarrow> Some (f v))"
  by (rule fold_dims [where D = map_of and h = "\<lambda>n v x. Some (f v)"]) auto

lemma fold_update_append:
  "distinct (map fst (ys @ xs)) \<Longrightarrow> fold (\<lambda>(k, v) m. AList.update k v m) xs ys = ys @ xs"
proof (induction xs arbitrary: ys)
  case Nil
  then show ?case by simp
next
  case (Cons x xs)
  obtain k v where x: "x = (k, v)" by fastforce
  have "k \<notin> fst ` set ys" using Cons.prems x by auto
  then have "AList.update k v ys = ys @ [(k, v)]" by (induction ys) auto
  then show ?case using Cons x by simp
qed

lemma Resource_Clone_id: "Resource_wf r \<Longrightarrow> Resource_Clone r = r"
  by (simp add: Resource_Clone_def Resource_wf_def gm_wf_def fold_update_append)

lemma gm_wf_fold_update: "gm_wf m \<Longrightarrow> gm_wf (fold (\<lambda>(k, v) m. AList.update k (f v) m) xs m)"
  by (induction xs arbitrary: m) auto

lemma gm_wf_ResourceList [simp]: "gm_wf (util_ResourceList r)"
  unfolding util_ResourceList_def by (rule gm_wf_fold_update) (simp add: gm_wf_def)

lemma rldim_ResourceList [simp]:
  assumes "Resource_wf r"
  shows "rldim (util_ResourceList r) n = rdim r n"
proof (cases "map_of (r_ScalarResources r) n")
  case None
  have "gm_wf (r_ScalarResources r)" using assms by (simp add: Resource_wf_def)
  then show ?thesis using None
    by (simp add: rldim_def util_ResourceList_def map_of_fold_update qdim_def rdim_def gm_get_def)
next
  case (Some v)
  then have n: "IsScalarResourceName n" using Resource_wf_keys [OF assms] gm_has_map_of by metis
  have "gm_wf (r_ScalarResources r)" using assms by (simp add: Resource_wf_def)
  then have "map_of (util_ResourceList r) n = Some (NewQuantity v)"
    using Some by (simp add: util_ResourceList_def map_of_fold_update)
  moreover have "n \<noteq> ResourceCPU" using n by auto
  ultimately show ?thesis using Some n
    by (simp add: rldim_def qdim_def scalar_gm_get [symmetric] gm_get_def)
qed

lemma rdim_Add_ResourceList: "Resource_wf q \<Longrightarrow> rdim (Resource_Add r (util_ResourceList q)) n = rdim r n + rdim q n"
  by (simp add: rdim_Add)

section \<open>The request of a pod\<close>

text \<open>Resource lists are Go maps: no key twice.\<close>

definition pod_lists_wf :: "v1_Pod \<Rightarrow> bool" where
  "pod_lists_wf pod = (list_all (gm_wf \<circ> c_Requests) (pod_Containers pod) \<and> list_all (gm_wf \<circ> c_Requests) (pod_InitContainers pod)
     \<and> (case pod_Overhead pod of None \<Rightarrow> True | Some ov \<Rightarrow> gm_wf ov))"

lemma rdim_sum_containers:
  "list_all (gm_wf \<circ> c_Requests) cs \<Longrightarrow>
     rdim (fold (\<lambda>c r. Resource_Add r (c_Requests c)) cs r) n = rdim r n + (\<Sum>c\<leftarrow>cs. rldim (c_Requests c) n)"
  by (induction cs arbitrary: r) (simp_all add: rdim_Add)

lemma rdim_max_containers:
  "list_all (gm_wf \<circ> c_Requests) cs \<Longrightarrow>
     rdim (fold (\<lambda>c r. SetMaxResource r (c_Requests c)) cs r) n =
     fold (\<lambda>c x. case map_of (c_Requests c) n of None \<Rightarrow> x | Some q \<Rightarrow> mdim n q x) cs (rdim r n)"
  by (induction cs arbitrary: r) (simp_all add: rdim_SetMax)

lemma rdim_computePodResourceRequest:
  assumes "pod_lists_wf pod"
  shows "rdim (computePodResourceRequest pod) n =
    fold (\<lambda>c x. case map_of (c_Requests c) n of None \<Rightarrow> x | Some q \<Rightarrow> mdim n q x) (pod_InitContainers pod)
      (\<Sum>c\<leftarrow>pod_Containers pod. rldim (c_Requests c) n)
    + (case pod_Overhead pod of None \<Rightarrow> 0 | Some ov \<Rightarrow> rldim ov n)"
  using assms unfolding pod_lists_wf_def computePodResourceRequest_def Let_def
  by (auto simp: rdim_sum_containers rdim_max_containers rdim_Add split: option.splits)

lemma Resource_wf_fold: "(\<And>c r. Resource_wf r \<Longrightarrow> Resource_wf (f c r)) \<Longrightarrow> Resource_wf r \<Longrightarrow> Resource_wf (fold f cs r)"
  by (induction cs arbitrary: r) simp_all

lemma Resource_wf_computePodResourceRequest [simp]: "Resource_wf (computePodResourceRequest pod)"
  unfolding computePodResourceRequest_def Let_def
  by (auto intro!: Resource_wf_fold split: option.splits)

end
