(* ===== verification/Elastic_Quota.thy ===== *)
theory Elastic_Quota
  imports Resources
begin

text \<open>
  Elastic quotas, \<^verbatim>\<open>pkg/capacityscheduling/elasticquota.go\<close>: per namespace a minimum, a maximum, the
  amount in use and the set of pods counted in it.  The pointers \<^verbatim>\<open>Min\<close> and \<^verbatim>\<open>Max\<close> may be nil;
  \<^verbatim>\<open>Used\<close> is set by every constructor and is not an option here.  Reading a nil \<^verbatim>\<open>Min\<close> while
  aggregating panics.
\<close>

section \<open>Data\<close>

definition UpperBoundOfMax :: i64 where "UpperBoundOfMax = 9223372036854775807"
definition LowerBoundOfMin :: i64 where "LowerBoundOfMin = 0"

record ElasticQuotaInfo =
  eq_Namespace :: string
  eq_pods :: "string set"
  eq_Min :: "Resource option"
  eq_Max :: "Resource option"
  eq_Used :: Resource

type_synonym ElasticQuotaInfos = "(string, ElasticQuotaInfo) gomap"

section \<open>Comparisons\<close>

definition cmp2 :: "Resource \<Rightarrow> Resource \<Rightarrow> Resource \<Rightarrow> i64 \<Rightarrow> bool" where
  "cmp2 x1 x2 y bound =
     (if sint (r_MilliCPU x1 + r_MilliCPU x2) > sint (r_MilliCPU y) then True
      else if sint (r_Memory x1 + r_Memory x2) > sint (r_Memory y) then True
      else if sint (r_EphemeralStorage x1 + r_EphemeralStorage x2) > sint (r_EphemeralStorage y) then True
      else if sint (r_AllowedPodNumber x1 + r_AllowedPodNumber x2) > sint (r_AllowedPodNumber y) then True
      else list_ex (\<lambda>(rName, rQuant).
             sint (rQuant + gm_get 0 (r_ScalarResources x2) rName) > sint (gm_get bound (r_ScalarResources y) rName))
           (r_ScalarResources x1))"

definition cmp :: "Resource \<Rightarrow> Resource \<Rightarrow> i64 \<Rightarrow> bool" where
  "cmp x y bound = cmp2 x zero_Resource y bound"

section \<open>Operations of one quota\<close>

definition makeResourceListForBound :: "i64 \<Rightarrow> ResourceList" where
  "makeResourceListForBound bound = [(ResourceCPU, NewMilliQuantity bound), (ResourceMemory, NewQuantity bound),
     (ResourceEphemeralStorage, NewQuantity bound)]"

definition newElasticQuotaInfo ::
  "string \<Rightarrow> ResourceList option \<Rightarrow> ResourceList option \<Rightarrow> ResourceList option \<Rightarrow> ElasticQuotaInfo" where
  "newElasticQuotaInfo namespace mn mx used =
     (let mn = (case mn of None \<Rightarrow> makeResourceListForBound LowerBoundOfMin | Some m \<Rightarrow> m);
          mx = (case mx of None \<Rightarrow> makeResourceListForBound UpperBoundOfMax | Some m \<Rightarrow> m)
      in \<lparr>eq_Namespace = namespace, eq_pods = {}, eq_Min = Some (NewResource mn), eq_Max = Some (NewResource mx),
          eq_Used = NewResource (case used of None \<Rightarrow> [] | Some u \<Rightarrow> u)\<rparr>)"

definition reserve_used :: "Resource \<Rightarrow> Resource \<Rightarrow> Resource" where
  "reserve_used used request =
     fold (\<lambda>(name, v) u. SetScalar name (gm_get 0 (r_ScalarResources u) name + v) u) (r_ScalarResources request)
       (used\<lparr>r_Memory := r_Memory used + r_Memory request, r_MilliCPU := r_MilliCPU used + r_MilliCPU request,
             r_EphemeralStorage := r_EphemeralStorage used + r_EphemeralStorage request,
             r_AllowedPodNumber := r_AllowedPodNumber used + r_AllowedPodNumber request\<rparr>)"

definition reserveResource :: "Resource \<Rightarrow> ElasticQuotaInfo \<Rightarrow> ElasticQuotaInfo" where
  "reserveResource request e = e\<lparr>eq_Used := reserve_used (eq_Used e) request\<rparr>"

definition unreserve_used :: "Resource \<Rightarrow> Resource \<Rightarrow> Resource" where
  "unreserve_used used request =
     fold (\<lambda>(name, v) u. SetScalar name (gm_get 0 (r_ScalarResources u) name - v) u) (r_ScalarResources request)
       (used\<lparr>r_Memory := r_Memory used - r_Memory request, r_MilliCPU := r_MilliCPU used - r_MilliCPU request,
             r_EphemeralStorage := r_EphemeralStorage used - r_EphemeralStorage request,
             r_AllowedPodNumber := r_AllowedPodNumber used - r_AllowedPodNumber request\<rparr>)"

definition unreserveResource :: "Resource \<Rightarrow> ElasticQuotaInfo \<Rightarrow> ElasticQuotaInfo" where
  "unreserveResource request e = e\<lparr>eq_Used := unreserve_used (eq_Used e) request\<rparr>"

definition usedOverMinWith :: "ElasticQuotaInfo \<Rightarrow> Resource \<Rightarrow> bool" where
  "usedOverMinWith e podRequest = (case eq_Min e of None \<Rightarrow> True | Some mn \<Rightarrow> cmp2 podRequest (eq_Used e) mn LowerBoundOfMin)"

definition usedOverMaxWith :: "ElasticQuotaInfo \<Rightarrow> Resource \<Rightarrow> bool" where
  "usedOverMaxWith e podRequest = (case eq_Max e of None \<Rightarrow> False | Some mx \<Rightarrow> cmp2 podRequest (eq_Used e) mx UpperBoundOfMax)"

definition usedOverMin :: "ElasticQuotaInfo \<Rightarrow> bool" where
  "usedOverMin e = (case eq_Min e of None \<Rightarrow> True | Some mn \<Rightarrow> cmp (eq_Used e) mn LowerBoundOfMin)"

definition eq_clone :: "ElasticQuotaInfo \<Rightarrow> ElasticQuotaInfo" where
  "eq_clone e = \<lparr>eq_Namespace = eq_Namespace e, eq_pods = eq_pods e,
     eq_Min = map_option Resource_Clone (eq_Min e), eq_Max = map_option Resource_Clone (eq_Max e),
     eq_Used = Resource_Clone (eq_Used e)\<rparr>"

text \<open>\<^verbatim>\<open>framework.GetPodKey\<close>: the UID, which must not be empty.\<close>

definition GetPodKey :: "v1_Pod \<Rightarrow> goerror + string" where
  "GetPodKey pod = (if pod_UID pod = '''' then Inl ''cannot get cache key for pod with empty UID'' else Inr (pod_UID pod))"

definition addPodIfNotPresent :: "v1_Pod \<Rightarrow> ElasticQuotaInfo \<Rightarrow> goerror option \<times> ElasticQuotaInfo" where
  "addPodIfNotPresent pod e =
     (case GetPodKey pod of
        Inl err \<Rightarrow> (Some err, e)
      | Inr key \<Rightarrow>
          if key \<in> eq_pods e then (None, e)
          else (None, reserveResource (computePodResourceRequest pod) (e\<lparr>eq_pods := insert key (eq_pods e)\<rparr>)))"

definition deletePodIfPresent :: "v1_Pod \<Rightarrow> ElasticQuotaInfo \<Rightarrow> goerror option \<times> ElasticQuotaInfo" where
  "deletePodIfPresent pod e =
     (case GetPodKey pod of
        Inl err \<Rightarrow> (Some err, e)
      | Inr key \<Rightarrow>
          if key \<notin> eq_pods e then (None, e)
          else (None, unreserveResource (computePodResourceRequest pod) (e\<lparr>eq_pods := eq_pods e - {key}\<rparr>)))"

section \<open>Operations of the quota map\<close>

definition eqs_clone :: "ElasticQuotaInfos \<Rightarrow> ElasticQuotaInfos" where
  "eqs_clone e = fold (\<lambda>(key, info) m. AList.update key (eq_clone info) m) e []"

fun aggregate :: "ElasticQuotaInfos \<Rightarrow> Resource \<Rightarrow> Resource \<Rightarrow> (Resource \<times> Resource) outcome" where
  "aggregate [] used mn = Ret (used, mn)"
| "aggregate ((k, info) # e) used mn =
     (case eq_Min info of
        None \<Rightarrow> Panic nil_deref
      | Some m \<Rightarrow> aggregate e (Resource_Add used (util_ResourceList (eq_Used info))) (Resource_Add mn (util_ResourceList m)))"

definition aggregatedUsedOverMinWith :: "ElasticQuotaInfos \<Rightarrow> Resource \<Rightarrow> bool outcome" where
  "aggregatedUsedOverMinWith e podRequest =
     (case aggregate e (NewResource []) (NewResource []) of
        Panic m \<Rightarrow> Panic m
      | Ret (used, mn) \<Rightarrow> Ret (cmp (Resource_Add used (util_ResourceList podRequest)) mn LowerBoundOfMin))"

section \<open>Reserving and releasing\<close>

definition eq_wf :: "ElasticQuotaInfo \<Rightarrow> bool" where
  "eq_wf e = (Resource_wf (eq_Used e) \<and> pred_option Resource_wf (eq_Min e) \<and> pred_option Resource_wf (eq_Max e))"

lemma rdim_basic_update:
  "rdim (u\<lparr>r_Memory := a, r_MilliCPU := b, r_EphemeralStorage := c, r_AllowedPodNumber := d\<rparr>) n =
     (if n = ResourceCPU then b else if n = ResourceMemory then a else if n = ResourcePods then d
      else if n = ResourceEphemeralStorage then c else rdim u n)"
  by (simp add: rdim_def)

lemma rdim_fold_scalars:
  assumes "\<And>k v. (k, v) \<in> set xs \<Longrightarrow> IsScalarResourceName k" and "gm_wf xs"
  shows "rdim (fold (\<lambda>(name, v) u. SetScalar name (f (gm_get 0 (r_ScalarResources u) name) v) u) xs u) n =
    (case map_of xs n of None \<Rightarrow> rdim u n | Some v \<Rightarrow> f (rdim u n) v)"
  using assms
proof (induction xs arbitrary: u)
  case Nil
  then show ?case by simp
next
  case (Cons x xs)
  obtain k v where x: "x = (k, v)" by fastforce
  with Cons.prems have "IsScalarResourceName k" "map_of xs k = None" "gm_wf xs"
    "\<And>k v. (k, v) \<in> set xs \<Longrightarrow> IsScalarResourceName k"
    by (auto simp: gm_wf_def map_of_eq_None_iff)
  then show ?case using Cons.IH x
    by (cases "n = k"; cases "map_of xs n") (simp_all add: rdim_SetScalar scalar_gm_get)
qed

lemma Resource_wf_set: "Resource_wf r \<Longrightarrow> (k, v) \<in> set (r_ScalarResources r) \<Longrightarrow> IsScalarResourceName k"
  by (auto simp: Resource_wf_def list_all_iff)

lemma rdim_scalar_cases:
  assumes "Resource_wf r"
  obtains (basic) "n \<in> {ResourceCPU, ResourceMemory, ResourcePods, ResourceEphemeralStorage}" "map_of (r_ScalarResources r) n = None"
  | (other) "n \<notin> {ResourceCPU, ResourceMemory, ResourcePods, ResourceEphemeralStorage}"
      "rdim r n = (case map_of (r_ScalarResources r) n of None \<Rightarrow> 0 | Some v \<Rightarrow> v)"
proof (cases "n \<in> {ResourceCPU, ResourceMemory, ResourcePods, ResourceEphemeralStorage}")
  case True
  then have "\<not> IsScalarResourceName n" by auto
  then have "map_of (r_ScalarResources r) n = None"
    using Resource_wf_keys [OF assms, of n] gm_has_map_of [of n "r_ScalarResources r"] by (metis option.exhaust)
  then show ?thesis using that(1) True by blast
next
  case False
  then show ?thesis using that(2) by (simp add: rdim_def gm_get_def)
qed

lemma rdim_reserve:
  assumes "Resource_wf req"
  shows "rdim (reserve_used used req) n = rdim used n + rdim req n"
proof -
  have wf: "gm_wf (r_ScalarResources req)" using assms by (simp add: Resource_wf_def)
  note f = rdim_fold_scalars [OF Resource_wf_set [OF assms] wf, where f = "(+)"]
  show ?thesis unfolding reserve_used_def
    by (subst f, assumption, rule rdim_scalar_cases [OF assms, of n])
       (auto simp: rdim_def split: option.splits)
qed

lemma rdim_unreserve:
  assumes "Resource_wf req"
  shows "rdim (unreserve_used used req) n = rdim used n - rdim req n"
proof -
  have wf: "gm_wf (r_ScalarResources req)" using assms by (simp add: Resource_wf_def)
  note f = rdim_fold_scalars [OF Resource_wf_set [OF assms] wf, where f = "(-)"]
  show ?thesis unfolding unreserve_used_def
    by (subst f, assumption, rule rdim_scalar_cases [OF assms, of n])
       (auto simp: rdim_def split: option.splits)
qed

lemma Resource_wf_fold_scalars:
  assumes "\<And>k v. (k, v) \<in> set xs \<Longrightarrow> IsScalarResourceName k" and "Resource_wf u"
  shows "Resource_wf (fold (\<lambda>(name, v) u. SetScalar name (f u name v) u) xs u)"
  using assms
proof (induction xs arbitrary: u)
  case Nil
  then show ?case by simp
next
  case (Cons x xs)
  obtain k v where x: "x = (k, v)" by fastforce
  have "Resource_wf (fold (\<lambda>(name, v) u. SetScalar name (f u name v) u) xs (SetScalar k (f u k v) u))"
    using Cons.prems x by (intro Cons.IH) auto
  then show ?case using x by simp
qed

lemma Resource_wf_basic_update:
  "Resource_wf (u\<lparr>r_Memory := a, r_MilliCPU := b, r_EphemeralStorage := c, r_AllowedPodNumber := d\<rparr>) = Resource_wf u"
  by (simp add: Resource_wf_def)

lemma Resource_wf_reserve [simp]:
  assumes "Resource_wf used" "Resource_wf req"
  shows "Resource_wf (reserve_used used req)" "Resource_wf (unreserve_used used req)"
  using Resource_wf_set [OF assms(2)] assms(1) unfolding reserve_used_def unreserve_used_def
  by (auto intro!: Resource_wf_fold_scalars simp: Resource_wf_basic_update)

lemma eq_wf_new [simp]: "eq_wf (newElasticQuotaInfo ns mn mx used)"
  by (simp add: eq_wf_def newElasticQuotaInfo_def Let_def NewResource_def)

lemma eq_clone_id: "eq_wf e \<Longrightarrow> eq_clone e = e"
  by (cases "eq_Min e"; cases "eq_Max e") (simp_all add: eq_clone_def eq_wf_def Resource_Clone_id)

lemma eqs_clone_id:
  assumes "gm_wf e" and "\<And>k i. (k, i) \<in> set e \<Longrightarrow> eq_wf i"
  shows "eqs_clone e = e"
proof -
  have "fold (\<lambda>(key, info) m. AList.update key (eq_clone info) m) e m = fold (\<lambda>(key, info) m. AList.update key info m) e m" for m
    using assms(2) by (intro fold_cong) (auto simp: eq_clone_id)
  then show ?thesis using assms(1) by (simp add: eqs_clone_def fold_update_append gm_wf_def)
qed

section \<open>The used amount is the sum over the counted pods\<close>

text \<open>
  \<open>spec k\<close> is the request of the pod with key \<open>k\<close>; the resources of a pod do not change
  while it exists.
\<close>

definition accounted :: "(string \<Rightarrow> Resource) \<Rightarrow> ElasticQuotaInfo \<Rightarrow> bool" where
  "accounted spec e = (finite (eq_pods e) \<and> eq_wf e
     \<and> (\<forall>n. rdim (eq_Used e) n = (\<Sum>k \<in> eq_pods e. rdim (spec k) n)))"

definition follows_spec :: "(string \<Rightarrow> Resource) \<Rightarrow> v1_Pod \<Rightarrow> bool" where
  "follows_spec spec pod = (computePodResourceRequest pod = spec (pod_UID pod))"

lemma follows_spec_wf: "follows_spec spec pod \<Longrightarrow> Resource_wf (spec (pod_UID pod))"
  using Resource_wf_computePodResourceRequest by (metis follows_spec_def)

lemma accounted_new: "accounted spec (newElasticQuotaInfo ns mn mx None)"
  by (simp add: accounted_def) (simp add: newElasticQuotaInfo_def Let_def NewResource_def Resource_Add_def)

lemma accounted_add:
  assumes "accounted spec e" "follows_spec spec pod" "addPodIfNotPresent pod e = (err, e')"
  shows "accounted spec e' \<and> eq_Min e' = eq_Min e \<and> eq_Max e' = eq_Max e \<and> eq_Namespace e' = eq_Namespace e
    \<and> eq_pods e' = eq_pods e \<union> ({pod_UID pod} - {''''}) \<and> (err = None \<longleftrightarrow> pod_UID pod \<noteq> '''')"
  using assms follows_spec_wf [OF assms(2)]
  by (auto simp: accounted_def follows_spec_def addPodIfNotPresent_def GetPodKey_def eq_wf_def reserveResource_def
      rdim_reserve add.commute insert_absorb split: if_splits)

lemma accounted_delete:
  assumes "accounted spec e" "follows_spec spec pod" "deletePodIfPresent pod e = (err, e')"
  shows "accounted spec e' \<and> eq_Min e' = eq_Min e \<and> eq_Max e' = eq_Max e \<and> eq_Namespace e' = eq_Namespace e
    \<and> eq_pods e' = eq_pods e - ({pod_UID pod} - {''''}) \<and> (err = None \<longleftrightarrow> pod_UID pod \<noteq> '''')"
  using assms follows_spec_wf [OF assms(2)]
  by (auto simp: accounted_def follows_spec_def deletePodIfPresent_def GetPodKey_def eq_wf_def unreserveResource_def
      rdim_unreserve sum_diff1 split: if_splits)

section \<open>Comparisons by dimension\<close>

definition basic_names :: "string set" where
  "basic_names = {ResourceCPU, ResourceMemory, ResourcePods, ResourceEphemeralStorage}"

text \<open>The limit of a dimension: a missing scalar limit is the bound.\<close>

definition limit :: "i64 \<Rightarrow> Resource \<Rightarrow> string \<Rightarrow> i64" where
  "limit bound y n = (if n \<in> basic_names then rdim y n else gm_get bound (r_ScalarResources y) n)"

lemma gm_get_in: "gm_wf m \<Longrightarrow> (k, v) \<in> set m \<Longrightarrow> gm_get z m k = v"
  by (simp add: gm_get_def gm_wf_def)

lemma scalar_not_basic: "IsScalarResourceName n \<Longrightarrow> n \<notin> basic_names"
  by (auto simp: basic_names_def)

lemma cmp2_dims:
  assumes "Resource_wf x1"
  shows "cmp2 x1 x2 y b \<longleftrightarrow> (\<exists>n \<in> basic_names \<union> fst ` set (r_ScalarResources x1).
    sint (limit b y n) < sint (rdim x1 n + rdim x2 n))"
proof -
  have "list_ex (\<lambda>(rName, rQuant). sint (gm_get b (r_ScalarResources y) rName) < sint (rQuant + gm_get 0 (r_ScalarResources x2) rName))
      (r_ScalarResources x1) \<longleftrightarrow>
    (\<exists>n \<in> fst ` set (r_ScalarResources x1). sint (limit b y n) < sint (rdim x1 n + rdim x2 n))"
  proof -
    have "sint (gm_get b (r_ScalarResources y) k) < sint (v + gm_get 0 (r_ScalarResources x2) k) \<longleftrightarrow>
      sint (limit b y k) < sint (rdim x1 k + rdim x2 k)" if kv: "(k, v) \<in> set (r_ScalarResources x1)" for k v
    proof -
      have k: "IsScalarResourceName k" using Resource_wf_set [OF assms kv] .
      have "rdim x1 k = v" using gm_get_in [of _ k v] kv assms scalar_gm_get [OF k] by (metis Resource_wf_def)
      then show ?thesis using scalar_gm_get [OF k, of x2] scalar_not_basic [OF k] by (simp add: limit_def)
    qed
    then have "(\<exists>x \<in> set (r_ScalarResources x1). case x of (k, v) \<Rightarrow>
        sint (gm_get b (r_ScalarResources y) k) < sint (v + gm_get 0 (r_ScalarResources x2) k)) \<longleftrightarrow>
      (\<exists>x \<in> set (r_ScalarResources x1). sint (limit b y (fst x)) < sint (rdim x1 (fst x) + rdim x2 (fst x)))"
      by (intro bex_cong) auto
    then show ?thesis by (simp add: list_ex_iff)
  qed
  then show ?thesis unfolding cmp2_def bex_Un
    by (auto simp: basic_names_def limit_def rdim_def)
qed

lemma limit_zero [simp]: "limit LowerBoundOfMin y n = rdim y n"
  by (simp add: limit_def LowerBoundOfMin_def rdim_def basic_names_def)

lemma rdim_absent: "n \<notin> basic_names \<union> fst ` set (r_ScalarResources r) \<Longrightarrow> rdim r n = 0"
  by (simp add: rdim_def basic_names_def gm_get_def) (metis map_of_eq_None_iff option.case(1))

lemma cmp_dims:
  assumes "Resource_wf x" and "\<And>n. 0 \<le> sint (rdim y n)"
  shows "cmp x y LowerBoundOfMin \<longleftrightarrow> (\<exists>n. sint (rdim y n) < sint (rdim x n))"
proof -
  have "n \<in> basic_names \<union> fst ` set (r_ScalarResources x)" if "sint (rdim y n) < sint (rdim x n)" for n
    using rdim_absent [of n x] that assms(2) [of n] by fastforce
  then show ?thesis unfolding cmp_def cmp2_dims [OF assms(1)] by (simp add: rdim_zero) blast
qed

section \<open>Aggregation over all quotas\<close>

definition eqs_ok :: "ElasticQuotaInfos \<Rightarrow> bool" where
  "eqs_ok e = list_all (\<lambda>(k, i). eq_wf i \<and> eq_Min i \<noteq> None) e"

lemma aggregate_dims:
  assumes "eqs_ok e" and "Resource_wf u"
  shows "\<exists>u' m'. aggregate e u m = Ret (u', m') \<and> Resource_wf u'
    \<and> (\<forall>n. rdim u' n = rdim u n + (\<Sum>(k, i)\<leftarrow>e. rdim (eq_Used i) n))
    \<and> (\<forall>n. rdim m' n = rdim m n + (\<Sum>(k, i)\<leftarrow>e. rdim (the (eq_Min i)) n))"
  using assms
proof (induction e arbitrary: u m)
  case Nil
  then show ?case by simp
next
  case (Cons x e)
  obtain k i where x: "x = (k, i)" by fastforce
  then obtain mn where mn: "eq_Min i = Some mn" and w: "Resource_wf mn" "Resource_wf (eq_Used i)"
    using Cons.prems(1) by (auto simp: eq_wf_def eqs_ok_def)
  let ?u = "Resource_Add u (util_ResourceList (eq_Used i))" and ?m = "Resource_Add m (util_ResourceList mn)"
  obtain u' m' where "aggregate e ?u ?m = Ret (u', m')" "Resource_wf u'"
    "\<And>n. rdim u' n = rdim ?u n + (\<Sum>(k, i)\<leftarrow>e. rdim (eq_Used i) n)"
    "\<And>n. rdim m' n = rdim ?m n + (\<Sum>(k, i)\<leftarrow>e. rdim (the (eq_Min i)) n)"
    using Cons.IH [of ?u ?m] Cons.prems by (fastforce simp: eqs_ok_def)
  then show ?case using x mn w by (simp add: rdim_Add_ResourceList add.assoc)
qed

lemma aggregated_dims:
  assumes "eqs_ok e" and "Resource_wf req"
    and "\<And>n. 0 \<le> sint (\<Sum>(k, i)\<leftarrow>e. rdim (the (eq_Min i)) n)"
  shows "aggregatedUsedOverMinWith e req = Ret (\<exists>n. sint (\<Sum>(k, i)\<leftarrow>e. rdim (the (eq_Min i)) n)
    < sint ((\<Sum>(k, i)\<leftarrow>e. rdim (eq_Used i) n) + rdim req n))"
proof -
  have z: "NewResource [] = zero_Resource" by (simp add: NewResource_def Resource_Add_def)
  obtain u m where a: "aggregate e zero_Resource zero_Resource = Ret (u, m)" and u: "Resource_wf u"
    and d: "\<And>n. rdim u n = (\<Sum>(k, i)\<leftarrow>e. rdim (eq_Used i) n)" "\<And>n. rdim m n = (\<Sum>(k, i)\<leftarrow>e. rdim (the (eq_Min i)) n)"
    using aggregate_dims [OF assms(1) Resource_wf_zero, where m = zero_Resource] by auto
  have "cmp (Resource_Add u (util_ResourceList req)) m LowerBoundOfMin \<longleftrightarrow>
    (\<exists>n. sint (rdim m n) < sint (rdim u n + rdim req n))"
    using cmp_dims [of "Resource_Add u (util_ResourceList req)" m] u assms(2,3) d
    by (simp add: rdim_Add_ResourceList)
  then show ?thesis using a d by (simp add: aggregatedUsedOverMinWith_def z)
qed

lemma aggregated_no_panic:
  assumes "eqs_ok e"
  shows "\<exists>b. aggregatedUsedOverMinWith e req = Ret b"
  using aggregate_dims [OF assms, where u = "NewResource []" and m = "NewResource []"]
  by (auto simp: aggregatedUsedOverMinWith_def NewResource_def)

section \<open>A ledger of pods\<close>

text \<open>
  What the schedulers rely on: a ledger counts every pod with a key once, adding and deleting
  are idempotent, and deleting a pod undoes adding it.
\<close>

locale pod_ledger =
  fixes add del :: "v1_Pod \<Rightarrow> 's \<Rightarrow> goerror option \<times> 's"
    and members :: "'s \<Rightarrow> string set" and total :: "'s \<Rightarrow> string \<Rightarrow> i64" and req :: "v1_Pod \<Rightarrow> string \<Rightarrow> i64"
  assumes add_err: "pod_UID p = '''' \<Longrightarrow> fst (add p s) \<noteq> None \<and> snd (add p s) = s"
    and add_ok: "pod_UID p \<noteq> '''' \<Longrightarrow> fst (add p s) = None \<and> members (snd (add p s)) = insert (pod_UID p) (members s)"
    and add_total: "pod_UID p \<noteq> '''' \<Longrightarrow>
          total (snd (add p s)) n = total s n + (if pod_UID p \<in> members s then 0 else req p n)"
    and del_err: "pod_UID p = '''' \<Longrightarrow> fst (del p s) \<noteq> None \<and> snd (del p s) = s"
    and del_ok: "pod_UID p \<noteq> '''' \<Longrightarrow> fst (del p s) = None \<and> members (snd (del p s)) = members s - {pod_UID p}"
    and del_total: "pod_UID p \<noteq> '''' \<Longrightarrow>
          total (snd (del p s)) n = total s n - (if pod_UID p \<in> members s then req p n else 0)"
begin

lemma add_twice:
  "members (snd (add p (snd (add p s)))) = members (snd (add p s))
   \<and> total (snd (add p (snd (add p s)))) n = total (snd (add p s)) n"
  by (cases "pod_UID p = ''''") (simp_all add: add_err add_ok add_total)

lemma del_add:
  assumes "pod_UID p \<notin> members s"
  shows "members (snd (del p (snd (add p s)))) = members s \<and> total (snd (del p (snd (add p s)))) n = total s n"
  using assms by (cases "pod_UID p = ''''") (simp_all add: add_err del_err add_ok add_total del_ok del_total)

lemma add_del:
  assumes "pod_UID p \<in> members s"
  shows "members (snd (add p (snd (del p s)))) = members s \<and> total (snd (add p (snd (del p s)))) n = total s n"
  using assms by (cases "pod_UID p = ''''") (auto simp: add_err del_err add_ok add_total del_ok del_total)

lemma add_commute:
  assumes "pod_UID p \<noteq> pod_UID q"
  shows "members (snd (add p (snd (add q s)))) = members (snd (add q (snd (add p s))))
    \<and> total (snd (add p (snd (add q s)))) n = total (snd (add q (snd (add p s)))) n"
  using assms by (cases "pod_UID p = ''''"; cases "pod_UID q = ''''") (auto simp: add_err add_ok add_total)

end

interpretation eql: pod_ledger addPodIfNotPresent deletePodIfPresent eq_pods "\<lambda>e. rdim (eq_Used e)"
    "\<lambda>p. rdim (computePodResourceRequest p)"
  by unfold_locales
     (auto simp: addPodIfNotPresent_def deletePodIfPresent_def GetPodKey_def reserveResource_def unreserveResource_def
        rdim_reserve rdim_unreserve)

end
