(* ===== verification/Preemption.thy ===== *)
theory Preemption
  imports Framework Elastic_Quota
begin

text \<open>
  What the two preempting plugins share: pods on a node as a Go slice with its backing array
  (vendored \<^verbatim>\<open>framework.NodeInfo\<close>), the order of importance of pods (vendored
  \<^verbatim>\<open>schedutil.MoreImportantPod\<close>), the framework handle, and the loop that collects potential
  victims while it removes them from the slice it ranges over.

  A node's pods are the first \<open>ni_len\<close> cells of \<open>ni_arr\<close>.  \<^verbatim>\<open>RemovePod\<close> moves the last pod
  into the hole, in place, so a \<^verbatim>\<open>range\<close> over the same slice sees the changed array.
  \<open>collect_visits_original\<close> shows that it still visits every pod once, in the original order.
  The fields of NodeInfo that the framework derives from the pods are left out.
\<close>

section \<open>Pods of a node\<close>

record NodeInfo =
  ni_Name :: string
  ni_arr :: "v1_Pod list"
  ni_len :: nat

definition ni_Pods :: "NodeInfo \<Rightarrow> v1_Pod list" where
  "ni_Pods ni = take (ni_len ni) (ni_arr ni)"

definition new_NodeInfo :: "string \<Rightarrow> v1_Pod list \<Rightarrow> NodeInfo" where
  "new_NodeInfo n ps = \<lparr>ni_Name = n, ni_arr = ps, ni_len = length ps\<rparr>"

text \<open>The first index whose pod has the key; pods without a key are skipped.\<close>

fun find_key :: "string \<Rightarrow> v1_Pod list \<Rightarrow> nat option" where
  "find_key k [] = None"
| "find_key k (p # ps) = (if GetPodKey p = Inr k then Some 0 else map_option Suc (find_key k ps))"

definition removeFromSlice :: "string \<Rightarrow> NodeInfo \<Rightarrow> NodeInfo option" where
  "removeFromSlice k ni =
     (case find_key k (ni_Pods ni) of
        None \<Rightarrow> None
      | Some i \<Rightarrow> Some (ni\<lparr>ni_arr := (ni_arr ni)[i := ni_arr ni ! (ni_len ni - 1)], ni_len := ni_len ni - 1\<rparr>))"

definition NodeInfo_RemovePod :: "v1_Pod \<Rightarrow> NodeInfo \<Rightarrow> goerror option \<times> NodeInfo" where
  "NodeInfo_RemovePod pod ni =
     (case GetPodKey pod of
        Inl e \<Rightarrow> (Some e, ni)
      | Inr k \<Rightarrow>
          (case removeFromSlice k ni of
             Some ni' \<Rightarrow> (None, ni')
           | None \<Rightarrow> (Some (''no corresponding pod '' @ pod_Name pod @ '' in pods of node '' @ ni_Name ni), ni)))"

definition AddPodInfo :: "v1_Pod \<Rightarrow> NodeInfo \<Rightarrow> NodeInfo" where
  "AddPodInfo pod ni =
     (if ni_len ni < length (ni_arr ni)
      then ni\<lparr>ni_arr := (ni_arr ni)[ni_len ni := pod], ni_len := Suc (ni_len ni)\<rparr>
      else ni\<lparr>ni_arr := ni_arr ni @ [pod], ni_len := Suc (ni_len ni)\<rparr>)"

definition ni_wf :: "NodeInfo \<Rightarrow> bool" where
  "ni_wf ni = (ni_len ni \<le> length (ni_arr ni))"

lemma ni_wf_new [simp]: "ni_wf (new_NodeInfo n ps)" and ni_Pods_new [simp]: "ni_Pods (new_NodeInfo n ps) = ps"
  by (simp_all add: ni_wf_def new_NodeInfo_def ni_Pods_def)

lemma AddPodInfo_Pods: "ni_wf ni \<Longrightarrow> ni_Pods (AddPodInfo p ni) = ni_Pods ni @ [p] \<and> ni_wf (AddPodInfo p ni)"
  by (auto simp: AddPodInfo_def ni_Pods_def ni_wf_def take_Suc_conv_app_nth)

lemma find_key_Some:
  "find_key k ps = Some i \<Longrightarrow> i < length ps \<and> GetPodKey (ps ! i) = Inr k"
  by (induction ps arbitrary: i) (auto split: if_splits)

lemma find_key_None: "find_key k ps = None \<longleftrightarrow> (\<forall>p \<in> set ps. GetPodKey p \<noteq> Inr k)"
  by (induction ps) auto

text \<open>Moving the last element into the hole removes one element, as a multiset.\<close>

lemma mset_swap_remove:
  assumes "i < n" "n \<le> length xs"
  shows "mset (take (n - 1) (xs[i := xs ! (n - 1)])) = mset (take n xs) - {#xs ! i#}"
proof -
  obtain m where n: "n = Suc m" using assms by (cases n) auto
  have t: "take n xs = take m xs @ [xs ! m]" using assms n by (simp add: take_Suc_conv_app_nth)
  show ?thesis
  proof (cases "i = m")
    case True
    then show ?thesis using t n by simp
  next
    case False
    then have i: "i < length (take m xs)" using assms n by simp
    have "xs ! i \<in># mset (take m xs)" using i nth_mem_mset [OF i] by simp
    then obtain B where B: "mset (take m xs) = add_mset (xs ! i) B" by (metis insert_DiffM)
    then show ?thesis using t n i
      by (simp add: take_update_swap mset_update add_mset_commute [of "xs ! m"])
  qed
qed

section \<open>Importance\<close>

text \<open>\<^verbatim>\<open>GetPodStartTime\<close> takes the current time for a pod that has not started; two calls read the clock twice.\<close>

definition GetPodStartTime :: "int \<Rightarrow> v1_Pod \<Rightarrow> int" where
  "GetPodStartTime now pod = (case pod_StartTime pod of Some t \<Rightarrow> t | None \<Rightarrow> now)"

definition MoreImportantPod :: "int \<Rightarrow> int \<Rightarrow> v1_Pod \<Rightarrow> v1_Pod \<Rightarrow> bool" where
  "MoreImportantPod now1 now2 pod1 pod2 =
     (let p1 = PodPriority pod1; p2 = PodPriority pod2
      in if p1 \<noteq> p2 then sint p1 > sint p2
         else GetPodStartTime now1 pod1 < GetPodStartTime now2 pod2)"

text \<open>
  Go's \<^verbatim>\<open>sort.Slice\<close>: the result is a permutation; it is sorted when the comparison is a
  strict weak order.  The order of equal elements is open, so sorting is a parameter.
\<close>

type_synonym sort_fn = "(v1_Pod \<Rightarrow> v1_Pod \<Rightarrow> bool) \<Rightarrow> v1_Pod list \<Rightarrow> v1_Pod list"

locale sort_slice =
  fixes srt :: sort_fn
  assumes sort_permutes: "mset (srt lt xs) = mset xs"
begin

lemma sort_set [simp]: "set (srt lt xs) = set xs"
  using sort_permutes mset_eq_setD by blast

lemma sort_length [simp]: "length (srt lt xs) = length xs"
  using sort_permutes mset_eq_length by blast

lemma sort_distinct_uids: "distinct (map pod_UID (srt lt xs)) = distinct (map pod_UID xs)"
  by (metis (no_types, lifting) mset_eq_imp_distinct_iff mset_map sort_permutes)

end

fun insert_slice :: "(v1_Pod \<Rightarrow> v1_Pod \<Rightarrow> bool) \<Rightarrow> v1_Pod \<Rightarrow> v1_Pod list \<Rightarrow> v1_Pod list" where
  "insert_slice lt x [] = [x]"
| "insert_slice lt x (y # ys) = (if lt y x then y # insert_slice lt x ys else x # y # ys)"

definition insertion_sort :: sort_fn where
  "insertion_sort lt xs = foldr (insert_slice lt) xs []"

lemma mset_insert_slice: "mset (insert_slice lt x ys) = add_mset x (mset ys)"
  by (induction ys) auto

interpretation ins: sort_slice insertion_sort
proof
  fix lt and xs :: "v1_Pod list"
  show "mset (insertion_sort lt xs) = mset xs"
    unfolding insertion_sort_def by (induction xs) (simp_all add: mset_insert_slice)
qed

section \<open>The framework handle\<close>

text \<open>
  What a plugin asks of the framework: running the AddPod and RemovePod extensions and the
  filters of all configured plugins, the nodes of the snapshot and the nominated pods.  The
  configured plugins are not known here, so the handle is a parameter.
\<close>

record 'st fhandle =
  fh_RunRemovePod :: "v1_Pod \<Rightarrow> v1_Pod \<Rightarrow> NodeInfo \<Rightarrow> 'st \<Rightarrow> Status \<times> 'st"
  fh_RunAddPod :: "v1_Pod \<Rightarrow> v1_Pod \<Rightarrow> NodeInfo \<Rightarrow> 'st \<Rightarrow> Status \<times> 'st"
  fh_RunFilter :: "'st \<Rightarrow> v1_Pod \<Rightarrow> NodeInfo \<Rightarrow> Status"
  fh_GetNode :: "string \<Rightarrow> NodeInfo option"
  fh_NodeInfos :: "goerror + NodeInfo list"
  fh_NominatedPodsForNode :: "string \<Rightarrow> v1_Pod list"

definition status_AsError :: "Status \<Rightarrow> goerror option" where
  "status_AsError s = (if IsSuccess s then None else (case s of None \<Rightarrow> None | Some (c, m) \<Rightarrow> Some m))"

text \<open>The closures \<^verbatim>\<open>removePod\<close> and \<^verbatim>\<open>addPod\<close> of the two \<^verbatim>\<open>SelectVictimsOnNode\<close>.\<close>

definition removePod :: "'st fhandle \<Rightarrow> v1_Pod \<Rightarrow> v1_Pod \<Rightarrow> NodeInfo \<times> 'st \<Rightarrow> goerror option \<times> NodeInfo \<times> 'st" where
  "removePod H pod rpi s =
     (case NodeInfo_RemovePod rpi (fst s) of
        (Some e, ni) \<Rightarrow> (Some e, ni, snd s)
      | (None, ni) \<Rightarrow>
          (case fh_RunRemovePod H pod rpi ni (snd s) of (status, st) \<Rightarrow> (status_AsError status, ni, st)))"

definition addPod_closure :: "'st fhandle \<Rightarrow> v1_Pod \<Rightarrow> v1_Pod \<Rightarrow> NodeInfo \<times> 'st \<Rightarrow> goerror option \<times> NodeInfo \<times> 'st" where
  "addPod_closure H pod api s =
     (case AddPodInfo api (fst s) of ni \<Rightarrow>
        (case fh_RunAddPod H pod api ni (snd s) of (status, st) \<Rightarrow> (status_AsError status, ni, st)))"

text \<open>
  The first loop of \<^verbatim>\<open>SelectVictimsOnNode\<close>: at every index of the range the pod is read from
  the array as it is then; the test may look at the cycle state; a selected pod is
  recorded and removed from the node.
\<close>

fun collect :: "('st \<Rightarrow> v1_Pod \<Rightarrow> goerror + bool) \<Rightarrow> 'st fhandle \<Rightarrow> v1_Pod \<Rightarrow> nat list \<Rightarrow> v1_Pod list \<Rightarrow> NodeInfo \<times> 'st
    \<Rightarrow> (goerror + v1_Pod list) \<times> NodeInfo \<times> 'st" where
  "collect test H pod [] vs s = (Inr vs, s)"
| "collect test H pod (i # is) vs s =
     (let p = ni_arr (fst s) ! i in
      case test (snd s) p of
        Inl e \<Rightarrow> (Inl e, s)
      | Inr False \<Rightarrow> collect test H pod is vs s
      | Inr True \<Rightarrow>
          (case removePod H pod p s of
             (Some e, s') \<Rightarrow> (Inl e, s')
           | (None, s') \<Rightarrow> collect test H pod is (vs @ [p]) s'))"

text \<open>The same loop over a list of pods that nobody changes.\<close>

fun collect_list :: "('st \<Rightarrow> v1_Pod \<Rightarrow> goerror + bool) \<Rightarrow> 'st fhandle \<Rightarrow> v1_Pod \<Rightarrow> v1_Pod list \<Rightarrow> v1_Pod list \<Rightarrow> NodeInfo \<times> 'st
    \<Rightarrow> (goerror + v1_Pod list) \<times> NodeInfo \<times> 'st" where
  "collect_list test H pod [] vs s = (Inr vs, s)"
| "collect_list test H pod (p # ps) vs s =
     (case test (snd s) p of
        Inl e \<Rightarrow> (Inl e, s)
      | Inr False \<Rightarrow> collect_list test H pod ps vs s
      | Inr True \<Rightarrow>
          (case removePod H pod p s of
             (Some e, s') \<Rightarrow> (Inl e, s')
           | (None, s') \<Rightarrow> collect_list test H pod ps (vs @ [p]) s'))"

section \<open>Removing while ranging\<close>

text \<open>The pods of the node have keys, all different.\<close>

definition keyed :: "v1_Pod list \<Rightarrow> bool" where
  "keyed ps = (distinct (map pod_UID ps) \<and> list_all (\<lambda>p. pod_UID p \<noteq> '''') ps)"

lemma GetPodKey_Inr: "GetPodKey p = Inr k \<longleftrightarrow> pod_UID p = k \<and> k \<noteq> ''''"
  by (auto simp: GetPodKey_def)

lemma keyed_uid_inj: "keyed ps \<Longrightarrow> p \<in> set ps \<Longrightarrow> q \<in> set ps \<Longrightarrow> pod_UID p = pod_UID q \<Longrightarrow> p = q"
  by (metis distinct_map inj_onD keyed_def)

lemma keyed_nonempty: "keyed ps \<Longrightarrow> p \<in> set ps \<Longrightarrow> pod_UID p \<noteq> ''''"
  by (auto simp: keyed_def list_all_iff)

lemma keyed_mset: "keyed ps \<Longrightarrow> mset qs = mset ps \<Longrightarrow> keyed qs"
  unfolding keyed_def list_all_iff by (metis (no_types, lifting) mset_eq_imp_distinct_iff mset_map mset_eq_setD)

text \<open>Removing a pod of a keyed node: it is found and exactly it goes away; later cells stay.\<close>

lemma RemovePod_present:
  assumes "ni_wf ni" "keyed (ni_Pods ni)" "p \<in> set (ni_Pods ni)"
  shows "\<exists>ni' j. NodeInfo_RemovePod p ni = (None, ni') \<and> ni_wf ni' \<and> ni_Name ni' = ni_Name ni
    \<and> mset (ni_Pods ni') = mset (ni_Pods ni) - {#p#} \<and> ni_len ni' = ni_len ni - 1
    \<and> j < ni_len ni \<and> ni_arr ni ! j = p \<and> ni_arr ni' = (ni_arr ni)[j := ni_arr ni ! (ni_len ni - 1)]"
proof -
  have uid: "pod_UID p \<noteq> ''''" using keyed_nonempty [OF assms(2,3)] .
  have "find_key (pod_UID p) (ni_Pods ni) \<noteq> None"
    using assms(3) uid unfolding find_key_None GetPodKey_Inr by auto
  then obtain j where j: "find_key (pod_UID p) (ni_Pods ni) = Some j" by blast
  from find_key_Some [OF j] have jl: "j < ni_len ni" "j < length (ni_arr ni)"
    and ju: "pod_UID (ni_Pods ni ! j) = pod_UID p"
    using assms(1) by (auto simp: ni_Pods_def ni_wf_def GetPodKey_Inr)
  have jm: "ni_Pods ni ! j \<in> set (ni_Pods ni)" using find_key_Some [OF j] by simp
  have jp: "ni_arr ni ! j = p" using keyed_uid_inj [OF assms(2) jm assms(3) ju] jl by (simp add: ni_Pods_def)
  let ?ni = "ni\<lparr>ni_arr := (ni_arr ni)[j := ni_arr ni ! (ni_len ni - 1)], ni_len := ni_len ni - 1\<rparr>"
  have "NodeInfo_RemovePod p ni = (None, ?ni)"
    using j uid by (simp add: NodeInfo_RemovePod_def GetPodKey_def removeFromSlice_def)
  moreover have "mset (ni_Pods ?ni) = mset (ni_Pods ni) - {#p#}"
    using mset_swap_remove [of j "ni_len ni" "ni_arr ni"] jl assms(1) jp by (simp add: ni_Pods_def ni_wf_def)
  moreover have "ni_wf ?ni" using assms(1) by (simp add: ni_wf_def)
  ultimately show ?thesis using jl jp by fastforce
qed

lemma RemovePod_absent:
  assumes "\<forall>q \<in> set (ni_Pods ni). pod_UID q \<noteq> pod_UID p"
  shows "\<exists>e. NodeInfo_RemovePod p ni = (Some e, ni)"
proof -
  have "find_key k (ni_Pods ni) = None" if "GetPodKey p = Inr k" for k
    using assms that unfolding find_key_None GetPodKey_Inr by metis
  then show ?thesis by (auto simp: NodeInfo_RemovePod_def removeFromSlice_def split: sum.splits)
qed

lemma keyed_diff: "keyed ps \<Longrightarrow> mset qs = mset ps - {#p#} \<Longrightarrow> keyed qs"
proof -
  assume a: "keyed ps" and b: "mset qs = mset ps - {#p#}"
  obtain rs where "mset rs = mset ps - mset qs" using ex_mset by blast
  then have "mset (qs @ rs) = mset ps" using b by (simp add: subset_mset.add_diff_inverse)
  then have "keyed (qs @ rs)" using keyed_mset [OF a] by blast
  then show "keyed qs" by (simp add: keyed_def)
qed

text \<open>
  The cells from index \<open>length done\<close> on hold the pods still to be visited; they are all still
  on the node.
\<close>

definition ranging :: "v1_Pod list \<Rightarrow> v1_Pod list \<Rightarrow> NodeInfo \<Rightarrow> bool" where
  "ranging done todo ni = (ni_wf ni \<and> keyed (done @ todo) \<and> length (ni_arr ni) = length (done @ todo)
     \<and> drop (length done) (ni_arr ni) = todo \<and> set todo \<subseteq> set (ni_Pods ni) \<and> keyed (ni_Pods ni))"

lemma ranging_skip:
  assumes "ranging done (p # todo) ni"
  shows "ni_arr ni ! length done = p" "ranging (done @ [p]) todo ni" "p \<in> set (ni_Pods ni)"
proof -
  have d: "drop (length done) (ni_arr ni) = p # todo" using assms by (simp add: ranging_def)
  then show "ni_arr ni ! length done = p"
    by (metis list.sel(1) hd_drop_conv_nth drop_eq_Nil linorder_not_less list.discI)
  have "drop (length (done @ [p])) (ni_arr ni) = todo" using d by (metis drop_Suc length_append_singleton list.sel(3) tl_drop)
  then show "ranging (done @ [p]) todo ni" "p \<in> set (ni_Pods ni)" using assms by (simp_all add: ranging_def)
qed

text \<open>Removing the current pod fills a cell at or before the current index.\<close>

lemma ranging_remove:
  assumes "ranging done (p # todo) ni"
  shows "\<exists>ni'. NodeInfo_RemovePod p ni = (None, ni') \<and> ranging (done @ [p]) todo ni'
    \<and> mset (ni_Pods ni') = mset (ni_Pods ni) - {#p#}"
proof -
  note sk = ranging_skip [OF assms]
  have wf: "ni_wf ni" "keyed (ni_Pods ni)" and len: "length (ni_arr ni) = length (done @ p # todo)"
    and ndp: "p \<notin> set todo" and sub: "set todo \<subseteq> set (ni_Pods ni)"
    using assms by (auto simp: ranging_def keyed_def)
  have rest: "drop (Suc (length done)) (ni_arr ni) = todo" using sk(2) by (simp add: ranging_def)
  from RemovePod_present [OF wf sk(3)] obtain ni' j where
    r: "NodeInfo_RemovePod p ni = (None, ni')" "ni_wf ni'" and m: "mset (ni_Pods ni') = mset (ni_Pods ni) - {#p#}"
    and j: "j < ni_len ni" "ni_arr ni ! j = p" and arr: "ni_arr ni' = (ni_arr ni)[j := ni_arr ni ! (ni_len ni - 1)]"
    by blast
  have "j \<le> length done"
  proof (rule ccontr)
    assume "\<not> j \<le> length done"
    then have le: "Suc (length done) \<le> j" by simp
    have jlen: "j < length (ni_arr ni)" using j(1) wf(1) by (simp add: ni_wf_def)
    then have "todo ! (j - Suc (length done)) = p"
      using rest le j(2) nth_drop [of "Suc (length done)" "ni_arr ni" "j - Suc (length done)"] by simp
    moreover have "j - Suc (length done) < length todo" using rest le jlen by (metis diff_less_mono length_drop)
    ultimately show False using ndp nth_mem by metis
  qed
  then have "drop (length (done @ [p])) (ni_arr ni') = todo" using arr rest by simp
  moreover have "set todo \<subseteq> set (ni_Pods ni')"
  proof
    fix q assume "q \<in> set todo"
    then have "q \<in># mset (ni_Pods ni) - {#p#}" using sub ndp by (auto simp: in_diff_count)
    then show "q \<in> set (ni_Pods ni')" using m by (metis set_mset_mset)
  qed
  ultimately have "ranging (done @ [p]) todo ni'"
    using sk(2) r(2) arr len keyed_diff [OF wf(2) m] by (simp add: ranging_def)
  then show ?thesis using r(1) m by blast
qed

text \<open>The loop over the indices of the range is the loop over the original list.\<close>

lemma collect_ranging:
  "ranging done todo ni \<Longrightarrow>
     collect test H pod [length done..<length (done @ todo)] vs (ni, st) = collect_list test H pod todo vs (ni, st)"
proof (induction todo arbitrary: "done" ni st vs)
  case Nil
  then show ?case by simp
next
  case (Cons p todo)
  have idx: "[length done..<length (done @ p # todo)] = length done # [length (done @ [p])..<length ((done @ [p]) @ todo)]"
    by (simp add: upt_rec)
  note sk = ranging_skip [OF Cons.prems]
  obtain ni' where r: "NodeInfo_RemovePod p ni = (None, ni')" "ranging (done @ [p]) todo ni'"
    using ranging_remove [OF Cons.prems] by blast
  show ?case unfolding idx using sk(1) Cons.IH [OF sk(2)] Cons.IH [OF r(2)] r(1)
    by (auto simp: removePod_def split: sum.splits bool.splits prod.splits option.splits)
qed

lemma collect_visits_original:
  assumes "keyed ps"
  shows "collect test H pod [0..<length ps] [] (new_NodeInfo n ps, st) = collect_list test H pod ps [] (new_NodeInfo n ps, st)"
  using collect_ranging [of "[]" ps "new_NodeInfo n ps" test H pod "[]" st] assms
  by (simp add: ranging_def ni_wf_def) (simp add: new_NodeInfo_def)

text \<open>What the loop collects, and what it leaves on the node.\<close>

lemma collect_list_ranging:
  assumes inv: "\<And>p ni st s st'. I st \<Longrightarrow> fh_RunRemovePod H pod p ni st = (s, st') \<Longrightarrow> I st'"
  shows "collect_list test H pod todo vs (ni, st) = (Inr vs', ni', st') \<Longrightarrow> ranging done todo ni \<Longrightarrow> I st \<Longrightarrow>
     \<exists>ws. vs' = vs @ ws \<and> mset ws + mset (ni_Pods ni') = mset (ni_Pods ni) \<and> ni_wf ni' \<and> ni_Name ni' = ni_Name ni
       \<and> I st' \<and> (\<forall>p \<in> set ws. p \<in> set todo \<and> (\<exists>st. I st \<and> test st p = Inr True))"
proof (induction todo arbitrary: "done" ni st vs)
  case Nil
  then show ?case by (simp add: ranging_def)
next
  case (Cons p todo)
  note sk = ranging_skip [OF Cons.prems(2)]
  show ?case
  proof (cases "test st p = Inr True")
    case False
    then have "collect_list test H pod todo vs (ni, st) = (Inr vs', ni', st')"
      using Cons.prems(1) by (auto split: sum.splits bool.splits)
    from Cons.IH [OF this sk(2) Cons.prems(3)] show ?thesis by auto
  next
    case True
    obtain ni1 where r: "NodeInfo_RemovePod p ni = (None, ni1)" "ranging (done @ [p]) todo ni1"
      and m: "mset (ni_Pods ni1) = mset (ni_Pods ni) - {#p#}" using ranging_remove [OF Cons.prems(2)] by blast
    obtain s st1 where rm: "fh_RunRemovePod H pod p ni1 st = (s, st1)" by fastforce
    then have "collect_list test H pod todo (vs @ [p]) (ni1, st1) = (Inr vs', ni', st')"
      using Cons.prems(1) True r(1) by (auto simp: removePod_def split: option.splits)
    from Cons.IH [OF this r(2) inv [OF Cons.prems(3) rm]] obtain ws where ws: "vs' = vs @ p # ws"
      "mset ws + mset (ni_Pods ni') = mset (ni_Pods ni1)" "ni_wf ni'" "ni_Name ni' = ni_Name ni1" "I st'"
      "\<forall>p \<in> set ws. p \<in> set todo \<and> (\<exists>st. I st \<and> test st p = Inr True)" by auto
    have "ni_Name ni1 = ni_Name ni" using r(1)
      by (auto simp: NodeInfo_RemovePod_def removeFromSlice_def split: sum.splits option.splits)
    moreover have "mset (p # ws) + mset (ni_Pods ni') = mset (ni_Pods ni)" using ws(2) m sk(3) by simp
    ultimately show ?thesis using ws True Cons.prems(3) by (intro exI [of _ "p # ws"]) auto
  qed
qed

section \<open>Reprieving\<close>

text \<open>
  The two loops that try to give potential victims back their place: a step returns whether
  the pod stays, and the victims so far; the count is that of the pods that do not stay.
\<close>

type_synonym 'st reprieve = "v1_Pod \<Rightarrow> v1_Pod list \<Rightarrow> NodeInfo \<times> 'st \<Rightarrow> ((goerror + bool) \<times> v1_Pod list \<times> NodeInfo \<times> 'st) outcome"

fun reprieve_all :: "'st reprieve \<Rightarrow> v1_Pod list \<Rightarrow> v1_Pod list \<Rightarrow> nat \<Rightarrow> NodeInfo \<times> 'st
    \<Rightarrow> ((goerror + nat) \<times> v1_Pod list \<times> NodeInfo \<times> 'st) outcome" where
  "reprieve_all step [] vs n s = Ret (Inr n, vs, s)"
| "reprieve_all step (pi # pis) vs n s =
     (case step pi vs s of
        Panic m \<Rightarrow> Panic m
      | Ret (Inl e, vs, s) \<Rightarrow> Ret (Inl e, vs, s)
      | Ret (Inr fits, vs, s) \<Rightarrow> reprieve_all step pis vs (if fits then n else Suc n) s)"

text \<open>A step puts the pod either on the node or on the list of victims.\<close>

definition places :: "'st reprieve \<Rightarrow> bool" where
  "places step = (\<forall>pi vs ni st b vs' ni' st'. ni_wf ni \<longrightarrow> keyed (pi # ni_Pods ni) \<longrightarrow>
     step pi vs (ni, st) = Ret (Inr b, vs', ni', st') \<longrightarrow>
     ni_wf ni' \<and> (mset (ni_Pods ni') = add_mset pi (mset (ni_Pods ni)) \<and> vs' = vs
       \<or> mset (ni_Pods ni') = mset (ni_Pods ni) \<and> vs' = vs @ [pi]))"

lemma keyed_sub: "keyed ps \<Longrightarrow> mset qs \<subseteq># mset ps \<Longrightarrow> keyed qs"
proof -
  assume a: "keyed ps" and b: "mset qs \<subseteq># mset ps"
  obtain rs where "mset rs = mset ps - mset qs" using ex_mset by blast
  then have "mset (qs @ rs) = mset ps" using b by (simp add: subset_mset.add_diff_inverse)
  then have "keyed (qs @ rs)" using keyed_mset [OF a] by blast
  then show "keyed qs" by (simp add: keyed_def)
qed

lemma reprieve_all_places:
  assumes "places step"
  shows "reprieve_all step pis vs n (ni, st) = Ret (Inr n', vs', ni', st') \<Longrightarrow> ni_wf ni \<Longrightarrow> keyed (pis @ ni_Pods ni) \<Longrightarrow>
    ni_wf ni' \<and> mset vs' + mset (ni_Pods ni') = mset vs + mset pis + mset (ni_Pods ni)
    \<and> set vs' \<subseteq> set vs \<union> set pis \<and> n' \<le> n + length pis"
proof (induction pis arbitrary: vs n ni st)
  case Nil
  then show ?case by simp
next
  case (Cons pi pis)
  have k: "keyed (pi # ni_Pods ni)"
    using Cons.prems(3) by (rule keyed_sub) simp
  obtain b vs1 ni1 st1 where s: "step pi vs (ni, st) = Ret (Inr b, vs1, ni1, st1)"
    and r: "reprieve_all step pis vs1 (if b then n else Suc n) (ni1, st1) = Ret (Inr n', vs', ni', st')"
    using Cons.prems(1) by (auto split: outcome.splits sum.splits)
  have p: "ni_wf ni1" "mset (ni_Pods ni1) = add_mset pi (mset (ni_Pods ni)) \<and> vs1 = vs
       \<or> mset (ni_Pods ni1) = mset (ni_Pods ni) \<and> vs1 = vs @ [pi]"
    using assms Cons.prems(2) k s unfolding places_def by blast+
  have "keyed (pis @ ni_Pods ni1)"
    using Cons.prems(3) p(2) by (elim disjE) (auto intro: keyed_sub)
  from Cons.IH [OF r p(1) this] p(2) show ?case by (auto split: if_splits)
qed

text \<open>Two stages of reprieving conserve the pods; shared by both orders of the split.\<close>

lemma reprieve_twice:
  assumes "places step" "ni_wf ni" "keyed (vi @ nv @ ni_Pods ni)"
    and "reprieve_all step vi [] 0 (ni, st) = Ret (Inr n1, vs1, ni1, st1)"
    and "reprieve_all step nv vs1 0 (ni1, st1) = Ret (Inr n2, vs, ni', st')"
  shows "mset vs + mset (ni_Pods ni') = mset vi + mset nv + mset (ni_Pods ni) \<and> set vs \<subseteq> set vi \<union> set nv \<and> n1 \<le> length vi"
proof -
  have "keyed (vi @ ni_Pods ni)" using assms(3) by (rule keyed_sub) simp
  from reprieve_all_places [OF assms(1,4,2) this]
  have 1: "ni_wf ni1" "mset vs1 + mset (ni_Pods ni1) = mset vi + mset (ni_Pods ni)" "set vs1 \<subseteq> set vi" "n1 \<le> length vi" by auto
  have "keyed (nv @ ni_Pods ni1)" using assms(3) by (rule keyed_sub) (simp add: 1(2) [symmetric] union_commute)
  from reprieve_all_places [OF assms(1,5) 1(1) this]
  have 2: "mset vs + mset (ni_Pods ni') = mset nv + (mset vs1 + mset (ni_Pods ni1))" "set vs \<subseteq> set vs1 \<union> set nv"
    by (simp_all only: ac_simps)
  then show ?thesis unfolding 2(1) 1(2) using 1(3,4) 2(2) by (auto simp only: ac_simps)
qed

lemma removePod_present:
  assumes "ni_wf ni" "keyed (ni_Pods ni)" "p \<in> set (ni_Pods ni)" "removePod H pod p (ni, st) = (r, ni', st')"
  shows "ni_wf ni' \<and> mset (ni_Pods ni') = mset (ni_Pods ni) - {#p#}"
  using RemovePod_present [OF assms(1-3)] assms(4) by (auto simp: removePod_def split: prod.splits)

lemma removePod_absent:
  assumes "\<forall>q \<in> set (ni_Pods ni). pod_UID q \<noteq> pod_UID p" "removePod H pod p (ni, st) = (r, s')"
  shows "r \<noteq> None"
  using RemovePod_absent [OF assms(1)] assms(2) by (auto simp: removePod_def)

lemma addPod_closure_Pods:
  assumes "ni_wf ni" "addPod_closure H pod p (ni, st) = (r, ni', st')"
  shows "ni_wf ni' \<and> ni_Pods ni' = ni_Pods ni @ [p]"
  using AddPodInfo_Pods [OF assms(1)] assms(2) by (auto simp: addPod_closure_def split: prod.splits)

end
