(* ===== verification/Disruption_Budgets.thy ===== *)
theory Disruption_Budgets
  imports K8s_Objects
begin

text \<open>
  Pod disruption budgets in preemption: \<^verbatim>\<open>filterPodsWithPDBViolation\<close> of
  \<^verbatim>\<open>pkg/capacityscheduling/capacity_scheduling.go\<close> splits the potential victims into those whose
  eviction would violate a budget and the others.  The result of parsing a label selector
  (\<^verbatim>\<open>metav1.LabelSelectorAsSelector\<close>) is part of the budget: an error, or whether the selector is
  empty and what it matches.
\<close>

datatype selector = SelectorError | Selector bool "(string, string) gomap \<Rightarrow> bool"

record PodDisruptionBudget =
  pdb_Namespace :: string
  pdb_Selector :: selector
  pdb_DisruptionsAllowed :: i32
  pdb_DisruptedPods :: "(string, int) gomap"

text \<open>The tests of the inner loop: the budget counts for the pod.\<close>

definition pdb_counts :: "v1_Pod \<Rightarrow> PodDisruptionBudget \<Rightarrow> bool" where
  "pdb_counts pod pdb =
     (if pdb_Namespace pdb \<noteq> pod_Namespace pod then False
      else (case pdb_Selector pdb of
              SelectorError \<Rightarrow> False
            | Selector e mtch \<Rightarrow>
                if e \<or> \<not> mtch (pod_Labels pod) then False
                else \<not> gm_has (pdb_DisruptedPods pdb) (pod_Name pod)))"

text \<open>The inner loop: the allowances left, and whether a budget was overdrawn.\<close>

fun pdb_loop :: "v1_Pod \<Rightarrow> PodDisruptionBudget list \<Rightarrow> i32 list \<Rightarrow> bool \<Rightarrow> i32 list \<times> bool" where
  "pdb_loop pod (pdb # pdbs) (a # allowed) violated =
     (if pdb_counts pod pdb
      then (case pdb_loop pod pdbs allowed (violated \<or> sint (a - 1) < 0) of (as, v) \<Rightarrow> ((a - 1) # as, v))
      else (case pdb_loop pod pdbs allowed violated of (as, v) \<Rightarrow> (a # as, v)))"
| "pdb_loop pod _ allowed violated = (allowed, violated)"

fun pdb_split :: "PodDisruptionBudget list \<Rightarrow> i32 list \<Rightarrow> v1_Pod list \<Rightarrow> v1_Pod list \<times> v1_Pod list" where
  "pdb_split pdbs allowed [] = ([], [])"
| "pdb_split pdbs allowed (pod # pods) =
     (case (if pod_Labels pod \<noteq> [] then pdb_loop pod pdbs allowed False else (allowed, False)) of
        (allowed, violated) \<Rightarrow>
          (case pdb_split pdbs allowed pods of (vs, ns) \<Rightarrow>
             if violated then (pod # vs, ns) else (vs, pod # ns)))"

definition filterPodsWithPDBViolation ::
  "v1_Pod list \<Rightarrow> PodDisruptionBudget list \<Rightarrow> v1_Pod list \<times> v1_Pod list" where
  "filterPodsWithPDBViolation pods pdbs = pdb_split pdbs (map pdb_DisruptionsAllowed pdbs) pods"

section \<open>Specification\<close>

text \<open>
  A pod is charged to a budget when it has labels and the budget counts for it.  The k-th pod
  violates when some budget it is charged to allows fewer disruptions than pods charged to
  it up to and including this one.
\<close>

definition charged :: "PodDisruptionBudget \<Rightarrow> v1_Pod \<Rightarrow> bool" where
  "charged pdb pod = (pod_Labels pod \<noteq> [] \<and> pdb_counts pod pdb)"

definition overdraws :: "PodDisruptionBudget list \<Rightarrow> v1_Pod list \<Rightarrow> v1_Pod \<Rightarrow> bool" where
  "overdraws pdbs before pod = (\<exists>pdb \<in> set pdbs. charged pdb pod \<and>
     sint (pdb_DisruptionsAllowed pdb) < int (length (filter (charged pdb) (before @ [pod]))))"

definition violating_positions :: "PodDisruptionBudget list \<Rightarrow> v1_Pod list \<Rightarrow> nat set" where
  "violating_positions pdbs pods = {k. k < length pods \<and> overdraws pdbs (take k pods) (pods ! k)}"

text \<open>The budgets are not so far overdrawn that the 32-bit count wraps.\<close>

definition no_underflow :: "PodDisruptionBudget list \<Rightarrow> nat \<Rightarrow> bool" where
  "no_underflow pdbs n = list_all (\<lambda>pdb. - (2 ^ 31) + int n \<le> sint (pdb_DisruptionsAllowed pdb)) pdbs"

lemma sint_diff_of_nat:
  fixes a :: i32
  assumes "- (2 ^ 31) \<le> sint a - int c"
  shows "sint (a - of_nat c) = sint a - int c"
proof -
  have "sint a < 2 ^ 31" using sint_lt [of a] by simp
  then have "signed_take_bit 31 (sint a - int c) = sint a - int c"
    using assms by (intro signed_take_bit_int_eq_self) simp_all
  moreover have "sint (word_of_int (sint a - int c) :: i32) = signed_take_bit 31 (sint a - int c)"
    by (subst sint_sbintrunc') simp
  moreover have "a - of_nat c = word_of_int (sint a - int c)" by simp
  ultimately show ?thesis by (simp only:)
qed

definition left_after :: "v1_Pod list \<Rightarrow> PodDisruptionBudget \<Rightarrow> i32" where
  "left_after done pdb = pdb_DisruptionsAllowed pdb - of_nat (length (filter (charged pdb) done))"

lemma pdb_loop_spec:
  "pod_Labels pod \<noteq> [] \<Longrightarrow> pdb_loop pod pdbs (map (left_after done) pdbs) v =
     (map (left_after (done @ [pod])) pdbs,
      v \<or> (\<exists>pdb \<in> set pdbs. charged pdb pod \<and> sint (left_after (done @ [pod]) pdb) < 0))"
  by (induction pdbs arbitrary: v) (auto simp: left_after_def charged_def algebra_simps)

lemma left_after_unlabelled: "pod_Labels pod = [] \<Longrightarrow> left_after (done @ [pod]) = left_after done"
  by (auto simp: left_after_def charged_def fun_eq_iff)

lemma sint_left_after:
  assumes "no_underflow pdbs n" "pdb \<in> set pdbs" "length done \<le> n"
  shows "sint (left_after done pdb) < 0 \<longleftrightarrow> sint (pdb_DisruptionsAllowed pdb) < int (length (filter (charged pdb) done))"
proof -
  have "length (filter (charged pdb) done) \<le> n" using assms(3) length_filter_le [of "charged pdb" "done"] by linarith
  then have "- (2 ^ 31) \<le> sint (pdb_DisruptionsAllowed pdb) - int (length (filter (charged pdb) done))"
    using bspec [OF assms(1) [unfolded no_underflow_def list_all_iff] assms(2)] by linarith
  from sint_diff_of_nat [OF this] show ?thesis unfolding left_after_def by linarith
qed

lemma pdb_split_spec:
  "no_underflow pdbs (length done + length pods) \<Longrightarrow>
     pdb_split pdbs (map (left_after done) pdbs) pods =
       (nths pods {k. k < length pods \<and> overdraws pdbs (done @ take k pods) (pods ! k)},
        nths pods {k. \<not> (k < length pods \<and> overdraws pdbs (done @ take k pods) (pods ! k))})"
proof (induction pods arbitrary: "done")
  case Nil
  then show ?case by simp
next
  case (Cons pod pods)
  have v: "(if pod_Labels pod \<noteq> [] then pdb_loop pod pdbs (map (left_after done) pdbs) False else (map (left_after done) pdbs, False))
    = (map (left_after (done @ [pod])) pdbs, overdraws pdbs done pod)"
  proof (cases "pod_Labels pod = []")
    case True
    then show ?thesis using left_after_unlabelled [OF True] by (simp add: overdraws_def charged_def)
  next
    case False
    have "sint (left_after (done @ [pod]) pdb) < 0 \<longleftrightarrow>
      sint (pdb_DisruptionsAllowed pdb) < int (length (filter (charged pdb) (done @ [pod])))" if "pdb \<in> set pdbs" for pdb
      by (rule sint_left_after [OF Cons.prems that]) simp
    then show ?thesis using pdb_loop_spec [OF False] False unfolding overdraws_def by auto
  qed
  have IH: "pdb_split pdbs (map (left_after (done @ [pod])) pdbs) pods =
    (nths pods {k. k < length pods \<and> overdraws pdbs (done @ pod # take k pods) (pods ! k)},
     nths pods {k. \<not> (k < length pods \<and> overdraws pdbs (done @ pod # take k pods) (pods ! k))})"
    using Cons.IH [of "done @ [pod]"] Cons.prems by simp
  show ?case unfolding pdb_split.simps v using IH by (simp add: nths_Cons)
qed

lemma filterPodsWithPDBViolation_spec:
  assumes "no_underflow pdbs (length pods)"
  shows "filterPodsWithPDBViolation pods pdbs =
    (nths pods (violating_positions pdbs pods), nths pods (- violating_positions pdbs pods))"
proof -
  have "pdb_DisruptionsAllowed = left_after []" by (simp add: left_after_def fun_eq_iff)
  then show ?thesis using pdb_split_spec [of pdbs "[]" pods] assms
    by (simp add: filterPodsWithPDBViolation_def violating_positions_def Compl_eq)
qed

lemma pdb_split_mset: "pdb_split pdbs allowed pods = (vs, ns) \<Longrightarrow> mset vs + mset ns = mset pods"
  by (induction pods arbitrary: allowed vs ns) (fastforce split: prod.splits if_splits)+

lemma filterPods_mset: "filterPodsWithPDBViolation pods pdbs = (vs, ns) \<Longrightarrow> mset vs + mset ns = mset pods"
  unfolding filterPodsWithPDBViolation_def by (rule pdb_split_mset)

end
