(* ===== verification/Capacity_Scheduling.thy ===== *)
theory Capacity_Scheduling
  imports Preemption Disruption_Budgets
begin

text \<open>
  The CapacityScheduling plugin, \<^verbatim>\<open>pkg/capacityscheduling/capacity_scheduling.go\<close>: elastic quotas per
  namespace, a PreFilter that rejects pods beyond the maximum of their quota or beyond the
  sum of the guaranteed minima, Reserve and Unreserve, the informer handlers that keep the
  quotas up to date, and the preemption logic.

  The plugin's state is its map of quotas.  Its locks make every handler atomic, so a handler
  is a function on the map.  PreFilter reads the live map and a snapshot of it in one step
  here.  The cycle state maps keys to data; data of another type under a key is
  \<open>OtherCapData\<close>.  The snapshot in the cycle state is shared by reference between the plugin's
  callbacks: every use reads the current cycle state.
\<close>

section \<open>Data\<close>

record PreFilterState =
  pf_podReq :: Resource
  pf_nominatedPodsReqInEQWithPodReq :: Resource
  pf_nominatedPodsReqWithPodReq :: Resource

datatype CapData = PreFilterData PreFilterState | SnapshotData ElasticQuotaInfos | OtherCapData

type_synonym cap_state = "(string, CapData) gomap"

definition preFilterStateKey :: string where "preFilterStateKey = ''PreFilterCapacityScheduling''"
definition ElasticQuotaSnapshotKey :: string where "ElasticQuotaSnapshotKey = ''ElasticQuotaSnapshot''"

lemma keys_differ [simp]: "preFilterStateKey \<noteq> ElasticQuotaSnapshotKey" "ElasticQuotaSnapshotKey \<noteq> preFilterStateKey"
  by (simp_all add: preFilterStateKey_def ElasticQuotaSnapshotKey_def)

text \<open>The \<^verbatim>\<open>Clone\<close> methods: the snapshot is copied deeply, the PreFilter state is shared.\<close>

fun CapData_Clone :: "CapData \<Rightarrow> CapData" where
  "CapData_Clone (PreFilterData s) = PreFilterData s"
| "CapData_Clone (SnapshotData eqs) = SnapshotData (eqs_clone eqs)"
| "CapData_Clone OtherCapData = OtherCapData"

definition getPreFilterState :: "cap_state \<Rightarrow> goerror + PreFilterState" where
  "getPreFilterState st = (case map_of st preFilterStateKey of
     Some (PreFilterData s) \<Rightarrow> Inr s
   | None \<Rightarrow> Inl ''error reading PreFilterCapacityScheduling from cycleState''
   | Some _ \<Rightarrow> Inl ''convert to NodeResourcesFit.preFilterState error'')"

definition getElasticQuotaSnapshotState :: "cap_state \<Rightarrow> goerror + ElasticQuotaInfos" where
  "getElasticQuotaSnapshotState st = (case map_of st ElasticQuotaSnapshotKey of
     Some (SnapshotData eqs) \<Rightarrow> Inr eqs
   | None \<Rightarrow> Inl ''error reading ElasticQuotaSnapshot from cycleState''
   | Some _ \<Rightarrow> Inl ''convert to CapacityScheduling ElasticQuotaSnapshotState error'')"

definition snapshotElasticQuota :: "ElasticQuotaInfos \<Rightarrow> ElasticQuotaInfos" where
  "snapshotElasticQuota c = eqs_clone c"

section \<open>PreFilter\<close>

text \<open>One nominated pod in the loop of PreFilter.\<close>

definition nominated_step :: "ElasticQuotaInfos \<Rightarrow> v1_Pod \<Rightarrow> v1_Pod \<Rightarrow> Resource \<times> Resource \<Rightarrow> Resource \<times> Resource" where
  "nominated_step c pod p acc =
     (if pod_UID p = pod_UID pod then acc
      else (case map_of c (pod_Namespace p) of
              None \<Rightarrow> acc
            | Some info \<Rightarrow>
                let rq = util_ResourceList (computePodResourceRequest p) in
                if pod_Namespace p = pod_Namespace pod \<and> sint (PodPriority p) \<ge> sint (PodPriority pod)
                then (Resource_Add (fst acc) rq, Resource_Add (snd acc) rq)
                else if pod_Namespace p \<noteq> pod_Namespace pod \<and> \<not> usedOverMin info
                then (fst acc, Resource_Add (snd acc) rq)
                else acc))"

definition nominated_requests ::
  "ElasticQuotaInfos \<Rightarrow> 'st fhandle \<Rightarrow> v1_Pod \<Rightarrow> NodeInfo list \<Rightarrow> Resource \<times> Resource" where
  "nominated_requests c H pod nodes =
     fold (\<lambda>node acc. fold (nominated_step c pod) (fh_NominatedPodsForNode H (ni_Name node)) acc) nodes
       (zero_Resource, zero_Resource)"

definition cap_PreFilter ::
  "'st fhandle \<Rightarrow> ElasticQuotaInfos \<Rightarrow> cap_state \<Rightarrow> v1_Pod \<Rightarrow> (Status \<times> cap_state) outcome" where
  "cap_PreFilter H c state pod =
     (let snapshot = snapshotElasticQuota c;
          podReq = computePodResourceRequest pod;
          state = AList.update ElasticQuotaSnapshotKey (SnapshotData snapshot) state
      in case map_of snapshot (pod_Namespace pod) of
           None \<Rightarrow> Ret (NewStatus Success '''',
             AList.update preFilterStateKey (PreFilterData \<lparr>pf_podReq = podReq,
               pf_nominatedPodsReqInEQWithPodReq = zero_Resource, pf_nominatedPodsReqWithPodReq = zero_Resource\<rparr>) state)
         | Some eq \<Rightarrow>
             (case fh_NodeInfos H of
                Inl e \<Rightarrow> Ret (NewStatus Error (''Error getting the nodelist: '' @ e), state)
              | Inr nodes \<Rightarrow>
                  let (inEQ, all) = nominated_requests c H pod nodes;
                      inEQ = Resource_Add inEQ (util_ResourceList podReq);
                      all = Resource_Add all (util_ResourceList podReq);
                      state = AList.update preFilterStateKey (PreFilterData \<lparr>pf_podReq = podReq,
                        pf_nominatedPodsReqInEQWithPodReq = inEQ, pf_nominatedPodsReqWithPodReq = all\<rparr>) state
                  in if usedOverMaxWith eq inEQ
                     then Ret (NewStatus Unschedulable (''Pod '' @ pod_Namespace pod @ ''/'' @ pod_Name pod @
                       '' is rejected in PreFilter because ElasticQuota '' @ eq_Namespace eq @ '' is more than Max''), state)
                     else (case aggregatedUsedOverMinWith snapshot all of
                             Panic m \<Rightarrow> Panic m
                           | Ret True \<Rightarrow> Ret (NewStatus Unschedulable (''Pod '' @ pod_Namespace pod @ ''/'' @ pod_Name pod @
                               '' is rejected in PreFilter because total ElasticQuota used is more than min''), state)
                           | Ret False \<Rightarrow> Ret (NewStatus Success '''', state))))"

section \<open>Changes to the snapshot and to the quotas\<close>

text \<open>Applying a quota operation to the entry of a namespace, if there is one.\<close>

definition cap_AddPod :: "cap_state \<Rightarrow> v1_Pod \<Rightarrow> Status \<times> cap_state" where
  "cap_AddPod st podToAdd =
     (case getElasticQuotaSnapshotState st of
        Inl e \<Rightarrow> (NewStatus Error e, st)
      | Inr eqs \<Rightarrow>
          (case map_of eqs (pod_Namespace podToAdd) of
             None \<Rightarrow> (NewStatus Success '''', st)
           | Some info \<Rightarrow>
               (NewStatus Success '''',
                AList.update ElasticQuotaSnapshotKey
                  (SnapshotData (AList.update (pod_Namespace podToAdd) (snd (addPodIfNotPresent podToAdd info)) eqs)) st)))"

definition cap_RemovePod :: "cap_state \<Rightarrow> v1_Pod \<Rightarrow> Status \<times> cap_state" where
  "cap_RemovePod st podToRemove =
     (case getElasticQuotaSnapshotState st of
        Inl e \<Rightarrow> (NewStatus Error e, st)
      | Inr eqs \<Rightarrow>
          (case map_of eqs (pod_Namespace podToRemove) of
             None \<Rightarrow> (NewStatus Success '''', st)
           | Some info \<Rightarrow>
               (NewStatus Success '''',
                AList.update ElasticQuotaSnapshotKey
                  (SnapshotData (AList.update (pod_Namespace podToRemove) (snd (deletePodIfPresent podToRemove info)) eqs)) st)))"

definition cap_Reserve :: "v1_Pod \<Rightarrow> ElasticQuotaInfos \<Rightarrow> Status \<times> ElasticQuotaInfos" where
  "cap_Reserve pod c =
     (case map_of c (pod_Namespace pod) of
        None \<Rightarrow> (NewStatus Success '''', c)
      | Some info \<Rightarrow>
          (case addPodIfNotPresent pod info of
             (Some e, info') \<Rightarrow> (NewStatus Error e, AList.update (pod_Namespace pod) info' c)
           | (None, info') \<Rightarrow> (NewStatus Success '''', AList.update (pod_Namespace pod) info' c)))"

definition cap_Unreserve :: "v1_Pod \<Rightarrow> ElasticQuotaInfos \<Rightarrow> ElasticQuotaInfos" where
  "cap_Unreserve pod c =
     (case map_of c (pod_Namespace pod) of
        None \<Rightarrow> c
      | Some info \<Rightarrow> AList.update (pod_Namespace pod) (snd (deletePodIfPresent pod info)) c)"

text \<open>The informer handlers.  \<^verbatim>\<open>assignedPod\<close> filters the pod events.\<close>

record ElasticQuota =
  eqo_Namespace :: string
  eqo_Min :: "ResourceList option"
  eqo_Max :: "ResourceList option"

definition addElasticQuota :: "ElasticQuota \<Rightarrow> ElasticQuotaInfos \<Rightarrow> ElasticQuotaInfos" where
  "addElasticQuota eq c =
     (if gm_has c (eqo_Namespace eq) then c
      else AList.update (eqo_Namespace eq) (newElasticQuotaInfo (eqo_Namespace eq) (eqo_Min eq) (eqo_Max eq) None) c)"

definition updateElasticQuota :: "ElasticQuota \<Rightarrow> ElasticQuota \<Rightarrow> ElasticQuotaInfos \<Rightarrow> ElasticQuotaInfos" where
  "updateElasticQuota oldEQ newEQ c =
     (let newInfo = newElasticQuotaInfo (eqo_Namespace newEQ) (eqo_Min newEQ) (eqo_Max newEQ) None;
          newInfo = (case map_of c (eqo_Namespace oldEQ) of
                       None \<Rightarrow> newInfo
                     | Some oldInfo \<Rightarrow> newInfo\<lparr>eq_pods := eq_pods oldInfo, eq_Used := eq_Used oldInfo\<rparr>)
      in AList.update (eqo_Namespace newEQ) newInfo c)"

definition deleteElasticQuota :: "ElasticQuota \<Rightarrow> ElasticQuotaInfos \<Rightarrow> ElasticQuotaInfos" where
  "deleteElasticQuota eq c = AList.delete (eqo_Namespace eq) c"

text \<open>\<^verbatim>\<open>addPod\<close> lists the quotas of the namespace when it does not know one; the list result is an argument.\<close>

definition cap_addPod :: "goerror + ElasticQuota list \<Rightarrow> v1_Pod \<Rightarrow> ElasticQuotaInfos \<Rightarrow> ElasticQuotaInfos" where
  "cap_addPod listed pod c =
     (case map_of c (pod_Namespace pod) of
        Some info \<Rightarrow> AList.update (pod_Namespace pod) (snd (addPodIfNotPresent pod info)) c
      | None \<Rightarrow>
          (case listed of
             Inl e \<Rightarrow> c
           | Inr [] \<Rightarrow> c
           | Inr (eq # _) \<Rightarrow>
               AList.update (eqo_Namespace eq)
                 (snd (addPodIfNotPresent pod (newElasticQuotaInfo (eqo_Namespace eq) (eqo_Min eq) (eqo_Max eq) None))) c))"

definition cap_updatePod :: "v1_Pod \<Rightarrow> v1_Pod \<Rightarrow> ElasticQuotaInfos \<Rightarrow> ElasticQuotaInfos" where
  "cap_updatePod oldPod newPod c =
     (if pod_Phase oldPod = ''Succeeded'' \<or> pod_Phase oldPod = ''Failed'' then c
      else if pod_Phase newPod \<noteq> ''Running'' \<and> pod_Phase newPod \<noteq> ''Pending'' then
        (case map_of c (pod_Namespace newPod) of
           None \<Rightarrow> c
         | Some info \<Rightarrow> AList.update (pod_Namespace newPod) (snd (deletePodIfPresent newPod info)) c)
      else c)"

definition cap_deletePod :: "v1_Pod \<Rightarrow> ElasticQuotaInfos \<Rightarrow> ElasticQuotaInfos" where
  "cap_deletePod pod c =
     (case map_of c (pod_Namespace pod) of
        None \<Rightarrow> c
      | Some info \<Rightarrow> AList.update (pod_Namespace pod) (snd (deletePodIfPresent pod info)) c)"

definition assignedPod :: "v1_Pod \<Rightarrow> bool" where
  "assignedPod pod = (pod_NodeName pod \<noteq> '''')"

section \<open>The quotas as a state machine\<close>

datatype cap_event =
    EQAdded ElasticQuota | EQUpdated ElasticQuota ElasticQuota | EQDeleted ElasticQuota
  | PodAdded "goerror + ElasticQuota list" v1_Pod | PodUpdated "goerror + ElasticQuota list" v1_Pod v1_Pod | PodDeleted v1_Pod
  | Reserved v1_Pod | Unreserved v1_Pod

text \<open>
  The events as the filtering handlers of \<^verbatim>\<open>New\<close> pass them on: an update of a pod that only now
  is assigned to a node arrives as an add, one of a pod that no longer is as a delete.
\<close>

fun cap_apply :: "cap_event \<Rightarrow> ElasticQuotaInfos \<Rightarrow> ElasticQuotaInfos" where
  "cap_apply (EQAdded eq) c = addElasticQuota eq c"
| "cap_apply (EQUpdated old new) c = updateElasticQuota old new c"
| "cap_apply (EQDeleted eq) c = deleteElasticQuota eq c"
| "cap_apply (PodAdded listed pod) c = (if assignedPod pod then cap_addPod listed pod c else c)"
| "cap_apply (PodUpdated listed old new) c =
     (if assignedPod new \<and> assignedPod old then cap_updatePod old new c
      else if assignedPod new then cap_addPod listed new c
      else if assignedPod old then cap_deletePod old c
      else c)"
| "cap_apply (PodDeleted pod) c = (if assignedPod pod then cap_deletePod pod c else c)"
| "cap_apply (Reserved pod) c = snd (cap_Reserve pod c)"
| "cap_apply (Unreserved pod) c = cap_Unreserve pod c"

text \<open>
  What the API server guarantees of events: a quota keeps its namespace, a list by namespace
  returns objects of that namespace, and pods request what \<open>spec\<close> says of their UID.
\<close>

definition listed_in :: "string \<Rightarrow> goerror + ElasticQuota list \<Rightarrow> bool" where
  "listed_in ns l = (case l of Inl e \<Rightarrow> True | Inr qs \<Rightarrow> list_all (\<lambda>q. eqo_Namespace q = ns) qs)"

fun event_ok :: "(string \<Rightarrow> Resource) \<Rightarrow> cap_event \<Rightarrow> bool" where
  "event_ok spec (EQAdded eq) = True"
| "event_ok spec (EQUpdated old new) = (eqo_Namespace old = eqo_Namespace new)"
| "event_ok spec (EQDeleted eq) = True"
| "event_ok spec (PodAdded listed pod) = (follows_spec spec pod \<and> listed_in (pod_Namespace pod) listed)"
| "event_ok spec (PodUpdated listed old new) =
     (follows_spec spec old \<and> follows_spec spec new \<and> listed_in (pod_Namespace new) listed)"
| "event_ok spec (PodDeleted pod) = follows_spec spec pod"
| "event_ok spec (Reserved pod) = follows_spec spec pod"
| "event_ok spec (Unreserved pod) = follows_spec spec pod"

inductive cap_reachable :: "(string \<Rightarrow> Resource) \<Rightarrow> ElasticQuotaInfos \<Rightarrow> bool" for spec where
  start: "cap_reachable spec []"
| step: "cap_reachable spec c \<Longrightarrow> event_ok spec ev \<Longrightarrow> cap_reachable spec (cap_apply ev c)"

definition quota_ok :: "(string \<Rightarrow> Resource) \<Rightarrow> string \<Rightarrow> ElasticQuotaInfo \<Rightarrow> bool" where
  "quota_ok spec ns i = (accounted spec i \<and> eq_Min i \<noteq> None \<and> eq_Max i \<noteq> None \<and> eq_Namespace i = ns)"

definition quotas_ok :: "(string \<Rightarrow> Resource) \<Rightarrow> ElasticQuotaInfos \<Rightarrow> bool" where
  "quotas_ok spec c = (gm_wf c \<and> (\<forall>ns i. map_of c ns = Some i \<longrightarrow> quota_ok spec ns i))"

lemma quotas_okI [intro]:
  "quotas_ok spec c \<Longrightarrow> quota_ok spec ns i \<Longrightarrow> quotas_ok spec (AList.update ns i c)"
  by (auto simp: quotas_ok_def split: if_splits)

lemma quotas_ok_get: "quotas_ok spec c \<Longrightarrow> map_of c ns = Some i \<Longrightarrow> quota_ok spec ns i"
  by (simp add: quotas_ok_def)

lemma quota_ok_new: "quota_ok spec ns (newElasticQuotaInfo ns mn mx None)"
  using accounted_new by (simp add: quota_ok_def) (simp add: newElasticQuotaInfo_def Let_def)

lemma quota_ok_add: "quota_ok spec ns i \<Longrightarrow> follows_spec spec pod \<Longrightarrow> quota_ok spec ns (snd (addPodIfNotPresent pod i))"
  using accounted_add [of spec i pod] by (cases "addPodIfNotPresent pod i") (auto simp: quota_ok_def)

lemma quota_ok_delete: "quota_ok spec ns i \<Longrightarrow> follows_spec spec pod \<Longrightarrow> quota_ok spec ns (snd (deletePodIfPresent pod i))"
  using accounted_delete [of spec i pod] by (cases "deletePodIfPresent pod i") (auto simp: quota_ok_def)

lemma quotas_ok_addPod:
  assumes "quotas_ok spec c" "follows_spec spec pod" "listed_in (pod_Namespace pod) listed"
  shows "quotas_ok spec (cap_addPod listed pod c)"
proof (cases "map_of c (pod_Namespace pod)")
  case None
  show ?thesis
  proof (cases "\<exists>q qs. listed = Inr (q # qs)")
    case True
    then obtain q qs where q: "listed = Inr (q # qs)" by blast
    then have "eqo_Namespace q = pod_Namespace pod" using assms(3) by (simp add: listed_in_def)
    then show ?thesis using None q assms(1,2) by (auto simp: cap_addPod_def intro: quota_ok_add quota_ok_new)
  next
    case False
    then show ?thesis using None assms(1) by (auto simp: cap_addPod_def split: sum.splits list.splits)
  qed
next
  case (Some i)
  then show ?thesis using assms quotas_ok_get [OF assms(1) Some] by (auto simp: cap_addPod_def intro: quota_ok_add)
qed

lemma quotas_ok_delete_entry:
  "quotas_ok spec c \<Longrightarrow> follows_spec spec pod \<Longrightarrow>
     quotas_ok spec (case map_of c ns of None \<Rightarrow> c | Some i \<Rightarrow> AList.update ns (snd (deletePodIfPresent pod i)) c)"
  by (auto split: option.splits intro: quota_ok_delete dest: quotas_ok_get)

lemma quotas_ok_update:
  assumes "quotas_ok spec c" "eqo_Namespace old = eqo_Namespace new"
  shows "quotas_ok spec (updateElasticQuota old new c)"
proof -
  let ?n = "newElasticQuotaInfo (eqo_Namespace new) (eqo_Min new) (eqo_Max new) None"
  have "quota_ok spec (eqo_Namespace new) (?n\<lparr>eq_pods := eq_pods i, eq_Used := eq_Used i\<rparr>)"
    if "map_of c (eqo_Namespace new) = Some i" for i
    using quotas_ok_get [OF assms(1) that] quota_ok_new [of spec "eqo_Namespace new" "eqo_Min new" "eqo_Max new"]
    by (simp add: quota_ok_def accounted_def eq_wf_def)
  then show ?thesis using assms quota_ok_new by (auto simp: updateElasticQuota_def Let_def split: option.splits)
qed

lemma cap_apply_ok:
  assumes "quotas_ok spec c" "event_ok spec ev"
  shows "quotas_ok spec (cap_apply ev c)"
proof (cases ev)
  case (EQAdded q)
  then show ?thesis using assms(1) by (auto simp: addElasticQuota_def intro: quota_ok_new)
next
  case (EQUpdated x y)
  then show ?thesis using assms quotas_ok_update by simp
next
  case (EQDeleted q)
  then show ?thesis using assms(1) by (auto simp: deleteElasticQuota_def quotas_ok_def split: if_splits)
next
  case (PodAdded l p)
  then show ?thesis using assms quotas_ok_addPod by simp
next
  case (PodUpdated l p q)
  then show ?thesis using assms quotas_ok_addPod quotas_ok_delete_entry
    by (simp add: cap_updatePod_def cap_deletePod_def)
next
  case (PodDeleted p)
  then show ?thesis using assms quotas_ok_delete_entry by (simp add: cap_deletePod_def)
next
  case (Reserved p)
  then show ?thesis using assms quotas_ok_get
    by (auto simp: cap_Reserve_def split: option.splits prod.splits) (metis quota_ok_add quotas_okI snd_conv)+
next
  case (Unreserved p)
  then show ?thesis using assms quotas_ok_delete_entry by (simp add: cap_Unreserve_def)
qed

lemma cap_reachable_ok: "cap_reachable spec c \<Longrightarrow> quotas_ok spec c"
proof (induction rule: cap_reachable.induct)
  case start
  then show ?case by (simp add: quotas_ok_def)
next
  case (step c ev)
  then show ?case using cap_apply_ok by blast
qed

lemma quotas_ok_eqs_ok: "quotas_ok spec c \<Longrightarrow> eqs_ok c"
  by (fastforce simp: quotas_ok_def eqs_ok_def quota_ok_def accounted_def list_all_iff gm_wf_def)

lemma snapshot_id: "quotas_ok spec c \<Longrightarrow> snapshotElasticQuota c = c"
  unfolding snapshotElasticQuota_def
  by (rule eqs_clone_id) (auto simp: quotas_ok_def quota_ok_def accounted_def gm_wf_def)

section \<open>What PreFilter decides\<close>

lemma nominated_step_wf:
  "Resource_wf (fst acc) \<Longrightarrow> Resource_wf (snd acc) \<Longrightarrow>
     Resource_wf (fst (nominated_step c pod p acc)) \<and> Resource_wf (snd (nominated_step c pod p acc))"
  by (auto simp: nominated_step_def Let_def split: option.splits)

lemma nominated_requests_wf:
  "Resource_wf (fst (nominated_requests c H pod nodes)) \<and> Resource_wf (snd (nominated_requests c H pod nodes))"
proof -
  have "Resource_wf (fst (fold (nominated_step c pod) ps acc)) \<and> Resource_wf (snd (fold (nominated_step c pod) ps acc))"
    if "Resource_wf (fst acc) \<and> Resource_wf (snd acc)" for ps acc
    using that by (induction ps arbitrary: acc) (simp_all add: nominated_step_wf)
  then have "Resource_wf (fst (fold (\<lambda>node acc. fold (nominated_step c pod) (fh_NominatedPodsForNode H (ni_Name node)) acc) nodes acc))
    \<and> Resource_wf (snd (fold (\<lambda>node acc. fold (nominated_step c pod) (fh_NominatedPodsForNode H (ni_Name node)) acc) nodes acc))"
    if "Resource_wf (fst acc) \<and> Resource_wf (snd acc)" for acc
    using that by (induction nodes arbitrary: acc) simp_all
  then show ?thesis by (simp add: nominated_requests_def)
qed

lemma cap_PreFilter_decides:
  assumes "quotas_ok spec c" "map_of c (pod_Namespace pod) = Some eq" "fh_NodeInfos H = Inr nodes"
    and "nominated_requests c H pod nodes = (inEQ, all)"
    and "\<And>n. 0 \<le> sint (\<Sum>(k, i)\<leftarrow>c. rdim (the (eq_Min i)) n)"
  shows "\<exists>st state'. cap_PreFilter H c state pod = Ret (st, state') \<and>
    (IsSuccess st \<longleftrightarrow>
      \<not> usedOverMaxWith eq (Resource_Add inEQ (util_ResourceList (computePodResourceRequest pod)))
      \<and> (\<forall>n. sint ((\<Sum>(k, i)\<leftarrow>c. rdim (eq_Used i) n) + (rdim all n + rdim (computePodResourceRequest pod) n))
           \<le> sint (\<Sum>(k, i)\<leftarrow>c. rdim (the (eq_Min i)) n)))"
proof -
  let ?all = "Resource_Add all (util_ResourceList (computePodResourceRequest pod))"
  have wf: "Resource_wf all" using nominated_requests_wf [of c H pod nodes] assms(4) by simp
  have "aggregatedUsedOverMinWith c ?all = Ret (\<exists>n. sint (\<Sum>(k, i)\<leftarrow>c. rdim (the (eq_Min i)) n)
    < sint ((\<Sum>(k, i)\<leftarrow>c. rdim (eq_Used i) n) + rdim ?all n))"
    using aggregated_dims [OF quotas_ok_eqs_ok [OF assms(1)] _ assms(5), of ?all] wf by simp
  then show ?thesis using assms(2-4) snapshot_id [OF assms(1)]
    by (auto simp: cap_PreFilter_def Let_def rdim_Add_ResourceList not_less [symmetric] split: bool.splits)
qed

end
