(* ===== verification/Capacity_Preemption.thy ===== *)
theory Capacity_Preemption
  imports Capacity_Scheduling
begin

text \<open>
  The preemption logic of CapacityScheduling (the type \<^verbatim>\<open>preemptor\<close> of
  \<^verbatim>\<open>pkg/capacityscheduling/capacity_scheduling.go\<close>): which pods a pod may preempt on a node, and which of
  them are given back their place.
\<close>

section \<open>Eligibility\<close>

definition cap_PodEligibleToPreemptOthers ::
  "'st fhandle \<Rightarrow> cap_state \<Rightarrow> v1_Pod \<Rightarrow> Status \<Rightarrow> bool \<times> string" where
  "cap_PodEligibleToPreemptOthers H state pod nominatedNodeStatus =
     (if pod_PreemptionPolicy pod = Some ''Never'' then (False, ''not eligible due to preemptionPolicy=Never.'')
      else (case getPreFilterState state of
        Inl e \<Rightarrow> (False, ''not eligible due to failed to read from cycleState'')
      | Inr preFilterState \<Rightarrow>
          if pod_NominatedNodeName pod = '''' then (True, '''')
          else if status_Code nominatedNodeStatus = UnschedulableAndUnresolvable then (True, '''')
          else (case getElasticQuotaSnapshotState state of
            Inl e \<Rightarrow> (True, '''')
          | Inr eqs \<Rightarrow>
              (case fh_GetNode H (pod_NominatedNodeName pod) of
                 None \<Rightarrow> (True, '''')
               | Some nodeInfo \<Rightarrow>
                   let podPriority = PodPriority pod;
                       terminating = ''not eligible due to a terminating pod on the nominated node.''
                   in (case map_of eqs (pod_Namespace pod) of
                         Some preemptorEQInfo \<Rightarrow>
                           let moreThanMin = usedOverMinWith preemptorEQInfo (pf_nominatedPodsReqInEQWithPodReq preFilterState)
                           in if list_ex (\<lambda>p. pod_DeletionTimestamp p \<noteq> None \<and>
                                   (case map_of eqs (pod_Namespace p) of
                                      None \<Rightarrow> False
                                    | Some eqInfo \<Rightarrow>
                                        (pod_Namespace p = pod_Namespace pod \<and> sint (PodPriority p) < sint podPriority)
                                        \<or> (pod_Namespace p \<noteq> pod_Namespace pod \<and> \<not> moreThanMin \<and> usedOverMin eqInfo)))
                                 (ni_Pods nodeInfo)
                              then (False, terminating) else (True, '''')
                       | None \<Rightarrow>
                           if list_ex (\<lambda>p. \<not> gm_has eqs (pod_Namespace p) \<and> pod_DeletionTimestamp p \<noteq> None
                                 \<and> sint (PodPriority p) < sint podPriority) (ni_Pods nodeInfo)
                           then (False, terminating) else (True, ''''))))))"

section \<open>Victims\<close>

text \<open>The quotas of the snapshot as the pointers held by the function see them.\<close>

definition snap :: "cap_state \<Rightarrow> ElasticQuotaInfos" where
  "snap st = (case getElasticQuotaSnapshotState st of Inl e \<Rightarrow> [] | Inr eqs \<Rightarrow> eqs)"

definition preemptor_quota :: "v1_Pod \<Rightarrow> ElasticQuotaInfo \<Rightarrow> cap_state \<Rightarrow> ElasticQuotaInfo" where
  "preemptor_quota pod info0 st = (case map_of (snap st) (pod_Namespace pod) of Some i \<Rightarrow> i | None \<Rightarrow> info0)"

text \<open>The test of the first loop, for a preemptor with and without a quota.\<close>

definition cap_test :: "v1_Pod \<Rightarrow> bool \<Rightarrow> bool \<Rightarrow> cap_state \<Rightarrow> v1_Pod \<Rightarrow> goerror + bool" where
  "cap_test pod withEQ moreThanMin st p =
     (if withEQ then
        (case map_of (snap st) (pod_Namespace p) of
           None \<Rightarrow> Inr False
         | Some eqInfo \<Rightarrow>
             if moreThanMin
             then Inr (pod_Namespace p = pod_Namespace pod \<and> sint (PodPriority p) < sint (PodPriority pod))
             else Inr (pod_Namespace p \<noteq> pod_Namespace pod \<and> usedOverMin eqInfo))
      else (if gm_has (snap st) (pod_Namespace p) then Inr False
            else Inr (sint (PodPriority p) < sint (PodPriority pod))))"

text \<open>\<^verbatim>\<open>usedOverMaxWith(inEQ) || aggregatedUsedOverMinWith(all)\<close>, evaluated from the left.\<close>

definition over_quota :: "ElasticQuotaInfo \<Rightarrow> ElasticQuotaInfos \<Rightarrow> Resource \<Rightarrow> Resource \<Rightarrow> bool outcome" where
  "over_quota info eqs inEQ all = (if usedOverMaxWith info inEQ then Ret True else aggregatedUsedOverMinWith eqs all)"

text \<open>The closure \<^verbatim>\<open>reprievePod\<close>.\<close>

definition cap_reprieve ::
  "cap_state fhandle \<Rightarrow> v1_Pod \<Rightarrow> bool \<Rightarrow> ElasticQuotaInfo \<Rightarrow> Resource \<Rightarrow> Resource \<Rightarrow> cap_state reprieve" where
  "cap_reprieve H pod withEQ info0 inEQ all pi vs s =
     (case addPod_closure H pod pi s of
        (Some e, s) \<Rightarrow> Ret (Inl e, vs, s)
      | (None, s) \<Rightarrow>
          let fits = IsSuccess (fh_RunFilter H (snd s) pod (fst s)) in
          (case (if fits then (None, vs, s)
                 else (case removePod H pod pi s of
                         (Some e, s) \<Rightarrow> (Some e, vs, s)
                       | (None, s) \<Rightarrow> (None, vs @ [pi], s))) of
             (Some e, vs, s) \<Rightarrow> Ret (Inl e, vs, s)
           | (None, vs, s) \<Rightarrow>
               (case (if withEQ then over_quota (preemptor_quota pod info0 (snd s)) (snap (snd s)) inEQ all else Ret False) of
                  Panic m \<Rightarrow> Panic m
                | Ret False \<Rightarrow> Ret (Inr fits, vs, s)
                | Ret True \<Rightarrow>
                    (case removePod H pod pi s of
                       (Some e, s) \<Rightarrow> Ret (Inl e, vs, s)
                     | (None, s) \<Rightarrow> Ret (Inr fits, vs @ [pi], s)))))"

text \<open>
  The second half of \<^verbatim>\<open>SelectVictimsOnNode\<close>, after the potential victims have been removed:
  the result is the victims, the number of budget violations and the status, together with
  the node and the cycle state left behind.
\<close>

definition cap_reprieve_victims ::
  "sort_fn \<Rightarrow> int \<times> int \<Rightarrow> cap_state fhandle \<Rightarrow> v1_Pod \<Rightarrow> PodDisruptionBudget list \<Rightarrow> bool \<Rightarrow> ElasticQuotaInfo \<Rightarrow> Resource \<Rightarrow> Resource
    \<Rightarrow> v1_Pod list \<Rightarrow> NodeInfo \<times> cap_state \<Rightarrow> (v1_Pod list \<times> nat \<times> Status \<times> NodeInfo \<times> cap_state) outcome" where
  "cap_reprieve_victims srt now H pod pdbs withEQ info0 inEQ all potentialVictims s =
     (let sorted_victims = srt (MoreImportantPod (fst now) (snd now)) potentialVictims;
          (violating, nonViolating) = filterPodsWithPDBViolation sorted_victims pdbs;
          step = cap_reprieve H pod withEQ info0 inEQ all
      in case reprieve_all step violating [] 0 s of
           Panic m \<Rightarrow> Panic m
         | Ret (Inl e, vs, s) \<Rightarrow> Ret ([], 0, NewStatus Error e, s)
         | Ret (Inr n, vs, s) \<Rightarrow>
             (case reprieve_all step nonViolating vs 0 s of
                Panic m \<Rightarrow> Panic m
              | Ret (Inl e, vs, s) \<Rightarrow> Ret ([], 0, NewStatus Error e, s)
              | Ret (Inr _, vs, s) \<Rightarrow> Ret (vs, n, NewStatus Success '''', s)))"

text \<open>
  From the first loop on: collect the potential victims of the sorted node, check that the
  pod fits without them, then reprieve.
\<close>

definition cap_select ::
  "sort_fn \<Rightarrow> int \<times> int \<Rightarrow> cap_state fhandle \<Rightarrow> v1_Pod \<Rightarrow> PodDisruptionBudget list \<Rightarrow> bool \<Rightarrow> bool \<Rightarrow> ElasticQuotaInfo
    \<Rightarrow> Resource \<Rightarrow> Resource \<Rightarrow> Resource \<Rightarrow> NodeInfo \<times> cap_state
    \<Rightarrow> (v1_Pod list \<times> nat \<times> Status \<times> NodeInfo \<times> cap_state) outcome" where
  "cap_select srt now H pod pdbs withEQ moreThanMin info0 podReq inEQ all s =
     (case collect (cap_test pod withEQ moreThanMin) H pod [0..<ni_len (fst s)] [] s of
        (Inl e, s) \<Rightarrow> Ret ([], 0, NewStatus Error e, s)
      | (Inr potentialVictims, s) \<Rightarrow>
          if potentialVictims = []
          then Ret ([], 0, NewStatus UnschedulableAndUnresolvable
                 (''No victims found on node '' @ ni_Name (fst s) @ '' for preemptor pod '' @ pod_Name pod), s)
          else
            let f = fh_RunFilter H (snd s) pod (fst s) in
            if \<not> IsSuccess f then Ret ([], 0, f, s)
            else (case (if withEQ then over_quota (preemptor_quota pod info0 (snd s)) (snap (snd s)) podReq podReq
                        else Ret False) of
                    Panic m \<Rightarrow> Panic m
                  | Ret True \<Rightarrow> Ret ([], 0, NewStatus Unschedulable ''global quota max exceeded'', s)
                  | Ret False \<Rightarrow>
                      cap_reprieve_victims srt now H pod pdbs withEQ info0 inEQ all potentialVictims s))"

definition cap_SelectVictimsOnNode ::
  "sort_fn \<Rightarrow> int \<times> int \<Rightarrow> cap_state fhandle \<Rightarrow> cap_state \<Rightarrow> v1_Pod \<Rightarrow> NodeInfo \<Rightarrow> PodDisruptionBudget list
    \<Rightarrow> (v1_Pod list \<times> nat \<times> Status \<times> NodeInfo \<times> cap_state) outcome" where
  "cap_SelectVictimsOnNode srt now H state pod nodeInfo pdbs =
     (case getElasticQuotaSnapshotState state of
        Inl e \<Rightarrow> Ret ([], 0, NewStatus Unschedulable ''Failed to read elasticQuotaSnapshot from cycleState'', nodeInfo, state)
      | Inr eqs \<Rightarrow>
     (case getPreFilterState state of
        Inl e \<Rightarrow> Ret ([], 0, NewStatus Unschedulable ''Failed to read preFilterState from cycleState'', nodeInfo, state)
      | Inr preFilterState \<Rightarrow>
          let podReq = pf_podReq preFilterState;
              nodeInfo = nodeInfo\<lparr>ni_arr := srt (\<lambda>a b. \<not> MoreImportantPod (fst now) (snd now) a b) (ni_Pods nodeInfo)
                                      @ drop (ni_len nodeInfo) (ni_arr nodeInfo)\<rparr>
          in case map_of eqs (pod_Namespace pod) of
               Some info0 \<Rightarrow>
                 let inEQ = pf_nominatedPodsReqInEQWithPodReq preFilterState;
                     all = pf_nominatedPodsReqWithPodReq preFilterState
                 in cap_select srt now H pod pdbs True (usedOverMinWith info0 inEQ) info0 podReq inEQ all (nodeInfo, state)
             | None \<Rightarrow>
                 cap_select srt now H pod pdbs False False (newElasticQuotaInfo '''' None None None) podReq
                   zero_Resource zero_Resource (nodeInfo, state)))"

text \<open>The trivial methods of the preemption interface.\<close>

definition cap_GetOffsetAndNumCandidates :: "i32 \<Rightarrow> i32 \<times> i32" where
  "cap_GetOffsetAndNumCandidates n = (0, n)"

definition CandidatesToVictimsMap :: "(string \<times> 'v) list \<Rightarrow> (string, 'v) gomap" where
  "CandidatesToVictimsMap candidates = fold (\<lambda>(name, victims) m. AList.update name victims m) candidates []"

section \<open>Every pod is either a victim or stays\<close>

lemma cap_reprieve_places: "places (cap_reprieve H pod withEQ info0 inEQ all)"
  unfolding places_def
proof (intro allI impI)
  fix pi vs ni st b vs' ni' st'
  assume wf: "ni_wf ni" and k: "keyed (pi # ni_Pods ni)"
    and r: "cap_reprieve H pod withEQ info0 inEQ all pi vs (ni, st) = Ret (Inr b, vs', ni', st')"
  obtain e ni1 st1 where a: "addPod_closure H pod pi (ni, st) = (e, ni1, st1)" by (metis surj_pair)
  from addPod_closure_Pods [OF wf a] have wf1: "ni_wf ni1" and p1: "ni_Pods ni1 = ni_Pods ni @ [pi]" by auto
  have k1: "keyed (ni_Pods ni1)" using k by (rule keyed_mset) (simp add: p1)
  have in1: "pi \<in> set (ni_Pods ni1)" using p1 by simp
  obtain e2 ni2 st2 where rm: "removePod H pod pi (ni1, st1) = (e2, ni2, st2)" by (metis surj_pair)
  from removePod_present [OF wf1 k1 in1 rm] have wf2: "ni_wf ni2" and p2: "mset (ni_Pods ni2) = mset (ni_Pods ni)"
    using p1 by auto
  have "e3 \<noteq> None" if "removePod H pod pi (ni2, st2) = (e3, s3)" for e3 s3
  proof (rule removePod_absent [OF _ that])
    have "set (ni_Pods ni2) = set (ni_Pods ni)" using p2 by (metis set_mset_mset)
    then show "\<forall>q \<in> set (ni_Pods ni2). pod_UID q \<noteq> pod_UID pi"
      using k by (simp add: keyed_def) (metis imageI)
  qed
  then show "ni_wf ni' \<and> (mset (ni_Pods ni') = add_mset pi (mset (ni_Pods ni)) \<and> vs' = vs
       \<or> mset (ni_Pods ni') = mset (ni_Pods ni) \<and> vs' = vs @ [pi])"
    using r a rm wf1 wf2 p1 p2
    by (cases e; cases e2)
       (auto simp: cap_reprieve_def Let_def split: if_splits outcome.splits option.splits bool.splits prod.splits)
qed

lemma cap_reprieve_victims_conserves:
  assumes "sort_slice srt" "ni_wf ni" "keyed (pv @ ni_Pods ni)"
    and "cap_reprieve_victims srt now H pod pdbs withEQ info0 inEQ all pv (ni, st) = Ret (vs, n, status, ni', st')"
    and "IsSuccess status"
  shows "mset vs + mset (ni_Pods ni') = mset pv + mset (ni_Pods ni) \<and> set vs \<subseteq> set pv"
proof -
  obtain vi nv where f: "filterPodsWithPDBViolation (srt (MoreImportantPod (fst now) (snd now)) pv) pdbs = (vi, nv)" by fastforce
  have m: "mset vi + mset nv = mset pv" using filterPods_mset [OF f] sort_slice.sort_permutes [OF assms(1)] by simp
  let ?step = "cap_reprieve H pod withEQ info0 inEQ all"
  obtain n1 vs1 ni1 st1 n2 where r1: "reprieve_all ?step vi [] 0 (ni, st) = Ret (Inr n1, vs1, ni1, st1)"
    and r2: "reprieve_all ?step nv vs1 0 (ni1, st1) = Ret (Inr n2, vs, ni', st')"
    using assms(4,5) f by (auto simp: cap_reprieve_victims_def Let_def split: outcome.splits sum.splits)
  have "keyed (vi @ nv @ ni_Pods ni)" using assms(3) by (rule keyed_mset) (simp add: m [symmetric])
  from reprieve_twice [OF cap_reprieve_places assms(2) this r1 r2]
  have "mset vs + mset (ni_Pods ni') = mset vi + mset nv + mset (ni_Pods ni)" "set vs \<subseteq> set vi \<union> set nv" by auto
  moreover have "set pv = set vi \<union> set nv" using m by (metis set_mset_mset set_mset_union)
  ultimately show ?thesis using m by simp
qed

section \<open>Whom the preemptor may evict\<close>

text \<open>\<open>D\<close> are the namespaces with a quota.\<close>

definition may_evict :: "v1_Pod \<Rightarrow> string set \<Rightarrow> bool \<Rightarrow> v1_Pod \<Rightarrow> bool" where
  "may_evict pod D moreThanMin p =
     (if pod_Namespace pod \<in> D
      then pod_Namespace p \<in> D \<and>
        (if moreThanMin then pod_Namespace p = pod_Namespace pod \<and> sint (PodPriority p) < sint (PodPriority pod)
         else pod_Namespace p \<noteq> pod_Namespace pod)
      else pod_Namespace p \<notin> D \<and> sint (PodPriority p) < sint (PodPriority pod))"

lemma cap_test_may_evict:
  assumes "cap_test pod (pod_Namespace pod \<in> dom (map_of (snap st))) mtm st p = Inr True"
  shows "may_evict pod (dom (map_of (snap st))) mtm p"
  using assms
  by (auto simp: cap_test_def may_evict_def dom_map_of_conv_image_fst domI split: if_splits option.splits)
     (metis domI dom_map_of_conv_image_fst fst_conv image_eqI)+

text \<open>
  The framework runs the extensions of this plugin, and the other plugins leave its keys
  alone.  When an earlier plugin fails, this plugin's extension may not have run.
\<close>

locale capacity_framework =
  fixes H :: "cap_state fhandle"
  assumes run_remove: "fh_RunRemovePod H pod p ni st = (s, st') \<Longrightarrow>
      map_of st' ElasticQuotaSnapshotKey \<in> {map_of st ElasticQuotaSnapshotKey, map_of (snd (cap_RemovePod st p)) ElasticQuotaSnapshotKey}"
begin

lemma snap_eq: "map_of st' ElasticQuotaSnapshotKey = map_of st ElasticQuotaSnapshotKey \<Longrightarrow> snap st' = snap st"
  by (simp add: snap_def getElasticQuotaSnapshotState_def)

lemma remove_keeps_namespaces:
  assumes "fh_RunRemovePod H pod p ni st = (s, st')"
  shows "dom (map_of (snap st')) = dom (map_of (snap st))"
proof -
  have "dom (map_of (snap (snd (cap_RemovePod st p)))) = dom (map_of (snap st))"
    by (auto simp: cap_RemovePod_def snap_def getElasticQuotaSnapshotState_def split: option.splits CapData.splits if_splits)
  then show ?thesis using run_remove [OF assms] snap_eq by (metis insertE singletonD)
qed

lemma cap_select_spec:
  assumes "sort_slice srt" "ranging [] ps ni" "ni_Pods ni = ps" "dom (map_of (snap st)) = D"
    and "withEQ \<longleftrightarrow> pod_Namespace pod \<in> D"
    and "cap_select srt now H pod pdbs withEQ mtm info0 podReq inEQ all (ni, st) = Ret (vs, n, status, ni', st')" "IsSuccess status"
  shows "mset vs + mset (ni_Pods ni') = mset ps \<and> (\<forall>p \<in> set vs. may_evict pod D mtm p)"
proof -
  have len: "ni_len ni = length ps" using assms(2,3) by (auto simp: ranging_def ni_Pods_def ni_wf_def)
  obtain pv ni1 st1 where c: "collect (cap_test pod withEQ mtm) H pod [0..<ni_len ni] [] (ni, st) = (Inr pv, ni1, st1)"
    and r: "cap_reprieve_victims srt now H pod pdbs withEQ info0 inEQ all pv (ni1, st1) = Ret (vs, n, status, ni', st')"
    using assms(6,7) unfolding cap_select_def Let_def
    by (auto split: prod.splits sum.splits if_splits outcome.splits bool.splits)
  have cl: "collect_list (cap_test pod withEQ mtm) H pod ps [] (ni, st) = (Inr pv, ni1, st1)"
    using collect_ranging [OF assms(2), of "cap_test pod withEQ mtm" H pod "[]" st] c len by simp
  have inv: "\<And>p ni st s st'. dom (map_of (snap st)) = D \<Longrightarrow> fh_RunRemovePod H pod p ni st = (s, st') \<Longrightarrow> dom (map_of (snap st')) = D"
    using remove_keeps_namespaces by metis
  from collect_list_ranging [where I = "\<lambda>st. dom (map_of (snap st)) = D", OF inv cl assms(2,4)] have pv: "mset pv + mset (ni_Pods ni1) = mset ps" "ni_wf ni1"
    "\<forall>p \<in> set pv. \<exists>st. dom (map_of (snap st)) = D \<and> cap_test pod withEQ mtm st p = Inr True"
    using assms(3) by auto
  have "keyed ps" using assms(2) by (simp add: ranging_def)
  then have "keyed (pv @ ni_Pods ni1)" by (rule keyed_mset) (simp add: pv(1))
  from cap_reprieve_victims_conserves [OF assms(1) pv(2) this r assms(7)]
  have m: "mset vs + mset (ni_Pods ni') = mset ps" "set vs \<subseteq> set pv" using pv(1) by auto
  moreover have "may_evict pod D mtm p" if "p \<in> set vs" for p
  proof -
    obtain st2 where "dom (map_of (snap st2)) = D" "cap_test pod withEQ mtm st2 p = Inr True" using pv(3) m(2) \<open>p \<in> set vs\<close> by blast
    then show ?thesis using cap_test_may_evict [of pod st2 mtm p] assms(5) by simp
  qed
  ultimately show ?thesis by blast
qed

lemma SelectVictims_spec:
  assumes "sort_slice srt" "keyed (ni_Pods ni)" "ni_len ni = length (ni_arr ni)"
    and "getElasticQuotaSnapshotState state = Inr eqs" "getPreFilterState state = Inr pf"
    and "cap_SelectVictimsOnNode srt now H state pod ni pdbs = Ret (vs, n, status, ni', st')" "IsSuccess status"
  shows "mset vs + mset (ni_Pods ni') = mset (ni_Pods ni)
    \<and> (\<forall>p \<in> set vs. may_evict pod (dom (map_of eqs))
         (case map_of eqs (pod_Namespace pod) of None \<Rightarrow> False | Some i \<Rightarrow> usedOverMinWith i (pf_nominatedPodsReqInEQWithPodReq pf)) p)"
proof -
  let ?ps = "srt (\<lambda>a b. \<not> MoreImportantPod (fst now) (snd now) a b) (ni_Pods ni)"
  let ?ni = "ni\<lparr>ni_arr := ?ps\<rparr>"
  have ms: "mset ?ps = mset (ni_Pods ni)" using sort_slice.sort_permutes [OF assms(1)] .
  have sl: "length ?ps = ni_len ni" using assms(3) sort_slice.sort_length [OF assms(1)] by (simp add: ni_Pods_def)
  have pods: "ni_Pods ?ni = ?ps" using sl by (simp add: ni_Pods_def)
  have ranging: "ranging [] ?ps ?ni" using keyed_mset [OF assms(2) ms] sl by (simp add: ranging_def ni_wf_def ni_Pods_def)
  have D: "dom (map_of (snap state)) = dom (map_of eqs)" using assms(4) by (simp add: snap_def)
  note spec = cap_select_spec [OF assms(1) ranging pods D _ _ assms(7)]
  show ?thesis
  proof (cases "map_of eqs (pod_Namespace pod)")
    case None
    have d: "pod_Namespace pod \<notin> dom (map_of eqs)" using None by (simp add: domIff)
    have "cap_select srt now H pod pdbs False False (newElasticQuotaInfo '''' None None None) (pf_podReq pf)
        zero_Resource zero_Resource (?ni, state) = Ret (vs, n, status, ni', st')"
      using assms(3-6) None by (simp add: cap_SelectVictimsOnNode_def Let_def)
    from spec [OF _ this] d show ?thesis using ms None by simp
  next
    case (Some i)
    have d: "pod_Namespace pod \<in> dom (map_of eqs)" using Some by (simp add: domIff)
    have "cap_select srt now H pod pdbs True (usedOverMinWith i (pf_nominatedPodsReqInEQWithPodReq pf)) i (pf_podReq pf)
        (pf_nominatedPodsReqInEQWithPodReq pf) (pf_nominatedPodsReqWithPodReq pf) (?ni, state) = Ret (vs, n, status, ni', st')"
      using assms(3-6) Some by (simp add: cap_SelectVictimsOnNode_def Let_def)
    from spec [OF _ this] d show ?thesis using ms Some by simp
  qed
qed

end

end
