(* ===== verification/Capacity_Properties.thy ===== *)
theory Capacity_Properties
  imports Capacity_Preemption
begin

text \<open>
  The properties of the capacity scheduling plugin: the accounting of its quotas, the decision
  of PreFilter, the split of victims by disruption budgets and the choice of victims.
\<close>

section \<open>A framework that runs only this plugin\<close>

definition own_handle ::
  "(cap_state \<Rightarrow> v1_Pod \<Rightarrow> NodeInfo \<Rightarrow> Status) \<Rightarrow> NodeInfo list \<Rightarrow> (string \<Rightarrow> v1_Pod list) \<Rightarrow> cap_state fhandle" where
  "own_handle flt nodes nominated = \<lparr>fh_RunRemovePod = (\<lambda>pod p ni st. cap_RemovePod st p),
     fh_RunAddPod = (\<lambda>pod p ni st. cap_AddPod st p), fh_RunFilter = flt,
     fh_GetNode = (\<lambda>n. find (\<lambda>ni. ni_Name ni = n) nodes), fh_NodeInfos = Inr nodes, fh_NominatedPodsForNode = nominated\<rparr>"


section \<open>Accounting\<close>

definition pod_a :: "string \<Rightarrow> int \<Rightarrow> v1_Pod" where
  "pod_a uid millis = zero_pod\<lparr>pod_Namespace := ''a'', pod_Name := uid, pod_UID := uid,
     pod_Containers := [\<lparr>c_Requests = [(''cpu'', millis * 1000000)], c_Limits = []\<rparr>]\<rparr>"

definition quota_a :: ElasticQuota where
  "quota_a = \<lparr>eqo_Namespace = ''a'', eqo_Min = Some [(''cpu'', 2000000000)], eqo_Max = Some [(''cpu'', 3000000000)]\<rparr>"

definition spec_a :: "string \<Rightarrow> Resource" where
  "spec_a uid = computePodResourceRequest (pod_a uid 500)"

definition quotas_a :: ElasticQuotaInfos where
  "quotas_a = cap_apply (Reserved (pod_a ''u1'' 500)) (cap_apply (EQAdded quota_a) [])"

lemma quotas_a_reachable: "cap_reachable spec_a quotas_a"
  unfolding quotas_a_def
  by (intro cap_reachable.intros) (simp_all add: follows_spec_def spec_a_def pod_a_def)

definition info_a :: ElasticQuotaInfo where
  "info_a = snd (addPodIfNotPresent (pod_a ''u1'' 500) (newElasticQuotaInfo ''a'' (eqo_Min quota_a) (eqo_Max quota_a) None))"

lemma quotas_a_eq: "quotas_a = [(''a'', info_a)]"
  by (simp add: quotas_a_def addElasticQuota_def quota_a_def cap_Reserve_def pod_a_def info_a_def split: prod.splits option.splits)

lemma info_a_pods: "eq_pods info_a = {''u1''}"
  by (simp add: info_a_def addPodIfNotPresent_def GetPodKey_def pod_a_def newElasticQuotaInfo_def Let_def reserveResource_def)

text \<open>C12: In every state that the quota events can lead to, the used amount of every quota is, in
  every resource, the sum of the requests of the pods counted in it, each once.\<close>

theorem quota_used_is_sum:
  assumes "cap_reachable spec c" and "map_of c ns = Some i"
  shows "finite (eq_pods i) \<and> rdim (eq_Used i) n = (\<Sum>k \<in> eq_pods i. rdim (spec k) n)
    \<and> eq_Namespace i = ns \<and> eq_Min i \<noteq> None \<and> eq_Max i \<noteq> None"
  using quotas_ok_get [OF cap_reachable_ok [OF assms(1)] assms(2)] by (simp add: quota_ok_def accounted_def)

theorem quota_used_is_sum_witness: "rdim (eq_Used info_a) ''cpu'' = 500"
proof -
  have "map_of quotas_a ''a'' = Some info_a" by (simp add: quotas_a_eq)
  from quota_used_is_sum [OF quotas_a_reachable this, of "''cpu''"]
  have "rdim (eq_Used info_a) ''cpu'' = rdim (spec_a ''u1'') ''cpu''" by (simp add: info_a_pods)
  also have "\<dots> = 500" by code_simp
  finally show ?thesis .
qed

text \<open>Reserving a pod that is not yet counted and unreserving it again leaves every quota with
  the pods and, in every resource, the used amount it had.\<close>

theorem reserve_unreserve:
  assumes "\<forall>i. map_of c (pod_Namespace pod) = Some i \<longrightarrow> pod_UID pod \<notin> eq_pods i"
  shows "map_option eq_pods (map_of (cap_Unreserve pod (snd (cap_Reserve pod c))) ns) = map_option eq_pods (map_of c ns)
    \<and> map_option (\<lambda>i. rdim (eq_Used i) n) (map_of (cap_Unreserve pod (snd (cap_Reserve pod c))) ns)
      = map_option (\<lambda>i. rdim (eq_Used i) n) (map_of c ns)"
proof (cases "map_of c (pod_Namespace pod)")
  case None
  then show ?thesis by (simp add: cap_Reserve_def cap_Unreserve_def)
next
  case (Some i)
  have "snd (cap_Reserve pod c) = AList.update (pod_Namespace pod) (snd (addPodIfNotPresent pod i)) c"
    using Some by (auto simp: cap_Reserve_def split: prod.splits option.splits)
  then show ?thesis using Some eql.del_add [of pod i n] assms by (simp add: cap_Unreserve_def)
qed

theorem reserve_unreserve_witness:
  "map_option eq_pods (map_of (cap_Unreserve (pod_a ''u2'' 700) (snd (cap_Reserve (pod_a ''u2'' 700) quotas_a))) ''a'') = Some {''u1''}"
  using reserve_unreserve [of quotas_a "pod_a ''u2'' 700" "''a''"] by (simp add: quotas_a_eq info_a_pods pod_a_def)

section \<open>PreFilter\<close>






section \<open>Disruption budgets\<close>

text \<open>C14: The split of the potential victims keeps their order, and the violating ones are exactly
  those at which some budget they are charged to has already been used up by the potential
  victims before them.\<close>

theorem pdb_split_exact:
  assumes "no_underflow pdbs (length pods)"
  shows "filterPodsWithPDBViolation pods pdbs =
    (nths pods (violating_positions pdbs pods), nths pods (- violating_positions pdbs pods))"
  using filterPodsWithPDBViolation_spec [OF assms] .

definition pdb_one :: PodDisruptionBudget where
  "pdb_one = \<lparr>pdb_Namespace = ''a'', pdb_Selector = Selector False (\<lambda>l. map_of l ''app'' = Some ''x''),
     pdb_DisruptionsAllowed = 1, pdb_DisruptedPods = []\<rparr>"

definition pod_x :: "string \<Rightarrow> int \<Rightarrow> v1_Pod" where
  "pod_x uid millis = (pod_a uid millis)\<lparr>pod_Labels := [(''app'', ''x'')], pod_Priority := Some 1\<rparr>"

theorem pdb_split_exact_witness:
  "filterPodsWithPDBViolation [pod_x ''u1'' 1, pod_x ''u2'' 1] [pdb_one] =
     (nths [pod_x ''u1'' 1, pod_x ''u2'' 1] (violating_positions [pdb_one] [pod_x ''u1'' 1, pod_x ''u2'' 1]), [pod_x ''u1'' 1])"
proof -
  have "filterPodsWithPDBViolation [pod_x ''u1'' 1, pod_x ''u2'' 1] [pdb_one] = ([pod_x ''u2'' 1], [pod_x ''u1'' 1])"
    by (simp add: filterPodsWithPDBViolation_def pdb_one_def pdb_counts_def pod_x_def pod_a_def)
  moreover have "no_underflow [pdb_one] (length [pod_x ''u1'' 1, pod_x ''u2'' 1])"
    by (simp add: no_underflow_def pdb_one_def)
  ultimately show ?thesis using pdb_split_exact [of "[pdb_one]" "[pod_x ''u1'' 1, pod_x ''u2'' 1]"] by simp
qed

section \<open>Choice of victims\<close>


definition roomy :: "nat \<Rightarrow> cap_state \<Rightarrow> v1_Pod \<Rightarrow> NodeInfo \<Rightarrow> Status" where
  "roomy k st pod ni = (if ni_len ni \<le> k then None else NewStatus Unschedulable ''too many pods'')"

definition pf_zero :: PreFilterState where
  "pf_zero = \<lparr>pf_podReq = zero_Resource, pf_nominatedPodsReqInEQWithPodReq = zero_Resource,
     pf_nominatedPodsReqWithPodReq = zero_Resource\<rparr>"



definition urgent :: v1_Pod where
  "urgent = (pod_a ''u9'' 1)\<lparr>pod_Priority := Some 5\<rparr>"




text \<open>When a potential victim that is put back does not fit, and the quotas are exceeded even
  after it is taken away again, the code removes it a second time; the second removal fails,
  so the whole node is given up with an error although the pod is a victim already.\<close>

theorem double_removal_gives_up_node:
  assumes "ni_wf ni" and "keyed (pi # ni_Pods ni)"
    and "addPod_closure H pod pi (ni, st) = (None, ni1, st1)" and "\<not> IsSuccess (fh_RunFilter H st1 pod ni1)"
    and "removePod H pod pi (ni1, st1) = (None, ni2, st2)"
    and "over_quota (preemptor_quota pod info0 st2) (snap st2) inEQ all = Ret True"
  shows "\<exists>e s'. cap_reprieve H pod True info0 inEQ all pi vs (ni, st) = Ret (Inl e, vs @ [pi], s')"
proof -
  from addPod_closure_Pods [OF assms(1,3)] have wf1: "ni_wf ni1" and p1: "ni_Pods ni1 = ni_Pods ni @ [pi]" by auto
  have "keyed (ni_Pods ni1)" using assms(2) by (rule keyed_mset) (simp add: p1)
  from removePod_present [OF wf1 this _ assms(5)] have "mset (ni_Pods ni2) = mset (ni_Pods ni)" using p1 by simp
  then have "\<forall>q \<in> set (ni_Pods ni2). pod_UID q \<noteq> pod_UID pi"
    using assms(2) mset_eq_setD [of "ni_Pods ni2" "ni_Pods ni"] by (simp add: keyed_def) (metis imageI)
  moreover obtain r s' where rm: "removePod H pod pi (ni2, st2) = (r, s')" by (metis surj_pair)
  ultimately obtain e where e: "r = Some e" using removePod_absent by (metis not_None_eq)
  have "cap_reprieve H pod True info0 inEQ all pi vs (ni, st) = Ret (Inl e, vs @ [pi], s')"
    by (simp add: cap_reprieve_def Let_def assms(3-6) rm e)
  then show ?thesis by blast
qed

definition info_full :: ElasticQuotaInfo where
  "info_full = newElasticQuotaInfo ''a'' None (Some []) None"

definition st_full :: cap_state where
  "st_full = [(ElasticQuotaSnapshotKey, SnapshotData [(''a'', info_full)]), (preFilterStateKey, PreFilterData pf_zero)]"

theorem double_removal_gives_up_node_witness:
  "\<exists>e s'. cap_reprieve (own_handle (roomy 1) [] (\<lambda>_. [])) urgent True info_full (computePodResourceRequest (pod_a ''u3'' 1)) zero_Resource
     (pod_x ''u2'' 1) [] (new_NodeInfo ''n1'' [pod_x ''u1'' 1], st_full) = Ret (Inl e, [pod_x ''u2'' 1], s')"
proof -
  let ?H = "own_handle (roomy 1) [] (\<lambda>_. [])" and ?p = "pod_x ''u2'' 1"
  obtain r1 ni1 st1 where a: "addPod_closure ?H urgent ?p (new_NodeInfo ''n1'' [pod_x ''u1'' 1], st_full) = (r1, ni1, st1)"
    by (metis surj_pair)
  obtain r2 ni2 st2 where b: "removePod ?H urgent ?p (ni1, st1) = (r2, ni2, st2)" by (metis surj_pair)
  have "case addPod_closure ?H urgent ?p (new_NodeInfo ''n1'' [pod_x ''u1'' 1], st_full) of (r1, ni1, st1) \<Rightarrow>
      r1 = None \<and> \<not> IsSuccess (fh_RunFilter ?H st1 urgent ni1) \<and>
      (case removePod ?H urgent ?p (ni1, st1) of (r2, ni2, st2) \<Rightarrow> r2 = None \<and>
        (case over_quota (preemptor_quota urgent info_full st2) (snap st2) (computePodResourceRequest (pod_a ''u3'' 1)) zero_Resource
         of Ret True \<Rightarrow> True | _ \<Rightarrow> False))"
    by code_simp
  then have h: "r1 = None" "\<not> IsSuccess (fh_RunFilter ?H st1 urgent ni1)" "r2 = None"
    "over_quota (preemptor_quota urgent info_full st2) (snap st2) (computePodResourceRequest (pod_a ''u3'' 1)) zero_Resource = Ret True"
    using a b by (auto split: outcome.splits bool.splits)
  have k: "keyed (?p # ni_Pods (new_NodeInfo ''n1'' [pod_x ''u1'' 1]))" by (simp add: keyed_def pod_x_def pod_a_def)
  show ?thesis using double_removal_gives_up_node [OF ni_wf_new k a [unfolded h(1)] h(2) b [unfolded h(3)] h(4), of "[]"] by simp
qed

end
