(* ===== verification/Preemption_Toleration.thy ===== *)
theory Preemption_Toleration
  imports Preemption Disruption_Budgets
begin

text \<open>
  The PreemptionToleration plugin, \<^verbatim>\<open>pkg/preemptiontoleration\<close>: a priority class may say in its
  annotations from which priority on its pods can be preempted, and how long they are
  spared.  The priority class lister and the framework handle are parameters.  Times are in
  nanoseconds; the toleration is a 64-bit duration whose multiplication wraps.
\<close>

section \<open>Numbers in annotations\<close>

text \<open>\<^verbatim>\<open>strconv.ParseInt\<close> in base 10 for the given bit size; any error is None.\<close>

definition digit :: "char \<Rightarrow> int option" where
  "digit c = (let n = (of_char c :: int) in if 48 \<le> n \<and> n \<le> 57 then Some (n - 48) else None)"

fun digits :: "int \<Rightarrow> string \<Rightarrow> int option" where
  "digits acc [] = Some acc"
| "digits acc (c # cs) = (case digit c of None \<Rightarrow> None | Some d \<Rightarrow> digits (10 * acc + d) cs)"

definition ParseInt :: "nat \<Rightarrow> string \<Rightarrow> int option" where
  "ParseInt bits s =
     (let neg = (s \<noteq> [] \<and> hd s = CHR ''-'');
          body = (if s \<noteq> [] \<and> (hd s = CHR ''-'' \<or> hd s = CHR ''+'') then tl s else s)
      in if body = [] then None
         else (case digits 0 body of
                 None \<Rightarrow> None
               | Some un \<Rightarrow>
                   if \<not> neg \<and> un \<ge> 2 ^ (bits - 1) then None
                   else if neg \<and> un > 2 ^ (bits - 1) then None
                   else Some (if neg then - un else un)))"

section \<open>Policies\<close>

record PriorityClass =
  prc_Name :: string
  prc_Value :: i32
  prc_Annotations :: "(string, string) gomap"

record Policy =
  pol_MinimumPreemptablePriority :: i32
  pol_TolerationSeconds :: i64

definition AnnotationKeyMinimumPreemptablePriority :: string where
  "AnnotationKeyMinimumPreemptablePriority = ''preemption-toleration.scheduling.x-k8s.io/minimum-preemptable-priority''"

definition AnnotationKeyTolerationSeconds :: string where
  "AnnotationKeyTolerationSeconds = ''preemption-toleration.scheduling.x-k8s.io/toleration-seconds''"

definition parsePreemptionTolerationPolicy :: "PriorityClass \<Rightarrow> Policy option" where
  "parsePreemptionTolerationPolicy pc =
     (case (case map_of (prc_Annotations pc) AnnotationKeyMinimumPreemptablePriority of
              None \<Rightarrow> Some (prc_Value pc + 1)
            | Some s \<Rightarrow> map_option word_of_int (ParseInt 32 s)) of
        None \<Rightarrow> None
      | Some mpp \<Rightarrow>
          (case (case map_of (prc_Annotations pc) AnnotationKeyTolerationSeconds of
                   None \<Rightarrow> Some 0
                 | Some s \<Rightarrow> map_option word_of_int (ParseInt 64 s)) of
             None \<Rightarrow> None
           | Some ts \<Rightarrow> Some \<lparr>pol_MinimumPreemptablePriority = mpp, pol_TolerationSeconds = ts\<rparr>))"

text \<open>\<^verbatim>\<open>podutil.GetPodCondition\<close>: the first condition of the type.\<close>

definition GetPodCondition :: "v1_Pod \<Rightarrow> string \<Rightarrow> PodCondition option" where
  "GetPodCondition pod t = find (\<lambda>c. pc_Type c = t) (pod_Conditions pod)"

definition ExemptedFromPreemption ::
  "(string \<Rightarrow> goerror + PriorityClass) \<Rightarrow> int \<Rightarrow> v1_Pod \<Rightarrow> v1_Pod \<Rightarrow> goerror + bool" where
  "ExemptedFromPreemption pcLister now victimCandidate preemptor =
     (if pod_PriorityClassName victimCandidate = '''' then Inr False
      else (case pcLister (pod_PriorityClassName victimCandidate) of
        Inl err \<Rightarrow> Inl err
      | Inr victimPriorityClass \<Rightarrow>
          if (case pod_PreemptionPolicy preemptor of None \<Rightarrow> ''PreemptLowerPriority'' | Some p \<Rightarrow> p) = ''Never'' then Inr True
          else (case parsePreemptionTolerationPolicy victimPriorityClass of
                  None \<Rightarrow> Inr False
                | Some policy \<Rightarrow>
                    if sint (PodPriority preemptor) \<ge> sint (pol_MinimumPreemptablePriority policy) then Inr False
                    else if sint (pol_TolerationSeconds policy) < 0 then Inr True
                    else (case GetPodCondition victimCandidate ''PodScheduled'' of
                            None \<Rightarrow> Inr True
                          | Some scheduled \<Rightarrow>
                              if pc_Status scheduled \<noteq> ''True'' then Inr True
                              else Inr (now < pc_LastTransitionTime scheduled
                                     + sint (pol_TolerationSeconds policy * 1000000000))))))"

section \<open>Victims\<close>

text \<open>The plugin has its own copy of the split by disruption budgets.\<close>

fun pt_pdb_loop :: "v1_Pod \<Rightarrow> PodDisruptionBudget list \<Rightarrow> i32 list \<Rightarrow> bool \<Rightarrow> i32 list \<times> bool" where
  "pt_pdb_loop pod (pdb # pdbs) (a # allowed) violated =
     (if pdb_Namespace pdb = pod_Namespace pod
         \<and> (case pdb_Selector pdb of SelectorError \<Rightarrow> False | Selector e mtch \<Rightarrow> \<not> e \<and> mtch (pod_Labels pod))
         \<and> \<not> gm_has (pdb_DisruptedPods pdb) (pod_Name pod)
      then (case pt_pdb_loop pod pdbs allowed (violated \<or> sint (a - 1) < 0) of (as, v) \<Rightarrow> ((a - 1) # as, v))
      else (case pt_pdb_loop pod pdbs allowed violated of (as, v) \<Rightarrow> (a # as, v)))"
| "pt_pdb_loop pod _ allowed violated = (allowed, violated)"

fun pt_pdb_split :: "PodDisruptionBudget list \<Rightarrow> i32 list \<Rightarrow> v1_Pod list \<Rightarrow> v1_Pod list \<times> v1_Pod list" where
  "pt_pdb_split pdbs allowed [] = ([], [])"
| "pt_pdb_split pdbs allowed (pod # pods) =
     (case (if pod_Labels pod \<noteq> [] then pt_pdb_loop pod pdbs allowed False else (allowed, False)) of
        (allowed, violated) \<Rightarrow>
          (case pt_pdb_split pdbs allowed pods of (vs, ns) \<Rightarrow>
             if violated then (pod # vs, ns) else (vs, pod # ns)))"

definition pt_filterPodsWithPDBViolation ::
  "v1_Pod list \<Rightarrow> PodDisruptionBudget list \<Rightarrow> v1_Pod list \<times> v1_Pod list" where
  "pt_filterPodsWithPDBViolation pods pdbs = pt_pdb_split pdbs (map pdb_DisruptionsAllowed pdbs) pods"

definition pt_test :: "(string \<Rightarrow> goerror + PriorityClass) \<Rightarrow> int \<Rightarrow> v1_Pod \<Rightarrow> 'st \<Rightarrow> v1_Pod \<Rightarrow> goerror + bool" where
  "pt_test pcLister now preemptor st p =
     (if sint (PodPriority p) \<ge> sint (PodPriority preemptor) then Inr False
      else (case ExemptedFromPreemption pcLister now p preemptor of
              Inl e \<Rightarrow> Inl e
            | Inr exempted \<Rightarrow> Inr (\<not> exempted)))"

definition pt_reprieve :: "'st fhandle \<Rightarrow> v1_Pod \<Rightarrow> 'st reprieve" where
  "pt_reprieve H pod pi vs s =
     (case addPod_closure H pod pi s of
        (Some e, s) \<Rightarrow> Ret (Inl e, vs, s)
      | (None, s) \<Rightarrow>
          if IsSuccess (fh_RunFilter H (snd s) pod (fst s)) then Ret (Inr True, vs, s)
          else (case removePod H pod pi s of
                  (Some e, s) \<Rightarrow> Ret (Inl e, vs, s)
                | (None, s) \<Rightarrow> Ret (Inr False, vs @ [pi], s)))"

definition pt_reprieve_victims ::
  "sort_fn \<Rightarrow> int \<times> int \<Rightarrow> 'st fhandle \<Rightarrow> v1_Pod \<Rightarrow> PodDisruptionBudget list \<Rightarrow> v1_Pod list \<Rightarrow> NodeInfo \<times> 'st
    \<Rightarrow> (v1_Pod list \<times> nat \<times> Status \<times> NodeInfo \<times> 'st) outcome" where
  "pt_reprieve_victims srt clk H pod pdbs potentialVictims s =
     (let sorted_victims = srt (MoreImportantPod (fst clk) (snd clk)) potentialVictims;
          (violating, nonViolating) = pt_filterPodsWithPDBViolation sorted_victims pdbs;
          step = pt_reprieve H pod
      in case reprieve_all step violating [] 0 s of
           Panic m \<Rightarrow> Panic m
         | Ret (Inl e, vs, s) \<Rightarrow> Ret ([], 0, NewStatus Error e, s)
         | Ret (Inr n, vs, s) \<Rightarrow>
             (case reprieve_all step nonViolating vs 0 s of
                Panic m \<Rightarrow> Panic m
              | Ret (Inl e, vs, s) \<Rightarrow> Ret ([], 0, NewStatus Error e, s)
              | Ret (Inr _, vs, s) \<Rightarrow> Ret (vs, n, NewStatus Success '''', s)))"

definition pt_SelectVictimsOnNode ::
  "sort_fn \<Rightarrow> int \<times> int \<Rightarrow> (string \<Rightarrow> goerror + PriorityClass) \<Rightarrow> int \<Rightarrow> 'st fhandle \<Rightarrow> 'st \<Rightarrow> v1_Pod \<Rightarrow> NodeInfo
    \<Rightarrow> PodDisruptionBudget list \<Rightarrow> (v1_Pod list \<times> nat \<times> Status \<times> NodeInfo \<times> 'st) outcome" where
  "pt_SelectVictimsOnNode srt clk pcLister curTime H state preemptor nodeInfo pdbs =
     (case collect (pt_test pcLister curTime preemptor) H preemptor [0..<ni_len nodeInfo] [] (nodeInfo, state) of
        (Inl e, s) \<Rightarrow> Ret ([], 0, NewStatus Error e, s)
      | (Inr potentialVictims, s) \<Rightarrow>
          if potentialVictims = []
          then Ret ([], 0, NewStatus UnschedulableAndUnresolvable
                 (''No victims found on node '' @ ni_Name (fst s) @ '' for preemptor pod '' @ pod_Name preemptor), s)
          else
            let f = fh_RunFilter H (snd s) preemptor (fst s) in
            if \<not> IsSuccess f then Ret ([], 0, f, s)
            else pt_reprieve_victims srt clk H preemptor pdbs potentialVictims s)"

section \<open>The other methods of the preemption interface\<close>

text \<open>Division of Go, which truncates towards zero.\<close>

definition quot32 :: "i32 \<Rightarrow> int \<Rightarrow> i32" where
  "quot32 a b = word_of_int (sgn (sint a) * (\<bar>sint a\<bar> div b))"

definition calculateNumCandidates :: "i32 \<Rightarrow> i32 \<Rightarrow> i32 \<Rightarrow> i32" where
  "calculateNumCandidates minPercentage minAbsolute numNodes =
     (let n = quot32 (numNodes * minPercentage) 100;
          n = (if sint n < sint minAbsolute then minAbsolute else n);
          n = (if sint n > sint numNodes then numNodes else n)
      in n)"

text \<open>\<^verbatim>\<open>rand.Int31n\<close> panics unless its argument is positive; the random choice is a parameter.\<close>

definition pt_GetOffsetAndNumCandidates :: "(i32 \<Rightarrow> i32) \<Rightarrow> i32 \<Rightarrow> i32 \<Rightarrow> i32 \<Rightarrow> (i32 \<times> i32) outcome" where
  "pt_GetOffsetAndNumCandidates Int31n minPercentage minAbsolute numNodes =
     (if sint numNodes \<le> 0 then Panic ''invalid argument to Int31n''
      else Ret (Int31n numNodes, calculateNumCandidates minPercentage minAbsolute numNodes))"

definition pt_CandidatesToVictimsMap :: "(string \<times> 'v) list \<Rightarrow> (string, 'v) gomap" where
  "pt_CandidatesToVictimsMap candidates = fold (\<lambda>(name, victims) m. AList.update name victims m) candidates []"

definition pt_PodEligibleToPreemptOthers :: "'st fhandle \<Rightarrow> v1_Pod \<Rightarrow> Status \<Rightarrow> bool \<times> string" where
  "pt_PodEligibleToPreemptOthers H pod nominatedNodeStatus =
     (if pod_PreemptionPolicy pod = Some ''Never'' then (False, ''not eligible due to preemptionPolicy=Never.'')
      else if pod_NominatedNodeName pod \<noteq> '''' then
        (if status_Code nominatedNodeStatus = UnschedulableAndUnresolvable then (True, '''')
         else (case fh_GetNode H (pod_NominatedNodeName pod) of
                 None \<Rightarrow> (True, '''')
               | Some nodeInfo \<Rightarrow>
                   if list_ex (\<lambda>p. pod_DeletionTimestamp p \<noteq> None \<and> sint (PodPriority p) < sint (PodPriority pod)) (ni_Pods nodeInfo)
                   then (False, ''not eligible due to a terminating pod on the nominated node.'')
                   else (True, '''')))
      else (True, ''''))"

section \<open>Facts\<close>

lemma pt_pdb_loop_eq: "pt_pdb_loop pod pdbs allowed v = pdb_loop pod pdbs allowed v"
  by (induction pod pdbs allowed v rule: pt_pdb_loop.induct)
     (auto simp: pdb_counts_def split: selector.splits)

lemma pt_pdb_split_eq: "pt_pdb_split pdbs allowed pods = pdb_split pdbs allowed pods"
  by (induction pods arbitrary: allowed) (simp_all add: pt_pdb_loop_eq split: prod.splits)

lemma pt_filterPods_eq: "pt_filterPodsWithPDBViolation = filterPodsWithPDBViolation"
  by (simp add: fun_eq_iff pt_filterPodsWithPDBViolation_def filterPodsWithPDBViolation_def pt_pdb_split_eq)

lemma pt_reprieve_places: "places (pt_reprieve H pod)"
  unfolding places_def
proof (intro allI impI)
  fix pi vs ni st b vs' ni' st'
  assume wf: "ni_wf ni" and k: "keyed (pi # ni_Pods ni)" and r: "pt_reprieve H pod pi vs (ni, st) = Ret (Inr b, vs', ni', st')"
  obtain e ni1 st1 where a: "addPod_closure H pod pi (ni, st) = (e, ni1, st1)" by (metis surj_pair)
  from addPod_closure_Pods [OF wf a] have wf1: "ni_wf ni1" and p1: "ni_Pods ni1 = ni_Pods ni @ [pi]" by auto
  have k1: "keyed (ni_Pods ni1)" using k by (rule keyed_mset) (simp add: p1)
  have in1: "pi \<in> set (ni_Pods ni1)" using p1 by simp
  obtain e2 ni2 st2 where rm: "removePod H pod pi (ni1, st1) = (e2, ni2, st2)" by (metis surj_pair)
  from removePod_present [OF wf1 k1 in1 rm] have "ni_wf ni2" "mset (ni_Pods ni2) = mset (ni_Pods ni)"
    using p1 by auto
  then show "ni_wf ni' \<and> (mset (ni_Pods ni') = add_mset pi (mset (ni_Pods ni)) \<and> vs' = vs
       \<or> mset (ni_Pods ni') = mset (ni_Pods ni) \<and> vs' = vs @ [pi])"
    using r a rm wf1 p1 by (cases e; cases e2) (auto simp: pt_reprieve_def split: if_splits)
qed

lemma pt_reprieve_total:
  "\<exists>r. pt_reprieve H pod pi vs s = Ret r"
  by (auto simp: pt_reprieve_def split: prod.splits option.splits)

lemma reprieve_all_total:
  assumes "\<And>pi vs s. \<exists>r. step pi vs s = Ret r"
  shows "\<exists>r. reprieve_all step pis vs n s = Ret r"
proof (induction pis arbitrary: vs n s)
  case Nil
  then show ?case by simp
next
  case (Cons pi pis)
  obtain x vs1 s1 where "step pi vs s = Ret (x, vs1, s1)" using assms by (metis surj_pair)
  then show ?case using Cons.IH by (cases x) auto
qed

lemma pt_SelectVictims_returns: "\<exists>r. pt_SelectVictimsOnNode srt clk pcLister now H state pod ni pdbs = Ret r"
proof -
  have np: "reprieve_all (pt_reprieve H pod) pis vs n s \<noteq> Panic m" for pis vs n s m
    using reprieve_all_total [of "pt_reprieve H pod" pis vs n s] pt_reprieve_total [of H pod] by auto
  have "pt_reprieve_victims srt clk H pod pdbs pv s \<noteq> Panic m" for pv s m
    unfolding pt_reprieve_victims_def Let_def
    by (auto simp: np split: prod.splits outcome.splits sum.splits)
  then have "pt_SelectVictimsOnNode srt clk pcLister now H state pod ni pdbs \<noteq> Panic m" for m
    unfolding pt_SelectVictimsOnNode_def Let_def by (auto split: prod.splits sum.splits)
  then show ?thesis by (metis outcome.exhaust)
qed

lemma pt_SelectVictims_spec:
  assumes "sort_slice srt" "keyed (ni_Pods ni)" "ni_len ni = length (ni_arr ni)"
    and "pt_SelectVictimsOnNode srt clk pcLister now H state pod ni pdbs = Ret (vs, n, status, ni', st')" "IsSuccess status"
  shows "mset vs + mset (ni_Pods ni') = mset (ni_Pods ni)
    \<and> (\<forall>p \<in> set vs. sint (PodPriority p) < sint (PodPriority pod) \<and> ExemptedFromPreemption pcLister now p pod = Inr False)"
proof -
  have pods: "ni_Pods ni = ni_arr ni" using assms(3) by (simp add: ni_Pods_def)
  have rng: "ranging [] (ni_arr ni) ni" using assms(2,3) pods by (simp add: ranging_def ni_wf_def)
  obtain pv ni1 st1 where c: "collect (pt_test pcLister now pod) H pod [0..<ni_len ni] [] (ni, state) = (Inr pv, ni1, st1)"
    and r: "pt_reprieve_victims srt clk H pod pdbs pv (ni1, st1) = Ret (vs, n, status, ni', st')"
    using assms(4,5) unfolding pt_SelectVictimsOnNode_def Let_def
    by (auto split: prod.splits sum.splits if_splits)
  have cl: "collect_list (pt_test pcLister now pod) H pod (ni_arr ni) [] (ni, state) = (Inr pv, ni1, st1)"
    using collect_ranging [OF rng, of "pt_test pcLister now pod" H pod "[]" state] c assms(3) by simp
  from collect_list_ranging [where I = "\<lambda>_. True", OF _ cl rng] have pv: "mset pv + mset (ni_Pods ni1) = mset (ni_Pods ni)" "ni_wf ni1"
    "\<forall>p \<in> set pv. \<exists>st. pt_test pcLister now pod (st :: 'a) p = Inr True" by auto
  obtain vi nv where f: "filterPodsWithPDBViolation (srt (MoreImportantPod (fst clk) (snd clk)) pv) pdbs = (vi, nv)" by fastforce
  have m: "mset vi + mset nv = mset pv" using filterPods_mset [OF f] sort_slice.sort_permutes [OF assms(1)] by simp
  obtain n1 vs1 ni2 st2 n2 where "reprieve_all (pt_reprieve H pod) vi [] 0 (ni1, st1) = Ret (Inr n1, vs1, ni2, st2)"
    "reprieve_all (pt_reprieve H pod) nv vs1 0 (ni2, st2) = Ret (Inr n2, vs, ni', st')"
    using r assms(5) f by (auto simp: pt_reprieve_victims_def pt_filterPods_eq Let_def split: outcome.splits sum.splits)
  moreover have "keyed (vi @ nv @ ni_Pods ni1)"
    using assms(2) by (rule keyed_mset) (simp add: m [symmetric] pv(1) [symmetric])
  ultimately have "mset vs + mset (ni_Pods ni') = mset vi + mset nv + mset (ni_Pods ni1)" "set vs \<subseteq> set vi \<union> set nv"
    using reprieve_twice [OF pt_reprieve_places pv(2)] by metis+
  moreover have "set vi \<union> set nv = set pv" using m by (metis set_mset_mset set_mset_union)
  moreover have "sint (PodPriority p) < sint (PodPriority pod) \<and> ExemptedFromPreemption pcLister now p pod = Inr False" if "p \<in> set pv" for p
    using pv(3) that by (fastforce simp: pt_test_def split: if_splits sum.splits)
  ultimately show ?thesis using m pv(1) by auto
qed

end
