(* ===== verification/Toleration_Properties.thy ===== *)
theory Toleration_Properties
  imports Preemption_Toleration
begin

text \<open>The properties of the PreemptionToleration plugin.\<close>

section \<open>How long a pod is spared\<close>

text \<open>The candidate's class has the policy, and the preemptor is below its threshold and may preempt.\<close>

definition below_threshold ::
  "(string \<Rightarrow> goerror + PriorityClass) \<Rightarrow> v1_Pod \<Rightarrow> v1_Pod \<Rightarrow> Policy \<Rightarrow> bool" where
  "below_threshold pcLister victim preemptor policy =
     (pod_PriorityClassName victim \<noteq> '''' \<and> pod_PreemptionPolicy preemptor \<noteq> Some ''Never''
      \<and> (case pcLister (pod_PriorityClassName victim) of Inl e \<Rightarrow> False
         | Inr pc \<Rightarrow> parsePreemptionTolerationPolicy pc = Some policy)
      \<and> sint (PodPriority preemptor) < sint (pol_MinimumPreemptablePriority policy))"

definition scheduled_at :: "v1_Pod \<Rightarrow> int \<Rightarrow> bool" where
  "scheduled_at pod t = (case GetPodCondition pod ''PodScheduled'' of
     None \<Rightarrow> False | Some c \<Rightarrow> pc_Status c = ''True'' \<and> pc_LastTransitionTime c = t)"

lemma Exempted_scheduled:
  assumes "below_threshold pcLister victim preemptor policy" "scheduled_at victim t" "0 \<le> sint (pol_TolerationSeconds policy)"
  shows "ExemptedFromPreemption pcLister now victim preemptor =
    Inr (now < t + sint (pol_TolerationSeconds policy * 1000000000))"
  using assms unfolding ExemptedFromPreemption_def below_threshold_def scheduled_at_def
  by (auto split: sum.splits option.splits)

lemma sint_seconds:
  fixes s :: i64
  assumes "0 \<le> sint s"
  shows "sint (s * 1000000000) = (sint s * 1000000000 + 2 ^ 63) mod 2 ^ 64 - 2 ^ 63"
proof -
  have "s * 1000000000 = word_of_int (sint s * 1000000000)" by simp
  then have "sint (s * 1000000000) = signed_take_bit 63 (sint s * 1000000000)"
    using sint_sbintrunc' [where 'a = 64, of "sint s * 1000000000"] by simp
  also have "\<dots> = (sint s * 1000000000 + 2 ^ 63) mod 2 ^ 64 - 2 ^ 63"
    by (simp add: signed_take_bit_eq_take_bit_shift take_bit_eq_mod)
  finally show ?thesis .
qed


definition class_x :: "string \<Rightarrow> PriorityClass" where
  "class_x secs = \<lparr>prc_Name = ''x'', prc_Value = 10, prc_Annotations =
     [(AnnotationKeyMinimumPreemptablePriority, ''1000''), (AnnotationKeyTolerationSeconds, secs)]\<rparr>"

definition lister_x :: "string \<Rightarrow> string \<Rightarrow> goerror + PriorityClass" where
  "lister_x secs n = (if n = ''x'' then Inr (class_x secs) else Inl ''not found'')"

definition spared_pod :: v1_Pod where
  "spared_pod = zero_pod\<lparr>pod_Name := ''v'', pod_UID := ''v'', pod_PriorityClassName := ''x'', pod_Priority := Some 10,
     pod_Conditions := [\<lparr>pc_Type = ''PodScheduled'', pc_Status = ''True'', pc_LastTransitionTime = 0\<rparr>]\<rparr>"

definition rival :: v1_Pod where
  "rival = zero_pod\<lparr>pod_Name := ''r'', pod_UID := ''r'', pod_Priority := Some 500\<rparr>"

definition policy_x :: "i64 \<Rightarrow> Policy" where
  "policy_x secs = \<lparr>pol_MinimumPreemptablePriority = 1000, pol_TolerationSeconds = secs\<rparr>"


lemma policy_big: "parsePreemptionTolerationPolicy (class_x ''10000000000'') = Some (policy_x 10000000000)"
  by code_simp

lemma spared_scheduled: "scheduled_at spared_pod 0"
  by (simp add: scheduled_at_def GetPodCondition_def spared_pod_def)

lemma spared_below:
  "parsePreemptionTolerationPolicy (class_x s) = Some (policy_x n) \<Longrightarrow> below_threshold (lister_x s) spared_pod rival (policy_x n)"
  by (simp add: below_threshold_def lister_x_def spared_pod_def rival_def policy_x_def zero_pod_def PodPriority_def)


text \<open>A toleration beyond that overflows the 64-bit duration: between 9223372037 and
  18446744073 seconds the pod is not spared at all once it is scheduled.\<close>

theorem toleration_overflows:
  assumes "below_threshold pcLister victim preemptor policy" and "scheduled_at victim t" and "t \<le> now"
    and "9223372037 \<le> sint (pol_TolerationSeconds policy)" and "sint (pol_TolerationSeconds policy) \<le> 18446744073"
  shows "ExemptedFromPreemption pcLister now victim preemptor = Inr False"
proof -
  let ?x = "sint (pol_TolerationSeconds policy) * 1000000000 + 2 ^ 63"
  have "?x mod 2 ^ 64 = (?x - 2 ^ 64) mod 2 ^ 64" using assms(4) by (intro mod_pos_geq) simp_all
  also have "\<dots> = ?x - 2 ^ 64" using assms(4,5) by (intro mod_pos_pos_trivial) simp_all
  finally have "sint (pol_TolerationSeconds policy * 1000000000) = ?x - 2 ^ 64 - 2 ^ 63"
    using sint_seconds [of "pol_TolerationSeconds policy"] assms(4) by simp
  then have "sint (pol_TolerationSeconds policy * 1000000000) \<le> 0" using assms(5) by simp
  then show ?thesis using Exempted_scheduled [OF assms(1,2), of now] assms(3,4) by simp
qed

theorem toleration_overflows_witness:
  "ExemptedFromPreemption (lister_x ''10000000000'') 0 spared_pod rival = Inr False"
  using toleration_overflows [OF spared_below [OF policy_big] spared_scheduled, of 0] by (simp add: policy_x_def)

section \<open>Victims and candidates\<close>

text \<open>The choice of victims always returns; when it succeeds, every pod of the node is either a
  victim or still on the node, exactly once, and every victim is less important than the
  preemptor and not exempt from preemption by it.\<close>

theorem toleration_victims:
  assumes "sort_slice srt" and "keyed (ni_Pods ni)" and "ni_len ni = length (ni_arr ni)"
  shows "\<exists>vs n status ni' st'. pt_SelectVictimsOnNode srt clk pcLister now H state pod ni pdbs = Ret (vs, n, status, ni', st')
    \<and> (IsSuccess status \<longrightarrow> mset vs + mset (ni_Pods ni') = mset (ni_Pods ni)
        \<and> (\<forall>p \<in> set vs. sint (PodPriority p) < sint (PodPriority pod) \<and> ExemptedFromPreemption pcLister now p pod = Inr False))"
  using pt_SelectVictims_returns [of srt clk pcLister now H state pod ni pdbs] pt_SelectVictims_spec [OF assms] by (metis surj_pair)

definition tolerant_node :: NodeInfo where
  "tolerant_node = new_NodeInfo ''n1'' [spared_pod, spared_pod\<lparr>pod_Name := ''w'', pod_UID := ''w'', pod_PriorityClassName := ''''\<rparr>]"

definition one_fits :: "unit fhandle" where
  "one_fits = \<lparr>fh_RunRemovePod = (\<lambda>_ _ _ st. (None, st)), fh_RunAddPod = (\<lambda>_ _ _ st. (None, st)),
     fh_RunFilter = (\<lambda>_ _ ni. if ni_len ni \<le> 1 then None else NewStatus Unschedulable ''full''),
     fh_GetNode = (\<lambda>_. None), fh_NodeInfos = Inr [], fh_NominatedPodsForNode = (\<lambda>_. [])\<rparr>"

definition rival_selects :: "(v1_Pod list \<times> nat \<times> Status \<times> NodeInfo \<times> unit) outcome" where
  "rival_selects = pt_SelectVictimsOnNode insertion_sort (0, 0) (lister_x ''3600'') 5 one_fits () rival tolerant_node []"

lemma rival_selects_eval:
  "(case rival_selects of Panic _ \<Rightarrow> False | Ret (vs, n, status, ni', st') \<Rightarrow> IsSuccess status \<and> map pod_UID vs = [''w''])"
  by code_simp

theorem toleration_victims_witness:
  "\<exists>vs n status ni' st'. rival_selects = Ret (vs, n, status, ni', st') \<and> map pod_UID vs = [''w'']
     \<and> mset vs + mset (ni_Pods ni') = mset (ni_Pods tolerant_node)"
proof -
  obtain vs n status ni' st' where r: "rival_selects = Ret (vs, n, status, ni', st')" "IsSuccess status" "map pod_UID vs = [''w'']"
    using rival_selects_eval by (auto split: outcome.splits)
  have k: "keyed (ni_Pods tolerant_node)" by (simp add: tolerant_node_def keyed_def spared_pod_def)
  have l: "ni_len tolerant_node = length (ni_arr tolerant_node)" by (simp add: tolerant_node_def new_NodeInfo_def)
  have "mset vs + mset (ni_Pods ni') = mset (ni_Pods tolerant_node)"
    using toleration_victims [OF ins.sort_slice_axioms k l, of "(0, 0)" "lister_x ''3600''" 5 one_fits "()" rival "[]"] r
    by (auto simp: rival_selects_def)
  with r(1,3) show ?thesis by (intro exI conjI)
qed

lemma nonneg_quot: "0 \<le> (y :: int) \<Longrightarrow> sgn y * (\<bar>y\<bar> div 100) = y div 100"
  by (cases "y = 0") (simp_all add: sgn_if)

text \<open>The number of candidates never exceeds the number of nodes and is at least the configured
  absolute number where there are that many nodes; without overflow it is the configured
  percentage of the nodes, raised to the absolute number and cut at the number of nodes.\<close>

theorem num_candidates:
  "sint (calculateNumCandidates pct absolute nodes) \<le> sint nodes
   \<and> min (sint absolute) (sint nodes) \<le> sint (calculateNumCandidates pct absolute nodes)
   \<and> (0 \<le> sint nodes \<and> 0 \<le> sint pct \<and> sint nodes * sint pct < 2 ^ 31 \<longrightarrow>
       sint (calculateNumCandidates pct absolute nodes) = min (sint nodes) (max (sint absolute) (sint nodes * sint pct div 100)))"
proof -
  have "sint (quot32 (nodes * pct) 100) = sint nodes * sint pct div 100"
    if "0 \<le> sint nodes" "0 \<le> sint pct" "sint nodes * sint pct < 2 ^ 31"
  proof -
    have nn: "0 \<le> sint nodes * sint pct" using that by simp
    have "sint (nodes * pct) = signed_take_bit 31 (sint nodes * sint pct)"
      using sint_sbintrunc' [where 'a = 32, of "sint nodes * sint pct"] by simp
    then have p: "sint (nodes * pct) = sint nodes * sint pct"
      using signed_take_bit_int_eq_self [of 31 "sint nodes * sint pct"] nn that(3) by simp
    have "sgn (sint nodes * sint pct) * (\<bar>sint nodes * sint pct\<bar> div 100) = sint nodes * sint pct div 100"
      using nn by (rule nonneg_quot)
    then have "quot32 (nodes * pct) 100 = word_of_int (sint nodes * sint pct div 100)" by (simp only: quot32_def p)
    then have "sint (quot32 (nodes * pct) 100) = signed_take_bit 31 (sint nodes * sint pct div 100)"
      using sint_sbintrunc' [where 'a = 32, of "sint nodes * sint pct div 100"] by simp
    also have "\<dots> = sint nodes * sint pct div 100"
      using nn that(3) by (intro signed_take_bit_int_eq_self) linarith+
    finally show ?thesis .
  qed
  then show ?thesis by (auto simp: calculateNumCandidates_def Let_def)
qed

theorem num_candidates_witness: "sint (calculateNumCandidates 10 100 (500 :: i32)) = 100"
  using num_candidates [of 10 100 500] by simp

end
