(* ===== verification/Pod_Groups.thy ===== *)
theory Pod_Groups
  imports Preemption
begin

text \<open>
  Pod groups (\<^verbatim>\<open>apis/scheduling/v1alpha1/types.go\<close>) and the helpers of \<^verbatim>\<open>pkg/util/podgroup.go\<close>.
  Durations are 64-bit nanoseconds.
\<close>

type_synonym Duration = i64

record PodGroup =
  pg_Namespace :: string
  pg_Name :: string
  pg_CreationTimestamp :: int
  pg_MinMember :: i32
  pg_MinResources :: "ResourceList option"
  pg_ScheduleTimeoutSeconds :: "i32 option"
  pg_Phase :: string
  pg_OccupiedBy :: string
  pg_Running :: i32
  pg_Succeeded :: i32
  pg_Failed :: i32
  pg_ScheduleStartTime :: "int option"

definition PodGroupLabel :: string where
  "PodGroupLabel = ''scheduling.x-k8s.io/pod-group''"

definition GetPodGroupLabel :: "v1_Pod \<Rightarrow> string" where
  "GetPodGroupLabel pod = gm_get '''' (pod_Labels pod) PodGroupLabel"

definition GetPodGroupFullName :: "v1_Pod \<Rightarrow> string" where
  "GetPodGroupFullName pod =
     (let pgName = GetPodGroupLabel pod in if pgName = '''' then '''' else pod_Namespace pod @ ''/'' @ pgName)"

definition DefaultWaitTime :: Duration where
  "DefaultWaitTime = 60000000000"

definition GetWaitTimeDuration :: "PodGroup option \<Rightarrow> Duration option \<Rightarrow> Duration" where
  "GetWaitTimeDuration pg scheduleTimeout =
     (case (case pg of None \<Rightarrow> None | Some g \<Rightarrow> pg_ScheduleTimeoutSeconds g) of
        Some secs \<Rightarrow> word_of_int (sint secs) * 1000000000
      | None \<Rightarrow>
          (case scheduleTimeout of
             Some d \<Rightarrow> if d \<noteq> 0 then d else DefaultWaitTime
           | None \<Rightarrow> DefaultWaitTime))"

text \<open>The order of Go strings: lexicographic on bytes.\<close>

fun str_less :: "string \<Rightarrow> string \<Rightarrow> bool" where
  "str_less xs [] = False"
| "str_less [] (y # ys) = True"
| "str_less (x # xs) (y # ys) = (if x = y then str_less xs ys else (of_char x :: nat) < of_char y)"

lemma str_less_irrefl [simp]: "\<not> str_less xs xs"
  by (induction xs) simp_all

lemma str_less_trans: "str_less xs ys \<Longrightarrow> str_less ys zs \<Longrightarrow> str_less xs zs"
proof (induction xs ys arbitrary: zs rule: str_less.induct)
  case (2 y ys)
  then show ?case by (cases zs) auto
next
  case (3 x xs y ys)
  then show ?case by (cases zs) (auto split: if_splits)
qed simp

lemma str_less_total: "xs \<noteq> ys \<Longrightarrow> str_less xs ys \<or> str_less ys xs"
proof (induction xs ys rule: str_less.induct)
  case (1 xs)
  then show ?case by (cases xs) auto
next
  case (3 x xs y ys)
  show ?case
  proof (cases "x = y")
    case True
    then show ?thesis using 3 by simp
  next
    case False
    then have "(of_char x :: nat) \<noteq> of_char y" by (metis char_of_char)
    then have "(of_char x :: nat) < of_char y \<or> (of_char y :: nat) < of_char x" by (simp only: nat_neq_iff)
    then show ?thesis using False by auto
  qed
qed simp

end
