(* ===== verification/Ttl_Cache.thy ===== *)
theory Ttl_Cache
  imports Prelude
begin

text \<open>
  The expiring cache that the pod group manager uses for sets of names (vendored
  \<^verbatim>\<open>github.com/patrickmn/go-cache\<close>), reduced to keys and expiration times in nanoseconds.  An
  expiration of 0 means never.  The laws the manager relies on are the locale \<open>ttl_set\<close>.
\<close>

record ttl_cache =
  tc_default :: int
  tc_items :: "(string, int) gomap"

definition cache_Get :: "int \<Rightarrow> ttl_cache \<Rightarrow> string \<Rightarrow> bool" where
  "cache_Get now c k = (case map_of (tc_items c) k of None \<Rightarrow> False | Some e \<Rightarrow> \<not> (e > 0 \<and> now > e))"

definition cache_set :: "int \<Rightarrow> int \<Rightarrow> string \<Rightarrow> ttl_cache \<Rightarrow> ttl_cache" where
  "cache_set now d k c =
     (let d = (if d = 0 then tc_default c else d);
          e = (if d > 0 then now + d else 0)
      in c\<lparr>tc_items := AList.update k e (tc_items c)\<rparr>)"

definition cache_Add :: "int \<Rightarrow> int \<Rightarrow> string \<Rightarrow> ttl_cache \<Rightarrow> ttl_cache" where
  "cache_Add now d k c = (if cache_Get now c k then c else cache_set now d k c)"

definition cache_Delete :: "string \<Rightarrow> ttl_cache \<Rightarrow> ttl_cache" where
  "cache_Delete k c = c\<lparr>tc_items := AList.delete k (tc_items c)\<rparr>"

locale ttl_set =
  fixes has :: "int \<Rightarrow> 'c \<Rightarrow> string \<Rightarrow> bool"
    and add :: "int \<Rightarrow> int \<Rightarrow> string \<Rightarrow> 'c \<Rightarrow> 'c"
    and del :: "string \<Rightarrow> 'c \<Rightarrow> 'c"
  assumes add_present: "has now c k \<Longrightarrow> add now d k c = c"
    and add_absent: "\<not> has now c k \<Longrightarrow> 0 < now \<Longrightarrow> 0 < d \<Longrightarrow> has t (add now d k c) k \<longleftrightarrow> t \<le> now + d"
    and add_other: "k' \<noteq> k \<Longrightarrow> has t (add now d k c) k' = has t c k'"
    and del_has: "has t (del k c) k' \<longleftrightarrow> k' \<noteq> k \<and> has t c k'"
begin

lemma add_now: "0 < now \<Longrightarrow> 0 < d \<Longrightarrow> has now (add now d k c) k"
  by (cases "has now c k") (simp_all add: add_present add_absent)

lemma add_fresh_until:
  "\<not> has now c k \<Longrightarrow> 0 < now \<Longrightarrow> 0 < d \<Longrightarrow> t \<le> now + d \<Longrightarrow> has t (add now d k c) k"
  by (simp add: add_absent)

lemma del_add: "has t (del k (add now d k c)) k' \<longleftrightarrow> k' \<noteq> k \<and> has t c k'"
  by (auto simp: del_has add_other)

end

interpretation gc: ttl_set cache_Get cache_Add cache_Delete
  by unfold_locales (auto simp: cache_Get_def cache_Add_def cache_set_def cache_Delete_def Let_def split: option.splits)

end
