(* ===== verification/Coscheduling_Core.thy ===== *)
theory Coscheduling_Core
  imports Pod_Groups Ttl_Cache
begin

text \<open>
  The pod group manager, \<^verbatim>\<open>pkg/coscheduling/core/core.go\<close>.  Its state are the two expiring sets of
  group names: the groups that passed the resource check and the groups that failed
  recently.  What it reads (the API client, the pod lister, the node snapshot, the clock) is
  the record \<open>core_env\<close>.
\<close>

section \<open>Environment and state\<close>

text \<open>
  A node of the snapshot: the node object may be missing; \<^verbatim>\<open>Allocatable\<close> and \<^verbatim>\<open>Requested\<close> are
  those of the framework.
\<close>

record SnapNode =
  sn_hasNode :: bool
  sn_Info :: NodeInfo
  sn_Allocatable :: Resource
  sn_Requested :: Resource

record core_env =
  ce_GetPodGroup :: "string \<Rightarrow> string \<Rightarrow> goerror + PodGroup"
  ce_ListPods :: "string \<Rightarrow> string \<Rightarrow> goerror + v1_Pod list"
  ce_NodeInfos :: "goerror + SnapNode option list"
  ce_calculateResource :: "v1_Pod \<Rightarrow> Resource"
  ce_scheduleTimeout :: Duration
  ce_now :: int

record PodGroupManager =
  pm_permittedPG :: ttl_cache
  pm_backedOffPG :: ttl_cache

definition NewPodGroupManager :: PodGroupManager where
  "NewPodGroupManager = \<lparr>pm_permittedPG = \<lparr>tc_default = 3000000000, tc_items = []\<rparr>,
     pm_backedOffPG = \<lparr>tc_default = 10000000000, tc_items = []\<rparr>\<rparr>"

datatype core_Status = PodGroupNotSpecified | PodGroupNotFound | PGSuccess | PGWait

text \<open>
  The cycle state as far as the plugin uses it: the permit state (None when missing or of
  another type) and the map of pods to activate (None when missing or of another type).
\<close>

record co_state =
  co_Activate :: "bool option"
  co_PodsToActivate :: "(string, v1_Pod) gomap option"

section \<open>Operations\<close>

definition BackoffPodGroup :: "int \<Rightarrow> string \<Rightarrow> Duration \<Rightarrow> PodGroupManager \<Rightarrow> PodGroupManager" where
  "BackoffPodGroup now pgName backoff m =
     (if backoff = 0 then m else m\<lparr>pm_backedOffPG := cache_Add now (sint backoff) pgName (pm_backedOffPG m)\<rparr>)"

definition DeletePermittedPodGroup :: "string \<Rightarrow> PodGroupManager \<Rightarrow> PodGroupManager" where
  "DeletePermittedPodGroup pgFullName m = m\<lparr>pm_permittedPG := cache_Delete pgFullName (pm_permittedPG m)\<rparr>"

definition GetPodGroup :: "core_env \<Rightarrow> v1_Pod \<Rightarrow> string \<times> PodGroup option" where
  "GetPodGroup E pod =
     (let pgName = GetPodGroupLabel pod in
      if pgName = '''' then ('''', None)
      else (case ce_GetPodGroup E (pod_Namespace pod) pgName of
              Inl e \<Rightarrow> (pod_Namespace pod @ ''/'' @ pgName, None)
            | Inr pg \<Rightarrow> (pod_Namespace pod @ ''/'' @ pgName, Some pg)))"

definition GetCreationTimestamp :: "core_env \<Rightarrow> v1_Pod \<Rightarrow> int \<Rightarrow> int" where
  "GetCreationTimestamp E pod ts =
     (let pgName = GetPodGroupLabel pod in
      if pgName = '''' then ts
      else (case ce_GetPodGroup E (pod_Namespace pod) pgName of Inl e \<Rightarrow> ts | Inr pg \<Rightarrow> pg_CreationTimestamp pg))"

definition GetNamespacedName :: "v1_Pod \<Rightarrow> string" where
  "GetNamespacedName pod = pod_Namespace pod @ ''/'' @ pod_Name pod"

text \<open>The loop that drops the pod itself from its siblings.\<close>

fun remove_uid :: "string \<Rightarrow> v1_Pod list \<Rightarrow> v1_Pod list" where
  "remove_uid uid [] = []"
| "remove_uid uid (p # ps) = (if pod_UID p = uid then ps else p # remove_uid uid ps)"

definition ActivateSiblings :: "core_env \<Rightarrow> v1_Pod \<Rightarrow> co_state \<Rightarrow> co_state" where
  "ActivateSiblings E pod state =
     (let pgName = GetPodGroupLabel pod in
      if pgName = '''' then state
      else if co_Activate state \<noteq> Some True then state
      else (case ce_ListPods E (pod_Namespace pod) pgName of
              Inl e \<Rightarrow> state
            | Inr pods \<Rightarrow>
                let pods = remove_uid (pod_UID pod) pods in
                if pods = [] then state
                else (case co_PodsToActivate state of
                        None \<Rightarrow> state
                      | Some m \<Rightarrow> state\<lparr>co_PodsToActivate :=
                          Some (fold (\<lambda>p m. AList.update (GetNamespacedName p) p m) pods m)\<rparr>)))"

definition CalculateAssignedPods :: "core_env \<Rightarrow> string \<Rightarrow> string \<Rightarrow> nat" where
  "CalculateAssignedPods E podGroupName namespace =
     (case ce_NodeInfos E of
        Inl e \<Rightarrow> 0
      | Inr nodes \<Rightarrow>
          sum_list (map (\<lambda>n. length (filter (\<lambda>pod. GetPodGroupLabel pod = podGroupName \<and> pod_Namespace pod = namespace
              \<and> pod_NodeName pod \<noteq> '''') (case n of None \<Rightarrow> [] | Some sn \<Rightarrow> ni_Pods (sn_Info sn)))) nodes))"

text \<open>\<^verbatim>\<open>NodeInfo.RemovePod\<close> with its change of \<^verbatim>\<open>Requested\<close>.\<close>

definition sub_requested :: "Resource \<Rightarrow> Resource \<Rightarrow> Resource" where
  "sub_requested rq res =
     rq\<lparr>r_MilliCPU := r_MilliCPU rq - r_MilliCPU res, r_Memory := r_Memory rq - r_Memory res,
        r_EphemeralStorage := r_EphemeralStorage rq - r_EphemeralStorage res,
        r_ScalarResources := fold (\<lambda>(n, q) m. AList.update n (gm_get 0 m n - q) m) (r_ScalarResources res) (r_ScalarResources rq)\<rparr>"

definition sn_RemovePod :: "core_env \<Rightarrow> v1_Pod \<Rightarrow> SnapNode \<Rightarrow> SnapNode" where
  "sn_RemovePod E pod sn =
     (case NodeInfo_RemovePod pod (sn_Info sn) of
        (Some e, ni) \<Rightarrow> sn
      | (None, ni) \<Rightarrow> sn\<lparr>sn_Info := ni, sn_Requested := sub_requested (sn_Requested sn) (ce_calculateResource E pod)\<rparr>)"

definition getNodeResource :: "core_env \<Rightarrow> SnapNode \<Rightarrow> string \<Rightarrow> Resource" where
  "getNodeResource E info desiredPodGroupName =
     (let clone = fold (\<lambda>pod c. if GetPodGroupFullName pod \<noteq> desiredPodGroupName then c else sn_RemovePod E pod c)
                    (ni_Pods (sn_Info info)) info;
          allocatable = sn_Allocatable clone;
          requested = sn_Requested clone
      in \<lparr>r_MilliCPU = r_MilliCPU allocatable - r_MilliCPU requested,
          r_Memory = r_Memory allocatable - r_Memory requested,
          r_EphemeralStorage = r_EphemeralStorage allocatable - r_EphemeralStorage requested,
          r_AllowedPodNumber = r_AllowedPodNumber allocatable - of_nat (length (ni_Pods (sn_Info clone))),
          r_ScalarResources = fold (\<lambda>(k, al) m. AList.update k
              (case map_of (r_ScalarResources requested) k of None \<Rightarrow> al | Some rq \<Rightarrow> al - rq) m)
            (r_ScalarResources allocatable) []\<rparr>)"

text \<open>The inner loop of \<^verbatim>\<open>CheckClusterResource\<close>: what is still missing after one node.\<close>

definition missing_after :: "ResourceList \<Rightarrow> ResourceList \<Rightarrow> ResourceList" where
  "missing_after nodeResource req =
     filter (\<lambda>(name, quant). 0 < quant) (map (\<lambda>(name, quant). (name, quant - gm_get 0 nodeResource name)) req)"

text \<open>The result is None when the request is covered, and the gap otherwise.\<close>

fun CheckClusterResource :: "core_env \<Rightarrow> SnapNode option list \<Rightarrow> ResourceList \<Rightarrow> string \<Rightarrow> ResourceList option" where
  "CheckClusterResource E [] req pgName = Some req"
| "CheckClusterResource E (n # nodes) req pgName =
     (case n of
        None \<Rightarrow> CheckClusterResource E nodes req pgName
      | Some info \<Rightarrow>
          if \<not> sn_hasNode info then CheckClusterResource E nodes req pgName
          else (let req = missing_after (util_ResourceList (getNodeResource E info pgName)) req
                in if req = [] then None else CheckClusterResource E nodes req pgName))"

definition core_PreFilter :: "core_env \<Rightarrow> v1_Pod \<Rightarrow> PodGroupManager \<Rightarrow> goerror option \<times> PodGroupManager" where
  "core_PreFilter E pod m =
     (case GetPodGroup E pod of
        (_, None) \<Rightarrow> (None, m)
      | (pgFullName, Some pg) \<Rightarrow>
          if cache_Get (ce_now E) (pm_backedOffPG m) pgFullName
          then (Some (''podGroup '' @ pgFullName @ '' failed recently''), m)
          else (case ce_ListPods E (pod_Namespace pod) (GetPodGroupLabel pod) of
                  Inl e \<Rightarrow> (Some (''podLister list pods failed: '' @ e), m)
                | Inr pods \<Rightarrow>
                    if int (length pods) < sint (pg_MinMember pg)
                    then (Some (''pre-filter pod '' @ pod_Name pod @ '' cannot find enough sibling pods''), m)
                    else (case pg_MinResources pg of
                            None \<Rightarrow> (None, m)
                          | Some minResources \<Rightarrow>
                              if cache_Get (ce_now E) (pm_permittedPG m) pgFullName then (None, m)
                              else (case ce_NodeInfos E of
                                      Inl e \<Rightarrow> (Some e, m)
                                    | Inr nodes \<Rightarrow>
                                        let req = AList.update ResourcePods (NewQuantity (word_of_int (sint (pg_MinMember pg)))) minResources
                                        in (case CheckClusterResource E nodes req pgFullName of
                                              Some gap \<Rightarrow> (Some ''resource gap'', m)
                                            | None \<Rightarrow> (None, m\<lparr>pm_permittedPG :=
                                                cache_Add (ce_now E) (sint (ce_scheduleTimeout E)) pgFullName (pm_permittedPG m)\<rparr>))))))"

definition core_Permit :: "core_env \<Rightarrow> v1_Pod \<Rightarrow> co_state \<Rightarrow> core_Status \<times> co_state" where
  "core_Permit E pod state =
     (case GetPodGroup E pod of
        (pgFullName, pg) \<Rightarrow>
          if pgFullName = '''' then (PodGroupNotSpecified, state)
          else (case pg of
                  None \<Rightarrow> (PodGroupNotFound, state)
                | Some pg \<Rightarrow>
                    let assigned = CalculateAssignedPods E (pg_Name pg) (pg_Namespace pg) in
                    if sint ((of_nat assigned :: i32) + 1) \<ge> sint (pg_MinMember pg) then (PGSuccess, state)
                    else if assigned = 0 then (PGWait, state\<lparr>co_Activate := Some True\<rparr>)
                    else (PGWait, state)))"

section \<open>When the cluster covers a request\<close>

definition node_left :: "core_env \<Rightarrow> string \<Rightarrow> SnapNode \<Rightarrow> string \<Rightarrow> quantity" where
  "node_left E pgName info n = gm_get 0 (util_ResourceList (getNodeResource E info pgName)) n"

definition valid_nodes :: "SnapNode option list \<Rightarrow> SnapNode list" where
  "valid_nodes nodes = filter sn_hasNode (List.map_filter id nodes)"

text \<open>Some non-empty prefix of the nodes has the quantity left.\<close>

definition prefix_covers :: "core_env \<Rightarrow> string \<Rightarrow> SnapNode list \<Rightarrow> string \<Rightarrow> quantity \<Rightarrow> bool" where
  "prefix_covers E pgName ns n q = (\<exists>j \<in> {1..length ns}. q \<le> (\<Sum>v\<leftarrow>take j ns. node_left E pgName v n))"

lemma prefix_covers_Nil [simp]: "\<not> prefix_covers E g [] n q"
  by (simp add: prefix_covers_def)

lemma prefix_covers_Cons:
  "prefix_covers E g (v # ns) n q \<longleftrightarrow> q \<le> node_left E g v n \<or> prefix_covers E g ns n (q - node_left E g v n)"
proof
  assume "prefix_covers E g (v # ns) n q"
  then obtain j where j: "1 \<le> j" "j \<le> Suc (length ns)" "q \<le> (\<Sum>v\<leftarrow>take j (v # ns). node_left E g v n)"
    by (auto simp: prefix_covers_def)
  then obtain i where "j = Suc i" by (cases j) auto
  then show "q \<le> node_left E g v n \<or> prefix_covers E g ns n (q - node_left E g v n)"
    using j by (cases i) (auto simp: prefix_covers_def intro!: bexI [of _ i])
next
  assume "q \<le> node_left E g v n \<or> prefix_covers E g ns n (q - node_left E g v n)"
  then show "prefix_covers E g (v # ns) n q"
  proof
    assume "q \<le> node_left E g v n"
    then show ?thesis by (auto simp: prefix_covers_def intro!: bexI [of _ 1])
  next
    assume "prefix_covers E g ns n (q - node_left E g v n)"
    then obtain j where "1 \<le> j" "j \<le> length ns" "q - node_left E g v n \<le> (\<Sum>v\<leftarrow>take j ns. node_left E g v n)"
      by (auto simp: prefix_covers_def)
    then show ?thesis by (auto simp: prefix_covers_def intro!: bexI [of _ "Suc j"])
  qed
qed

lemma missing_after_set:
  "(n, q) \<in> set (missing_after nr req) \<longleftrightarrow> 0 < q \<and> (n, q + gm_get 0 nr n) \<in> set req"
  by (force simp: missing_after_def image_iff)

lemma missing_after_covers:
  "(\<forall>(n, q) \<in> set req. prefix_covers E g (info # ns) n q) \<longleftrightarrow>
   (\<forall>(n, q) \<in> set (missing_after (util_ResourceList (getNodeResource E info g)) req). prefix_covers E g ns n q)"
    (is "?L \<longleftrightarrow> ?R")
proof
  assume a: ?L
  show ?R
  proof (clarify)
    fix n q assume "(n, q) \<in> set (missing_after (util_ResourceList (getNodeResource E info g)) req)"
    then have "0 < q" "(n, q + node_left E g info n) \<in> set req" by (simp_all add: missing_after_set node_left_def)
    then show "prefix_covers E g ns n q" using a by (force simp: prefix_covers_Cons)
  qed
next
  assume a: ?R
  have "(n, q - node_left E g info n) \<in> set (missing_after (util_ResourceList (getNodeResource E info g)) req)"
    if "(n, q) \<in> set req" "\<not> q \<le> node_left E g info n" for n q
    using that by (simp add: missing_after_set node_left_def)
  then show ?L using a by (force simp: prefix_covers_Cons)
qed

lemma CheckClusterResource_spec:
  "CheckClusterResource E nodes req g = None \<longleftrightarrow>
     valid_nodes nodes \<noteq> [] \<and> (\<forall>(n, q) \<in> set req. prefix_covers E g (valid_nodes nodes) n q)"
proof (induction nodes arbitrary: req)
  case Nil
  then show ?case by (simp add: valid_nodes_def map_filter_def)
next
  case (Cons x nodes)
  show ?case
  proof (cases "\<exists>info. x = Some info \<and> sn_hasNode info")
    case False
    then have "valid_nodes (x # nodes) = valid_nodes nodes" by (auto simp: valid_nodes_def map_filter_def)
    then show ?thesis using False Cons.IH by (cases x) auto
  next
    case True
    then obtain info where x: "x = Some info" "sn_hasNode info" by blast
    let ?m = "missing_after (util_ResourceList (getNodeResource E info g)) req"
    have vn: "valid_nodes (x # nodes) = info # valid_nodes nodes" using x by (simp add: valid_nodes_def map_filter_def)
    show ?thesis
    proof (cases "?m = []")
      case True
      then show ?thesis using x vn missing_after_covers [of req E g info "valid_nodes nodes"] by simp
    next
      case False
      then obtain n q where "(n, q) \<in> set ?m" by (metis list.set_intros(1) neq_Nil_conv surj_pair)
      then have "valid_nodes nodes = [] \<Longrightarrow> \<not> (\<forall>(n, q) \<in> set ?m. prefix_covers E g (valid_nodes nodes) n q)" by force
      then show ?thesis using x vn missing_after_covers [of req E g info "valid_nodes nodes"] False Cons.IH [of ?m] by auto
    qed
  qed
qed

end
