(* ===== verification/Coscheduling.thy ===== *)
theory Coscheduling
  imports Coscheduling_Core
begin

text \<open>
  The Coscheduling plugin, \<^verbatim>\<open>pkg/coscheduling/coscheduling.go\<close>: the order of the scheduling queue,
  and the extension points that keep the pods of a group waiting until enough of them have a
  node.  Calls of Allow and Reject on waiting pods are part of the results.
\<close>

section \<open>Queue order\<close>

text \<open>\<^verbatim>\<open>InitialAttemptTimestamp\<close> is a pointer that is nil until the pod is popped from the queue.\<close>

record QueuedPodInfo =
  qp_Pod :: v1_Pod
  qp_Timestamp :: int
  qp_InitialAttemptTimestamp :: "int option"

definition co_Less :: "core_env \<Rightarrow> QueuedPodInfo \<Rightarrow> QueuedPodInfo \<Rightarrow> bool outcome" where
  "co_Less E podInfo1 podInfo2 =
     (let prio1 = PodPriority (qp_Pod podInfo1); prio2 = PodPriority (qp_Pod podInfo2) in
      if prio1 \<noteq> prio2 then Ret (sint prio1 > sint prio2)
      else (case (qp_InitialAttemptTimestamp podInfo1, qp_InitialAttemptTimestamp podInfo2) of
              (Some ts1, Some ts2) \<Rightarrow>
                let t1 = GetCreationTimestamp E (qp_Pod podInfo1) ts1;
                    t2 = GetCreationTimestamp E (qp_Pod podInfo2) ts2
                in if t1 = t2 then Ret (str_less (GetNamespacedName (qp_Pod podInfo1)) (GetNamespacedName (qp_Pod podInfo2)))
                   else Ret (t1 < t2)
            | _ \<Rightarrow> Panic nil_deref))"

section \<open>Extension points\<close>

definition co_PreFilter :: "core_env \<Rightarrow> v1_Pod \<Rightarrow> PodGroupManager \<Rightarrow> Status \<times> PodGroupManager" where
  "co_PreFilter E pod m =
     (case core_PreFilter E pod m of
        (Some err, m) \<Rightarrow> (NewStatus UnschedulableAndUnresolvable err, m)
      | (None, m) \<Rightarrow> (NewStatus Success '''', m))"

text \<open>
  \<^verbatim>\<open>float32(minMember - assigned) / float32(minMember) <= 0.1\<close>: for groups of less than 2^24 pods both
  conversions are exact and the rounded quotient is at most the rounded 0.1 exactly when the
  quotient is at most 0.1.
\<close>

definition small_gap :: "int \<Rightarrow> int \<Rightarrow> bool" where
  "small_gap minMember assigned = (10 * (minMember - assigned) \<le> minMember)"

text \<open>The result: the status, the manager and the waiting pods that were rejected.\<close>

definition co_PostFilter ::
  "core_env \<Rightarrow> Duration option \<Rightarrow> v1_Pod list \<Rightarrow> v1_Pod \<Rightarrow> PodGroupManager \<Rightarrow> Status \<times> PodGroupManager \<times> v1_Pod list" where
  "co_PostFilter E pgBackoff waiting pod m =
     (case GetPodGroup E pod of
        (_, None) \<Rightarrow> (NewStatus Unschedulable ''can not find pod group'', m, [])
      | (pgName, Some pg) \<Rightarrow>
          let assigned = CalculateAssignedPods E (pg_Name pg) (pod_Namespace pod) in
          if int assigned \<ge> sint (pg_MinMember pg) then (NewStatus Unschedulable '''', m, [])
          else if small_gap (sint (pg_MinMember pg)) (int assigned) then (NewStatus Unschedulable '''', m, [])
          else
            let rejected = filter (\<lambda>p. pod_Namespace p = pod_Namespace pod \<and> GetPodGroupLabel p = pg_Name pg) waiting;
                m = (case pgBackoff of
                       None \<Rightarrow> m
                     | Some backoff \<Rightarrow>
                         (case ce_ListPods E (pod_Namespace pod) (GetPodGroupLabel pod) of
                            Inl e \<Rightarrow> m
                          | Inr pods \<Rightarrow> if int (length pods) \<ge> sint (pg_MinMember pg)
                                        then BackoffPodGroup (ce_now E) pgName backoff m else m))
            in (NewStatus Unschedulable (''PodGroup '' @ pgName @ '' gets rejected due to Pod '' @ pod_Name pod @
                  '' is unschedulable even after PostFilter''), DeletePermittedPodGroup pgName m, rejected))"

text \<open>The result: the status, the time to wait, the cycle state and the waiting pods that were allowed.\<close>

definition co_Permit ::
  "core_env \<Rightarrow> v1_Pod list \<Rightarrow> v1_Pod \<Rightarrow> co_state \<Rightarrow> Status \<times> Duration \<times> co_state \<times> v1_Pod list" where
  "co_Permit E waiting pod state =
     (case core_Permit E pod state of
        (PodGroupNotSpecified, state) \<Rightarrow> (NewStatus Success '''', 0, state, [])
      | (PodGroupNotFound, state) \<Rightarrow> (NewStatus Unschedulable ''PodGroup not found'', 0, state, [])
      | (PGWait, state) \<Rightarrow>
          let wait = GetWaitTimeDuration (snd (GetPodGroup E pod)) (Some (ce_scheduleTimeout E))
          in (NewStatus Wait '''', if wait \<noteq> 0 then wait else ce_scheduleTimeout E, ActivateSiblings E pod state, [])
      | (PGSuccess, state) \<Rightarrow>
          (NewStatus Success '''', 0, state,
           filter (\<lambda>p. GetPodGroupFullName p = GetPodGroupFullName pod) waiting))"

definition co_Unreserve :: "core_env \<Rightarrow> v1_Pod list \<Rightarrow> v1_Pod \<Rightarrow> PodGroupManager \<Rightarrow> PodGroupManager \<times> v1_Pod list" where
  "co_Unreserve E waiting pod m =
     (case GetPodGroup E pod of
        (_, None) \<Rightarrow> (m, [])
      | (pgName, Some pg) \<Rightarrow>
          (DeletePermittedPodGroup pgName m,
           filter (\<lambda>p. pod_Namespace p = pod_Namespace pod \<and> GetPodGroupLabel p = pg_Name pg) waiting))"

section \<open>The order is a strict order\<close>

text \<open>The key by which pods that have been attempted are compared.\<close>

definition qp_key :: "core_env \<Rightarrow> QueuedPodInfo \<Rightarrow> int \<times> int \<times> string" where
  "qp_key E q = (- sint (PodPriority (qp_Pod q)),
     GetCreationTimestamp E (qp_Pod q) (the (qp_InitialAttemptTimestamp q)), GetNamespacedName (qp_Pod q))"

definition key_less :: "int \<times> int \<times> string \<Rightarrow> int \<times> int \<times> string \<Rightarrow> bool" where
  "key_less a b = (fst a < fst b \<or> fst a = fst b \<and> (fst (snd a) < fst (snd b) \<or>
     fst (snd a) = fst (snd b) \<and> str_less (snd (snd a)) (snd (snd b))))"

lemma co_Less_key:
  assumes "qp_InitialAttemptTimestamp p \<noteq> None" "qp_InitialAttemptTimestamp q \<noteq> None"
  shows "co_Less E p q = Ret (key_less (qp_key E p) (qp_key E q))"
  using assms by (auto simp: co_Less_def key_less_def qp_key_def Let_def signed_word_eqI)

lemma key_less_irrefl: "\<not> key_less a a"
  by (simp add: key_less_def)

lemma key_less_trans: "key_less a b \<Longrightarrow> key_less b c \<Longrightarrow> key_less a c"
  unfolding key_less_def using str_less_trans by (elim disjE conjE) auto

lemma key_less_total: "a \<noteq> b \<Longrightarrow> key_less a b \<or> key_less b a"
  unfolding key_less_def using str_less_total [of "snd (snd a)" "snd (snd b)"]
  by (cases a; cases b) auto

section \<open>Backing off\<close>

lemma GetPodGroup_same:
  assumes "pod_Namespace p = pod_Namespace q" "GetPodGroupLabel p = GetPodGroupLabel q"
  shows "GetPodGroup E p = GetPodGroup E q"
  unfolding GetPodGroup_def assms ..

lemma PreFilter_backed_off:
  assumes "GetPodGroup E pod = (g, Some pg)" "cache_Get (ce_now E) (pm_backedOffPG m) g"
  shows "\<exists>e. core_PreFilter E pod m = (Some e, m)"
  using assms by (simp add: core_PreFilter_def)

lemma DeletePermitted_backed_off: "pm_backedOffPG (DeletePermittedPodGroup g m) = pm_backedOffPG m"
  by (simp add: DeletePermittedPodGroup_def)

end
