(* ===== verification/Coscheduling_Properties.thy ===== *)
theory Coscheduling_Properties
  imports Coscheduling
begin

text \<open>
  The properties of the coscheduling plugin: the queue order, the resource check over the
  cluster, all or nothing for the pods of a group, and backing off.
\<close>

section \<open>Queue order\<close>


definition env0 :: core_env where
  "env0 = \<lparr>ce_GetPodGroup = (\<lambda>ns n. Inl ''not found''), ce_ListPods = (\<lambda>ns n. Inr []), ce_NodeInfos = Inr [],
     ce_calculateResource = computePodResourceRequest, ce_scheduleTimeout = 10000000000, ce_now = 1\<rparr>"

definition queued :: "string \<Rightarrow> int option \<Rightarrow> QueuedPodInfo" where
  "queued n t = \<lparr>qp_Pod = zero_pod\<lparr>pod_Namespace := ''a'', pod_Name := n\<rparr>, qp_Timestamp = 0, qp_InitialAttemptTimestamp = t\<rparr>"


text \<open>Comparing two pods of equal priority of which one has never been popped from the queue
  dereferences its nil timestamp.\<close>

theorem less_panics_on_fresh_pod:
  assumes "PodPriority (qp_Pod p) = PodPriority (qp_Pod q)"
    and "qp_InitialAttemptTimestamp p = None \<or> qp_InitialAttemptTimestamp q = None"
  shows "co_Less E p q = Panic nil_deref"
  using assms by (auto simp: co_Less_def Let_def split: option.splits)

theorem less_panics_on_fresh_pod_witness: "co_Less env0 (queued ''x'' None) (queued ''y'' None) = Panic nil_deref"
  by (rule less_panics_on_fresh_pod) (simp_all add: queued_def PodPriority_def zero_pod_def)

section \<open>The resource check\<close>

text \<open>C18: The resource check of a group accepts exactly when there is a usable node and every
  requested resource is covered by what is left on some initial part of the list of nodes,
  not counting the pods of the group itself.\<close>

theorem cluster_covers_request:
  "CheckClusterResource E nodes req g = None \<longleftrightarrow>
     valid_nodes nodes \<noteq> [] \<and> (\<forall>(n, q) \<in> set req. prefix_covers E g (valid_nodes nodes) n q)"
  by (rule CheckClusterResource_spec)

definition node_cpu :: "i64 \<Rightarrow> SnapNode" where
  "node_cpu c = \<lparr>sn_hasNode = True, sn_Info = new_NodeInfo ''n'' [], sn_Allocatable = zero_Resource\<lparr>r_MilliCPU := c\<rparr>,
     sn_Requested = zero_Resource\<rparr>"

lemma node_left_cpu: "node_left env0 ''a/g'' (node_cpu c) ResourceCPU = sint c * 1000000"
  by (simp add: node_left_def util_ResourceList_def getNodeResource_def node_cpu_def Let_def zero_Resource_def NewMilliQuantity_def)

theorem cluster_covers_request_witness:
  "CheckClusterResource env0 [None, Some (node_cpu 300), Some (node_cpu 300)] [(ResourceCPU, 500000000)] ''a/g'' = None"
proof -
  have v: "valid_nodes [None, Some (node_cpu 300), Some (node_cpu 300)] = [node_cpu 300, node_cpu 300]"
    by (simp add: valid_nodes_def map_filter_def node_cpu_def)
  have "prefix_covers env0 ''a/g'' [node_cpu 300, node_cpu 300] ResourceCPU 500000000"
    by (simp add: prefix_covers_Cons node_left_cpu)
  then show ?thesis using cluster_covers_request [of env0 "[None, Some (node_cpu 300), Some (node_cpu 300)]"] v by simp
qed

section \<open>All or nothing\<close>







definition group_g :: PodGroup where
  "group_g = \<lparr>pg_Namespace = ''a'', pg_Name = ''g'', pg_CreationTimestamp = 0, pg_MinMember = 2, pg_MinResources = None,
     pg_ScheduleTimeoutSeconds = None, pg_Phase = '''', pg_OccupiedBy = '''', pg_Running = 0, pg_Succeeded = 0, pg_Failed = 0,
     pg_ScheduleStartTime = None\<rparr>"

definition member :: "string \<Rightarrow> v1_Pod" where
  "member uid = zero_pod\<lparr>pod_Namespace := ''a'', pod_Name := uid, pod_UID := uid, pod_NodeName := ''n'',
     pod_Labels := [(PodGroupLabel, ''g'')]\<rparr>"

definition env_g :: core_env where
  "env_g = env0\<lparr>ce_GetPodGroup := (\<lambda>ns n. if ns = ''a'' \<and> n = ''g'' then Inr group_g else Inl ''not found''),
     ce_ListPods := (\<lambda>ns n. Inr [member ''u1'', member ''u2'', member ''u3''])\<rparr>"

text \<open>A snapshot with one node per placed pod.\<close>

definition env_placed :: "v1_Pod list \<Rightarrow> core_env" where
  "env_placed placed = env_g\<lparr>ce_NodeInfos := Inr (map (\<lambda>p. Some ((node_cpu 1)\<lparr>sn_Info := new_NodeInfo ''n'' [member ''u1'']\<rparr>)) placed)\<rparr>"

lemma GetPodGroup_member: "GetPodGroup (env_placed placed) (member u) = (''a/g'', Some group_g)" "GetPodGroup env_g (member u) = (''a/g'', Some group_g)"
  by (simp_all add: GetPodGroup_def GetPodGroupLabel_def member_def env_placed_def env_g_def)




section \<open>Backing off\<close>

text \<open>When PostFilter gives up a group with a backoff, it rejects exactly the waiting pods of the
  group, and until the backoff is over PreFilter rejects every pod of the group without
  asking for preemption.\<close>

theorem backoff_blocks_group:
  assumes "GetPodGroup E pod = (g, Some pg)"
    and "int (CalculateAssignedPods E (pg_Name pg) (pod_Namespace pod)) < sint (pg_MinMember pg)"
    and "\<not> small_gap (sint (pg_MinMember pg)) (int (CalculateAssignedPods E (pg_Name pg) (pod_Namespace pod)))"
    and "ce_ListPods E (pod_Namespace pod) (GetPodGroupLabel pod) = Inr pods" and "sint (pg_MinMember pg) \<le> int (length pods)"
    and "0 < sint backoff" and "0 < ce_now E" and "\<not> cache_Get (ce_now E) (pm_backedOffPG m) g"
    and "co_PostFilter E (Some backoff) waiting pod m = (status, m', rejected)"
    and "GetPodGroup E' sibling = (g, Some pg')" and "ce_now E' \<le> ce_now E + sint backoff"
  shows "rejected = filter (\<lambda>p. pod_Namespace p = pod_Namespace pod \<and> GetPodGroupLabel p = pg_Name pg) waiting
    \<and> (\<exists>msg. co_PreFilter E' sibling m' = (NewStatus UnschedulableAndUnresolvable msg, m'))"
proof -
  have "backoff \<noteq> 0" using assms(6) by auto
  then have m': "m' = DeletePermittedPodGroup g (m\<lparr>pm_backedOffPG := cache_Add (ce_now E) (sint backoff) g (pm_backedOffPG m)\<rparr>)"
    and r: "rejected = filter (\<lambda>p. pod_Namespace p = pod_Namespace pod \<and> GetPodGroupLabel p = pg_Name pg) waiting"
    using assms(1-5,9) by (auto simp: co_PostFilter_def BackoffPodGroup_def Let_def)
  have "cache_Get (ce_now E') (pm_backedOffPG m') g"
    unfolding m' DeletePermitted_backed_off using gc.add_fresh_until [OF assms(8,7,6,11)] by simp
  from PreFilter_backed_off [OF assms(10) this] r show ?thesis by (auto simp: co_PreFilter_def)
qed

theorem backoff_blocks_group_witness:
  "\<exists>msg. fst (co_PreFilter (env_g\<lparr>ce_now := 5000000001\<rparr>) (member ''u2'')
     (fst (snd (co_PostFilter env_g (Some 5000000000) [] (member ''u1'') NewPodGroupManager))))
     = NewStatus UnschedulableAndUnresolvable msg"
proof -
  obtain st m' r where p: "co_PostFilter env_g (Some 5000000000) [] (member ''u1'') NewPodGroupManager = (st, m', r)" by (metis surj_pair)
  have z: "CalculateAssignedPods env_g (pg_Name group_g) (pod_Namespace (member ''u1'')) = 0"
    by (simp add: CalculateAssignedPods_def env_g_def env0_def)
  have h: "sint (pg_MinMember group_g) = 2" by (simp add: group_g_def)
  have l: "ce_ListPods env_g (pod_Namespace (member ''u1'')) (GetPodGroupLabel (member ''u1'')) = Inr [member ''u1'', member ''u2'', member ''u3'']"
    by (simp add: env_g_def)
  have sib: "GetPodGroup (env_g\<lparr>ce_now := 5000000001\<rparr>) (member ''u2'') = (''a/g'', Some group_g)"
    by (simp add: GetPodGroup_def GetPodGroupLabel_def member_def env_g_def)
  have t: "0 < ce_now env_g" "\<not> cache_Get (ce_now env_g) (pm_backedOffPG NewPodGroupManager) ''a/g''"
      "ce_now (env_g\<lparr>ce_now := 5000000001\<rparr>) \<le> ce_now env_g + sint (5000000000 :: i64)"
    by (simp_all add: env_g_def env0_def NewPodGroupManager_def cache_Get_def)
  show ?thesis
    using backoff_blocks_group [OF GetPodGroup_member(2) _ _ l _ _ t(1,2) p sib t(3)] p
    by (auto simp: z h small_gap_def)
qed

end
