(* ===== verification/Pod_Group_Controller.thy ===== *)
theory Pod_Group_Controller
  imports Pod_Groups
begin

text \<open>
  The controller of pod groups, \<^verbatim>\<open>pkg/controllers/podgroup_controller.go\<close>: one reconciliation reads
  a group and the pods that carry its label, computes the next status and patches it.

  The Kubernetes client of the controller is a parameter, the record \<open>pg_client\<close>, over an
  abstract world.  The locale \<open>podgroup_api\<close> states what the API server promises: a successful
  status patch is what the next read of that group returns, and patching a group leaves the
  pods alone.  Counters are 32-bit words.  Log output is left out.
\<close>

section \<open>The client\<close>

record 'w pg_client =
  pgc_Get :: "string \<Rightarrow> string \<Rightarrow> 'w \<Rightarrow> goerror + PodGroup"
  pgc_IsNotFound :: "goerror \<Rightarrow> bool"
  pgc_List :: "string \<Rightarrow> string \<Rightarrow> 'w \<Rightarrow> goerror + v1_Pod list"
  pgc_StatusPatch :: "PodGroup \<Rightarrow> PodGroup \<Rightarrow> 'w \<Rightarrow> goerror option \<times> 'w"
  pgc_Patch :: "PodGroup \<Rightarrow> PodGroup \<Rightarrow> 'w \<Rightarrow> goerror option \<times> 'w"
  pgc_Event :: "PodGroup \<Rightarrow> string \<Rightarrow> string \<Rightarrow> 'w \<Rightarrow> 'w"

section \<open>Helpers\<close>

fun pod_stats :: "v1_Pod list \<Rightarrow> i32 \<times> i32 \<times> i32 \<Rightarrow> i32 \<times> i32 \<times> i32" where
  "pod_stats [] (running, succeeded, failed) = (running, succeeded, failed)"
| "pod_stats (pod # pods) (running, succeeded, failed) =
     pod_stats pods
       (if pod_Phase pod = ''Running'' then (running + 1, succeeded, failed)
        else if pod_Phase pod = ''Succeeded'' then (running, succeeded + 1, failed)
        else if pod_Phase pod = ''Failed'' then (running, succeeded, failed + 1)
        else (running, succeeded, failed))"

definition getCurrentPodStats :: "v1_Pod list \<Rightarrow> i32 \<times> i32 \<times> i32" where
  "getCurrentPodStats pods = (if pods = [] then (0, 0, 0) else pod_stats pods (0, 0, 0))"

fun strings_Join :: "string list \<Rightarrow> string \<Rightarrow> string" where
  "strings_Join [] sep = ''''"
| "strings_Join [x] sep = x"
| "strings_Join (x # y # ys) sep = x @ sep @ strings_Join (y # ys) sep"

fun insert_string :: "string \<Rightarrow> string list \<Rightarrow> string list" where
  "insert_string x [] = [x]"
| "insert_string x (y # ys) = (if str_less y x then y # insert_string x ys else x # y # ys)"

definition sort_Strings :: "string list \<Rightarrow> string list" where
  "sort_Strings xs = foldr insert_string xs []"

definition fillOccupiedObj :: "PodGroup \<Rightarrow> v1_Pod \<Rightarrow> PodGroup" where
  "fillOccupiedObj pg pod =
     (if pod_OwnerReferences pod = [] then pg
      else let refs = map (\<lambda>o'. pod_Namespace pod @ ''/'' @ or_Name o') (pod_OwnerReferences pod)
           in if refs = [] then pg else pg\<lparr>pg_OccupiedBy := strings_Join (sort_Strings refs) '',''\<rparr>)"

text \<open>The zero time of Go is the start of the year 1, in nanoseconds relative to 1970.\<close>

definition time_value :: "int option \<Rightarrow> int" where
  "time_value t = (case t of None \<Rightarrow> - 62135596800000000000 | Some t \<Rightarrow> t)"

section \<open>Reconcile\<close>

text \<open>The switch over the phase of the copy.\<close>

definition next_status :: "PodGroup \<Rightarrow> v1_Pod list \<Rightarrow> PodGroup outcome" where
  "next_status pg pods =
     (if pg_Phase pg = '''' then Ret (pg\<lparr>pg_Phase := ''Pending''\<rparr>)
      else if pg_Phase pg = ''Pending'' then
        (if int (length pods) \<ge> sint (pg_MinMember pg)
         then (case pods of
                 [] \<Rightarrow> Panic index_out_of_range
               | pod # _ \<Rightarrow> Ret (fillOccupiedObj (pg\<lparr>pg_Phase := ''Scheduling''\<rparr>) pod))
         else Ret pg)
      else
        (case getCurrentPodStats pods of (running, succeeded, failed) \<Rightarrow>
           let c = pg\<lparr>pg_Running := running, pg_Succeeded := succeeded, pg_Failed := failed\<rparr>;
               minMember = sint (pg_MinMember pg)
           in if int (length pods) < minMember then Ret (c\<lparr>pg_Phase := ''Pending''\<rparr>)
              else let c = (if sint (succeeded + running) < minMember then c\<lparr>pg_Phase := ''Scheduling''\<rparr> else c);
                       c = (if sint (succeeded + running) \<ge> minMember then c\<lparr>pg_Phase := ''Running''\<rparr> else c);
                       c = (if failed \<noteq> 0 \<and> sint (failed + running + succeeded) \<ge> minMember
                            then c\<lparr>pg_Phase := ''Failed''\<rparr> else c);
                       c = (if sint succeeded \<ge> minMember then c\<lparr>pg_Phase := ''Finished''\<rparr> else c)
                   in Ret c))"

definition patchPodGroup :: "'w pg_client \<Rightarrow> PodGroup \<Rightarrow> PodGroup \<Rightarrow> 'w \<Rightarrow> goerror option \<times> 'w" where
  "patchPodGroup C old new w =
     (case pgc_StatusPatch C old new w of
        (Some err, w1) \<Rightarrow> (Some err, w1)
      | (None, w1) \<Rightarrow> pgc_Patch C old new w1)"

definition pg_timed_out :: "PodGroup \<Rightarrow> bool" where
  "pg_timed_out pg =
     ((pg_Phase pg = ''Scheduling'' \<or> pg_Phase pg = ''Pending'') \<and> pg_Running pg = 0
      \<and> time_value (pg_ScheduleStartTime pg) - pg_CreationTimestamp pg > 48 * 3600 * 1000000000)"

definition pg_Reconcile :: "'w pg_client \<Rightarrow> string \<Rightarrow> string \<Rightarrow> 'w \<Rightarrow> goerror option outcome \<times> 'w" where
  "pg_Reconcile C ns name w =
     (case pgc_Get C ns name w of
        Inl err \<Rightarrow> if pgc_IsNotFound C err then (Ret None, w) else (Ret (Some err), w)
      | Inr pg \<Rightarrow>
          if pg_Phase pg = ''Finished'' \<or> pg_Phase pg = ''Failed'' then (Ret None, w)
          else if pg_timed_out pg
            then (Ret None, pgc_Event C pg ''Timeout'' ''schedule time longer than 48 hours'' w)
          else (case pgc_List C PodGroupLabel (pg_Name pg) w of
                  Inl err \<Rightarrow> (Ret (Some err), w)
                | Inr pods \<Rightarrow>
                    (case next_status pg pods of
                       Panic m \<Rightarrow> (Panic m, w)
                     | Ret pgCopy \<Rightarrow> (case patchPodGroup C pg pgCopy w of (err, w1) \<Rightarrow> (Ret err, w1)))))"

text \<open>The pods that change a group are mapped to a request for it.\<close>

definition podToPodGroup :: "v1_Pod option \<Rightarrow> (string \<times> string) list" where
  "podToPodGroup obj =
     (case obj of
        None \<Rightarrow> []
      | Some pod \<Rightarrow>
          let pgName = GetPodGroupLabel pod in
          if pgName = '''' then [] else [(pod_Namespace pod, pgName)])"

section \<open>Counting\<close>

definition count_phase :: "string \<Rightarrow> v1_Pod list \<Rightarrow> nat" where
  "count_phase ph pods = length (filter (\<lambda>p. pod_Phase p = ph) pods)"

lemma pod_stats_count:
  "pod_stats pods (r, s, f) = (r + of_nat (count_phase ''Running'' pods), s + of_nat (count_phase ''Succeeded'' pods),
     f + of_nat (count_phase ''Failed'' pods))"
  by (induction pods arbitrary: r s f) (simp_all add: count_phase_def algebra_simps)

lemma getCurrentPodStats_count:
  "getCurrentPodStats pods = (of_nat (count_phase ''Running'' pods), of_nat (count_phase ''Succeeded'' pods),
     of_nat (count_phase ''Failed'' pods))"
  by (simp add: getCurrentPodStats_def pod_stats_count count_phase_def)

lemma count_phases_le: "count_phase ''Failed'' pods + count_phase ''Running'' pods + count_phase ''Succeeded'' pods \<le> length pods"
  by (induction pods) (auto simp: count_phase_def)

lemma sint_of_nat32: "n < 2 ^ 31 \<Longrightarrow> sint (of_nat n :: i32) = int n"
  using sint_sbintrunc' [where 'a = 32, of "int n"] by (simp add: signed_take_bit_int_eq_self)

text \<open>The phase that the pods of a group call for, over unbounded numbers.\<close>

definition group_phase :: "int \<Rightarrow> v1_Pod list \<Rightarrow> string" where
  "group_phase minMember pods =
     (if int (length pods) < minMember then ''Pending''
      else if int (count_phase ''Succeeded'' pods) \<ge> minMember then ''Finished''
      else if count_phase ''Failed'' pods \<noteq> 0
           \<and> int (count_phase ''Failed'' pods + count_phase ''Running'' pods + count_phase ''Succeeded'' pods) \<ge> minMember
        then ''Failed''
      else if int (count_phase ''Succeeded'' pods + count_phase ''Running'' pods) \<ge> minMember then ''Running''
      else ''Scheduling'')"

definition counted :: "v1_Pod list \<Rightarrow> PodGroup \<Rightarrow> PodGroup" where
  "counted pods pg = pg\<lparr>pg_Running := of_nat (count_phase ''Running'' pods),
     pg_Succeeded := of_nat (count_phase ''Succeeded'' pods), pg_Failed := of_nat (count_phase ''Failed'' pods)\<rparr>"

lemma next_status_default:
  assumes "pg_Phase pg \<noteq> ''''" and "pg_Phase pg \<noteq> ''Pending''" and "length pods < 2 ^ 31"
  shows "next_status pg pods = Ret ((counted pods pg)\<lparr>pg_Phase := group_phase (sint (pg_MinMember pg)) pods\<rparr>)"
proof -
  let ?r = "count_phase ''Running'' pods" and ?s = "count_phase ''Succeeded'' pods" and ?f = "count_phase ''Failed'' pods"
  have b: "?f + ?r + ?s < 2 ^ 31" using count_phases_le [of pods] assms(3) by simp
  have "sint (of_nat ?s + of_nat ?r :: i32) = int (?s + ?r)" "sint (of_nat ?f + of_nat ?r + of_nat ?s :: i32) = int (?f + ?r + ?s)"
    "sint (of_nat ?s :: i32) = int ?s"
    using b sint_of_nat32 [of "?s + ?r"] sint_of_nat32 [of "?f + ?r + ?s"] sint_of_nat32 [of ?s] by simp_all
  moreover have "(of_nat ?f :: i32) = 0 \<longleftrightarrow> ?f = 0" using sint_of_nat32 [of ?f] b by auto
  ultimately show ?thesis
    using assms(1,2) by (simp add: next_status_def getCurrentPodStats_count Let_def counted_def group_phase_def)
qed

section \<open>The API server\<close>

definition pg_key :: "PodGroup \<Rightarrow> string \<times> string" where
  "pg_key pg = (pg_Namespace pg, pg_Name pg)"

definition same_spec :: "PodGroup \<Rightarrow> PodGroup \<Rightarrow> bool" where
  "same_spec a b = (pg_key a = pg_key b \<and> pg_CreationTimestamp a = pg_CreationTimestamp b
     \<and> pg_MinMember a = pg_MinMember b \<and> pg_MinResources a = pg_MinResources b
     \<and> pg_ScheduleTimeoutSeconds a = pg_ScheduleTimeoutSeconds b)"

lemma fillOccupiedObj_sel [simp]:
  "pg_Namespace (fillOccupiedObj g p) = pg_Namespace g" "pg_Name (fillOccupiedObj g p) = pg_Name g"
  "pg_CreationTimestamp (fillOccupiedObj g p) = pg_CreationTimestamp g" "pg_MinMember (fillOccupiedObj g p) = pg_MinMember g"
  "pg_MinResources (fillOccupiedObj g p) = pg_MinResources g" "pg_Phase (fillOccupiedObj g p) = pg_Phase g"
  "pg_ScheduleTimeoutSeconds (fillOccupiedObj g p) = pg_ScheduleTimeoutSeconds g" "pg_Running (fillOccupiedObj g p) = pg_Running g"
  "pg_ScheduleStartTime (fillOccupiedObj g p) = pg_ScheduleStartTime g"
  by (simp_all add: fillOccupiedObj_def Let_def)

lemma next_status_same_spec: "next_status pg pods = Ret pg' \<Longrightarrow> same_spec pg pg' \<and> pg_ScheduleStartTime pg' = pg_ScheduleStartTime pg"
  by (auto simp: next_status_def same_spec_def pg_key_def Let_def split: if_splits list.splits prod.splits)

text \<open>Reconciling again and again; an error is retried, a panic ends the controller.\<close>

fun pg_reconciles :: "'w pg_client \<Rightarrow> string \<Rightarrow> string \<Rightarrow> nat \<Rightarrow> 'w \<Rightarrow> 'w outcome" where
  "pg_reconciles C ns name 0 w = Ret w"
| "pg_reconciles C ns name (Suc k) w =
     (case pg_Reconcile C ns name w of
        (Panic m, w1) \<Rightarrow> Panic m
      | (Ret err, w1) \<Rightarrow> pg_reconciles C ns name k w1)"

definition pg_done :: "PodGroup \<Rightarrow> bool" where
  "pg_done pg = (pg_Phase pg = ''Finished'' \<or> pg_Phase pg = ''Failed'')"

text \<open>The status a new group ends with when its pods no longer change.\<close>

definition settled :: "v1_Pod list \<Rightarrow> PodGroup \<Rightarrow> PodGroup" where
  "settled pods pg =
     (if int (length pods) < sint (pg_MinMember pg) then pg\<lparr>pg_Phase := ''Pending''\<rparr>
      else (counted pods (fillOccupiedObj pg (hd pods)))\<lparr>pg_Phase := group_phase (sint (pg_MinMember pg)) pods\<rparr>)"

lemma settled_sel: "pg_MinMember (settled pods pg) = pg_MinMember pg" "pg_ScheduleStartTime (settled pods pg) = pg_ScheduleStartTime pg"
  "pg_CreationTimestamp (settled pods pg) = pg_CreationTimestamp pg"
  by (simp_all add: settled_def counted_def)

lemma not_timed_out: "pg_ScheduleStartTime pg = None \<Longrightarrow> 0 \<le> pg_CreationTimestamp pg \<Longrightarrow> \<not> pg_timed_out pg"
  by (simp add: pg_timed_out_def time_value_def)

lemma counted_idem: "counted pods (counted pods pg\<lparr>pg_Phase := ph\<rparr>) = counted pods pg\<lparr>pg_Phase := ph\<rparr>"
  by (simp add: counted_def)

lemma settled_fixed:
  assumes "length pods < 2 ^ 31"
  shows "pg_done (settled pods pg) \<or> next_status (settled pods pg) pods = Ret (settled pods pg)"
proof (cases "int (length pods) < sint (pg_MinMember pg)")
  case True
  then show ?thesis by (simp add: settled_def next_status_def)
next
  case False
  let ?g = "settled pods pg"
  have ph: "pg_Phase ?g = group_phase (sint (pg_MinMember pg)) pods" using False by (simp add: settled_def)
  have "pg_Phase ?g \<noteq> ''''" "pg_Phase ?g \<noteq> ''Pending''" using False by (simp_all add: ph group_phase_def)
  from next_status_default [OF this assms] show ?thesis
    using False by (simp add: settled_sel) (simp add: settled_def counted_def)
qed

locale podgroup_api =
  fixes C :: "'w pg_client" and groups :: "'w \<Rightarrow> string \<times> string \<Rightarrow> PodGroup option"
    and labelled :: "'w \<Rightarrow> string \<Rightarrow> v1_Pod list"
  assumes get_group: "groups w (ns, n) = Some pg \<Longrightarrow> pgc_Get C ns n w = Inr pg \<and> pg_key pg = (ns, n)"
    and list_pods: "pgc_List C PodGroupLabel n w = Inr (labelled w n)"
    and status_patch: "groups w (pg_key old) = Some old \<Longrightarrow> same_spec old new \<Longrightarrow>
      \<exists>w'. pgc_StatusPatch C old new w = (None, w') \<and> groups w' = (groups w)(pg_key old \<mapsto> new) \<and> labelled w' = labelled w"
    and patch: "same_spec old new \<Longrightarrow>
      \<exists>w'. pgc_Patch C old new w = (None, w') \<and> groups w' = groups w \<and> labelled w' = labelled w"
begin

lemma reconcile_step:
  assumes "groups w (ns, n) = Some pg" "\<not> pg_done pg" "\<not> pg_timed_out pg" "next_status pg (labelled w n) = Ret pg'"
  shows "\<exists>w'. pg_Reconcile C ns n w = (Ret None, w') \<and> groups w' = (groups w)((ns, n) \<mapsto> pg') \<and> labelled w' = labelled w"
proof -
  have g: "pgc_Get C ns n w = Inr pg" "pg_key pg = (ns, n)" using get_group [OF assms(1)] by simp_all
  have spec: "same_spec pg pg'" using next_status_same_spec [OF assms(4)] by simp
  obtain w1 where w1: "pgc_StatusPatch C pg pg' w = (None, w1)" "groups w1 = (groups w)(pg_key pg \<mapsto> pg')" "labelled w1 = labelled w"
    using status_patch [of w pg pg'] assms(1) g(2) spec by auto
  obtain w2 where w2: "pgc_Patch C pg pg' w1 = (None, w2)" "groups w2 = groups w1" "labelled w2 = labelled w1"
    using patch [OF spec, of w1] by auto
  have "pg_Name pg = n" using g(2) by (simp add: pg_key_def)
  then show ?thesis using assms g w1 w2 list_pods
    by (simp add: pg_Reconcile_def pg_done_def patchPodGroup_def)
qed

lemma reconcile_done: "groups w (ns, n) = Some pg \<Longrightarrow> pg_done pg \<Longrightarrow> pg_Reconcile C ns n w = (Ret None, w)"
  using get_group [of w ns n pg] by (simp add: pg_Reconcile_def pg_done_def)

lemma reconciles_fixed:
  assumes "groups w (ns, n) = Some pg" "\<not> pg_timed_out pg" "pg_done pg \<or> next_status pg (labelled w n) = Ret pg"
  shows "\<exists>w'. pg_reconciles C ns n k w = Ret w' \<and> groups w' = groups w \<and> labelled w' = labelled w"
  using assms
proof (induction k arbitrary: w)
  case (Suc k)
  have "\<exists>w1. pg_Reconcile C ns n w = (Ret None, w1) \<and> groups w1 = groups w \<and> labelled w1 = labelled w"
  proof (cases "pg_done pg")
    case True
    then show ?thesis using reconcile_done [OF Suc.prems(1)] by auto
  next
    case False
    then show ?thesis using reconcile_step [OF Suc.prems(1) False Suc.prems(2)] Suc.prems(1,3) by (metis fun_upd_triv)
  qed
  then obtain w1 where w1: "pg_Reconcile C ns n w = (Ret None, w1)" "groups w1 = groups w" "labelled w1 = labelled w" by blast
  then show ?case using Suc.IH [of w1] Suc.prems by auto
qed simp

lemma reconciles_settle:
  assumes "groups w (ns, n) = Some pg" "pg_Phase pg = ''''" "pg_ScheduleStartTime pg = None" "0 \<le> pg_CreationTimestamp pg"
    and "0 < sint (pg_MinMember pg)" "length (labelled w n) < 2 ^ 31"
  shows "\<exists>w'. pg_reconciles C ns n (3 + k) w = Ret w' \<and> groups w' = (groups w)((ns, n) \<mapsto> settled (labelled w n) pg)
    \<and> labelled w' = labelled w"
proof -
  let ?p = "labelled w n" and ?g1 = "pg\<lparr>pg_Phase := ''Pending''\<rparr>"
  let ?g2 = "fillOccupiedObj (pg\<lparr>pg_Phase := ''Scheduling''\<rparr>) (hd ?p)" and ?gs = "settled ?p pg"
  have fresh: "\<not> pg_done pg" "\<not> pg_timed_out pg" "next_status pg ?p = Ret ?g1"
    using assms(2,3,4) by (auto simp: pg_done_def pg_timed_out_def next_status_def)
  obtain w1 where w1: "pg_Reconcile C ns n w = (Ret None, w1)" "groups w1 = (groups w)((ns, n) \<mapsto> ?g1)" "labelled w1 = labelled w"
    using reconcile_step [OF assms(1) fresh] by auto
  have t: "\<not> pg_timed_out g" if "pg_ScheduleStartTime g = pg_ScheduleStartTime pg" "pg_CreationTimestamp g = pg_CreationTimestamp pg" for g
    using that assms(3,4) not_timed_out by simp
  have ts: "\<not> pg_timed_out ?gs" by (rule t) (simp_all add: settled_sel)
  show ?thesis
  proof (cases "int (length ?p) < sint (pg_MinMember pg)")
    case True
    then have g1: "?g1 = ?gs" by (simp add: settled_def)
    then have "groups w1 (ns, n) = Some ?gs" using w1(2) by simp
    from reconciles_fixed [OF this ts, of "2 + k"] show ?thesis
      using settled_fixed [OF assms(6)] w1 g1 by (simp add: numeral_3_eq_3 numeral_2_eq_2)
  next
    case False
    then have "?p \<noteq> []" using assms(5) by auto
    then have n1: "next_status ?g1 (labelled w1 n) = Ret ?g2"
      using False w1(3) by (simp add: next_status_def split: list.splits)
    have "groups w1 (ns, n) = Some ?g1" using w1(2) by simp
    from reconcile_step [OF this _ t n1] obtain w2 where
      w2: "pg_Reconcile C ns n w1 = (Ret None, w2)" "groups w2 = (groups w1)((ns, n) \<mapsto> ?g2)" "labelled w2 = labelled w1"
      by (auto simp: pg_done_def)
    have "next_status ?g2 (labelled w2 n) = Ret ?gs"
      using next_status_default [of ?g2 ?p] False assms(6) w1(3) w2(3)
      by (simp add: settled_def) (simp add: counted_def fillOccupiedObj_def Let_def)
    moreover have "groups w2 (ns, n) = Some ?g2" using w2(2) by simp
    ultimately obtain w3 where
      w3: "pg_Reconcile C ns n w2 = (Ret None, w3)" "groups w3 = (groups w2)((ns, n) \<mapsto> ?gs)" "labelled w3 = labelled w2"
      using reconcile_step [of w2 ns n ?g2 ?gs] t [of ?g2] by (auto simp: pg_done_def)
    have "groups w3 (ns, n) = Some ?gs" using w3(2) by simp
    from reconciles_fixed [OF this ts, of k] show ?thesis
      using settled_fixed [OF assms(6)] w1 w2 w3 by (simp add: numeral_3_eq_3)
  qed
qed

end

section \<open>A store of groups and pods\<close>

record pg_store =
  st_Groups :: "(string \<times> string, PodGroup) gomap"
  st_Pods :: "v1_Pod list"
  st_Events :: "string list"

definition st_group :: "pg_store \<Rightarrow> string \<times> string \<Rightarrow> PodGroup option" where
  "st_group w k = (case map_of (st_Groups w) k of None \<Rightarrow> None | Some pg \<Rightarrow> if pg_key pg = k then Some pg else None)"

definition st_labelled :: "pg_store \<Rightarrow> string \<Rightarrow> v1_Pod list" where
  "st_labelled w n = filter (\<lambda>p. map_of (pod_Labels p) PodGroupLabel = Some n) (st_Pods w)"

definition store_client :: "pg_store pg_client" where
  "store_client =
     \<lparr>pgc_Get = (\<lambda>ns n w. case st_group w (ns, n) of None \<Rightarrow> Inl ''not found'' | Some pg \<Rightarrow> Inr pg),
      pgc_IsNotFound = (\<lambda>e. e = ''not found''),
      pgc_List = (\<lambda>k v w. Inr (filter (\<lambda>p. map_of (pod_Labels p) k = Some v) (st_Pods w))),
      pgc_StatusPatch = (\<lambda>old new w.
        if st_group w (pg_key old) = Some old \<and> same_spec old new
        then (None, w\<lparr>st_Groups := AList.update (pg_key old) new (st_Groups w)\<rparr>) else (Some ''conflict'', w)),
      pgc_Patch = (\<lambda>old new w. if same_spec old new then (None, w) else (Some ''unsupported'', w)),
      pgc_Event = (\<lambda>pg r m w. w\<lparr>st_Events := r # st_Events w\<rparr>)\<rparr>"

interpretation pgs: podgroup_api store_client st_group st_labelled
  by unfold_locales
     (auto simp: store_client_def st_group_def st_labelled_def same_spec_def fun_eq_iff split: option.splits if_splits)

end
