(* ===== verification/Elastic_Quota_Controller.thy ===== *)
theory Elastic_Quota_Controller
  imports Capacity_Scheduling
begin

text \<open>
  The controller of elastic quotas, \<^verbatim>\<open>pkg/controllers/elasticquota_controller.go\<close>: it writes the
  total request of the running pods of a namespace to the status of the quota there.  The
  arithmetic on resource lists is that of the vendored \<^verbatim>\<open>apiserver/pkg/quota/v1\<close>; quantities do
  not wrap.  The Kubernetes client is the parameter \<open>eq_client\<close>.  Log output is left out.

  The result of \<^verbatim>\<open>quota.Add\<close> and \<^verbatim>\<open>quota.Max\<close> is built key by key in the order the maps are
  ranged over; every key is written once, so the writes extend the list.
\<close>

section \<open>Resource lists\<close>

definition quota_Add :: "ResourceList \<Rightarrow> ResourceList \<Rightarrow> ResourceList" where
  "quota_Add a b =
     map (\<lambda>(key, value). (key, case map_of b key of Some other \<Rightarrow> value + other | None \<Rightarrow> value)) a
     @ filter (\<lambda>(key, value). \<not> gm_has a key) b"

definition quota_Max :: "ResourceList \<Rightarrow> ResourceList \<Rightarrow> ResourceList" where
  "quota_Max a b =
     map (\<lambda>(key, value). (key, case map_of b key of
             Some other \<Rightarrow> if value \<le> other then other else value | None \<Rightarrow> value)) a
     @ filter (\<lambda>(key, value). \<not> gm_has a key) b"

definition quota_ResourceNames :: "ResourceList \<Rightarrow> string list" where
  "quota_ResourceNames resources = map fst resources"

text \<open>
  \<^verbatim>\<open>apiequality.Semantic.DeepEqual\<close> on two resource lists: the same keys with quantities of the
  same value; a nil map equals an empty one.
\<close>

definition rl_DeepEqual :: "ResourceList \<Rightarrow> ResourceList \<Rightarrow> bool" where
  "rl_DeepEqual a b = list_all (\<lambda>(k, v). map_of a k = map_of b k) (a @ b)"

section \<open>The controller\<close>

record ElasticQuotaObject = ElasticQuota +
  eqo_Name :: string
  eqo_Used :: ResourceList

record 'w eq_client =
  eqc_List :: "string \<Rightarrow> 'w \<Rightarrow> goerror + ElasticQuotaObject list"
  eqc_IsNotFound :: "goerror \<Rightarrow> bool"
  eqc_ListPods :: "string \<Rightarrow> 'w \<Rightarrow> goerror + v1_Pod list"
  eqc_StatusPatch :: "ElasticQuotaObject \<Rightarrow> ElasticQuotaObject \<Rightarrow> 'w \<Rightarrow> goerror option \<times> 'w"
  eqc_Event :: "ElasticQuotaObject \<Rightarrow> string \<Rightarrow> string \<Rightarrow> 'w \<Rightarrow> 'w"

definition newZeroUsed :: "ElasticQuotaObject \<Rightarrow> ResourceList" where
  "newZeroUsed eq =
     (let minResources = quota_ResourceNames (case eqo_Min eq of None \<Rightarrow> [] | Some m \<Rightarrow> m);
          maxResources = quota_ResourceNames (case eqo_Max eq of None \<Rightarrow> [] | Some m \<Rightarrow> m);
          res = fold (\<lambda>v res. AList.update v (NewQuantity 0) res) minResources []
      in fold (\<lambda>v res. AList.update v (NewQuantity 0) res) maxResources res)"

text \<open>The sum with the overhead is computed and dropped.\<close>

definition eqc_computePodResourceRequest :: "v1_Pod \<Rightarrow> ResourceList" where
  "eqc_computePodResourceRequest pod =
     (let result = fold (\<lambda>c r. quota_Add r (c_Requests c)) (pod_Containers pod) [];
          initRes = fold (\<lambda>c r. quota_Max r (c_Requests c)) (pod_InitContainers pod) [];
          _ = (case pod_Overhead pod of None \<Rightarrow> [] | Some o' \<Rightarrow> quota_Add result o')
      in quota_Max result initRes)"

definition computeElasticQuotaUsed :: "'w eq_client \<Rightarrow> string \<Rightarrow> ElasticQuotaObject \<Rightarrow> 'w \<Rightarrow> goerror + ResourceList" where
  "computeElasticQuotaUsed C namespace eq w =
     (let used = newZeroUsed eq in
      case eqc_ListPods C namespace w of
        Inl err \<Rightarrow> Inl err
      | Inr pods \<Rightarrow>
          Inr (fold (\<lambda>p used. if pod_Phase p = ''Running'' then quota_Add used (eqc_computePodResourceRequest p) else used) pods used))"

definition patchElasticQuota :: "'w eq_client \<Rightarrow> ElasticQuotaObject \<Rightarrow> ElasticQuotaObject \<Rightarrow> 'w \<Rightarrow> goerror option \<times> 'w" where
  "patchElasticQuota C old new w = eqc_StatusPatch C old new w"

definition eq_Reconcile :: "'w eq_client \<Rightarrow> string \<Rightarrow> string \<Rightarrow> 'w \<Rightarrow> goerror option \<times> 'w" where
  "eq_Reconcile C ns name w =
     (case eqc_List C ns w of
        Inl err \<Rightarrow> if eqc_IsNotFound C err then (None, w) else (Some err, w)
      | Inr [] \<Rightarrow> (None, w)
      | Inr (eq # _) \<Rightarrow>
          (case computeElasticQuotaUsed C ns eq w of
             Inl err \<Rightarrow> (Some err, w)
           | Inr used \<Rightarrow>
               if rl_DeepEqual used (eqo_Used eq) then (None, w)
               else (case patchElasticQuota C eq (eq\<lparr>eqo_Used := used\<rparr>) w of
                       (Some err, w1) \<Rightarrow> (Some err, w1)
                     | (None, w1) \<Rightarrow> (None, eqc_Event C eq ''Synced''
                         (''Elastic Quota '' @ ns @ ''/'' @ name @ '' synced successfully'') w1))))"

section \<open>Amounts\<close>

abbreviation amount :: "ResourceList \<Rightarrow> string \<Rightarrow> quantity" where
  "amount rl n \<equiv> gm_get 0 rl n"

definition nonneg_rl :: "ResourceList \<Rightarrow> bool" where
  "nonneg_rl rl = list_all (\<lambda>(k, v). 0 \<le> v) rl"

lemma map_of_map_snd: "map_of (map (\<lambda>(k, v). (k, f k v)) a) k = map_option (f k) (map_of a k)"
  by (induction a) auto

lemma map_of_filter_keys: "map_of (filter (\<lambda>(k, v). P k) b) k = (if P k then map_of b k else None)"
  by (induction b) auto

lemma map_of_quota_Add:
  "map_of (quota_Add a b) k = (case map_of a k of
     Some x \<Rightarrow> Some (x + (case map_of b k of Some y \<Rightarrow> y | None \<Rightarrow> 0)) | None \<Rightarrow> map_of b k)"
  by (auto simp: quota_Add_def map_add_def map_of_map_snd map_of_filter_keys gm_has_map_of split: option.splits)

lemma map_of_quota_Max:
  "map_of (quota_Max a b) k = (case map_of a k of
     Some x \<Rightarrow> Some (case map_of b k of Some y \<Rightarrow> max x y | None \<Rightarrow> x) | None \<Rightarrow> map_of b k)"
  by (auto simp: quota_Max_def map_add_def map_of_map_snd map_of_filter_keys gm_has_map_of max_def split: option.splits)

lemma amount_quota_Add [simp]: "amount (quota_Add a b) k = amount a k + amount b k"
  by (simp add: gm_get_def map_of_quota_Add split: option.splits)

lemma nonneg_amount: "nonneg_rl a \<Longrightarrow> 0 \<le> amount a k"
  by (induction a) (auto simp: nonneg_rl_def)

lemma nonneg_quota_Add: "nonneg_rl a \<Longrightarrow> nonneg_rl b \<Longrightarrow> nonneg_rl (quota_Add a b)"
  using nonneg_amount [of b] by (fastforce simp: nonneg_rl_def quota_Add_def list_all_iff split: option.splits dest: map_of_SomeD)

lemma nonneg_quota_Max: "nonneg_rl a \<Longrightarrow> nonneg_rl b \<Longrightarrow> nonneg_rl (quota_Max a b)"
  by (fastforce simp: nonneg_rl_def quota_Max_def list_all_iff split: option.splits dest: map_of_SomeD)

lemma amount_quota_Max: "nonneg_rl a \<Longrightarrow> nonneg_rl b \<Longrightarrow> amount (quota_Max a b) k = max (amount a k) (amount b k)"
  using nonneg_amount [of a k] nonneg_amount [of b k] by (auto simp: gm_get_def map_of_quota_Max split: option.splits)

text \<open>The request of a pod in one resource: the sum over its containers or, when that is more,
  the largest init container.\<close>

definition nonneg_pod :: "v1_Pod \<Rightarrow> bool" where
  "nonneg_pod p = list_all (\<lambda>c. nonneg_rl (c_Requests c)) (pod_Containers p @ pod_InitContainers p)"

definition pod_amount :: "v1_Pod \<Rightarrow> string \<Rightarrow> quantity" where
  "pod_amount p n = max (sum_list (map (\<lambda>c. amount (c_Requests c) n) (pod_Containers p)))
     (fold max (map (\<lambda>c. amount (c_Requests c) n) (pod_InitContainers p)) 0)"

lemma fold_quota_Add:
  "amount (fold (\<lambda>c r. quota_Add r (c_Requests c)) cs r) n = amount r n + sum_list (map (\<lambda>c. amount (c_Requests c) n) cs)"
  by (induction cs arbitrary: r) simp_all

lemma fold_quota_Add_nonneg:
  "nonneg_rl r \<Longrightarrow> list_all (\<lambda>c. nonneg_rl (c_Requests c)) cs \<Longrightarrow> nonneg_rl (fold (\<lambda>c r. quota_Add r (c_Requests c)) cs r)"
  by (induction cs arbitrary: r) (simp_all add: nonneg_quota_Add)

lemma fold_quota_Max:
  "nonneg_rl r \<Longrightarrow> list_all (\<lambda>c. nonneg_rl (c_Requests c)) cs \<Longrightarrow>
     nonneg_rl (fold (\<lambda>c r. quota_Max r (c_Requests c)) cs r) \<and>
     amount (fold (\<lambda>c r. quota_Max r (c_Requests c)) cs r) n = fold max (map (\<lambda>c. amount (c_Requests c) n) cs) (amount r n)"
  by (induction cs arbitrary: r) (simp_all add: nonneg_quota_Max amount_quota_Max max.commute)

lemma amount_pod_request:
  assumes "nonneg_pod p"
  shows "amount (eqc_computePodResourceRequest p) n = pod_amount p n"
proof -
  have c: "list_all (\<lambda>c. nonneg_rl (c_Requests c)) (pod_Containers p)" "list_all (\<lambda>c. nonneg_rl (c_Requests c)) (pod_InitContainers p)"
    using assms by (simp_all add: nonneg_pod_def)
  have z: "nonneg_rl []" by (simp add: nonneg_rl_def)
  show ?thesis
    using fold_quota_Max [OF z c(2), of n] fold_quota_Add_nonneg [OF z c(1)]
    by (simp add: eqc_computePodResourceRequest_def pod_amount_def amount_quota_Max fold_quota_Add)
qed

lemma overhead_ignored: "eqc_computePodResourceRequest (p\<lparr>pod_Overhead := x\<rparr>) = eqc_computePodResourceRequest p"
  by (simp add: eqc_computePodResourceRequest_def)

lemma fold_zero_amount:
  "amount (fold (\<lambda>v res. AList.update v (0::int) res) vs res) n = (if n \<in> set vs then 0 else amount res n)"
  by (induction vs arbitrary: res) auto

lemma amount_newZeroUsed [simp]: "amount (newZeroUsed eq) n = 0"
  by (simp add: newZeroUsed_def NewQuantity_def Let_def fold_zero_amount)

lemma fold_used:
  "list_all nonneg_pod pods \<Longrightarrow>
   amount (fold (\<lambda>p used. if pod_Phase p = ''Running'' then quota_Add used (eqc_computePodResourceRequest p) else used) pods u) n
     = amount u n + sum_list (map (\<lambda>p. pod_amount p n) (filter (\<lambda>p. pod_Phase p = ''Running'') pods))"
  by (induction pods arbitrary: u) (simp_all add: amount_pod_request)

lemma rl_DeepEqual_iff: "rl_DeepEqual a b \<longleftrightarrow> map_of a = map_of b"
proof
  assume e: "rl_DeepEqual a b"
  show "map_of a = map_of b"
  proof
    fix k
    show "map_of a k = map_of b k"
    proof (cases "k \<in> fst ` set (a @ b)")
      case True
      then show ?thesis using e by (auto simp: rl_DeepEqual_def list_all_iff)
    next
      case False
      then have "map_of a k = None" "map_of b k = None" by (auto simp: map_of_eq_None_iff)
      then show ?thesis by simp
    qed
  qed
qed (simp add: rl_DeepEqual_def list_all_iff case_prod_beta)

lemma rl_DeepEqual_amount: "rl_DeepEqual a b \<Longrightarrow> amount a n = amount b n"
  by (simp add: rl_DeepEqual_iff gm_get_def)

section \<open>The API server\<close>

text \<open>What the server promises: a patched status is what the next read returns, and patching a quota
  or recording an event leaves the pods alone.\<close>

locale quota_api =
  fixes C :: "'w eq_client" and quota :: "'w \<Rightarrow> string \<Rightarrow> ElasticQuotaObject option"
    and pods :: "'w \<Rightarrow> string \<Rightarrow> v1_Pod list"
  assumes list_quota: "quota w ns = Some eq \<Longrightarrow> \<exists>rest. eqc_List C ns w = Inr (eq # rest)"
    and list_pods: "eqc_ListPods C ns w = Inr (pods w ns)"
    and status_patch: "quota w ns = Some eq \<Longrightarrow> \<exists>w'. eqc_StatusPatch C eq (eq\<lparr>eqo_Used := u\<rparr>) w = (None, w')
      \<and> quota w' ns = Some (eq\<lparr>eqo_Used := u\<rparr>) \<and> pods w' = pods w"
    and event: "quota (eqc_Event C eq r m w) = quota w" "pods (eqc_Event C eq r m w) = pods w"
begin

lemma compute_used:
  assumes "list_all nonneg_pod (pods w ns)"
  shows "\<exists>used. computeElasticQuotaUsed C ns eq w = Inr used
    \<and> (\<forall>n. amount used n = sum_list (map (\<lambda>p. pod_amount p n) (filter (\<lambda>p. pod_Phase p = ''Running'') (pods w ns))))"
  using assms by (simp add: computeElasticQuotaUsed_def list_pods fold_used)

lemma compute_used_cong:
  "pods w' = pods w \<Longrightarrow> computeElasticQuotaUsed C ns (eq\<lparr>eqo_Used := u\<rparr>) w' = computeElasticQuotaUsed C ns eq w"
  by (simp add: computeElasticQuotaUsed_def list_pods newZeroUsed_def)

lemma reconcile_fixed:
  assumes "quota w ns = Some eq" "computeElasticQuotaUsed C ns eq w = Inr used" "rl_DeepEqual used (eqo_Used eq)"
  shows "eq_Reconcile C ns name w = (None, w)"
  using list_quota [OF assms(1)] assms(2,3) by (auto simp: eq_Reconcile_def)

lemma reconcile_syncs:
  assumes "quota w ns = Some eq" "list_all nonneg_pod (pods w ns)"
  shows "\<exists>w' used. eq_Reconcile C ns name w = (None, w') \<and> quota w' ns = Some (eq\<lparr>eqo_Used := used\<rparr>)
    \<and> (\<forall>n. amount used n = sum_list (map (\<lambda>p. pod_amount p n) (filter (\<lambda>p. pod_Phase p = ''Running'') (pods w ns))))
    \<and> eq_Reconcile C ns name w' = (None, w')"
proof -
  obtain u where u: "computeElasticQuotaUsed C ns eq w = Inr u"
      "\<And>n. amount u n = sum_list (map (\<lambda>p. pod_amount p n) (filter (\<lambda>p. pod_Phase p = ''Running'') (pods w ns)))"
    using compute_used [OF assms(2)] by blast
  obtain rest where l: "eqc_List C ns w = Inr (eq # rest)" using list_quota [OF assms(1)] by blast
  show ?thesis
  proof (cases "rl_DeepEqual u (eqo_Used eq)")
    case True
    then have "eq_Reconcile C ns name w = (None, w)" using reconcile_fixed assms(1) u(1) by blast
    then show ?thesis using assms(1) u(2) rl_DeepEqual_amount [OF True] by (intro exI [of _ w] exI [of _ "eqo_Used eq"]) simp
  next
    case False
    obtain w1 where w1: "eqc_StatusPatch C eq (eq\<lparr>eqo_Used := u\<rparr>) w = (None, w1)"
        "quota w1 ns = Some (eq\<lparr>eqo_Used := u\<rparr>)" "pods w1 = pods w"
      using status_patch [OF assms(1)] by blast
    define w2 where "w2 = eqc_Event C eq ''Synced'' (''Elastic Quota '' @ ns @ ''/'' @ name @ '' synced successfully'') w1"
    have q2: "quota w2 ns = Some (eq\<lparr>eqo_Used := u\<rparr>)" "pods w2 = pods w" by (simp_all add: w2_def event w1)
    have "eq_Reconcile C ns name w = (None, w2)" using l u(1) False w1(1) by (simp add: eq_Reconcile_def patchElasticQuota_def w2_def)
    moreover have "eq_Reconcile C ns name w2 = (None, w2)"
      using q2 compute_used_cong [OF q2(2)] u(1) by (intro reconcile_fixed [OF q2(1)]) (simp_all add: rl_DeepEqual_iff)
    ultimately show ?thesis using q2 u(2) by blast
  qed
qed

end

record eq_store =
  es_Quotas :: "ElasticQuotaObject list"
  es_Pods :: "v1_Pod list"
  es_Events :: "string list"

definition es_quota :: "eq_store \<Rightarrow> string \<Rightarrow> ElasticQuotaObject option" where
  "es_quota w ns = find (\<lambda>q. eqo_Namespace q = ns) (es_Quotas w)"

fun replace_first :: "('a \<Rightarrow> bool) \<Rightarrow> 'a \<Rightarrow> 'a list \<Rightarrow> 'a list" where
  "replace_first P x [] = []"
| "replace_first P x (y # ys) = (if P y then x # ys else y # replace_first P x ys)"

definition eq_store_client :: "eq_store eq_client" where
  "eq_store_client =
     \<lparr>eqc_List = (\<lambda>ns w. Inr (filter (\<lambda>q. eqo_Namespace q = ns) (es_Quotas w))),
      eqc_IsNotFound = (\<lambda>e. e = ''not found''),
      eqc_ListPods = (\<lambda>ns w. Inr (filter (\<lambda>p. pod_Namespace p = ns) (es_Pods w))),
      eqc_StatusPatch = (\<lambda>old new w. (None, w\<lparr>es_Quotas := replace_first (\<lambda>q. eqo_Namespace q = eqo_Namespace old)
         new (es_Quotas w)\<rparr>)),
      eqc_Event = (\<lambda>eq r m w. w\<lparr>es_Events := r # es_Events w\<rparr>)\<rparr>"

lemma find_filter: "find P xs = Some x \<Longrightarrow> \<exists>rest. filter P xs = x # rest"
  by (induction xs) (auto split: if_splits)

lemma find_replace_first: "find P xs = Some x \<Longrightarrow> P y \<Longrightarrow> find P (replace_first P y xs) = Some y"
  by (induction xs) (auto split: if_splits)

lemma find_SomeP: "find P xs = Some x \<Longrightarrow> P x"
  by (induction xs) (auto split: if_splits)

interpretation eqs: quota_api eq_store_client es_quota "\<lambda>w ns. filter (\<lambda>p. pod_Namespace p = ns) (es_Pods w)"
proof
  fix w ns eq u
  assume q: "es_quota w ns = Some eq"
  then have ns: "eqo_Namespace eq = ns" using find_SomeP unfolding es_quota_def by fastforce
  show "\<exists>rest. eqc_List eq_store_client ns w = Inr (eq # rest)"
    using find_filter [OF q [unfolded es_quota_def]] by (simp add: eq_store_client_def)
  show "\<exists>w'. eqc_StatusPatch eq_store_client eq (eq\<lparr>eqo_Used := u\<rparr>) w = (None, w')
      \<and> es_quota w' ns = Some (eq\<lparr>eqo_Used := u\<rparr>)
      \<and> (\<lambda>ns. filter (\<lambda>p. pod_Namespace p = ns) (es_Pods w')) = (\<lambda>ns. filter (\<lambda>p. pod_Namespace p = ns) (es_Pods w))"
    using find_replace_first [OF q [unfolded es_quota_def], of "eq\<lparr>eqo_Used := u\<rparr>"] ns
    by (simp add: eq_store_client_def es_quota_def)
qed (simp_all add: eq_store_client_def es_quota_def fun_eq_iff)

end
