(* ===== verification/Controller_Properties.thy ===== *)
theory Controller_Properties
  imports Pod_Group_Controller Elastic_Quota_Controller
begin

text \<open>
  The properties of the two controllers: the phase a group gets, that repeated
  reconciliation settles, and the usage in the status of a quota.
\<close>

section \<open>Pod groups\<close>

text \<open>A group that has left the pending phase and has not ended gets the phase its pods call
  for: the 32-bit counters of the code agree with counting in unbounded numbers.\<close>

theorem reconcile_phase:
  assumes "pgc_Get C ns name w = Inr pg" "pg_Phase pg \<notin> {'''', ''Pending'', ''Finished'', ''Failed''}" "\<not> pg_timed_out pg"
    and "pgc_List C PodGroupLabel (pg_Name pg) w = Inr pods" "length pods < 2 ^ 31"
  shows "pg_Reconcile C ns name w =
    (case patchPodGroup C pg ((counted pods pg)\<lparr>pg_Phase := group_phase (sint (pg_MinMember pg)) pods\<rparr>) w of (err, w1) \<Rightarrow> (Ret err, w1))"
  using assms next_status_default [of pg pods] by (simp add: pg_Reconcile_def)

definition group_x :: PodGroup where
  "group_x = \<lparr>pg_Namespace = ''a'', pg_Name = ''g'', pg_CreationTimestamp = 0, pg_MinMember = 2, pg_MinResources = None,
     pg_ScheduleTimeoutSeconds = None, pg_Phase = '''', pg_OccupiedBy = '''', pg_Running = 0, pg_Succeeded = 0,
     pg_Failed = 0, pg_ScheduleStartTime = None\<rparr>"

definition worker :: "string \<Rightarrow> v1_Pod" where
  "worker ph = zero_pod\<lparr>pod_Namespace := ''a'', pod_Labels := [(PodGroupLabel, ''g'')], pod_Phase := ph,
     pod_OwnerReferences := [\<lparr>or_APIVersion = ''batch/v1'', or_Kind = ''Job'', or_Name = ''j''\<rparr>]\<rparr>"

definition store_x :: "string \<Rightarrow> pg_store" where
  "store_x ph = \<lparr>st_Groups = [((''a'', ''g''), group_x\<lparr>pg_Phase := ph\<rparr>)], st_Pods = [worker ''Running'', worker ''Failed''], st_Events = []\<rparr>"

theorem reconcile_phase_witness:
  "fst (pg_Reconcile store_client ''a'' ''g'' (store_x ''Scheduling'')) = Ret None
   \<and> map_option pg_Phase (st_group (snd (pg_Reconcile store_client ''a'' ''g'' (store_x ''Scheduling''))) (''a'', ''g'')) = Some ''Failed''"
proof -
  let ?g = "group_x\<lparr>pg_Phase := ''Scheduling''\<rparr>" and ?p = "[worker ''Running'', worker ''Failed'']"
  have "pg_Reconcile store_client ''a'' ''g'' (store_x ''Scheduling'') =
    (case patchPodGroup store_client ?g ((counted ?p ?g)\<lparr>pg_Phase := group_phase (sint (pg_MinMember ?g)) ?p\<rparr>) (store_x ''Scheduling'')
     of (err, w1) \<Rightarrow> (Ret err, w1))"
    by (rule reconcile_phase)
       (simp_all add: store_client_def store_x_def st_group_def pg_key_def group_x_def worker_def pg_timed_out_def time_value_def)
  moreover have "group_phase (sint (pg_MinMember ?g)) ?p = ''Failed''"
    by (simp add: group_phase_def count_phase_def worker_def group_x_def)
  ultimately show ?thesis
    by (simp add: patchPodGroup_def store_client_def store_x_def st_group_def pg_key_def same_spec_def counted_def group_x_def)
qed

text \<open>C20: With an API server that keeps what is patched, a new group whose pods do not change settles
  after three reconciliations: it is pending while it has fewer pods than its minimum, and
  otherwise is owned by the owners of its first pod, has its pods counted and has the phase
  they call for.  No number of further reconciliations changes it.\<close>

theorem groups_settle:
  assumes "podgroup_api C groups labelled" "groups w (ns, n) = Some pg" "pg_Phase pg = ''''"
    and "pg_ScheduleStartTime pg = None" "0 \<le> pg_CreationTimestamp pg"
    and "0 < sint (pg_MinMember pg)" "length (labelled w n) < 2 ^ 31"
  shows "\<exists>w'. pg_reconciles C ns n (3 + k) w = Ret w' \<and> groups w' = (groups w)((ns, n) \<mapsto> settled (labelled w n) pg)
    \<and> labelled w' = labelled w"
  by (rule podgroup_api.reconciles_settle [OF assms])

theorem groups_settle_witness:
  "\<exists>w'. pg_reconciles store_client ''a'' ''g'' 7 (store_x '''') = Ret w'
    \<and> map_option pg_Phase (st_group w' (''a'', ''g'')) = Some ''Failed'' \<and> map_option pg_OccupiedBy (st_group w' (''a'', ''g'')) = Some ''a/j''"
proof -
  let ?p = "[worker ''Running'', worker ''Failed'']"
  have l: "st_labelled (store_x '''') ''g'' = ?p" by (simp add: st_labelled_def store_x_def worker_def)
  have "\<exists>w'. pg_reconciles store_client ''a'' ''g'' (3 + 4) (store_x '''') = Ret w'
      \<and> st_group w' = (st_group (store_x ''''))((''a'', ''g'') \<mapsto> settled (st_labelled (store_x '''') ''g'') group_x)
      \<and> st_labelled w' = st_labelled (store_x '''')"
    by (rule groups_settle [OF pgs.podgroup_api_axioms]) (simp_all add: l, simp_all add: store_x_def st_group_def pg_key_def group_x_def)
  moreover have "pg_Phase (settled ?p group_x) = ''Failed''" "pg_OccupiedBy (settled ?p group_x) = ''a/j''"
    by (simp_all add: settled_def group_phase_def count_phase_def counted_def fillOccupiedObj_def sort_Strings_def worker_def group_x_def)
  ultimately show ?thesis by (auto simp: l)
qed

text \<open>A pending group with no minimum and no pods makes the controller index an empty list.\<close>

lemma reconcile_panics_without_pods:
  assumes "pgc_Get C ns name w = Inr pg" "pg_Phase pg = ''Pending''" "\<not> pg_timed_out pg" "sint (pg_MinMember pg) \<le> 0"
    and "pgc_List C PodGroupLabel (pg_Name pg) w = Inr []"
  shows "pg_Reconcile C ns name w = (Panic index_out_of_range, w)"
  using assms by (simp add: pg_Reconcile_def next_status_def)

section \<open>Elastic quotas\<close>






end
