(* ===== verification/Network_Topology.thy ===== *)
theory Network_Topology
  imports Coscheduling
begin

text \<open>
  The data of the network-aware plugins (the vendored AppGroup and NetworkTopology APIs, cut
  down to the fields that are read) and the helpers of \<^verbatim>\<open>pkg/networkaware/util/util.go\<close>, among
  them three binary searches over lists sorted by a name.  The three loops of the code are the
  same up to the field they compare, so they are one function here with the field as an
  argument.
\<close>

section \<open>Data\<close>

record DependenciesInfo =
  dep_Selector :: string
  dep_MaxNetworkCost :: i64

record AppGroupWorkload =
  aw_Selector :: string
  aw_Dependencies :: "DependenciesInfo list"

record AppGroupTopologyInfo =
  at_Selector :: string
  at_Index :: i32

record AppGroup =
  ag_UID :: string
  ag_Workloads :: "AppGroupWorkload list"
  ag_TopologyOrder :: "AppGroupTopologyInfo list"

record CostInfo =
  ci_Destination :: string
  ci_NetworkCost :: i64

record OriginInfo =
  oi_Origin :: string
  oi_CostList :: "CostInfo list"

record TopologyInfo =
  ti_TopologyKey :: string
  ti_OriginList :: "OriginInfo list"

record WeightInfo =
  wi_Name :: string
  wi_TopologyList :: "TopologyInfo list"

record NetworkTopology =
  nt_UID :: string
  nt_Weights :: "WeightInfo list"

definition AppGroupLabel :: string where
  "AppGroupLabel = ''appgroup.diktyo.x-k8s.io''"

definition AppGroupSelectorLabel :: string where
  "AppGroupSelectorLabel = AppGroupLabel @ ''.workload''"

definition LabelTopologyRegion :: string where
  "LabelTopologyRegion = ''topology.kubernetes.io/region''"

definition LabelTopologyZone :: string where
  "LabelTopologyZone = ''topology.kubernetes.io/zone''"

text \<open>A key of the cost map: origin and destination.\<close>

type_synonym CostKey = "string \<times> string"

record ScheduledInfo =
  si_Name :: string
  si_Selector :: string
  si_ReplicaID :: string
  si_Hostname :: string

text \<open>A node object with its name and labels.\<close>

record net_node =
  nn_Name :: string
  nn_Labels :: "(string, string) gomap option"

section \<open>Helpers\<close>

definition GetNodeRegion :: "net_node \<Rightarrow> string" where
  "GetNodeRegion node = (case nn_Labels node of None \<Rightarrow> '''' | Some labels \<Rightarrow> gm_get '''' labels LabelTopologyRegion)"

definition GetNodeZone :: "net_node \<Rightarrow> string" where
  "GetNodeZone node = (case nn_Labels node of None \<Rightarrow> '''' | Some labels \<Rightarrow> gm_get '''' labels LabelTopologyZone)"

definition GetPodAppGroupLabel :: "v1_Pod \<Rightarrow> string" where
  "GetPodAppGroupLabel pod = gm_get '''' (pod_Labels pod) AppGroupLabel"

definition GetPodAppGroupSelector :: "v1_Pod \<Rightarrow> string" where
  "GetPodAppGroupSelector pod = gm_get '''' (pod_Labels pod) AppGroupSelectorLabel"

function bsearch :: "('a \<Rightarrow> string) \<Rightarrow> 'a list \<Rightarrow> string \<Rightarrow> int \<Rightarrow> int \<Rightarrow> 'a option" where
  "bsearch key xs k low high =
     (if low \<le> high then
        let mid = (low + high) div 2; x = xs ! nat mid in
        if key x = k then Some x
        else if str_less (key x) k then bsearch key xs k (mid + 1) high
        else if str_less k (key x) then bsearch key xs k low (mid - 1)
        else bsearch key xs k low high
      else None)"
  by pat_completeness auto

text \<open>The last branch is dead: of two different strings one is less.\<close>

termination
proof (relation "measure (\<lambda>(key, xs, k, low, high). nat (high - low + 1))")
  fix key :: "'a \<Rightarrow> string" and xs k and low high mid :: int and x
  assume "\<not> str_less (key x) k" "\<not> str_less k (key x)" "key x \<noteq> k"
  then have False using str_less_total by blast
  then show "((key, xs, k, low, high), (key, xs, k, low, high)) \<in> measure (\<lambda>(key, xs, k, low, high). nat (high - low + 1))" ..
qed auto

declare bsearch.simps [simp del]

definition FindPodOrder :: "AppGroupTopologyInfo list \<Rightarrow> string \<Rightarrow> i32" where
  "FindPodOrder t selector = (case bsearch at_Selector t selector 0 (int (length t) - 1) of Some x \<Rightarrow> at_Index x | None \<Rightarrow> - 1)"

definition FindOriginCosts :: "OriginInfo list \<Rightarrow> string \<Rightarrow> CostInfo list" where
  "FindOriginCosts originList origin =
     (case bsearch oi_Origin originList origin 0 (int (length originList) - 1) of Some x \<Rightarrow> oi_CostList x | None \<Rightarrow> [])"

definition FindTopologyKey :: "TopologyInfo list \<Rightarrow> string \<Rightarrow> OriginInfo list" where
  "FindTopologyKey topologyList key =
     (case bsearch ti_TopologyKey topologyList key 0 (int (length topologyList) - 1) of Some x \<Rightarrow> ti_OriginList x | None \<Rightarrow> [])"

text \<open>A nil application group is dereferenced.\<close>

definition GetDependencyList :: "v1_Pod \<Rightarrow> AppGroup option \<Rightarrow> DependenciesInfo list outcome" where
  "GetDependencyList pod ag =
     (case ag of
        None \<Rightarrow> Panic nil_deref
      | Some ag \<Rightarrow> Ret (fold (\<lambda>w dependencyList.
          if aw_Selector w = gm_get '''' (pod_Labels pod) AppGroupSelectorLabel
          then dependencyList @ aw_Dependencies w else dependencyList) (ag_Workloads ag) []))"

definition GetScheduledList :: "v1_Pod list \<Rightarrow> ScheduledInfo list" where
  "GetScheduledList pods =
     fold (\<lambda>p scheduledList. if pod_NodeName p \<noteq> ''''
        then scheduledList @ [\<lparr>si_Name = pod_Name p, si_Selector = GetPodAppGroupSelector p, si_ReplicaID = pod_UID p,
               si_Hostname = pod_NodeName p\<rparr>] else scheduledList) pods []"

section \<open>The binary search\<close>

definition sorted_by :: "('a \<Rightarrow> string) \<Rightarrow> 'a list \<Rightarrow> bool" where
  "sorted_by key xs = sorted_wrt (\<lambda>a b. \<not> str_less (key b) (key a)) xs"

lemma sorted_by_nth: "sorted_by key xs \<Longrightarrow> i \<le> j \<Longrightarrow> j < length xs \<Longrightarrow> \<not> str_less (key (xs ! j)) (key (xs ! i))"
  by (cases "i = j") (auto simp: sorted_by_def sorted_wrt_iff_nth_less)

lemma str_less_le_trans: "str_less a b \<Longrightarrow> \<not> str_less c b \<Longrightarrow> str_less a c"
  using str_less_total str_less_trans by metis

lemma str_le_less_trans: "\<not> str_less b a \<Longrightarrow> str_less b c \<Longrightarrow> str_less a c"
  using str_less_total str_less_trans by metis

lemma bsearch_None:
  assumes "sorted_by key xs" "0 \<le> low" "high < int (length xs)"
    and "\<And>i. int i < low \<Longrightarrow> i < length xs \<Longrightarrow> str_less (key (xs ! i)) k"
    and "\<And>i. high < int i \<Longrightarrow> i < length xs \<Longrightarrow> str_less k (key (xs ! i))"
    and "bsearch key xs k low high = None" "x \<in> set xs"
  shows "key x \<noteq> k"
  using assms
proof (induction key xs k low high rule: bsearch.induct)
  case (1 key xs k low high)
  obtain j where j: "x = xs ! j" "j < length xs" using "1.prems"(7) by (metis in_set_conv_nth)
  show ?case
  proof (cases "low \<le> high")
    case False
    then have "int j < low \<or> high < int j" by linarith
    then have "str_less (key x) k \<or> str_less k (key x)" using "1.prems"(4,5) j by blast
    then show ?thesis by auto
  next
    case True
    define mid where "mid = (low + high) div 2"
    have mid: "low \<le> mid" "mid \<le> high" "nat mid < length xs" "0 \<le> mid"
      using True "1.prems"(2,3) by (auto simp: mid_def)
    consider (eq) "key (xs ! nat mid) = k" | (lt) "str_less (key (xs ! nat mid)) k" | (gt) "str_less k (key (xs ! nat mid))"
      using str_less_total by blast
    then show ?thesis
    proof cases
      case eq
      then show ?thesis using "1.prems"(6) True by (simp add: bsearch.simps [of key xs k low high] mid_def Let_def)
    next
      case lt
      then have ne: "key (xs ! nat mid) \<noteq> k" by auto
      have "bsearch key xs k (mid + 1) high = None"
        using "1.prems"(6) True lt ne by (simp add: bsearch.simps [of key xs k low high] mid_def Let_def)
      moreover have "str_less (key (xs ! i)) k" if "int i < mid + 1" "i < length xs" for i
        using str_le_less_trans [OF sorted_by_nth [OF "1.prems"(1), of i "nat mid"] lt] mid that by linarith
      ultimately show ?thesis
        using "1.IH"(1) [of mid "xs ! nat mid"] "1.prems"(1,2,3,5,7) True lt ne mid by (auto simp: mid_def)
    next
      case gt
      then have ne: "key (xs ! nat mid) \<noteq> k" "\<not> str_less (key (xs ! nat mid)) k" using str_less_trans str_less_irrefl by blast+
      have "bsearch key xs k low (mid - 1) = None"
        using "1.prems"(6) True gt ne by (simp add: bsearch.simps [of key xs k low high] mid_def Let_def)
      moreover have "str_less k (key (xs ! i))" if "mid - 1 < int i" "i < length xs" for i
        using str_less_le_trans [OF gt sorted_by_nth [OF "1.prems"(1), of "nat mid" i]] mid that by linarith
      ultimately show ?thesis
        using "1.IH"(2) [of mid "xs ! nat mid"] "1.prems"(1,2,3,4,7) True gt ne mid by (auto simp: mid_def)
    qed
  qed
qed

lemma bsearch_Some:
  assumes "0 \<le> low" "high < int (length xs)" "bsearch key xs k low high = Some x"
  shows "x \<in> set xs \<and> key x = k"
  using assms
proof (induction key xs k low high rule: bsearch.induct)
  case (1 key xs k low high)
  show ?case
  proof (cases "low \<le> high")
    case False
    then show ?thesis using "1.prems"(3) by (simp add: bsearch.simps [of key xs k low high])
  next
    case True
    define mid where "mid = (low + high) div 2"
    have mid: "low \<le> mid" "mid \<le> high" "nat mid < length xs" "0 \<le> mid" using True "1.prems"(1,2) by (auto simp: mid_def)
    consider (eq) "key (xs ! nat mid) = k" | (lt) "key (xs ! nat mid) \<noteq> k" "str_less (key (xs ! nat mid)) k"
      | (gt) "key (xs ! nat mid) \<noteq> k" "\<not> str_less (key (xs ! nat mid)) k" "str_less k (key (xs ! nat mid))"
      using str_less_total by blast
    then show ?thesis
    proof cases
      case eq
      then show ?thesis using "1.prems"(3) True mid(3) by (auto simp: bsearch.simps [of key xs k low high] mid_def Let_def)
    next
      case lt
      then have "bsearch key xs k (mid + 1) high = Some x"
        using "1.prems"(3) True by (simp add: bsearch.simps [of key xs k low high] mid_def Let_def)
      then show ?thesis using "1.IH"(1) [of mid "xs ! nat mid"] True lt mid "1.prems"(2) by (auto simp: mid_def)
    next
      case gt
      then have "bsearch key xs k low (mid - 1) = Some x"
        using "1.prems"(3) True by (simp add: bsearch.simps [of key xs k low high] mid_def Let_def)
      then show ?thesis using "1.IH"(2) [of mid "xs ! nat mid"] True gt mid "1.prems"(1,2) by (auto simp: mid_def)
    qed
  qed
qed

lemma find_distinct_key: "distinct (map key xs) \<Longrightarrow> x \<in> set xs \<Longrightarrow> find (\<lambda>y. key y = key x) xs = Some x"
  by (induction xs) force+

text \<open>On a list sorted by pairwise different keys the search finds what a scan finds.\<close>

lemma bsearch_find:
  assumes "sorted_by key xs" "distinct (map key xs)"
  shows "bsearch key xs k 0 (int (length xs) - 1) = find (\<lambda>x. key x = k) xs"
proof (cases "bsearch key xs k 0 (int (length xs) - 1)")
  case None
  then have "key x \<noteq> k" if "x \<in> set xs" for x
    using bsearch_None [OF assms(1), of 0 "int (length xs) - 1" k] that by auto
  then have "find (\<lambda>x. key x = k) xs = None" by (simp add: find_None_iff)
  then show ?thesis using None by simp
next
  case (Some x)
  then have x: "x \<in> set xs" "key x = k" using bsearch_Some [of 0 "int (length xs) - 1" xs key k x] by auto
  then show ?thesis using Some find_distinct_key [OF assms(2) x(1)] by simp
qed

section \<open>Sorting by name\<close>

text \<open>What \<^verbatim>\<open>sort.Sort\<close> promises: a permutation, sorted by the key.  The order of equal keys is open.\<close>

locale name_sort =
  fixes key :: "'a \<Rightarrow> string" and srt :: "'a list \<Rightarrow> 'a list"
  assumes permutes: "mset (srt xs) = mset xs"
    and sorts: "sorted_by key (srt xs)"
begin

lemma distinct_keys: "distinct (map key (srt xs)) = distinct (map key xs)"
  by (metis mset_eq_imp_distinct_iff mset_map permutes)

lemma find_sorted:
  assumes "distinct (map key xs)"
  shows "find (\<lambda>x. key x = k) (srt xs) = find (\<lambda>x. key x = k) xs"
proof (cases "\<exists>x \<in> set xs. key x = k")
  case True
  then obtain x where x: "x \<in> set xs" "key x = k" by blast
  then have "x \<in> set (srt xs)" using permutes mset_eq_setD by blast
  then show ?thesis using find_distinct_key [of key xs x] find_distinct_key [of key "srt xs" x] assms distinct_keys [of xs] x by simp
next
  case False
  moreover have "set (srt xs) = set xs" using permutes mset_eq_setD by blast
  ultimately have "find (\<lambda>x. key x = k) (srt xs) = None" "find (\<lambda>x. key x = k) xs = None" by (auto simp: find_None_iff)
  then show ?thesis by simp
qed

lemma bsearch_sorted:
  "distinct (map key xs) \<Longrightarrow> bsearch key (srt xs) k 0 (int (length (srt xs)) - 1) = find (\<lambda>x. key x = k) xs"
  by (simp only: bsearch_find [OF sorts] distinct_keys find_sorted)

end

fun insert_by :: "('a \<Rightarrow> string) \<Rightarrow> 'a \<Rightarrow> 'a list \<Rightarrow> 'a list" where
  "insert_by key x [] = [x]"
| "insert_by key x (y # ys) = (if str_less (key y) (key x) then y # insert_by key x ys else x # y # ys)"

definition sort_by :: "('a \<Rightarrow> string) \<Rightarrow> 'a list \<Rightarrow> 'a list" where
  "sort_by key xs = foldr (insert_by key) xs []"

lemma mset_insert_by: "mset (insert_by key x ys) = add_mset x (mset ys)"
  by (induction ys) auto

lemma sorted_insert_by: "sorted_by key ys \<Longrightarrow> sorted_by key (insert_by key x ys)"
proof (induction ys)
  case (Cons y ys)
  have "set (insert_by key x ys) = insert x (set ys)" using mset_insert_by mset_eq_setD by (metis set_mset_add_mset_insert set_mset_mset)
  moreover have "\<not> str_less (key z) (key x)" if "\<not> str_less (key y) (key x)" "\<not> str_less (key z) (key y)" for z
    using that str_le_less_trans by blast
  moreover have "\<not> str_less (key x) (key y)" if "str_less (key y) (key x)" using that str_less_trans str_less_irrefl by blast
  ultimately show ?case using Cons by (auto simp: sorted_by_def)
qed (simp add: sorted_by_def)

interpretation sb: name_sort key "sort_by key" for key
proof
  fix xs
  show "mset (sort_by key xs) = mset xs"
    by (induction xs) (simp_all add: sort_by_def mset_insert_by)
  show "sorted_by key (sort_by key xs)"
    unfolding sort_by_def by (induction xs) (simp add: sorted_by_def, simp add: sorted_insert_by)
qed

end
