(* ===== verification/Queue_Sorts.thy ===== *)
theory Queue_Sorts
  imports Network_Topology
begin

text \<open>
  Two orders of the scheduling queue: by priority and quality of service
  (\<^verbatim>\<open>pkg/qos/queue_sort.go\<close> with the vendored classification of pods) and by the topological order
  of an application group (\<^verbatim>\<open>pkg/networkaware/topologicalsort/topologicalsort.go\<close>).
\<close>

section \<open>Quality of service\<close>

definition isSupportedQoSComputeResource :: "string \<Rightarrow> bool" where
  "isSupportedQoSComputeResource name = (name = ResourceCPU \<or> name = ResourceMemory)"

text \<open>One pass over the requests or limits of a container: positive amounts of supported resources are added up.\<close>

definition qos_add :: "ResourceList \<Rightarrow> ResourceList \<Rightarrow> ResourceList" where
  "qos_add rl acc = fold (\<lambda>(name, quantity) acc.
     if isSupportedQoSComputeResource name \<and> 0 < quantity
     then AList.update name (case map_of acc name of None \<Rightarrow> quantity | Some q \<Rightarrow> quantity + q) acc else acc) rl acc"

definition qosLimitsFound :: "ResourceList \<Rightarrow> string \<Rightarrow> bool" where
  "qosLimitsFound limits name = list_ex (\<lambda>(n, q). n = name \<and> isSupportedQoSComputeResource n \<and> 0 < q) limits"

definition ComputePodQOS :: "v1_Pod \<Rightarrow> string" where
  "ComputePodQOS pod =
     (let allContainers = pod_Containers pod @ pod_InitContainers pod;
          requests = fold (\<lambda>c acc. qos_add (c_Requests c) acc) allContainers [];
          limits = fold (\<lambda>c acc. qos_add (c_Limits c) acc) allContainers [];
          isGuaranteed = list_all (\<lambda>c. qosLimitsFound (c_Limits c) ResourceMemory \<and> qosLimitsFound (c_Limits c) ResourceCPU) allContainers
      in if requests = [] \<and> limits = [] then ''BestEffort''
         else let isGuaranteed = (isGuaranteed \<and> list_all (\<lambda>(name, req). map_of limits name = Some req) requests)
              in if isGuaranteed \<and> length requests = length limits then ''Guaranteed'' else ''Burstable'')"

definition GetPodQOS :: "v1_Pod \<Rightarrow> string" where
  "GetPodQOS pod = (if pod_QOSClass pod \<noteq> '''' then pod_QOSClass pod else ComputePodQOS pod)"

definition compQOS :: "v1_Pod \<Rightarrow> v1_Pod \<Rightarrow> bool" where
  "compQOS p1 p2 =
     (let p1QOS = GetPodQOS p1; p2QOS = GetPodQOS p2 in
      if p1QOS = ''Guaranteed'' then True
      else if p1QOS = ''Burstable'' then p2QOS \<noteq> ''Guaranteed''
      else p2QOS = ''BestEffort'')"

definition qos_Less :: "QueuedPodInfo \<Rightarrow> QueuedPodInfo \<Rightarrow> bool" where
  "qos_Less pInfo1 pInfo2 =
     (let p1 = PodPriority (qp_Pod pInfo1); p2 = PodPriority (qp_Pod pInfo2)
      in sint p1 > sint p2 \<or> (p1 = p2 \<and> compQOS (qp_Pod pInfo1) (qp_Pod pInfo2)))"

definition qos_class :: "string \<Rightarrow> bool" where
  "qos_class c = (c = ''Guaranteed'' \<or> c = ''Burstable'' \<or> c = ''BestEffort'')"

definition qos_rank :: "v1_Pod \<Rightarrow> nat" where
  "qos_rank p = (if GetPodQOS p = ''Guaranteed'' then 2 else if GetPodQOS p = ''Burstable'' then 1 else 0)"

lemma compQOS_rank: "qos_class (GetPodQOS p) \<Longrightarrow> qos_class (GetPodQOS q) \<Longrightarrow> compQOS p q \<longleftrightarrow> qos_rank q \<le> qos_rank p"
  by (auto simp: compQOS_def qos_rank_def qos_class_def)

lemma ComputePodQOS_class: "qos_class (ComputePodQOS p)"
  by (simp add: ComputePodQOS_def qos_class_def Let_def)

text \<open>Pods of equal priority and class are each before the other, so this is not a strict order.\<close>

lemma qos_Less_refl: "qos_class (GetPodQOS (qp_Pod p)) \<Longrightarrow> qos_Less p p"
  by (simp add: qos_Less_def compQOS_rank)

lemma qos_Less_rank:
  assumes "qos_class (GetPodQOS (qp_Pod p))" "qos_class (GetPodQOS (qp_Pod q))"
  shows "qos_Less p q \<longleftrightarrow> sint (PodPriority (qp_Pod q)) < sint (PodPriority (qp_Pod p))
    \<or> (PodPriority (qp_Pod p) = PodPriority (qp_Pod q) \<and> qos_rank (qp_Pod q) \<le> qos_rank (qp_Pod p))"
  by (simp add: qos_Less_def compQOS_rank [OF assms] Let_def)

section \<open>Topological order\<close>

text \<open>The in-tree \<^verbatim>\<open>PrioritySort\<close>.\<close>

definition PrioritySort_Less :: "QueuedPodInfo \<Rightarrow> QueuedPodInfo \<Rightarrow> bool" where
  "PrioritySort_Less pInfo1 pInfo2 =
     (let p1 = PodPriority (qp_Pod pInfo1); p2 = PodPriority (qp_Pod pInfo2)
      in sint p1 > sint p2 \<or> (p1 = p2 \<and> qp_Timestamp pInfo1 < qp_Timestamp pInfo2))"

fun findAppGroupTopologicalSort :: "(string \<Rightarrow> string \<Rightarrow> goerror + AppGroup) \<Rightarrow> string list \<Rightarrow> string \<Rightarrow> AppGroup option" where
  "findAppGroupTopologicalSort get [] agName = None"
| "findAppGroupTopologicalSort get (namespace # ns) agName =
     (case get namespace agName of Inl err \<Rightarrow> findAppGroupTopologicalSort get ns agName | Inr appGroup \<Rightarrow> Some appGroup)"

definition ts_Less :: "(string \<Rightarrow> string \<Rightarrow> goerror + AppGroup) \<Rightarrow> string list \<Rightarrow> QueuedPodInfo \<Rightarrow> QueuedPodInfo \<Rightarrow> bool outcome" where
  "ts_Less get namespaces pInfo1 pInfo2 =
     (let p1AppGroup = GetPodAppGroupLabel (qp_Pod pInfo1); p2AppGroup = GetPodAppGroupLabel (qp_Pod pInfo2) in
      if p1AppGroup \<noteq> p2AppGroup \<or> p1AppGroup = '''' then Ret (PrioritySort_Less pInfo1 pInfo2)
      else (case findAppGroupTopologicalSort get namespaces p1AppGroup of
              None \<Rightarrow> Panic nil_deref
            | Some appGroup \<Rightarrow>
                let orderP1 = FindPodOrder (ag_TopologyOrder appGroup) (gm_get '''' (pod_Labels (qp_Pod pInfo1)) AppGroupSelectorLabel);
                    orderP2 = FindPodOrder (ag_TopologyOrder appGroup) (gm_get '''' (pod_Labels (qp_Pod pInfo2)) AppGroupSelectorLabel)
                in Ret (sint orderP1 \<le> sint orderP2)))"

text \<open>The place of a workload in the topological order, by a scan; workloads that are not listed come first.\<close>

definition listed_order :: "AppGroup \<Rightarrow> v1_Pod \<Rightarrow> i32" where
  "listed_order g pod = (case find (\<lambda>x. at_Selector x = GetPodAppGroupSelector pod) (ag_TopologyOrder g) of
     None \<Rightarrow> - 1 | Some x \<Rightarrow> at_Index x)"

lemma ts_Less_listed:
  assumes "GetPodAppGroupLabel (qp_Pod p) = a" "GetPodAppGroupLabel (qp_Pod q) = a" "a \<noteq> ''''"
    and "findAppGroupTopologicalSort get namespaces a = Some g"
    and "sorted_by at_Selector (ag_TopologyOrder g)" "distinct (map at_Selector (ag_TopologyOrder g))"
  shows "ts_Less get namespaces p q = Ret (sint (listed_order g (qp_Pod p)) \<le> sint (listed_order g (qp_Pod q)))"
  using assms by (simp add: ts_Less_def Let_def FindPodOrder_def listed_order_def GetPodAppGroupSelector_def bsearch_find)

end
