(* ===== verification/Nrt_Objects.thy ===== *)
theory Nrt_Objects
  imports Elastic_Quota_Controller Queue_Sorts
begin

text \<open>
  Node resource topologies (the vendored \<^verbatim>\<open>noderesourcetopology-api\<close>, cut down to the fields that are
  read), the effective request of a pod (\<^verbatim>\<open>pkg/util/resource.go\<close>), and which requests are exclusive
  and which pods count (\<^verbatim>\<open>pkg/noderesourcetopology/resourcerequests\<close> and \<^verbatim>\<open>podprovider\<close>).
\<close>

section \<open>Objects\<close>

record ResourceInfo =
  ri_Name :: string
  ri_Available :: quantity

record Zone =
  zn_Name :: string
  zn_Type :: string
  zn_Costs :: "(string \<times> i64) list"
  zn_Resources :: "ResourceInfo list"

record NodeResourceTopology =
  nrt_Name :: string
  nrt_Annotations :: "(string, string) gomap option"
  nrt_TopologyPolicies :: "string list"
  nrt_Zones :: "Zone list"
  nrt_Attributes :: "(string \<times> string) list"

section \<open>Requests of a pod\<close>

definition GetPodEffectiveRequest :: "v1_Pod \<Rightarrow> ResourceList" where
  "GetPodEffectiveRequest pod =
     (let initResources = fold (\<lambda>c m. fold (\<lambda>(name, quantity) m.
            case map_of m name of
              Some q \<Rightarrow> if quantity \<le> q then m else AList.update name quantity m
            | None \<Rightarrow> AList.update name quantity m) (c_Requests c) m) (pod_InitContainers pod) [];
          resources = fold (\<lambda>c m. fold (\<lambda>(name, quantity) m.
            AList.update name (case map_of m name of Some q \<Rightarrow> quantity + q | None \<Rightarrow> quantity) m) (c_Requests c) m) (pod_Containers pod) []
      in fold (\<lambda>(name, quantity) m.
           case map_of m name of
             Some q \<Rightarrow> if quantity \<le> q then m else AList.update name quantity m
           | None \<Rightarrow> AList.update name quantity m) initResources resources)"

definition IncludeNonNative :: "v1_Pod \<Rightarrow> bool" where
  "IncludeNonNative pod =
     (list_ex (\<lambda>c. list_ex (\<lambda>(r, q). \<not> IsNativeResource r) (c_Requests c)) (pod_InitContainers pod)
      \<or> list_ex (\<lambda>c. list_ex (\<lambda>(r, q). \<not> IsNativeResource r) (c_Requests c)) (pod_Containers pod))"

definition IsExclusive :: "string \<Rightarrow> string \<Rightarrow> quantity \<Rightarrow> bool" where
  "IsExclusive qos resource quantity =
     (if \<not> IsNativeResource resource then True
      else if qos \<noteq> ''Guaranteed'' then False
      else if resource = ResourceCPU \<and> quantity_Value quantity * 1000 = MilliValue quantity \<and> 0 < sint (quantity_Value quantity) then True
      else (resource = ResourceMemory \<or> IsHugePageResourceName resource) \<and> 0 < sint (quantity_Value quantity))"

definition areExclusiveForAnyContainer :: "string \<Rightarrow> Container list \<Rightarrow> bool" where
  "areExclusiveForAnyContainer qos containers =
     list_ex (\<lambda>ctr. list_ex (\<lambda>(resource, quantity). IsExclusive qos resource quantity) (c_Requests ctr)) containers"

definition AreExclusiveForPod :: "v1_Pod \<Rightarrow> bool" where
  "AreExclusiveForPod pod = areExclusiveForAnyContainer (GetPodQOS pod) (pod_InitContainers pod @ pod_Containers pod)"

definition IsPodRelevantShared :: "v1_Pod \<Rightarrow> bool" where
  "IsPodRelevantShared pod = (pod_Phase pod = ''Running'')"

definition IsPodRelevantDedicated :: "v1_Pod \<Rightarrow> bool" where
  "IsPodRelevantDedicated pod = (if pod_Phase pod = ''Pending'' then False else if pod_NodeName pod = '''' then False else True)"

section \<open>The amounts of the effective request\<close>

lemma fold_max_update:
  assumes "gm_wf rl" "nonneg_rl rl" "\<And>k. 0 \<le> amount m k"
  shows "amount (fold (\<lambda>(name, quantity) m. case map_of m name of
              Some q \<Rightarrow> if quantity \<le> q then m else AList.update name quantity m
            | None \<Rightarrow> AList.update name quantity m) rl m) n = max (amount m n) (amount rl n)"
  using assms
proof (induction rl arbitrary: m)
  case (Cons x rl)
  obtain k v where x: "x = (k, v)" by (cases x)
  let ?m = "case map_of m k of Some q \<Rightarrow> if v \<le> q then m else AList.update k v m | None \<Rightarrow> AList.update k v m"
  have kv: "k \<notin> fst ` set rl" "gm_wf rl" "nonneg_rl rl" "0 \<le> v" using Cons.prems(1,2) by (auto simp: gm_wf_def nonneg_rl_def x)
  have m: "amount ?m j = (if j = k then max (amount m k) v else amount m j)" for j
    using kv(4) by (auto simp: gm_get_def split: option.splits)
  have nn: "\<And>j. 0 \<le> amount ?m j" using Cons.prems(3) kv(4) by (simp add: m le_max_iff_disj)
  have "amount rl k = 0" using kv(1) by (simp add: gm_get_def gm_has_map_of split: option.splits)
  then show ?case using Cons.IH [OF kv(2,3) nn] Cons.prems(3) [of k] kv(4) by (auto simp: x m)
qed (auto simp: max_def antisym)

lemma fold_sum_update:
  assumes "gm_wf rl"
  shows "amount (fold (\<lambda>(name, quantity) m. AList.update name (case map_of m name of Some q \<Rightarrow> quantity + q | None \<Rightarrow> quantity) m) rl m) n
    = amount m n + amount rl n"
  using assms
proof (induction rl arbitrary: m)
  case (Cons x rl)
  obtain k v where x: "x = (k, v)" by (cases x)
  have kv: "k \<notin> fst ` set rl" "gm_wf rl" using Cons.prems by (auto simp: gm_wf_def x)
  have "amount rl k = 0" using kv(1) by (simp add: gm_get_def gm_has_map_of split: option.splits)
  then show ?case using Cons.IH [OF kv(2)] by (auto simp: x gm_get_def split: option.splits)
qed simp

definition wf_pod :: "v1_Pod \<Rightarrow> bool" where
  "wf_pod p = (nonneg_pod p \<and> list_all (\<lambda>c. gm_wf (c_Requests c)) (pod_Containers p @ pod_InitContainers p))"

lemma wf_fold_max:
  "gm_wf m \<Longrightarrow> gm_wf (fold (\<lambda>(name, quantity) m. case map_of m name of
              Some q \<Rightarrow> if quantity \<le> q then m else AList.update name quantity m
            | None \<Rightarrow> AList.update name quantity m) rl m)"
  by (induction rl arbitrary: m) (auto split: option.splits)

lemma nonneg_fold_max:
  "nonneg_rl m \<Longrightarrow> nonneg_rl rl \<Longrightarrow> nonneg_rl (fold (\<lambda>(name, quantity) m. case map_of m name of
              Some q \<Rightarrow> if quantity \<le> q then m else AList.update name quantity m
            | None \<Rightarrow> AList.update name quantity m) rl m)"
proof (induction rl arbitrary: m)
  case (Cons x rl)
  have "nonneg_rl (AList.update k v m)" if "0 \<le> v" for k v
    using Cons.prems(1) that by (induction m) (auto simp: nonneg_rl_def)
  then show ?case using Cons by (cases x) (auto simp: nonneg_rl_def split: option.splits)
qed simp

lemma init_fold:
  assumes "list_all (\<lambda>c. gm_wf (c_Requests c)) cs" "list_all (\<lambda>c. nonneg_rl (c_Requests c)) cs" "gm_wf m" "nonneg_rl m"
  shows "let r = fold (\<lambda>c m. fold (\<lambda>(name, quantity) m. case map_of m name of
              Some q \<Rightarrow> if quantity \<le> q then m else AList.update name quantity m
            | None \<Rightarrow> AList.update name quantity m) (c_Requests c) m) cs m
     in gm_wf r \<and> nonneg_rl r \<and> amount r n = fold max (map (\<lambda>c. amount (c_Requests c) n) cs) (amount m n)"
  using assms
proof (induction cs arbitrary: m)
  case (Cons c cs)
  have "gm_wf (c_Requests c)" "nonneg_rl (c_Requests c)" using Cons.prems(1,2) by simp_all
  then show ?case
    using Cons.IH [OF _ _ wf_fold_max [OF Cons.prems(3), of "c_Requests c"] nonneg_fold_max [OF Cons.prems(4), of "c_Requests c"]]
      fold_max_update [of "c_Requests c" m n] nonneg_amount [OF Cons.prems(4)] Cons.prems(1,2)
    by (simp add: Let_def max.commute)
qed simp

lemma sum_fold:
  "list_all (\<lambda>c. gm_wf (c_Requests c)) cs \<Longrightarrow>
   amount (fold (\<lambda>c m. fold (\<lambda>(name, quantity) m.
      AList.update name (case map_of m name of Some q \<Rightarrow> quantity + q | None \<Rightarrow> quantity) m) (c_Requests c) m) cs m) n
   = amount m n + sum_list (map (\<lambda>c. amount (c_Requests c) n) cs)"
  by (induction cs arbitrary: m) (simp_all add: fold_sum_update)

text \<open>The effective request of a pod is the same amount in every resource as the elastic quota
  controller computes.\<close>

lemma amount_effective:
  assumes "wf_pod p"
  shows "amount (GetPodEffectiveRequest p) n = pod_amount p n"
proof -
  have c: "list_all (\<lambda>c. gm_wf (c_Requests c)) (pod_Containers p)" "list_all (\<lambda>c. gm_wf (c_Requests c)) (pod_InitContainers p)"
    "list_all (\<lambda>c. nonneg_rl (c_Requests c)) (pod_InitContainers p)" "list_all (\<lambda>c. nonneg_rl (c_Requests c)) (pod_Containers p)"
    using assms by (simp_all add: wf_pod_def nonneg_pod_def)
  have z: "gm_wf []" "nonneg_rl []" by (simp_all add: nonneg_rl_def)
  note i = init_fold [OF c(2,3) z, of n]
  have "0 \<le> sum_list (map (\<lambda>c. amount (c_Requests c) k) (pod_Containers p))" for k
    using c(4) nonneg_amount by (intro sum_list_nonneg) (auto simp: list_all_iff)
  then show ?thesis
    using fold_max_update i sum_fold [OF c(1), of "[]"]
    by (simp add: GetPodEffectiveRequest_def Let_def pod_amount_def)
qed

lemma wf_fold_sum:
  "gm_wf m \<Longrightarrow> gm_wf (fold (\<lambda>(name, quantity) m. AList.update name (case map_of m name of Some q \<Rightarrow> quantity + q | None \<Rightarrow> quantity) m) rl m)"
  by (induction rl arbitrary: m) auto

lemma wf_effective: "gm_wf (GetPodEffectiveRequest p)"
proof -
  have "gm_wf m \<Longrightarrow> gm_wf (fold (\<lambda>c m. fold (\<lambda>(name, quantity) m. AList.update name (case map_of m name of Some q \<Rightarrow> quantity + q | None \<Rightarrow> quantity) m)
      (c_Requests c) m) cs m)" for cs :: "Container list" and m
    by (induction cs arbitrary: m) (simp_all add: wf_fold_sum)
  then show ?thesis unfolding GetPodEffectiveRequest_def Let_def by (intro wf_fold_max) simp
qed

end
