(* ===== verification/Nrt_Cache.thy ===== *)
theory Nrt_Cache
  imports Nrt_Objects
begin

text \<open>
  The caches of node resource topologies, \<^verbatim>\<open>pkg/noderesourcetopology/cache\<close>: the store of topologies
  and of assumed requests (\<^verbatim>\<open>store.go\<close>), the cache that reserves pessimistically
  (\<^verbatim>\<open>overreserve.go\<close>), the one that discards reserved nodes (\<^verbatim>\<open>discardreserved.go\<close>), the one that keeps
  nothing (\<^verbatim>\<open>passthrough.go\<close>), and the detection of foreign pods (\<^verbatim>\<open>foreign_pods.go\<close>).

  The API client, the pod lister and the fingerprint of a set of pods are arguments.  Every
  operation holds the lock of its cache and is atomic, except for \<^verbatim>\<open>Resync\<close>, which reads the dirty
  nodes and flushes some of them in two steps: \<open>ov_Resync\<close> is a run of it that nothing interleaves
  with, and the event sequences of the theory \<open>Nrt_Cache_Properties\<close> have the flush as a step of its own.
\<close>

section \<open>Counters\<close>

type_synonym counter = "(string, int) gomap"

definition cnt_Incr :: "string \<Rightarrow> counter \<Rightarrow> int \<times> counter" where
  "cnt_Incr key cnt = (let v = gm_get 0 cnt key + 1 in (v, AList.update key v cnt))"

definition cnt_IsSet :: "counter \<Rightarrow> string \<Rightarrow> bool" where
  "cnt_IsSet cnt key = gm_has cnt key"

definition cnt_Delete :: "string \<Rightarrow> counter \<Rightarrow> counter" where
  "cnt_Delete key cnt = AList.delete key cnt"

definition cnt_Keys :: "counter \<Rightarrow> string list" where
  "cnt_Keys cnt = map fst cnt"

definition cnt_Clone :: "counter \<Rightarrow> counter" where
  "cnt_Clone cnt = fold (\<lambda>(key, val) cloned. AList.update key val cloned) cnt []"

section \<open>Stores\<close>

type_synonym nrtStore = "(string, NodeResourceTopology) gomap"

definition newNrtStore :: "NodeResourceTopology list \<Rightarrow> nrtStore" where
  "newNrtStore nrts = fold (\<lambda>nrt data. AList.update (nrt_Name nrt) nrt data) nrts []"

definition nrs_Contains :: "nrtStore \<Rightarrow> string \<Rightarrow> bool" where
  "nrs_Contains data nodeName = gm_has data nodeName"

definition GetNRTCopyByNodeName :: "nrtStore \<Rightarrow> string \<Rightarrow> NodeResourceTopology option" where
  "GetNRTCopyByNodeName data nodeName = map_of data nodeName"

definition nrs_Update :: "NodeResourceTopology \<Rightarrow> nrtStore \<Rightarrow> nrtStore" where
  "nrs_Update nrt data = AList.update (nrt_Name nrt) nrt data"

type_synonym resourceStore = "(string, ResourceList) gomap"

definition pod_key :: "v1_Pod \<Rightarrow> string" where
  "pod_key pod = pod_Namespace pod @ ''/'' @ pod_Name pod"

definition rs_AddPod :: "v1_Pod \<Rightarrow> resourceStore \<Rightarrow> bool \<times> resourceStore" where
  "rs_AddPod pod rs = (gm_has rs (pod_key pod), AList.update (pod_key pod) (GetPodEffectiveRequest pod) rs)"

definition rs_DeletePod :: "v1_Pod \<Rightarrow> resourceStore \<Rightarrow> bool \<times> resourceStore" where
  "rs_DeletePod pod rs = (gm_has rs (pod_key pod), AList.delete (pod_key pod) rs)"

definition deduct :: "ResourceList \<Rightarrow> ResourceInfo \<Rightarrow> ResourceInfo" where
  "deduct res zr = (case map_of res (ri_Name zr) of
     None \<Rightarrow> zr
   | Some qty \<Rightarrow> if ri_Available zr < qty then zr\<lparr>ri_Available := 0\<rparr> else zr\<lparr>ri_Available := ri_Available zr - qty\<rparr>)"

definition UpdateNRT :: "resourceStore \<Rightarrow> NodeResourceTopology \<Rightarrow> NodeResourceTopology" where
  "UpdateNRT rs nrt = fold (\<lambda>(key, res) nrt. nrt\<lparr>nrt_Zones := map (\<lambda>zone. zone\<lparr>zn_Resources := map (deduct res) (zn_Resources zone)\<rparr>)
     (nrt_Zones nrt)\<rparr>) rs nrt"

section \<open>Fingerprints\<close>

definition attribute_Get :: "(string \<times> string) list \<Rightarrow> string \<Rightarrow> string option" where
  "attribute_Get attrs name = map_option snd (find (\<lambda>(n, v). n = name) attrs)"

definition podFingerprintForNodeTopology :: "NodeResourceTopology \<Rightarrow> string \<Rightarrow> string \<times> bool" where
  "podFingerprintForNodeTopology nrt method =
     (case attribute_Get (nrt_Attributes nrt) ''nodeTopologyPodsFingerprint'' of
        Some v \<Rightarrow>
          (v, if method = ''OnlyExclusiveResources'' then True
              else if method = ''Autodetect''
                then attribute_Get (nrt_Attributes nrt) ''nodeTopologyPodsFingerprintMethod'' = Some ''with-exclusive-resources''
              else False)
      | None \<Rightarrow> (case nrt_Annotations nrt of
                   Some a \<Rightarrow> (gm_get '''' a ''topology.node.k8s.io/fingerprint'', False)
                 | None \<Rightarrow> ('''', False)))"

record podData =
  pd_Namespace :: string
  pd_Name :: string
  pd_HasExclusiveResources :: bool

definition checkPodFingerprintForNode :: "((string \<times> string) list \<Rightarrow> string \<Rightarrow> goerror option) \<Rightarrow> podData list \<Rightarrow> string \<Rightarrow> bool \<Rightarrow> goerror option" where
  "checkPodFingerprintForNode pfp_Check objs pfpExpected onlyExclRes =
     pfp_Check (map (\<lambda>d. (pd_Namespace d, pd_Name d)) (filter (\<lambda>d. \<not> (onlyExclRes \<and> \<not> pd_HasExclusiveResources d)) objs)) pfpExpected"

definition makeNodeToPodDataMap :: "v1_Pod list \<Rightarrow> (v1_Pod \<Rightarrow> bool) \<Rightarrow> (string, podData list) gomap" where
  "makeNodeToPodDataMap pods isPodRelevant =
     fold (\<lambda>pod m. if isPodRelevant pod
       then AList.update (pod_NodeName pod) (gm_get [] m (pod_NodeName pod) @
         [\<lparr>pd_Namespace = pod_Namespace pod, pd_Name = pod_Name pod, pd_HasExclusiveResources = AreExclusiveForPod pod\<rparr>]) m
       else m) pods []"

section \<open>OverReserve\<close>

record OverReserve =
  ov_nrts :: nrtStore
  ov_assumedResources :: "(string, resourceStore) gomap"
  ov_nodesMaybeOverreserved :: counter
  ov_nodesWithForeignPods :: counter
  ov_resyncMethod :: string

text \<open>What a resynchronization reads: the topologies and pods of the cluster, and the comparison of
  a set of pods with a fingerprint.\<close>

record nrt_world =
  nw_Get :: "string \<Rightarrow> goerror + NodeResourceTopology"
  nw_ListPods :: "goerror + v1_Pod list"
  nw_isPodRelevant :: "v1_Pod \<Rightarrow> bool"
  nw_Check :: "(string \<times> string) list \<Rightarrow> string \<Rightarrow> goerror option"

definition getCacheResyncMethod :: "string option option \<Rightarrow> string" where
  "getCacheResyncMethod cfg = (case cfg of Some (Some m) \<Rightarrow> m | _ \<Rightarrow> ''Autodetect'')"

definition NewOverReserve :: "(goerror + NodeResourceTopology list) \<Rightarrow> string option option \<Rightarrow> goerror + OverReserve" where
  "NewOverReserve listed cfg =
     (case listed of
        Inl err \<Rightarrow> Inl err
      | Inr nrtObjs \<Rightarrow> Inr \<lparr>ov_nrts = newNrtStore nrtObjs, ov_assumedResources = [], ov_nodesMaybeOverreserved = [],
                            ov_nodesWithForeignPods = [], ov_resyncMethod = getCacheResyncMethod cfg\<rparr>)"

definition ov_GetCachedNRTCopy :: "OverReserve \<Rightarrow> string \<Rightarrow> NodeResourceTopology option \<times> bool" where
  "ov_GetCachedNRTCopy ov nodeName =
     (if cnt_IsSet (ov_nodesWithForeignPods ov) nodeName then (None, False)
      else (case GetNRTCopyByNodeName (ov_nrts ov) nodeName of
              None \<Rightarrow> (None, True)
            | Some nrt \<Rightarrow>
                (case map_of (ov_assumedResources ov) nodeName of
                   None \<Rightarrow> (Some nrt, True)
                 | Some rs \<Rightarrow> (Some (UpdateNRT rs nrt), True))))"

definition ov_NodeMaybeOverReserved :: "string \<Rightarrow> OverReserve \<Rightarrow> OverReserve" where
  "ov_NodeMaybeOverReserved nodeName ov =
     ov\<lparr>ov_nodesMaybeOverreserved := snd (cnt_Incr nodeName (ov_nodesMaybeOverreserved ov))\<rparr>"

definition ov_NodeHasForeignPods :: "string \<Rightarrow> OverReserve \<Rightarrow> OverReserve" where
  "ov_NodeHasForeignPods nodeName ov =
     (if \<not> nrs_Contains (ov_nrts ov) nodeName then ov
      else ov\<lparr>ov_nodesWithForeignPods := snd (cnt_Incr nodeName (ov_nodesWithForeignPods ov))\<rparr>)"

definition ov_ReserveNodeResources :: "string \<Rightarrow> v1_Pod \<Rightarrow> OverReserve \<Rightarrow> OverReserve" where
  "ov_ReserveNodeResources nodeName pod ov =
     (let rs = (case map_of (ov_assumedResources ov) nodeName of None \<Rightarrow> [] | Some rs \<Rightarrow> rs) in
      ov\<lparr>ov_assumedResources := AList.update nodeName (snd (rs_AddPod pod rs)) (ov_assumedResources ov),
         ov_nodesMaybeOverreserved := cnt_Delete nodeName (ov_nodesMaybeOverreserved ov)\<rparr>)"

definition ov_UnreserveNodeResources :: "string \<Rightarrow> v1_Pod \<Rightarrow> OverReserve \<Rightarrow> OverReserve" where
  "ov_UnreserveNodeResources nodeName pod ov =
     (case map_of (ov_assumedResources ov) nodeName of
        None \<Rightarrow> ov
      | Some rs \<Rightarrow> ov\<lparr>ov_assumedResources := AList.update nodeName (snd (rs_DeletePod pod rs)) (ov_assumedResources ov)\<rparr>)"

definition NodesMaybeOverReserved :: "OverReserve \<Rightarrow> string list" where
  "NodesMaybeOverReserved ov =
     (let nodes = cnt_Clone (ov_nodesWithForeignPods ov);
          nodes = fold (\<lambda>node nodes. snd (cnt_Incr node nodes)) (cnt_Keys (ov_nodesMaybeOverreserved ov)) nodes
      in cnt_Keys nodes)"

definition FlushNodes :: "NodeResourceTopology list \<Rightarrow> OverReserve \<Rightarrow> OverReserve" where
  "FlushNodes nrts ov =
     fold (\<lambda>nrt ov. ov\<lparr>ov_nrts := nrs_Update nrt (ov_nrts ov),
        ov_assumedResources := AList.delete (nrt_Name nrt) (ov_assumedResources ov),
        ov_nodesMaybeOverreserved := cnt_Delete (nrt_Name nrt) (ov_nodesMaybeOverreserved ov),
        ov_nodesWithForeignPods := cnt_Delete (nrt_Name nrt) (ov_nodesWithForeignPods ov)\<rparr>) nrts ov"

text \<open>Whether the topology that the API server has for a dirty node replaces the cached one.\<close>

definition resync_node :: "nrt_world \<Rightarrow> string \<Rightarrow> (string, podData list) gomap \<Rightarrow> string \<Rightarrow> NodeResourceTopology option" where
  "resync_node W method nodeToObjsMap nodeName =
     (case nw_Get W nodeName of
        Inl err \<Rightarrow> None
      | Inr nrtCandidate \<Rightarrow>
          (case map_of nodeToObjsMap nodeName of
             None \<Rightarrow> None
           | Some objs \<Rightarrow>
               (case podFingerprintForNodeTopology nrtCandidate method of (pfpExpected, onlyExclRes) \<Rightarrow>
                  if pfpExpected = '''' then None
                  else (case checkPodFingerprintForNode (nw_Check W) objs pfpExpected onlyExclRes of
                          Some err \<Rightarrow> None
                        | None \<Rightarrow> Some nrtCandidate))))"

definition ov_Resync :: "nrt_world \<Rightarrow> OverReserve \<Rightarrow> OverReserve" where
  "ov_Resync W ov =
     (let nodeNames = NodesMaybeOverReserved ov in
      if nodeNames = [] then ov
      else (case nw_ListPods W of
              Inl err \<Rightarrow> ov
            | Inr pods \<Rightarrow>
                let nodeToObjsMap = makeNodeToPodDataMap pods (nw_isPodRelevant W);
                    nrtUpdates = List.map_filter (resync_node W (ov_resyncMethod ov) nodeToObjsMap) nodeNames
                in FlushNodes nrtUpdates ov))"

text \<open>PostBind does nothing.\<close>

definition ov_PostBind :: "string \<Rightarrow> v1_Pod \<Rightarrow> OverReserve \<Rightarrow> OverReserve" where
  "ov_PostBind nodeName pod ov = ov"

section \<open>Foreign pods\<close>

text \<open>The registered profiles and whether only exclusive requests matter are global variables of
  the package; the scheduler name of the pod is an argument.\<close>

definition IsForeignPod :: "string list \<Rightarrow> bool \<Rightarrow> string \<Rightarrow> v1_Pod \<Rightarrow> bool" where
  "IsForeignPod schedProfileNames onlyExclusiveResources schedulerName pod =
     (if pod_NodeName pod = '''' then False
      else if schedulerName \<in> set schedProfileNames then False
      else if \<not> onlyExclusiveResources then True
      else AreExclusiveForPod pod)"

definition foreignCache :: "string list \<Rightarrow> bool \<Rightarrow> string \<Rightarrow> v1_Pod \<Rightarrow> OverReserve \<Rightarrow> OverReserve" where
  "foreignCache schedProfileNames onlyExclusiveResources schedulerName pod ov =
     (if \<not> IsForeignPod schedProfileNames onlyExclusiveResources schedulerName pod then ov
      else ov_NodeHasForeignPods (pod_NodeName pod) ov)"

section \<open>DiscardReserved and Passthrough\<close>

type_synonym reservationMap = "(string, (string, bool) gomap) gomap"

definition dr_GetCachedNRTCopy :: "(string \<Rightarrow> goerror + NodeResourceTopology) \<Rightarrow> reservationMap \<Rightarrow> string \<Rightarrow> NodeResourceTopology option \<times> bool" where
  "dr_GetCachedNRTCopy get m nodeName =
     (case map_of m nodeName of
        Some t \<Rightarrow> if t \<noteq> [] then (None, False)
                   else (case get nodeName of Inl err \<Rightarrow> (None, True) | Inr nrt \<Rightarrow> (Some nrt, True))
      | None \<Rightarrow> (case get nodeName of Inl err \<Rightarrow> (None, True) | Inr nrt \<Rightarrow> (Some nrt, True)))"

definition dr_ReserveNodeResources :: "string \<Rightarrow> v1_Pod \<Rightarrow> reservationMap \<Rightarrow> reservationMap" where
  "dr_ReserveNodeResources nodeName pod m =
     (let t = (case map_of m nodeName of None \<Rightarrow> [] | Some t \<Rightarrow> t)
      in AList.update nodeName (AList.update (pod_UID pod) True t) m)"

text \<open>Deleting from the nil map of an unknown node does nothing.\<close>

definition removeReservationForNode :: "string \<Rightarrow> v1_Pod \<Rightarrow> reservationMap \<Rightarrow> reservationMap" where
  "removeReservationForNode nodeName pod m =
     (case map_of m nodeName of None \<Rightarrow> m | Some t \<Rightarrow> AList.update nodeName (AList.delete (pod_UID pod) t) m)"

definition dr_UnreserveNodeResources :: "string \<Rightarrow> v1_Pod \<Rightarrow> reservationMap \<Rightarrow> reservationMap" where
  "dr_UnreserveNodeResources nodeName pod m = removeReservationForNode nodeName pod m"

definition dr_PostBind :: "string \<Rightarrow> v1_Pod \<Rightarrow> reservationMap \<Rightarrow> reservationMap" where
  "dr_PostBind nodeName pod m = removeReservationForNode nodeName pod m"

definition pt_GetCachedNRTCopy :: "(string \<Rightarrow> goerror + NodeResourceTopology) \<Rightarrow> string \<Rightarrow> NodeResourceTopology option \<times> bool" where
  "pt_GetCachedNRTCopy get nodeName = (case get nodeName of Inl err \<Rightarrow> (None, True) | Inr nrt \<Rightarrow> (Some nrt, True))"

end
