(* ===== verification/Nrt_Filter.thy ===== *)
theory Nrt_Filter
  imports Nrt_Cache Preemption_Toleration
begin

unbundle bit_operations_syntax

text \<open>
  The filter of the NodeResourceTopologyMatch plugin, \<^verbatim>\<open>pkg/noderesourcetopology\<close>: the topology manager
  configuration of a node (\<^verbatim>\<open>config.go\<close>), its NUMA cells (\<^verbatim>\<open>numaresources.go\<close>, \<^verbatim>\<open>pluginhelpers.go\<close>), the
  alignment of containers and pods on one cell (\<^verbatim>\<open>filter.go\<close>), and the plugin's reservations
  (\<^verbatim>\<open>reserve.go\<close>, \<^verbatim>\<open>postbind.go\<close>).

  The vendored bit masks are 64-bit words.  The identifier of a cell is a natural number, since
  \<^verbatim>\<open>NameToID\<close> reports a negative one as an error.  A status keeps its first reason.  The answers
  and the operations of the cache are arguments of the plugin's methods.
\<close>

section \<open>Topology manager configuration\<close>

definition AttributeScope :: string where "AttributeScope = ''topologyManagerScope''"
definition AttributePolicy :: string where "AttributePolicy = ''topologyManagerPolicy''"

definition IsValidScope :: "string \<Rightarrow> bool" where
  "IsValidScope scope = (scope = ''container'' \<or> scope = ''pod'')"

definition IsValidPolicy :: "string \<Rightarrow> bool" where
  "IsValidPolicy policy = (policy = ''none'' \<or> policy = ''best-effort'' \<or> policy = ''restricted'' \<or> policy = ''single-numa-node'')"

record TopologyManagerConfig =
  tmc_Scope :: string
  tmc_Policy :: string

definition makeTopologyManagerConfigDefaults :: TopologyManagerConfig where
  "makeTopologyManagerConfigDefaults = \<lparr>tmc_Scope = ''container'', tmc_Policy = ''none''\<rparr>"

definition updateTopologyManagerConfigFromAttributes :: "(string \<times> string) list \<Rightarrow> TopologyManagerConfig \<Rightarrow> TopologyManagerConfig" where
  "updateTopologyManagerConfigFromAttributes attrs conf =
     fold (\<lambda>(name, val) conf.
       if name = AttributeScope \<and> IsValidScope val then conf\<lparr>tmc_Scope := val\<rparr>
       else if name = AttributePolicy \<and> IsValidPolicy val then conf\<lparr>tmc_Policy := val\<rparr>
       else conf) attrs conf"

definition updateTopologyManagerConfigFromTopologyPolicies :: "string list \<Rightarrow> TopologyManagerConfig \<Rightarrow> TopologyManagerConfig" where
  "updateTopologyManagerConfigFromTopologyPolicies topologyPolicies conf =
     (case topologyPolicies of
        [] \<Rightarrow> conf
      | policyName # _ \<Rightarrow>
          if policyName = ''SingleNUMANodePodLevel'' then conf\<lparr>tmc_Policy := ''single-numa-node'', tmc_Scope := ''pod''\<rparr>
          else if policyName = ''SingleNUMANodeContainerLevel'' then conf\<lparr>tmc_Policy := ''single-numa-node'', tmc_Scope := ''container''\<rparr>
          else if policyName = ''BestEffortPodLevel'' then conf\<lparr>tmc_Policy := ''best-effort'', tmc_Scope := ''pod''\<rparr>
          else if policyName = ''BestEffortContainerLevel'' then conf\<lparr>tmc_Policy := ''best-effort'', tmc_Scope := ''container''\<rparr>
          else if policyName = ''RestrictedPodLevel'' then conf\<lparr>tmc_Policy := ''restricted'', tmc_Scope := ''pod''\<rparr>
          else if policyName = ''RestrictedContainerLevel'' then conf\<lparr>tmc_Policy := ''restricted'', tmc_Scope := ''container''\<rparr>
          else conf)"

definition topologyManagerConfigFromNodeResourceTopology :: "NodeResourceTopology \<Rightarrow> TopologyManagerConfig" where
  "topologyManagerConfigFromNodeResourceTopology nodeTopology =
     updateTopologyManagerConfigFromAttributes (nrt_Attributes nodeTopology)
       (updateTopologyManagerConfigFromTopologyPolicies (nrt_TopologyPolicies nodeTopology) makeTopologyManagerConfigDefaults)"

section \<open>NUMA cells\<close>

record NUMANode =
  nn_NUMAID :: nat
  nn_Resources :: ResourceList
  nn_Costs :: "(nat, i64) gomap"

definition maxNUMAId :: nat where "maxNUMAId = 64"

definition WithCosts :: "(nat, i64) gomap \<Rightarrow> NUMANode \<Rightarrow> NUMANode" where
  "WithCosts costs n = n\<lparr>nn_Costs := costs\<rparr>"

definition NUMANode_DeepCopy :: "NUMANode \<Rightarrow> NUMANode" where
  "NUMANode_DeepCopy n =
     \<lparr>nn_NUMAID = nn_NUMAID n, nn_Resources = nn_Resources n,
      nn_Costs = (if nn_Costs n \<noteq> [] then fold (\<lambda>(key, val) m. AList.update key val m) (nn_Costs n) [] else [])\<rparr>"

definition equalResourceList :: "ResourceList \<Rightarrow> ResourceList \<Rightarrow> bool" where
  "equalResourceList ra rb =
     (if length ra \<noteq> length rb then False
      else list_all (\<lambda>(key, valA). case map_of rb key of None \<Rightarrow> False | Some valB \<Rightarrow> valA = valB) ra)"

text \<open>The comparison of two cost maps is that of \<^verbatim>\<open>reflect.DeepEqual\<close> on non-nil maps.\<close>

definition NUMANode_Equal :: "NUMANode \<Rightarrow> NUMANode \<Rightarrow> bool" where
  "NUMANode_Equal n o' =
     (if nn_NUMAID n \<noteq> nn_NUMAID o' then False
      else if \<not> (length (nn_Costs n) = length (nn_Costs o') \<and> list_all (\<lambda>(k, v). map_of (nn_Costs o') k = Some v) (nn_Costs n)) then False
      else equalResourceList (nn_Resources n) (nn_Resources o'))"

type_synonym NUMANodeList = "NUMANode list"

definition NUMANodeList_DeepCopy :: "NUMANodeList \<Rightarrow> NUMANodeList" where
  "NUMANodeList_DeepCopy nnl = map NUMANode_DeepCopy nnl"

definition NUMANodeList_Equal :: "NUMANodeList \<Rightarrow> NUMANodeList \<Rightarrow> bool" where
  "NUMANodeList_Equal nnl oth = (if length nnl \<noteq> length oth then False else list_all (\<lambda>(n, o'). NUMANode_Equal n o') (zip nnl oth))"

definition isHostLevelResource :: "string \<Rightarrow> bool" where
  "isHostLevelResource resource =
     (if resource = ResourceEphemeralStorage then True
      else if resource = ''storage'' then True
      else if \<not> IsNativeResource resource then True
      else False)"

definition isNUMAAffineResource :: "string \<Rightarrow> bool" where
  "isNUMAAffineResource resource =
     (if resource = ResourceCPU then True
      else if resource = ResourceMemory then True
      else if IsHugePageResourceName resource then True
      else False)"

definition isResourceSetSuitable :: "string \<Rightarrow> string \<Rightarrow> quantity \<Rightarrow> quantity \<Rightarrow> bool" where
  "isResourceSetSuitable qos resource quantity numaQuantity =
     (if qos \<noteq> ''Guaranteed'' \<and> isNUMAAffineResource resource then True else quantity \<le> numaQuantity)"

datatype subtract_error = Exceeds string quantity nat quantity

text \<open>Subtracting the requests of a container from one cell, request by request; an error leaves
  the requests already subtracted.\<close>

fun subtract_requests :: "nat \<Rightarrow> string \<Rightarrow> ResourceList \<Rightarrow> ResourceList \<Rightarrow> subtract_error option \<times> ResourceList" where
  "subtract_requests numaID qos [] res = (None, res)"
| "subtract_requests numaID qos ((resName, resQty) # reqs) res =
     (if qos \<noteq> ''Guaranteed'' \<and> isNUMAAffineResource resName then subtract_requests numaID qos reqs res
      else if resQty = 0 then subtract_requests numaID qos reqs res
      else (case map_of res resName of
              None \<Rightarrow> subtract_requests numaID qos reqs res
            | Some nResQ \<Rightarrow>
                if nResQ - resQty < 0 then (Some (Exceeds resName resQty numaID nResQ), res)
                else subtract_requests numaID qos reqs (AList.update resName (nResQ - resQty) res)))"

fun subtractResourcesFromNUMANodeList :: "NUMANodeList \<Rightarrow> nat \<Rightarrow> string \<Rightarrow> ResourceList \<Rightarrow> subtract_error option \<times> NUMANodeList" where
  "subtractResourcesFromNUMANodeList [] numaID qos containerRes = (None, [])"
| "subtractResourcesFromNUMANodeList (node # nodes) numaID qos containerRes =
     (if nn_NUMAID node \<noteq> numaID
      then (case subtractResourcesFromNUMANodeList nodes numaID qos containerRes of (e, ns) \<Rightarrow> (e, node # ns))
      else (case subtract_requests numaID qos containerRes (nn_Resources node) of
              (Some e, res) \<Rightarrow> (Some e, node\<lparr>nn_Resources := res\<rparr> # nodes)
            | (None, res) \<Rightarrow> (case subtractResourcesFromNUMANodeList nodes numaID qos containerRes of
                                (e, ns) \<Rightarrow> (e, node\<lparr>nn_Resources := res\<rparr> # ns))))"

text \<open>Taking one request off the cells at the given positions of the list, as much as each has.\<close>

fun subtract_one :: "string \<Rightarrow> quantity \<Rightarrow> NUMANodeList \<Rightarrow> nat list \<Rightarrow> NUMANodeList outcome" where
  "subtract_one resName quantity numaNodes [] = Ret numaNodes"
| "subtract_one resName quantity numaNodes (node # nodes) =
     (if quantity = 0 then Ret numaNodes
      else if length numaNodes \<le> node then Panic index_out_of_range
      else (case map_of (nn_Resources (numaNodes ! node)) resName of
              None \<Rightarrow> subtract_one resName quantity numaNodes nodes
            | Some available \<Rightarrow>
                let set_to = (\<lambda>v. numaNodes[node := (numaNodes ! node)\<lparr>nn_Resources := AList.update resName v (nn_Resources (numaNodes ! node))\<rparr>])
                in if available \<le> quantity then subtract_one resName (quantity - available) (set_to 0) nodes
                   else subtract_one resName 0 (set_to (available - quantity)) nodes))"

fun subtractFromNUMAs :: "ResourceList \<Rightarrow> NUMANodeList \<Rightarrow> nat list \<Rightarrow> NUMANodeList outcome" where
  "subtractFromNUMAs [] numaNodes nodes = Ret numaNodes"
| "subtractFromNUMAs ((resName, quantity) # resources) numaNodes nodes =
     (case subtract_one resName quantity numaNodes nodes of
        Panic e \<Rightarrow> Panic e
      | Ret numaNodes' \<Rightarrow> subtractFromNUMAs resources numaNodes' nodes)"

section \<open>Cells of a topology\<close>

definition NameToID :: "string \<Rightarrow> nat option" where
  "NameToID node =
     (if prefix ''node-'' node
      then (case ParseInt 64 (drop 5 node) of None \<Rightarrow> None | Some numaID \<Rightarrow> if numaID < 0 then None else Some (nat numaID))
      else None)"

definition extractCosts :: "(string \<times> i64) list \<Rightarrow> (nat, i64) gomap" where
  "extractCosts costs =
     (if costs = [] then []
      else fold (\<lambda>(name, val) nodeCosts.
        case NameToID name of
          None \<Rightarrow> nodeCosts
        | Some numaID \<Rightarrow> if numaID > maxNUMAId then nodeCosts else AList.update numaID val nodeCosts) costs [])"

definition extractResources :: "Zone \<Rightarrow> ResourceList" where
  "extractResources zone = fold (\<lambda>resInfo res. AList.update (ri_Name resInfo) (ri_Available resInfo) res) (zn_Resources zone) []"

text \<open>The first loop of \<^verbatim>\<open>createNUMANodeList\<close>: the table from identifiers to zones has 64 entries.\<close>

fun numa_zones :: "nat \<Rightarrow> Zone list \<Rightarrow> nat list \<Rightarrow> NUMANodeList \<Rightarrow> (nat list \<times> NUMANodeList) outcome" where
  "numa_zones i [] numaIDToZoneIDx nodes = Ret (numaIDToZoneIDx, nodes)"
| "numa_zones i (zone # zones) numaIDToZoneIDx nodes =
     (if zn_Type zone \<noteq> ''Node'' then numa_zones (Suc i) zones numaIDToZoneIDx nodes
      else (case NameToID (zn_Name zone) of
              None \<Rightarrow> numa_zones (Suc i) zones numaIDToZoneIDx nodes
            | Some numaID \<Rightarrow>
                if numaID > maxNUMAId then numa_zones (Suc i) zones numaIDToZoneIDx nodes
                else if length numaIDToZoneIDx \<le> numaID then Panic index_out_of_range
                else numa_zones (Suc i) zones (numaIDToZoneIDx[numaID := i])
                       (nodes @ [\<lparr>nn_NUMAID = numaID, nn_Resources = extractResources zone, nn_Costs = []\<rparr>])))"

definition createNUMANodeList :: "Zone list \<Rightarrow> NUMANodeList outcome" where
  "createNUMANodeList zones =
     (case numa_zones 0 zones (replicate maxNUMAId 0) [] of
        Panic e \<Rightarrow> Panic e
      | Ret (numaIDToZoneIDx, nodes) \<Rightarrow>
          Ret (map (\<lambda>node. WithCosts (extractCosts (zn_Costs (zones ! (numaIDToZoneIDx ! nn_NUMAID node)))) node) nodes))"

definition onlyNonNUMAResources :: "NUMANodeList \<Rightarrow> ResourceList \<Rightarrow> bool" where
  "onlyNonNUMAResources numaNodes resources =
     list_all (\<lambda>(resourceName, q). list_all (\<lambda>node. \<not> gm_has (nn_Resources node) resourceName) numaNodes) resources"

definition getForeignPodsDetectMode :: "string option option \<Rightarrow> string" where
  "getForeignPodsDetectMode cfg = (case cfg of Some (Some m) \<Rightarrow> m | _ \<Rightarrow> ''All'')"

section \<open>Bit masks\<close>

type_synonym bitMask = "64 word"

definition bm_Add :: "nat \<Rightarrow> bitMask \<Rightarrow> bitMask" where
  "bm_Add i s = (if 64 \<le> i then s else s OR push_bit i 1)"

definition bm_GetBits :: "bitMask \<Rightarrow> nat list" where
  "bm_GetBits s = filter (bit s) [0..<64]"

section \<open>Filter\<close>

definition highestNUMAID :: nat where "highestNUMAID = 8"

text \<open>The cells that suit one request, and whether any cell reports the resource at all.\<close>

fun resource_cells :: "string \<Rightarrow> string \<Rightarrow> quantity \<Rightarrow> NUMANodeList \<Rightarrow> bool \<Rightarrow> bitMask \<Rightarrow> bool \<times> bitMask" where
  "resource_cells qos resource quantity [] hasNUMAAffinity resourceBitmask = (hasNUMAAffinity, resourceBitmask)"
| "resource_cells qos resource quantity (numaNode # numaNodes) hasNUMAAffinity resourceBitmask =
     (case map_of (nn_Resources numaNode) resource of
        None \<Rightarrow> resource_cells qos resource quantity numaNodes hasNUMAAffinity resourceBitmask
      | Some numaQuantity \<Rightarrow>
          resource_cells qos resource quantity numaNodes True
            (if isResourceSetSuitable qos resource quantity numaQuantity then bm_Add (nn_NUMAID numaNode) resourceBitmask
             else resourceBitmask))"

fun available_loop :: "ResourceList \<Rightarrow> string \<Rightarrow> NUMANodeList \<Rightarrow> ResourceList \<Rightarrow> bitMask \<Rightarrow> nat \<times> bool" where
  "available_loop nodeResources qos numaNodes [] bitmask =
     (let numaID = hd (bm_GetBits bitmask) in (numaID, bitmask \<noteq> 0))"
| "available_loop nodeResources qos numaNodes ((resource, quantity) # resources) bitmask =
     (if quantity = 0 then available_loop nodeResources qos numaNodes resources bitmask
      else if \<not> gm_has nodeResources resource then (highestNUMAID, False)
      else (case resource_cells qos resource quantity numaNodes False 0 of
              (hasNUMAAffinity, resourceBitmask) \<Rightarrow>
                if \<not> hasNUMAAffinity \<and> isHostLevelResource resource then available_loop nodeResources qos numaNodes resources bitmask
                else if bitmask AND resourceBitmask = 0 then (highestNUMAID, False)
                else available_loop nodeResources qos numaNodes resources (bitmask AND resourceBitmask)))"

definition resourcesAvailableInAnyNUMANodes :: "NUMANodeList \<Rightarrow> ResourceList \<Rightarrow> string \<Rightarrow> Resource \<Rightarrow> nat \<times> bool" where
  "resourcesAvailableInAnyNUMANodes numaNodes resources qos allocatable =
     available_loop (util_ResourceList allocatable) qos numaNodes resources (- 1)"

fun align_init_containers :: "string \<Rightarrow> Resource \<Rightarrow> NUMANodeList \<Rightarrow> Container list \<Rightarrow> Status" where
  "align_init_containers qos allocatable nodes [] = None"
| "align_init_containers qos allocatable nodes (initContainer # initContainers) =
     (case resourcesAvailableInAnyNUMANodes nodes (c_Requests initContainer) qos allocatable of (_, match) \<Rightarrow>
        if \<not> match then NewStatus Unschedulable ''cannot align init container''
        else align_init_containers qos allocatable nodes initContainers)"

fun align_containers :: "string \<Rightarrow> Resource \<Rightarrow> NUMANodeList \<Rightarrow> Container list \<Rightarrow> Status" where
  "align_containers qos allocatable nodes [] = None"
| "align_containers qos allocatable nodes (container # containers) =
     (case resourcesAvailableInAnyNUMANodes nodes (c_Requests container) qos allocatable of (numaID, match) \<Rightarrow>
        if \<not> match then NewStatus Unschedulable ''cannot align container''
        else (case subtractResourcesFromNUMANodeList nodes numaID qos (c_Requests container) of
                (Some err, _) \<Rightarrow> NewStatus Error ''inconsistent resource accounting''
              | (None, nodes') \<Rightarrow> align_containers qos allocatable nodes' containers))"

definition singleNUMAContainerLevelHandler :: "v1_Pod \<Rightarrow> Zone list \<Rightarrow> Resource \<Rightarrow> Status outcome" where
  "singleNUMAContainerLevelHandler pod zones allocatable =
     (case createNUMANodeList zones of
        Panic e \<Rightarrow> Panic e
      | Ret nodes \<Rightarrow>
          let qos = GetPodQOS pod in
          Ret (case align_init_containers qos allocatable nodes (pod_InitContainers pod) of
                 Some s \<Rightarrow> Some s
               | None \<Rightarrow> align_containers qos allocatable nodes (pod_Containers pod)))"

definition singleNUMAPodLevelHandler :: "v1_Pod \<Rightarrow> Zone list \<Rightarrow> Resource \<Rightarrow> Status outcome" where
  "singleNUMAPodLevelHandler pod zones allocatable =
     (let resources = GetPodEffectiveRequest pod in
      case createNUMANodeList zones of
        Panic e \<Rightarrow> Panic e
      | Ret nodes \<Rightarrow>
          (case resourcesAvailableInAnyNUMANodes nodes resources (GetPodQOS pod) allocatable of (numaID, match) \<Rightarrow>
             Ret (if \<not> match then NewStatus Unschedulable ''cannot align pod'' else None)))"

definition filterHandlerFromTopologyManagerConfig :: "TopologyManagerConfig \<Rightarrow> (v1_Pod \<Rightarrow> Zone list \<Rightarrow> Resource \<Rightarrow> Status outcome) option" where
  "filterHandlerFromTopologyManagerConfig conf =
     (if tmc_Policy conf \<noteq> ''single-numa-node'' then None
      else if tmc_Scope conf = ''pod'' then Some singleNUMAPodLevelHandler
      else if tmc_Scope conf = ''container'' then Some singleNUMAContainerLevelHandler
      else None)"

text \<open>The node is given by its name, nil when there is none, and its allocatable resources.\<close>

definition nrt_Filter ::
  "('s \<Rightarrow> string \<Rightarrow> NodeResourceTopology option \<times> bool) \<Rightarrow> (string \<Rightarrow> 's \<Rightarrow> 's) \<Rightarrow> v1_Pod \<Rightarrow> string option \<Rightarrow> Resource \<Rightarrow> 's \<Rightarrow> (Status \<times> 's) outcome" where
  "nrt_Filter GetCachedNRTCopy NodeMaybeOverReserved pod node allocatable s =
     (case node of
        None \<Rightarrow> Ret (NewStatus Error ''node not found'', s)
      | Some nodeName \<Rightarrow>
          if GetPodQOS pod = ''BestEffort'' \<and> \<not> IncludeNonNative pod then Ret (None, s)
          else (case GetCachedNRTCopy s nodeName of (nodeTopology, ok) \<Rightarrow>
                  if \<not> ok then Ret (NewStatus Unschedulable ''invalid node topology data'', s)
                  else (case nodeTopology of
                          None \<Rightarrow> Ret (None, s)
                        | Some nrt \<Rightarrow>
                            (case filterHandlerFromTopologyManagerConfig (topologyManagerConfigFromNodeResourceTopology nrt) of
                               None \<Rightarrow> Ret (None, s)
                             | Some handler \<Rightarrow>
                                 (case handler pod (nrt_Zones nrt) allocatable of
                                    Panic e \<Rightarrow> Panic e
                                  | Ret status \<Rightarrow>
                                      Ret (status, if status \<noteq> None then NodeMaybeOverReserved nodeName s else s))))))"

section \<open>Reserve, Unreserve and PostBind\<close>

definition nrt_Reserve :: "(string \<Rightarrow> v1_Pod \<Rightarrow> 's \<Rightarrow> 's) \<Rightarrow> v1_Pod \<Rightarrow> string \<Rightarrow> 's \<Rightarrow> Status \<times> 's" where
  "nrt_Reserve ReserveNodeResources pod nodeName s = (NewStatus Success '''', ReserveNodeResources nodeName pod s)"

definition nrt_Unreserve :: "(string \<Rightarrow> v1_Pod \<Rightarrow> 's \<Rightarrow> 's) \<Rightarrow> v1_Pod \<Rightarrow> string \<Rightarrow> 's \<Rightarrow> 's" where
  "nrt_Unreserve UnreserveNodeResources pod nodeName s = UnreserveNodeResources nodeName pod s"

definition nrt_PostBind :: "(string \<Rightarrow> v1_Pod \<Rightarrow> 's \<Rightarrow> 's) \<Rightarrow> v1_Pod \<Rightarrow> string \<Rightarrow> 's \<Rightarrow> 's" where
  "nrt_PostBind PostBind pod nodeName s = PostBind nodeName pod s"

end
