(* ===== verification/Node_Scores.thy ===== *)
theory Node_Scores
  imports Coscheduling_Core
begin

text \<open>
  The two scoring plugins that rank nodes by a number and rescale it: \<^verbatim>\<open>pkg/noderesources\<close>
  (weighted allocatable resources, fewest or most first) and \<^verbatim>\<open>pkg/podstate\<close> (terminating
  pods less nominated pods).  Scores are 64-bit words; sums and products wrap, division
  truncates and panics on zero.  The node snapshot is a parameter.
\<close>

section \<open>Arithmetic\<close>

text \<open>Go's division of int64: truncated, and wrapped where the quotient does not fit.\<close>

definition div64 :: "i64 \<Rightarrow> i64 \<Rightarrow> i64" where
  "div64 a b = word_of_int (sgn (sint a) * sgn (sint b) * (\<bar>sint a\<bar> div \<bar>sint b\<bar>))"

lemma sint_fits: "- (2 ^ 63) \<le> x \<Longrightarrow> x < 2 ^ 63 \<Longrightarrow> sint (word_of_int x :: i64) = x"
  using sint_sbintrunc' [where 'a = 64, of x] by (simp add: signed_take_bit_int_eq_self)

lemma sint_range64: "- (2 ^ 63) \<le> sint (v :: i64)" "sint (v :: i64) < 2 ^ 63"
  using sint_ge [of v] sint_lt [of v] by simp_all

lemma sint_diff_fits: "- (2 ^ 63) \<le> sint a - sint b \<Longrightarrow> sint a - sint b < 2 ^ 63 \<Longrightarrow> sint ((a :: i64) - b) = sint a - sint b"
  using sint_fits [of "sint a - sint b"] by (simp add: of_int_diff)

lemma sint_mult_fits: "- (2 ^ 63) \<le> sint a * sint b \<Longrightarrow> sint a * sint b < 2 ^ 63 \<Longrightarrow> sint ((a :: i64) * b) = sint a * sint b"
  using sint_fits [of "sint a * sint b"] by (simp add: of_int_mult)

lemma sint_inj: "sint (a :: i64) = sint b \<longleftrightarrow> a = b"
  by (metis signed_word_eqI)

section \<open>NodeResourcesAllocatable\<close>

record ScoreNode = SnapNode +
  sn_NonZeroRequested :: Resource

record ResourceSpec =
  rs_Name :: string
  rs_Weight :: i64

record NodeResourcesAllocatableArgs =
  aa_Resources :: "ResourceSpec list"
  aa_Mode :: string

datatype alloc_object = NilArgs | AllocatableArgs NodeResourcesAllocatableArgs | OtherArgs

record Allocatable =
  al_Mode :: string
  al_Weights :: "(string, i64) gomap"

definition defaultResourcesToWeightMap :: "(string, i64) gomap" where
  "defaultResourcesToWeightMap = [(ResourceMemory, 1), (ResourceCPU, 1048576)]"

fun validateResources :: "ResourceSpec list \<Rightarrow> goerror option" where
  "validateResources [] = None"
| "validateResources (r # rs) =
     (if sint (rs_Weight r) \<le> 0
      then Some (''resource Weight of '' @ rs_Name r @ '' should be a positive value'')
      else validateResources rs)"

definition NewAllocatable :: "alloc_object \<Rightarrow> goerror + Allocatable" where
  "NewAllocatable allocArgs =
     (case allocArgs of
        NilArgs \<Rightarrow> Inr \<lparr>al_Mode = ''Least'', al_Weights = defaultResourcesToWeightMap\<rparr>
      | OtherArgs \<Rightarrow> Inl ''want args to be of type NodeResourcesAllocatableArgs''
      | AllocatableArgs args \<Rightarrow>
          if aa_Mode args \<noteq> '''' \<and> aa_Mode args \<noteq> ''Least'' \<and> aa_Mode args \<noteq> ''Most''
          then Inl (''invalid mode, got '' @ aa_Mode args)
          else let mode = (if aa_Mode args \<noteq> '''' then aa_Mode args else ''Least'') in
            if aa_Resources args = [] then Inr \<lparr>al_Mode = mode, al_Weights = defaultResourcesToWeightMap\<rparr>
            else (case validateResources (aa_Resources args) of
                    Some err \<Rightarrow> Inl err
                  | None \<Rightarrow> Inr \<lparr>al_Mode = mode,
                      al_Weights = fold (\<lambda>r m. AList.update (rs_Name r) (rs_Weight r) m) (aa_Resources args) []\<rparr>))"

definition mode_score :: "i64 \<Rightarrow> string \<Rightarrow> i64" where
  "mode_score capacity mode = (if mode = ''Least'' then - 1 * capacity else if mode = ''Most'' then capacity else 0)"

definition resourceScorer :: "(string, i64) gomap \<Rightarrow> string \<Rightarrow> (string, i64) gomap \<Rightarrow> (string, i64) gomap \<Rightarrow> i64 outcome" where
  "resourceScorer resToWeightMap mode requested allocable =
     (case fold (\<lambda>(resource, weight) (nodeScore, weightSum).
             (nodeScore + mode_score (gm_get 0 allocable resource) mode * weight, weightSum + weight)) resToWeightMap (0, 0)
      of (nodeScore, weightSum) \<Rightarrow>
        if weightSum = 0 then Panic ''integer divide by zero'' else Ret (div64 nodeScore weightSum))"

text \<open>\<^verbatim>\<open>schedutil.GetRequestForResource\<close> with \<^verbatim>\<open>nonZero\<close> set.\<close>

definition GetRequestForResource :: "string \<Rightarrow> ResourceList \<Rightarrow> quantity" where
  "GetRequestForResource resourceName requests =
     (if resourceName = ResourceCPU \<and> \<not> gm_has requests ResourceCPU then NewMilliQuantity 100
      else if resourceName = ResourceMemory \<and> \<not> gm_has requests ResourceMemory then NewQuantity 209715200
      else gm_get 0 requests resourceName)"

definition calculatePodResourceRequest :: "v1_Pod \<Rightarrow> string \<Rightarrow> i64" where
  "calculatePodResourceRequest pod resource =
     (let podRequest = fold (\<lambda>c podRequest. podRequest + quantity_Value (GetRequestForResource resource (c_Requests c)))
            (pod_Containers pod) 0;
          podRequest = fold (\<lambda>c podRequest. let value = quantity_Value (GetRequestForResource resource (c_Requests c))
              in if sint podRequest < sint value then value else podRequest) (pod_InitContainers pod) podRequest
      in (case pod_Overhead pod of
            None \<Rightarrow> podRequest
          | Some o' \<Rightarrow> (case map_of o' resource of None \<Rightarrow> podRequest | Some q \<Rightarrow> podRequest + quantity_Value q)))"

definition calculateResourceAllocatableRequest :: "ScoreNode \<Rightarrow> v1_Pod \<Rightarrow> string \<Rightarrow> i64 \<times> i64" where
  "calculateResourceAllocatableRequest nodeInfo pod resource =
     (let podRequest = calculatePodResourceRequest pod resource in
      if resource = ResourceCPU then
        (r_MilliCPU (sn_Allocatable nodeInfo), r_MilliCPU (sn_NonZeroRequested nodeInfo) + podRequest)
      else if resource = ResourceMemory then
        (r_Memory (sn_Allocatable nodeInfo), r_Memory (sn_NonZeroRequested nodeInfo) + podRequest)
      else if resource = ResourceEphemeralStorage then
        (r_EphemeralStorage (sn_Allocatable nodeInfo), r_EphemeralStorage (sn_Requested nodeInfo) + podRequest)
      else if IsScalarResourceName resource then
        (gm_get 0 (r_ScalarResources (sn_Allocatable nodeInfo)) resource,
         gm_get 0 (r_ScalarResources (sn_Requested nodeInfo)) resource + podRequest)
      else (0, 0))"

text \<open>The map of weights is never nil in an \<^verbatim>\<open>Allocatable\<close> made by \<^verbatim>\<open>NewAllocatable\<close>, so the check for nil is
  left out.\<close>

definition scorer_score :: "Allocatable \<Rightarrow> v1_Pod \<Rightarrow> ScoreNode \<Rightarrow> (i64 \<times> Status) outcome" where
  "scorer_score al pod nodeInfo =
     (if \<not> sn_hasNode nodeInfo then Ret (0, NewStatus Error ''node not found'')
      else let requested = map (\<lambda>(resource, w). (resource, snd (calculateResourceAllocatableRequest nodeInfo pod resource))) (al_Weights al);
               allocatable = map (\<lambda>(resource, w). (resource, fst (calculateResourceAllocatableRequest nodeInfo pod resource))) (al_Weights al)
           in (case resourceScorer (al_Weights al) (al_Mode al) requested allocatable of
                 Panic m \<Rightarrow> Panic m
               | Ret score \<Rightarrow> Ret (score, None)))"

definition alloc_Score :: "(string \<Rightarrow> goerror + ScoreNode) \<Rightarrow> Allocatable \<Rightarrow> v1_Pod \<Rightarrow> string \<Rightarrow> (i64 \<times> Status) outcome" where
  "alloc_Score snapshot al pod nodeName =
     (case snapshot nodeName of
        Inl err \<Rightarrow> Ret (0, NewStatus Error (''getting node '' @ nodeName @ '' from Snapshot: '' @ err))
      | Inr nodeInfo \<Rightarrow> scorer_score al pod nodeInfo)"

section \<open>Rescaling\<close>

definition highest_lowest :: "(string \<times> i64) list \<Rightarrow> i64 \<times> i64" where
  "highest_lowest scores =
     fold (\<lambda>(n, s) (highest, lowest). (if sint s > sint highest then s else highest, if sint s < sint lowest then s else lowest))
       scores (- 9223372036854775807, 9223372036854775807)"

definition alloc_NormalizeScore :: "(string \<times> i64) list \<Rightarrow> (string \<times> i64) list" where
  "alloc_NormalizeScore scores =
     (case highest_lowest scores of (highest, lowest) \<Rightarrow>
        let oldRange = highest - lowest; newRange = 100 - 0
        in map (\<lambda>(n, s). (n, if oldRange = 0 then 0 else div64 ((s - lowest) * newRange) oldRange + 0)) scores)"

section \<open>PodState\<close>

definition ps_score :: "(string \<Rightarrow> v1_Pod list) \<Rightarrow> SnapNode \<Rightarrow> (i64 \<times> Status) outcome" where
  "ps_score nominatedPodsForNode nodeInfo =
     (if \<not> sn_hasNode nodeInfo then Panic nil_deref
      else let nominatedPodNum = of_nat (length (nominatedPodsForNode (ni_Name (sn_Info nodeInfo))));
               terminatingPodNum = fold (\<lambda>p n. if pod_DeletionTimestamp p \<noteq> None then n + 1 else n) (ni_Pods (sn_Info nodeInfo)) 0
           in Ret (terminatingPodNum - nominatedPodNum, None))"

definition ps_Score :: "(string \<Rightarrow> goerror + SnapNode) \<Rightarrow> (string \<Rightarrow> v1_Pod list) \<Rightarrow> string \<Rightarrow> (i64 \<times> Status) outcome" where
  "ps_Score snapshot nominatedPodsForNode nodeName =
     (case snapshot nodeName of
        Inl err \<Rightarrow> Ret (0, NewStatus Error (''getting node '' @ nodeName @ '' from Snapshot: '' @ err))
      | Inr nodeInfo \<Rightarrow> ps_score nominatedPodsForNode nodeInfo)"

definition ps_NormalizeScore :: "(string \<times> i64) list \<Rightarrow> (string \<times> i64) list" where
  "ps_NormalizeScore scores =
     (case highest_lowest scores of (highest, lowest) \<Rightarrow>
        let oldRange = highest - lowest; newRange = 100 - 0
        in map (\<lambda>(n, s). (n, if oldRange = 0 then 0 else div64 ((s - lowest) * newRange) oldRange + 0)) scores)"

section \<open>The rescaled scores\<close>

definition hi :: "(string \<times> i64) list \<Rightarrow> int" where
  "hi scores = Max (set (map (sint \<circ> snd) scores))"

definition lo :: "(string \<times> i64) list \<Rightarrow> int" where
  "lo scores = Min (set (map (sint \<circ> snd) scores))"

lemma fold_highest_lowest:
  "fold (\<lambda>(n, s) (h, l). (if sint s > sint h then s else h, if sint s < sint l then s else l)) scores (h, l) = (h', l') \<Longrightarrow>
     sint h' = Max (insert (sint h) (set (map (sint \<circ> snd) scores))) \<and> sint l' = Min (insert (sint l) (set (map (sint \<circ> snd) scores)))"
proof (induction scores arbitrary: h l)
  case (Cons x scores)
  obtain n s where x: "x = (n, s)" by (cases x)
  let ?S = "set (map (sint \<circ> snd) scores)"
  have "Max (insert a (insert b S)) = Max (insert (max a b) S)" "Min (insert a (insert b S)) = Min (insert (min a b) S)"
    if "finite S" for a b :: int and S
    using that by (cases "S = {}"; simp add: max.assoc min.assoc)+
  from this [of ?S "sint s"] show ?case using Cons.IH [of "if sint s > sint h then s else h" "if sint s < sint l then s else l"] Cons.prems
    by (auto simp: x max_def min_def insert_commute split: if_splits)
qed simp

lemma highest_lowest_Max:
  assumes "scores \<noteq> []" "list_all (\<lambda>(n, s). - (2 ^ 63) < sint s) scores" "highest_lowest scores = (h, l)"
  shows "sint h = hi scores \<and> sint l = lo scores"
proof -
  let ?S = "set (map (sint \<circ> snd) scores)"
  have S: "finite ?S" "?S \<noteq> {}" using assms(1) by simp_all
  have m: "sint (- 9223372036854775807 :: i64) = - 9223372036854775807" "sint (9223372036854775807 :: i64) = 9223372036854775807"
    by simp_all
  have "- 9223372036854775807 \<le> sint s" if "(n, s) \<in> set scores" for n s
    using assms(2) that by (force simp: list_all_iff)
  then have lb: "- 9223372036854775807 \<le> x" if "x \<in> ?S" for x using that by auto
  have "sint s \<le> 9223372036854775807" for s :: i64 using sint_range64(2) [of s] by simp
  then have ub: "x \<le> 9223372036854775807" if "x \<in> ?S" for x using that by auto
  have "Max (insert (- 9223372036854775807) ?S) = Max ?S"
    using Max_insert [OF S] max_absorb2 [OF lb [OF Max_in [OF S]]] by (rule trans)
  moreover have "Min (insert 9223372036854775807 ?S) = Min ?S"
    using Min_insert [OF S] min_absorb2 [OF ub [OF Min_in [OF S]]] by (rule trans)
  ultimately show ?thesis
    using fold_highest_lowest [OF assms(3) [unfolded highest_lowest_def]] by (simp only: m hi_def lo_def)
qed

lemma hi_lo: "(n, s) \<in> set scores \<Longrightarrow> lo scores \<le> sint s \<and> sint s \<le> hi scores"
  by (force simp: hi_def lo_def intro: Max_ge Min_le)

lemma rescaled_entry:
  assumes "0 \<le> sint s - l" "sint s \<le> h" "l < h" "(h - l) * 100 < 2 ^ 63" "sint hw = h" "sint lw = l"
  shows "sint (div64 ((s - lw) * 100) (hw - lw)) = (sint s - l) * 100 div (h - l)"
    and "(sint s - l) * 100 div (h - l) \<le> 100" "0 \<le> (sint s - l) * 100 div (h - l)"
proof -
  have le: "sint s - l \<le> h - l" using assms(2) by simp
  have d: "sint (s - lw) = sint s - l" using assms le by (subst sint_diff_fits) auto
  have r: "sint (hw - lw) = h - l" using assms by (subst sint_diff_fits) auto
  have p: "sint ((s - lw) * 100) = (sint s - l) * 100" using assms le by (subst sint_mult_fits) (auto simp: d)
  have q: "(sint s - l) * 100 div (h - l) \<le> (h - l) * 100 div (h - l)" using assms(3) le by (intro zdiv_mono1) auto
  also have "\<dots> = 100" using assms(3) nonzero_mult_div_cancel_left [of "h - l" 100] by (simp only: right_minus_eq)
  finally show u: "(sint s - l) * 100 div (h - l) \<le> 100" .
  show z: "0 \<le> (sint s - l) * 100 div (h - l)" using assms(1,3) by (simp add: pos_imp_zdiv_nonneg_iff)
  have "sgn ((sint s - l) * 100) * sgn (h - l) * (\<bar>(sint s - l) * 100\<bar> div \<bar>h - l\<bar>) = (sint s - l) * 100 div (h - l)"
    using assms(1,3) by (cases "sint s = l") (simp_all add: sgn_mult)
  then have "div64 ((s - lw) * 100) (hw - lw) = word_of_int ((sint s - l) * 100 div (h - l))"
    by (simp only: div64_def p r)
  then show "sint (div64 ((s - lw) * 100) (hw - lw)) = (sint s - l) * 100 div (h - l)"
    using u z by (simp add: sint_fits)
qed

lemma alloc_NormalizeScore_spec:
  assumes "list_all (\<lambda>(n, s). - (2 ^ 63) < sint s) scores" "(hi scores - lo scores) * 100 < 2 ^ 63"
  shows "map fst (alloc_NormalizeScore scores) = map fst scores"
    and "map (sint \<circ> snd) (alloc_NormalizeScore scores) =
      map (\<lambda>(n, s). if hi scores = lo scores then 0 else (sint s - lo scores) * 100 div (hi scores - lo scores)) scores"
proof -
  obtain h l where hl: "highest_lowest scores = (h, l)" by (cases "highest_lowest scores")
  show "map fst (alloc_NormalizeScore scores) = map fst scores"
    by (simp add: alloc_NormalizeScore_def hl case_prod_beta comp_def)
  have "sint (if h - l = 0 then 0 else div64 ((s - l) * 100) (h - l))
      = (if hi scores = lo scores then 0 else (sint s - lo scores) * 100 div (hi scores - lo scores))" if "(n, s) \<in> set scores" for n s
  proof -
    have m: "sint h = hi scores" "sint l = lo scores" using highest_lowest_Max [OF _ assms(1) hl] that by (metis list.set_cases list.distinct(1))+
    have b: "lo scores \<le> sint s" "sint s \<le> hi scores" using hi_lo [OF that] by simp_all
    have eq: "h - l = 0 \<longleftrightarrow> hi scores = lo scores" using sint_inj [of h l] by (simp add: m)
    show ?thesis
    proof (cases "hi scores = lo scores")
      case False
      then show ?thesis using rescaled_entry(1) [of s "lo scores" "hi scores" h l] b m assms(2) eq by simp
    qed (use eq in simp)
  qed
  then show "map (sint \<circ> snd) (alloc_NormalizeScore scores) =
      map (\<lambda>(n, s). if hi scores = lo scores then 0 else (sint s - lo scores) * 100 div (hi scores - lo scores)) scores"
    by (auto simp: alloc_NormalizeScore_def hl Let_def)
qed

section \<open>The score of a node\<close>

definition weights_ok :: "(string, i64) gomap \<Rightarrow> bool" where
  "weights_ok ws = (ws \<noteq> [] \<and> list_all (\<lambda>(r, w). 0 < sint w) ws \<and> sum_list (map (\<lambda>(r, w). sint w) ws) < 2 ^ 63)"

definition wsum :: "(string, i64) gomap \<Rightarrow> (string \<Rightarrow> i64) \<Rightarrow> int" where
  "wsum ws v = sum_list (map (\<lambda>(r, w). sint (v r) * sint w) ws)"

lemma scorer_fold:
  "fold (\<lambda>(r, w) (n, t). (n + mode_score (v r) m * w, t + w)) ws (n, t) =
     (n + word_of_int (wsum ws (\<lambda>r. mode_score (v r) m)), t + word_of_int (sum_list (map (\<lambda>(r, w). sint w) ws)))"
  by (induction ws arbitrary: n t) (auto simp: wsum_def algebra_simps of_int_mult)

lemma weights_pos: "weights_ok ws \<Longrightarrow> 0 < sum_list (map (\<lambda>(r, w). sint w) ws)"
proof -
  have "0 \<le> sum_list (map (\<lambda>(r, w). sint w) ws)" if "list_all (\<lambda>(r, w). 0 < sint w) ws" for ws :: "(string, i64) gomap"
    using that by (induction ws) auto
  then show "weights_ok ws \<Longrightarrow> 0 < sum_list (map (\<lambda>(r, w). sint w) ws)"
    by (cases ws) (force simp: weights_ok_def)+
qed

lemma wsum_mono:
  "list_all (\<lambda>(r, w). 0 < sint w) ws \<Longrightarrow> list_all (\<lambda>(r, w). sint (u r) \<le> sint (v r)) ws \<Longrightarrow> wsum ws u \<le> wsum ws v"
  by (induction ws) (auto simp: wsum_def intro: add_mono mult_right_mono)

lemma wsum_nonneg: "list_all (\<lambda>(r, w). 0 < sint w) ws \<Longrightarrow> list_all (\<lambda>(r, w). 0 \<le> sint (v r)) ws \<Longrightarrow> 0 \<le> wsum ws v"
  by (induction ws) (auto simp: wsum_def)

lemma wsum_minus:
  "list_all (\<lambda>(r, w). 0 \<le> sint (v r)) ws \<Longrightarrow> wsum ws (\<lambda>r. - v r) = - wsum ws v"
proof (induction ws)
  case (Cons x ws)
  obtain r w where x: "x = (r, w)" by (cases x)
  have "sint (- v r) = - sint (v r)"
    using Cons.prems sint_range64(2) [of "v r"] sint_fits [of "- sint (v r)"] by (simp add: x of_int_minus)
  then show ?case using Cons by (simp add: wsum_def x)
qed (simp add: wsum_def)

lemma scorer_value:
  assumes "weights_ok ws" "list_all (\<lambda>(r, w). 0 \<le> sint (v r)) ws" "wsum ws v < 2 ^ 63"
    and "list_all (\<lambda>(r, w). gm_get 0 al r = v r) ws"
  shows "\<exists>s. resourceScorer ws ''Most'' req al = Ret s \<and> sint s = wsum ws v div sum_list (map (\<lambda>(r, w). sint w) ws)"
    and "\<exists>s. resourceScorer ws ''Least'' req al = Ret s \<and> sint s = - (wsum ws v div sum_list (map (\<lambda>(r, w). sint w) ws))"
proof -
  let ?W = "sum_list (map (\<lambda>(r, w). sint w) ws)"
  have W: "0 < ?W" "?W < 2 ^ 63" using weights_pos [OF assms(1)] assms(1) by (simp_all add: weights_ok_def)
  have z: "0 \<le> wsum ws v" using assms(1,2) wsum_nonneg by (simp add: weights_ok_def)
  have q: "0 \<le> wsum ws v div ?W" "wsum ws v div ?W < 2 ^ 63"
    using z W(1) assms(3) zdiv_mono2 [of "wsum ws v" 1 ?W] by (simp_all add: pos_imp_zdiv_nonneg_iff)
  have sW: "sint (word_of_int ?W :: i64) = ?W" using W by (simp add: sint_fits)
  have W0: "(word_of_int ?W :: i64) \<noteq> 0" using sW W(1) by (metis less_irrefl sint_0)
  have f: "fold (\<lambda>(r, w) (n, t). (n + mode_score (gm_get 0 al r) m * w, t + w)) ws (0, 0) =
     (word_of_int (wsum ws (\<lambda>r. mode_score (v r) m)), word_of_int ?W)" for m
  proof -
    have "fold (\<lambda>(r, w) (n, t). (n + mode_score (gm_get 0 al r) m * w, t + w)) ws (0, 0)
      = fold (\<lambda>(r, w) (n, t). (n + mode_score (v r) m * w, t + w)) ws (0, 0)"
      using assms(4) by (intro fold_cong) (auto simp: list_all_iff)
    then show ?thesis by (simp add: scorer_fold)
  qed
  have r: "resourceScorer ws m req al = Ret (div64 (word_of_int (wsum ws (\<lambda>r. mode_score (v r) m))) (word_of_int ?W))" for m
    using W0 by (simp add: resourceScorer_def f)
  have ms: "(\<lambda>r. mode_score (v r) ''Most'') = v" "(\<lambda>r. mode_score (v r) ''Least'') = (\<lambda>r. - v r)"
    by (simp_all add: mode_score_def)
  have dv: "div64 (word_of_int x) (word_of_int ?W) = word_of_int (sgn x * (\<bar>x\<bar> div ?W))" if "- (2 ^ 63) \<le> x" "x < 2 ^ 63" for x
    using W(1) by (simp only: div64_def sW sint_fits [OF that] sgn_1_pos [of ?W, THEN iffD2] abs_of_pos mult_1_right)
  have "div64 (word_of_int (wsum ws v)) (word_of_int ?W) = word_of_int (wsum ws v div ?W)"
    using dv [of "wsum ws v"] z assms(3) by (cases "wsum ws v = 0") simp_all
  then show "\<exists>s. resourceScorer ws ''Most'' req al = Ret s \<and> sint s = wsum ws v div ?W"
    using q by (simp add: r ms sint_fits)
  have "div64 (word_of_int (- wsum ws v)) (word_of_int ?W) = word_of_int (- (wsum ws v div ?W))"
    using dv [of "- wsum ws v"] z assms(3) by (cases "wsum ws v = 0") simp_all
  then show "\<exists>s. resourceScorer ws ''Least'' req al = Ret s \<and> sint s = - (wsum ws v div ?W)"
    using q sint_fits [of "- (wsum ws v div ?W)"] by (simp add: r ms wsum_minus [OF assms(2)])
qed

definition allocatable_of :: "ScoreNode \<Rightarrow> string \<Rightarrow> i64" where
  "allocatable_of nodeInfo resource = fst (calculateResourceAllocatableRequest nodeInfo zero_pod resource)"

lemma fst_allocatable: "fst (calculateResourceAllocatableRequest nodeInfo pod resource) = allocatable_of nodeInfo resource"
  by (simp add: allocatable_of_def calculateResourceAllocatableRequest_def Let_def)

lemma gm_get_built: "list_all (\<lambda>(r, w). gm_get 0 (map (\<lambda>(r, w). (r, f r)) ws) r = f r) ws"
proof -
  have "gm_get 0 (map (\<lambda>(r, w). (r, f r)) ws) k = (if k \<in> fst ` set ws then f k else 0)" for k
    by (induction ws) force+
  then show ?thesis by (force simp: list_all_iff)
qed

lemma scorer_score_value:
  assumes "weights_ok (al_Weights al)" "list_all (\<lambda>(r, w). 0 \<le> sint (allocatable_of nd r)) (al_Weights al)"
    and "wsum (al_Weights al) (allocatable_of nd) < 2 ^ 63" "sn_hasNode nd" "al_Mode al = ''Least'' \<or> al_Mode al = ''Most''"
  shows "\<exists>s. scorer_score al pod nd = Ret (s, None) \<and> sint s = (if al_Mode al = ''Least'' then -1 else 1) *
    (wsum (al_Weights al) (allocatable_of nd) div sum_list (map (\<lambda>(r, w). sint w) (al_Weights al)))"
proof -
  note v = scorer_value [OF assms(1-3) gm_get_built, of "map (\<lambda>(r, w). (r, snd (calculateResourceAllocatableRequest nd pod r))) (al_Weights al)"]
  show ?thesis
  proof (cases "al_Mode al = ''Least''")
    case True
    then show ?thesis using v(2) assms(4) by (auto simp: scorer_score_def fst_allocatable)
  next
    case False
    then show ?thesis using v(1) assms(4,5) by (auto simp: scorer_score_def fst_allocatable)
  qed
qed

end
