(* ===== verification/Float64.thy ===== *)
theory Float64
  imports Prelude Complex_Main
begin

text \<open>
  Go's float64 and float32 as far as the scoring plugins use them: a finite float is the rational
  number it stands for, and every operation rounds its exact result to 53 or 24 significant bits,
  to the nearest and in a tie to the even significand.  The exponent is not bounded: the scores
  and loads of the plugins stay far from the largest and the smallest float, and no operation
  here divides by zero.
\<close>

section \<open>Rounding\<close>

definition rne :: "rat \<Rightarrow> int" where
  "rne x = (let n = \<lfloor>x\<rfloor>; f = x - of_int n in
     if f < 1/2 then n else if f > 1/2 then n + 1 else if even n then n else n + 1)"

fun bit_length :: "nat \<Rightarrow> nat" where
  "bit_length n = (if n = 0 then 0 else Suc (bit_length (n div 2)))"

declare bit_length.simps [simp del]

text \<open>The exponent \<open>e\<close> of a positive number \<open>x\<close>, with \<open>2\<^sup>e \<le> x < 2\<^sup>e\<^sup>+\<^sup>1\<close>.\<close>

definition fexp :: "rat \<Rightarrow> int" where
  "fexp x = (case quotient_of x of (p, q) \<Rightarrow>
     let e = int (bit_length (nat p)) - int (bit_length (nat q))
     in if power_int 2 e \<le> x then e else e - 1)"

text \<open>Rounding a positive number, and any number, to one more significant bit than given.\<close>

definition roundp :: "nat \<Rightarrow> rat \<Rightarrow> rat" where
  "roundp b x = (let u = power_int 2 (fexp x - int b) in of_int (rne (x / u)) * u)"

definition fround :: "nat \<Rightarrow> rat \<Rightarrow> rat" where
  "fround b x = (if x = 0 then 0 else if x < 0 then - roundp b (- x) else roundp b x)"

definition f64 :: "rat \<Rightarrow> rat" where
  "f64 x = fround 52 x"

definition f32 :: "rat \<Rightarrow> rat" where
  "f32 x = fround 23 x"

text \<open>Conversions: an int64 to the nearest float64, and back by cutting off the fraction.\<close>

definition f64_of_int :: "i64 \<Rightarrow> rat" where
  "f64_of_int v = f64 (of_int (sint v))"

definition int64_of_f64 :: "rat \<Rightarrow> i64" where
  "int64_of_f64 x = word_of_int (if x < 0 then - \<lfloor>- x\<rfloor> else \<lfloor>x\<rfloor>)"

definition f64_mult :: "rat \<Rightarrow> rat \<Rightarrow> rat" where
  "f64_mult x y = f64 (x * y)"

definition f64_div :: "rat \<Rightarrow> rat \<Rightarrow> rat" where
  "f64_div x y = f64 (x / y)"

definition f64_add :: "rat \<Rightarrow> rat \<Rightarrow> rat" where
  "f64_add x y = f64 (x + y)"

definition f64_sub :: "rat \<Rightarrow> rat \<Rightarrow> rat" where
  "f64_sub x y = f64 (x - y)"

section \<open>Laws of rounding\<close>

lemma rne_bounds: "\<lfloor>x\<rfloor> \<le> rne x" "rne x \<le> \<lfloor>x\<rfloor> + 1"
  by (auto simp: rne_def Let_def)

lemma rne_mono: "x \<le> y \<Longrightarrow> rne x \<le> rne y"
proof -
  assume xy: "x \<le> y"
  then have le: "\<lfloor>x\<rfloor> \<le> \<lfloor>y\<rfloor>" by (rule floor_mono)
  show ?thesis
  proof (cases "\<lfloor>x\<rfloor> = \<lfloor>y\<rfloor>")
    case True
    then show ?thesis using xy by (auto simp: rne_def Let_def)
  next
    case False
    then have "\<lfloor>x\<rfloor> + 1 \<le> \<lfloor>y\<rfloor>" using le by simp
    then show ?thesis using rne_bounds(2) [of x] rne_bounds(1) [of y] by linarith
  qed
qed

lemma rne_of_int [simp]: "rne (of_int n) = n"
  by (simp add: rne_def)

lemma bit_length_bounds: "0 < n \<Longrightarrow> 2 ^ bit_length n \<le> 2 * n \<and> n < 2 ^ bit_length n"
proof (induction n rule: bit_length.induct)
  case (1 n)
  show ?case
  proof (cases "n div 2 = 0")
    case True
    then have "n = 1" using 1 by auto
    then show ?thesis by (simp add: bit_length.simps)
  next
    case False
    then have "2 ^ bit_length (n div 2) \<le> 2 * (n div 2) \<and> n div 2 < 2 ^ bit_length (n div 2)" using 1 by auto
    then show ?thesis using 1 by (subst (1 2) bit_length.simps) auto
  qed
qed

lemma fexp_bounds:
  assumes "0 < x"
  shows "power_int 2 (fexp x) \<le> x" "x < power_int 2 (fexp x + 1)"
proof -
  obtain p q where pq: "quotient_of x = (p, q)" by (cases "quotient_of x")
  have q: "0 < q" using quotient_of_denom_pos [OF pq] .
  have x: "x = of_int p / of_int q" using quotient_of_div [OF pq] .
  have p: "0 < p" using assms q x by (simp add: zero_less_divide_iff)
  let ?a = "bit_length (nat p)" and ?b = "bit_length (nat q)"
  let ?e = "int ?a - int ?b"
  have a: "(2 :: nat) ^ ?a \<le> 2 * nat p" "nat p < 2 ^ ?a" using bit_length_bounds [of "nat p"] p by auto
  have b: "(2 :: nat) ^ ?b \<le> 2 * nat q" "nat q < 2 ^ ?b" using bit_length_bounds [of "nat q"] q by auto
  have "rat_of_nat (2 ^ ?a) \<le> rat_of_nat (2 * nat p)" "rat_of_nat (nat p) < rat_of_nat (2 ^ ?a)"
    "rat_of_nat (2 ^ ?b) \<le> rat_of_nat (2 * nat q)" "rat_of_nat (nat q) < rat_of_nat (2 ^ ?b)"
    using a b by (simp_all only: of_nat_le_iff of_nat_less_iff)
  then have r: "2 ^ ?a \<le> 2 * rat_of_int p" "rat_of_int p < 2 ^ ?a" "2 ^ ?b \<le> 2 * rat_of_int q" "rat_of_int q < 2 ^ ?b"
    using p q by simp_all
  have e: "power_int 2 ?e = (2 ^ ?a / 2 ^ ?b :: rat)" by (simp add: power_int_diff)
  have up: "x < power_int 2 (?e + 1)"
  proof -
    have "x < 2 ^ ?a / rat_of_int q" using r(2) q by (simp add: x divide_strict_right_mono)
    also have "\<dots> \<le> 2 ^ ?a / (2 ^ ?b / 2)" using r(3) by (intro divide_left_mono) (simp_all add: q)
    finally show ?thesis by (simp add: power_int_add e)
  qed
  have lo: "power_int 2 (?e - 1) \<le> x"
  proof -
    have "(2 ^ ?a / 2) / 2 ^ ?b \<le> rat_of_int p / 2 ^ ?b" using r(1) by (intro divide_right_mono) simp_all
    also have "\<dots> \<le> x" using r(4) p q by (simp add: x divide_left_mono)
    finally show ?thesis by (simp add: power_int_diff)
  qed
  show "power_int 2 (fexp x) \<le> x" using lo by (simp add: fexp_def pq Let_def)
  show "x < power_int 2 (fexp x + 1)" using up by (simp add: fexp_def pq Let_def not_le)
qed

lemma pow2_mono: "a \<le> b \<Longrightarrow> (power_int 2 a :: rat) \<le> power_int 2 b"
  by (rule power_int_increasing) simp_all

lemma fexp_mono:
  assumes "0 < x" "x \<le> y"
  shows "fexp x \<le> fexp y"
proof (rule ccontr)
  assume "\<not> fexp x \<le> fexp y"
  then have "(power_int 2 (fexp y + 1) :: rat) \<le> power_int 2 (fexp x)" by (intro pow2_mono) simp
  then show False using fexp_bounds(1) [of x] fexp_bounds(2) [of y] assms by linarith
qed

lemma pow2_split: "(power_int 2 (a + b) :: rat) = power_int 2 a * power_int 2 b"
  by (simp add: power_int_add)

text \<open>A rounded number keeps its power of two below and may reach the one above.\<close>

lemma roundp_bounds:
  assumes "0 < x"
  shows "power_int 2 (fexp x) \<le> roundp b x" "roundp b x \<le> power_int 2 (fexp x + 1)"
proof -
  let ?u = "power_int 2 (fexp x - int b) :: rat"
  have u: "0 < ?u" by simp
  have p: "power_int 2 (fexp x) = of_int (2 ^ b) * ?u" "power_int 2 (fexp x + 1) = of_int (2 ^ Suc b) * ?u"
    using pow2_split [of "int b" "fexp x - int b"] pow2_split [of "int (Suc b)" "fexp x - int b"] by (simp_all add: add.commute power_int_add)
  have "of_int (2 ^ b) \<le> x / ?u" using fexp_bounds(1) [OF assms] u by (simp only: p pos_le_divide_eq)
  then have "rne (of_int (2 ^ b)) \<le> rne (x / ?u)" by (rule rne_mono)
  then have lo: "(2 ^ b :: int) \<le> rne (x / ?u)" by (simp only: rne_of_int)
  have "x / ?u \<le> of_int (2 ^ Suc b)" using fexp_bounds(2) [OF assms] u by (simp only: p pos_divide_le_eq less_imp_le)
  then have "rne (x / ?u) \<le> rne (of_int (2 ^ Suc b))" by (rule rne_mono)
  then have hi: "rne (x / ?u) \<le> (2 ^ Suc b :: int)" by (simp only: rne_of_int)
  show "power_int 2 (fexp x) \<le> roundp b x"
    using lo u by (simp only: p roundp_def Let_def of_int_le_iff mult_le_cancel_right_pos)
  show "roundp b x \<le> power_int 2 (fexp x + 1)"
    using hi u by (simp only: p roundp_def Let_def of_int_le_iff mult_le_cancel_right_pos)
qed

lemma roundp_mono:
  assumes "0 < x" "x \<le> y"
  shows "roundp b x \<le> roundp b y"
proof (cases "fexp x = fexp y")
  case True
  have "rne (x / power_int 2 (fexp y - int b)) \<le> rne (y / power_int 2 (fexp y - int b))"
    using assms(2) by (intro rne_mono divide_right_mono) simp_all
  then show ?thesis by (simp add: roundp_def True Let_def)
next
  case False
  then have "fexp x + 1 \<le> fexp y" using fexp_mono [OF assms] by simp
  then have "(power_int 2 (fexp x + 1) :: rat) \<le> power_int 2 (fexp y)" by (rule pow2_mono)
  then show ?thesis using roundp_bounds(2) [OF assms(1), of b] roundp_bounds(1) [of y b] assms by linarith
qed

lemma fround_0 [simp]: "fround b 0 = 0"
  by (simp add: fround_def)

lemma fround_pos: "0 < x \<Longrightarrow> 0 < fround b x"
  using less_le_trans [OF zero_less_power_int [of "2 :: rat" "fexp x"] roundp_bounds(1) [of x]] by (simp add: fround_def)

lemma fround_mono: "x \<le> y \<Longrightarrow> fround b x \<le> fround b y"
proof -
  assume xy: "x \<le> y"
  consider "0 < x" | "x \<le> 0" "0 \<le> y" | "y < 0" by linarith
  then show ?thesis
  proof cases
    case 1
    then show ?thesis using roundp_mono [OF 1 xy] xy by (simp add: fround_def)
  next
    case 2
    have "fround b x \<le> 0" using fround_pos [of "- x" b] 2(1) by (cases "x = 0") (simp_all add: fround_def)
    moreover have "0 \<le> fround b y" using fround_pos [of y b] 2(2) by (cases "y = 0") simp_all
    ultimately show ?thesis by linarith
  next
    case 3
    then show ?thesis using roundp_mono [of "- y" "- x"] xy by (simp add: fround_def)
  qed
qed

lemma roundp_int:
  assumes "0 < n" "n < 2 ^ Suc b"
  shows "roundp b (of_int n) = of_int n"
proof -
  let ?x = "of_int n :: rat"
  have x: "0 < ?x" using assms(1) by simp
  have "fexp ?x \<le> int b"
  proof (rule ccontr)
    assume "\<not> fexp ?x \<le> int b"
    then have "(power_int 2 (int (Suc b)) :: rat) \<le> power_int 2 (fexp ?x)" by (intro pow2_mono) simp
    then have "rat_of_int (2 ^ Suc b) \<le> of_int n" using fexp_bounds(1) [OF x] by (simp add: power_int_add)
    then show False using assms(2) by (simp only: of_int_le_iff)
  qed
  then obtain k where k: "int b - fexp ?x = int k" by (metis diff_ge_0_iff_ge nonneg_int_cases)
  then have "fexp ?x - int b = - int k" by simp
  then have u: "power_int 2 (fexp ?x - int b) = (1 / 2 ^ k :: rat)" by (simp add: power_int_minus divide_inverse)
  then have "?x / power_int 2 (fexp ?x - int b) = of_int (n * 2 ^ k)" by simp
  then have "rne (?x / power_int 2 (fexp ?x - int b)) = n * 2 ^ k" by (simp only: rne_of_int)
  then show ?thesis by (simp only: roundp_def Let_def u) simp
qed

lemma fround_int: "\<bar>n\<bar> < 2 ^ Suc b \<Longrightarrow> fround b (of_int n) = of_int n"
  using roundp_int [of n] roundp_int [of "- n"] by (cases "n = 0") (auto simp: fround_def)

lemmas f64_0 [simp] = fround_0 [of 52, folded f64_def]
lemmas f64_mono = fround_mono [of _ _ 52, folded f64_def]
lemmas f64_pos = fround_pos [of _ 52, folded f64_def]

lemma f64_int: "\<bar>n\<bar> < 2 ^ 53 \<Longrightarrow> f64 (of_int n) = of_int n"
  using fround_int [of n 52] by (simp add: f64_def)

lemmas f32_0 [simp] = fround_0 [of 23, folded f32_def]
lemmas f32_mono = fround_mono [of _ _ 23, folded f32_def]

lemma f32_int: "\<bar>n\<bar> < 2 ^ 24 \<Longrightarrow> f32 (of_int n) = of_int n"
  using fround_int [of n 23] by (simp add: f32_def)

end
