(* ===== verification/Nrt_Score.thy ===== *)
theory Nrt_Score
  imports Nrt_Filter Node_Scores Float64
begin

unbundle bit_operations_syntax

text \<open>
  The scores of the NodeResourceTopologyMatch plugin: the three strategies that score every cell
  (\<^verbatim>\<open>least_allocated.go\<close>, \<^verbatim>\<open>most_allocated.go\<close>, \<^verbatim>\<open>balanced_allocation.go\<close>), the one that counts cells
  (\<^verbatim>\<open>least_numa.go\<close>), and the dispatch between them (\<^verbatim>\<open>score.go\<close>).

  Scores are 64-bit words.  The distance of cells is a float32, the balance of an allocation a
  float64; the vendored mean and variance of gonum are written out over rounded rationals.  What
  Go's conversion of NaN to int64 gives depends on the platform and is an argument.
\<close>

section \<open>Weights\<close>

definition MaxNodeScore :: i64 where "MaxNodeScore = 100"
definition MinNodeScore :: i64 where "MinNodeScore = 0"

definition nrt_weight :: "(string, i64) gomap \<Rightarrow> string \<Rightarrow> i64" where
  "nrt_weight rw r = (case map_of rw r of None \<Rightarrow> 1 | Some w \<Rightarrow> if sint w < 1 then 1 else w)"

definition go_div :: "i64 \<Rightarrow> i64 \<Rightarrow> i64 outcome" where
  "go_div a b = (if b = 0 then Panic ''integer divide by zero'' else Ret (div64 a b))"

section \<open>Scoring one cell\<close>

definition leastAllocatedScore :: "quantity \<Rightarrow> quantity \<Rightarrow> i64 outcome" where
  "leastAllocatedScore requested numaCapacity =
     (if numaCapacity = 0 then Ret 0
      else if requested > numaCapacity then Ret 0
      else go_div ((quantity_Value numaCapacity - quantity_Value requested) * MaxNodeScore) (quantity_Value numaCapacity))"

definition mostAllocatedScore :: "quantity \<Rightarrow> quantity \<Rightarrow> i64 outcome" where
  "mostAllocatedScore requested numaCapacity =
     (if numaCapacity = 0 then Ret 0
      else if requested > numaCapacity then Ret 0
      else go_div (quantity_Value requested * MaxNodeScore) (quantity_Value numaCapacity))"

text \<open>The loop that the two strategies share: a resource that the cell does not report has
  capacity 0.\<close>

fun weighted_scores :: "(quantity \<Rightarrow> quantity \<Rightarrow> i64 outcome) \<Rightarrow> ResourceList \<Rightarrow> (string, i64) gomap \<Rightarrow> ResourceList \<Rightarrow> i64 \<Rightarrow> i64 \<Rightarrow> (i64 \<times> i64) outcome" where
  "weighted_scores score allocatable weights [] numaNodeScore weightSum = Ret (numaNodeScore, weightSum)"
| "weighted_scores score allocatable weights ((resourceName, q) # requested) numaNodeScore weightSum =
     (case score q (gm_get 0 allocatable resourceName) of
        Panic e \<Rightarrow> Panic e
      | Ret resourceScore \<Rightarrow>
          let weight = nrt_weight weights resourceName in
          weighted_scores score allocatable weights requested (numaNodeScore + resourceScore * weight) (weightSum + weight))"

definition leastAllocatedScoreStrategy :: "ResourceList \<Rightarrow> ResourceList \<Rightarrow> (string, i64) gomap \<Rightarrow> i64 outcome" where
  "leastAllocatedScoreStrategy requested allocatable weights =
     (case weighted_scores leastAllocatedScore allocatable weights requested 0 0 of
        Panic e \<Rightarrow> Panic e
      | Ret (numaNodeScore, weightSum) \<Rightarrow> go_div numaNodeScore weightSum)"

definition mostAllocatedScoreStrategy :: "ResourceList \<Rightarrow> ResourceList \<Rightarrow> (string, i64) gomap \<Rightarrow> i64 outcome" where
  "mostAllocatedScoreStrategy requested allocatable weights =
     (case weighted_scores mostAllocatedScore allocatable weights requested 0 0 of
        Panic e \<Rightarrow> Panic e
      | Ret (numaNodeScore, weightSum) \<Rightarrow> go_div numaNodeScore weightSum)"

definition fractionOfCapacity :: "quantity \<Rightarrow> quantity \<Rightarrow> rat" where
  "fractionOfCapacity requested capacity =
     (if quantity_Value capacity = 0 then 1
      else f64_div (f64_of_int (quantity_Value requested)) (f64_of_int (quantity_Value capacity)))"

text \<open>The sum, mean and variance of gonum without weights; None is NaN.\<close>

definition stat_Sum :: "rat list \<Rightarrow> rat" where
  "stat_Sum xs = fold (\<lambda>v sum. f64_add sum v) xs 0"

definition stat_Mean :: "rat list \<Rightarrow> rat option" where
  "stat_Mean xs = (if xs = [] then None else Some (f64_div (stat_Sum xs) (of_nat (length xs))))"

definition stat_Variance :: "rat list \<Rightarrow> rat option" where
  "stat_Variance xs =
     (case stat_Mean xs of
        None \<Rightarrow> None
      | Some mean \<Rightarrow>
          let (ss, compensation) = fold (\<lambda>v (ss, compensation).
                let d = f64_sub v mean in (f64_add ss (f64_mult d d), f64_add compensation d)) xs (0, 0);
              unnormalisedVariance = f64_sub ss (f64_div (f64_mult compensation compensation) (of_nat (length xs)))
          in if length xs = 1 then None else Some (f64_div unnormalisedVariance (of_nat (length xs) - 1)))"

text \<open>The first fraction above 1 ends the loop; None is that early return.\<close>

fun resource_fractions :: "ResourceList \<Rightarrow> ResourceList \<Rightarrow> rat list \<Rightarrow> rat list option" where
  "resource_fractions allocatable [] resourceFractions = Some resourceFractions"
| "resource_fractions allocatable ((resourceName, q) # requested) resourceFractions =
     (let resourceFraction = fractionOfCapacity q (gm_get 0 allocatable resourceName) in
      if resourceFraction > 1 then None
      else resource_fractions allocatable requested (resourceFractions @ [resourceFraction]))"

definition balancedAllocationScoreStrategy :: "i64 \<Rightarrow> ResourceList \<Rightarrow> ResourceList \<Rightarrow> (string, i64) gomap \<Rightarrow> i64 outcome" where
  "balancedAllocationScoreStrategy int64_of_NaN requested allocatable weights =
     (case resource_fractions allocatable requested [] of
        None \<Rightarrow> Ret 0
      | Some resourceFractions \<Rightarrow>
          (case stat_Variance resourceFractions of
             None \<Rightarrow> Ret int64_of_NaN
           | Some variance \<Rightarrow> Ret (int64_of_f64 (f64_mult (f64_sub 1 variance) (f64_of_int MaxNodeScore)))))"

section \<open>Scoring the cells of a node\<close>

type_synonym scoreStrategyFn = "ResourceList \<Rightarrow> ResourceList \<Rightarrow> (string, i64) gomap \<Rightarrow> i64 outcome"

text \<open>The scores are also kept in an array with one entry per cell, indexed by identifier.\<close>

fun score_cells :: "scoreStrategyFn \<Rightarrow> (string, i64) gomap \<Rightarrow> ResourceList \<Rightarrow> nat \<Rightarrow> NUMANodeList \<Rightarrow> i64 \<Rightarrow> i64 outcome" where
  "score_cells score weights requested len [] minScore = Ret minScore"
| "score_cells score weights requested len (numa # numaList) minScore =
     (case score requested (nn_Resources numa) weights of
        Panic e \<Rightarrow> Panic e
      | Ret numaScore \<Rightarrow>
          let minScore' = (if minScore = 0 \<or> (numaScore \<noteq> 0 \<and> sint numaScore < sint minScore) then numaScore else minScore) in
          if len \<le> nn_NUMAID numa then Panic index_out_of_range
          else score_cells score weights requested len numaList minScore')"

definition scoreForEachNUMANode :: "ResourceList \<Rightarrow> NUMANodeList \<Rightarrow> scoreStrategyFn \<Rightarrow> (string, i64) gomap \<Rightarrow> i64 outcome" where
  "scoreForEachNUMANode requested numaList score weights = score_cells score weights requested (length numaList) numaList 0"

text \<open>A nil function stands for the strategy that is dispatched elsewhere.\<close>

definition getScoringStrategyFunction :: "i64 \<Rightarrow> string \<Rightarrow> goerror + scoreStrategyFn option" where
  "getScoringStrategyFunction int64_of_NaN strategy =
     (if strategy = ''MostAllocated'' then Inr (Some mostAllocatedScoreStrategy)
      else if strategy = ''LeastAllocated'' then Inr (Some leastAllocatedScoreStrategy)
      else if strategy = ''BalancedAllocation'' then Inr (Some (balancedAllocationScoreStrategy int64_of_NaN))
      else if strategy = ''LeastNUMANodes'' then Inr None
      else Inl ''illegal scoring strategy found'')"

definition podScopeScore :: "v1_Pod \<Rightarrow> Zone list \<Rightarrow> scoreStrategyFn \<Rightarrow> (string, i64) gomap \<Rightarrow> (i64 \<times> Status) outcome" where
  "podScopeScore pod zones scorerFn weights =
     (let resources = GetPodEffectiveRequest pod in
      case createNUMANodeList zones of
        Panic e \<Rightarrow> Panic e
      | Ret allocatablePerNUMA \<Rightarrow>
          (case scoreForEachNUMANode resources allocatablePerNUMA scorerFn weights of
             Panic e \<Rightarrow> Panic e
           | Ret finalScore \<Rightarrow> Ret (finalScore, None)))"

fun container_scores :: "NUMANodeList \<Rightarrow> scoreStrategyFn \<Rightarrow> (string, i64) gomap \<Rightarrow> Container list \<Rightarrow> rat list outcome" where
  "container_scores cells scorerFn weights [] = Ret []"
| "container_scores cells scorerFn weights (container # containers) =
     (case scoreForEachNUMANode (c_Requests container) cells scorerFn weights of
        Panic e \<Rightarrow> Panic e
      | Ret v \<Rightarrow> (case container_scores cells scorerFn weights containers of
                    Panic e \<Rightarrow> Panic e
                  | Ret vs \<Rightarrow> Ret (f64_of_int v # vs)))"

definition containerScopeScore :: "i64 \<Rightarrow> v1_Pod \<Rightarrow> Zone list \<Rightarrow> scoreStrategyFn \<Rightarrow> (string, i64) gomap \<Rightarrow> (i64 \<times> Status) outcome" where
  "containerScopeScore int64_of_NaN pod zones scorerFn weights =
     (case createNUMANodeList zones of
        Panic e \<Rightarrow> Panic e
      | Ret allocatablePerNUMA \<Rightarrow>
          (case container_scores allocatablePerNUMA scorerFn weights (pod_InitContainers pod @ pod_Containers pod) of
             Panic e \<Rightarrow> Panic e
           | Ret contScore \<Rightarrow> Ret (case stat_Mean contScore of None \<Rightarrow> int64_of_NaN | Some m \<Rightarrow> int64_of_f64 m, None)))"

section \<open>Counting cells\<close>

definition maxDistanceValue :: i64 where "maxDistanceValue = 255"

definition normalizeScore :: "nat \<Rightarrow> bool \<Rightarrow> i64" where
  "normalizeScore numaNodesCount isMinAvgDistance =
     (let numaNodeScore = div64 MaxNodeScore (of_nat highestNUMAID);
          score = MaxNodeScore - of_nat numaNodesCount * numaNodeScore
      in if isMinAvgDistance then score + div64 numaNodeScore 2 else score)"

definition nodesAvgDistance :: "NUMANodeList \<Rightarrow> nat list \<Rightarrow> rat" where
  "nodesAvgDistance numaNodes nodes =
     (if nodes = [] then of_int (sint maxDistanceValue)
      else let accu = fold (\<lambda>node1 accu. fold (\<lambda>node2 accu.
                 accu + (case map_of (nn_Costs (numaNodes ! node1)) (nn_NUMAID (numaNodes ! node2)) of
                           None \<Rightarrow> maxDistanceValue
                         | Some cost \<Rightarrow> cost)) nodes accu) nodes (0 :: i64)
           in f32 (f32 (of_int (sint accu)) / f32 (of_nat (length nodes * length nodes))))"

definition minAvgDistanceInCombinations :: "NUMANodeList \<Rightarrow> nat list list \<Rightarrow> rat" where
  "minAvgDistanceInCombinations numaNodes numaNodesCombination =
     fold (\<lambda>combination minDistance.
       let avgDistance = nodesAvgDistance numaNodes combination
       in if avgDistance < minDistance then avgDistance else minDistance) numaNodesCombination (of_int (sint maxDistanceValue))"

definition combineResources :: "NUMANodeList \<Rightarrow> nat list \<Rightarrow> ResourceList" where
  "combineResources numaNodes combination =
     fold (\<lambda>nodeIndex resources. fold (\<lambda>(resource, quantity) resources.
       AList.update resource (case map_of resources resource of Some val \<Rightarrow> val + quantity | None \<Rightarrow> quantity) resources)
       (nn_Resources (numaNodes ! nodeIndex)) resources) combination []"

definition checkResourcesFit :: "string \<Rightarrow> ResourceList \<Rightarrow> ResourceList \<Rightarrow> bool" where
  "checkResourcesFit qos resources combinationResources =
     list_all (\<lambda>(resource, quantity). quantity = 0 \<or> isResourceSetSuitable qos resource quantity (gm_get 0 combinationResources resource)) resources"

definition isValidCombineResources :: "NUMANodeList \<Rightarrow> ResourceList \<Rightarrow> nat list \<Rightarrow> bool" where
  "isValidCombineResources numaNodes resources combination =
     list_all (\<lambda>nodeIndex. list_all (\<lambda>(resourceName, q). gm_has (nn_Resources (numaNodes ! nodeIndex)) resourceName) resources) combination"

fun suitable_loop :: "string \<Rightarrow> NUMANodeList \<Rightarrow> ResourceList \<Rightarrow> rat \<Rightarrow> nat list list \<Rightarrow> rat \<Rightarrow> nat list option \<Rightarrow> nat list option \<times> bool" where
  "suitable_loop qos numaNodes resources minAvgDistance [] minDistance minDistanceCombination = (minDistanceCombination, False)"
| "suitable_loop qos numaNodes resources minAvgDistance (combination # combinations) minDistance minDistanceCombination =
     (if \<not> isValidCombineResources numaNodes resources combination
      then suitable_loop qos numaNodes resources minAvgDistance combinations minDistance minDistanceCombination
      else if checkResourcesFit qos resources (combineResources numaNodes combination)
      then let distance = nodesAvgDistance numaNodes combination in
           if distance = minAvgDistance then (Some combination, True)
           else if distance < minDistance
                then suitable_loop qos numaNodes resources minAvgDistance combinations distance (Some combination)
                else suitable_loop qos numaNodes resources minAvgDistance combinations minDistance minDistanceCombination
      else suitable_loop qos numaNodes resources minAvgDistance combinations minDistance minDistanceCombination)"

definition findSuitableCombination :: "string \<Rightarrow> NUMANodeList \<Rightarrow> ResourceList \<Rightarrow> nat list list \<Rightarrow> nat list option \<times> bool" where
  "findSuitableCombination qos numaNodes resources numaNodesCombination =
     suitable_loop qos numaNodes resources (minAvgDistanceInCombinations numaNodes numaNodesCombination) numaNodesCombination 256 None"

text \<open>\<^verbatim>\<open>combin.Combinations\<close>: the increasing lists of \<open>k\<close> numbers from \<open>start\<close> to below \<open>n\<close>, in
  lexicographic order; the third argument is how many numbers are left.\<close>

fun combinations_from :: "nat \<Rightarrow> nat \<Rightarrow> nat \<Rightarrow> nat list list" where
  "combinations_from start left 0 = [[]]"
| "combinations_from start 0 (Suc k) = []"
| "combinations_from start (Suc left) (Suc k) = map (Cons start) (combinations_from (Suc start) left k) @ combinations_from (Suc start) left (Suc k)"

definition Combinations :: "nat \<Rightarrow> nat \<Rightarrow> nat list list" where
  "Combinations n k = combinations_from 0 n k"

fun required_loop :: "string \<Rightarrow> NUMANodeList \<Rightarrow> ResourceList \<Rightarrow> nat list \<Rightarrow> bitMask option \<times> bool" where
  "required_loop qos numaNodes resources [] = (None, False)"
| "required_loop qos numaNodes resources (bitmaskLen # lens) =
     (case findSuitableCombination qos numaNodes resources (Combinations (length numaNodes) bitmaskLen) of
        (Some suitableCombination, isMinDistance) \<Rightarrow>
          (Some (fold (\<lambda>nodeIdx bm. bm_Add (nn_NUMAID (numaNodes ! nodeIdx)) bm) suitableCombination 0), isMinDistance)
      | (None, _) \<Rightarrow> required_loop qos numaNodes resources lens)"

definition numaNodesRequired :: "string \<Rightarrow> NUMANodeList \<Rightarrow> ResourceList \<Rightarrow> bitMask option \<times> bool" where
  "numaNodesRequired qos numaNodes resources = required_loop qos numaNodes resources [1..<Suc (length numaNodes)]"

definition bm_Count :: "bitMask \<Rightarrow> nat" where
  "bm_Count s = length (bm_GetBits s)"

fun least_numa_containers :: "string \<Rightarrow> NUMANodeList \<Rightarrow> Container list \<Rightarrow> nat \<Rightarrow> bool \<Rightarrow> i64 outcome" where
  "least_numa_containers qos nodes [] maxNUMANodesCount allContainersMinAvgDistance =
     (if maxNUMANodesCount = 0 then Ret MaxNodeScore else Ret (normalizeScore maxNUMANodesCount allContainersMinAvgDistance))"
| "least_numa_containers qos nodes (container # containers) maxNUMANodesCount allContainersMinAvgDistance =
     (if onlyNonNUMAResources nodes (c_Requests container)
      then least_numa_containers qos nodes containers maxNUMANodesCount allContainersMinAvgDistance
      else (case numaNodesRequired qos nodes (c_Requests container) of
              (None, _) \<Rightarrow> Ret MinNodeScore
            | (Some numaNodes, isMinAvgDistance) \<Rightarrow>
                (case subtractFromNUMAs (c_Requests container) nodes (bm_GetBits numaNodes) of
                   Panic e \<Rightarrow> Panic e
                 | Ret nodes' \<Rightarrow>
                     least_numa_containers qos nodes' containers
                       (if bm_Count numaNodes > maxNUMANodesCount then bm_Count numaNodes else maxNUMANodesCount)
                       (if \<not> isMinAvgDistance then False else allContainersMinAvgDistance))))"

definition leastNUMAContainerScopeScore :: "v1_Pod \<Rightarrow> Zone list \<Rightarrow> (i64 \<times> Status) outcome" where
  "leastNUMAContainerScopeScore pod zones =
     (case createNUMANodeList zones of
        Panic e \<Rightarrow> Panic e
      | Ret nodes \<Rightarrow>
          (case least_numa_containers (GetPodQOS pod) nodes (pod_InitContainers pod @ pod_Containers pod) 0 True of
             Panic e \<Rightarrow> Panic e
           | Ret score \<Rightarrow> Ret (score, None)))"

definition leastNUMAPodScopeScore :: "v1_Pod \<Rightarrow> Zone list \<Rightarrow> (i64 \<times> Status) outcome" where
  "leastNUMAPodScopeScore pod zones =
     (case createNUMANodeList zones of
        Panic e \<Rightarrow> Panic e
      | Ret nodes \<Rightarrow>
          let resources = GetPodEffectiveRequest pod in
          if onlyNonNUMAResources nodes resources then Ret (MaxNodeScore, None)
          else (case numaNodesRequired (GetPodQOS pod) nodes resources of
                  (None, _) \<Rightarrow> Ret (MinNodeScore, None)
                | (Some numaNodes, isMinAvgDistance) \<Rightarrow> Ret (normalizeScore (bm_Count numaNodes) isMinAvgDistance, None)))"

section \<open>Score\<close>

record TopologyMatch =
  tm_Weights :: "(string, i64) gomap"
  tm_StrategyFunc :: "scoreStrategyFn option"
  tm_StrategyType :: string

definition scoringHandlerFromTopologyManagerConfig :: "i64 \<Rightarrow> TopologyMatch \<Rightarrow> TopologyManagerConfig \<Rightarrow> (v1_Pod \<Rightarrow> Zone list \<Rightarrow> (i64 \<times> Status) outcome) option" where
  "scoringHandlerFromTopologyManagerConfig int64_of_NaN tm conf =
     (let scorer = (case tm_StrategyFunc tm of None \<Rightarrow> (\<lambda>_ _ _. Panic nil_deref) | Some f \<Rightarrow> f) in
      if tm_StrategyType tm = ''LeastNUMANodes'' then
        (if tmc_Scope conf = ''pod'' then Some leastNUMAPodScopeScore
         else if tmc_Scope conf = ''container'' then Some leastNUMAContainerScopeScore
         else None)
      else if tmc_Policy conf \<noteq> ''single-numa-node'' then None
      else if tmc_Scope conf = ''pod'' then Some (\<lambda>pod zones. podScopeScore pod zones scorer (tm_Weights tm))
      else if tmc_Scope conf = ''container'' then Some (\<lambda>pod zones. containerScopeScore int64_of_NaN pod zones scorer (tm_Weights tm))
      else None)"

definition nrt_Score :: "i64 \<Rightarrow> TopologyMatch \<Rightarrow> ('s \<Rightarrow> string \<Rightarrow> NodeResourceTopology option \<times> bool) \<Rightarrow> v1_Pod \<Rightarrow> string \<Rightarrow> 's \<Rightarrow> (i64 \<times> Status) outcome" where
  "nrt_Score int64_of_NaN tm GetCachedNRTCopy pod nodeName s =
     (if GetPodQOS pod \<noteq> ''Guaranteed'' then Ret (MaxNodeScore, None)
      else (case GetCachedNRTCopy s nodeName of (nodeTopology, ok) \<Rightarrow>
              if \<not> ok then Ret (0, None)
              else (case nodeTopology of
                      None \<Rightarrow> Ret (0, None)
                    | Some nrt \<Rightarrow>
                        (case scoringHandlerFromTopologyManagerConfig int64_of_NaN tm (topologyManagerConfigFromNodeResourceTopology nrt) of
                           None \<Rightarrow> Ret (0, None)
                         | Some handler \<Rightarrow> handler pod (nrt_Zones nrt)))))"

text \<open>The part of \<^verbatim>\<open>New\<close> that builds the plugin from its validated arguments: weights by resource,
  and the strategy.\<close>

definition nrt_New :: "i64 \<Rightarrow> (string \<times> i64) list \<Rightarrow> string \<Rightarrow> goerror + TopologyMatch" where
  "nrt_New int64_of_NaN resources strategyType =
     (let resToWeightMap = fold (\<lambda>(name, weight) m. AList.update name weight m) resources [] in
      case getScoringStrategyFunction int64_of_NaN strategyType of
        Inl err \<Rightarrow> Inl err
      | Inr strategy \<Rightarrow> Inr \<lparr>tm_Weights = resToWeightMap, tm_StrategyFunc = strategy, tm_StrategyType = strategyType\<rparr>)"

end
