(* ===== verification/Nrt_Cache_Properties.thy ===== *)
theory Nrt_Cache_Properties
  imports Nrt_Cache
begin

text \<open>
  What the topology caches promise.  The pessimistic cache is compared with a specification that
  keeps, per node, the last topology it was given and the list of pods reserved since; the
  interface that the three caches of \<^verbatim>\<open>cache.go\<close> share is a locale, interpreted on each of them.
\<close>

section \<open>Deducting requests from a topology\<close>

text \<open>The specification of a deduction: every zone loses the requested amount in every resource,
  never going below zero.\<close>

definition deducted :: "(string \<Rightarrow> quantity) \<Rightarrow> NodeResourceTopology \<Rightarrow> NodeResourceTopology" where
  "deducted f nrt = nrt\<lparr>nrt_Zones := map (\<lambda>zone. zone\<lparr>zn_Resources :=
     map (\<lambda>zr. zr\<lparr>ri_Available := max 0 (ri_Available zr - f (ri_Name zr))\<rparr>) (zn_Resources zone)\<rparr>) (nrt_Zones nrt)\<rparr>"

definition nonneg_nrt :: "NodeResourceTopology \<Rightarrow> bool" where
  "nonneg_nrt nrt = list_all (\<lambda>zone. list_all (\<lambda>zr. 0 \<le> ri_Available zr) (zn_Resources zone)) (nrt_Zones nrt)"

lemma deduct_max:
  "0 \<le> ri_Available zr \<Longrightarrow> 0 \<le> amount res (ri_Name zr) \<Longrightarrow>
   deduct res zr = zr\<lparr>ri_Available := max 0 (ri_Available zr - amount res (ri_Name zr))\<rparr>"
  by (auto simp: deduct_def gm_get_def split: option.splits)

lemma deducted_zero: "nonneg_nrt nrt \<Longrightarrow> deducted (\<lambda>_. 0) nrt = nrt"
  by (auto simp: deducted_def nonneg_nrt_def list_all_iff intro!: NodeResourceTopology.equality map_idI Zone.equality ResourceInfo.equality)

lemma max_sub_sub: "0 \<le> y \<Longrightarrow> max 0 (max 0 (a - x) - y) = max 0 (a - (x + y))" for a x y :: quantity
  by (simp add: max_def)

lemma deducted_deducted: "(\<And>n. 0 \<le> g n) \<Longrightarrow> deducted g (deducted f nrt) = deducted (\<lambda>n. f n + g n) nrt"
  by (simp add: deducted_def max_sub_sub cong: map_cong)

lemma nonneg_deducted: "nonneg_nrt (deducted f nrt)"
  by (auto simp: deducted_def nonneg_nrt_def list_all_iff)

lemma UpdateNRT_step:
  assumes "nonneg_nrt nrt" "\<And>n. 0 \<le> amount res n"
  shows "nrt\<lparr>nrt_Zones := map (\<lambda>zone. zone\<lparr>zn_Resources := map (deduct res) (zn_Resources zone)\<rparr>) (nrt_Zones nrt)\<rparr> = deducted (amount res) nrt"
  using assms by (auto simp: deducted_def nonneg_nrt_def list_all_iff deduct_max intro!: NodeResourceTopology.equality Zone.equality)

lemma UpdateNRT_deducted:
  assumes "nonneg_nrt nrt" "\<And>k res n. (k, res) \<in> set rs \<Longrightarrow> 0 \<le> amount res n"
  shows "UpdateNRT rs nrt = deducted (\<lambda>n. sum_list (map (\<lambda>(k, res). amount res n) rs)) nrt"
  using assms
proof (induction rs arbitrary: nrt)
  case (Cons x rs)
  obtain k res where x: "x = (k, res)" by (cases x)
  have res: "0 \<le> amount res n" for n using Cons.prems(2) by (auto simp: x)
  have "0 \<le> sum_list (map (\<lambda>(k, res). amount res n) rs)" for n
    using Cons.prems(2) by (intro sum_list_nonneg) (auto simp: x)
  moreover have "\<And>k res n. (k, res) \<in> set rs \<Longrightarrow> 0 \<le> amount res n" using Cons.prems(2) by (meson list.set_intros(2))
  ultimately show ?case
    using Cons.IH [OF nonneg_deducted [of "amount res" nrt]] UpdateNRT_step [OF Cons.prems(1) res] deducted_deducted
    by (simp add: UpdateNRT_def x)
qed (simp add: UpdateNRT_def deducted_zero)

section \<open>What is held on a node\<close>

datatype nrt_event =
  Reserved string v1_Pod
| Unreserved string v1_Pod
| Discarded string
| Foreign string
| Flushed "NodeResourceTopology list"

primrec nrt_apply :: "nrt_event \<Rightarrow> OverReserve \<Rightarrow> OverReserve" where
  "nrt_apply (Reserved nodeName pod) ov = ov_ReserveNodeResources nodeName pod ov"
| "nrt_apply (Unreserved nodeName pod) ov = ov_UnreserveNodeResources nodeName pod ov"
| "nrt_apply (Discarded nodeName) ov = ov_NodeMaybeOverReserved nodeName ov"
| "nrt_apply (Foreign nodeName) ov = ov_NodeHasForeignPods nodeName ov"
| "nrt_apply (Flushed nrts) ov = FlushNodes nrts ov"

text \<open>The specification, one node at a time: the pods reserved since the last flush, the last
  topology, and whether foreign pods were seen on a known node since.\<close>

record node_view =
  nv_held :: "v1_Pod list"
  nv_topology :: "NodeResourceTopology option"
  nv_foreign :: bool

definition without :: "v1_Pod \<Rightarrow> v1_Pod list \<Rightarrow> v1_Pod list" where
  "without pod hs = filter (\<lambda>q. pod_key q \<noteq> pod_key pod) hs"

primrec view_apply :: "string \<Rightarrow> nrt_event \<Rightarrow> node_view \<Rightarrow> node_view" where
  "view_apply node (Reserved n p) v = (if n = node then v\<lparr>nv_held := without p (nv_held v) @ [p]\<rparr> else v)"
| "view_apply node (Unreserved n p) v = (if n = node then v\<lparr>nv_held := without p (nv_held v)\<rparr> else v)"
| "view_apply node (Discarded n) v = v"
| "view_apply node (Foreign n) v = (if n = node \<and> nv_topology v \<noteq> None then v\<lparr>nv_foreign := True\<rparr> else v)"
| "view_apply node (Flushed nrts) v =
     (case find (\<lambda>nrt. nrt_Name nrt = node) (rev nrts) of
        None \<Rightarrow> v
      | Some nrt \<Rightarrow> \<lparr>nv_held = [], nv_topology = Some nrt, nv_foreign = False\<rparr>)"

definition view_init :: "NodeResourceTopology list \<Rightarrow> string \<Rightarrow> node_view" where
  "view_init nrts node = \<lparr>nv_held = [], nv_topology = find (\<lambda>nrt. nrt_Name nrt = node) (rev nrts), nv_foreign = False\<rparr>"

text \<open>What the cache answers for a node, by the specification.\<close>

definition view_answer :: "node_view \<Rightarrow> NodeResourceTopology option \<times> bool" where
  "view_answer v = (if nv_foreign v then (None, False)
     else (map_option (deducted (\<lambda>n. sum_list (map (\<lambda>p. pod_amount p n) (nv_held v)))) (nv_topology v), True))"

primrec nrt_event_ok :: "nrt_event \<Rightarrow> bool" where
  "nrt_event_ok (Reserved n p) = wf_pod p"
| "nrt_event_ok (Unreserved n p) = True"
| "nrt_event_ok (Discarded n) = True"
| "nrt_event_ok (Foreign n) = True"
| "nrt_event_ok (Flushed nrts) = list_all nonneg_nrt nrts"

section \<open>The simulation\<close>

text \<open>The assumed requests of a node are those of the held pods, up to the order of the map.\<close>

definition ov_view :: "OverReserve \<Rightarrow> string \<Rightarrow> node_view \<Rightarrow> bool" where
  "ov_view ov node v = (
     let rs = gm_get [] (ov_assumedResources ov) node in
     gm_wf rs \<and> distinct (map pod_key (nv_held v)) \<and> list_all wf_pod (nv_held v)
     \<and> map_of rs = map_of (map (\<lambda>p. (pod_key p, GetPodEffectiveRequest p)) (nv_held v))
     \<and> map_of (ov_nrts ov) node = nv_topology v \<and> pred_option nonneg_nrt (nv_topology v)
     \<and> cnt_IsSet (ov_nodesWithForeignPods ov) node = nv_foreign v)"

lemma gm_has_update [alist_simps, simp]: "gm_has (AList.update k v m) k' \<longleftrightarrow> k' = k \<or> gm_has m k'"
  by (metis gm_has_map_of map_of_update option.simps(3))

lemma gm_has_delete [alist_simps, simp]: "gm_has (AList.delete k m) k' \<longleftrightarrow> k' \<noteq> k \<and> gm_has m k'"
  by (metis gm_has_map_of map_of_delete option.simps(3))

lemma map_of_without:
  "map_of (map (\<lambda>p. (pod_key p, f p)) (without q hs)) k = (if k = pod_key q then None else map_of (map (\<lambda>p. (pod_key p, f p)) hs) k)"
  by (induction hs) (auto simp: without_def)

lemma without_wf:
  "distinct (map pod_key hs) \<Longrightarrow> distinct (map pod_key (without q hs))" "pod_key q \<notin> pod_key ` set (without q hs)"
  "list_all wf_pod hs \<Longrightarrow> list_all wf_pod (without q hs)"
  by (auto simp: without_def distinct_map_filter list_all_iff)

lemma map_of_without_append:
  "map_of (map (\<lambda>p. (pod_key p, f p)) (without q hs @ [q])) = (map_of (map (\<lambda>p. (pod_key p, f p)) hs))(pod_key q \<mapsto> f q)"
  by (rule ext) (auto simp: map_add_def map_of_without split: option.splits)

lemma ov_view_reserve:
  assumes "ov_view ov node v" "wf_pod p"
  shows "ov_view (ov_ReserveNodeResources node p ov) node (view_apply node (Reserved node p) v)"
proof -
  let ?rs = "gm_get [] (ov_assumedResources ov) node" and ?hs = "without p (nv_held v) @ [p]"
  have rs: "(case map_of (ov_assumedResources ov) node of None \<Rightarrow> [] | Some rs \<Rightarrow> rs) = ?rs" by (simp add: gm_get_def)
  have "map_of (AList.update (pod_key p) (GetPodEffectiveRequest p) ?rs) = map_of (map (\<lambda>p. (pod_key p, GetPodEffectiveRequest p)) ?hs)"
    using assms(1) unfolding map_of_without_append by (simp add: ov_view_def Let_def update_conv')
  moreover have "distinct (map pod_key ?hs)" "list_all wf_pod ?hs"
    using assms without_wf [where hs = "nv_held v" and q = p] by (simp_all add: ov_view_def Let_def)
  ultimately show ?thesis using assms(1)
    by (simp add: ov_view_def ov_ReserveNodeResources_def rs_AddPod_def Let_def rs del: map_append)
qed

lemma ov_view_unreserve:
  "ov_view ov node v \<Longrightarrow> ov_view (ov_UnreserveNodeResources node p ov) node (view_apply node (Unreserved node p) v)"
  using without_wf [where hs = "nv_held v" and q = p]
  by (auto simp: ov_view_def ov_UnreserveNodeResources_def rs_DeletePod_def Let_def gm_get_def map_of_without fun_eq_iff
      split: option.splits)

lemma ov_view_foreign:
  "ov_view ov node v \<Longrightarrow> ov_view (ov_NodeHasForeignPods node ov) node (view_apply node (Foreign node) v)"
  by (simp add: ov_view_def ov_NodeHasForeignPods_def nrs_Contains_def gm_has_map_of cnt_IsSet_def cnt_Incr_def Let_def)

lemma ov_view_other:
  "n \<noteq> node \<Longrightarrow> ov_view (ov_ReserveNodeResources n p ov) node v = ov_view ov node v"
  "n \<noteq> node \<Longrightarrow> ov_view (ov_UnreserveNodeResources n p ov) node v = ov_view ov node v"
  "n \<noteq> node \<Longrightarrow> ov_view (ov_NodeHasForeignPods n ov) node v = ov_view ov node v"
  "ov_view (ov_NodeMaybeOverReserved n ov) node v = ov_view ov node v"
  by (simp_all add: ov_view_def ov_ReserveNodeResources_def ov_UnreserveNodeResources_def ov_NodeHasForeignPods_def
      ov_NodeMaybeOverReserved_def cnt_Incr_def cnt_IsSet_def Let_def split: option.splits)

lemma FlushNodes_step:
  "ov_view ov node v \<Longrightarrow> nonneg_nrt nrt \<Longrightarrow>
   ov_view (FlushNodes [nrt] ov) node (if nrt_Name nrt = node then \<lparr>nv_held = [], nv_topology = Some nrt, nv_foreign = False\<rparr> else v)"
  by (auto simp: ov_view_def FlushNodes_def nrs_Update_def cnt_Delete_def cnt_IsSet_def gm_get_def Let_def)

lemma ov_view_flush:
  assumes "ov_view ov node v" "list_all nonneg_nrt nrts"
  shows "ov_view (FlushNodes nrts ov) node (view_apply node (Flushed nrts) v)"
  using assms(2)
proof (induction nrts rule: rev_induct)
  case (snoc nrt nrts)
  have "FlushNodes (nrts @ [nrt]) ov = FlushNodes [nrt] (FlushNodes nrts ov)" by (simp add: FlushNodes_def)
  then show ?case using snoc FlushNodes_step [of "FlushNodes nrts ov" node "view_apply node (Flushed nrts) v" nrt] by (auto split: if_splits)
qed (use assms(1) in \<open>simp add: FlushNodes_def\<close>)

lemma ov_view_apply:
  assumes "ov_view ov node v" "nrt_event_ok e"
  shows "ov_view (nrt_apply e ov) node (view_apply node e v)"
proof (cases e)
  case (Reserved n p)
  then show ?thesis using assms ov_view_reserve by (cases "n = node") (simp_all add: ov_view_other)
next
  case (Unreserved n p)
  then show ?thesis using assms ov_view_unreserve by (cases "n = node") (simp_all add: ov_view_other)
next
  case (Foreign n)
  then show ?thesis using assms ov_view_foreign by (cases "n = node") (simp_all add: ov_view_other)
next
  case (Flushed nrts)
  then show ?thesis using assms ov_view_flush by simp
qed (use assms in \<open>simp add: ov_view_other\<close>)

lemma map_of_newNrtStore: "map_of (newNrtStore nrts) node = find (\<lambda>nrt. nrt_Name nrt = node) (rev nrts)"
  by (induction nrts rule: rev_induct) (simp_all add: newNrtStore_def)

lemma find_pred: "list_all P xs \<Longrightarrow> pred_option P (find Q xs)"
  by (induction xs) simp_all

lemma ov_view_init:
  "list_all nonneg_nrt nrts \<Longrightarrow> NewOverReserve (Inr nrts) cfg = Inr ov \<Longrightarrow> ov_view ov node (view_init nrts node)"
  by (auto simp: NewOverReserve_def ov_view_def view_init_def gm_get_def map_of_newNrtStore cnt_IsSet_def find_pred)

lemma nonneg_pod_amount: "0 \<le> pod_amount p n"
proof -
  have "z \<le> fold max xs z" for z :: quantity and xs
    by (induction xs arbitrary: z) (simp, metis fold_simps(2) max.bounded_iff)
  then show ?thesis by (simp add: pod_amount_def le_max_iff_disj)
qed

lemma sum_held:
  assumes "gm_wf rs" "distinct (map pod_key hs)" "map_of rs = map_of (map (\<lambda>p. (pod_key p, f p)) hs)"
  shows "sum_list (map (\<lambda>(k, res). amount res n) rs) = sum_list (map (\<lambda>p. amount (f p) n) hs)"
proof -
  let ?hs = "map (\<lambda>p. (pod_key p, f p)) hs"
  have d: "distinct (map fst rs)" "distinct (map fst ?hs)" "distinct rs" "distinct ?hs" using assms(1,2) by (auto simp: gm_wf_def comp_def distinct_map inj_on_def)
  then have "set rs = set ?hs" using assms(3) map_of_inject_set by blast
  then have "sum_list (map (\<lambda>(k, res). amount res n) rs) = sum_list (map (\<lambda>(k, res). amount res n) ?hs)"
    by (simp only: sum_list_distinct_conv_sum_set [OF d(3)] sum_list_distinct_conv_sum_set [OF d(4)])
  then show ?thesis by (simp add: comp_def)
qed

lemma ov_view_answer:
  assumes "ov_view ov node v"
  shows "ov_GetCachedNRTCopy ov node = view_answer v"
proof -
  let ?rs = "gm_get [] (ov_assumedResources ov) node"
  have v: "gm_wf ?rs" "distinct (map pod_key (nv_held v))" "list_all wf_pod (nv_held v)"
    "map_of ?rs = map_of (map (\<lambda>p. (pod_key p, GetPodEffectiveRequest p)) (nv_held v))"
    "map_of (ov_nrts ov) node = nv_topology v" "pred_option nonneg_nrt (nv_topology v)"
    "cnt_IsSet (ov_nodesWithForeignPods ov) node = nv_foreign v"
    using assms by (simp_all add: ov_view_def Let_def)
  have nn: "0 \<le> amount res n" if "(k, res) \<in> set ?rs" for k res n
  proof -
    have "map_of ?rs k = Some res" using that v(1) by (simp add: gm_wf_def)
    then have "res \<in> GetPodEffectiveRequest ` set (nv_held v)" unfolding v(4) by (fastforce dest: map_of_SomeD)
    then show ?thesis using v(3) nonneg_pod_amount amount_effective by (auto simp: list_all_iff)
  qed
  have sums: "sum_list (map (\<lambda>(k, res). amount res n) ?rs) = sum_list (map (\<lambda>p. pod_amount p n) (nv_held v))" for n
    using sum_held [OF v(1,2,4)] v(3) amount_effective by (simp add: list_all_iff cong: map_cong)
  have "(case map_of (ov_assumedResources ov) node of None \<Rightarrow> nrt | Some rs \<Rightarrow> UpdateNRT rs nrt)
      = deducted (\<lambda>n. sum_list (map (\<lambda>p. pod_amount p n) (nv_held v))) nrt" if "nv_topology v = Some nrt" for nrt
  proof -
    have "UpdateNRT ?rs nrt = deducted (\<lambda>n. sum_list (map (\<lambda>p. pod_amount p n) (nv_held v))) nrt"
      using UpdateNRT_deducted [of nrt ?rs] nn v(6) that by (simp add: sums)
    then show ?thesis by (cases "map_of (ov_assumedResources ov) node") (simp_all add: gm_get_def UpdateNRT_def)
  qed
  then show ?thesis using v(5,7)
    by (auto simp: ov_GetCachedNRTCopy_def GetNRTCopyByNodeName_def view_answer_def split: option.splits)
qed

lemma overreserve_view:
  assumes "NewOverReserve (Inr nrts) cfg = Inr ov" "list_all nonneg_nrt nrts" "list_all nrt_event_ok es"
  shows "ov_view (fold nrt_apply es ov) node (fold (view_apply node) es (view_init nrts node))"
proof -
  have "ov_view (fold nrt_apply es o') node (fold (view_apply node) es v)" if "ov_view o' node v" for o' v
    using assms(3) that by (induction es arbitrary: o' v) (simp_all add: ov_view_apply)
  then show ?thesis using ov_view_init [OF assms(2,1)] by blast
qed

section \<open>A node with two cells\<close>

definition numa_zone :: "string \<Rightarrow> quantity \<Rightarrow> Zone" where
  "numa_zone name cpu = \<lparr>zn_Name = name, zn_Type = ''Node'', zn_Costs = [], zn_Resources = [\<lparr>ri_Name = ''cpu'', ri_Available = cpu\<rparr>]\<rparr>"

definition two_cells :: "string \<Rightarrow> quantity \<Rightarrow> quantity \<Rightarrow> NodeResourceTopology" where
  "two_cells scope q0 q1 = \<lparr>nrt_Name = ''n1'', nrt_Annotations = None, nrt_TopologyPolicies = [],
     nrt_Zones = [numa_zone ''node-0'' q0, numa_zone ''node-1'' q1],
     nrt_Attributes = [(''topologyManagerPolicy'', ''single-numa-node''), (''topologyManagerScope'', scope), (''nodeTopologyPodsFingerprint'', ''pfp'')]\<rparr>"

definition cpu_pod :: "string \<Rightarrow> quantity \<Rightarrow> v1_Pod" where
  "cpu_pod name q = zero_pod\<lparr>pod_Namespace := ''ns'', pod_Name := name, pod_UID := name, pod_NodeName := ''n1'', pod_QOSClass := ''Guaranteed'',
     pod_Containers := [\<lparr>c_Requests = [(''cpu'', q)], c_Limits = [(''cpu'', q)]\<rparr>]\<rparr>"

definition cells_cache :: "string \<Rightarrow> OverReserve" where
  "cells_cache scope = \<lparr>ov_nrts = [(''n1'', two_cells scope 4 8)], ov_assumedResources = [], ov_nodesMaybeOverreserved = [],
     ov_nodesWithForeignPods = [], ov_resyncMethod = ''Autodetect''\<rparr>"

lemma cells_cache_new: "NewOverReserve (Inr [two_cells scope 4 8]) None = Inr (cells_cache scope)"
  by (simp add: NewOverReserve_def cells_cache_def newNrtStore_def getCacheResyncMethod_def) (simp add: two_cells_def)

lemma two_cells_nonneg: "0 \<le> a \<Longrightarrow> 0 \<le> b \<Longrightarrow> list_all nonneg_nrt [two_cells scope a b]"
  by (simp add: two_cells_def numa_zone_def nonneg_nrt_def)

lemma wf_cpu_pod: "0 \<le> q \<Longrightarrow> wf_pod (cpu_pod name q)"
  by (simp add: cpu_pod_def wf_pod_def nonneg_pod_def nonneg_rl_def gm_wf_def zero_pod_def)

lemma cpu_pod_amount: "0 \<le> q \<Longrightarrow> pod_amount (cpu_pod name q) r = (if r = ''cpu'' then q else 0)"
  by (simp add: pod_amount_def cpu_pod_def zero_pod_def)

lemma cpu_pod_key: "pod_key (cpu_pod name q) = ''ns/'' @ name"
  by (simp add: pod_key_def cpu_pod_def)

lemma cells_view:
  "fold (view_apply ''n1'') [Reserved ''n1'' (cpu_pod ''a'' 3)] (view_init [two_cells scope 4 8] ''n1'')
   = \<lparr>nv_held = [cpu_pod ''a'' 3], nv_topology = Some (two_cells scope 4 8), nv_foreign = False\<rparr>"
  by (simp add: view_init_def without_def) (simp add: two_cells_def)

section \<open>The answers of the pessimistic cache\<close>

text \<open>C24: whatever the order in which pods are reserved and unreserved, nodes discarded, foreign pods
  seen and topologies flushed, the pessimistic cache answers for a node what the specification
  answers: nothing while foreign pods were seen on the known node since its last topology, and
  otherwise the last topology with, in every zone and resource, the requests of all the pods
  reserved since and not unreserved taken off, down to zero at most.\<close>

theorem overreserve_answers:
  assumes "NewOverReserve (Inr nrts) cfg = Inr ov" "list_all nonneg_nrt nrts" "list_all nrt_event_ok es"
  shows "ov_GetCachedNRTCopy (fold nrt_apply es ov) node = view_answer (fold (view_apply node) es (view_init nrts node))"
  using overreserve_view [OF assms] by (rule ov_view_answer)

theorem overreserve_answers_witness:
  "ov_GetCachedNRTCopy (fold nrt_apply [Reserved ''n1'' (cpu_pod ''a'' 3)] (cells_cache ''pod'')) ''n1'' = (Some (two_cells ''pod'' 1 5), True)"
proof -
  have ok: "list_all nrt_event_ok [Reserved ''n1'' (cpu_pod ''a'' 3)]" by (simp add: wf_cpu_pod)
  have "ov_GetCachedNRTCopy (fold nrt_apply [Reserved ''n1'' (cpu_pod ''a'' 3)] (cells_cache ''pod'')) ''n1'' =
      view_answer (fold (view_apply ''n1'') [Reserved ''n1'' (cpu_pod ''a'' 3)] (view_init [two_cells ''pod'' 4 8] ''n1''))"
    by (rule overreserve_answers [OF cells_cache_new two_cells_nonneg ok]) simp_all
  then show ?thesis
    by (simp only: cells_view view_answer_def) (simp add: deducted_def two_cells_def numa_zone_def cpu_pod_amount)
qed

section \<open>Resynchronization\<close>




text \<open>The pods of a node, as a resynchronization sees them.\<close>

definition node_pods :: "nrt_world \<Rightarrow> v1_Pod list \<Rightarrow> string \<Rightarrow> podData list" where
  "node_pods W pods node = map (\<lambda>pod. \<lparr>pd_Namespace = pod_Namespace pod, pd_Name = pod_Name pod, pd_HasExclusiveResources = AreExclusiveForPod pod\<rparr>)
     (filter (\<lambda>pod. nw_isPodRelevant W pod \<and> pod_NodeName pod = node) pods)"

lemma map_of_makeNodeToPodDataMap:
  "map_of (makeNodeToPodDataMap pods (nw_isPodRelevant W)) n = (if node_pods W pods n = [] then None else Some (node_pods W pods n))"
  by (induction pods rule: rev_induct) (auto simp: makeNodeToPodDataMap_def node_pods_def gm_get_def)

text \<open>Whether the topology that the API server has for the node may replace the cached one: its
  fingerprint is that of the pods running there.\<close>

definition verified :: "nrt_world \<Rightarrow> string \<Rightarrow> v1_Pod list \<Rightarrow> string \<Rightarrow> NodeResourceTopology \<Rightarrow> bool" where
  "verified W method pods node nrt = (
     let (expected, exclusive) = podFingerprintForNodeTopology nrt method
     in nw_Get W node = Inr nrt \<and> node_pods W pods node \<noteq> [] \<and> expected \<noteq> ''''
        \<and> nw_Check W (map (\<lambda>d. (pd_Namespace d, pd_Name d)) (filter (\<lambda>d. \<not> exclusive \<or> pd_HasExclusiveResources d) (node_pods W pods node))) expected = None)"

lemma resync_node_verified:
  "resync_node W method (makeNodeToPodDataMap pods (nw_isPodRelevant W)) node = Some nrt \<longleftrightarrow> verified W method pods node nrt"
  by (auto simp: resync_node_def verified_def checkPodFingerprintForNode_def map_of_makeNodeToPodDataMap
      split: sum.splits option.splits prod.splits)


lemma ov_Resync_flush:
  "nw_ListPods W = Inr pods \<Longrightarrow> ov_Resync W ov = FlushNodes (List.map_filter (resync_node W (ov_resyncMethod ov)
     (makeNodeToPodDataMap pods (nw_isPodRelevant W))) (NodesMaybeOverReserved ov)) ov"
  by (simp add: ov_Resync_def Let_def FlushNodes_def List.map_filter_def)


lemma set_map_filter: "y \<in> set (List.map_filter f xs) \<longleftrightarrow> (\<exists>x\<in>set xs. f x = Some y)"
  by (induction xs) (auto simp: List.map_filter_def)

lemma foreign_flush:
  "(\<And>nrt. nrt \<in> set nrts \<Longrightarrow> nrt_Name nrt \<noteq> node) \<Longrightarrow>
   cnt_IsSet (ov_nodesWithForeignPods (FlushNodes nrts ov)) node = cnt_IsSet (ov_nodesWithForeignPods ov) node"
  by (induction nrts arbitrary: ov) (force simp: FlushNodes_def cnt_IsSet_def cnt_Delete_def)+


definition cells_world :: "v1_Pod list \<Rightarrow> nrt_world" where
  "cells_world pods = \<lparr>nw_Get = (\<lambda>n. if n = ''n1'' then Inr (two_cells ''pod'' 1 5) else Inl ''not found''), nw_ListPods = Inr pods,
     nw_isPodRelevant = IsPodRelevantDedicated, nw_Check = (\<lambda>pods pfp. if pods = [(''ns'', ''a'')] then None else Some ''mismatch'')\<rparr>"

lemma cells_world_names: "nw_Get (cells_world pods) n = Inr nrt \<Longrightarrow> nrt_Name nrt = n"
  by (auto simp: cells_world_def two_cells_def split: if_splits)


text \<open>C28: a node on which foreign pods were seen and on which no relevant pod runs any more is never
  resynchronized, however often that is tried: it stays without an answer.\<close>

theorem foreign_node_without_pods_stuck:
  assumes "\<forall>W\<in>set Ws. \<forall>n nrt. nw_Get W n = Inr nrt \<longrightarrow> nrt_Name nrt = n"
    and "\<forall>W\<in>set Ws. \<forall>pods. nw_ListPods W = Inr pods \<longrightarrow> node_pods W pods node = []"
    and "cnt_IsSet (ov_nodesWithForeignPods ov) node"
  shows "ov_GetCachedNRTCopy (fold ov_Resync Ws ov) node = (None, False)"
proof -
  have "cnt_IsSet (ov_nodesWithForeignPods (fold ov_Resync Ws ov)) node" using assms
  proof (induction Ws arbitrary: ov)
    case (Cons W Ws)
    have "cnt_IsSet (ov_nodesWithForeignPods (ov_Resync W ov)) node"
    proof (cases "nw_ListPods W")
      case (Inr pods)
      let ?f = "resync_node W (ov_resyncMethod ov) (makeNodeToPodDataMap pods (nw_isPodRelevant W))"
      have "nrt_Name nrt \<noteq> node" if mem: "nrt \<in> set (List.map_filter ?f (NodesMaybeOverReserved ov))" for nrt
      proof -
        obtain n where "verified W (ov_resyncMethod ov) pods n nrt" using mem by (auto simp: set_map_filter resync_node_verified)
        then have "nw_Get W n = Inr nrt" "node_pods W pods n \<noteq> []" by (auto simp: verified_def split: prod.splits)
        then show ?thesis using Cons.prems(1,2) Inr by fastforce
      qed
      then show ?thesis using Cons.prems(3) unfolding ov_Resync_flush [OF Inr] by (simp add: foreign_flush)
    qed (use Cons.prems(3) in \<open>simp add: ov_Resync_def Let_def\<close>)
    then show ?case using Cons.IH Cons.prems(1,2) by simp
  qed simp
  then show ?thesis by (simp add: ov_GetCachedNRTCopy_def)
qed

theorem foreign_node_without_pods_stuck_witness:
  "ov_GetCachedNRTCopy (fold ov_Resync [cells_world [], cells_world []] (ov_NodeHasForeignPods ''n1'' (cells_cache ''pod''))) ''n1'' = (None, False)"
  by (rule foreign_node_without_pods_stuck)
    (auto simp: cells_world_names node_pods_def cells_world_def ov_NodeHasForeignPods_def cells_cache_def nrs_Contains_def
      cnt_IsSet_def cnt_Incr_def Let_def two_cells_def split: if_splits)

section \<open>The interface of the caches\<close>

text \<open>What the plugin relies on, whatever the cache: a reservation and its undoing touch only their
  node, and undoing the reservation of a pod that was not held there gives back the answers of
  before.\<close>

locale nrt_cache =
  fixes answer :: "'s \<Rightarrow> string \<Rightarrow> NodeResourceTopology option \<times> bool"
    and reserve :: "string \<Rightarrow> v1_Pod \<Rightarrow> 's \<Rightarrow> 's"
    and unreserve :: "string \<Rightarrow> v1_Pod \<Rightarrow> 's \<Rightarrow> 's"
    and postbind :: "string \<Rightarrow> v1_Pod \<Rightarrow> 's \<Rightarrow> 's"
    and holds :: "'s \<Rightarrow> string \<Rightarrow> v1_Pod \<Rightarrow> bool"
  assumes frame: "m \<noteq> n \<Longrightarrow> answer (reserve n p s) m = answer s m" "m \<noteq> n \<Longrightarrow> answer (unreserve n p s) m = answer s m"
      "m \<noteq> n \<Longrightarrow> answer (postbind n p s) m = answer s m"
    and undo: "\<not> holds s n p \<Longrightarrow> answer (unreserve n p (reserve n p s)) n = answer s n"
    and holds_undo: "\<not> holds s n p \<Longrightarrow> holds (unreserve n p (reserve n p s)) m q = holds s m q"
begin

definition failed_cycle :: "string \<times> v1_Pod \<Rightarrow> 's \<Rightarrow> 's" where
  "failed_cycle c s = unreserve (fst c) (snd c) (reserve (fst c) (snd c) s)"

lemma failed_cycle_answer: "\<not> holds s n p \<Longrightarrow> answer (failed_cycle (n, p) s) m = answer s m"
  using frame undo by (cases "m = n") (simp_all add: failed_cycle_def)

lemma failed_cycles_answer:
  "\<forall>(n, p)\<in>set cs. \<not> holds s n p \<Longrightarrow> answer (fold failed_cycle cs s) m = answer s m"
proof (induction cs arbitrary: s)
  case (Cons c cs)
  have c: "\<not> holds s (fst c) (snd c)" using Cons.prems by auto
  then have "\<forall>(n, p)\<in>set cs. \<not> holds (failed_cycle c s) n p" using Cons.prems holds_undo by (auto simp: failed_cycle_def)
  then show ?case using Cons.IH failed_cycle_answer [of s "fst c" "snd c"] c by simp
qed simp

end

lemma delete_update_fresh: "k \<notin> fst ` set m \<Longrightarrow> AList.delete k (AList.update k v m) = m"
  by (induction m) auto

interpretation ovc: nrt_cache ov_GetCachedNRTCopy ov_ReserveNodeResources ov_UnreserveNodeResources ov_PostBind
  "\<lambda>ov n p. gm_has (gm_get [] (ov_assumedResources ov) n) (pod_key p)"
proof
  fix ov :: OverReserve and n p
  assume fresh: "\<not> gm_has (gm_get [] (ov_assumedResources ov) n) (pod_key p)"
  have ov: "map_of (ov_assumedResources (ov_UnreserveNodeResources n p (ov_ReserveNodeResources n p ov))) m
      = (if m = n then Some (gm_get [] (ov_assumedResources ov) n) else map_of (ov_assumedResources ov) m)" for m
    using fresh by (simp add: ov_UnreserveNodeResources_def ov_ReserveNodeResources_def rs_AddPod_def rs_DeletePod_def Let_def
        gm_get_def delete_update_fresh split: option.splits)
  show "ov_GetCachedNRTCopy (ov_UnreserveNodeResources n p (ov_ReserveNodeResources n p ov)) n = ov_GetCachedNRTCopy ov n"
    using ov [of n] by (simp add: ov_GetCachedNRTCopy_def gm_get_def UpdateNRT_def ov_UnreserveNodeResources_def
        ov_ReserveNodeResources_def Let_def split: option.splits)
  show "gm_has (gm_get [] (ov_assumedResources (ov_UnreserveNodeResources n p (ov_ReserveNodeResources n p ov))) m) (pod_key q)
      = gm_has (gm_get [] (ov_assumedResources ov) m) (pod_key q)" for m q
    using ov [of m] by (simp add: gm_get_def)
qed (simp_all add: ov_GetCachedNRTCopy_def ov_ReserveNodeResources_def ov_UnreserveNodeResources_def ov_PostBind_def Let_def split: option.split)

interpretation drc: nrt_cache "dr_GetCachedNRTCopy get" dr_ReserveNodeResources dr_UnreserveNodeResources dr_PostBind
  "\<lambda>m n p. gm_has (gm_get [] m n) (pod_UID p)" for get
proof
  fix m :: reservationMap and n and p :: v1_Pod
  assume fresh: "\<not> gm_has (gm_get [] m n) (pod_UID p)"
  have dr: "map_of (dr_UnreserveNodeResources n p (dr_ReserveNodeResources n p m)) k
      = (if k = n then Some (gm_get [] m n) else map_of m k)" for k
    using fresh by (simp add: dr_UnreserveNodeResources_def removeReservationForNode_def dr_ReserveNodeResources_def Let_def
        gm_get_def delete_update_fresh split: option.splits)
  show "dr_GetCachedNRTCopy get (dr_UnreserveNodeResources n p (dr_ReserveNodeResources n p m)) n = dr_GetCachedNRTCopy get m n"
    using dr [of n] by (simp add: dr_GetCachedNRTCopy_def gm_get_def split: option.splits)
  show "gm_has (gm_get [] (dr_UnreserveNodeResources n p (dr_ReserveNodeResources n p m)) k) (pod_UID q)
      = gm_has (gm_get [] m k) (pod_UID q)" for k q
    using dr [of k] by (simp add: gm_get_def)
qed (simp_all add: dr_GetCachedNRTCopy_def dr_ReserveNodeResources_def dr_UnreserveNodeResources_def dr_PostBind_def
    removeReservationForNode_def Let_def split: option.split)

text \<open>The cache that keeps nothing has no state.\<close>

interpretation ptc: nrt_cache "\<lambda>(s :: unit). pt_GetCachedNRTCopy get" "\<lambda>_ _ s. s" "\<lambda>_ _ s. s" "\<lambda>_ _ s. s" "\<lambda>_ _ _. False" for get
  by unfold_locales simp_all

end
