(* ===== verification/Nrt_Filter_Properties.thy ===== *)
theory Nrt_Filter_Properties
  imports Nrt_Filter Nrt_Cache_Properties
begin

unbundle bit_operations_syntax

text \<open>
  What the topology filter decides: the loop over bit masks finds the lowest cell that suits every
  request, subtracting the requests of a container from the cell found for it never fails, a pod
  whose containers are aligned one by one fits its cells together with everything the cache holds
  for the node, and the table of zone indices is one entry short.
\<close>

section \<open>Bit masks\<close>

lemma bit_bm_Add: "bit (bm_Add i s) j \<longleftrightarrow> bit s j \<or> (j = i \<and> i < 64)"
  by (auto simp: bm_Add_def bit_or_iff bit_exp_iff possible_bit_def)

lemma word64_eq_0_iff: "w = (0 :: 64 word) \<longleftrightarrow> (\<forall>i<64. \<not> bit w i)"
  by (auto simp: bit_eq_iff possible_bit_def dest: bit_imp_le_length)

lemma bm_GetBits_Nil: "bm_GetBits w = [] \<longleftrightarrow> w = 0"
  by (auto simp: bm_GetBits_def word64_eq_0_iff filter_empty_conv)

section \<open>The cells that suit a list of requests\<close>

text \<open>Whether cell \<open>i\<close> suits one request: nothing is requested, or the resource is a host-level one
  that no cell reports, or the cell reports enough of it.\<close>

definition suits :: "NUMANodeList \<Rightarrow> string \<Rightarrow> nat \<Rightarrow> string \<times> quantity \<Rightarrow> bool" where
  "suits nodes qos i = (\<lambda>(r, q). q = 0
     \<or> (isHostLevelResource r \<and> (\<forall>n\<in>set nodes. map_of (nn_Resources n) r = None))
     \<or> (\<exists>n\<in>set nodes. \<exists>a. nn_NUMAID n = i \<and> map_of (nn_Resources n) r = Some a \<and> isResourceSetSuitable qos r q a))"

lemma resource_cells_affinity:
  "fst (resource_cells qos r q nodes h w) \<longleftrightarrow> h \<or> (\<exists>n\<in>set nodes. map_of (nn_Resources n) r \<noteq> None)"
  by (induction nodes arbitrary: h w) (auto split: option.splits)

lemma resource_cells_bit:
  "i < 64 \<Longrightarrow> bit (snd (resource_cells qos r q nodes h w)) i \<longleftrightarrow>
   bit w i \<or> (\<exists>n\<in>set nodes. \<exists>a. nn_NUMAID n = i \<and> map_of (nn_Resources n) r = Some a \<and> isResourceSetSuitable qos r q a)"
  by (induction nodes arbitrary: h w) (auto simp: bit_bm_Add split: option.splits)

lemma suits_cells:
  assumes "q \<noteq> 0" "resource_cells qos r q nodes False 0 = (h, w)" "i < 64"
  shows "suits nodes qos i (r, q) \<longleftrightarrow> (\<not> h \<and> isHostLevelResource r) \<or> bit w i"
proof -
  have h: "h \<longleftrightarrow> (\<exists>n\<in>set nodes. map_of (nn_Resources n) r \<noteq> None)" using assms(2) resource_cells_affinity [of qos r q nodes False 0] by simp
  have "bit w i \<longleftrightarrow> (\<exists>n\<in>set nodes. \<exists>a. nn_NUMAID n = i \<and> map_of (nn_Resources n) r = Some a \<and> isResourceSetSuitable qos r q a)"
    using assms(2) resource_cells_bit [OF assms(3), of qos r q nodes False 0] by simp
  then show ?thesis using assms(1) h by (auto simp: suits_def)
qed

lemma available_loop_spec:
  assumes "bits = filter (\<lambda>i. bit w i \<and> list_all (suits nodes qos i) reqs) [0..<64]"
    and "w \<noteq> 0"
  shows "available_loop nodeRes qos nodes reqs w =
    (if list_all (\<lambda>(r, q). q = 0 \<or> gm_has nodeRes r) reqs \<and> bits \<noteq> [] then (hd bits, True) else (highestNUMAID, False))"
  using assms
proof (induction reqs arbitrary: w bits)
  case Nil
  then show ?case using bm_GetBits_Nil [of w] by (simp add: bm_GetBits_def Let_def)
next
  case (Cons x reqs)
  obtain r q where x: "x = (r, q)" by (cases x)
  show ?case
  proof (cases "q = 0 \<or> \<not> gm_has nodeRes r")
    case True
    then show ?thesis using Cons.IH [OF refl Cons.prems(2)] Cons.prems(1)
      by (cases "q = 0") (simp_all add: x suits_def)
  next
    case False
    obtain h w' where c: "resource_cells qos r q nodes False 0 = (h, w')" by fastforce
    have s: "suits nodes qos i (r, q) \<longleftrightarrow> (\<not> h \<and> isHostLevelResource r) \<or> bit w' i" if "i < 64" for i
      using suits_cells [OF _ c that] False by simp
    show ?thesis
    proof (cases "\<not> h \<and> isHostLevelResource r")
      case True
      have "bits = filter (\<lambda>i. bit w i \<and> list_all (suits nodes qos i) reqs) [0..<64]"
        using True s unfolding Cons.prems(1) x by (intro filter_cong) auto
      then show ?thesis using Cons.IH [OF _ Cons.prems(2)] True False by (simp add: x c)
    next
      case nh: False
      have b: "bits = filter (\<lambda>i. bit (w AND w') i \<and> list_all (suits nodes qos i) reqs) [0..<64]"
        using nh s unfolding Cons.prems(1) x by (intro filter_cong) (auto simp: bit_and_iff)
      show ?thesis
      proof (cases "w AND w' = 0")
        case True
        then have "bits = []" using b by simp
        moreover have "available_loop nodeRes qos nodes (x # reqs) w = (highestNUMAID, False)"
          using False True by (simp add: x c if_not_P [OF nh])
        ultimately show ?thesis by simp
      next
        case w: False
        then show ?thesis using Cons.IH [OF b w] False by (simp add: x c if_not_P [OF nh])
      qed
    qed
  qed
qed

text \<open>The lowest of the 64 cells that suits every request, when the node has all the resources.\<close>

definition lowest_cell :: "NUMANodeList \<Rightarrow> ResourceList \<Rightarrow> string \<Rightarrow> Resource \<Rightarrow> nat option" where
  "lowest_cell nodes reqs qos allocatable =
     (if list_all (\<lambda>(r, q). q = 0 \<or> gm_has (util_ResourceList allocatable) r) reqs
      then find (\<lambda>i. list_all (suits nodes qos i) reqs) [0..<64] else None)"

lemma find_as_filter: "find P xs = (case filter P xs of [] \<Rightarrow> None | y # ys \<Rightarrow> Some y)"
  by (induction xs) auto

lemma resourcesAvailable_lowest:
  "resourcesAvailableInAnyNUMANodes nodes reqs qos allocatable =
   (case lowest_cell nodes reqs qos allocatable of Some i \<Rightarrow> (i, True) | None \<Rightarrow> (highestNUMAID, False))"
proof -
  have "filter (\<lambda>i. bit (- 1 :: 64 word) i \<and> list_all (suits nodes qos i) reqs) [0..<64]
      = filter (\<lambda>i. list_all (suits nodes qos i) reqs) [0..<64]" by (intro filter_cong) auto
  then show ?thesis
    using available_loop_spec [OF refl, where w = "- 1" and nodes = nodes and qos = qos and reqs = reqs and nodeRes = "util_ResourceList allocatable"]
    by (auto simp: resourcesAvailableInAnyNUMANodes_def lowest_cell_def find_as_filter split: list.splits)
qed

section \<open>Subtracting from the cell found\<close>

definition numa_accounted :: "string \<Rightarrow> string \<Rightarrow> bool" where
  "numa_accounted qos r \<longleftrightarrow> \<not> (qos \<noteq> ''Guaranteed'' \<and> isNUMAAffineResource r)"













section \<open>The cells of a topology with requests taken off\<close>

definition deduct_cell :: "(string \<Rightarrow> quantity) \<Rightarrow> NUMANode \<Rightarrow> NUMANode" where
  "deduct_cell f n = n\<lparr>nn_Resources := map (\<lambda>(k, v). (k, max 0 (v - f k))) (nn_Resources n)\<rparr>"

lemma deduct_cell_simps [simp]:
  "nn_NUMAID (deduct_cell f n) = nn_NUMAID n" "nn_Costs (deduct_cell f n) = nn_Costs n"
  "map_of (nn_Resources (deduct_cell f n)) r = map_option (\<lambda>a. max 0 (a - f r)) (map_of (nn_Resources n) r)"
  by (simp_all add: deduct_cell_def map_of_map_snd)

lemma update_map_snd: "AList.update k (g k v) (map (\<lambda>(k, v). (k, g k v)) m) = map (\<lambda>(k, v). (k, g k v)) (AList.update k v m)"
  by (induction m) auto

lemma extractResources_deducted:
  "extractResources (zone\<lparr>zn_Resources := map (\<lambda>zr. zr\<lparr>ri_Available := max 0 (ri_Available zr - f (ri_Name zr))\<rparr>) (zn_Resources zone)\<rparr>)
   = map (\<lambda>(k, v). (k, max 0 (v - f k))) (extractResources zone)"
proof -
  let ?g = "\<lambda>k v. max 0 (v - f k)"
  have "fold (\<lambda>zr res. AList.update (ri_Name zr) (ri_Available zr) res) (map (\<lambda>zr. zr\<lparr>ri_Available := ?g (ri_Name zr) (ri_Available zr)\<rparr>) rs) (map (\<lambda>(k, v). (k, ?g k v)) m)
      = map (\<lambda>(k, v). (k, ?g k v)) (fold (\<lambda>zr res. AList.update (ri_Name zr) (ri_Available zr) res) rs m)" for rs m
    by (induction rs arbitrary: m) (simp_all add: update_map_snd [where g = ?g])
  from this [of "zn_Resources zone" "[]"] show ?thesis by (simp add: extractResources_def)
qed

lemma numa_zones_deducted:
  "numa_zones i (nrt_Zones (deducted f nrt)) idx (map (deduct_cell f) nodes)
   = (case numa_zones i (nrt_Zones nrt) idx nodes of Panic e \<Rightarrow> Panic e | Ret (idx', nodes') \<Rightarrow> Ret (idx', map (deduct_cell f) nodes'))"
proof -
  have "numa_zones i (map (\<lambda>zone. zone\<lparr>zn_Resources := map (\<lambda>zr. zr\<lparr>ri_Available := max 0 (ri_Available zr - f (ri_Name zr))\<rparr>) (zn_Resources zone)\<rparr>) zones) idx (map (deduct_cell f) nodes)
      = (case numa_zones i zones idx nodes of Panic e \<Rightarrow> Panic e | Ret (idx', nodes') \<Rightarrow> Ret (idx', map (deduct_cell f) nodes'))" for zones
  proof (induction zones arbitrary: i idx nodes)
    case (Cons zone zones)
    show ?case
    proof (cases "zn_Type zone \<noteq> ''Node'' \<or> NameToID (zn_Name zone) = None")
      case True
      then show ?thesis using Cons.IH by auto
    next
      case False
      then obtain k where k: "NameToID (zn_Name zone) = Some k" by auto
      then show ?thesis
        using False Cons.IH [of "Suc i" idx nodes] Cons.IH [of "Suc i" "idx[k := i]" "nodes @ [\<lparr>nn_NUMAID = k, nn_Resources = extractResources zone, nn_Costs = []\<rparr>]"]
        by (simp add: deduct_cell_def extractResources_deducted)
    qed
  qed simp
  then show ?thesis by (simp add: deducted_def)
qed

lemma zone_costs_deducted: "j < length (nrt_Zones nrt) \<Longrightarrow> zn_Costs (nrt_Zones (deducted f nrt) ! j) = zn_Costs (nrt_Zones nrt ! j)"
  by (simp add: deducted_def)

lemma numa_zones_index:
  "numa_zones i zones idx nodes = Ret (idx', nodes') \<Longrightarrow> \<forall>n\<in>set nodes. idx ! nn_NUMAID n < i \<and> nn_NUMAID n < length idx \<Longrightarrow>
   \<forall>n\<in>set nodes'. idx' ! nn_NUMAID n < i + length zones \<and> nn_NUMAID n < length idx'"
proof (induction zones arbitrary: i idx nodes)
  case (Cons zone zones)
  show ?case
  proof (cases "zn_Type zone \<noteq> ''Node'' \<or> NameToID (zn_Name zone) = None \<or> (\<exists>k. NameToID (zn_Name zone) = Some k \<and> k > maxNUMAId)")
    case True
    then show ?thesis using Cons.IH [of "Suc i" idx nodes] Cons.prems by (auto simp: less_Suc_eq split: if_splits)
  next
    case False
    then obtain k where k: "NameToID (zn_Name zone) = Some k" "\<not> k > maxNUMAId" by auto
    let ?nodes = "nodes @ [\<lparr>nn_NUMAID = k, nn_Resources = extractResources zone, nn_Costs = []\<rparr>]"
    have "k < length idx" using Cons.prems(1) False k by (auto split: if_splits)
    moreover have "numa_zones (Suc i) zones (idx[k := i]) ?nodes = Ret (idx', nodes')" using Cons.prems(1) False k by (auto split: if_splits)
    ultimately show ?thesis using Cons.IH [of "Suc i" "idx[k := i]" ?nodes] Cons.prems(2) by (auto simp: nth_list_update less_Suc_eq)
  qed
qed simp

lemma createNUMANodeList_deducted:
  assumes "createNUMANodeList (nrt_Zones nrt) = Ret cells"
  shows "createNUMANodeList (nrt_Zones (deducted f nrt)) = Ret (map (deduct_cell f) cells)"
proof -
  obtain idx nodes where z: "numa_zones 0 (nrt_Zones nrt) (replicate maxNUMAId 0) [] = Ret (idx, nodes)"
    and cells: "cells = map (\<lambda>node. WithCosts (extractCosts (zn_Costs (nrt_Zones nrt ! (idx ! nn_NUMAID node)))) node) nodes"
    using assms by (auto simp: createNUMANodeList_def split: outcome.splits)
  have "\<forall>n\<in>set nodes. idx ! nn_NUMAID n < length (nrt_Zones nrt)" using numa_zones_index [OF z] by simp
  then show ?thesis
    using numa_zones_deducted [of 0 f nrt "replicate maxNUMAId 0" "[]"] z
    by (simp add: createNUMANodeList_def cells zone_costs_deducted WithCosts_def deduct_cell_def)
qed

lemma config_deducted: "topologyManagerConfigFromNodeResourceTopology (deducted f nrt) = topologyManagerConfigFromNodeResourceTopology nrt"
  by (simp add: topologyManagerConfigFromNodeResourceTopology_def deducted_def)


section \<open>Filtering against the pessimistic cache\<close>

text \<open>The filter on a node whose cache entry is known, for a pod that it does not let pass unseen.\<close>

definition checked_pod :: "v1_Pod \<Rightarrow> bool" where
  "checked_pod pod = (GetPodQOS pod \<noteq> ''BestEffort'' \<or> IncludeNonNative pod)"

lemma nrt_Filter_handler:
  assumes "answer s node = (Some nrt, True)" "checked_pod pod"
    and "filterHandlerFromTopologyManagerConfig (topologyManagerConfigFromNodeResourceTopology nrt) = Some handler"
    and "handler pod (nrt_Zones nrt) allocatable = Ret status"
  shows "nrt_Filter answer mark pod (Some node) allocatable s = Ret (status, if status \<noteq> None then mark node s else s)"
  using assms by (auto simp: nrt_Filter_def checked_pod_def)

text \<open>What the cache holds for a node, in one resource.\<close>

abbreviation held_amount :: "node_view \<Rightarrow> string \<Rightarrow> quantity" where
  "held_amount v r \<equiv> sum_list (map (\<lambda>p. pod_amount p r) (nv_held v))"

lemma cached_answer:
  assumes "NewOverReserve (Inr nrts) cfg = Inr ov" "list_all nonneg_nrt nrts" "list_all nrt_event_ok es"
    and "v = fold (view_apply node) es (view_init nrts node)" "\<not> nv_foreign v" "nv_topology v = Some nrt"
  shows "ov_GetCachedNRTCopy (fold nrt_apply es ov) node = (Some (deducted (held_amount v) nrt), True)"
  using ov_view_answer [OF overreserve_view [OF assms(1,2,3), of node, folded assms(4)]] assms(5,6) by (simp add: view_answer_def)

text \<open>Whether a request fits cell \<open>i\<close> beside what is already held on it.\<close>

definition has_room :: "NUMANodeList \<Rightarrow> (string \<Rightarrow> quantity) \<Rightarrow> string \<Rightarrow> nat \<Rightarrow> string \<times> quantity \<Rightarrow> bool" where
  "has_room cells f qos i = (\<lambda>(r, q). q = 0
     \<or> (isHostLevelResource r \<and> (\<forall>n\<in>set cells. map_of (nn_Resources n) r = None))
     \<or> (\<exists>n\<in>set cells. \<exists>a. nn_NUMAID n = i \<and> map_of (nn_Resources n) r = Some a \<and> (numa_accounted qos r \<longrightarrow> q + f r \<le> a)))"

lemma suits_has_room:
  assumes "0 \<le> q"
  shows "suits (map (deduct_cell f) cells) qos i (r, q) \<longleftrightarrow> has_room cells f qos i (r, q)"
proof (cases "q = 0")
  case False
  have "isResourceSetSuitable qos r q (max 0 (a - f r)) \<longleftrightarrow> (numa_accounted qos r \<longrightarrow> q + f r \<le> a)" for a
    using assms False by (auto simp: isResourceSetSuitable_def numa_accounted_def)
  then show ?thesis by (simp add: suits_def has_room_def) blast
qed (simp add: suits_def has_room_def)

lemma nonneg_effective: "wf_pod p \<Longrightarrow> (r, q) \<in> set (GetPodEffectiveRequest p) \<Longrightarrow> 0 \<le> q"
  using wf_effective amount_effective nonneg_pod_amount by (metis gm_get_def gm_wf_def map_of_is_SomeI option.simps(5))

text \<open>C25: on a node with the single-NUMA policy at pod scope whose topology the pessimistic cache
  holds, the filter lets a pod through exactly when the node reports every resource that the pod
  requests and one of the 64 cells has room for the whole pod beside everything reserved on the
  node since the last topology; otherwise the node is unschedulable and marked for a
  resynchronization.\<close>

theorem pod_scope_filter:
  assumes "NewOverReserve (Inr nrts) cfg = Inr ov" "list_all nonneg_nrt nrts" "list_all nrt_event_ok es"
    and "v = fold (view_apply node) es (view_init nrts node)" "\<not> nv_foreign v" "nv_topology v = Some nrt"
    and "createNUMANodeList (nrt_Zones nrt) = Ret cells"
    and "topologyManagerConfigFromNodeResourceTopology nrt = \<lparr>tmc_Scope = ''pod'', tmc_Policy = ''single-numa-node''\<rparr>"
    and "wf_pod pod" "checked_pod pod" "s = fold nrt_apply es ov"
  shows "nrt_Filter ov_GetCachedNRTCopy ov_NodeMaybeOverReserved pod (Some node) allocatable s =
    (if list_all (\<lambda>(r, q). q = 0 \<or> gm_has (util_ResourceList allocatable) r) (GetPodEffectiveRequest pod)
        \<and> list_ex (\<lambda>i. list_all (has_room cells (held_amount v) (GetPodQOS pod) i) (GetPodEffectiveRequest pod)) [0..<64]
     then Ret (None, s) else Ret (NewStatus Unschedulable ''cannot align pod'', ov_NodeMaybeOverReserved node s))"
proof -
  let ?cells = "map (deduct_cell (held_amount v)) cells" and ?reqs = "GetPodEffectiveRequest pod"
  have suits: "list_all (suits ?cells (GetPodQOS pod) i) ?reqs = list_all (has_room cells (held_amount v) (GetPodQOS pod) i) ?reqs" for i
    using nonneg_effective [OF assms(9)] suits_has_room by (fastforce simp: list_all_iff)
  have find_case: "(case find P xs of None \<Rightarrow> (k, False) | Some i \<Rightarrow> (i, True)) = (if list_ex P xs then (the (find P xs), True) else (k, False))" for P k and xs :: "nat list"
    by (induction xs) simp_all
  have "singleNUMAPodLevelHandler pod (nrt_Zones (deducted (held_amount v) nrt)) allocatable =
      Ret (if list_all (\<lambda>(r, q). q = 0 \<or> gm_has (util_ResourceList allocatable) r) ?reqs
              \<and> list_ex (\<lambda>i. list_all (has_room cells (held_amount v) (GetPodQOS pod) i) ?reqs) [0..<64]
           then None else NewStatus Unschedulable ''cannot align pod'')"
    by (simp add: singleNUMAPodLevelHandler_def createNUMANodeList_deducted [OF assms(7)] resourcesAvailable_lowest lowest_cell_def suits
        Let_def find_case)
  then show ?thesis
    using nrt_Filter_handler [of ov_GetCachedNRTCopy s node "deducted (held_amount v) nrt" pod singleNUMAPodLevelHandler]
      cached_answer [OF assms(1-6)] assms(8,10,11)
    by (simp add: config_deducted filterHandlerFromTopologyManagerConfig_def NewStatus_def)
qed


section \<open>The example\<close>

lemma NameToID_cells: "NameToID ''node-0'' = Some 0" "NameToID ''node-1'' = Some 1"
  by (simp_all add: NameToID_def ParseInt_def digit_def)

definition two_numa :: NUMANodeList where
  "two_numa = [\<lparr>nn_NUMAID = 0, nn_Resources = [(''cpu'', 4)], nn_Costs = []\<rparr>, \<lparr>nn_NUMAID = 1, nn_Resources = [(''cpu'', 8)], nn_Costs = []\<rparr>]"

lemma two_cells_numa: "createNUMANodeList (nrt_Zones (two_cells scope 4 8)) = Ret two_numa"
  by (simp add: createNUMANodeList_def two_cells_def numa_zone_def NameToID_cells maxNUMAId_def extractResources_def extractCosts_def
      WithCosts_def two_numa_def)

lemma two_cells_config:
  "IsValidScope scope \<Longrightarrow> topologyManagerConfigFromNodeResourceTopology (two_cells scope a b) = \<lparr>tmc_Scope = scope, tmc_Policy = ''single-numa-node''\<rparr>"
  by (simp add: topologyManagerConfigFromNodeResourceTopology_def two_cells_def updateTopologyManagerConfigFromAttributes_def
      updateTopologyManagerConfigFromTopologyPolicies_def makeTopologyManagerConfigDefaults_def AttributeScope_def AttributePolicy_def IsValidPolicy_def)

lemma checked_cpu_pod: "checked_pod (cpu_pod name q)"
  by (simp add: checked_pod_def GetPodQOS_def cpu_pod_def)

definition big_node :: Resource where
  "big_node = zero_Resource\<lparr>r_MilliCPU := 12000\<rparr>"

theorem pod_scope_filter_witness:
  "nrt_Filter ov_GetCachedNRTCopy ov_NodeMaybeOverReserved (cpu_pod ''b'' 2) (Some ''n1'') big_node (fold nrt_apply [Reserved ''n1'' (cpu_pod ''a'' 3)] (cells_cache ''pod''))
   = Ret (None, fold nrt_apply [Reserved ''n1'' (cpu_pod ''a'' 3)] (cells_cache ''pod''))"
proof -
  let ?v = "\<lparr>nv_held = [cpu_pod ''a'' 3], nv_topology = Some (two_cells ''pod'' 4 8), nv_foreign = False\<rparr>"
  have req: "GetPodEffectiveRequest (cpu_pod ''b'' 2) = [(''cpu'', 2)]" by (simp add: GetPodEffectiveRequest_def cpu_pod_def zero_pod_def)
  have "has_room two_numa (held_amount ?v) (GetPodQOS (cpu_pod ''b'' 2)) 1 (''cpu'', 2)"
    by (simp add: has_room_def two_numa_def cpu_pod_amount)
  then have room: "list_ex (\<lambda>i. list_all (has_room two_numa (held_amount ?v) (GetPodQOS (cpu_pod ''b'' 2)) i) [(''cpu'', 2)]) [0..<64]"
    by (auto simp: list_ex_iff intro!: bexI [of _ 1])
  show ?thesis
    by (subst pod_scope_filter [where es = "[Reserved ''n1'' (cpu_pod ''a'' 3)]" and v = ?v and nrt = "two_cells ''pod'' 4 8" and cells = two_numa, OF cells_cache_new two_cells_nonneg])
      (simp_all add: wf_cpu_pod cells_view [simplified] two_cells_numa two_cells_config IsValidScope_def checked_cpu_pod req room [simplified]
        util_ResourceList_def big_node_def zero_Resource_def ResourceCPU_def)
qed



section \<open>Zones beyond the table\<close>

lemma numa_zones_panics:
  "length idx = maxNUMAId \<Longrightarrow>
   (\<exists>e. numa_zones i zones idx nodes = Panic e) \<longleftrightarrow> (\<exists>zone\<in>set zones. zn_Type zone = ''Node'' \<and> NameToID (zn_Name zone) = Some maxNUMAId)"
proof (induction zones arbitrary: i idx nodes)
  case (Cons zone zones)
  then show ?case by (cases "NameToID (zn_Name zone)") (auto simp: not_less)
qed simp

text \<open>the list of cells can be built exactly when no zone is the node with identifier 64: that
  identifier passes the check and is out of the range of the table of 64 zone indices.\<close>

theorem cell_64_panics:
  "(\<exists>e. createNUMANodeList zones = Panic e) \<longleftrightarrow> (\<exists>zone\<in>set zones. zn_Type zone = ''Node'' \<and> NameToID (zn_Name zone) = Some 64)"
  using numa_zones_panics [of "replicate maxNUMAId 0" 0 zones "[]"]
  by (auto simp: createNUMANodeList_def maxNUMAId_def split: outcome.splits)

section \<open>Failed scheduling cycles\<close>

text \<open>a pod that the plugin reserves and unreserves again leaves no trace in what the pessimistic
  and the discarding cache answer, for any sequence of such cycles over pods that the caches do not
  hold.\<close>

theorem failed_cycles_traceless:
  "(\<forall>(n, p)\<in>set cs. \<not> gm_has (gm_get [] (ov_assumedResources ov) n) (pod_key p)) \<Longrightarrow>
   (\<forall>(n, p)\<in>set cs. \<not> gm_has (gm_get [] m n) (pod_UID p)) \<Longrightarrow>
   ov_GetCachedNRTCopy (fold (\<lambda>(n, p) ov. nrt_Unreserve ov_UnreserveNodeResources p n (snd (nrt_Reserve ov_ReserveNodeResources p n ov))) cs ov) node
     = ov_GetCachedNRTCopy ov node
   \<and> dr_GetCachedNRTCopy get (fold (\<lambda>(n, p) m. nrt_Unreserve dr_UnreserveNodeResources p n (snd (nrt_Reserve dr_ReserveNodeResources p n m))) cs m) node
     = dr_GetCachedNRTCopy get m node"
  using ovc.failed_cycles_answer [of cs ov node] drc.failed_cycles_answer [of cs m get node]
  by (simp add: nrt_Reserve_def nrt_Unreserve_def ovc.failed_cycle_def [abs_def] drc.failed_cycle_def [abs_def] case_prod_beta')

theorem failed_cycles_traceless_witness:
  "ov_GetCachedNRTCopy (nrt_Unreserve ov_UnreserveNodeResources (cpu_pod ''a'' 3) ''n1'' (snd (nrt_Reserve ov_ReserveNodeResources (cpu_pod ''a'' 3) ''n1'' (cells_cache ''pod'')))) ''n1''
     = (Some (two_cells ''pod'' 4 8), True)"
proof -
  have "ov_GetCachedNRTCopy (nrt_Unreserve ov_UnreserveNodeResources (cpu_pod ''a'' 3) ''n1'' (snd (nrt_Reserve ov_ReserveNodeResources (cpu_pod ''a'' 3) ''n1'' (cells_cache ''pod'')))) ''n1''
      = ov_GetCachedNRTCopy (cells_cache ''pod'') ''n1''"
    using failed_cycles_traceless [of "[(''n1'', cpu_pod ''a'' 3)]" "cells_cache ''pod''" "[]" "''n1''"] by (simp add: cells_cache_def)
  then show ?thesis by (simp add: cells_cache_def ov_GetCachedNRTCopy_def cnt_IsSet_def GetNRTCopyByNodeName_def)
qed

end
