(* ===== verification/Nrt_Score_Properties.thy ===== *)
theory Nrt_Score_Properties
  imports Nrt_Score Nrt_Filter_Properties
begin

unbundle bit_operations_syntax

text \<open>
  What the topology scores mean: the search over combinations of cells finds the fewest cells that
  together hold the request, the closest ones among those; the scores of the allocation strategies
  are weighted averages between 0 and 100; and the array of scores by identifier makes a node with
  gaps in its numbering crash the scheduler.
\<close>

section \<open>Combinations\<close>

lemma set_combinations_from:
  "set (combinations_from a n k) = {xs. sorted_wrt (<) xs \<and> length xs = k \<and> set xs \<subseteq> {a..<a + n}}"
proof (induction a n k rule: combinations_from.induct)
  case (1 a n)
  show ?case by auto
next
  case (2 a k)
  show ?case by auto
next
  case (3 a n k)
  show ?case
  proof (rule set_eqI)
    fix xs
    show "xs \<in> set (combinations_from a (Suc n) (Suc k)) \<longleftrightarrow>
        xs \<in> {xs. sorted_wrt (<) xs \<and> length xs = Suc k \<and> set xs \<subseteq> {a..<a + Suc n}}"
    proof (cases xs)
      case (Cons y ys)
      have "set (y # ys) \<subseteq> {a..<a + Suc n} \<and> (\<forall>z\<in>set ys. y < z) \<longleftrightarrow>
          (y = a \<and> set ys \<subseteq> {Suc a..<Suc a + n}) \<and> (\<forall>z\<in>set ys. y < z) \<or> set (y # ys) \<subseteq> {Suc a..<Suc a + n} \<and> (\<forall>z\<in>set ys. y < z)"
        by (cases "y = a") (auto, fastforce+)
      then show ?thesis using Cons 3 by (auto simp: image_iff)
    qed (use 3 in auto)
  qed
qed

lemma set_Combinations: "c \<in> set (Combinations n k) \<longleftrightarrow> sorted_wrt (<) c \<and> length c = k \<and> set c \<subseteq> {..<n}"
  using set_combinations_from [of 0 n k] by (auto simp: Combinations_def atLeast0LessThan)

section \<open>Resources of a combination\<close>

definition comb_fits :: "string \<Rightarrow> NUMANodeList \<Rightarrow> ResourceList \<Rightarrow> nat list \<Rightarrow> bool" where
  "comb_fits qos nodes reqs c = list_all (\<lambda>(r, q). list_all (\<lambda>i. gm_has (nn_Resources (nodes ! i)) r) c
     \<and> (q = 0 \<or> isResourceSetSuitable qos r q (sum_list (map (\<lambda>i. amount (nn_Resources (nodes ! i)) r) c)))) reqs"

lemma amount_combineResources:
  assumes "\<forall>i\<in>set c. gm_wf (nn_Resources (nodes ! i))"
  shows "amount (combineResources nodes c) r = sum_list (map (\<lambda>i. amount (nn_Resources (nodes ! i)) r) c)"
proof -
  have one: "amount (fold (\<lambda>(resource, quantity) m. AList.update resource (case map_of m resource of Some val \<Rightarrow> val + quantity | None \<Rightarrow> quantity) m) rl m) r
      = amount m r + amount rl r" if "gm_wf rl" for rl m
  proof -
    have "(case map_of m k of Some val \<Rightarrow> val + q | None \<Rightarrow> q) = (case map_of m k of Some q' \<Rightarrow> q + q' | None \<Rightarrow> q)"
      for m :: ResourceList and k :: string and q :: quantity by (simp add: add.commute split: option.split)
    then show ?thesis using fold_sum_update [OF that, of m r] by (simp only:)
  qed
  have "amount (fold (\<lambda>i m. fold (\<lambda>(resource, quantity) m. AList.update resource (case map_of m resource of Some val \<Rightarrow> val + quantity | None \<Rightarrow> quantity) m)
      (nn_Resources (nodes ! i)) m) c m) r = amount m r + sum_list (map (\<lambda>i. amount (nn_Resources (nodes ! i)) r) c)" for m
    using assms by (induction c arbitrary: m) (simp_all add: one)
  then show ?thesis by (simp add: combineResources_def)
qed

lemma comb_fits_code:
  assumes "\<forall>i\<in>set c. gm_wf (nn_Resources (nodes ! i))"
  shows "comb_fits qos nodes reqs c \<longleftrightarrow> isValidCombineResources nodes reqs c \<and> checkResourcesFit qos reqs (combineResources nodes c)"
  using amount_combineResources [OF assms]
  by (auto simp: comb_fits_def isValidCombineResources_def checkResourcesFit_def list_all_iff)

section \<open>The closest combination that fits\<close>

lemma suitable_loop_spec:
  assumes "\<forall>c\<in>set cs. \<forall>i\<in>set c. gm_wf (nn_Resources (nodes ! i))"
    and "\<forall>c\<in>set cs. m \<le> nodesAvgDistance nodes c"
    and "suitable_loop qos nodes reqs m cs d best = (res, flag)"
    and "pred_option (\<lambda>b. nodesAvgDistance nodes b \<le> d) best"
  shows "(case res of
       None \<Rightarrow> best = None \<and> (\<forall>c\<in>set cs. comb_fits qos nodes reqs c \<longrightarrow> d \<le> nodesAvgDistance nodes c)
     | Some c \<Rightarrow> (c \<in> set cs \<and> comb_fits qos nodes reqs c \<or> best = Some c)
         \<and> (flag \<or> nodesAvgDistance nodes c \<le> d) \<and> (flag \<longrightarrow> nodesAvgDistance nodes c = m)
         \<and> (\<forall>c'\<in>set cs. comb_fits qos nodes reqs c' \<longrightarrow> nodesAvgDistance nodes c \<le> nodesAvgDistance nodes c'))"
  using assms
proof (induction cs arbitrary: d best)
  case Nil
  then show ?case by (auto split: option.splits)
next
  case (Cons c cs)
  have code: "comb_fits qos nodes reqs c \<longleftrightarrow> isValidCombineResources nodes reqs c \<and> checkResourcesFit qos reqs (combineResources nodes c)"
    using comb_fits_code Cons.prems(1) by simp
  consider "\<not> comb_fits qos nodes reqs c" | "comb_fits qos nodes reqs c" "nodesAvgDistance nodes c = m"
    | "comb_fits qos nodes reqs c" "nodesAvgDistance nodes c \<noteq> m" "nodesAvgDistance nodes c < d"
    | "comb_fits qos nodes reqs c" "nodesAvgDistance nodes c \<noteq> m" "\<not> nodesAvgDistance nodes c < d" by blast
  then show ?case
  proof cases
    case 1
    then have "suitable_loop qos nodes reqs m cs d best = (res, flag)" using Cons.prems(3) code by (auto split: if_splits)
    then show ?thesis using Cons.IH [of d best] Cons.prems(1,2,4) 1 by (cases res) auto
  next
    case 2
    then have "res = Some c" "flag" using Cons.prems(3) code by (auto split: if_splits)
    then show ?thesis using Cons.prems(2) 2 by auto
  next
    case 3
    then have "suitable_loop qos nodes reqs m cs (nodesAvgDistance nodes c) (Some c) = (res, flag)"
      using Cons.prems(3) code by (auto simp: Let_def split: if_splits)
    then have IH: "case res of None \<Rightarrow> False
       | Some x \<Rightarrow> (x \<in> set cs \<and> comb_fits qos nodes reqs x \<or> c = x)
           \<and> (flag \<or> nodesAvgDistance nodes x \<le> nodesAvgDistance nodes c) \<and> (flag \<longrightarrow> nodesAvgDistance nodes x = m)
           \<and> (\<forall>c'\<in>set cs. comb_fits qos nodes reqs c' \<longrightarrow> nodesAvgDistance nodes x \<le> nodesAvgDistance nodes c')"
      using Cons.IH [of "nodesAvgDistance nodes c" "Some c"] Cons.prems(1,2) by (cases res) simp_all
    have "m \<le> nodesAvgDistance nodes c" using Cons.prems(2) by simp
    then show ?thesis using IH 3 by (cases res) auto
  next
    case 4
    then have "suitable_loop qos nodes reqs m cs d best = (res, flag)" using Cons.prems(3) code by (auto simp: Let_def split: if_splits)
    then show ?thesis using Cons.IH [of d best] Cons.prems(1,2,4) 4 by (cases res) auto
  qed
qed

section \<open>Distances\<close>

text \<open>The costs of every cell are those of the ACPI table: between 0 and 255.\<close>

definition costs_ok :: "NUMANodeList \<Rightarrow> bool" where
  "costs_ok nodes = list_all (\<lambda>n. list_all (\<lambda>(k, v). 0 \<le> sint v \<and> sint v \<le> 255) (nn_Costs n)) nodes"

text \<open>The cells of a topology: distinct identifiers below 64, resources as maps, costs in range.\<close>

definition cells_ok :: "NUMANodeList \<Rightarrow> bool" where
  "cells_ok nodes = (distinct (map nn_NUMAID nodes) \<and> list_all (\<lambda>n. nn_NUMAID n < 64 \<and> gm_wf (nn_Resources n)) nodes \<and> costs_ok nodes)"

lemma cells_ok_length: "cells_ok nodes \<Longrightarrow> length nodes \<le> 64"
proof -
  assume ok: "cells_ok nodes"
  then have "card (nn_NUMAID ` set nodes) \<le> card {..<64 :: nat}" by (intro card_mono) (auto simp: cells_ok_def list_all_iff)
  moreover have "card (nn_NUMAID ` set nodes) = length nodes" using ok distinct_card [of "map nn_NUMAID nodes"] by (simp add: cells_ok_def)
  ultimately show ?thesis by simp
qed

lemma sint_add_small:
  fixes a b :: i64
  assumes "0 \<le> sint a" "sint a \<le> 2 ^ 30" "0 \<le> sint b" "sint b \<le> 255"
  shows "sint (a + b) = sint a + sint b"
  using sint_fits [of "sint a + sint b"] assms by simp

lemma sum_costs:
  fixes f :: "nat \<Rightarrow> i64"
  assumes "\<forall>j\<in>set js. 0 \<le> sint (f j) \<and> sint (f j) \<le> 255" "0 \<le> sint a" "sint a + 255 * int (length js) \<le> 2 ^ 30"
  shows "sint (fold (\<lambda>j a. a + f j) js a) = sint a + sum_list (map (\<lambda>j. sint (f j)) js)"
  using assms
proof (induction js arbitrary: a)
  case (Cons j js)
  have j: "0 \<le> sint (f j)" "sint (f j) \<le> 255" using Cons.prems(1) by simp_all
  have "sint (a + f j) = sint a + sint (f j)" using Cons.prems(2,3) j by (intro sint_add_small) simp_all
  then show ?case using Cons.IH [of "a + f j"] Cons.prems j by simp
qed simp

text \<open>The cost between two cells, and the sum of the costs within a combination.\<close>

definition cost :: "NUMANodeList \<Rightarrow> nat \<Rightarrow> nat \<Rightarrow> i64" where
  "cost nodes i j = (case map_of (nn_Costs (nodes ! i)) (nn_NUMAID (nodes ! j)) of None \<Rightarrow> maxDistanceValue | Some c \<Rightarrow> c)"

definition total_cost :: "NUMANodeList \<Rightarrow> nat list \<Rightarrow> int" where
  "total_cost nodes c = sum_list (map (\<lambda>i. sum_list (map (\<lambda>j. sint (cost nodes i j)) c)) c)"

lemma cost_range: "costs_ok nodes \<Longrightarrow> i < length nodes \<Longrightarrow> 0 \<le> sint (cost nodes i j) \<and> sint (cost nodes i j) \<le> 255"
proof -
  assume ok: "costs_ok nodes" and i: "i < length nodes"
  have "0 \<le> sint v \<and> sint v \<le> 255" if "map_of (nn_Costs (nodes ! i)) k = Some v" for k v
    using ok map_of_SomeD [OF that] nth_mem [OF i] by (auto simp: costs_ok_def list_all_iff)
  then show ?thesis by (auto simp: cost_def maxDistanceValue_def split: option.splits)
qed

lemma sum_list_bound: "\<forall>x\<in>set xs. 0 \<le> f x \<and> f x \<le> b \<Longrightarrow> 0 \<le> sum_list (map f xs) \<and> sum_list (map f xs) \<le> b * int (length xs)" for b :: int
  by (induction xs) (auto simp: algebra_simps)

lemma accu_total:
  assumes "costs_ok nodes" "set c \<subseteq> {..<length nodes}" "length c \<le> 64"
  shows "sint (fold (\<lambda>i a. fold (\<lambda>j a. a + cost nodes i j) c a) c (0 :: i64)) = total_cost nodes c"
proof -
  let ?n = "255 * int (length c)"
  let ?S = "\<lambda>i. sum_list (map (\<lambda>j. sint (cost nodes i j)) c)"
  have S: "0 \<le> ?S i \<and> ?S i \<le> ?n" if "i < length nodes" for i
    using cost_range [OF assms(1) that] by (intro sum_list_bound) simp
  have n: "?n \<le> 255 * 64" using assms(3) by simp
  have "set is \<subseteq> set c \<Longrightarrow> 0 \<le> sint a \<Longrightarrow> sint a + ?n * int (length is) \<le> 2 ^ 29 \<Longrightarrow>
      sint (fold (\<lambda>i a. fold (\<lambda>j a. a + cost nodes i j) c a) is a) = sint a + sum_list (map ?S is)" for "is" and a :: i64
  proof (induction "is" arbitrary: a)
    case (Cons i "is")
    have i: "i < length nodes" using Cons.prems(1) assms(2) by auto
    have a: "sint a + ?n + ?n * int (length is) \<le> 2 ^ 29" using Cons.prems(3) by (simp add: algebra_simps)
    have nn: "0 \<le> ?n * int (length is)" by simp
    have step: "sint (fold (\<lambda>j a. a + cost nodes i j) c a) = sint a + ?S i"
    proof (intro sum_costs)
      have "sint a + ?n \<le> 2 ^ 29" using a nn by linarith
      also have "(2 :: int) ^ 29 \<le> 2 ^ 30" by simp
      finally show "sint a + ?n \<le> 2 ^ 30" .
    qed (use cost_range [OF assms(1) i] Cons.prems(2) in auto)
    have "sint (fold (\<lambda>i a. fold (\<lambda>j a. a + cost nodes i j) c a) is (fold (\<lambda>j a. a + cost nodes i j) c a))
        = sint (fold (\<lambda>j a. a + cost nodes i j) c a) + sum_list (map ?S is)"
      using Cons.prems S [OF i] a by (intro Cons.IH) (auto simp: step)
    then show ?case by (simp add: step)
  qed simp
  moreover have "?n * int (length c) \<le> 255 * 64 * 64" using n assms(3) by (intro mult_mono) simp_all
  ultimately show ?thesis by (simp add: total_cost_def)
qed

lemma nodesAvgDistance_total:
  assumes "costs_ok nodes" "set c \<subseteq> {..<length nodes}" "length c \<le> 64" "c \<noteq> []"
  shows "nodesAvgDistance nodes c = f32 (of_int (total_cost nodes c) / of_nat (length c * length c))"
    and "0 \<le> total_cost nodes c" "total_cost nodes c \<le> 255 * int (length c * length c)"
proof -
  have S: "0 \<le> sum_list (map (\<lambda>j. sint (cost nodes i j)) c) \<and> sum_list (map (\<lambda>j. sint (cost nodes i j)) c) \<le> 255 * int (length c)" if "i \<in> set c" for i
    using cost_range [OF assms(1)] assms(2) that by (intro sum_list_bound) auto
  have t: "0 \<le> total_cost nodes c \<and> total_cost nodes c \<le> 255 * int (length c) * int (length c)"
    unfolding total_cost_def by (rule sum_list_bound) (use S in blast)
  show "0 \<le> total_cost nodes c" "total_cost nodes c \<le> 255 * int (length c * length c)" using t by simp_all
  have l: "int (length c * length c) \<le> 64 * 64" using assms(3) by (simp only: of_nat_mult) (intro mult_mono, simp_all)
  have "f32 (of_int (total_cost nodes c)) = of_int (total_cost nodes c)" using t l by (intro f32_int) (simp add: mult.assoc)
  moreover have "f32 (of_nat (length c * length c)) = of_nat (length c * length c)" using f32_int [of "int (length c * length c)"] l by simp
  ultimately show "nodesAvgDistance nodes c = f32 (of_int (total_cost nodes c) / of_nat (length c * length c))"
    using assms(4) by (simp only: nodesAvgDistance_def cost_def [symmetric] Let_def accu_total [OF assms(1,2,3)] if_False)
qed

lemma nodesAvgDistance_range:
  assumes "costs_ok nodes" "set c \<subseteq> {..<length nodes}" "length c \<le> 64"
  shows "nodesAvgDistance nodes c \<le> 255"
proof (cases "c = []")
  case False
  note t = nodesAvgDistance_total [OF assms False]
  have "rat_of_int (total_cost nodes c) \<le> 255 * rat_of_nat (length c * length c)" using t(3) by (metis of_int_le_iff of_int_mult of_int_numeral of_int_of_nat_eq)
  then have "rat_of_int (total_cost nodes c) / of_nat (length c * length c) \<le> 255" using False by (simp add: divide_le_eq)
  then show ?thesis using f32_mono [of _ 255] f32_int [of 255] by (simp add: t(1))
qed (simp add: nodesAvgDistance_def maxDistanceValue_def)

section \<open>The fewest cells that hold a request\<close>

lemma minAvgDistance_le:
  "c \<in> set cs \<Longrightarrow> minAvgDistanceInCombinations nodes cs \<le> nodesAvgDistance nodes c"
proof -
  let ?f = "\<lambda>c m. let d = nodesAvgDistance nodes c in if d < m then d else m"
  have dec: "fold ?f cs m \<le> m" for cs m by (induction cs arbitrary: m) (auto simp: Let_def intro: order_trans less_imp_le)
  have "c \<in> set cs \<Longrightarrow> fold ?f cs m \<le> nodesAvgDistance nodes c" for m
  proof (induction cs arbitrary: m)
    case (Cons c' cs)
    show ?case
    proof (cases "c = c'")
      case True
      then show ?thesis using dec [of cs "?f c' m"] by (auto simp: Let_def split: if_splits)
    qed (use Cons in simp)
  qed simp
  then show "c \<in> set cs \<Longrightarrow> minAvgDistanceInCombinations nodes cs \<le> nodesAvgDistance nodes c"
    by (simp add: minAvgDistanceInCombinations_def)
qed

definition increasing_below :: "nat \<Rightarrow> nat list \<Rightarrow> bool" where
  "increasing_below n c = (c \<noteq> [] \<and> sorted_wrt (<) c \<and> set c \<subseteq> {..<n})"

lemma findSuitable_spec:
  assumes "cells_ok nodes" "0 < k" "findSuitableCombination qos nodes reqs (Combinations (length nodes) k) = (res, flag)"
  shows "case res of
       None \<Rightarrow> \<forall>c. increasing_below (length nodes) c \<and> length c = k \<longrightarrow> \<not> comb_fits qos nodes reqs c
     | Some c \<Rightarrow> increasing_below (length nodes) c \<and> length c = k \<and> comb_fits qos nodes reqs c
         \<and> (\<forall>c'. increasing_below (length nodes) c' \<and> length c' = k \<and> comb_fits qos nodes reqs c' \<longrightarrow> nodesAvgDistance nodes c \<le> nodesAvgDistance nodes c')"
proof -
  let ?cs = "Combinations (length nodes) k"
  have mem: "c \<in> set ?cs \<longleftrightarrow> increasing_below (length nodes) c \<and> length c = k" for c
    using assms(2) by (auto simp: set_Combinations increasing_below_def)
  have "\<forall>c\<in>set ?cs. \<forall>i\<in>set c. gm_wf (nn_Resources (nodes ! i))"
    using assms(1) nth_mem by (fastforce simp: set_Combinations cells_ok_def list_all_iff)
  moreover have "\<forall>c\<in>set ?cs. minAvgDistanceInCombinations nodes ?cs \<le> nodesAvgDistance nodes c" using minAvgDistance_le by blast
  ultimately have spec: "case res of
       None \<Rightarrow> (\<forall>c\<in>set ?cs. comb_fits qos nodes reqs c \<longrightarrow> 256 \<le> nodesAvgDistance nodes c)
     | Some c \<Rightarrow> c \<in> set ?cs \<and> comb_fits qos nodes reqs c
         \<and> (\<forall>c'\<in>set ?cs. comb_fits qos nodes reqs c' \<longrightarrow> nodesAvgDistance nodes c \<le> nodesAvgDistance nodes c')"
    using suitable_loop_spec [of ?cs nodes "minAvgDistanceInCombinations nodes ?cs" qos reqs 256 None res flag] assms(3)
    by (cases res) (simp_all add: findSuitableCombination_def)
  have "nodesAvgDistance nodes c \<le> 255" if "c \<in> set ?cs" for c
  proof -
    have c: "sorted_wrt (<) c" "set c \<subseteq> {..<length nodes}" using that by (simp_all add: set_Combinations)
    have "card (set c) \<le> card {..<length nodes}" using c(2) by (intro card_mono) simp_all
    moreover have "card (set c) = length c" using c(1) by (simp add: distinct_card strict_sorted_iff)
    ultimately have "length c \<le> 64" using cells_ok_length [OF assms(1)] by simp
    then show ?thesis using nodesAvgDistance_range c(2) assms(1) by (simp add: cells_ok_def)
  qed
  then have far: "\<not> 256 \<le> nodesAvgDistance nodes c" if "c \<in> set ?cs" for c using that by fastforce
  show ?thesis using spec far unfolding Ball_def mem by (cases res) auto
qed

lemma bits_of_combination:
  "i < 64 \<Longrightarrow> bit (fold (\<lambda>j bm. bm_Add (nn_NUMAID (nodes ! j)) bm) c w) i \<longleftrightarrow> bit w i \<or> i \<in> (\<lambda>j. nn_NUMAID (nodes ! j)) ` set c"
  by (induction c arbitrary: w) (auto simp: bit_bm_Add)

lemma GetBits_combination:
  assumes "cells_ok nodes" "increasing_below (length nodes) c"
  shows "set (bm_GetBits (fold (\<lambda>j bm. bm_Add (nn_NUMAID (nodes ! j)) bm) c 0)) = (\<lambda>j. nn_NUMAID (nodes ! j)) ` set c"
    and "bm_Count (fold (\<lambda>j bm. bm_Add (nn_NUMAID (nodes ! j)) bm) c 0) = length c"
proof -
  let ?w = "fold (\<lambda>j bm. bm_Add (nn_NUMAID (nodes ! j)) bm) c 0" and ?id = "\<lambda>j. nn_NUMAID (nodes ! j)"
  have c: "set c \<subseteq> {..<length nodes}" "distinct c" using assms(2) by (simp_all add: increasing_below_def strict_sorted_iff)
  have "?id j < 64" if "j \<in> set c" for j using assms(1) c(1) that by (auto simp: cells_ok_def list_all_iff)
  then show set: "set (bm_GetBits ?w) = ?id ` set c" using bits_of_combination [of _ nodes c 0] by (auto simp: bm_GetBits_def)
  have "inj_on ?id (set c)" using assms(1) c(1) by (auto simp: cells_ok_def distinct_conv_nth inj_on_def subset_iff)
  then have "card (?id ` set c) = length c" using card_image [of ?id "set c"] distinct_card [OF c(2)] by simp
  moreover have "distinct (bm_GetBits ?w)" by (simp add: bm_GetBits_def)
  ultimately show "bm_Count ?w = length c" using distinct_card [of "bm_GetBits ?w"] set by (simp add: bm_Count_def)
qed

text \<open>Among the combinations of at least the given size, the result is the smallest and closest that
  fits.\<close>

definition fewest :: "string \<Rightarrow> NUMANodeList \<Rightarrow> ResourceList \<Rightarrow> nat \<Rightarrow> bitMask option \<Rightarrow> bool" where
  "fewest qos nodes reqs k res = (case res of
       None \<Rightarrow> \<forall>c. increasing_below (length nodes) c \<and> k \<le> length c \<longrightarrow> \<not> comb_fits qos nodes reqs c
     | Some bm \<Rightarrow> \<exists>c. increasing_below (length nodes) c \<and> comb_fits qos nodes reqs c
         \<and> set (bm_GetBits bm) = (\<lambda>i. nn_NUMAID (nodes ! i)) ` set c \<and> bm_Count bm = length c
         \<and> (\<forall>c'. increasing_below (length nodes) c' \<and> k \<le> length c' \<and> comb_fits qos nodes reqs c' \<longrightarrow> length c \<le> length c'
              \<and> (length c' = length c \<longrightarrow> nodesAvgDistance nodes c \<le> nodesAvgDistance nodes c')))"

lemma fewest_Suc:
  assumes "fewest qos nodes reqs (Suc k) res" "\<And>c. increasing_below (length nodes) c \<Longrightarrow> length c = k \<Longrightarrow> \<not> comb_fits qos nodes reqs c"
  shows "fewest qos nodes reqs k res"
proof -
  have "k \<le> length c \<and> comb_fits qos nodes reqs c \<longleftrightarrow> Suc k \<le> length c \<and> comb_fits qos nodes reqs c" if "increasing_below (length nodes) c" for c
    using assms(2) that by (metis Suc_le_eq le_eq_less_or_eq)
  then show ?thesis using assms(1) unfolding fewest_def by (cases res) (simp_all, blast, meson)
qed

lemma increasing_below_length: "increasing_below n c \<Longrightarrow> length c \<le> n"
  using card_mono [of "{..<n}" "set c"] by (simp add: increasing_below_def strict_sorted_iff distinct_card)

lemma required_loop_fewest:
  assumes "cells_ok nodes" "0 < k"
  shows "fewest qos nodes reqs k (fst (required_loop qos nodes reqs [k..<Suc (length nodes)]))"
  using assms(2)
proof (induction "Suc (length nodes) - k" arbitrary: k)
  case 0
  then show ?case using increasing_below_length [of "length nodes"] by (fastforce simp: fewest_def)
next
  case (Suc m)
  then have up: "[k..<Suc (length nodes)] = k # [Suc k..<Suc (length nodes)]" by (simp add: upt_rec)
  obtain res flag where f: "findSuitableCombination qos nodes reqs (Combinations (length nodes) k) = (res, flag)" by fastforce
  note spec = findSuitable_spec [OF assms(1) Suc.prems f]
  show ?case
  proof (cases res)
    case None
    have "fewest qos nodes reqs (Suc k) (fst (required_loop qos nodes reqs [Suc k..<Suc (length nodes)]))" using Suc.hyps by simp
    then show ?thesis using fewest_Suc spec unfolding up by (simp add: f None del: upt_Suc)
  next
    case (Some c)
    then show ?thesis using spec GetBits_combination [OF assms(1), of c] unfolding up by (auto simp: fewest_def f intro!: exI [of _ c])
  qed
qed

text \<open>C26: the cells required for a request are the fewest that report every requested resource and
  together have enough of it, and among those of that size the closest by average distance; none
  are found exactly when no combination of cells holds the request.\<close>

theorem fewest_cells:
  assumes "cells_ok nodes"
  shows "case fst (numaNodesRequired qos nodes reqs) of
       None \<Rightarrow> \<forall>c. increasing_below (length nodes) c \<longrightarrow> \<not> comb_fits qos nodes reqs c
     | Some bm \<Rightarrow> \<exists>c. increasing_below (length nodes) c \<and> comb_fits qos nodes reqs c
         \<and> set (bm_GetBits bm) = (\<lambda>i. nn_NUMAID (nodes ! i)) ` set c \<and> bm_Count bm = length c
         \<and> (\<forall>c'. increasing_below (length nodes) c' \<and> comb_fits qos nodes reqs c' \<longrightarrow> length c \<le> length c'
              \<and> (length c' = length c \<longrightarrow> nodesAvgDistance nodes c \<le> nodesAvgDistance nodes c'))"
proof -
  have "Suc 0 \<le> length c" if "increasing_below (length nodes) c" for c using that by (cases c) (simp_all add: increasing_below_def)
  then show ?thesis using required_loop_fewest [OF assms, of 1 qos reqs]
    unfolding fewest_def numaNodesRequired_def by (cases "fst (required_loop qos nodes reqs [1..<Suc (length nodes)])") (auto simp del: upt_Suc)
qed

lemma two_numa_required: "fst (numaNodesRequired ''Guaranteed'' two_numa [(''cpu'', 10)]) = Some 3"
  by code_simp

theorem fewest_cells_witness:
  "\<exists>c. increasing_below 2 c \<and> comb_fits ''Guaranteed'' two_numa [(''cpu'', 10)] c \<and> length c = 2
     \<and> (\<forall>c'. increasing_below 2 c' \<and> comb_fits ''Guaranteed'' two_numa [(''cpu'', 10)] c' \<longrightarrow> 2 \<le> length c')"
proof -
  have ok: "cells_ok two_numa" by (simp add: cells_ok_def two_numa_def costs_ok_def gm_wf_def)
  have "length two_numa = 2" "bm_Count 3 = 2" by (simp add: two_numa_def) code_simp
  then show ?thesis using fewest_cells [OF ok, of "''Guaranteed''" "[(''cpu'', 10)]"] by (force simp: two_numa_required)
qed

text \<open>the score for a number of cells, at most 64, is within the range of node scores exactly when
  there are at most eight of them: beyond, it is negative.\<close>

theorem cells_score_range:
  assumes "1 \<le> k" "k \<le> 64"
  shows "0 \<le> sint (normalizeScore k closest) \<and> sint (normalizeScore k closest) \<le> 100 \<longleftrightarrow> k \<le> 8"
proof -
  have d: "div64 100 8 = 12" "div64 12 2 = 6" by (simp_all add: div64_def)
  have s: "sint (word_of_int (100 - int k * 12 + x) :: i64) = 100 - int k * 12 + x" if "0 \<le> x" "x \<le> 6" for x
    using assms that by (intro sint_fits) simp_all
  have "normalizeScore k closest = word_of_int (100 - int k * 12 + (if closest then 6 else 0))"
    by (simp add: normalizeScore_def MaxNodeScore_def highestNUMAID_def d Let_def)
  then have "sint (normalizeScore k closest) = 100 - int k * 12 + (if closest then 6 else 0)" using s by simp
  then show ?thesis using assms(1) by (cases closest) auto
qed

theorem cells_score_range_witness:
  "0 \<le> sint (normalizeScore 8 True) \<and> \<not> 0 \<le> sint (normalizeScore 9 True)"
proof -
  have "sint (normalizeScore 9 True) \<le> 100" by code_simp
  then show ?thesis using cells_score_range [of 8 True] cells_score_range [of 9 True] by simp
qed

section \<open>Weighted averages\<close>

lemma nrt_weight_pos: "1 \<le> sint (nrt_weight rw r)"
  by (auto simp: nrt_weight_def split: option.splits)

text \<open>The sum of the weights of the requested resources.\<close>

definition weight_sum :: "(string, i64) gomap \<Rightarrow> ResourceList \<Rightarrow> int" where
  "weight_sum weights reqs = sum_list (map (\<lambda>(r, q). sint (nrt_weight weights r)) reqs)"

lemma weight_sum_nonneg: "0 \<le> weight_sum weights reqs"
proof -
  have "0 \<le> sint (nrt_weight weights r)" for r using nrt_weight_pos [of weights r] by simp
  then show ?thesis by (auto simp: weight_sum_def intro!: sum_list_nonneg)
qed

lemma sint_add_fits: "- (2 ^ 63) \<le> sint a + sint b \<Longrightarrow> sint a + sint b < 2 ^ 63 \<Longrightarrow> sint ((a :: i64) + b) = sint a + sint b"
  using sint_fits [of "sint a + sint b"] by simp

lemma weighted_scores_spec:
  assumes "\<forall>(r, q)\<in>set reqs. score q (amount al r) = Ret (word_of_int (g r q)) \<and> 0 \<le> g r q \<and> g r q \<le> 100"
    and "0 \<le> sint a" "0 \<le> sint b" "sint a \<le> 100 * sint b" "(sint b + weight_sum weights reqs) * 100 < 2 ^ 63"
  shows "\<exists>a' b'. weighted_scores score al weights reqs a b = Ret (a', b')
    \<and> sint a' = sint a + sum_list (map (\<lambda>(r, q). g r q * sint (nrt_weight weights r)) reqs) \<and> sint b' = sint b + weight_sum weights reqs"
  using assms
proof (induction reqs arbitrary: a b)
  case Nil
  then show ?case by (simp add: weight_sum_def)
next
  case (Cons x reqs)
  obtain r q where x: "x = (r, q)" by (cases x)
  let ?w = "nrt_weight weights r"
  have g: "score q (amount al r) = Ret (word_of_int (g r q))" "0 \<le> g r q" "g r q \<le> 100" using Cons.prems(1) by (simp_all add: x)
  have w: "1 \<le> sint ?w" by (rule nrt_weight_pos)
  have ws: "weight_sum weights (x # reqs) = sint ?w + weight_sum weights reqs" by (simp add: weight_sum_def x)
  have big: "(sint b + sint ?w) * 100 < 2 ^ 63" using Cons.prems(5) weight_sum_nonneg [of weights reqs] by (simp add: ws)
  have gs: "sint (word_of_int (g r q) :: i64) = g r q" using g(2,3) by (intro sint_fits) simp_all
  have gw: "0 \<le> g r q * sint ?w" "g r q * sint ?w \<le> 100 * sint ?w" using g(2,3) w by (simp_all add: mult_right_mono)
  have m: "sint (word_of_int (g r q) * ?w) = g r q * sint ?w"
    using sint_mult_fits [of "word_of_int (g r q)" ?w] gs gw big Cons.prems(3) by simp
  have a: "sint (a + word_of_int (g r q) * ?w) = sint a + g r q * sint ?w"
    using sint_add_fits [of a "word_of_int (g r q) * ?w"] gw big Cons.prems(2,4) by (simp add: m)
  have b: "sint (b + ?w) = sint b + sint ?w" using sint_add_fits [of b ?w] big Cons.prems(3) w by simp
  have "\<exists>a' b'. weighted_scores score al weights reqs (a + word_of_int (g r q) * ?w) (b + ?w) = Ret (a', b')
    \<and> sint a' = sint (a + word_of_int (g r q) * ?w) + sum_list (map (\<lambda>(r, q). g r q * sint (nrt_weight weights r)) reqs) \<and> sint b' = sint (b + ?w) + weight_sum weights reqs"
  proof (intro Cons.IH)
    show "sint (a + word_of_int (g r q) * ?w) \<le> 100 * sint (b + ?w)" using add_mono [OF Cons.prems(4) gw(2)] by (simp only: a b distrib_left)
    show "(sint (b + ?w) + weight_sum weights reqs) * 100 < 2 ^ 63" using Cons.prems(5) by (simp only: b ws add.assoc)
  qed (use Cons.prems gw w in \<open>auto simp: x a b\<close>)
  then show ?case by (simp add: x g(1) Let_def a b ws [unfolded x] add.assoc)
qed

lemma div64_nonneg:
  assumes "0 \<le> sint a" "0 < sint b"
  shows "sint (div64 a b) = sint a div sint b"
proof -
  have "sgn (sint b) = 1" using assms(2) by simp
  then have "sgn (sint a) * sgn (sint b) * (\<bar>sint a\<bar> div \<bar>sint b\<bar>) = sint a div sint b"
    using assms by (cases "0 < sint a") (simp_all only: sgn_1_pos [THEN iffD2] abs_of_nonneg abs_of_pos mult_1_left, simp)
  moreover have "sint a div sint b \<le> sint a" using zdiv_mono2 [of "sint a" 1 "sint b"] assms by simp
  moreover have "0 \<le> sint a div sint b" using assms by (simp add: pos_imp_zdiv_nonneg_iff)
  ultimately show ?thesis using sint_fits [of "sint a div sint b"] sint_range64(2) [of a] by (simp add: div64_def)
qed

text \<open>Quantities in whole units, rounded up, as long as a hundredfold of them fits 64 bits.\<close>

definition units :: "quantity \<Rightarrow> int" where
  "units q = (q + 999999999) div 1000000000"

lemma sint_quantity_Value: "0 \<le> q \<Longrightarrow> units q * 100 < 2 ^ 63 \<Longrightarrow> sint (quantity_Value q) = units q"
proof -
  assume q: "0 \<le> q" "units q * 100 < 2 ^ 63"
  have "sgn q * ((\<bar>q\<bar> + 1000000000 - 1) div 1000000000) = units q" using q(1) by (cases "q = 0") (simp_all add: units_def)
  moreover have "0 \<le> units q" using q(1) by (simp add: units_def)
  ultimately show ?thesis using q(2) sint_fits [of "units q"] by (simp add: quantity_Value_def ScaledValue_def Let_def)
qed

lemma units_mono: "p \<le> q \<Longrightarrow> units p \<le> units q"
  by (simp add: units_def zdiv_mono1)

text \<open>The share of a cell that a request leaves free or takes, in percent.\<close>

definition free_share :: "quantity \<Rightarrow> quantity \<Rightarrow> int" where
  "free_share q a = (if a = 0 \<or> a < q then 0 else (units a - units q) * 100 div units a)"

definition used_share :: "quantity \<Rightarrow> quantity \<Rightarrow> int" where
  "used_share q a = (if a = 0 \<or> a < q then 0 else units q * 100 div units a)"

lemma share_range:
  assumes "0 \<le> x" "x \<le> n" "0 < n"
  shows "0 \<le> x * 100 div n" "x * 100 div n \<le> (100 :: int)"
proof -
  show "0 \<le> x * 100 div n" using assms by (simp add: pos_imp_zdiv_nonneg_iff)
  have "x * 100 div n \<le> n * 100 div n" using assms by (intro zdiv_mono1) simp_all
  then show "x * 100 div n \<le> 100" using assms(3) by simp
qed

lemma allocated_scores:
  assumes "0 \<le> q" "0 \<le> a" "units a * 100 < 2 ^ 63"
  shows "leastAllocatedScore q a = Ret (word_of_int (free_share q a)) \<and> 0 \<le> free_share q a \<and> free_share q a \<le> 100"
    and "mostAllocatedScore q a = Ret (word_of_int (used_share q a)) \<and> 0 \<le> used_share q a \<and> used_share q a \<le> 100"
proof -
  have le: "leastAllocatedScore q a = Ret (word_of_int (free_share q a)) \<and> 0 \<le> free_share q a \<and> free_share q a \<le> 100
      \<and> mostAllocatedScore q a = Ret (word_of_int (used_share q a)) \<and> 0 \<le> used_share q a \<and> used_share q a \<le> 100" if "a \<noteq> 0" "q \<le> a"
  proof -
    have u: "0 \<le> units q" "units q \<le> units a" "0 < units a" using assms that units_mono [of q a] by (simp_all add: units_def pos_imp_zdiv_pos_iff)
    have v: "sint (quantity_Value a) = units a" "sint (quantity_Value q) = units q" using sint_quantity_Value assms u(2) by simp_all
    have d: "sint (quantity_Value a - quantity_Value q) = units a - units q" using sint_diff_fits [of "quantity_Value a" "quantity_Value q"] v u assms(3) by simp
    have m: "sint ((quantity_Value a - quantity_Value q) * 100) = (units a - units q) * 100" "sint (quantity_Value q * 100) = units q * 100"
      using sint_mult_fits [of "quantity_Value a - quantity_Value q" 100] sint_mult_fits [of "quantity_Value q" 100] d v u assms(3) by simp_all
    have of_sint: "v = word_of_int k" if "sint v = k" for v :: i64 and k using that by auto
    have nz: "quantity_Value a \<noteq> 0" using v(1) u(3) by auto
    have "div64 ((quantity_Value a - quantity_Value q) * 100) (quantity_Value a) = word_of_int ((units a - units q) * 100 div units a)"
      "div64 (quantity_Value q * 100) (quantity_Value a) = word_of_int (units q * 100 div units a)"
      using div64_nonneg [of "(quantity_Value a - quantity_Value q) * 100" "quantity_Value a"] div64_nonneg [of "quantity_Value q * 100" "quantity_Value a"] m v u
      by (auto intro!: of_sint)
    then show ?thesis using that nz share_range [of "units a - units q" "units a"] share_range [of "units q" "units a"] u
      by (simp add: leastAllocatedScore_def mostAllocatedScore_def go_div_def MaxNodeScore_def free_share_def used_share_def)
  qed
  show "leastAllocatedScore q a = Ret (word_of_int (free_share q a)) \<and> 0 \<le> free_share q a \<and> free_share q a \<le> 100"
    using le by (cases "a = 0 \<or> a < q") (auto simp: leastAllocatedScore_def free_share_def)
  show "mostAllocatedScore q a = Ret (word_of_int (used_share q a)) \<and> 0 \<le> used_share q a \<and> used_share q a \<le> 100"
    using le by (cases "a = 0 \<or> a < q") (auto simp: mostAllocatedScore_def used_share_def)
qed

definition weighted_average :: "(quantity \<Rightarrow> quantity \<Rightarrow> int) \<Rightarrow> ResourceList \<Rightarrow> ResourceList \<Rightarrow> (string, i64) gomap \<Rightarrow> int" where
  "weighted_average share reqs al weights =
     sum_list (map (\<lambda>(r, q). share q (amount al r) * sint (nrt_weight weights r)) reqs) div weight_sum weights reqs"

lemma weighted_average_score:
  assumes "\<forall>(r, q)\<in>set reqs. score q (amount al r) = Ret (word_of_int (share q (amount al r))) \<and> 0 \<le> share q (amount al r) \<and> share q (amount al r) \<le> 100"
    and "reqs \<noteq> []" "weight_sum weights reqs * 100 < 2 ^ 63"
  shows "\<exists>s. (case weighted_scores score al weights reqs 0 0 of Panic e \<Rightarrow> Panic e | Ret (n, w) \<Rightarrow> go_div n w) = Ret s
    \<and> sint s = weighted_average share reqs al weights \<and> 0 \<le> sint s \<and> sint s \<le> 100"
proof -
  let ?n = "sum_list (map (\<lambda>(r, q). share q (amount al r) * sint (nrt_weight weights r)) reqs)" and ?W = "weight_sum weights reqs"
  obtain n w where nw: "weighted_scores score al weights reqs 0 0 = Ret (n, w)" "sint n = ?n" "sint w = ?W"
    using weighted_scores_spec [OF assms(1), of 0 0 weights] assms(3) by auto
  have "1 \<le> ?W"
  proof (cases reqs)
    case (Cons x xs)
    then show ?thesis using nrt_weight_pos [of weights "fst x"] weight_sum_nonneg [of weights xs] by (simp add: weight_sum_def case_prod_beta')
  qed (use assms(2) in simp)
  moreover have n: "0 \<le> ?n \<and> ?n \<le> 100 * ?W" using assms(1)
  proof (induction reqs)
    case (Cons x xs)
    have w: "1 \<le> sint (nrt_weight weights (fst x))" by (rule nrt_weight_pos)
    have g: "0 \<le> share (snd x) (amount al (fst x))" "share (snd x) (amount al (fst x)) \<le> 100" using Cons.prems by (auto simp: case_prod_beta')
    have "0 \<le> share (snd x) (amount al (fst x)) * sint (nrt_weight weights (fst x))" "share (snd x) (amount al (fst x)) * sint (nrt_weight weights (fst x)) \<le> 100 * sint (nrt_weight weights (fst x))"
      using g w by (simp_all add: mult_right_mono)
    then show ?case using Cons by (simp add: weight_sum_def case_prod_beta')
  qed (simp add: weight_sum_def)
  ultimately have d: "sint (div64 n w) = ?n div ?W" "0 \<le> ?n div ?W" "?n div ?W \<le> 100"
    using div64_nonneg [of n w] nw zdiv_mono1 [of ?n "100 * ?W" ?W] by (simp_all add: pos_imp_zdiv_nonneg_iff)
  have "w \<noteq> 0" using nw(3) \<open>1 \<le> ?W\<close> by auto
  then show ?thesis using nw(1) d by (simp add: go_div_def weighted_average_def)
qed

text \<open>C29: the two allocation strategies score a cell between 0 and 100, the average over the requested
  resources, by weight, of the percentage that the request leaves free or takes; a resource that
  the cell lacks or has too little of counts 0.\<close>

theorem allocation_scores:
  assumes "reqs \<noteq> []" "weight_sum weights reqs * 100 < 2 ^ 63"
    and "\<forall>(r, q)\<in>set reqs. 0 \<le> q \<and> 0 \<le> amount al r \<and> units (amount al r) * 100 < 2 ^ 63"
  shows "(\<exists>s. leastAllocatedScoreStrategy reqs al weights = Ret s \<and> sint s = weighted_average free_share reqs al weights \<and> 0 \<le> sint s \<and> sint s \<le> 100)
    \<and> (\<exists>s. mostAllocatedScoreStrategy reqs al weights = Ret s \<and> sint s = weighted_average used_share reqs al weights \<and> 0 \<le> sint s \<and> sint s \<le> 100)"
proof -
  have "\<forall>(r, q)\<in>set reqs. leastAllocatedScore q (amount al r) = Ret (word_of_int (free_share q (amount al r))) \<and> 0 \<le> free_share q (amount al r) \<and> free_share q (amount al r) \<le> 100"
    "\<forall>(r, q)\<in>set reqs. mostAllocatedScore q (amount al r) = Ret (word_of_int (used_share q (amount al r))) \<and> 0 \<le> used_share q (amount al r) \<and> used_share q (amount al r) \<le> 100"
    using allocated_scores assms(3) by fastforce+
  then show ?thesis unfolding leastAllocatedScoreStrategy_def mostAllocatedScoreStrategy_def using weighted_average_score assms(1,2) by blast
qed

theorem allocation_scores_witness:
  "\<exists>s. leastAllocatedScoreStrategy [(''cpu'', 2000000000), (''memory'', 1000000000)] [(''cpu'', 8000000000), (''memory'', 4000000000)] [(''cpu'', 3)] = Ret s \<and> sint s = 75"
proof -
  let ?reqs = "[(''cpu'', 2000000000), (''memory'', 1000000000)] :: ResourceList" and ?al = "[(''cpu'', 8000000000), (''memory'', 4000000000)] :: ResourceList"
  have "weight_sum [(''cpu'', 3)] ?reqs = 4" by (simp add: weight_sum_def nrt_weight_def)
  moreover have "weighted_average free_share ?reqs ?al [(''cpu'', 3)] = 75"
    by (simp add: weighted_average_def weight_sum_def nrt_weight_def free_share_def units_def)
  ultimately show ?thesis using allocation_scores [of ?reqs "[(''cpu'', 3)]" ?al] by (auto simp: units_def)
qed

section \<open>Identifiers with gaps\<close>

text \<open>a score for every cell of a node is computed exactly when every identifier is below the
  number of cells: otherwise the array of scores, which nothing reads, is indexed out of range.\<close>

theorem sparse_cells_panic:
  assumes "\<And>n. n \<in> set cells \<Longrightarrow> \<exists>s. score reqs (nn_Resources n) weights = Ret s"
  shows "(\<exists>e. scoreForEachNUMANode reqs cells score weights = Panic e) \<longleftrightarrow> (\<exists>n\<in>set cells. length cells \<le> nn_NUMAID n)"
proof -
  have "(\<exists>e. score_cells score weights reqs len cells m = Panic e) \<longleftrightarrow> (\<exists>n\<in>set cells. len \<le> nn_NUMAID n)" for len m
    using assms
  proof (induction cells arbitrary: m)
    case (Cons c cells)
    obtain s where "score reqs (nn_Resources c) weights = Ret s" using Cons.prems by auto
    then show ?case using Cons by (simp add: Let_def)
  qed simp
  then show ?thesis by (simp add: scoreForEachNUMANode_def)
qed

theorem sparse_cells_panic_witness:
  "\<exists>e. scoreForEachNUMANode [(''cpu'', 1)] [\<lparr>nn_NUMAID = 1, nn_Resources = [(''cpu'', 8)], nn_Costs = []\<rparr>] leastAllocatedScoreStrategy [] = Panic e"
proof -
  let ?cells = "[\<lparr>nn_NUMAID = 1, nn_Resources = [(''cpu'', 8)], nn_Costs = []\<rparr>] :: NUMANodeList"
  have "\<exists>s. leastAllocatedScoreStrategy [(''cpu'', 1)] (nn_Resources n) [] = Ret s" if "n \<in> set ?cells" for n
    using that by (auto simp: leastAllocatedScoreStrategy_def leastAllocatedScore_def nrt_weight_def go_div_def quantity_Value_def ScaledValue_def)
  then have "(\<exists>e. scoreForEachNUMANode [(''cpu'', 1)] ?cells leastAllocatedScoreStrategy [] = Panic e) \<longleftrightarrow> (\<exists>n\<in>set ?cells. length ?cells \<le> nn_NUMAID n)"
    by (rule sparse_cells_panic)
  then show ?thesis by simp
qed

end
