(* ===== verification/Plugin_Args.thy ===== *)
theory Plugin_Args
  imports Node_Scores Float64 Nrt_Score Nrt_Filter
begin

text \<open>
  The arguments of the plugins: the versioned types of \<^verbatim>\<open>apis/config/v1/types.go\<close>, the internal
  types of \<^verbatim>\<open>apis/config/types.go\<close>, the defaults of \<^verbatim>\<open>v1/defaults.go\<close>, the conversions of
  \<^verbatim>\<open>v1/conversion.go\<close> and \<^verbatim>\<open>v1/zz_generated.conversion.go\<close> with their registration, the
  validations of \<^verbatim>\<open>validation/validation_pluginargs.go\<close>, and the constructor of the
  NodeResourceTopologyMatch plugin, which reads most of them.

  A pointer field is an option, nil being \<open>None\<close>; a float64 is the rational it stands for.  The
  embedded TypeMeta (kind and version of the object) is not touched by any function here and is
  left out.  Names of the versioned types carry the prefix \<open>v1_\<close>.
\<close>

section \<open>Versioned types\<close>

record v1_CoschedulingArgs =
  vco_PermitWaitingTimeSeconds :: "i64 option"
  vco_PodGroupBackoffSeconds :: "i64 option"

record v1_NodeResourcesAllocatableArgs =
  val_Resources :: "ResourceSpec list"
  val_Mode :: string

record v1_MetricProviderSpec =
  vmp_Type :: string
  vmp_Address :: "string option"
  vmp_Token :: "string option"
  vmp_InsecureSkipVerify :: "bool option"

record v1_TrimaranSpec =
  vts_MetricProvider :: v1_MetricProviderSpec
  vts_WatcherAddress :: "string option"

record v1_TargetLoadPackingArgs =
  vtl_TrimaranSpec :: v1_TrimaranSpec
  vtl_DefaultRequests :: "ResourceList option"
  vtl_DefaultRequestsMultiplier :: "string option"
  vtl_TargetUtilization :: "i64 option"

record v1_LoadVariationRiskBalancingArgs =
  vlv_TrimaranSpec :: v1_TrimaranSpec
  vlv_SafeVarianceMargin :: "rat option"
  vlv_SafeVarianceSensitivity :: "rat option"

record v1_LowRiskOverCommitmentArgs =
  vlr_TrimaranSpec :: v1_TrimaranSpec
  vlr_SmoothingWindowSize :: "i64 option"
  vlr_RiskLimitWeights :: "(string, rat) gomap"

record v1_ScoringStrategy =
  vss_Type :: string
  vss_Resources :: "ResourceSpec list"

record v1_NodeResourceTopologyCache =
  vnc_ForeignPodsDetect :: "string option"
  vnc_ResyncMethod :: "string option"
  vnc_InformerMode :: "string option"

record v1_NodeResourceTopologyMatchArgs =
  vnm_ScoringStrategy :: "v1_ScoringStrategy option"
  vnm_CacheResyncPeriodSeconds :: "i64 option"
  vnm_DiscardReservedNodes :: bool
  vnm_Cache :: "v1_NodeResourceTopologyCache option"

record v1_PreemptionTolerationArgs =
  vpt_MinCandidateNodesPercentage :: "i32 option"
  vpt_MinCandidateNodesAbsolute :: "i32 option"

record v1_TopologicalSortArgs =
  vto_Namespaces :: "string list"

record v1_NetworkOverheadArgs =
  vno_Namespaces :: "string list"
  vno_WeightsName :: "string option"
  vno_NetworkTopologyName :: "string option"

record v1_SySchedArgs =
  vsy_DefaultProfileNamespace :: "string option"
  vsy_DefaultProfileName :: "string option"

record v1_WAMArgs =
  vwa_Test :: "string option"

section \<open>Internal types\<close>

record CoschedulingArgs =
  ico_PermitWaitingTimeSeconds :: i64
  ico_PodGroupBackoffSeconds :: i64

record MetricProviderSpec =
  mp_Type :: string
  mp_Address :: string
  mp_Token :: string
  mp_InsecureSkipVerify :: bool

record TrimaranSpec =
  ts_MetricProvider :: MetricProviderSpec
  ts_WatcherAddress :: string

record TargetLoadPackingArgs =
  tl_TrimaranSpec :: TrimaranSpec
  tl_DefaultRequests :: "ResourceList option"
  tl_DefaultRequestsMultiplier :: string
  tl_TargetUtilization :: i64

record LoadVariationRiskBalancingArgs =
  lv_TrimaranSpec :: TrimaranSpec
  lv_SafeVarianceMargin :: rat
  lv_SafeVarianceSensitivity :: rat

record LowRiskOverCommitmentArgs =
  lr_TrimaranSpec :: TrimaranSpec
  lr_SmoothingWindowSize :: i64
  lr_RiskLimitWeights :: "(string, rat) gomap"

record ScoringStrategy =
  ss_Type :: string
  ss_Resources :: "ResourceSpec list"

record NodeResourceTopologyCache =
  nc_ForeignPodsDetect :: "string option"
  nc_ResyncMethod :: "string option"
  nc_InformerMode :: "string option"

record NodeResourceTopologyMatchArgs =
  nm_ScoringStrategy :: ScoringStrategy
  nm_CacheResyncPeriodSeconds :: i64
  nm_DiscardReservedNodes :: bool
  nm_Cache :: "NodeResourceTopologyCache option"

record PreemptionTolerationArgs =
  ipt_MinCandidateNodesPercentage :: i32
  ipt_MinCandidateNodesAbsolute :: i32

record TopologicalSortArgs =
  ito_Namespaces :: "string list"

record NetworkOverheadArgs =
  ino_Namespaces :: "string list"
  ino_WeightsName :: string
  ino_NetworkTopologyName :: string

record SySchedArgs =
  isy_DefaultProfileNamespace :: string
  isy_DefaultProfileName :: string

record WAMArgs =
  iwa_Test :: "string option"

section \<open>Defaults\<close>

text \<open>\<open>if p == nil { p = &v }\<close>.\<close>

definition ptr_default :: "'a \<Rightarrow> 'a option \<Rightarrow> 'a option" where
  "ptr_default v p = (if p = None then Some v else p)"

definition SetDefaults_CoschedulingArgs :: "v1_CoschedulingArgs \<Rightarrow> v1_CoschedulingArgs" where
  "SetDefaults_CoschedulingArgs obj = obj\<lparr>
     vco_PermitWaitingTimeSeconds := ptr_default 60 (vco_PermitWaitingTimeSeconds obj),
     vco_PodGroupBackoffSeconds := ptr_default 0 (vco_PodGroupBackoffSeconds obj)\<rparr>"

definition defaultNodeResourcesAllocatableResourcesToWeightMap :: "ResourceSpec list" where
  "defaultNodeResourcesAllocatableResourcesToWeightMap =
     [\<lparr>rs_Name = ''cpu'', rs_Weight = push_bit 20 1\<rparr>, \<lparr>rs_Name = ''memory'', rs_Weight = 1\<rparr>]"

definition SetDefaults_NodeResourcesAllocatableArgs :: "v1_NodeResourcesAllocatableArgs \<Rightarrow> v1_NodeResourcesAllocatableArgs" where
  "SetDefaults_NodeResourcesAllocatableArgs obj = obj\<lparr>
     val_Resources := (if length (val_Resources obj) = 0 then defaultNodeResourcesAllocatableResourcesToWeightMap else val_Resources obj),
     val_Mode := (if val_Mode obj = '''' then ''Least'' else val_Mode obj)\<rparr>"

definition SetDefaultTrimaranSpec :: "v1_TrimaranSpec \<Rightarrow> v1_TrimaranSpec" where
  "SetDefaultTrimaranSpec args =
     (let mp = vts_MetricProvider args;
          mp1 = (if vts_WatcherAddress args = None \<and> vmp_Type mp = '''' then mp\<lparr>vmp_Type := ''KubernetesMetricsServer''\<rparr> else mp);
          mp2 = (if vmp_Type mp1 = ''Prometheus'' \<and> vmp_InsecureSkipVerify mp1 = None then mp1\<lparr>vmp_InsecureSkipVerify := Some True\<rparr> else mp1)
      in args\<lparr>vts_MetricProvider := mp2\<rparr>)"

text \<open>The default request \<^verbatim>\<open>resource.MustParse("1000m")\<close> is a thousand millicores.\<close>

definition SetDefaults_TargetLoadPackingArgs :: "v1_TargetLoadPackingArgs \<Rightarrow> v1_TargetLoadPackingArgs" where
  "SetDefaults_TargetLoadPackingArgs args =
     args\<lparr>vtl_TrimaranSpec := SetDefaultTrimaranSpec (vtl_TrimaranSpec args),
       vtl_DefaultRequests := ptr_default [(ResourceCPU, NewMilliQuantity 1000)] (vtl_DefaultRequests args),
       vtl_DefaultRequestsMultiplier := ptr_default ''1.5'' (vtl_DefaultRequestsMultiplier args),
       vtl_TargetUtilization := (case vtl_TargetUtilization args of
          None \<Rightarrow> Some 40
        | Some t \<Rightarrow> if sint t \<le> 0 then Some 40 else Some t)\<rparr>"

definition SetDefaults_LoadVariationRiskBalancingArgs :: "v1_LoadVariationRiskBalancingArgs \<Rightarrow> v1_LoadVariationRiskBalancingArgs" where
  "SetDefaults_LoadVariationRiskBalancingArgs args =
     args\<lparr>vlv_TrimaranSpec := SetDefaultTrimaranSpec (vlv_TrimaranSpec args),
       vlv_SafeVarianceMargin := (case vlv_SafeVarianceMargin args of
          None \<Rightarrow> Some 1 | Some m \<Rightarrow> if m < 0 then Some 1 else Some m),
       vlv_SafeVarianceSensitivity := (case vlv_SafeVarianceSensitivity args of
          None \<Rightarrow> Some 1 | Some m \<Rightarrow> if m < 0 then Some 1 else Some m)\<rparr>"

definition SetDefaults_LowRiskOverCommitmentArgs :: "v1_LowRiskOverCommitmentArgs \<Rightarrow> v1_LowRiskOverCommitmentArgs" where
  "SetDefaults_LowRiskOverCommitmentArgs args =
     args\<lparr>vlr_TrimaranSpec := SetDefaultTrimaranSpec (vlr_TrimaranSpec args),
       vlr_SmoothingWindowSize := (case vlr_SmoothingWindowSize args of
          None \<Rightarrow> Some 5 | Some s \<Rightarrow> if sint s \<le> 0 then Some 5 else Some s),
       vlr_RiskLimitWeights :=
         (if length (vlr_RiskLimitWeights args) = 0 then [(ResourceCPU, 1/2), (ResourceMemory, 1/2)]
          else map (\<lambda>(r, w). if w < 0 \<or> w > 1 then (r, 1/2) else (r, w)) (vlr_RiskLimitWeights args))\<rparr>"

definition defaultResourceSpec :: "ResourceSpec list" where
  "defaultResourceSpec = [\<lparr>rs_Name = ResourceCPU, rs_Weight = 1\<rparr>, \<lparr>rs_Name = ResourceMemory, rs_Weight = 1\<rparr>]"

definition SetDefaults_NodeResourceTopologyMatchArgs :: "v1_NodeResourceTopologyMatchArgs \<Rightarrow> v1_NodeResourceTopologyMatchArgs" where
  "SetDefaults_NodeResourceTopologyMatchArgs obj =
     (let strategy = (case vnm_ScoringStrategy obj of
            None \<Rightarrow> \<lparr>vss_Type = ''LeastAllocated'', vss_Resources = defaultResourceSpec\<rparr> | Some s \<Rightarrow> s);
          resources = (if length (vss_Resources strategy) = 0 then vss_Resources strategy @ defaultResourceSpec else vss_Resources strategy);
          weighted = map (\<lambda>r. if rs_Weight r = 0 then r\<lparr>rs_Weight := 1\<rparr> else r) resources;
          cache = (case vnm_Cache obj of
            None \<Rightarrow> \<lparr>vnc_ForeignPodsDetect = None, vnc_ResyncMethod = None, vnc_InformerMode = None\<rparr> | Some c \<Rightarrow> c)
      in obj\<lparr>vnm_ScoringStrategy := Some (strategy\<lparr>vss_Resources := weighted\<rparr>),
           vnm_Cache := Some (cache\<lparr>
             vnc_ForeignPodsDetect := ptr_default ''All'' (vnc_ForeignPodsDetect cache),
             vnc_ResyncMethod := ptr_default ''Autodetect'' (vnc_ResyncMethod cache),
             vnc_InformerMode := ptr_default ''Dedicated'' (vnc_InformerMode cache)\<rparr>)\<rparr>)"

definition SetDefaults_PreemptionTolerationArgs :: "v1_PreemptionTolerationArgs \<Rightarrow> v1_PreemptionTolerationArgs" where
  "SetDefaults_PreemptionTolerationArgs obj = obj\<lparr>
     vpt_MinCandidateNodesPercentage := ptr_default 10 (vpt_MinCandidateNodesPercentage obj),
     vpt_MinCandidateNodesAbsolute := ptr_default 100 (vpt_MinCandidateNodesAbsolute obj)\<rparr>"

definition SetDefaults_TopologicalSortArgs :: "v1_TopologicalSortArgs \<Rightarrow> v1_TopologicalSortArgs" where
  "SetDefaults_TopologicalSortArgs obj =
     (if length (vto_Namespaces obj) = 0 then obj\<lparr>vto_Namespaces := [''default'']\<rparr> else obj)"

definition SetDefaults_NetworkOverheadArgs :: "v1_NetworkOverheadArgs \<Rightarrow> v1_NetworkOverheadArgs" where
  "SetDefaults_NetworkOverheadArgs obj = obj\<lparr>
     vno_Namespaces := (if length (vno_Namespaces obj) = 0 then [''default''] else vno_Namespaces obj),
     vno_WeightsName := ptr_default ''UserDefined'' (vno_WeightsName obj),
     vno_NetworkTopologyName := ptr_default ''nt-default'' (vno_NetworkTopologyName obj)\<rparr>"

definition SetDefaults_SySchedArgs :: "v1_SySchedArgs \<Rightarrow> v1_SySchedArgs" where
  "SetDefaults_SySchedArgs obj = obj\<lparr>
     vsy_DefaultProfileNamespace := ptr_default ''default'' (vsy_DefaultProfileNamespace obj),
     vsy_DefaultProfileName := ptr_default ''all-syscalls'' (vsy_DefaultProfileName obj)\<rparr>"

text \<open>The pointer is read before it is compared with nil.\<close>

definition SetDefaults_WAMArgs :: "v1_WAMArgs \<Rightarrow> v1_WAMArgs outcome" where
  "SetDefaults_WAMArgs args = (case vwa_Test args of
     None \<Rightarrow> Panic nil_deref
   | Some t \<Rightarrow> Ret (if t = '''' then args\<lparr>vwa_Test := Some ''default''\<rparr> else args))"

section \<open>Conversions\<close>

text \<open>A nil pointer becomes the zero value, a value becomes a pointer to a copy of it.\<close>

definition Convert_Pointer :: "'a \<Rightarrow> 'a option \<Rightarrow> 'a" where
  "Convert_Pointer zero p = (case p of None \<Rightarrow> zero | Some v \<Rightarrow> v)"

definition Convert_To_Pointer :: "'a \<Rightarrow> 'a option" where
  "Convert_To_Pointer v = (let temp = v in Some temp)"

text \<open>\<open>Convert_v1_T\<close> is the conversion of the versioned \<open>T\<close> to the internal one and
  \<open>Convert_config_T\<close> the conversion back, each with the generated body it delegates to.  A cast of
  an unsafe pointer between the two versions of a type with the same fields keeps the value.\<close>

definition Convert_v1_CoschedulingArgs :: "v1_CoschedulingArgs \<Rightarrow> CoschedulingArgs" where
  "Convert_v1_CoschedulingArgs x = \<lparr>ico_PermitWaitingTimeSeconds = Convert_Pointer 0 (vco_PermitWaitingTimeSeconds x),
     ico_PodGroupBackoffSeconds = Convert_Pointer 0 (vco_PodGroupBackoffSeconds x)\<rparr>"

definition Convert_config_CoschedulingArgs :: "CoschedulingArgs \<Rightarrow> v1_CoschedulingArgs" where
  "Convert_config_CoschedulingArgs x = \<lparr>vco_PermitWaitingTimeSeconds = Convert_To_Pointer (ico_PermitWaitingTimeSeconds x),
     vco_PodGroupBackoffSeconds = Convert_To_Pointer (ico_PodGroupBackoffSeconds x)\<rparr>"

definition Convert_v1_MetricProviderSpec :: "v1_MetricProviderSpec \<Rightarrow> MetricProviderSpec" where
  "Convert_v1_MetricProviderSpec x = \<lparr>mp_Type = vmp_Type x,
     mp_Address = Convert_Pointer '''' (vmp_Address x),
     mp_Token = Convert_Pointer '''' (vmp_Token x),
     mp_InsecureSkipVerify = Convert_Pointer False (vmp_InsecureSkipVerify x)\<rparr>"

definition Convert_config_MetricProviderSpec :: "MetricProviderSpec \<Rightarrow> v1_MetricProviderSpec" where
  "Convert_config_MetricProviderSpec x = \<lparr>vmp_Type = mp_Type x,
     vmp_Address = Convert_To_Pointer (mp_Address x),
     vmp_Token = Convert_To_Pointer (mp_Token x),
     vmp_InsecureSkipVerify = Convert_To_Pointer (mp_InsecureSkipVerify x)\<rparr>"

definition Convert_v1_TrimaranSpec :: "v1_TrimaranSpec \<Rightarrow> TrimaranSpec" where
  "Convert_v1_TrimaranSpec x = \<lparr>ts_MetricProvider = Convert_v1_MetricProviderSpec (vts_MetricProvider x),
     ts_WatcherAddress = Convert_Pointer '''' (vts_WatcherAddress x)\<rparr>"

definition Convert_config_TrimaranSpec :: "TrimaranSpec \<Rightarrow> v1_TrimaranSpec" where
  "Convert_config_TrimaranSpec x = \<lparr>vts_MetricProvider = Convert_config_MetricProviderSpec (ts_MetricProvider x),
     vts_WatcherAddress = Convert_To_Pointer (ts_WatcherAddress x)\<rparr>"

definition Convert_v1_LoadVariationRiskBalancingArgs :: "v1_LoadVariationRiskBalancingArgs \<Rightarrow> LoadVariationRiskBalancingArgs" where
  "Convert_v1_LoadVariationRiskBalancingArgs x = \<lparr>lv_TrimaranSpec = Convert_v1_TrimaranSpec (vlv_TrimaranSpec x),
     lv_SafeVarianceMargin = Convert_Pointer 0 (vlv_SafeVarianceMargin x),
     lv_SafeVarianceSensitivity = Convert_Pointer 0 (vlv_SafeVarianceSensitivity x)\<rparr>"

definition Convert_config_LoadVariationRiskBalancingArgs :: "LoadVariationRiskBalancingArgs \<Rightarrow> v1_LoadVariationRiskBalancingArgs" where
  "Convert_config_LoadVariationRiskBalancingArgs x = \<lparr>vlv_TrimaranSpec = Convert_config_TrimaranSpec (lv_TrimaranSpec x),
     vlv_SafeVarianceMargin = Convert_To_Pointer (lv_SafeVarianceMargin x),
     vlv_SafeVarianceSensitivity = Convert_To_Pointer (lv_SafeVarianceSensitivity x)\<rparr>"

definition Convert_v1_LowRiskOverCommitmentArgs :: "v1_LowRiskOverCommitmentArgs \<Rightarrow> LowRiskOverCommitmentArgs" where
  "Convert_v1_LowRiskOverCommitmentArgs x = \<lparr>lr_TrimaranSpec = Convert_v1_TrimaranSpec (vlr_TrimaranSpec x),
     lr_SmoothingWindowSize = Convert_Pointer 0 (vlr_SmoothingWindowSize x),
     lr_RiskLimitWeights = vlr_RiskLimitWeights x\<rparr>"

definition Convert_config_LowRiskOverCommitmentArgs :: "LowRiskOverCommitmentArgs \<Rightarrow> v1_LowRiskOverCommitmentArgs" where
  "Convert_config_LowRiskOverCommitmentArgs x = \<lparr>vlr_TrimaranSpec = Convert_config_TrimaranSpec (lr_TrimaranSpec x),
     vlr_SmoothingWindowSize = Convert_To_Pointer (lr_SmoothingWindowSize x),
     vlr_RiskLimitWeights = lr_RiskLimitWeights x\<rparr>"

definition Convert_v1_NetworkOverheadArgs :: "v1_NetworkOverheadArgs \<Rightarrow> NetworkOverheadArgs" where
  "Convert_v1_NetworkOverheadArgs x = \<lparr>ino_Namespaces = vno_Namespaces x,
     ino_WeightsName = Convert_Pointer '''' (vno_WeightsName x),
     ino_NetworkTopologyName = Convert_Pointer '''' (vno_NetworkTopologyName x)\<rparr>"

definition Convert_config_NetworkOverheadArgs :: "NetworkOverheadArgs \<Rightarrow> v1_NetworkOverheadArgs" where
  "Convert_config_NetworkOverheadArgs x = \<lparr>vno_Namespaces = ino_Namespaces x,
     vno_WeightsName = Convert_To_Pointer (ino_WeightsName x),
     vno_NetworkTopologyName = Convert_To_Pointer (ino_NetworkTopologyName x)\<rparr>"

definition Convert_v1_NodeResourceTopologyCache :: "v1_NodeResourceTopologyCache \<Rightarrow> NodeResourceTopologyCache" where
  "Convert_v1_NodeResourceTopologyCache x = \<lparr>nc_ForeignPodsDetect = vnc_ForeignPodsDetect x,
     nc_ResyncMethod = vnc_ResyncMethod x,
     nc_InformerMode = vnc_InformerMode x\<rparr>"

definition Convert_config_NodeResourceTopologyCache :: "NodeResourceTopologyCache \<Rightarrow> v1_NodeResourceTopologyCache" where
  "Convert_config_NodeResourceTopologyCache x = \<lparr>vnc_ForeignPodsDetect = nc_ForeignPodsDetect x,
     vnc_ResyncMethod = nc_ResyncMethod x,
     vnc_InformerMode = nc_InformerMode x\<rparr>"

definition Convert_v1_NodeResourcesAllocatableArgs :: "v1_NodeResourcesAllocatableArgs \<Rightarrow> NodeResourcesAllocatableArgs" where
  "Convert_v1_NodeResourcesAllocatableArgs x = \<lparr>aa_Resources = val_Resources x,
     aa_Mode = val_Mode x\<rparr>"

definition Convert_config_NodeResourcesAllocatableArgs :: "NodeResourcesAllocatableArgs \<Rightarrow> v1_NodeResourcesAllocatableArgs" where
  "Convert_config_NodeResourcesAllocatableArgs x = \<lparr>val_Resources = aa_Resources x,
     val_Mode = aa_Mode x\<rparr>"

definition Convert_v1_PreemptionTolerationArgs :: "v1_PreemptionTolerationArgs \<Rightarrow> PreemptionTolerationArgs" where
  "Convert_v1_PreemptionTolerationArgs x = \<lparr>ipt_MinCandidateNodesPercentage = Convert_Pointer 0 (vpt_MinCandidateNodesPercentage x),
     ipt_MinCandidateNodesAbsolute = Convert_Pointer 0 (vpt_MinCandidateNodesAbsolute x)\<rparr>"

definition Convert_config_PreemptionTolerationArgs :: "PreemptionTolerationArgs \<Rightarrow> v1_PreemptionTolerationArgs" where
  "Convert_config_PreemptionTolerationArgs x = \<lparr>vpt_MinCandidateNodesPercentage = Convert_To_Pointer (ipt_MinCandidateNodesPercentage x),
     vpt_MinCandidateNodesAbsolute = Convert_To_Pointer (ipt_MinCandidateNodesAbsolute x)\<rparr>"

definition Convert_v1_ScoringStrategy :: "v1_ScoringStrategy \<Rightarrow> ScoringStrategy" where
  "Convert_v1_ScoringStrategy x = \<lparr>ss_Type = vss_Type x,
     ss_Resources = vss_Resources x\<rparr>"

definition Convert_config_ScoringStrategy :: "ScoringStrategy \<Rightarrow> v1_ScoringStrategy" where
  "Convert_config_ScoringStrategy x = \<lparr>vss_Type = ss_Type x,
     vss_Resources = ss_Resources x\<rparr>"

definition Convert_v1_SySchedArgs :: "v1_SySchedArgs \<Rightarrow> SySchedArgs" where
  "Convert_v1_SySchedArgs x = \<lparr>isy_DefaultProfileNamespace = Convert_Pointer '''' (vsy_DefaultProfileNamespace x),
     isy_DefaultProfileName = Convert_Pointer '''' (vsy_DefaultProfileName x)\<rparr>"

definition Convert_config_SySchedArgs :: "SySchedArgs \<Rightarrow> v1_SySchedArgs" where
  "Convert_config_SySchedArgs x = \<lparr>vsy_DefaultProfileNamespace = Convert_To_Pointer (isy_DefaultProfileNamespace x),
     vsy_DefaultProfileName = Convert_To_Pointer (isy_DefaultProfileName x)\<rparr>"

definition Convert_v1_TargetLoadPackingArgs :: "v1_TargetLoadPackingArgs \<Rightarrow> TargetLoadPackingArgs" where
  "Convert_v1_TargetLoadPackingArgs x = \<lparr>tl_TrimaranSpec = Convert_v1_TrimaranSpec (vtl_TrimaranSpec x),
     tl_DefaultRequests = vtl_DefaultRequests x,
     tl_DefaultRequestsMultiplier = Convert_Pointer '''' (vtl_DefaultRequestsMultiplier x),
     tl_TargetUtilization = Convert_Pointer 0 (vtl_TargetUtilization x)\<rparr>"

definition Convert_config_TargetLoadPackingArgs :: "TargetLoadPackingArgs \<Rightarrow> v1_TargetLoadPackingArgs" where
  "Convert_config_TargetLoadPackingArgs x = \<lparr>vtl_TrimaranSpec = Convert_config_TrimaranSpec (tl_TrimaranSpec x),
     vtl_DefaultRequests = tl_DefaultRequests x,
     vtl_DefaultRequestsMultiplier = Convert_To_Pointer (tl_DefaultRequestsMultiplier x),
     vtl_TargetUtilization = Convert_To_Pointer (tl_TargetUtilization x)\<rparr>"

definition Convert_v1_TopologicalSortArgs :: "v1_TopologicalSortArgs \<Rightarrow> TopologicalSortArgs" where
  "Convert_v1_TopologicalSortArgs x = \<lparr>ito_Namespaces = vto_Namespaces x\<rparr>"

definition Convert_config_TopologicalSortArgs :: "TopologicalSortArgs \<Rightarrow> v1_TopologicalSortArgs" where
  "Convert_config_TopologicalSortArgs x = \<lparr>vto_Namespaces = ito_Namespaces x\<rparr>"

definition Convert_v1_WAMArgs :: "v1_WAMArgs \<Rightarrow> WAMArgs" where
  "Convert_v1_WAMArgs x = \<lparr>iwa_Test = vwa_Test x\<rparr>"

definition Convert_config_WAMArgs :: "WAMArgs \<Rightarrow> v1_WAMArgs" where
  "Convert_config_WAMArgs x = \<lparr>vwa_Test = iwa_Test x\<rparr>"

text \<open>The scoring strategy is left at its zero value by the generated code and converted by hand,
  its pointer being read without a test.\<close>

definition autoConvert_v1_NodeResourceTopologyMatchArgs :: "v1_NodeResourceTopologyMatchArgs \<Rightarrow> NodeResourceTopologyMatchArgs" where
  "autoConvert_v1_NodeResourceTopologyMatchArgs x = \<lparr>
     nm_ScoringStrategy = \<lparr>ss_Type = '''', ss_Resources = []\<rparr>,
     nm_CacheResyncPeriodSeconds = Convert_Pointer 0 (vnm_CacheResyncPeriodSeconds x),
     nm_DiscardReservedNodes = vnm_DiscardReservedNodes x,
     nm_Cache = map_option Convert_v1_NodeResourceTopologyCache (vnm_Cache x)\<rparr>"

definition autoConvert_config_NodeResourceTopologyMatchArgs :: "NodeResourceTopologyMatchArgs \<Rightarrow> v1_NodeResourceTopologyMatchArgs" where
  "autoConvert_config_NodeResourceTopologyMatchArgs x = \<lparr>
     vnm_ScoringStrategy = None,
     vnm_CacheResyncPeriodSeconds = Convert_To_Pointer (nm_CacheResyncPeriodSeconds x),
     vnm_DiscardReservedNodes = nm_DiscardReservedNodes x,
     vnm_Cache = map_option Convert_config_NodeResourceTopologyCache (nm_Cache x)\<rparr>"

definition Convert_v1_NodeResourceTopologyMatchArgs :: "v1_NodeResourceTopologyMatchArgs \<Rightarrow> NodeResourceTopologyMatchArgs outcome" where
  "Convert_v1_NodeResourceTopologyMatchArgs x =
     (let out = autoConvert_v1_NodeResourceTopologyMatchArgs x in
      case vnm_ScoringStrategy x of
        None \<Rightarrow> Panic nil_deref
      | Some s \<Rightarrow> Ret (out\<lparr>nm_ScoringStrategy := Convert_v1_ScoringStrategy s\<rparr>))"

definition Convert_config_NodeResourceTopologyMatchArgs :: "NodeResourceTopologyMatchArgs \<Rightarrow> v1_NodeResourceTopologyMatchArgs" where
  "Convert_config_NodeResourceTopologyMatchArgs x =
     (let out = autoConvert_config_NodeResourceTopologyMatchArgs x in
      out\<lparr>vnm_ScoringStrategy := Some (Convert_config_ScoringStrategy (nm_ScoringStrategy x))\<rparr>)"

section \<open>The scheme\<close>

text \<open>An object of the scheme is a pointer to one of the types for which functions are registered.\<close>

datatype v1_object =
    V1_Coscheduling v1_CoschedulingArgs
  | V1_Allocatable v1_NodeResourcesAllocatableArgs
  | V1_TargetLoadPacking v1_TargetLoadPackingArgs
  | V1_LoadVariation v1_LoadVariationRiskBalancingArgs
  | V1_LowRisk v1_LowRiskOverCommitmentArgs
  | V1_TopologyMatch v1_NodeResourceTopologyMatchArgs
  | V1_PreemptionToleration v1_PreemptionTolerationArgs
  | V1_TopologicalSort v1_TopologicalSortArgs
  | V1_NetworkOverhead v1_NetworkOverheadArgs
  | V1_SySched v1_SySchedArgs
  | V1_WAM v1_WAMArgs

datatype config_object =
    C_Coscheduling CoschedulingArgs
  | C_Allocatable NodeResourcesAllocatableArgs
  | C_TargetLoadPacking TargetLoadPackingArgs
  | C_LoadVariation LoadVariationRiskBalancingArgs
  | C_LowRisk LowRiskOverCommitmentArgs
  | C_TopologyMatch NodeResourceTopologyMatchArgs
  | C_PreemptionToleration PreemptionTolerationArgs
  | C_TopologicalSort TopologicalSortArgs
  | C_NetworkOverhead NetworkOverheadArgs
  | C_SySched SySchedArgs
  | C_WAM WAMArgs

text \<open>Of the versioned types only the arguments of WAM are entered as a kind that the scheme makes from
  its name.\<close>

fun addKnownTypes :: "v1_object \<Rightarrow> bool" where
  "addKnownTypes (V1_WAM a) = True"
| "addKnownTypes _ = False"

fun map_outcome :: "('a \<Rightarrow> 'b) \<Rightarrow> 'a outcome \<Rightarrow> 'b outcome" where
  "map_outcome f (Ret x) = Ret (f x)"
| "map_outcome f (Panic e) = Panic e"

fun bind_outcome :: "'a outcome \<Rightarrow> ('a \<Rightarrow> 'b outcome) \<Rightarrow> 'b outcome" where
  "bind_outcome (Ret x) f = f x"
| "bind_outcome (Panic e) f = Panic e"

text \<open>The defaulting and conversion functions of the scheme, by the type of the object, as
  \<^verbatim>\<open>RegisterDefaults\<close> and \<^verbatim>\<open>RegisterConversions\<close> enter them.\<close>

fun RegisterDefaults :: "v1_object \<Rightarrow> v1_object outcome" where
  "RegisterDefaults (V1_Coscheduling a) = Ret (V1_Coscheduling (SetDefaults_CoschedulingArgs a))"
| "RegisterDefaults (V1_LoadVariation a) = Ret (V1_LoadVariation (SetDefaults_LoadVariationRiskBalancingArgs a))"
| "RegisterDefaults (V1_LowRisk a) = Ret (V1_LowRisk (SetDefaults_LowRiskOverCommitmentArgs a))"
| "RegisterDefaults (V1_NetworkOverhead a) = Ret (V1_NetworkOverhead (SetDefaults_NetworkOverheadArgs a))"
| "RegisterDefaults (V1_TopologyMatch a) = Ret (V1_TopologyMatch (SetDefaults_NodeResourceTopologyMatchArgs a))"
| "RegisterDefaults (V1_Allocatable a) = Ret (V1_Allocatable (SetDefaults_NodeResourcesAllocatableArgs a))"
| "RegisterDefaults (V1_PreemptionToleration a) = Ret (V1_PreemptionToleration (SetDefaults_PreemptionTolerationArgs a))"
| "RegisterDefaults (V1_SySched a) = Ret (V1_SySched (SetDefaults_SySchedArgs a))"
| "RegisterDefaults (V1_TargetLoadPacking a) = Ret (V1_TargetLoadPacking (SetDefaults_TargetLoadPackingArgs a))"
| "RegisterDefaults (V1_TopologicalSort a) = Ret (V1_TopologicalSort (SetDefaults_TopologicalSortArgs a))"
| "RegisterDefaults (V1_WAM a) = map_outcome V1_WAM (SetDefaults_WAMArgs a)"

fun RegisterConversions_v1 :: "v1_object \<Rightarrow> config_object outcome" where
  "RegisterConversions_v1 (V1_Coscheduling a) = Ret (C_Coscheduling (Convert_v1_CoschedulingArgs a))"
| "RegisterConversions_v1 (V1_LoadVariation a) = Ret (C_LoadVariation (Convert_v1_LoadVariationRiskBalancingArgs a))"
| "RegisterConversions_v1 (V1_LowRisk a) = Ret (C_LowRisk (Convert_v1_LowRiskOverCommitmentArgs a))"
| "RegisterConversions_v1 (V1_NetworkOverhead a) = Ret (C_NetworkOverhead (Convert_v1_NetworkOverheadArgs a))"
| "RegisterConversions_v1 (V1_Allocatable a) = Ret (C_Allocatable (Convert_v1_NodeResourcesAllocatableArgs a))"
| "RegisterConversions_v1 (V1_PreemptionToleration a) = Ret (C_PreemptionToleration (Convert_v1_PreemptionTolerationArgs a))"
| "RegisterConversions_v1 (V1_SySched a) = Ret (C_SySched (Convert_v1_SySchedArgs a))"
| "RegisterConversions_v1 (V1_TargetLoadPacking a) = Ret (C_TargetLoadPacking (Convert_v1_TargetLoadPackingArgs a))"
| "RegisterConversions_v1 (V1_TopologicalSort a) = Ret (C_TopologicalSort (Convert_v1_TopologicalSortArgs a))"
| "RegisterConversions_v1 (V1_WAM a) = Ret (C_WAM (Convert_v1_WAMArgs a))"
| "RegisterConversions_v1 (V1_TopologyMatch a) = map_outcome C_TopologyMatch (Convert_v1_NodeResourceTopologyMatchArgs a)"

fun RegisterConversions_config :: "config_object \<Rightarrow> v1_object" where
  "RegisterConversions_config (C_Coscheduling a) = V1_Coscheduling (Convert_config_CoschedulingArgs a)"
| "RegisterConversions_config (C_LoadVariation a) = V1_LoadVariation (Convert_config_LoadVariationRiskBalancingArgs a)"
| "RegisterConversions_config (C_LowRisk a) = V1_LowRisk (Convert_config_LowRiskOverCommitmentArgs a)"
| "RegisterConversions_config (C_NetworkOverhead a) = V1_NetworkOverhead (Convert_config_NetworkOverheadArgs a)"
| "RegisterConversions_config (C_Allocatable a) = V1_Allocatable (Convert_config_NodeResourcesAllocatableArgs a)"
| "RegisterConversions_config (C_PreemptionToleration a) = V1_PreemptionToleration (Convert_config_PreemptionTolerationArgs a)"
| "RegisterConversions_config (C_SySched a) = V1_SySched (Convert_config_SySchedArgs a)"
| "RegisterConversions_config (C_TargetLoadPacking a) = V1_TargetLoadPacking (Convert_config_TargetLoadPackingArgs a)"
| "RegisterConversions_config (C_TopologicalSort a) = V1_TopologicalSort (Convert_config_TopologicalSortArgs a)"
| "RegisterConversions_config (C_WAM a) = V1_WAM (Convert_config_WAMArgs a)"
| "RegisterConversions_config (C_TopologyMatch a) = V1_TopologyMatch (Convert_config_NodeResourceTopologyMatchArgs a)"

section \<open>Validation\<close>

definition validScoringStrategy :: "string list" where
  "validScoringStrategy = [''MostAllocated'', ''BalancedAllocation'', ''LeastAllocated'', ''LeastNUMANodes'']"

definition validateScoringStrategyType :: "string \<Rightarrow> goerror option" where
  "validateScoringStrategyType scoringStrategy =
     (if scoringStrategy \<notin> set validScoringStrategy then Some ''invalid ScoringStrategyType'' else None)"

definition ValidateNodeResourceTopologyMatchArgs :: "NodeResourceTopologyMatchArgs \<Rightarrow> goerror option" where
  "ValidateNodeResourceTopologyMatchArgs args = validateScoringStrategyType (ss_Type (nm_ScoringStrategy args))"

definition ValidateWAMPluginArgs :: "WAMArgs \<Rightarrow> goerror option outcome" where
  "ValidateWAMPluginArgs args = (case iwa_Test args of
     None \<Rightarrow> Panic nil_deref
   | Some t \<Rightarrow> Ret (if t = '''' then Some ''test value must not be empty'' else None))"

section \<open>Construction of the topology plugin\<close>

definition wantsDedicatedInformer :: "NodeResourceTopologyCache option \<Rightarrow> bool" where
  "wantsDedicatedInformer cacheConf = (case cacheConf of
     None \<Rightarrow> False
   | Some c \<Rightarrow> (case nc_InformerMode c of None \<Rightarrow> False | Some infMode \<Rightarrow> infMode = ''Dedicated''))"

text \<open>Which pods count is decided with the informer.\<close>

definition NewFromHandle :: "NodeResourceTopologyCache option \<Rightarrow> v1_Pod \<Rightarrow> bool" where
  "NewFromHandle cacheConf = (if \<not> wantsDedicatedInformer cacheConf then IsPodRelevantShared else IsPodRelevantDedicated)"

text \<open>The globals of \<^verbatim>\<open>foreign_pods.go\<close>: the profiles that registered, and whether only pods with
  exclusive resources count.\<close>

record foreign_globals =
  fg_schedProfileNames :: "string list"
  fg_onlyExclusiveResources :: bool

definition RegisterSchedulerProfileName :: "string \<Rightarrow> foreign_globals \<Rightarrow> foreign_globals" where
  "RegisterSchedulerProfileName schedProfileName g =
     g\<lparr>fg_schedProfileNames := List.insert schedProfileName (fg_schedProfileNames g)\<rparr>"

definition TrackOnlyForeignPodsWithExclusiveResources :: "foreign_globals \<Rightarrow> foreign_globals" where
  "TrackOnlyForeignPodsWithExclusiveResources g = g\<lparr>fg_onlyExclusiveResources := True\<rparr>"

definition TrackAllForeignPods :: "foreign_globals \<Rightarrow> foreign_globals" where
  "TrackAllForeignPods g = g\<lparr>fg_onlyExclusiveResources := False\<rparr>"

text \<open>The name of the profile is known when the handle is a framework.  The first result says
  whether the detector was installed.\<close>

definition initNodeTopologyForeignPodsDetection :: "NodeResourceTopologyCache option \<Rightarrow> string option \<Rightarrow> foreign_globals \<Rightarrow> bool \<times> foreign_globals" where
  "initNodeTopologyForeignPodsDetection cfg profile g =
     (let foreignPodsDetect = getForeignPodsDetectMode (map_option nc_ForeignPodsDetect cfg) in
      if foreignPodsDetect = ''None'' then (False, g)
      else (case profile of
              None \<Rightarrow> (False, g)
            | Some profileName \<Rightarrow>
                let g1 = (if foreignPodsDetect = ''OnlyExclusiveResources'' then TrackOnlyForeignPodsWithExclusiveResources g
                          else TrackAllForeignPods g)
                in (True, RegisterSchedulerProfileName profileName g1)))"

datatype nrt_cache_choice =
    DiscardReservedCache
  | PassthroughCache
  | OverReserveCache OverReserve "v1_Pod \<Rightarrow> bool" bool

text \<open>What the construction gets from the cluster: whether the client can be made, the list of
  topologies, and the profile of the handle.\<close>

record nrt_handle =
  nh_ClientError :: "goerror option"
  nh_ListNRT :: "goerror + NodeResourceTopology list"
  nh_Profile :: "string option"

definition initNodeTopologyInformer :: "nrt_handle \<Rightarrow> NodeResourceTopologyMatchArgs \<Rightarrow> foreign_globals \<Rightarrow> (goerror + nrt_cache_choice) \<times> foreign_globals" where
  "initNodeTopologyInformer handle tcfg g =
     (case nh_ClientError handle of
        Some err \<Rightarrow> (Inl err, g)
      | None \<Rightarrow>
          if nm_DiscardReservedNodes tcfg then (Inr DiscardReservedCache, g)
          else if sint (nm_CacheResyncPeriodSeconds tcfg) \<le> 0 then (Inr PassthroughCache, g)
          else let isPodRelevant = NewFromHandle (nm_Cache tcfg) in
            (case NewOverReserve (nh_ListNRT handle) (map_option nc_ResyncMethod (nm_Cache tcfg)) of
               Inl err \<Rightarrow> (Inl err, g)
             | Inr nrtCache \<Rightarrow>
                 (case initNodeTopologyForeignPodsDetection (nm_Cache tcfg) (nh_Profile handle) g of (detects, g1) \<Rightarrow>
                    (Inr (OverReserveCache nrtCache isPodRelevant detects), g1))))"

definition NewTopologyMatch :: "i64 \<Rightarrow> nrt_handle \<Rightarrow> config_object \<Rightarrow> foreign_globals \<Rightarrow> (goerror + TopologyMatch \<times> nrt_cache_choice) \<times> foreign_globals" where
  "NewTopologyMatch int64_of_NaN handle args g =
     (case args of
        C_TopologyMatch tcfg \<Rightarrow>
          (case ValidateNodeResourceTopologyMatchArgs tcfg of
             Some err \<Rightarrow> (Inl err, g)
           | None \<Rightarrow>
               (case initNodeTopologyInformer handle tcfg g of
                  (Inl err, g1) \<Rightarrow> (Inl err, g1)
                | (Inr nrtCache, g1) \<Rightarrow>
                    (case nrt_New int64_of_NaN (map (\<lambda>r. (rs_Name r, rs_Weight r)) (ss_Resources (nm_ScoringStrategy tcfg)))
                            (ss_Type (nm_ScoringStrategy tcfg)) of
                       Inl err \<Rightarrow> (Inl err, g1)
                     | Inr tm \<Rightarrow> (Inr (tm, nrtCache), g1))))
      | _ \<Rightarrow> (Inl ''want args to be of type NodeResourceTopologyMatchArgs'', g))"

end
