(* ===== verification/Args_Properties.thy ===== *)
theory Args_Properties
  imports Plugin_Args
begin

text \<open>
  What the arguments of the plugins are after decoding: every configuration but one is completed
  by the defaults to arguments of the shape that the plugins expect, completing is idempotent, and
  the two versions of the types carry the same information.
\<close>

section \<open>The shape of complete arguments\<close>

definition weight_ok :: "rat \<Rightarrow> bool" where
  "weight_ok w = (0 \<le> w \<and> w \<le> 1)"

text \<open>\<open>decode\<close> is what the scheme does with versioned arguments: defaults, then conversion to the
  internal version.\<close>

definition zero_WAMArgs :: v1_WAMArgs where
  "zero_WAMArgs = \<lparr>vwa_Test = None\<rparr>"

definition decode :: "v1_object \<Rightarrow> config_object outcome" where
  "decode o1 = bind_outcome (RegisterDefaults o1) RegisterConversions_v1"

fun args_wf :: "config_object \<Rightarrow> bool" where
  "args_wf (C_Coscheduling a) = True"
| "args_wf (C_Allocatable a) = (aa_Resources a \<noteq> [] \<and> aa_Mode a \<noteq> '''')"
| "args_wf (C_TargetLoadPacking a) = (0 < sint (tl_TargetUtilization a) \<and> tl_DefaultRequests a \<noteq> None)"
| "args_wf (C_LoadVariation a) = (0 \<le> lv_SafeVarianceMargin a \<and> 0 \<le> lv_SafeVarianceSensitivity a)"
| "args_wf (C_LowRisk a) = (0 < sint (lr_SmoothingWindowSize a) \<and> lr_RiskLimitWeights a \<noteq> [] \<and>
     list_all (\<lambda>(r, w). weight_ok w) (lr_RiskLimitWeights a))"
| "args_wf (C_TopologyMatch a) = (ss_Resources (nm_ScoringStrategy a) \<noteq> [] \<and>
     list_all (\<lambda>r. rs_Weight r \<noteq> 0) (ss_Resources (nm_ScoringStrategy a)) \<and>
     (case nm_Cache a of None \<Rightarrow> False
      | Some c \<Rightarrow> nc_ForeignPodsDetect c \<noteq> None \<and> nc_ResyncMethod c \<noteq> None \<and> nc_InformerMode c \<noteq> None))"
| "args_wf (C_PreemptionToleration a) = True"
| "args_wf (C_TopologicalSort a) = (ito_Namespaces a \<noteq> [])"
| "args_wf (C_NetworkOverhead a) = (ino_Namespaces a \<noteq> [])"
| "args_wf (C_SySched a) = True"
| "args_wf (C_WAM a) = (case iwa_Test a of None \<Rightarrow> False | Some t \<Rightarrow> t \<noteq> '''')"

fun v1_plugin :: "v1_object \<Rightarrow> string" where
  "v1_plugin (V1_Coscheduling a) = ''Coscheduling''"
| "v1_plugin (V1_Allocatable a) = ''Allocatable''"
| "v1_plugin (V1_TargetLoadPacking a) = ''TargetLoadPacking''"
| "v1_plugin (V1_LoadVariation a) = ''LoadVariation''"
| "v1_plugin (V1_LowRisk a) = ''LowRisk''"
| "v1_plugin (V1_TopologyMatch a) = ''TopologyMatch''"
| "v1_plugin (V1_PreemptionToleration a) = ''PreemptionToleration''"
| "v1_plugin (V1_TopologicalSort a) = ''TopologicalSort''"
| "v1_plugin (V1_NetworkOverhead a) = ''NetworkOverhead''"
| "v1_plugin (V1_SySched a) = ''SySched''"
| "v1_plugin (V1_WAM a) = ''WAM''"

fun config_plugin :: "config_object \<Rightarrow> string" where
  "config_plugin (C_Coscheduling a) = ''Coscheduling''"
| "config_plugin (C_Allocatable a) = ''Allocatable''"
| "config_plugin (C_TargetLoadPacking a) = ''TargetLoadPacking''"
| "config_plugin (C_LoadVariation a) = ''LoadVariation''"
| "config_plugin (C_LowRisk a) = ''LowRisk''"
| "config_plugin (C_TopologyMatch a) = ''TopologyMatch''"
| "config_plugin (C_PreemptionToleration a) = ''PreemptionToleration''"
| "config_plugin (C_TopologicalSort a) = ''TopologicalSort''"
| "config_plugin (C_NetworkOverhead a) = ''NetworkOverhead''"
| "config_plugin (C_SySched a) = ''SySched''"
| "config_plugin (C_WAM a) = ''WAM''"

lemmas default_defs = SetDefaults_CoschedulingArgs_def SetDefaults_NodeResourcesAllocatableArgs_def
  SetDefaults_TargetLoadPackingArgs_def SetDefaults_LoadVariationRiskBalancingArgs_def
  SetDefaults_LowRiskOverCommitmentArgs_def SetDefaults_PreemptionTolerationArgs_def
  SetDefaults_TopologicalSortArgs_def SetDefaults_NetworkOverheadArgs_def SetDefaults_SySchedArgs_def
  defaultNodeResourcesAllocatableResourcesToWeightMap_def

lemmas pointer_defs = Convert_Pointer_def Convert_To_Pointer_def

lemmas convert_defs = Convert_v1_CoschedulingArgs_def Convert_v1_NodeResourcesAllocatableArgs_def
  Convert_v1_TargetLoadPackingArgs_def Convert_v1_LoadVariationRiskBalancingArgs_def
  Convert_v1_LowRiskOverCommitmentArgs_def Convert_v1_PreemptionTolerationArgs_def
  Convert_v1_TopologicalSortArgs_def Convert_v1_NetworkOverheadArgs_def Convert_v1_SySchedArgs_def
  Convert_v1_WAMArgs_def Convert_v1_TrimaranSpec_def Convert_v1_MetricProviderSpec_def
  Convert_v1_ScoringStrategy_def Convert_v1_NodeResourceTopologyCache_def

lemmas nrt_convert_defs = Convert_v1_NodeResourceTopologyMatchArgs_def autoConvert_v1_NodeResourceTopologyMatchArgs_def Let_def

lemmas nrt_encode_defs = Convert_config_NodeResourceTopologyMatchArgs_def autoConvert_config_NodeResourceTopologyMatchArgs_def Let_def

lemmas encode_defs = Convert_config_CoschedulingArgs_def Convert_config_NodeResourcesAllocatableArgs_def
  Convert_config_TargetLoadPackingArgs_def Convert_config_LoadVariationRiskBalancingArgs_def
  Convert_config_LowRiskOverCommitmentArgs_def Convert_config_PreemptionTolerationArgs_def
  Convert_config_TopologicalSortArgs_def Convert_config_NetworkOverheadArgs_def Convert_config_SySchedArgs_def
  Convert_config_WAMArgs_def Convert_config_TrimaranSpec_def Convert_config_MetricProviderSpec_def
  Convert_config_ScoringStrategy_def Convert_config_NodeResourceTopologyCache_def

lemma ptr_default_idem [simp]: "ptr_default v (ptr_default v p) = ptr_default v p"
  by (simp add: ptr_default_def)

lemma ptr_default_Some [simp]: "ptr_default v (Some x) = Some x" "ptr_default v p \<noteq> None"
  by (simp_all add: ptr_default_def)

lemma topology_defaults_convert:
  "\<exists>c. Convert_v1_NodeResourceTopologyMatchArgs (SetDefaults_NodeResourceTopologyMatchArgs a) = Ret c \<and> args_wf (C_TopologyMatch c)"
  by (auto simp: nrt_convert_defs SetDefaults_NodeResourceTopologyMatchArgs_def Let_def
      Convert_v1_ScoringStrategy_def Convert_v1_NodeResourceTopologyCache_def defaultResourceSpec_def list_all_iff)

lemma low_risk_defaults: "args_wf (C_LowRisk (Convert_v1_LowRiskOverCommitmentArgs (SetDefaults_LowRiskOverCommitmentArgs a)))"
  by (auto simp: default_defs convert_defs pointer_defs list_all_iff weight_ok_def split: option.splits if_splits)

lemma decode_complete:
  "(if o1 = V1_WAM zero_WAMArgs then decode o1 = Panic nil_deref
    else \<exists>c. decode o1 = Ret c \<and> config_plugin c = v1_plugin o1 \<and> args_wf c)"
proof (cases o1)
  case (V1_TopologyMatch a)
  then show ?thesis using topology_defaults_convert [of a] by (auto simp: decode_def)
next
  case (V1_LowRisk a)
  then show ?thesis using low_risk_defaults [of a] by (auto simp: decode_def)
next
  case (V1_WAM a)
  then show ?thesis
    by (cases a; cases "vwa_Test a") (auto simp: decode_def SetDefaults_WAMArgs_def convert_defs zero_WAMArgs_def)
qed (auto simp: decode_def default_defs convert_defs pointer_defs ptr_default_def split: option.splits)


section \<open>Round trips\<close>

lemma config_pointer [simp]: "Convert_Pointer z (Convert_To_Pointer v) = v"
  by (simp add: pointer_defs)

lemma config_spec [simp]: "Convert_v1_TrimaranSpec (Convert_config_TrimaranSpec x) = x"
  by (simp add: convert_defs encode_defs)

lemma config_cache [simp]: "Convert_v1_NodeResourceTopologyCache (Convert_config_NodeResourceTopologyCache x) = x"
  by (simp add: convert_defs encode_defs)

lemma config_strategy [simp]: "Convert_v1_ScoringStrategy (Convert_config_ScoringStrategy x) = x"
  by (simp add: convert_defs encode_defs)

lemma config_topology [simp]: "Convert_v1_NodeResourceTopologyMatchArgs (Convert_config_NodeResourceTopologyMatchArgs x) = Ret x"
  by (simp add: nrt_convert_defs nrt_encode_defs option.map_comp comp_def option.map_ident)

lemma config_roundtrip: "RegisterConversions_v1 (RegisterConversions_config c) = Ret c"
  by (cases c) (simp_all add: convert_defs encode_defs)

lemma weights_stable:
  "list_all (\<lambda>(r, w). weight_ok w) ws \<Longrightarrow> map (\<lambda>(r, w). if w < 0 \<or> w > 1 then (r, 1/2) else (r, w)) ws = ws"
  by (induction ws) (auto simp: weight_ok_def)

lemma specs_stable:
  "list_all (\<lambda>r. rs_Weight r \<noteq> 0) rs \<Longrightarrow> map (\<lambda>r. if rs_Weight r = 0 then r\<lparr>rs_Weight := 1\<rparr> else r) rs = rs"
  by (induction rs) auto

lemma wf_default_stable:
  assumes "args_wf c"
  shows "RegisterDefaults (RegisterConversions_config c) = Ret (RegisterConversions_config c)"
proof (cases c)
  case (C_LowRisk a)
  then show ?thesis using assms weights_stable [of "lr_RiskLimitWeights a"]
    by (auto simp: default_defs encode_defs SetDefaultTrimaranSpec_def Let_def pointer_defs)
next
  case (C_TopologyMatch a)
  then show ?thesis using assms specs_stable [of "ss_Resources (nm_ScoringStrategy a)"]
    by (auto simp: SetDefaults_NodeResourceTopologyMatchArgs_def Let_def encode_defs
      nrt_encode_defs ptr_default_def split: option.splits)
next
  case (C_WAM a)
  then show ?thesis using assms by (auto simp: SetDefaults_WAMArgs_def encode_defs split: option.splits)
qed (use assms in \<open>auto simp: default_defs encode_defs SetDefaultTrimaranSpec_def Let_def pointer_defs\<close>)

text \<open>C31: writing decoded arguments back in the versioned form and decoding them again gives the same
  arguments, and the written form is already complete: the defaults leave it alone.  The conversion
  itself loses nothing of any internal value, complete or not.\<close>

theorem args_roundtrip:
  "RegisterConversions_v1 (RegisterConversions_config c) = Ret c \<and>
   (decode o1 = Ret c \<longrightarrow>
      RegisterDefaults (RegisterConversions_config c) = Ret (RegisterConversions_config c) \<and>
      decode (RegisterConversions_config c) = Ret c)"
proof -
  have "args_wf c" if "decode o1 = Ret c"
    using decode_complete [of o1] that by (auto split: if_splits)
  then show ?thesis using config_roundtrip wf_default_stable by (auto simp: decode_def)
qed

theorem args_roundtrip_witness:
  "RegisterDefaults (V1_TopologicalSort \<lparr>vto_Namespaces = [''default'']\<rparr>) = Ret (V1_TopologicalSort \<lparr>vto_Namespaces = [''default'']\<rparr>)"
  using args_roundtrip [of "C_TopologicalSort \<lparr>ito_Namespaces = [''default'']\<rparr>" "V1_TopologicalSort \<lparr>vto_Namespaces = []\<rparr>"]
  by (simp add: decode_def SetDefaults_TopologicalSortArgs_def Convert_v1_TopologicalSortArgs_def Convert_config_TopologicalSortArgs_def)

section \<open>The topology plugin\<close>

definition strategy_named :: "string \<Rightarrow> bool" where
  "strategy_named s = (s = ''MostAllocated'' \<or> s = ''BalancedAllocation'' \<or> s = ''LeastAllocated'' \<or> s = ''LeastNUMANodes'')"

lemma validated_strategy:
  "ValidateNodeResourceTopologyMatchArgs a = None \<longleftrightarrow> strategy_named (ss_Type (nm_ScoringStrategy a))"
  by (simp add: ValidateNodeResourceTopologyMatchArgs_def validateScoringStrategyType_def validScoringStrategy_def
      strategy_named_def)

lemma named_strategy_builds:
  "strategy_named t \<Longrightarrow> \<exists>tm. nrt_New nan rs t = Inr tm \<and> tm_StrategyType tm = t \<and>
     tm_Weights tm = fold (\<lambda>(name, weight) m. AList.update name weight m) rs []"
  by (auto simp: nrt_New_def strategy_named_def getScoringStrategyFunction_def)

lemma weights_in_specs:
  "map_of (fold (\<lambda>(name, weight) m. AList.update name weight m) rs m0) k = Some w \<Longrightarrow>
     (k, w) \<in> set rs \<or> map_of m0 k = Some w"
  by (induction rs arbitrary: m0) (fastforce split: if_splits)+

lemma informer_choice:
  assumes "nh_ClientError h = None" and "nh_ListNRT h = Inr nrts"
    and "nm_DiscardReservedNodes cc = discard" and "nm_CacheResyncPeriodSeconds cc = Convert_Pointer 0 period"
  shows "\<exists>ch g1. initNodeTopologyInformer h cc g = (Inr ch, g1) \<and>
    (if discard then ch = DiscardReservedCache
     else if period = None \<or> sint (the period) \<le> 0 then ch = PassthroughCache
     else \<exists>ov rel d. ch = OverReserveCache ov rel d \<and> ov_nrts ov = newNrtStore nrts \<and> ov_assumedResources ov = [])"
  using assms by (cases period) (auto simp: initNodeTopologyInformer_def NewOverReserve_def Convert_Pointer_def split: prod.splits)

text \<open>a topology plugin configured by any versioned arguments, with a client that can be made and
  topologies that can be listed: its construction succeeds exactly when the strategy is one of the
  four, no resource has weight zero in the plugin, and the cache is the one the arguments ask for,
  reserved nodes first, then no caching for a period that is not positive.\<close>

theorem topology_plugin_built:
  assumes "nh_ClientError h = None" and "nh_ListNRT h = Inr nrts"
    and "decode (V1_TopologyMatch a) = Ret c"
  shows "\<exists>s. vnm_ScoringStrategy (SetDefaults_NodeResourceTopologyMatchArgs a) = Some s \<and>
    (case NewTopologyMatch nan h c g of
       (Inl err, g') \<Rightarrow> \<not> strategy_named (vss_Type s)
     | (Inr (tm, cache), g') \<Rightarrow>
         strategy_named (vss_Type s) \<and> tm_StrategyType tm = vss_Type s \<and>
         (\<forall>k. map_of (tm_Weights tm) k \<noteq> Some 0) \<and>
         (if vnm_DiscardReservedNodes a then cache = DiscardReservedCache
          else if vnm_CacheResyncPeriodSeconds a = None \<or> sint (the (vnm_CacheResyncPeriodSeconds a)) \<le> 0 then cache = PassthroughCache
          else \<exists>ov rel d. cache = OverReserveCache ov rel d \<and> ov_nrts ov = newNrtStore nrts \<and> ov_assumedResources ov = []))"
proof -
  obtain s where s: "vnm_ScoringStrategy (SetDefaults_NodeResourceTopologyMatchArgs a) = Some s"
    by (simp add: SetDefaults_NodeResourceTopologyMatchArgs_def Let_def)
  obtain cc where c: "c = C_TopologyMatch cc" and wf: "args_wf (C_TopologyMatch cc)"
    and conv: "Convert_v1_NodeResourceTopologyMatchArgs (SetDefaults_NodeResourceTopologyMatchArgs a) = Ret cc"
    using topology_defaults_convert [of a] assms(3) by (auto simp: decode_def)
  have cc: "ss_Type (nm_ScoringStrategy cc) = vss_Type s" "nm_DiscardReservedNodes cc = vnm_DiscardReservedNodes a"
    "nm_CacheResyncPeriodSeconds cc = Convert_Pointer 0 (vnm_CacheResyncPeriodSeconds a)"
    using conv s by (auto simp: nrt_convert_defs convert_defs
        SetDefaults_NodeResourceTopologyMatchArgs_def Let_def)
  define rs where "rs = map (\<lambda>r. (rs_Name r, rs_Weight r)) (ss_Resources (nm_ScoringStrategy cc))"
  have nz: "map_of (fold (\<lambda>(name, weight) m. AList.update name weight m) rs []) k \<noteq> Some 0" for k
    using weights_in_specs [of rs "[]" k 0] wf by (auto simp: rs_def list_all_iff)
  obtain ch g1 where init: "initNodeTopologyInformer h cc g = (Inr ch, g1)" and ch:
    "if vnm_DiscardReservedNodes a then ch = DiscardReservedCache
     else if vnm_CacheResyncPeriodSeconds a = None \<or> sint (the (vnm_CacheResyncPeriodSeconds a)) \<le> 0 then ch = PassthroughCache
     else \<exists>ov rel d. ch = OverReserveCache ov rel d \<and> ov_nrts ov = newNrtStore nrts \<and> ov_assumedResources ov = []"
    using informer_choice [OF assms(1,2) cc(2,3), of g] by blast
  show ?thesis
  proof (cases "strategy_named (vss_Type s)")
    case True
    then obtain tm where "nrt_New nan rs (vss_Type s) = Inr tm" "tm_StrategyType tm = vss_Type s"
      "tm_Weights tm = fold (\<lambda>(name, weight) m. AList.update name weight m) rs []"
      using named_strategy_builds by blast
    then have "NewTopologyMatch nan h c g = (Inr (tm, ch), g1)"
      using True cc(1) init validated_strategy [of cc] by (simp add: NewTopologyMatch_def c rs_def)
    then show ?thesis using True s nz ch \<open>tm_StrategyType tm = vss_Type s\<close> \<open>tm_Weights tm = _\<close> by simp
  next
    case False
    then have "\<exists>e. NewTopologyMatch nan h c g = (Inl e, g)"
      using cc(1) validated_strategy [of cc] by (auto simp: NewTopologyMatch_def c split: option.splits)
    then show ?thesis using False s by auto
  qed
qed

definition small_nrt_args :: v1_NodeResourceTopologyMatchArgs where
  "small_nrt_args = \<lparr>vnm_ScoringStrategy = None, vnm_CacheResyncPeriodSeconds = None, vnm_DiscardReservedNodes = False, vnm_Cache = None\<rparr>"

lemma small_nrt_decoded:
  "\<exists>c. decode (V1_TopologyMatch small_nrt_args) = Ret c"
  using decode_complete [of "V1_TopologyMatch small_nrt_args"] by auto

theorem topology_plugin_built_witness:
  "\<exists>c tm g'. decode (V1_TopologyMatch small_nrt_args) = Ret c \<and>
     NewTopologyMatch 0 \<lparr>nh_ClientError = None, nh_ListNRT = Inr [], nh_Profile = None\<rparr> c
       \<lparr>fg_schedProfileNames = [], fg_onlyExclusiveResources = False\<rparr> = (Inr (tm, PassthroughCache), g')"
proof -
  obtain c where c: "decode (V1_TopologyMatch small_nrt_args) = Ret c" using small_nrt_decoded by blast
  show ?thesis
    using topology_plugin_built [OF _ _ c, of "\<lparr>nh_ClientError = None, nh_ListNRT = Inr [], nh_Profile = None\<rparr>" "[]" 0
        "\<lparr>fg_schedProfileNames = [], fg_onlyExclusiveResources = False\<rparr>"] c
    by (auto simp: small_nrt_args_def SetDefaults_NodeResourceTopologyMatchArgs_def Let_def strategy_named_def
        split: prod.splits sum.splits)
qed

end
