(* ===== verification/Trimaran_Handler.thy ===== *)
theory Trimaran_Handler
  imports Plugin_Args
begin

text \<open>
  The cache of recently assigned pods that the load-aware plugins share,
  \<^verbatim>\<open>pkg/trimaran/handler.go\<close>, and the collector of measurements, \<^verbatim>\<open>pkg/trimaran/collector.go\<close>.

  Times are \<open>int\<close> nanoseconds; the clock is an argument.  Every operation holds the handler's lock
  while it runs, so a run is a sequence of operations.  The collector's client, which asks the load
  watcher, is a parameter.
\<close>

section \<open>The cache of assigned pods\<close>

record podInfo =
  pi_Timestamp :: int
  pi_Pod :: v1_Pod

type_synonym scheduled_pods = "(string, podInfo list) gomap"

definition metricsAgentReportingIntervalSeconds :: int where
  "metricsAgentReportingIntervalSeconds = 60"

definition second :: int where
  "second = 1000000000"

definition isAssigned :: "v1_Pod \<Rightarrow> bool" where
  "isAssigned pod = (length (pod_NodeName pod) \<noteq> 0)"

definition updateCache :: "int \<Rightarrow> v1_Pod \<Rightarrow> scheduled_pods \<Rightarrow> scheduled_pods" where
  "updateCache now pod c =
     (if pod_NodeName pod = '''' then c
      else AList.update (pod_NodeName pod) (gm_get [] c (pod_NodeName pod) @ [\<lparr>pi_Timestamp = now, pi_Pod = pod\<rparr>]) c)"

text \<open>Deletion shifts the entries behind the first one with the UID.\<close>

fun delete_uid :: "string \<Rightarrow> podInfo list \<Rightarrow> podInfo list" where
  "delete_uid uid [] = []"
| "delete_uid uid (v # vs) = (if uid = pod_UID (pi_Pod v) then vs else v # delete_uid uid vs)"

text \<open>The objects of the informer: a pod, or a tombstone with the last known pod or with something else.\<close>

datatype pod_object = ThePod v1_Pod | Tombstone "v1_Pod option"

abbreviation type_assertion :: string where
  "type_assertion \<equiv> ''interface conversion: interface is not *v1.Pod''"

definition OnAdd :: "int \<Rightarrow> pod_object \<Rightarrow> scheduled_pods \<Rightarrow> scheduled_pods outcome" where
  "OnAdd now obj c = (case obj of ThePod pod \<Rightarrow> Ret (updateCache now pod c) | Tombstone t \<Rightarrow> Panic type_assertion)"

definition OnUpdate :: "int \<Rightarrow> pod_object \<Rightarrow> pod_object \<Rightarrow> scheduled_pods \<Rightarrow> scheduled_pods outcome" where
  "OnUpdate now oldObj newObj c =
     (case (oldObj, newObj) of
        (ThePod oldPod, ThePod newPod) \<Rightarrow> Ret (if pod_NodeName oldPod \<noteq> pod_NodeName newPod then updateCache now newPod c else c)
      | _ \<Rightarrow> Panic type_assertion)"

definition OnDelete :: "pod_object \<Rightarrow> scheduled_pods \<Rightarrow> scheduled_pods outcome" where
  "OnDelete obj c =
     (case obj of
        Tombstone t \<Rightarrow> Panic type_assertion
      | ThePod pod \<Rightarrow>
          let nodeName = pod_NodeName pod in
          (case map_of c nodeName of
             None \<Rightarrow> Ret c
           | Some infos \<Rightarrow> Ret (AList.update nodeName (delete_uid (pod_UID pod) infos) c)))"

text \<open>The filter that \<^verbatim>\<open>AddToHandle\<close> puts before the handler, and what the filtering handler of
  client-go makes of the three notifications.\<close>

definition FilterFunc :: "pod_object \<Rightarrow> bool" where
  "FilterFunc obj = (case obj of
     ThePod t \<Rightarrow> isAssigned t
   | Tombstone (Some pod) \<Rightarrow> isAssigned pod
   | Tombstone None \<Rightarrow> False)"

definition filtered_add :: "int \<Rightarrow> pod_object \<Rightarrow> scheduled_pods \<Rightarrow> scheduled_pods outcome" where
  "filtered_add now obj c = (if FilterFunc obj then OnAdd now obj c else Ret c)"

definition filtered_update :: "int \<Rightarrow> pod_object \<Rightarrow> pod_object \<Rightarrow> scheduled_pods \<Rightarrow> scheduled_pods outcome" where
  "filtered_update now oldObj newObj c =
     (let newer = FilterFunc newObj; older = FilterFunc oldObj in
      if newer \<and> older then OnUpdate now oldObj newObj c
      else if newer \<and> \<not> older then OnAdd now newObj c
      else if \<not> newer \<and> older then OnDelete oldObj c
      else Ret c)"

definition filtered_delete :: "pod_object \<Rightarrow> scheduled_pods \<Rightarrow> scheduled_pods outcome" where
  "filtered_delete obj c = (if FilterFunc obj then OnDelete obj c else Ret c)"

section \<open>Cleanup\<close>

text \<open>\<^verbatim>\<open>sort.Search\<close>: bisection between \<open>i\<close> and \<open>j\<close>.\<close>

function search_loop :: "(nat \<Rightarrow> bool) \<Rightarrow> nat \<Rightarrow> nat \<Rightarrow> nat" where
  "search_loop f i j =
     (if i < j then let h = (i + j) div 2 in if \<not> f h then search_loop f (h + 1) j else search_loop f i h
      else i)"
  by pat_completeness auto
termination by (relation "measure (\<lambda>(f, i, j). j - i)") auto

declare search_loop.simps [simp del]

definition sort_Search :: "nat \<Rightarrow> (nat \<Rightarrow> bool) \<Rightarrow> nat" where
  "sort_Search n f = search_loop f 0 n"

definition fresh :: "int \<Rightarrow> podInfo \<Rightarrow> bool" where
  "fresh curTime info = (curTime < pi_Timestamp info + metricsAgentReportingIntervalSeconds * second)"

text \<open>One node of the cleanup: nothing when every entry is old, else the entries from the first that is
  not; the test for an empty rest follows.\<close>

definition cleanup_node :: "int \<Rightarrow> string \<times> podInfo list \<Rightarrow> (string \<times> podInfo list) list" where
  "cleanup_node curTime e = (case e of (nodeName, cache) \<Rightarrow>
     let idx = sort_Search (length cache) (\<lambda>i. fresh curTime (cache ! i)) in
     if idx = length cache then [(nodeName, cache)]
     else let cache' = drop idx cache in
       if length cache' = 0 then [] else [(nodeName, cache')])"

definition cleanupCache :: "int \<Rightarrow> scheduled_pods \<Rightarrow> scheduled_pods" where
  "cleanupCache curTime c = concat (map (cleanup_node curTime) c)"

section \<open>The collector\<close>

record Metric =
  mt_Type :: string
  mt_Operator :: string
  mt_Value :: rat

text \<open>The metrics of all nodes, nil before the first answer, each a list that may be nil, and the end of
  their window in Unix seconds.\<close>

record WatcherMetrics =
  wm_NodeMetricsMap :: "(string, Metric list option) gomap option"
  wm_WindowEnd :: i64

definition checkSpecs :: "TrimaranSpec \<Rightarrow> goerror option" where
  "checkSpecs spec =
     (if ts_WatcherAddress spec = '''' then
        let metricProviderType = mp_Type (ts_MetricProvider spec);
            valid = (metricProviderType = ''KubernetesMetricsServer'' \<or> metricProviderType = ''Prometheus'' \<or>
                     metricProviderType = ''SignalFx'')
        in if \<not> valid then Some (''invalid MetricProvider.Type, got '' @ metricProviderType) else None
      else None)"

text \<open>A client answers the latest metrics or an error; the library client whose construction failed
  panics, and the error of the construction is dropped.  The state of a collector is its metrics.\<close>

type_synonym watcher_client = "(goerror + WatcherMetrics) outcome"

definition updateMetrics :: "watcher_client \<Rightarrow> WatcherMetrics \<Rightarrow> (goerror option \<times> WatcherMetrics) outcome" where
  "updateMetrics client metrics = (case client of
     Panic e \<Rightarrow> Panic e
   | Ret (Inl err) \<Rightarrow> Ret (Some err, metrics)
   | Ret (Inr m) \<Rightarrow> Ret (None, m))"

definition empty_metrics :: WatcherMetrics where
  "empty_metrics = \<lparr>wm_NodeMetricsMap = None, wm_WindowEnd = 0\<rparr>"

definition NewCollector :: "(string \<Rightarrow> watcher_client) \<Rightarrow> (MetricProviderSpec \<Rightarrow> watcher_client) \<Rightarrow> TrimaranSpec \<Rightarrow> (goerror + WatcherMetrics) outcome" where
  "NewCollector NewServiceClient NewLibraryClient spec =
     (case checkSpecs spec of
        Some err \<Rightarrow> Ret (Inl err)
      | None \<Rightarrow>
          let client = (if ts_WatcherAddress spec \<noteq> '''' then NewServiceClient (ts_WatcherAddress spec)
                        else NewLibraryClient (ts_MetricProvider spec)) in
          (case updateMetrics client empty_metrics of
             Panic e \<Rightarrow> Panic e
           | Ret (err, metrics) \<Rightarrow> Ret (Inr metrics)))"

text \<open>The metrics of a node and all metrics: both nil, or the first nil.\<close>

definition GetNodeMetrics :: "WatcherMetrics \<Rightarrow> string \<Rightarrow> Metric list option \<times> WatcherMetrics option" where
  "GetNodeMetrics allMetrics nodeName =
     (case wm_NodeMetricsMap allMetrics of
        None \<Rightarrow> (None, None)
      | Some m \<Rightarrow> (case map_of m nodeName of
                     None \<Rightarrow> (None, Some allMetrics)
                   | Some metrics \<Rightarrow> (metrics, Some allMetrics)))"

end
