(* ===== verification/Handler_Properties.thy ===== *)
theory Handler_Properties
  imports Trimaran_Handler
begin

text \<open>
  The cache of assigned pods against its purpose: at any time the entries of the last minute are
  the pods that were assigned in it and not deleted, whatever cleanups ran in between; and what a
  cleanup removes.
\<close>

section \<open>Bisection\<close>

definition upward :: "nat \<Rightarrow> (nat \<Rightarrow> bool) \<Rightarrow> bool" where
  "upward n f \<longleftrightarrow> (\<forall>a b. a < b \<longrightarrow> b < n \<longrightarrow> f a \<longrightarrow> f b)"

lemma search_loop_spec:
  assumes "i \<le> j" and "j \<le> n" and "j < n \<Longrightarrow> f j" and "upward n f" and "\<forall>a < i. \<not> f a"
  shows "search_loop f i j \<le> n \<and> (\<forall>a < search_loop f i j. \<not> f a) \<and> (\<forall>a. search_loop f i j \<le> a \<longrightarrow> a < n \<longrightarrow> f a)"
  using assms
proof (induction f i j rule: search_loop.induct)
  case (1 f i j)
  define h where "h = (i + j) div 2"
  show ?case
  proof (cases "i < j")
    case True
    have h: "i \<le> h" "h < j" using True by (auto simp: h_def)
    show ?thesis
    proof (cases "f h")
      case True
      then have "search_loop f i j = search_loop f i h" using \<open>i < j\<close> by (subst search_loop.simps) (simp add: h_def Let_def)
      moreover have "search_loop f i h \<le> n \<and> (\<forall>a < search_loop f i h. \<not> f a) \<and> (\<forall>a. search_loop f i h \<le> a \<longrightarrow> a < n \<longrightarrow> f a)"
        using 1(2) [OF \<open>i < j\<close> h_def _ h(1) _ _ 1(6,7)] True h 1(4) by simp
      ultimately show ?thesis by simp
    next
      case False
      then have e: "search_loop f i j = search_loop f (h + 1) j" using \<open>i < j\<close> by (subst search_loop.simps) (simp add: h_def Let_def)
      have nf: "\<forall>a < h + 1. \<not> f a"
      proof (intro allI impI)
        fix a assume "a < h + 1"
        then have "a < h \<or> a = h" by auto
        moreover have "h < n" using h 1(4) by simp
        ultimately show "\<not> f a" using False 1(6) unfolding upward_def by blast
      qed
      have "search_loop f (h + 1) j \<le> n \<and> (\<forall>a < search_loop f (h + 1) j. \<not> f a) \<and> (\<forall>a. search_loop f (h + 1) j \<le> a \<longrightarrow> a < n \<longrightarrow> f a)"
        using 1(1) [OF \<open>i < j\<close> h_def False _ 1(4,5,6) nf] h by simp
      then show ?thesis using e by simp
    qed
  next
    case False
    then have "search_loop f i j = i" "i = j" using 1(3) by (auto simp: search_loop.simps)
    then show ?thesis using 1(4,5,6,7) unfolding upward_def by (metis le_neq_implies_less le_trans linorder_not_less order.strict_iff_order)
  qed
qed

lemma sort_Search_spec:
  assumes "upward n f"
  shows "sort_Search n f \<le> n" and "\<forall>a < sort_Search n f. \<not> f a" and "\<forall>a. sort_Search n f \<le> a \<longrightarrow> a < n \<longrightarrow> f a"
  using search_loop_spec [of 0 n n f] assms by (simp_all add: sort_Search_def)

lemma search_loop_same: "search_loop f i i = i"
  by (subst search_loop.simps) simp

lemma search_loop_bound: "i \<le> j \<Longrightarrow> search_loop f i j \<le> j"
proof (induction f i j rule: search_loop.induct)
  case (1 f i j)
  show ?case
  proof (cases "i < j")
    case True
    define h where "h = (i + j) div 2"
    have h: "i \<le> h" "h < j" using True by (auto simp: h_def)
    have "search_loop f (h + 1) j \<le> j" if "\<not> f h" using 1(1) [OF True h_def that] h by simp
    moreover have "search_loop f i h \<le> j" if "f h" using 1(2) [OF True h_def] that h by simp
    ultimately show ?thesis using True by (subst search_loop.simps) (simp add: Let_def h_def [symmetric])
  qed (use 1(3) in \<open>simp add: search_loop.simps\<close>)
qed

section \<open>What a cleanup does\<close>

definition stamped :: "podInfo list \<Rightarrow> bool" where
  "stamped infos = sorted (map pi_Timestamp infos)"

lemma fresh_mono: "stamped infos \<Longrightarrow> upward (length infos) (\<lambda>i. fresh t (infos ! i))"
  unfolding upward_def
proof (intro allI impI)
  fix a b assume "stamped infos" "a < b" "b < length infos" "fresh t (infos ! a)"
  moreover from this have "pi_Timestamp (infos ! a) \<le> pi_Timestamp (infos ! b)"
    using sorted_nth_mono [of "map pi_Timestamp infos" a b] by (simp add: stamped_def)
  ultimately show "fresh t (infos ! b)" by (simp add: fresh_def)
qed

lemma drop_first_fresh:
  assumes "stamped infos"
  shows "drop (sort_Search (length infos) (\<lambda>i. fresh t (infos ! i))) infos = filter (fresh t) infos"
proof -
  define k where "k = sort_Search (length infos) (\<lambda>i. fresh t (infos ! i))"
  note s = sort_Search_spec [where n = "length infos" and f = "\<lambda>i. fresh t (infos ! i)", OF fresh_mono [OF assms, of t], folded k_def]
  have "filter (fresh t) (take k infos) = []" using s(1,2) by (auto simp: filter_empty_conv in_set_conv_nth)
  moreover have "filter (fresh t) (drop k infos) = drop k infos"
    using s(1,3) by (auto simp: filter_id_conv in_set_conv_nth)
  ultimately have "filter (fresh t) (take k infos @ drop k infos) = drop k infos" by (simp only: filter_append append_Nil)
  then show ?thesis by (simp add: k_def)
qed

lemma cleanup_node_value:
  "cleanup_node t (n, infos) =
     [(n, let k = sort_Search (length infos) (\<lambda>i. fresh t (infos ! i)) in if k = length infos then infos else drop k infos)]"
  using search_loop_bound [of 0 "length infos" "\<lambda>i. fresh t (infos ! i)"]
  by (auto simp: cleanup_node_def Let_def sort_Search_def)

lemma cleanup_sorted:
  assumes "stamped infos"
  shows "cleanup_node t (n, infos) = [(n, if filter (fresh t) infos = [] then infos else filter (fresh t) infos)]"
proof -
  define k where "k = sort_Search (length infos) (\<lambda>i. fresh t (infos ! i))"
  have "k \<le> length infos" using search_loop_bound [of 0 "length infos"] by (simp add: k_def sort_Search_def)
  then have "filter (fresh t) infos = [] \<longleftrightarrow> k = length infos"
    using drop_first_fresh [OF assms, of t, folded k_def] by (metis drop_eq_Nil le_antisym)
  then show ?thesis using drop_first_fresh [OF assms, of t, folded k_def] by (auto simp: cleanup_node_value k_def [symmetric] Let_def)
qed

lemma cleanup_map: "cleanupCache t c = map (\<lambda>e. hd (cleanup_node t e)) c"
  by (induction c) (auto simp: cleanupCache_def cleanup_node_value)

lemma map_of_values: "map_of (map (\<lambda>(k, v). (k, g v)) m) k = map_option g (map_of m k)"
  by (induction m) auto

text \<open>a cleanup of caches in the order of time never drops a node, and leaves of a node the entries
  younger than a minute, except that it leaves everything when none is: the entries of a node to which
  no pod was assigned in the last minute are never removed, however old they are.\<close>

theorem cleanup_result:
  assumes "list_all (\<lambda>(n, infos). stamped infos) c"
  shows "cleanupCache t c =
    map (\<lambda>(n, infos). (n, if list_ex (fresh t) infos then filter (fresh t) infos else infos)) c"
proof -
  have "hd (cleanup_node t (n, infos)) = (n, if list_ex (fresh t) infos then filter (fresh t) infos else infos)" if "(n, infos) \<in> set c" for n infos
  proof -
    have "stamped infos" using assms that by (auto simp: list_all_iff)
    then show ?thesis using cleanup_sorted [of infos t n] by (auto simp: list_ex_iff filter_empty_conv)
  qed
  then show ?thesis by (auto simp: cleanup_map)
qed

definition old_infos :: "podInfo list" where
  "old_infos = [\<lparr>pi_Timestamp = 0, pi_Pod = zero_pod\<rparr>]"

theorem cleanup_result_witness:
  "cleanupCache (1000 * second) [(''n1'', old_infos)] = [(''n1'', old_infos)]"
  using cleanup_result [of "[(''n1'', old_infos)]" "1000 * second"]
  by (simp add: old_infos_def stamped_def fresh_def second_def metricsAgentReportingIntervalSeconds_def)


section \<open>Runs of the handler\<close>

datatype handler_event = Added v1_Pod | Updated v1_Pod v1_Pod | Deleted pod_object | Cleanup

fun handler_step :: "int \<Rightarrow> handler_event \<Rightarrow> scheduled_pods \<Rightarrow> scheduled_pods outcome" where
  "handler_step now (Added p) c = filtered_add now (ThePod p) c"
| "handler_step now (Updated p q) c = filtered_update now (ThePod p) (ThePod q) c"
| "handler_step now (Deleted obj) c = filtered_delete obj c"
| "handler_step now Cleanup c = Ret (cleanupCache now c)"

fun handler_run :: "(int \<times> handler_event) list \<Rightarrow> scheduled_pods \<Rightarrow> scheduled_pods outcome" where
  "handler_run [] c = Ret c"
| "handler_run ((now, ev) # evs) c = (case handler_step now ev c of Panic e \<Rightarrow> Panic e | Ret c' \<Rightarrow> handler_run evs c')"

text \<open>The journal of the assignments that the events describe, kept for ever: per node the pods that
  entered it with the time, less those deleted.\<close>

type_synonym journal = "string \<Rightarrow> podInfo list"

definition enters :: "handler_event \<Rightarrow> v1_Pod option" where
  "enters ev = (case ev of
     Added p \<Rightarrow> if isAssigned p then Some p else None
   | Updated p q \<Rightarrow> if isAssigned q \<and> pod_NodeName p \<noteq> pod_NodeName q then Some q else None
   | _ \<Rightarrow> None)"

definition leaves :: "handler_event \<Rightarrow> v1_Pod option" where
  "leaves ev = (case ev of
     Deleted (ThePod p) \<Rightarrow> if isAssigned p then Some p else None
   | Updated p q \<Rightarrow> if isAssigned p \<and> \<not> isAssigned q then Some p else None
   | _ \<Rightarrow> None)"

definition journal_step :: "int \<Rightarrow> handler_event \<Rightarrow> journal \<Rightarrow> journal" where
  "journal_step now ev j = (case (enters ev, leaves ev) of
     (Some p, _) \<Rightarrow> j(pod_NodeName p := j (pod_NodeName p) @ [\<lparr>pi_Timestamp = now, pi_Pod = p\<rparr>])
   | (None, Some p) \<Rightarrow> j(pod_NodeName p := filter (\<lambda>i. pod_UID (pi_Pod i) \<noteq> pod_UID p) (j (pod_NodeName p)))
   | (None, None) \<Rightarrow> j)"

definition poison :: "handler_event \<Rightarrow> bool" where
  "poison ev = (case ev of Deleted (Tombstone (Some p)) \<Rightarrow> isAssigned p | _ \<Rightarrow> False)"

section \<open>The invariant\<close>

abbreviation uid_of :: "podInfo \<Rightarrow> string" where
  "uid_of i \<equiv> pod_UID (pi_Pod i)"

definition node_inv :: "int \<Rightarrow> string set \<Rightarrow> podInfo list \<Rightarrow> podInfo list \<Rightarrow> bool" where
  "node_inv t seen infos jl \<longleftrightarrow> stamped infos \<and> (\<forall>i \<in> set infos. pi_Timestamp i \<le> t) \<and>
     distinct (map uid_of infos) \<and> uid_of ` set infos \<subseteq> seen \<and>
     (\<forall>t' \<ge> t. filter (fresh t') infos = filter (fresh t') jl)"

definition handler_inv :: "int \<Rightarrow> string set \<Rightarrow> scheduled_pods \<Rightarrow> journal \<Rightarrow> bool" where
  "handler_inv t seen c j \<longleftrightarrow> gm_wf c \<and> (\<forall>n. node_inv t seen (gm_get [] c n) (j n))"

lemma node_inv_later: "node_inv t seen infos jl \<Longrightarrow> t \<le> t' \<Longrightarrow> seen \<subseteq> seen' \<Longrightarrow> node_inv t' seen' infos jl"
  unfolding node_inv_def by (meson order_trans)

lemma node_inv_append:
  assumes "node_inv t seen infos jl" and "t \<le> now" and "pod_UID p \<notin> seen"
  shows "node_inv now (insert (pod_UID p) seen) (infos @ [\<lparr>pi_Timestamp = now, pi_Pod = p\<rparr>]) (jl @ [\<lparr>pi_Timestamp = now, pi_Pod = p\<rparr>])"
  using assms by (auto simp: node_inv_def stamped_def sorted_append intro: order_trans)

lemma delete_uid_filter: "distinct (map uid_of infos) \<Longrightarrow> delete_uid u infos = filter (\<lambda>i. uid_of i \<noteq> u) infos"
proof (induction infos)
  case (Cons v vs)
  show ?case
  proof (cases "uid_of v = u")
    case True
    have "uid_of i \<noteq> u" if "i \<in> set vs" for i
    proof
      assume "uid_of i = u"
      then have "uid_of v \<in> uid_of ` set vs" using True imageI [OF that, of uid_of] by simp
      then show False using Cons.prems by simp
    qed
    then have "filter (\<lambda>i. uid_of i \<noteq> u) vs = vs" by (intro filter_True) blast
    then show ?thesis using True by simp
  qed (use Cons in auto)
qed simp

lemma node_inv_delete:
  assumes "node_inv t seen infos jl"
  shows "node_inv t seen (delete_uid u infos) (filter (\<lambda>i. uid_of i \<noteq> u) jl)"
proof -
  have e: "filter (fresh t') (filter (\<lambda>i. uid_of i \<noteq> u) xs) = filter (\<lambda>i. uid_of i \<noteq> u) (filter (fresh t') xs)" for t' xs
    by (simp add: conj_commute)
  show ?thesis using assms unfolding node_inv_def
    by (auto simp: delete_uid_filter stamped_def sorted_filter distinct_map_filter e simp del: filter_filter)
qed

lemma node_inv_fresh:
  assumes "node_inv t seen infos jl" and "t \<le> now"
  shows "node_inv now seen (filter (fresh now) infos) jl"
proof -
  have "filter (fresh t') (filter (fresh now) infos) = filter (fresh t') infos" if "now \<le> t'" for t'
    using that by (auto simp: fresh_def intro!: filter_cong)
  then have "filter (fresh t') (filter (fresh now) infos) = filter (fresh t') jl" if "now \<le> t'" for t'
    using assms that unfolding node_inv_def by simp
  moreover have "stamped (filter (fresh now) infos)" "distinct (map uid_of (filter (fresh now) infos))"
    using assms(1) by (simp_all add: node_inv_def stamped_def sorted_filter distinct_map_filter)
  moreover have "\<forall>i \<in> set (filter (fresh now) infos). pi_Timestamp i \<le> now" "uid_of ` set (filter (fresh now) infos) \<subseteq> seen"
  proof -
    have "\<forall>i \<in> set infos. pi_Timestamp i \<le> t" "uid_of ` set infos \<subseteq> seen" using assms(1) unfolding node_inv_def by blast+
    then show "\<forall>i \<in> set (filter (fresh now) infos). pi_Timestamp i \<le> now" "uid_of ` set (filter (fresh now) infos) \<subseteq> seen"
      using assms(2) by (auto intro: order_trans)
  qed
  ultimately show ?thesis unfolding node_inv_def by blast
qed

lemma node_inv_cleanup:
  assumes "node_inv t seen infos jl" and "t \<le> now"
  shows "node_inv now seen (snd (hd (cleanup_node now (n, infos)))) jl"
proof -
  have "stamped infos" using assms(1) by (simp add: node_inv_def)
  then show ?thesis using cleanup_sorted [of infos now n] node_inv_fresh [OF assms] node_inv_later [OF assms order_refl]
    by (cases "filter (fresh now) infos = []") simp_all
qed

lemma map_of_cleanup: "gm_get [] (cleanupCache t c) n = snd (hd (cleanup_node t (n, gm_get [] c n)))"
proof -
  define g where "g v = (let k = sort_Search (length v) (\<lambda>i. fresh t (v ! i)) in if k = length v then v else drop k v)" for v
  have h: "hd (cleanup_node t e) = (case e of (k, v) \<Rightarrow> (k, g v))" for e
    by (cases e) (simp only: cleanup_node_value g_def list.sel prod.case)
  have "g [] = []" by (simp add: g_def sort_Search_def search_loop_same)
  then show ?thesis unfolding cleanup_map h gm_get_def map_of_values by (cases "map_of c n") simp_all
qed

lemma inv_update:
  assumes "handler_inv t seen c j" and "t \<le> now" and "seen \<subseteq> seen'"
    and "node_inv now seen' infos jl"
  shows "handler_inv now seen' (AList.update n infos c) (j(n := jl))"
proof -
  have "node_inv now seen' (gm_get [] c m) (j m)" for m
    using assms(1) node_inv_later [OF _ assms(2,3)] by (simp add: handler_inv_def)
  then show ?thesis using assms(1,4) by (simp add: handler_inv_def)
qed

lemma inv_later: "handler_inv t seen c j \<Longrightarrow> t \<le> t' \<Longrightarrow> handler_inv t' seen c j"
  unfolding handler_inv_def using node_inv_later by blast

lemma inv_enter:
  assumes "handler_inv t seen c j" and "t \<le> now" and "pod_UID p \<notin> seen" and "isAssigned p"
  shows "handler_inv now (insert (pod_UID p) seen) (updateCache now p c)
    (j(pod_NodeName p := j (pod_NodeName p) @ [\<lparr>pi_Timestamp = now, pi_Pod = p\<rparr>]))"
proof -
  have "node_inv t seen (gm_get [] c (pod_NodeName p)) (j (pod_NodeName p))" using assms(1) by (simp add: handler_inv_def)
  then show ?thesis using assms(4) inv_update [OF assms(1,2) subset_insertI node_inv_append [OF _ assms(2,3)]]
    by (simp add: updateCache_def isAssigned_def)
qed

lemma inv_leave:
  assumes "handler_inv t seen c j" and "t \<le> now"
  shows "\<exists>c'. OnDelete (ThePod p) c = Ret c' \<and>
    handler_inv now seen c' (j(pod_NodeName p := filter (\<lambda>i. uid_of i \<noteq> pod_UID p) (j (pod_NodeName p))))"
proof (cases "map_of c (pod_NodeName p)")
  case None
  have "node_inv t seen [] (j (pod_NodeName p))"
    using assms(1) None by (metis (no_types, lifting) gm_get_def handler_inv_def option.simps(4))
  then have "node_inv t seen [] (filter (\<lambda>i. uid_of i \<noteq> pod_UID p) (j (pod_NodeName p)))"
    using node_inv_delete [of t seen "[]"] by force
  then have "handler_inv t seen c (j(pod_NodeName p := filter (\<lambda>i. uid_of i \<noteq> pod_UID p) (j (pod_NodeName p))))"
    using assms(1) None by (simp add: handler_inv_def gm_get_def)
  then show ?thesis using None inv_later [OF _ assms(2)] by (simp add: OnDelete_def)
next
  case (Some infos)
  then have "node_inv t seen infos (j (pod_NodeName p))"
    using assms(1) by (metis (no_types, lifting) gm_get_def handler_inv_def option.simps(5))
  then have "node_inv now seen (delete_uid (pod_UID p) infos) (filter (\<lambda>i. uid_of i \<noteq> pod_UID p) (j (pod_NodeName p)))"
    using node_inv_delete node_inv_later assms(2) by blast
  then show ?thesis using Some inv_update [OF assms order_refl] by (simp add: OnDelete_def)
qed

lemma inv_cleanup:
  assumes "handler_inv t seen c j" and "t \<le> now"
  shows "handler_inv now seen (cleanupCache now c) j"
proof -
  have "map fst (cleanupCache now c) = map fst c" by (auto simp: cleanup_map cleanup_node_value)
  then show ?thesis using assms node_inv_cleanup [OF _ assms(2)]
    by (simp add: handler_inv_def gm_wf_def map_of_cleanup)
qed

section \<open>The recent assignments\<close>

definition new_uid :: "handler_event \<Rightarrow> string list" where
  "new_uid ev = (case enters ev of None \<Rightarrow> [] | Some p \<Rightarrow> [pod_UID p])"

lemma step_inv:
  assumes "handler_inv t seen c j" and "t \<le> now" and "set (new_uid ev) \<inter> seen = {}"
  shows "(case handler_step now ev c of
      Panic e \<Rightarrow> poison ev
    | Ret c' \<Rightarrow> \<not> poison ev \<and> handler_inv now (set (new_uid ev) \<union> seen) c' (journal_step now ev j))"
proof (cases ev)
  case (Added p)
  then show ?thesis using assms inv_enter [OF assms(1,2), of p] inv_later [OF assms(1,2)]
    by (cases "isAssigned p") (simp_all add: filtered_add_def FilterFunc_def OnAdd_def new_uid_def enters_def leaves_def journal_step_def poison_def)
next
  case (Updated p q)
  consider "isAssigned q" "pod_NodeName p \<noteq> pod_NodeName q" | "isAssigned q" "pod_NodeName p = pod_NodeName q"
    | "isAssigned p" "\<not> isAssigned q" | "\<not> isAssigned p" "\<not> isAssigned q" by blast
  then show ?thesis
  proof cases
    case 1
    then show ?thesis using Updated assms inv_enter [OF assms(1,2), of q]
      by (simp add: filtered_update_def FilterFunc_def OnAdd_def OnUpdate_def new_uid_def enters_def leaves_def journal_step_def poison_def Let_def)
  next
    case 2
    then have "isAssigned p" by (simp add: isAssigned_def)
    then show ?thesis using 2 Updated inv_later [OF assms(1,2)]
      by (simp add: filtered_update_def FilterFunc_def OnUpdate_def new_uid_def enters_def leaves_def journal_step_def poison_def Let_def)
  next
    case 3
    then show ?thesis using Updated inv_leave [OF assms(1,2), of p]
      by (auto simp add: filtered_update_def FilterFunc_def new_uid_def enters_def leaves_def journal_step_def poison_def Let_def)
  next
    case 4
    then show ?thesis using Updated inv_later [OF assms(1,2)]
      by (simp add: filtered_update_def FilterFunc_def new_uid_def enters_def leaves_def journal_step_def poison_def Let_def)
  qed
next
  case (Deleted obj)
  note d = Deleted
  show ?thesis
  proof (cases obj)
    case (ThePod p)
    then show ?thesis using d inv_leave [OF assms(1,2), of p] inv_later [OF assms(1,2)]
      by (auto simp add: filtered_delete_def FilterFunc_def new_uid_def enters_def leaves_def journal_step_def poison_def)
  next
    case (Tombstone o')
    then show ?thesis using d inv_later [OF assms(1,2)]
      by (cases o') (auto simp add: filtered_delete_def FilterFunc_def OnDelete_def new_uid_def enters_def leaves_def journal_step_def poison_def)
  qed
next
  case Cleanup
  then show ?thesis using inv_cleanup [OF assms(1,2)]
    by (simp add: new_uid_def enters_def leaves_def journal_step_def poison_def)
qed

fun journal_run :: "(int \<times> handler_event) list \<Rightarrow> journal \<Rightarrow> journal" where
  "journal_run [] j = j"
| "journal_run ((now, ev) # evs) j = journal_run evs (journal_step now ev j)"

lemma run_inv:
  assumes "handler_inv t seen c j" and "sorted (t # map fst evs)"
    and "distinct (concat (map (new_uid \<circ> snd) evs))" and "set (concat (map (new_uid \<circ> snd) evs)) \<inter> seen = {}"
  shows "(case handler_run evs c of
      Panic e \<Rightarrow> list_ex (poison \<circ> snd) evs
    | Ret c' \<Rightarrow> \<not> list_ex (poison \<circ> snd) evs \<and>
        (\<exists>seen'. handler_inv (last (t # map fst evs)) seen' c' (journal_run evs j)))"
  using assms
proof (induction evs arbitrary: t seen c j)
  case (Cons e evs)
  obtain now ev where e: "e = (now, ev)" by force
  have pre: "t \<le> now" "set (new_uid ev) \<inter> seen = {}" using Cons.prems(2,4) e by auto
  note s = step_inv [OF Cons.prems(1) pre]
  show ?case
  proof (cases "handler_step now ev c")
    case (Ret c')
    have "handler_inv now (set (new_uid ev) \<union> seen) c' (journal_step now ev j)" "\<not> poison ev" using s Ret by simp_all
    moreover have "set (concat (map (new_uid \<circ> snd) evs)) \<inter> (set (new_uid ev) \<union> seen) = {}"
      using Cons.prems(3,4) e by auto
    ultimately show ?thesis using Cons.IH [of now "set (new_uid ev) \<union> seen" c' "journal_step now ev j"] Cons.prems(2,3) e Ret
      by (auto simp: comp_def split: outcome.splits)
  next
    case (Panic x)
    then show ?thesis using s e by simp
  qed
qed auto

text \<open>C35: a handler fed with events in the order of time, each pod entering a node once: it panics
  exactly when the deletion of an assigned pod reaches it as a tombstone, and otherwise, at any time
  from the last event on, its entries of the last minute are those of the journal, in the same order:
  no cleanup and no interleaving loses a recent assignment or keeps a deleted one.\<close>

theorem recent_assignments:
  assumes "sorted (map fst evs)" and "distinct (concat (map (new_uid \<circ> snd) evs))"
    and "\<forall>(t, ev) \<in> set evs. t \<le> now"
  shows "(case handler_run evs [] of
      Panic e \<Rightarrow> list_ex (poison \<circ> snd) evs
    | Ret c \<Rightarrow> \<not> list_ex (poison \<circ> snd) evs \<and>
        (\<forall>n. filter (fresh now) (gm_get [] c n) = filter (fresh now) (journal_run evs (\<lambda>n. []) n)))"
proof (cases evs)
  case (Cons e es)
  define t where "t = fst e"
  have "handler_inv t {} [] (\<lambda>n. [])" by (simp add: handler_inv_def node_inv_def stamped_def)
  then have r: "(case handler_run evs [] of
      Panic e \<Rightarrow> list_ex (poison \<circ> snd) evs
    | Ret c' \<Rightarrow> \<not> list_ex (poison \<circ> snd) evs \<and>
        (\<exists>seen'. handler_inv (last (t # map fst evs)) seen' c' (journal_run evs (\<lambda>n. []))))"
    using assms(1,2) Cons by (intro run_inv [where seen = "{}"]) (auto simp: t_def)
  have "last (t # map fst evs) \<in> fst ` set evs" using Cons by (metis last_ConsR last_in_set list.map_disc_iff list.set_map list.simps(3))
  then have "last (t # map fst evs) \<le> now" using assms(3) by auto
  then show ?thesis using r by (auto simp: handler_inv_def node_inv_def split: outcome.splits)
qed simp

definition ex_node_pod :: "string \<Rightarrow> v1_Pod" where
  "ex_node_pod u = zero_pod\<lparr>pod_UID := u, pod_NodeName := ''n1''\<rparr>"

definition ex_events :: "(int \<times> handler_event) list" where
  "ex_events = [(0, Added (ex_node_pod ''a'')), (100 * second, Added (ex_node_pod ''b'')), (101 * second, Cleanup)]"

lemma ex_events_facts:
  "sorted (map fst ex_events)" "distinct (concat (map (new_uid \<circ> snd) ex_events))" "\<forall>(t, ev) \<in> set ex_events. t \<le> 102 * second"
  "\<not> list_ex (poison \<circ> snd) ex_events"
  "filter (fresh (102 * second)) (journal_run ex_events (\<lambda>n. []) ''n1'') = [\<lparr>pi_Timestamp = 100 * second, pi_Pod = ex_node_pod ''b''\<rparr>]"
  by (simp_all add: ex_events_def new_uid_def enters_def leaves_def journal_step_def poison_def ex_node_pod_def zero_pod_def
      isAssigned_def second_def fresh_def metricsAgentReportingIntervalSeconds_def)

theorem recent_assignments_witness:
  "(case handler_run ex_events [] of
      Panic e \<Rightarrow> False
    | Ret c \<Rightarrow> filter (fresh (102 * second)) (gm_get [] c ''n1'') = [\<lparr>pi_Timestamp = 100 * second, pi_Pod = ex_node_pod ''b''\<rparr>])"
  using recent_assignments [OF ex_events_facts(1,2,3)] ex_events_facts(4,5) by (cases "handler_run ex_events []") simp_all

end
