(* ===== verification/Score_Properties.thy ===== *)
theory Score_Properties
  imports Node_Scores
begin

text \<open>
  The properties of the plugins that rescale integer scores: the range and order of the
  rescaled scores, and which of two nodes the allocatable plugin prefers.
\<close>

text \<open>Rescaling maps the scores onto 0 to 100 in proportion, rounded down: the lowest becomes 0 and
  the highest 100, unless all are equal, when all become 0.  This holds while the range of
  the scores times 100 fits an int64; both plugins rescale alike.\<close>

theorem rescaled_scores:
  assumes "list_all (\<lambda>(n, s). - (2 ^ 63) < sint s) scores" "(hi scores - lo scores) * 100 < 2 ^ 63"
  shows "map fst (alloc_NormalizeScore scores) = map fst scores
    \<and> map (sint \<circ> snd) (alloc_NormalizeScore scores) =
        map (\<lambda>(n, s). if hi scores = lo scores then 0 else (sint s - lo scores) * 100 div (hi scores - lo scores)) scores
    \<and> list_all (\<lambda>(n, s). 0 \<le> sint s \<and> sint s \<le> 100) (alloc_NormalizeScore scores)
    \<and> ps_NormalizeScore scores = alloc_NormalizeScore scores"
proof -
  note spec = alloc_NormalizeScore_spec [OF assms]
  let ?q = "\<lambda>s. (sint s - lo scores) * 100 div (hi scores - lo scores)"
  have r: "0 \<le> ?q s \<and> ?q s \<le> 100" if ns: "(n, s) \<in> set scores" and ne: "hi scores \<noteq> lo scores" for n s
  proof -
    have b: "lo scores \<le> sint s" "sint s \<le> hi scores" using hi_lo [OF ns] by simp_all
    have "hi scores \<in> set (map (sint \<circ> snd) scores)" "lo scores \<in> set (map (sint \<circ> snd) scores)"
      unfolding hi_def lo_def using ns by (auto intro!: Max_in Min_in simp del: set_map)
    then obtain h l :: i64 where "sint h = hi scores" "sint l = lo scores" by auto
    then show ?thesis using rescaled_entry(2,3) [of s "lo scores" "hi scores" h l] b ne assms(2) by simp
  qed
  have "list_all (\<lambda>v. 0 \<le> v \<and> v \<le> 100) (map (sint \<circ> snd) (alloc_NormalizeScore scores))"
    unfolding spec(2) using r by (auto simp: list_all_iff)
  then have "list_all (\<lambda>(n, s). 0 \<le> sint s \<and> sint s \<le> 100) (alloc_NormalizeScore scores)"
    by (simp add: list_all_iff case_prod_beta)
  moreover have "ps_NormalizeScore scores = alloc_NormalizeScore scores" by (simp only: ps_NormalizeScore_def alloc_NormalizeScore_def)
  ultimately show ?thesis using spec by blast
qed

theorem rescaled_scores_witness:
  "map (sint \<circ> snd) (alloc_NormalizeScore [(''a'', -5), (''b'', 1), (''c'', 4)]) = [0, 66, 100]"
proof -
  let ?s = "[(''a'', -5), (''b'', 1), (''c'', 4)] :: (string \<times> i64) list"
  have m: "hi ?s = 4" "lo ?s = - 5" by (simp_all add: hi_def lo_def)
  show ?thesis using rescaled_scores [of ?s] by (simp add: m)
qed

text \<open>Of two nodes of which the first has at most as much of every weighted resource, the plugin
  scores the first at least as high in mode Least and at most as high in mode Most; no score
  panics.  This holds while the weighted sums fit an int64.\<close>

theorem allocatable_order:
  assumes "weights_ok (al_Weights al)" "al_Mode al = ''Least'' \<or> al_Mode al = ''Most''" "sn_hasNode a" "sn_hasNode b"
    and "list_all (\<lambda>(r, w). 0 \<le> sint (allocatable_of a r) \<and> sint (allocatable_of a r) \<le> sint (allocatable_of b r)) (al_Weights al)"
    and "wsum (al_Weights al) (allocatable_of b) < 2 ^ 63"
  shows "\<exists>s t. scorer_score al pod a = Ret (s, None) \<and> scorer_score al pod b = Ret (t, None)
    \<and> (if al_Mode al = ''Least'' then sint t \<le> sint s else sint s \<le> sint t)"
proof -
  let ?ws = "al_Weights al" and ?W = "sum_list (map (\<lambda>(r, w). sint w) (al_Weights al))"
  have pos: "list_all (\<lambda>(r, w). 0 < sint w) ?ws" using assms(1) by (simp add: weights_ok_def)
  have na: "list_all (\<lambda>(r, w). 0 \<le> sint (allocatable_of a r)) ?ws" and nb: "list_all (\<lambda>(r, w). 0 \<le> sint (allocatable_of b r)) ?ws"
    using assms(5) by (auto simp: list_all_iff)
  have le: "wsum ?ws (allocatable_of a) \<le> wsum ?ws (allocatable_of b)"
    using assms(5) by (intro wsum_mono [OF pos]) (auto simp: list_all_iff)
  have q: "wsum ?ws (allocatable_of a) div ?W \<le> wsum ?ws (allocatable_of b) div ?W"
    using le weights_pos [OF assms(1)] by (rule zdiv_mono1)
  obtain s where s: "scorer_score al pod a = Ret (s, None)"
      "sint s = (if al_Mode al = ''Least'' then -1 else 1) * (wsum ?ws (allocatable_of a) div ?W)"
    using scorer_score_value [OF assms(1) na _ assms(3,2)] le assms(6) by force
  obtain t where t: "scorer_score al pod b = Ret (t, None)"
      "sint t = (if al_Mode al = ''Least'' then -1 else 1) * (wsum ?ws (allocatable_of b) div ?W)"
    using scorer_score_value [OF assms(1) nb assms(6,4,2)] by blast
  show ?thesis using s t q by auto
qed

definition sized_node :: "i64 \<Rightarrow> i64 \<Rightarrow> ScoreNode" where
  "sized_node c m = \<lparr>sn_hasNode = True, sn_Info = new_NodeInfo ''n'' [], sn_Allocatable = zero_Resource\<lparr>r_MilliCPU := c, r_Memory := m\<rparr>,
     sn_Requested = zero_Resource, sn_NonZeroRequested = zero_Resource\<rparr>"

definition default_alloc :: Allocatable where
  "default_alloc = \<lparr>al_Mode = ''Least'', al_Weights = defaultResourcesToWeightMap\<rparr>"

theorem allocatable_order_witness:
  "\<exists>s t. scorer_score default_alloc zero_pod (sized_node 1000 5000) = Ret (s, None)
    \<and> scorer_score default_alloc zero_pod (sized_node 4000 9000) = Ret (t, None) \<and> sint t \<le> sint s"
proof -
  have al: "allocatable_of (sized_node c m) ResourceMemory = m" "allocatable_of (sized_node c m) ResourceCPU = c" for c m
    by (simp_all add: allocatable_of_def calculateResourceAllocatableRequest_def sized_node_def ResourceCPU_def ResourceMemory_def)
  have "\<exists>s t. scorer_score default_alloc zero_pod (sized_node 1000 5000) = Ret (s, None)
      \<and> scorer_score default_alloc zero_pod (sized_node 4000 9000) = Ret (t, None)
      \<and> (if al_Mode default_alloc = ''Least'' then sint t \<le> sint s else sint s \<le> sint t)"
    by (rule allocatable_order)
       (simp_all add: default_alloc_def weights_ok_def defaultResourcesToWeightMap_def wsum_def al, simp_all add: sized_node_def)
  then show ?thesis by (simp add: default_alloc_def)
qed

end
