(* ===== verification/Network_Overhead.thy ===== *)
theory Network_Overhead
  imports Network_Topology Node_Scores Float64
begin

text \<open>
  The NetworkOverhead plugin, \<^verbatim>\<open>pkg/networkaware/networkoverhead/networkoverhead.go\<close>: it counts for
  every node the dependencies of a pod whose network cost is kept and broken there, and adds
  up the costs.  What the plugin reads (the API client, the pod lister, the node snapshot) and
  \<^verbatim>\<open>sort.Sort\<close> on the two kinds of lists are the record \<open>net_env\<close>.

  \<^verbatim>\<open>sort.Sort\<close> sorts the lists of the topology in place; sorting a list again for the next node
  works on its sorted form.  Here every node sorts the list as it was read.  Log output is
  left out; a node of the snapshot whose object is missing is \<open>None\<close>.
\<close>

section \<open>Environment and state\<close>

record net_env =
  no_namespaces :: "string list"
  no_weightsName :: string
  no_ntName :: string
  no_GetAppGroup :: "string \<Rightarrow> string \<Rightarrow> goerror + AppGroup"
  no_GetTopology :: "string \<Rightarrow> string \<Rightarrow> goerror + NetworkTopology"
  no_ListPods :: "string \<Rightarrow> string \<Rightarrow> goerror + v1_Pod list"
  no_NodeInfos :: "goerror + net_node option list"
  no_GetNode :: "string \<Rightarrow> goerror + net_node option"
  no_sortTopologies :: "TopologyInfo list \<Rightarrow> TopologyInfo list"
  no_sortOrigins :: "OriginInfo list \<Rightarrow> OriginInfo list"

definition NetperfCosts :: string where
  "NetperfCosts = ''NetperfCosts''"

definition MaxCost :: i64 where
  "MaxCost = 100"

definition SameHostname :: i64 where
  "SameHostname = 0"

definition SameZone :: i64 where
  "SameZone = 1"

text \<open>The state of PreFilter; a cycle state without it, or with other data under its key, is \<open>None\<close>.\<close>

record net_PreFilterState =
  np_scoreEqually :: bool
  np_agName :: string
  np_appGroup :: "AppGroup option"
  np_networkTopology :: "NetworkTopology option"
  np_dependencyList :: "DependenciesInfo list"
  np_scheduledList :: "ScheduledInfo list"
  np_nodeCostMap :: "(string, (CostKey, i64) gomap) gomap"
  np_satisfiedMap :: "(string, i64) gomap"
  np_violatedMap :: "(string, i64) gomap"
  np_finalCostMap :: "(string, i64) gomap"

definition net_getPreFilterState :: "net_PreFilterState option \<Rightarrow> goerror + net_PreFilterState" where
  "net_getPreFilterState cycleState =
     (case cycleState of None \<Rightarrow> Inl ''error reading PreFilterNetworkOverhead from cycleState'' | Some s \<Rightarrow> Inr s)"

section \<open>Lookups\<close>

fun findAppGroupNetworkOverhead :: "net_env \<Rightarrow> string list \<Rightarrow> string \<Rightarrow> AppGroup option" where
  "findAppGroupNetworkOverhead E [] agName = None"
| "findAppGroupNetworkOverhead E (namespace # ns) agName =
     (case no_GetAppGroup E namespace agName of
        Inl err \<Rightarrow> findAppGroupNetworkOverhead E ns agName
      | Inr appGroup \<Rightarrow> if ag_UID appGroup \<noteq> '''' then Some appGroup else findAppGroupNetworkOverhead E ns agName)"

fun findNetworkTopologyNetworkOverhead :: "net_env \<Rightarrow> string list \<Rightarrow> NetworkTopology option" where
  "findNetworkTopologyNetworkOverhead E [] = None"
| "findNetworkTopologyNetworkOverhead E (namespace # ns) =
     (case no_GetTopology E namespace (no_ntName E) of
        Inl err \<Rightarrow> findNetworkTopologyNetworkOverhead E ns
      | Inr nt \<Rightarrow> if nt_UID nt \<noteq> '''' then Some nt else findNetworkTopologyNetworkOverhead E ns)"

definition sortNetworkTopologyCosts :: "net_env \<Rightarrow> NetworkTopology option \<Rightarrow> NetworkTopology option outcome" where
  "sortNetworkTopologyCosts E networkTopology =
     (if no_weightsName E \<noteq> NetperfCosts then
        (case networkTopology of
           None \<Rightarrow> Panic nil_deref
         | Some nt \<Rightarrow> Ret (Some (nt\<lparr>nt_Weights := map (\<lambda>w. w\<lparr>wi_TopologyList := no_sortTopologies E (wi_TopologyList w)\<rparr>) (nt_Weights nt)\<rparr>)))
      else Ret networkTopology)"

section \<open>Costs\<close>

definition add_costs :: "string \<Rightarrow> CostInfo list \<Rightarrow> (CostKey, i64) gomap \<Rightarrow> (CostKey, i64) gomap" where
  "add_costs origin costs costMap =
     fold (\<lambda>c m. AList.update (origin, ci_Destination c) (ci_NetworkCost c) m) costs costMap"

definition origin_costs :: "net_env \<Rightarrow> WeightInfo \<Rightarrow> string \<Rightarrow> string \<Rightarrow> CostInfo list" where
  "origin_costs E w key origin =
     (let topologyList = FindTopologyKey (wi_TopologyList w) key;
          topologyList = (if no_weightsName E \<noteq> NetperfCosts then no_sortOrigins E topologyList else topologyList)
      in FindOriginCosts topologyList origin)"

definition populate_weight :: "net_env \<Rightarrow> string \<Rightarrow> string \<Rightarrow> WeightInfo \<Rightarrow> (CostKey, i64) gomap \<Rightarrow> (CostKey, i64) gomap" where
  "populate_weight E region zone w costMap =
     (if wi_Name w \<noteq> no_weightsName E then costMap
      else let costMap = (if region \<noteq> '''' then add_costs region (origin_costs E w LabelTopologyRegion region) costMap else costMap)
           in if zone \<noteq> '''' then add_costs zone (origin_costs E w LabelTopologyZone zone) costMap else costMap)"

definition populateCostMap ::
  "net_env \<Rightarrow> (CostKey, i64) gomap \<Rightarrow> NetworkTopology option \<Rightarrow> string \<Rightarrow> string \<Rightarrow> (CostKey, i64) gomap outcome" where
  "populateCostMap E costMap networkTopology region zone =
     (case networkTopology of
        None \<Rightarrow> Panic nil_deref
      | Some nt \<Rightarrow> Ret (fold (populate_weight E region zone) (nt_Weights nt) costMap))"

text \<open>The effect of one allocated pod and one dependency on the two counters.\<close>

definition count_cost :: "i64 option \<Rightarrow> DependenciesInfo \<Rightarrow> i64 \<times> i64 \<Rightarrow> i64 \<times> i64" where
  "count_cost cost d = (\<lambda>(satisfied, violated). case cost of
     None \<Rightarrow> (satisfied, violated)
   | Some c \<Rightarrow> if sint c \<le> sint (dep_MaxNetworkCost d) then (satisfied + 1, violated) else (satisfied, violated + 1))"

definition check_pair ::
  "net_env \<Rightarrow> string \<Rightarrow> string \<Rightarrow> string \<Rightarrow> (CostKey, i64) gomap \<Rightarrow> ScheduledInfo \<Rightarrow> DependenciesInfo
     \<Rightarrow> i64 \<times> i64 \<Rightarrow> (goerror + i64 \<times> i64) outcome" where
  "check_pair E nodeName region zone costMap podAllocated d counts =
     (if si_Selector podAllocated \<noteq> dep_Selector d then Ret (Inr counts)
      else if si_Hostname podAllocated = nodeName then Ret (Inr (fst counts + 1, snd counts))
      else (case no_GetNode E (si_Hostname podAllocated) of
              Inl err \<Rightarrow> Ret (Inl err)
            | Inr None \<Rightarrow> Panic nil_deref
            | Inr (Some node) \<Rightarrow>
                let regionPodNodeInfo = GetNodeRegion node; zonePodNodeInfo = GetNodeZone node in
                if regionPodNodeInfo = '''' \<and> zonePodNodeInfo = '''' then Ret (Inr (fst counts, snd counts + 1))
                else if region = regionPodNodeInfo then
                  (if zone = zonePodNodeInfo then Ret (Inr (fst counts + 1, snd counts))
                   else Ret (Inr (count_cost (map_of costMap (zone, zonePodNodeInfo)) d counts)))
                else Ret (Inr (count_cost (map_of costMap (region, regionPodNodeInfo)) d counts))))"

text \<open>A loop whose body may return an error or panic.\<close>

fun for_each :: "('a \<Rightarrow> 's \<Rightarrow> (goerror + 's) outcome) \<Rightarrow> 'a list \<Rightarrow> 's \<Rightarrow> (goerror + 's) outcome" where
  "for_each f [] s = Ret (Inr s)"
| "for_each f (x # xs) s =
     (case f x s of
        Panic m \<Rightarrow> Panic m
      | Ret (Inl err) \<Rightarrow> Ret (Inl err)
      | Ret (Inr s1) \<Rightarrow> for_each f xs s1)"

definition checkMaxNetworkCostRequirements ::
  "net_env \<Rightarrow> ScheduledInfo list \<Rightarrow> DependenciesInfo list \<Rightarrow> string \<Rightarrow> string \<Rightarrow> string \<Rightarrow> (CostKey, i64) gomap
     \<Rightarrow> (goerror + i64 \<times> i64) outcome" where
  "checkMaxNetworkCostRequirements E scheduledList dependencyList nodeName region zone costMap =
     for_each (\<lambda>podAllocated counts.
        if si_Hostname podAllocated \<noteq> ''''
        then for_each (check_pair E nodeName region zone costMap podAllocated) dependencyList counts
        else Ret (Inr counts)) scheduledList (0, 0)"

definition cost_pair ::
  "net_env \<Rightarrow> string \<Rightarrow> string \<Rightarrow> string \<Rightarrow> (CostKey, i64) gomap \<Rightarrow> ScheduledInfo \<Rightarrow> DependenciesInfo
     \<Rightarrow> i64 \<Rightarrow> (goerror + i64) outcome" where
  "cost_pair E nodeName region zone costMap podAllocated d cost =
     (if si_Selector podAllocated \<noteq> dep_Selector d then Ret (Inr cost)
      else if si_Hostname podAllocated = nodeName then Ret (Inr (cost + SameHostname))
      else (case no_GetNode E (si_Hostname podAllocated) of
              Inl err \<Rightarrow> Ret (Inl err)
            | Inr None \<Rightarrow> Panic nil_deref
            | Inr (Some node) \<Rightarrow>
                let regionPodNodeInfo = GetNodeRegion node; zonePodNodeInfo = GetNodeZone node in
                if regionPodNodeInfo = '''' \<and> zonePodNodeInfo = '''' then Ret (Inr (cost + MaxCost))
                else if region = regionPodNodeInfo then
                  (if zone = zonePodNodeInfo then Ret (Inr (cost + SameZone))
                   else (case map_of costMap (zone, zonePodNodeInfo) of
                           Some value \<Rightarrow> Ret (Inr (cost + value)) | None \<Rightarrow> Ret (Inr (cost + MaxCost))))
                else (case map_of costMap (region, regionPodNodeInfo) of
                        Some value \<Rightarrow> Ret (Inr (cost + value)) | None \<Rightarrow> Ret (Inr (cost + MaxCost)))))"

definition getAccumulatedCost ::
  "net_env \<Rightarrow> ScheduledInfo list \<Rightarrow> DependenciesInfo list \<Rightarrow> string \<Rightarrow> string \<Rightarrow> string \<Rightarrow> (CostKey, i64) gomap
     \<Rightarrow> (goerror + i64) outcome" where
  "getAccumulatedCost E scheduledList dependencyList nodeName region zone costMap =
     for_each (\<lambda>podAllocated cost. for_each (cost_pair E nodeName region zone costMap podAllocated) dependencyList cost)
       scheduledList 0"

section \<open>Extension points\<close>

text \<open>The maps that PreFilter fills for one node.\<close>

definition net_node_step ::
  "net_env \<Rightarrow> NetworkTopology option \<Rightarrow> ScheduledInfo list \<Rightarrow> DependenciesInfo list \<Rightarrow> net_node option
     \<Rightarrow> net_PreFilterState \<Rightarrow> (goerror + net_PreFilterState) outcome" where
  "net_node_step E nt scheduledList dependencyList nodeInfo st =
     (case nodeInfo of
        None \<Rightarrow> Panic nil_deref
      | Some node \<Rightarrow>
          let region = GetNodeRegion node; zone = GetNodeZone node; name = nn_Name node in
          (case populateCostMap E [] nt region zone of
             Panic m \<Rightarrow> Panic m
           | Ret costMap \<Rightarrow>
               (case checkMaxNetworkCostRequirements E scheduledList dependencyList name region zone costMap of
                  Panic m \<Rightarrow> Panic m
                | Ret (Inl err) \<Rightarrow> Ret (Inl (''pod hostname not found: '' @ err))
                | Ret (Inr (satisfied, violated)) \<Rightarrow>
                    (case getAccumulatedCost E scheduledList dependencyList name region zone costMap of
                       Panic m \<Rightarrow> Panic m
                     | Ret (Inl err) \<Rightarrow> Ret (Inl (''getting pod hostname from Snapshot: '' @ err))
                     | Ret (Inr cost) \<Rightarrow>
                         Ret (Inr (st\<lparr>np_nodeCostMap := AList.update name costMap (np_nodeCostMap st),
                                      np_satisfiedMap := AList.update name satisfied (np_satisfiedMap st),
                                      np_violatedMap := AList.update name violated (np_violatedMap st),
                                      np_finalCostMap := AList.update name cost (np_finalCostMap st)\<rparr>))))))"

definition equal_state :: net_PreFilterState where
  "equal_state = \<lparr>np_scoreEqually = True, np_agName = '''', np_appGroup = None, np_networkTopology = None,
     np_dependencyList = [], np_scheduledList = [], np_nodeCostMap = [], np_satisfiedMap = [], np_violatedMap = [], np_finalCostMap = []\<rparr>"

definition net_PreFilter :: "net_env \<Rightarrow> v1_Pod \<Rightarrow> (Status \<times> net_PreFilterState) outcome" where
  "net_PreFilter E pod =
     (let agName = GetPodAppGroupLabel pod in
      if agName = '''' then Ret (NewStatus Success ''Pod does not belong to an AppGroup, return'', equal_state)
      else let appGroup = findAppGroupNetworkOverhead E (no_namespaces E) agName;
               found = findNetworkTopologyNetworkOverhead E (no_namespaces E)
           in
      (case sortNetworkTopologyCosts E found of
         Panic m \<Rightarrow> Panic m
       | Ret networkTopology \<Rightarrow>
      (case GetDependencyList pod appGroup of
         Panic m \<Rightarrow> Panic m
       | Ret dependencyList \<Rightarrow>
           if dependencyList = [] then Ret (NewStatus Success ''Pod has no dependencies, return'', equal_state)
           else (case no_ListPods E AppGroupLabel agName of
             Inl err \<Rightarrow> Ret (NewStatus Success ''Error while returning pods from appGroup, return'', equal_state)
           | Inr pods \<Rightarrow>
               if pods = [] then Ret (NewStatus Success ''No pods yet allocated, return'', equal_state)
               else let scheduledList = GetScheduledList pods in
                 if scheduledList = [] then Ret (NewStatus Success ''Scheduled list is empty, return'', equal_state)
                 else (case no_NodeInfos E of
                   Inl err \<Rightarrow> Ret (NewStatus Error (''Error getting the nodelist: '' @ err), equal_state)
                 | Inr nodeList \<Rightarrow>
                     (case for_each (net_node_step E networkTopology scheduledList dependencyList) nodeList
                             (equal_state\<lparr>np_scoreEqually := False, np_agName := agName, np_appGroup := appGroup,
                                np_networkTopology := networkTopology, np_dependencyList := dependencyList,
                                np_scheduledList := scheduledList\<rparr>) of
                        Panic m \<Rightarrow> Panic m
                      | Ret (Inl err) \<Rightarrow> Ret (NewStatus Error err, equal_state)
                      | Ret (Inr st) \<Rightarrow> Ret (NewStatus Success ''PreFilter State updated'', st)))))))"

definition net_AddPod :: Status where
  "net_AddPod = NewStatus Success ''''"

definition net_RemovePod :: Status where
  "net_RemovePod = NewStatus Success ''''"

definition net_Filter :: "net_PreFilterState option \<Rightarrow> net_node option \<Rightarrow> Status" where
  "net_Filter cycleState nodeInfo =
     (case nodeInfo of
        None \<Rightarrow> NewStatus Error ''node not found''
      | Some node \<Rightarrow>
          (case net_getPreFilterState cycleState of
             Inl err \<Rightarrow> NewStatus Error ''not eligible due to failed to read from cycleState''
           | Inr s \<Rightarrow>
               if np_scoreEqually s then None
               else let satisfied = gm_get 0 (np_satisfiedMap s) (nn_Name node);
                        violated = gm_get 0 (np_violatedMap s) (nn_Name node)
                    in if sint violated > sint satisfied
                       then NewStatus Unschedulable (''Node '' @ nn_Name node @ '' does not meet several network requirements from Workload dependencies'')
                       else None))"

definition net_Score :: "net_PreFilterState option \<Rightarrow> string \<Rightarrow> i64 \<times> Status" where
  "net_Score cycleState nodeName =
     (case net_getPreFilterState cycleState of
        Inl err \<Rightarrow> (0, NewStatus Error ''not eligible due to failed to read from cycleState, return min score'')
      | Inr s \<Rightarrow>
          if np_scoreEqually s then (0, NewStatus Success ''scoreEqually enabled: minimum score'')
          else (gm_get 0 (np_finalCostMap s) nodeName,
                NewStatus Success ''Accumulated cost added as score, normalization ensures lower costs are favored''))"

definition getMinMaxScores :: "(string \<times> i64) list \<Rightarrow> i64 \<times> i64" where
  "getMinMaxScores scores =
     (case fold (\<lambda>(n, s) (mx, mn). (if sint s > sint mx then s else mx, if sint s < sint mn then s else mn)) scores
             (- 9223372036854775808, 9223372036854775807)
      of (mx, mn) \<Rightarrow> (mn, mx))"

definition net_NormalizeScore :: "(string \<times> i64) list \<Rightarrow> (string \<times> i64) list" where
  "net_NormalizeScore scores =
     (case getMinMaxScores scores of (minCost, maxCost) \<Rightarrow>
        if minCost = 0 \<and> maxCost = 0 then scores
        else map (\<lambda>(n, s). (n,
          if maxCost \<noteq> minCost
          then (let normCost = f64_div (f64_mult 100 (f64_of_int (s - minCost))) (f64_of_int (maxCost - minCost))
                in 100 - int64_of_f64 normCost)
          else (let normCost = f64_of_int (s - minCost) in 100 - int64_of_f64 normCost))) scores)"

section \<open>The cost table\<close>

text \<open>The costs as the topology lists them, found by scanning the lists in any order.\<close>

definition listed_costs :: "WeightInfo \<Rightarrow> string \<Rightarrow> string \<Rightarrow> CostInfo list" where
  "listed_costs w key origin =
     (case find (\<lambda>t. ti_TopologyKey t = key) (wi_TopologyList w) of
        None \<Rightarrow> []
      | Some t \<Rightarrow> (case find (\<lambda>x. oi_Origin x = origin) (ti_OriginList t) of None \<Rightarrow> [] | Some x \<Rightarrow> oi_CostList x))"

definition listed_weight :: "string \<Rightarrow> string \<Rightarrow> string \<Rightarrow> WeightInfo \<Rightarrow> (CostKey, i64) gomap \<Rightarrow> (CostKey, i64) gomap" where
  "listed_weight name region zone w costMap =
     (if wi_Name w \<noteq> name then costMap
      else let costMap = (if region \<noteq> '''' then add_costs region (listed_costs w LabelTopologyRegion region) costMap else costMap)
           in if zone \<noteq> '''' then add_costs zone (listed_costs w LabelTopologyZone zone) costMap else costMap)"

definition cost_table :: "string \<Rightarrow> NetworkTopology \<Rightarrow> net_node \<Rightarrow> (CostKey, i64) gomap" where
  "cost_table name nt node = fold (listed_weight name (GetNodeRegion node) (GetNodeZone node)) (nt_Weights nt) []"

definition topology_wf :: "NetworkTopology \<Rightarrow> bool" where
  "topology_wf nt = list_all (\<lambda>w. distinct (map ti_TopologyKey (wi_TopologyList w))
     \<and> list_all (\<lambda>t. distinct (map oi_Origin (ti_OriginList t))) (wi_TopologyList w)) (nt_Weights nt)"

definition topology_sorted :: "NetworkTopology \<Rightarrow> bool" where
  "topology_sorted nt = list_all (\<lambda>w. sorted_by ti_TopologyKey (wi_TopologyList w)
     \<and> list_all (\<lambda>t. sorted_by oi_Origin (ti_OriginList t)) (wi_TopologyList w)) (nt_Weights nt)"

text \<open>Either the lists are measured and come sorted, or they are manual and the plugin sorts them.\<close>

definition searchable :: "net_env \<Rightarrow> NetworkTopology \<Rightarrow> bool" where
  "searchable E nt = (topology_wf nt \<and>
     (if no_weightsName E = NetperfCosts then topology_sorted nt
      else name_sort ti_TopologyKey (no_sortTopologies E) \<and> name_sort oi_Origin (no_sortOrigins E)))"

lemma find_in: "find P xs = Some x \<Longrightarrow> x \<in> set xs"
  by (induction xs) (auto split: if_splits)

lemma FindOriginCosts_Nil [simp]: "FindOriginCosts [] origin = []"
  by (simp add: FindOriginCosts_def bsearch.simps)

lemma origin_costs_listed:
  assumes "searchable E nt" "w \<in> set (nt_Weights nt)"
    and "w' = (if no_weightsName E \<noteq> NetperfCosts then w\<lparr>wi_TopologyList := no_sortTopologies E (wi_TopologyList w)\<rparr> else w)"
  shows "origin_costs E w' key origin = listed_costs w key origin"
proof -
  let ?tl = "wi_TopologyList w"
  have wf: "distinct (map ti_TopologyKey ?tl)" "\<And>t. t \<in> set ?tl \<Longrightarrow> distinct (map oi_Origin (ti_OriginList t))"
    using assms(1,2) by (auto simp: searchable_def topology_wf_def list_all_iff)
  show ?thesis
  proof (cases "no_weightsName E = NetperfCosts")
    case True
    then have so: "sorted_by ti_TopologyKey ?tl" "\<And>t. t \<in> set ?tl \<Longrightarrow> sorted_by oi_Origin (ti_OriginList t)"
      using assms(1,2) by (auto simp: searchable_def topology_sorted_def list_all_iff)
    have o: "FindOriginCosts (ti_OriginList t) origin = (case find (\<lambda>x. oi_Origin x = origin) (ti_OriginList t) of None \<Rightarrow> [] | Some x \<Rightarrow> oi_CostList x)"
      if "t \<in> set ?tl" for t
      using bsearch_find [OF so(2) wf(2)] that by (simp add: FindOriginCosts_def split: option.splits)
    have t: "FindTopologyKey ?tl key = (case find (\<lambda>t. ti_TopologyKey t = key) ?tl of None \<Rightarrow> [] | Some t \<Rightarrow> ti_OriginList t)"
      using bsearch_find [OF so(1) wf(1)] by (simp add: FindTopologyKey_def split: option.splits)
    show ?thesis
      using True o [OF find_in] by (simp add: assms(3) origin_costs_def listed_costs_def t split: option.split)
  next
    case False
    then have ns: "name_sort ti_TopologyKey (no_sortTopologies E)" "name_sort oi_Origin (no_sortOrigins E)"
      using assms(1) by (simp_all add: searchable_def)
    have nil: "no_sortOrigins E [] = []" using name_sort.permutes [OF ns(2), of "[]"] by simp
    have o: "FindOriginCosts (no_sortOrigins E (ti_OriginList t)) origin
        = (case find (\<lambda>x. oi_Origin x = origin) (ti_OriginList t) of None \<Rightarrow> [] | Some x \<Rightarrow> oi_CostList x)" if "t \<in> set ?tl" for t
      using name_sort.bsearch_sorted [OF ns(2) wf(2)] that by (simp add: FindOriginCosts_def split: option.splits)
    have t: "FindTopologyKey (no_sortTopologies E ?tl) key = (case find (\<lambda>t. ti_TopologyKey t = key) ?tl of None \<Rightarrow> [] | Some t \<Rightarrow> ti_OriginList t)"
      using name_sort.bsearch_sorted [OF ns(1) wf(1)] by (simp add: FindTopologyKey_def split: option.splits)
    show ?thesis
      using False o [OF find_in] by (simp add: assms(3) origin_costs_def listed_costs_def t nil split: option.split)
  qed
qed

definition sorted_topology :: "net_env \<Rightarrow> NetworkTopology \<Rightarrow> NetworkTopology" where
  "sorted_topology E nt = (if no_weightsName E \<noteq> NetperfCosts
     then nt\<lparr>nt_Weights := map (\<lambda>w. w\<lparr>wi_TopologyList := no_sortTopologies E (wi_TopologyList w)\<rparr>) (nt_Weights nt)\<rparr> else nt)"

lemma sortNetworkTopologyCosts_Some: "sortNetworkTopologyCosts E (Some nt) = Ret (Some (sorted_topology E nt))"
  by (simp add: sortNetworkTopologyCosts_def sorted_topology_def)

lemma populate_is_table:
  assumes "searchable E nt"
  shows "populateCostMap E [] (Some (sorted_topology E nt)) (GetNodeRegion node) (GetNodeZone node)
    = Ret (cost_table (no_weightsName E) nt node)"
proof -
  let ?f = "\<lambda>w. if no_weightsName E \<noteq> NetperfCosts then w\<lparr>wi_TopologyList := no_sortTopologies E (wi_TopologyList w)\<rparr> else w"
  have "populate_weight E r z (?f w) m = listed_weight (no_weightsName E) r z w m" if "w \<in> set (nt_Weights nt)" for r z w m
    using origin_costs_listed [OF assms that refl] by (simp add: populate_weight_def listed_weight_def Let_def)
  then have "fold (populate_weight E r z) (map ?f ws) m = fold (listed_weight (no_weightsName E) r z) ws m"
    if "set ws \<subseteq> set (nt_Weights nt)" for r z ws m
    using that by (induction ws arbitrary: m) auto
  moreover have "nt_Weights (sorted_topology E nt) = map ?f (nt_Weights nt)" by (simp add: sorted_topology_def)
  ultimately show ?thesis by (simp add: populateCostMap_def cost_table_def)
qed

section \<open>Counting pairs\<close>

text \<open>How the node of an allocated pod relates to the node under test.\<close>

datatype hop = SameHost | NoPlace | InZone | Priced "i64 option"

definition hop_to :: "net_node \<Rightarrow> (CostKey, i64) gomap \<Rightarrow> net_node \<Rightarrow> string \<Rightarrow> hop" where
  "hop_to node costMap other hostname =
     (if hostname = nn_Name node then SameHost
      else if GetNodeRegion other = '''' \<and> GetNodeZone other = '''' then NoPlace
      else if GetNodeRegion node = GetNodeRegion other then
        (if GetNodeZone node = GetNodeZone other then InZone else Priced (map_of costMap (GetNodeZone node, GetNodeZone other)))
      else Priced (map_of costMap (GetNodeRegion node, GetNodeRegion other)))"

fun keeps :: "hop \<Rightarrow> i64 \<Rightarrow> bool" where
  "keeps SameHost m = True"
| "keeps InZone m = True"
| "keeps (Priced (Some c)) m = (sint c \<le> sint m)"
| "keeps _ m = False"

fun breaks :: "hop \<Rightarrow> i64 \<Rightarrow> bool" where
  "breaks NoPlace m = True"
| "breaks (Priced (Some c)) m = (sint m < sint c)"
| "breaks _ m = False"

fun hop_cost :: "hop \<Rightarrow> i64" where
  "hop_cost SameHost = 0"
| "hop_cost InZone = 1"
| "hop_cost (Priced (Some c)) = c"
| "hop_cost _ = 100"

definition dep_pairs :: "ScheduledInfo list \<Rightarrow> DependenciesInfo list \<Rightarrow> (ScheduledInfo \<times> DependenciesInfo) list" where
  "dep_pairs ss ds = concat (map (\<lambda>p. map (Pair p) (filter (\<lambda>d. si_Selector p = dep_Selector d) ds)) ss)"

lemma for_each_fold: "(\<And>x s. x \<in> set xs \<Longrightarrow> f x s = Ret (Inr (g x s))) \<Longrightarrow> for_each f xs s = Ret (Inr (fold g xs s))"
  by (induction xs arbitrary: s) simp_all

definition hosts_known :: "net_env \<Rightarrow> (string \<Rightarrow> net_node) \<Rightarrow> ScheduledInfo list \<Rightarrow> bool" where
  "hosts_known E nodes ss = list_all (\<lambda>p. si_Hostname p \<noteq> '''' \<and> no_GetNode E (si_Hostname p) = Inr (Some (nodes (si_Hostname p)))) ss"

definition pair_hop :: "(string \<Rightarrow> net_node) \<Rightarrow> net_node \<Rightarrow> (CostKey, i64) gomap \<Rightarrow> ScheduledInfo \<Rightarrow> hop" where
  "pair_hop nodes node costMap p = hop_to node costMap (nodes (si_Hostname p)) (si_Hostname p)"

definition tally :: "hop \<Rightarrow> i64 \<Rightarrow> i64 \<times> i64 \<Rightarrow> i64 \<times> i64" where
  "tally h m = (\<lambda>(s, v). (s + of_bool (keeps h m), v + of_bool (breaks h m)))"

lemma check_pair_tally:
  assumes "no_GetNode E (si_Hostname p) = Inr (Some (nodes (si_Hostname p)))"
  shows "check_pair E (nn_Name node) (GetNodeRegion node) (GetNodeZone node) costMap p d counts =
    Ret (Inr (if si_Selector p = dep_Selector d then tally (pair_hop nodes node costMap p) (dep_MaxNetworkCost d) counts else counts))"
  using assms by (cases counts) (auto simp: check_pair_def tally_def pair_hop_def hop_to_def count_cost_def Let_def split: option.splits)

lemma cost_pair_hop:
  assumes "no_GetNode E (si_Hostname p) = Inr (Some (nodes (si_Hostname p)))"
  shows "cost_pair E (nn_Name node) (GetNodeRegion node) (GetNodeZone node) costMap p d c =
    Ret (Inr (if si_Selector p = dep_Selector d then c + hop_cost (pair_hop nodes node costMap p) else c))"
  using assms by (auto simp: cost_pair_def pair_hop_def hop_to_def SameHostname_def SameZone_def MaxCost_def Let_def split: option.splits)

lemma fold_tally_pairs:
  "fold (\<lambda>d s. if si_Selector p = dep_Selector d then tally (h p) (dep_MaxNetworkCost d) s else s) ds (s, v) =
     (s + of_nat (length (filter (\<lambda>(p, d). keeps (h p) (dep_MaxNetworkCost d)) (dep_pairs [p] ds))),
      v + of_nat (length (filter (\<lambda>(p, d). breaks (h p) (dep_MaxNetworkCost d)) (dep_pairs [p] ds))))"
  by (induction ds arbitrary: s v) (auto simp: dep_pairs_def tally_def)

lemma dep_pairs_Cons: "dep_pairs (p # ss) ds = dep_pairs [p] ds @ dep_pairs ss ds"
  by (simp add: dep_pairs_def)

lemma check_counts:
  assumes "hosts_known E nodes ss"
  shows "checkMaxNetworkCostRequirements E ss ds (nn_Name node) (GetNodeRegion node) (GetNodeZone node) costMap = Ret (Inr
    (of_nat (length (filter (\<lambda>(p, d). keeps (pair_hop nodes node costMap p) (dep_MaxNetworkCost d)) (dep_pairs ss ds))),
     of_nat (length (filter (\<lambda>(p, d). breaks (pair_hop nodes node costMap p) (dep_MaxNetworkCost d)) (dep_pairs ss ds)))))"
proof -
  let ?h = "pair_hop nodes node costMap"
  let ?k = "\<lambda>(p, d). keeps (?h p) (dep_MaxNetworkCost d)" and ?b = "\<lambda>(p, d). breaks (?h p) (dep_MaxNetworkCost d)"
  let ?g = "\<lambda>p. fold (\<lambda>d s. if si_Selector p = dep_Selector d then tally (?h p) (dep_MaxNetworkCost d) s else s) ds"
  have "for_each (\<lambda>p counts. if si_Hostname p \<noteq> '''' then for_each (check_pair E (nn_Name node) (GetNodeRegion node) (GetNodeZone node) costMap p) ds counts
      else Ret (Inr counts)) ss (0, 0) = Ret (Inr (fold ?g ss (0, 0)))"
  proof (rule for_each_fold)
    fix p s
    assume "p \<in> set ss"
    then have h: "si_Hostname p \<noteq> ''''" "no_GetNode E (si_Hostname p) = Inr (Some (nodes (si_Hostname p)))"
      using assms by (auto simp: hosts_known_def list_all_iff)
    then show "(if si_Hostname p \<noteq> '''' then for_each (check_pair E (nn_Name node) (GetNodeRegion node) (GetNodeZone node) costMap p) ds s
      else Ret (Inr s)) = Ret (Inr (?g p s))"
      using for_each_fold [of ds, OF check_pair_tally [of E p nodes node costMap, OF h(2)]] by simp
  qed
  moreover have "fold ?g ss (s, v) = (s + of_nat (length (filter ?k (dep_pairs ss ds))), v + of_nat (length (filter ?b (dep_pairs ss ds))))" for s v
  proof (induction ss arbitrary: s v)
    case (Cons p ss)
    show ?case
      using Cons fold_tally_pairs [of p ?h ds s v] dep_pairs_Cons [of p ss ds] by (simp add: add.assoc)
  qed (simp add: dep_pairs_def)
  ultimately show ?thesis by (simp add: checkMaxNetworkCostRequirements_def)
qed

lemma accumulated_cost:
  assumes "hosts_known E nodes ss"
  shows "getAccumulatedCost E ss ds (nn_Name node) (GetNodeRegion node) (GetNodeZone node) costMap =
    Ret (Inr (sum_list (map (\<lambda>(p, d). hop_cost (pair_hop nodes node costMap p)) (dep_pairs ss ds))))"
proof -
  let ?c = "\<lambda>p. hop_cost (pair_hop nodes node costMap p)"
  let ?g = "\<lambda>p. fold (\<lambda>d c. if si_Selector p = dep_Selector d then c + ?c p else c) ds"
  have "for_each (\<lambda>p c. for_each (cost_pair E (nn_Name node) (GetNodeRegion node) (GetNodeZone node) costMap p) ds c) ss 0
      = Ret (Inr (fold ?g ss 0))"
  proof (rule for_each_fold)
    fix p s
    assume "p \<in> set ss"
    then have h: "no_GetNode E (si_Hostname p) = Inr (Some (nodes (si_Hostname p)))"
      using assms by (auto simp: hosts_known_def list_all_iff)
    show "for_each (cost_pair E (nn_Name node) (GetNodeRegion node) (GetNodeZone node) costMap p) ds s = Ret (Inr (?g p s))"
      using for_each_fold [of ds, OF cost_pair_hop [of E p nodes node costMap, OF h]] by simp
  qed
  moreover have "?g p c = c + sum_list (map (\<lambda>(p, d). ?c p) (dep_pairs [p] ds))" for p c
    by (induction ds arbitrary: c) (auto simp: dep_pairs_def algebra_simps)
  then have "fold ?g ss c = c + sum_list (map (\<lambda>(p, d). ?c p) (dep_pairs ss ds))" for c
  proof (induction ss arbitrary: c)
    case (Cons p ss)
    then show ?case using dep_pairs_Cons [of p ss ds] by (simp add: add.assoc)
  qed (simp add: dep_pairs_def)
  ultimately show ?thesis by (simp add: getAccumulatedCost_def)
qed

section \<open>PreFilter\<close>

definition node_kept :: "net_env \<Rightarrow> NetworkTopology \<Rightarrow> (string \<Rightarrow> net_node) \<Rightarrow> ScheduledInfo list \<Rightarrow> DependenciesInfo list \<Rightarrow> net_node \<Rightarrow> nat" where
  "node_kept E nt nodes ss ds node = length (filter (\<lambda>(p, d). keeps (pair_hop nodes node (cost_table (no_weightsName E) nt node) p) (dep_MaxNetworkCost d)) (dep_pairs ss ds))"

definition node_broken :: "net_env \<Rightarrow> NetworkTopology \<Rightarrow> (string \<Rightarrow> net_node) \<Rightarrow> ScheduledInfo list \<Rightarrow> DependenciesInfo list \<Rightarrow> net_node \<Rightarrow> nat" where
  "node_broken E nt nodes ss ds node = length (filter (\<lambda>(p, d). breaks (pair_hop nodes node (cost_table (no_weightsName E) nt node) p) (dep_MaxNetworkCost d)) (dep_pairs ss ds))"

definition node_cost :: "net_env \<Rightarrow> NetworkTopology \<Rightarrow> (string \<Rightarrow> net_node) \<Rightarrow> ScheduledInfo list \<Rightarrow> DependenciesInfo list \<Rightarrow> net_node \<Rightarrow> i64" where
  "node_cost E nt nodes ss ds node = sum_list (map (\<lambda>(p, d). hop_cost (pair_hop nodes node (cost_table (no_weightsName E) nt node) p)) (dep_pairs ss ds))"

definition put_node :: "net_env \<Rightarrow> NetworkTopology \<Rightarrow> (string \<Rightarrow> net_node) \<Rightarrow> ScheduledInfo list \<Rightarrow> DependenciesInfo list \<Rightarrow> net_node
    \<Rightarrow> net_PreFilterState \<Rightarrow> net_PreFilterState" where
  "put_node E nt nodes ss ds node st =
     st\<lparr>np_nodeCostMap := AList.update (nn_Name node) (cost_table (no_weightsName E) nt node) (np_nodeCostMap st),
        np_satisfiedMap := AList.update (nn_Name node) (of_nat (node_kept E nt nodes ss ds node)) (np_satisfiedMap st),
        np_violatedMap := AList.update (nn_Name node) (of_nat (node_broken E nt nodes ss ds node)) (np_violatedMap st),
        np_finalCostMap := AList.update (nn_Name node) (node_cost E nt nodes ss ds node) (np_finalCostMap st)\<rparr>"

lemma net_node_step_put:
  assumes "searchable E nt" "hosts_known E nodes ss"
  shows "net_node_step E (Some (sorted_topology E nt)) ss ds (Some node) st = Ret (Inr (put_node E nt nodes ss ds node st))"
  by (simp add: net_node_step_def Let_def populate_is_table [OF assms(1)] check_counts [OF assms(2)] accumulated_cost [OF assms(2)]
      put_node_def node_kept_def node_broken_def node_cost_def)

lemma fold_put_node:
  assumes "distinct (map nn_Name ns)" "node \<in> set ns"
  shows "gm_get 0 (np_satisfiedMap (fold (put_node E nt nodes ss ds) ns st)) (nn_Name node) = of_nat (node_kept E nt nodes ss ds node)"
    and "gm_get 0 (np_violatedMap (fold (put_node E nt nodes ss ds) ns st)) (nn_Name node) = of_nat (node_broken E nt nodes ss ds node)"
    and "gm_get 0 (np_finalCostMap (fold (put_node E nt nodes ss ds) ns st)) (nn_Name node) = node_cost E nt nodes ss ds node"
    and "np_scoreEqually (fold (put_node E nt nodes ss ds) ns st) = np_scoreEqually st"
proof -
  have keep: "gm_get 0 (np_satisfiedMap (fold (put_node E nt nodes ss ds) ns st)) n = gm_get 0 (np_satisfiedMap st) n
      \<and> gm_get 0 (np_violatedMap (fold (put_node E nt nodes ss ds) ns st)) n = gm_get 0 (np_violatedMap st) n
      \<and> gm_get 0 (np_finalCostMap (fold (put_node E nt nodes ss ds) ns st)) n = gm_get 0 (np_finalCostMap st) n"
    if "n \<notin> nn_Name ` set ns" for ns n st
    using that by (induction ns arbitrary: st) (auto simp: put_node_def)
  have eq: "np_scoreEqually (fold (put_node E nt nodes ss ds) ns st) = np_scoreEqually st" for ns st
    by (induction ns arbitrary: st) (auto simp: put_node_def)
  show "np_scoreEqually (fold (put_node E nt nodes ss ds) ns st) = np_scoreEqually st" by (rule eq)
  obtain as bs where ns: "ns = as @ node # bs" using assms(2) by (metis split_list)
  then have "nn_Name node \<notin> nn_Name ` set bs" using assms(1) by auto
  then show "gm_get 0 (np_satisfiedMap (fold (put_node E nt nodes ss ds) ns st)) (nn_Name node) = of_nat (node_kept E nt nodes ss ds node)"
    and "gm_get 0 (np_violatedMap (fold (put_node E nt nodes ss ds) ns st)) (nn_Name node) = of_nat (node_broken E nt nodes ss ds node)"
    and "gm_get 0 (np_finalCostMap (fold (put_node E nt nodes ss ds) ns st)) (nn_Name node) = node_cost E nt nodes ss ds node"
    using keep by (simp_all add: ns put_node_def)
qed

lemma for_each_Some: "(\<And>x s. x \<in> set xs \<Longrightarrow> f (Some x) s = Ret (Inr (g x s))) \<Longrightarrow> for_each f (map Some xs) s = Ret (Inr (fold g xs s))"
  by (induction xs arbitrary: s) simp_all

end
