(* ===== verification/Network_Properties.thy ===== *)
theory Network_Properties
  imports Network_Overhead Queue_Sorts
begin

text \<open>
  The properties of the network-aware plugins: what PreFilter, Filter and Score compute
  together, over the topology as it is listed.
\<close>

text \<open>C22: For a pod whose group, topology and dependencies are known, PreFilter succeeds; Filter then
  lets a node pass exactly when no more dependencies on allocated pods are broken than kept
  there, and Score is the sum of their costs.  The costs are those a scan of the topology
  finds, although the code sorts the lists and searches them by halving.\<close>

theorem network_filter_score:
  assumes "GetPodAppGroupLabel pod = agName" "agName \<noteq> ''''"
    and "findAppGroupNetworkOverhead E (no_namespaces E) agName = Some appGroup"
    and "findNetworkTopologyNetworkOverhead E (no_namespaces E) = Some nt" "searchable E nt"
    and "GetDependencyList pod (Some appGroup) = Ret ds" "ds \<noteq> []"
    and "no_ListPods E AppGroupLabel agName = Inr pods" "GetScheduledList pods = ss" "ss \<noteq> []" "hosts_known E nodes ss"
    and "no_NodeInfos E = Inr (map Some ns)" "distinct (map nn_Name ns)" "node \<in> set ns" "length (dep_pairs ss ds) < 2 ^ 63"
  shows "\<exists>st. net_PreFilter E pod = Ret (NewStatus Success ''PreFilter State updated'', st)
    \<and> (net_Filter (Some st) (Some node) = None \<longleftrightarrow> node_broken E nt nodes ss ds node \<le> node_kept E nt nodes ss ds node)
    \<and> fst (net_Score (Some st) (nn_Name node)) = node_cost E nt nodes ss ds node"
proof -
  let ?init = "equal_state\<lparr>np_scoreEqually := False, np_agName := agName, np_appGroup := Some appGroup,
    np_networkTopology := Some (sorted_topology E nt), np_dependencyList := ds, np_scheduledList := ss\<rparr>"
  let ?st = "fold (put_node E nt nodes ss ds) ns ?init"
  have loop: "for_each (net_node_step E (Some (sorted_topology E nt)) ss ds) (map Some ns) ?init = Ret (Inr ?st)"
    by (rule for_each_Some) (rule net_node_step_put [OF assms(5,11)])
  have ps: "pods \<noteq> []" using assms(9,10) by (auto simp: GetScheduledList_def)
  have pf: "net_PreFilter E pod = Ret (NewStatus Success ''PreFilter State updated'', ?st)"
    using assms(1-4,6-10,12) ps loop by (simp add: net_PreFilter_def Let_def sortNetworkTopologyCosts_Some)
  have small: "n \<le> length (dep_pairs ss ds) \<Longrightarrow> sint (of_nat n :: i64) = int n" for n
    using assms(15) sint_sbintrunc' [where 'a = 64, of "int n"] by (simp add: signed_take_bit_int_eq_self)
  have "sint (of_nat (node_kept E nt nodes ss ds node) :: i64) = int (node_kept E nt nodes ss ds node)"
    "sint (of_nat (node_broken E nt nodes ss ds node) :: i64) = int (node_broken E nt nodes ss ds node)"
    by (rule small, simp add: node_kept_def node_broken_def)+
  then show ?thesis
    using pf fold_put_node [OF assms(13,14), of E nt nodes ss ds ?init]
    by (auto simp: net_Filter_def net_Score_def net_getPreFilterState_def NewStatus_def equal_state_def)
qed

definition place :: "string \<Rightarrow> string \<Rightarrow> string \<Rightarrow> net_node" where
  "place n r z = \<lparr>nn_Name = n, nn_Labels = Some [(LabelTopologyRegion, r), (LabelTopologyZone, z)]\<rparr>"

definition topology_x :: NetworkTopology where
  "topology_x = \<lparr>nt_UID = ''t'', nt_Weights = [\<lparr>wi_Name = ''UserDefined'', wi_TopologyList =
     [\<lparr>ti_TopologyKey = LabelTopologyZone, ti_OriginList = [\<lparr>oi_Origin = ''z2'', oi_CostList = [\<lparr>ci_Destination = ''z1'', ci_NetworkCost = 5\<rparr>]\<rparr>,
        \<lparr>oi_Origin = ''z1'', oi_CostList = [\<lparr>ci_Destination = ''z2'', ci_NetworkCost = 5\<rparr>]\<rparr>]\<rparr>,
      \<lparr>ti_TopologyKey = LabelTopologyRegion, ti_OriginList = []\<rparr>]\<rparr>]\<rparr>"

definition group_app :: AppGroup where
  "group_app = \<lparr>ag_UID = ''g'', ag_Workloads = [\<lparr>aw_Selector = ''p1'', aw_Dependencies = [\<lparr>dep_Selector = ''p2'', dep_MaxNetworkCost = 3\<rparr>]\<rparr>],
     ag_TopologyOrder = []\<rparr>"

definition app_pod :: "string \<Rightarrow> string \<Rightarrow> v1_Pod" where
  "app_pod sel n = zero_pod\<lparr>pod_Labels := [(AppGroupLabel, ''app''), (AppGroupSelectorLabel, sel)], pod_NodeName := n\<rparr>"

definition net_x :: net_env where
  "net_x = \<lparr>no_namespaces = [''default''], no_weightsName = ''UserDefined'', no_ntName = ''nt'',
     no_GetAppGroup = (\<lambda>ns n. Inr group_app), no_GetTopology = (\<lambda>ns n. Inr topology_x),
     no_ListPods = (\<lambda>k v. Inr [app_pod ''p2'' ''n2'']),
     no_NodeInfos = Inr (map Some [place ''n1'' ''r'' ''z1'', place ''n2'' ''r'' ''z2'']),
     no_GetNode = (\<lambda>n. Inr (Some (place n ''r'' ''z2''))),
     no_sortTopologies = sort_by ti_TopologyKey, no_sortOrigins = sort_by oi_Origin\<rparr>"

lemma searchable_x: "searchable net_x topology_x"
  using sb.name_sort_axioms [where key = ti_TopologyKey] sb.name_sort_axioms [where key = oi_Origin]
  by (simp add: searchable_def net_x_def topology_wf_def topology_x_def NetperfCosts_def LabelTopologyZone_def LabelTopologyRegion_def)

definition deps_x :: "DependenciesInfo list" where
  "deps_x = [\<lparr>dep_Selector = ''p2'', dep_MaxNetworkCost = 3\<rparr>]"

definition sched_x :: "ScheduledInfo list" where
  "sched_x = [\<lparr>si_Name = '''', si_Selector = ''p2'', si_ReplicaID = '''', si_Hostname = ''n2''\<rparr>]"

lemma counts_x: "node_broken net_x topology_x (\<lambda>n. place n ''r'' ''z2'') sched_x deps_x (place ''n1'' ''r'' ''z1'') = 1"
    "node_kept net_x topology_x (\<lambda>n. place n ''r'' ''z2'') sched_x deps_x (place ''n1'' ''r'' ''z1'') = 0"
    "node_cost net_x topology_x (\<lambda>n. place n ''r'' ''z2'') sched_x deps_x (place ''n1'' ''r'' ''z1'') = 5"
  by code_simp+

theorem network_filter_score_witness:
  "\<exists>st. net_PreFilter net_x (app_pod ''p1'' '''') = Ret (NewStatus Success ''PreFilter State updated'', st)
    \<and> net_Filter (Some st) (Some (place ''n1'' ''r'' ''z1'')) \<noteq> None \<and> fst (net_Score (Some st) ''n1'') = 5"
proof -
  have "\<exists>st. net_PreFilter net_x (app_pod ''p1'' '''') = Ret (NewStatus Success ''PreFilter State updated'', st)
    \<and> (net_Filter (Some st) (Some (place ''n1'' ''r'' ''z1'')) = None \<longleftrightarrow>
        node_broken net_x topology_x (\<lambda>n. place n ''r'' ''z2'') sched_x deps_x (place ''n1'' ''r'' ''z1'')
          \<le> node_kept net_x topology_x (\<lambda>n. place n ''r'' ''z2'') sched_x deps_x (place ''n1'' ''r'' ''z1''))
    \<and> fst (net_Score (Some st) (nn_Name (place ''n1'' ''r'' ''z1''))) =
        node_cost net_x topology_x (\<lambda>n. place n ''r'' ''z2'') sched_x deps_x (place ''n1'' ''r'' ''z1'')"
    by (rule network_filter_score [where agName = "''app''" and appGroup = group_app and pods = "[app_pod ''p2'' ''n2'']"
          and ns = "[place ''n1'' ''r'' ''z1'', place ''n2'' ''r'' ''z2'']", OF _ _ _ _ searchable_x])
       (simp_all add: net_x_def app_pod_def GetPodAppGroupLabel_def group_app_def topology_x_def GetDependencyList_def deps_x_def
          AppGroupLabel_def AppGroupSelectorLabel_def GetScheduledList_def sched_x_def GetPodAppGroupSelector_def zero_pod_def
          hosts_known_def place_def dep_pairs_def)
  then show ?thesis by (simp add: counts_x) (simp add: place_def)
qed

section \<open>Normalized scores\<close>

lemma getMinMaxScores_hi_lo:
  assumes "scores \<noteq> []" "getMinMaxScores scores = (l, h)"
  shows "sint l = lo scores \<and> sint h = hi scores"
proof -
  let ?S = "set (map (sint \<circ> snd) scores)"
  have S: "finite ?S" "?S \<noteq> {}" using assms(1) by simp_all
  have m: "sint (- 9223372036854775808 :: i64) = - 9223372036854775808" "sint (9223372036854775807 :: i64) = 9223372036854775807"
    by simp_all
  have "- 9223372036854775808 \<le> sint s \<and> sint s \<le> 9223372036854775807" for s :: i64 using sint_range64 [of s] by simp
  then have b: "- 9223372036854775808 \<le> x \<and> x \<le> 9223372036854775807" if "x \<in> ?S" for x using that by auto
  have "Max (insert (- 9223372036854775808) ?S) = Max ?S"
    using Max_insert [OF S] max_absorb2 [OF b [OF Max_in [OF S], THEN conjunct1]] by (rule trans)
  moreover have "Min (insert 9223372036854775807 ?S) = Min ?S"
    using Min_insert [OF S] min_absorb2 [OF b [OF Min_in [OF S], THEN conjunct2]] by (rule trans)
  moreover have f: "fold (\<lambda>(n, s) (mx, mn). (if sint s > sint mx then s else mx, if sint s < sint mn then s else mn)) scores
             (- 9223372036854775808, 9223372036854775807) = (h, l)"
    using assms(2) by (simp add: getMinMaxScores_def split: prod.splits)
  ultimately show ?thesis using fold_highest_lowest [OF f] by (simp only: m hi_def lo_def)
qed

definition norm_cost :: "int \<Rightarrow> int \<Rightarrow> int \<Rightarrow> int" where
  "norm_cost l h x = 100 - \<lfloor>f64 (of_int ((x - l) * 100) / of_int (h - l))\<rfloor>"

lemma norm_cost_laws:
  assumes "l < h"
  shows "norm_cost l h l = 100" "norm_cost l h h = 0" "x \<le> y \<Longrightarrow> norm_cost l h y \<le> norm_cost l h x"
proof -
  show "norm_cost l h l = 100" by (simp add: norm_cost_def)
  have "of_int ((h - l) * 100) / of_int (h - l) = rat_of_int 100" using assms by (simp add: field_simps)
  then show "norm_cost l h h = 0" using f64_int [of 100] by (simp only: norm_cost_def) simp
  show "norm_cost l h y \<le> norm_cost l h x" if "x \<le> y"
  proof -
    have "rat_of_int ((x - l) * 100) / of_int (h - l) \<le> of_int ((y - l) * 100) / of_int (h - l)"
      using that assms by (intro divide_right_mono) (simp_all only: of_int_le_iff of_int_0_le_iff, simp_all)
    then show ?thesis unfolding norm_cost_def by (intro diff_left_mono floor_mono f64_mono)
  qed
qed

lemma norm_entry:
  assumes "l \<le> sint s" "sint s \<le> h" "l < h" "h - l < 2 ^ 46" "sint lw = l" "sint hw = h"
  shows "sint (100 - int64_of_f64 (f64_div (f64_mult 100 (f64_of_int (s - lw))) (f64_of_int (hw - lw)))) = norm_cost l h (sint s)"
proof -
  have d: "sint (s - lw) = sint s - l" "sint (hw - lw) = h - l" using assms by (simp_all add: sint_diff_fits)
  have f: "f64_of_int (s - lw) = of_int (sint s - l)" "f64_of_int (hw - lw) = of_int (h - l)"
    using assms f64_int [of "sint s - l"] f64_int [of "h - l"] by (simp_all add: f64_of_int_def d)
  have "f64_mult 100 (of_int (sint s - l)) = f64 (of_int ((sint s - l) * 100))" by (simp add: f64_mult_def mult.commute)
  also have "\<dots> = of_int ((sint s - l) * 100)" using assms by (intro f64_int) simp
  finally have n: "f64_div (f64_mult 100 (f64_of_int (s - lw))) (f64_of_int (hw - lw)) = f64 (of_int ((sint s - l) * 100) / of_int (h - l))"
    by (simp only: f f64_div_def)
  let ?q = "f64 (of_int ((sint s - l) * 100) / of_int (h - l))"
  have r: "0 \<le> norm_cost l h (sint s)" "norm_cost l h (sint s) \<le> 100"
    using norm_cost_laws(3) [OF assms(3), of "sint s" h] norm_cost_laws(3) [OF assms(3), of l "sint s"] norm_cost_laws(1,2) [OF assms(3)] assms(1,2) by simp_all
  have "0 \<le> rat_of_int ((sint s - l) * 100) / of_int (h - l)"
    using assms(1,3) by (intro divide_nonneg_nonneg) (simp_all only: of_int_0_le_iff, simp_all)
  then have "0 \<le> ?q" using f64_mono [of 0] by (simp only: f64_0)
  then have "100 - int64_of_f64 ?q = word_of_int (norm_cost l h (sint s))" by (simp add: int64_of_f64_def norm_cost_def)
  then show ?thesis using r by (simp only: n) (simp add: sint_fits)
qed

text \<open>Normalization turns costs around: the cheapest node gets 100, the dearest 0 (unless all cost
  the same), a dearer node never gets more than a cheaper one, and so every score is between
  0 and 100.  This holds with the rounding of float64 as long as the costs differ by less
  than 2 to the 46.\<close>

theorem network_normalize:
  assumes "hi scores - lo scores < 2 ^ 46" "\<not> (hi scores = 0 \<and> lo scores = 0)" "scores \<noteq> []"
  shows "\<exists>g. map (sint \<circ> snd) (net_NormalizeScore scores) = map (g \<circ> sint \<circ> snd) scores
    \<and> map fst (net_NormalizeScore scores) = map fst scores
    \<and> g (lo scores) = 100 \<and> (lo scores < hi scores \<longrightarrow> g (hi scores) = 0)
    \<and> (\<forall>x y. lo scores \<le> x \<and> x \<le> y \<and> y \<le> hi scores \<longrightarrow> g y \<le> g x)"
proof -
  obtain l h where lh: "getMinMaxScores scores = (l, h)" by (cases "getMinMaxScores scores")
  have m: "sint l = lo scores" "sint h = hi scores" using getMinMaxScores_hi_lo [OF assms(3) lh] by simp_all
  have nz: "\<not> (l = 0 \<and> h = 0)" using assms(2) m by auto
  have fst: "map fst (net_NormalizeScore scores) = map fst scores"
    by (simp add: net_NormalizeScore_def lh case_prod_beta comp_def)
  show ?thesis
  proof (cases "lo scores < hi scores")
    case True
    then have "h \<noteq> l" using m by auto
    then have "map (sint \<circ> snd) (net_NormalizeScore scores) = map (norm_cost (lo scores) (hi scores) \<circ> sint \<circ> snd) scores"
      using nz norm_entry [of "lo scores" _ "hi scores" l h] True assms(1) m hi_lo by (auto simp: net_NormalizeScore_def lh Let_def)
    then show ?thesis using fst norm_cost_laws [OF True] by (intro exI [of _ "norm_cost (lo scores) (hi scores)"]) simp
  next
    case False
    then have same: "sint s = lo scores" "lo scores = hi scores" if "(n, s) \<in> set scores" for n s
      using hi_lo [OF that] by simp_all
    obtain n s where "(n, s) \<in> set scores" using assms(3) by (cases scores) auto
    then have eq: "h = l" using same(2) m sint_inj [of h l] by simp
    have "s = l" if "(n, s) \<in> set scores" for n s using same(1) [OF that] m sint_inj [of s l] by simp
    then have "map (sint \<circ> snd) (net_NormalizeScore scores) = map ((\<lambda>_. 100) \<circ> sint \<circ> snd) scores"
      using nz by (auto simp: net_NormalizeScore_def lh eq Let_def f64_of_int_def int64_of_f64_def)
    then show ?thesis using fst False by (intro exI [of _ "\<lambda>_. 100"]) simp
  qed
qed

theorem network_normalize_witness:
  "\<exists>g. map (sint \<circ> snd) (net_NormalizeScore [(''a'', 3), (''b'', 10)]) = map (g \<circ> sint \<circ> snd) [(''a'', 3 :: i64), (''b'', 10)]
    \<and> g 3 = 100 \<and> g 10 = 0"
proof -
  let ?s = "[(''a'', 3), (''b'', 10)] :: (string \<times> i64) list"
  have m: "hi ?s = 10" "lo ?s = 3" by (simp_all add: hi_def lo_def)
  have "\<exists>g. map (sint \<circ> snd) (net_NormalizeScore ?s) = map (g \<circ> sint \<circ> snd) ?s
    \<and> map fst (net_NormalizeScore ?s) = map fst ?s
    \<and> g (lo ?s) = 100 \<and> (lo ?s < hi ?s \<longrightarrow> g (hi ?s) = 0)
    \<and> (\<forall>x y. lo ?s \<le> x \<and> x \<le> y \<and> y \<le> hi ?s \<longrightarrow> g y \<le> g x)"
    by (rule network_normalize) (simp_all add: m)
  then show ?thesis by (simp only: m) auto
qed

section \<open>Queue order\<close>

text \<open>For two pods of one application group whose topological order is listed by selector, the
  queue order compares their places in the list; a workload that is not listed comes first.
  The halving search finds what a scan finds.\<close>

theorem topological_order:
  assumes "GetPodAppGroupLabel (qp_Pod p) = a" "GetPodAppGroupLabel (qp_Pod q) = a" "a \<noteq> ''''"
    and "findAppGroupTopologicalSort get namespaces a = Some g"
    and "sorted_by at_Selector (ag_TopologyOrder g)" "distinct (map at_Selector (ag_TopologyOrder g))"
  shows "ts_Less get namespaces p q = Ret (sint (listed_order g (qp_Pod p)) \<le> sint (listed_order g (qp_Pod q)))"
  by (rule ts_Less_listed [OF assms])

definition ordered_group :: AppGroup where
  "ordered_group = \<lparr>ag_UID = ''g'', ag_Workloads = [], ag_TopologyOrder =
     [\<lparr>at_Selector = ''p1'', at_Index = 2\<rparr>, \<lparr>at_Selector = ''p2'', at_Index = 1\<rparr>]\<rparr>"

definition queued_app :: "string \<Rightarrow> QueuedPodInfo" where
  "queued_app sel = \<lparr>qp_Pod = app_pod sel '''', qp_Timestamp = 0, qp_InitialAttemptTimestamp = None\<rparr>"

theorem topological_order_witness:
  "ts_Less (\<lambda>ns n. Inr ordered_group) [''default''] (queued_app ''p1'') (queued_app ''p2'') = Ret False"
proof -
  have "ts_Less (\<lambda>ns n. Inr ordered_group) [''default''] (queued_app ''p1'') (queued_app ''p2'') =
    Ret (sint (listed_order ordered_group (qp_Pod (queued_app ''p1''))) \<le> sint (listed_order ordered_group (qp_Pod (queued_app ''p2''))))"
    by (rule topological_order [where a = "''app''"])
       (simp_all add: queued_app_def app_pod_def GetPodAppGroupLabel_def ordered_group_def sorted_by_def)
  then show ?thesis
    by (simp add: listed_order_def queued_app_def app_pod_def GetPodAppGroupSelector_def AppGroupSelectorLabel_def AppGroupLabel_def ordered_group_def)
qed

end
