(* ===== verification/Sysched.thy ===== *)
theory Sysched
  imports Plugin_Args
begin

text \<open>
  The SySched plugin, \<^verbatim>\<open>pkg/sysched/sysched.go\<close>: it keeps, from the events of the pods, the pods
  of every host and the union of their system calls, and scores a host by the system calls that
  its pods would see beyond their own profiles.

  The profiles are read from the API server: \<open>spo\<close> gives, for namespace and name, the categories
  of a seccomp profile, each an action with names of system calls, or an error.  A set of system
  calls is a HOL set; all sets here are finite.  A pod carries, beside the fields of \<open>v1_Pod\<close>, its
  security contexts and its host address.
\<close>

section \<open>Objects\<close>

record SeccompProfile =
  sec_Type :: string
  sec_LocalhostProfile :: "string option"

text \<open>The security context of the pod, those of its containers in order, each nil or with a profile
  that may be nil, and the address of the host.\<close>

record sys_Pod = v1_Pod +
  syp_SecurityContext :: "SeccompProfile option option"
  syp_ContainerContexts :: "SeccompProfile option option list"
  syp_HostIP :: string

type_synonym spo_client = "string \<Rightarrow> string \<Rightarrow> goerror + (string \<times> string list) list"

record SySched =
  sy_HostToPods :: "(string, sys_Pod list) gomap"
  sy_HostSyscalls :: "(string, string set) gomap"
  sy_ExSAvg :: rat
  sy_ExSAvgCount :: i64
  sy_DefaultProfileNamespace :: string
  sy_DefaultProfileName :: string

section \<open>Profiles\<close>

definition SPO_ANNOTATION :: string where
  "SPO_ANNOTATION = ''seccomp.security.alpha.kubernetes.io''"

text \<open>\<^verbatim>\<open>path.Ext\<close> and \<^verbatim>\<open>strings.TrimSuffix\<close>.\<close>

definition path_Ext :: "string \<Rightarrow> string" where
  "path_Ext p = (let r = rev p; b = takeWhile (\<lambda>c. c \<noteq> CHR ''/'' \<and> c \<noteq> CHR ''.'') r in
     if length b < length r \<and> r ! length b = CHR ''.'' then rev (take (Suc (length b)) r) else '''')"

definition TrimSuffix :: "string \<Rightarrow> string \<Rightarrow> string" where
  "TrimSuffix s suff = (if suffix suff s then take (length s - length suff) s else s)"

definition parseNameNS :: "string \<Rightarrow> string \<times> string" where
  "parseNameNS profilePath =
     (if profilePath = '''' then ('''', '''')
      else let parts = split_at (CHR ''/'') profilePath in
        if length parts < 2 then ('''', '''')
        else let ns = parts ! (length parts - 2);
                 name = TrimSuffix (parts ! (length parts - 1)) (path_Ext (parts ! (length parts - 1)))
             in (ns, name))"

definition readSPOProfileCR :: "spo_client \<Rightarrow> string \<Rightarrow> string \<Rightarrow> string set \<times> goerror option" where
  "readSPOProfileCR spo name namespace =
     (if name = '''' \<or> namespace = '''' then ({}, None)
      else (case spo namespace name of
              Inl err \<Rightarrow> ({}, Some err)
            | Inr syscallCategories \<Rightarrow>
                (fold (\<lambda>(action, names) syscalls.
                   if action = ''SCMP_ACT_ALLOW'' \<or> action = ''SCMP_ACT_LOG'' then syscalls \<union> set names else syscalls)
                  syscallCategories {}, None)))"

text \<open>One security context: the system calls of its local profile, joined to what was found before.
  An error leaves an empty set.\<close>

definition context_syscalls :: "spo_client \<Rightarrow> SeccompProfile option option \<Rightarrow> string set \<Rightarrow> string set" where
  "context_syscalls spo context_SC r =
     (case context_SC of
        Some (Some prof) \<Rightarrow>
          if sec_Type prof = ''Localhost'' then
            (case sec_LocalhostProfile prof of
               None \<Rightarrow> r
             | Some profilePath \<Rightarrow>
                 (case parseNameNS profilePath of (ns, name) \<Rightarrow>
                    if length ns > 0 \<and> length name > 0
                    then (case readSPOProfileCR spo name ns of (syscalls, err) \<Rightarrow> if syscalls \<noteq> {} then r \<union> syscalls else r)
                    else r))
          else r
      | _ \<Rightarrow> r)"

fun annotation_syscalls :: "spo_client \<Rightarrow> (string, string) gomap \<Rightarrow> string set \<Rightarrow> string set" where
  "annotation_syscalls spo [] r = r"
| "annotation_syscalls spo ((k, v) # rest) r =
     (if contains k SPO_ANNOTATION then
        (case parseNameNS v of (ns, name) \<Rightarrow>
           if length ns > 0 \<and> length name > 0 then
             (case readSPOProfileCR spo name ns of
                (syscalls, Some err) \<Rightarrow> annotation_syscalls spo rest r
              | (syscalls, None) \<Rightarrow> if syscalls \<noteq> {} then r \<union> syscalls else r)
           else r)
      else annotation_syscalls spo rest r)"

definition getSyscalls :: "spo_client \<Rightarrow> SySched \<Rightarrow> sys_Pod \<Rightarrow> string set" where
  "getSyscalls spo sc pod =
     (let r1 = context_syscalls spo (syp_SecurityContext pod) {};
          r2 = fold (context_syscalls spo) (syp_ContainerContexts pod) r1;
          r3 = (case pod_Annotations pod of None \<Rightarrow> r2 | Some a \<Rightarrow> annotation_syscalls spo a r2)
      in if r3 = {} then
           (case readSPOProfileCR spo (sy_DefaultProfileName sc) (sy_DefaultProfileNamespace sc) of
              (syscalls, err) \<Rightarrow> if syscalls \<noteq> {} then r3 \<union> syscalls else r3)
         else r3)"

section \<open>Score\<close>

definition calcScore :: "string set \<Rightarrow> i64" where
  "calcScore syscalls =
     (let totCrit = 0; W = 1; score = of_nat (card syscalls) - totCrit in score + W * totCrit)"

definition getHostSyscalls :: "SySched \<Rightarrow> string \<Rightarrow> i64 \<times> string set option" where
  "getHostSyscalls sc nodeName =
     (case map_of (sy_HostSyscalls sc) nodeName of
        None \<Rightarrow> (0, None)
      | Some h \<Rightarrow> (of_nat (card h), Some h))"

definition MaxInt64 :: i64 where
  "MaxInt64 = word_of_int (2 ^ 63 - 1)"

text \<open>\<open>get_node\<close> is the answer of the API server for the node: its name, or an error.\<close>

definition sys_Score :: "spo_client \<Rightarrow> (string \<Rightarrow> goerror + string) \<Rightarrow> sys_Pod \<Rightarrow> string \<Rightarrow> SySched \<Rightarrow> i64 \<times> SySched" where
  "sys_Score spo get_node pod nodeName sc =
     (case get_node nodeName of
        Inl err \<Rightarrow> (0, sc)
      | Inr node \<Rightarrow>
          let podSyscalls = getSyscalls spo sc pod in
          if podSyscalls = {} then (MaxInt64, sc)
          else (case snd (getHostSyscalls sc node) of
                  None \<Rightarrow> (0, sc)
                | Some hostSyscalls \<Rightarrow>
                    let newHostSyscalls = hostSyscalls \<union> podSyscalls;
                        totalDiffs = fold (\<lambda>p total. total + calcScore (newHostSyscalls - getSyscalls spo sc p))
                          (gm_get [] (sy_HostToPods sc) node) (calcScore (hostSyscalls - podSyscalls));
                        avg = f64_add (sy_ExSAvg sc)
                          (f64_div (f64_sub (f64_of_int totalDiffs) (sy_ExSAvg sc)) (f64_of_int (sy_ExSAvgCount sc)))
                    in (totalDiffs, sc\<lparr>sy_ExSAvg := avg, sy_ExSAvgCount := sy_ExSAvgCount sc + 1\<rparr>)))"

definition DefaultNormalizeScore :: "i64 \<Rightarrow> bool \<Rightarrow> (string \<times> i64) list \<Rightarrow> (string \<times> i64) list" where
  "DefaultNormalizeScore maxPriority reverse scores =
     (let maxCount = fold (\<lambda>(n, s) mx. if sint mx < sint s then s else mx) scores 0 in
      if maxCount = 0 then (if reverse then map (\<lambda>(n, s). (n, maxPriority)) scores else scores)
      else map (\<lambda>(n, s). (n, let score = div64 (maxPriority * s) maxCount in if reverse then maxPriority - score else score)) scores)"

definition sys_NormalizeScore :: "(string \<times> i64) list \<Rightarrow> (string \<times> i64) list" where
  "sys_NormalizeScore scores = DefaultNormalizeScore MaxNodeScore True scores"

section \<open>Events\<close>

text \<open>\<^verbatim>\<open>remove\<close>: the last pod takes the place of the removed one.\<close>

definition remove_at :: "'a list \<Rightarrow> nat \<Rightarrow> 'a list" where
  "remove_at s i = (if length s = 0 then [] else butlast (s[i := last s]))"

definition updateHostSyscalls :: "spo_client \<Rightarrow> sys_Pod \<Rightarrow> SySched \<Rightarrow> SySched" where
  "updateHostSyscalls spo pod sc =
     (let syscall = getSyscalls spo sc pod in
      sc\<lparr>sy_HostSyscalls := AList.update (pod_NodeName pod) (gm_get {} (sy_HostSyscalls sc) (pod_NodeName pod) \<union> syscall) (sy_HostSyscalls sc)\<rparr>)"

definition sys_addPod :: "spo_client \<Rightarrow> sys_Pod \<Rightarrow> SySched \<Rightarrow> SySched" where
  "sys_addPod spo pod sc =
     (let nodeName = pod_NodeName pod; name = pod_Name pod in
      case map_of (sy_HostToPods sc) nodeName of
        None \<Rightarrow> updateHostSyscalls spo pod
          (sc\<lparr>sy_HostToPods := AList.update nodeName [pod] (sy_HostToPods sc),
              sy_HostSyscalls := AList.update nodeName {} (sy_HostSyscalls sc)\<rparr>)
      | Some pods \<Rightarrow>
          if list_ex (\<lambda>p. pod_Name p = name) pods then sc
          else updateHostSyscalls spo pod (sc\<lparr>sy_HostToPods := AList.update nodeName (pods @ [pod]) (sy_HostToPods sc)\<rparr>))"

definition recomputeHostSyscalls :: "spo_client \<Rightarrow> SySched \<Rightarrow> sys_Pod list \<Rightarrow> string set" where
  "recomputeHostSyscalls spo sc pods = fold (\<lambda>p syscalls. syscalls \<union> getSyscalls spo sc p) pods {}"

fun index_of :: "string \<Rightarrow> nat \<Rightarrow> sys_Pod list \<Rightarrow> nat option" where
  "index_of name i [] = None"
| "index_of name i (p # ps) = (if pod_Name p = name then Some i else index_of name (Suc i) ps)"

definition sys_removePod :: "spo_client \<Rightarrow> sys_Pod \<Rightarrow> SySched \<Rightarrow> SySched" where
  "sys_removePod spo pod sc =
     (let nodeName = pod_NodeName pod in
      case map_of (sy_HostToPods sc) nodeName of
        None \<Rightarrow> sc
      | Some pods \<Rightarrow>
          (case index_of (pod_Name pod) 0 pods of
             None \<Rightarrow> sc
           | Some i \<Rightarrow>
               let pods' = remove_at pods i in
               sc\<lparr>sy_HostToPods := AList.update nodeName pods' (sy_HostToPods sc),
                   sy_HostSyscalls := AList.update nodeName (recomputeHostSyscalls spo sc pods') (sy_HostSyscalls sc)\<rparr>))"

text \<open>An informer gives a pod, or for a deletion it missed a tombstone; the handlers assert the type.\<close>

datatype informer_object = PodObject sys_Pod | DeletedFinalStateUnknown

abbreviation interface_conversion :: string where
  "interface_conversion \<equiv> ''interface conversion''"

definition podAdded :: "spo_client \<Rightarrow> informer_object \<Rightarrow> SySched \<Rightarrow> SySched outcome" where
  "podAdded spo obj sc = (case obj of
     PodObject pod \<Rightarrow> Ret (if pod_Phase pod = ''Running'' then sys_addPod spo pod sc else sc)
   | DeletedFinalStateUnknown \<Rightarrow> Panic interface_conversion)"

definition podUpdated :: "spo_client \<Rightarrow> informer_object \<Rightarrow> informer_object \<Rightarrow> SySched \<Rightarrow> SySched outcome" where
  "podUpdated spo old new sc = (case old of
     PodObject pod \<Rightarrow> Ret (if pod_Phase pod = ''Pending'' \<and> syp_HostIP pod \<noteq> '''' then sys_addPod spo pod sc else sc)
   | DeletedFinalStateUnknown \<Rightarrow> Panic interface_conversion)"

definition podDeleted :: "spo_client \<Rightarrow> informer_object \<Rightarrow> SySched \<Rightarrow> SySched outcome" where
  "podDeleted spo obj sc = (case obj of
     PodObject pod \<Rightarrow> Ret (sys_removePod spo pod sc)
   | DeletedFinalStateUnknown \<Rightarrow> Panic interface_conversion)"

section \<open>Construction\<close>

definition sys_getArgs :: "config_object \<Rightarrow> goerror + SySchedArgs" where
  "sys_getArgs obj = (case obj of
     C_SySched args \<Rightarrow> Inr args
   | _ \<Rightarrow> Inl ''want args to be of type SySchedArgs'')"

definition sys_New :: "config_object \<Rightarrow> goerror option \<Rightarrow> goerror + SySched" where
  "sys_New obj clientError = (case sys_getArgs obj of
     Inl err \<Rightarrow> Inl err
   | Inr args \<Rightarrow>
       (case clientError of
          Some err \<Rightarrow> Inl err
        | None \<Rightarrow> Inr \<lparr>sy_HostToPods = [], sy_HostSyscalls = [], sy_ExSAvg = 0, sy_ExSAvgCount = 1,
            sy_DefaultProfileNamespace = isy_DefaultProfileNamespace args, sy_DefaultProfileName = isy_DefaultProfileName args\<rparr>))"

end
