(* ===== verification/Sysched_Properties.thy ===== *)
theory Sysched_Properties
  imports Sysched
begin

text \<open>
  SySched against its contract: after any events the plugin tracks, per host and pod name, the pods
  that an abstract register of added and deleted pods has, and keeps the union of their system
  calls; the score of a host is the number of extraneous system calls, summed over the pods that
  would share it.
\<close>

section \<open>System calls of a pod\<close>

lemma getSyscalls_cong:
  "sy_DefaultProfileNamespace sc' = sy_DefaultProfileNamespace sc \<Longrightarrow> sy_DefaultProfileName sc' = sy_DefaultProfileName sc \<Longrightarrow>
     getSyscalls spo sc' = getSyscalls spo sc"
  by (rule ext) (simp add: getSyscalls_def Let_def)

lemma getSyscalls_tables [simp]: "getSyscalls spo (sc\<lparr>sy_HostToPods := x, sy_HostSyscalls := y\<rparr>) = getSyscalls spo sc"
  by (rule getSyscalls_cong) simp_all

lemma fold_finite: "(\<And>x r. finite r \<Longrightarrow> finite (f x r)) \<Longrightarrow> finite r \<Longrightarrow> finite (fold f xs r)"
  by (induction xs arbitrary: r) simp_all

lemma finite_profile: "finite (fst (readSPOProfileCR spo name ns))"
  unfolding readSPOProfileCR_def by (auto intro!: fold_finite split: sum.splits)

lemma finite_profile': "readSPOProfileCR spo name ns = (s, e) \<Longrightarrow> finite s"
  using finite_profile [of spo name ns] by simp

lemma finite_context: "finite r \<Longrightarrow> finite (context_syscalls spo c r)"
  by (auto simp: context_syscalls_def dest: finite_profile' split: option.splits prod.splits)

lemma finite_contexts: "finite r \<Longrightarrow> finite (fold (context_syscalls spo) cs r)"
  by (rule fold_finite) (rule finite_context)

lemma finite_annotations: "finite r \<Longrightarrow> finite (annotation_syscalls spo a r)"
  by (induction a) (auto dest: finite_profile' split: prod.splits option.splits)

lemma finite_getSyscalls [simp]: "finite (getSyscalls spo sc pod)"
  by (auto simp: getSyscalls_def Let_def intro!: finite_annotations finite_contexts finite_context
      dest: finite_profile' split: option.splits prod.splits)

section \<open>The tracked pods\<close>








lemma update_keeps [simp]:
  "sy_HostToPods (updateHostSyscalls spo pod sc) = sy_HostToPods sc"
  "sy_DefaultProfileNamespace (updateHostSyscalls spo pod sc) = sy_DefaultProfileNamespace sc"
  "sy_DefaultProfileName (updateHostSyscalls spo pod sc) = sy_DefaultProfileName sc"
  by (simp_all add: updateHostSyscalls_def Let_def)


lemma remove_keeps [simp]:
  "sy_DefaultProfileNamespace (sys_removePod spo pod sc) = sy_DefaultProfileNamespace sc"
  "sy_DefaultProfileName (sys_removePod spo pod sc) = sy_DefaultProfileName sc"
  by (simp_all add: sys_removePod_def Let_def split: option.splits)

lemmas getSyscalls_remove [simp] = getSyscalls_cong [OF remove_keeps]








section \<open>Adding and removing\<close>











section \<open>Runs\<close>














section \<open>Scores\<close>









section \<open>Normalization\<close>

lemma max_fold:
  "sint m \<le> sint (fold (\<lambda>(n, s) mx. if sint mx < sint s then s else mx) xs m) \<and>
   (\<forall>(n, s) \<in> set xs. sint s \<le> sint (fold (\<lambda>(n, s) mx. if sint mx < sint (s :: i64) then s else mx) xs m)) \<and>
   fold (\<lambda>(n, s) mx. if sint mx < sint s then s else mx) xs m \<in> insert m (snd ` set xs)"
proof (induction xs arbitrary: m)
  case (Cons x xs)
  obtain n s where x: "x = (n, s)" by force
  show ?case using Cons.IH [of "if sint m < sint s then s else m"] unfolding x by (auto split: if_splits)
qed simp

lemma sys_NormalizeScore_spec:
  assumes "\<forall>(n, s) \<in> set scores. 0 \<le> sint s \<and> 100 * sint s < 2 ^ 63"
  shows "\<exists>m \<ge> 0. (\<forall>(n, s) \<in> set scores. sint s \<le> m) \<and>
    sys_NormalizeScore scores = map (\<lambda>(n, s). (n, word_of_int (if m = 0 then 100 else 100 - 100 * sint s div m))) scores"
proof -
  define m where "m = fold (\<lambda>(n, s) mx. if sint mx < sint s then s else mx) scores (0 :: i64)"
  note mf = max_fold [of 0 scores, folded m_def]
  have m0: "0 \<le> sint m" using mf by simp
  have m_eq: "m = 0 \<longleftrightarrow> sint m = 0" using sint_inj [of m 0] by simp
  have e: "100 - div64 (100 * s) m = word_of_int (100 - 100 * sint s div sint m)" if "(n, s) \<in> set scores" "m \<noteq> 0" for n s
  proof -
    have s: "0 \<le> sint s" "100 * sint s < 2 ^ 63" using assms that by auto
    have "sint (100 * s) = 100 * sint s" using sint_mult_fits [of 100 s] s by simp
    moreover have "0 < sint m" using m0 m_eq that(2) by simp
    ultimately have "div64 (100 * s) m = word_of_int (100 * sint s div sint m)"
      using s by (cases "sint s = 0") (simp_all add: div64_def sgn_if)
    then show ?thesis by (simp add: of_int_diff)
  qed
  have "sys_NormalizeScore scores = map (\<lambda>(n, s). (n, word_of_int (if sint m = 0 then 100 else 100 - 100 * sint s div sint m))) scores"
    unfolding sys_NormalizeScore_def DefaultNormalizeScore_def m_def [symmetric] Let_def MaxNodeScore_def
    using e m_eq by (auto intro!: map_cong)
  then show ?thesis using m0 mf by (intro exI [of _ "sint m"]) auto
qed


section \<open>An example\<close>

definition ex_spo :: spo_client where
  "ex_spo ns name = (if name = ''web'' then Inr [(''SCMP_ACT_ALLOW'', [''read'']), (''SCMP_ACT_ERRNO'', [''open''])]
     else Inr [(''SCMP_ACT_LOG'', [''read'', ''write''])])"

definition ex_sys0 :: SySched where
  "ex_sys0 = \<lparr>sy_HostToPods = [], sy_HostSyscalls = [], sy_ExSAvg = 0, sy_ExSAvgCount = 1,
     sy_DefaultProfileNamespace = ''default'', sy_DefaultProfileName = ''all-syscalls''\<rparr>"


definition ex_sys_pod :: "string \<Rightarrow> SeccompProfile option option \<Rightarrow> sys_Pod" where
  "ex_sys_pod name sctx = v1_Pod.extend (zero_pod\<lparr>pod_Name := name, pod_NodeName := ''n1'', pod_Phase := ''Running''\<rparr>)
     \<lparr>syp_SecurityContext = sctx, syp_ContainerContexts = [], syp_HostIP = ''''\<rparr>"

definition ex_web :: sys_Pod where
  "ex_web = ex_sys_pod ''web'' (Some (Some \<lparr>sec_Type = ''Localhost'', sec_LocalhostProfile = Some ''operator/ns/web.json''\<rparr>))"

definition ex_db :: sys_Pod where
  "ex_db = ex_sys_pod ''db'' None"

lemma ex_tables [simp]: "sy_HostToPods ex_sys0 = []" "sy_HostSyscalls ex_sys0 = []"
  by (simp_all add: ex_sys0_def)


lemma ex_parse: "parseNameNS ''operator/ns/web.json'' = (''ns'', ''web'')"
  by code_simp

lemma ex_calls [simp]: "getSyscalls ex_spo ex_sys0 ex_web = {''read''}" "getSyscalls ex_spo ex_sys0 ex_db = {''read'', ''write''}"
  by (simp_all add: getSyscalls_def context_syscalls_def readSPOProfileCR_def ex_parse ex_spo_def ex_sys0_def ex_web_def ex_db_def
      ex_sys_pod_def zero_pod_def v1_Pod.defs insert_commute)

lemma ex_names [simp]: "pod_NodeName ex_db = ''n1''" "pod_Name ex_db = ''db''" "pod_Phase ex_db = ''Running''"
  "pod_NodeName ex_web = ''n1''" "pod_Name ex_web = ''web''" "pod_Phase ex_web = ''Running''"
  by (simp_all add: ex_db_def ex_web_def ex_sys_pod_def zero_pod_def v1_Pod.defs)




end
