(* ===== verification/Trimaran_Scores.thy ===== *)
theory Trimaran_Scores
  imports Trimaran_Handler
begin

text \<open>
  The load-aware scoring plugins TargetLoadPacking and LoadVariationRiskBalancing of
  \<^verbatim>\<open>pkg/trimaran\<close>, with the statistics they share (\<^verbatim>\<open>resourcestats.go\<close>).

  Metrics and float64 values are the rationals they stand for; every operation rounds.  The power
  function of LoadVariationRiskBalancing and the parser of the multiplier are parameters.  A node is
  what the snapshot says of it: capacity, allocatable resources and pods.
\<close>

section \<open>Numbers\<close>

text \<open>\<^verbatim>\<open>math.Round\<close>: to the nearest integer, halves away from zero.\<close>

definition math_Round :: "rat \<Rightarrow> rat" where
  "math_Round x = (if x < 0 then - of_int \<lfloor>- x + 1/2\<rfloor> else of_int \<lfloor>x + 1/2\<rfloor>)"

definition setMin :: "i64 \<Rightarrow> i64 \<Rightarrow> i64" where
  "setMin x y = (if sint y < sint x then y else x)"

definition setMax :: "i64 \<Rightarrow> i64 \<Rightarrow> i64" where
  "setMax x y = (if sint x < sint y then y else x)"

record load_node =
  ld_Capacity :: ResourceList
  ld_Allocatable :: ResourceList
  ld_Pods :: "v1_Pod list"

section \<open>Statistics\<close>

record ResourceStats =
  st_UsedAvg :: rat
  st_UsedStdev :: rat
  st_Req :: rat
  st_Capacity :: rat

definition MegaFactor :: rat where
  "MegaFactor = 1 / 1024 / 1024"

fun resource_data_loop :: "string \<Rightarrow> Metric list \<Rightarrow> bool \<Rightarrow> rat \<times> rat \<times> bool \<Rightarrow> rat \<times> rat \<times> bool" where
  "resource_data_loop resourceType [] avgFound res = res"
| "resource_data_loop resourceType (metric # ms) avgFound (avg, stDev, isValid) =
     (if mt_Type metric = resourceType then
        if mt_Operator metric = ''AVG'' then resource_data_loop resourceType ms True (mt_Value metric, stDev, True)
        else if mt_Operator metric = ''STD'' then resource_data_loop resourceType ms avgFound (avg, mt_Value metric, True)
        else if (mt_Operator metric = '''' \<or> mt_Operator metric = ''Latest'') \<and> \<not> avgFound
          then resource_data_loop resourceType ms avgFound (mt_Value metric, stDev, True)
        else resource_data_loop resourceType ms avgFound (avg, stDev, True)
      else resource_data_loop resourceType ms avgFound (avg, stDev, isValid))"

definition GetResourceData :: "Metric list \<Rightarrow> string \<Rightarrow> rat \<times> rat \<times> bool" where
  "GetResourceData metrics resourceType = resource_data_loop resourceType metrics False (0, 0, False)"

definition CreateResourceStats :: "Metric list \<Rightarrow> load_node \<Rightarrow> Resource \<Rightarrow> string \<Rightarrow> string \<Rightarrow> ResourceStats option" where
  "CreateResourceStats metrics node podRequest resourceName watcherType =
     (case GetResourceData metrics watcherType of (nodeUtil, nodeStd, metricFound) \<Rightarrow>
        if \<not> metricFound then None
        else let am = gm_get 0 (ld_Allocatable node) resourceName;
                 capacity = (if resourceName = ResourceCPU then f64_of_int (MilliValue am)
                             else f64_mult (f64_of_int (quantity_Value am)) MegaFactor);
                 req = (if resourceName = ResourceCPU then f64_of_int (r_MilliCPU podRequest)
                        else f64_mult (f64_of_int (r_Memory podRequest)) MegaFactor)
             in Some \<lparr>st_UsedAvg = f64_div (f64_mult nodeUtil capacity) 100,
                  st_UsedStdev = f64_div (f64_mult nodeStd capacity) 100, st_Req = req, st_Capacity = capacity\<rparr>)"

definition clamp01 :: "rat \<Rightarrow> rat" where
  "clamp01 x = max (min x 1) 0"

definition GetMuSigma :: "ResourceStats \<Rightarrow> rat \<times> rat" where
  "GetMuSigma rs =
     (if st_Capacity rs \<le> 0 then (0, 0)
      else (clamp01 (f64_div (f64_add (st_UsedAvg rs) (st_Req rs)) (st_Capacity rs)),
            clamp01 (f64_div (st_UsedStdev rs) (st_Capacity rs))))"

section \<open>Requests and limits\<close>

fun effective_max1 :: "string \<times> quantity \<Rightarrow> Resource \<Rightarrow> Resource" where
  "effective_max1 (rName, rQuantity) result =
     (if rName = ResourceCPU then result\<lparr>r_MilliCPU := setMax (r_MilliCPU result) (MilliValue rQuantity)\<rparr>
      else if rName = ResourceMemory then result\<lparr>r_Memory := setMax (r_Memory result) (quantity_Value rQuantity)\<rparr>
      else result)"

definition GetEffectiveResource :: "(Container \<Rightarrow> ResourceList) \<Rightarrow> v1_Pod \<Rightarrow> Resource" where
  "GetEffectiveResource fn pod =
     (let r1 = fold (\<lambda>container result. Resource_Add result (fn container)) (pod_Containers pod) zero_Resource;
          r2 = fold (\<lambda>container result. fold effective_max1 (fn container) result) (pod_InitContainers pod) r1
      in case pod_Overhead pod of None \<Rightarrow> r2 | Some overhead \<Rightarrow> Resource_Add r2 overhead)"

definition GetResourceRequested :: "v1_Pod \<Rightarrow> Resource" where
  "GetResourceRequested pod = GetEffectiveResource c_Requests pod"

definition GetResourceLimits :: "v1_Pod \<Rightarrow> Resource" where
  "GetResourceLimits pod = GetEffectiveResource c_Limits pod"

text \<open>The scalar map of limits is nil when it has no entry, and writing to a nil map panics.\<close>

abbreviation nil_map_entry :: string where
  "nil_map_entry \<equiv> ''assignment to entry in nil map''"

fun max_scalars :: "(string, i64) gomap \<Rightarrow> (string, i64) gomap \<Rightarrow> (string, i64) gomap outcome" where
  "max_scalars [] limits = Ret limits"
| "max_scalars ((k, v) # reqs) limits =
     (if sint (gm_get 0 limits k) < sint v then
        if limits = [] then Panic nil_map_entry else max_scalars reqs (AList.update k v limits)
      else max_scalars reqs limits)"

definition SetMaxLimits :: "Resource \<Rightarrow> Resource \<Rightarrow> Resource outcome" where
  "SetMaxLimits requests limits =
     (case max_scalars (r_ScalarResources requests) (r_ScalarResources limits) of
        Panic e \<Rightarrow> Panic e
      | Ret scalars \<Rightarrow> Ret \<lparr>
          r_MilliCPU = setMax (r_MilliCPU limits) (r_MilliCPU requests),
          r_Memory = setMax (r_Memory limits) (r_Memory requests),
          r_EphemeralStorage = setMax (r_EphemeralStorage limits) (r_EphemeralStorage requests),
          r_AllowedPodNumber = setMax (r_AllowedPodNumber limits) (r_AllowedPodNumber requests),
          r_ScalarResources = scalars\<rparr>)"

record NodeRequestsAndLimits =
  nl_NodeRequest :: Resource
  nl_NodeLimit :: Resource
  nl_NodeRequestMinusPod :: Resource
  nl_NodeLimitMinusPod :: Resource
  nl_Nodecapacity :: Resource

definition accumulate :: "Resource \<Rightarrow> Resource \<Rightarrow> Resource" where
  "accumulate acc r = acc\<lparr>r_MilliCPU := r_MilliCPU acc + r_MilliCPU r, r_Memory := r_Memory acc + r_Memory r\<rparr>"

text \<open>The pods on the node, each with its limits raised to its requests.\<close>

fun requests_limits_loop :: "v1_Pod list \<Rightarrow> Resource \<times> Resource \<Rightarrow> (Resource \<times> Resource) outcome" where
  "requests_limits_loop [] acc = Ret acc"
| "requests_limits_loop (p # ps) (nodeRequest, nodeLimit) =
     (let requested = GetResourceRequested p in
      case SetMaxLimits requested (GetResourceLimits p) of
        Panic e \<Rightarrow> Panic e
      | Ret limits \<Rightarrow> requests_limits_loop ps (accumulate nodeRequest requested, accumulate nodeLimit limits))"

text \<open>The pending pod comes last, with the requests and limits computed for it.\<close>

definition GetNodeRequestsAndLimits :: "load_node \<Rightarrow> Resource \<Rightarrow> Resource \<Rightarrow> NodeRequestsAndLimits outcome" where
  "GetNodeRequestsAndLimits node podRequests podLimits =
     (let capCpu = MilliValue (gm_get 0 (ld_Allocatable node) ResourceCPU);
          capMem = quantity_Value (gm_get 0 (ld_Allocatable node) ResourceMemory);
          capped = (\<lambda>r. r\<lparr>r_MilliCPU := setMin (r_MilliCPU r) capCpu, r_Memory := setMin (r_Memory r) capMem\<rparr>)
      in case requests_limits_loop (ld_Pods node) (zero_Resource, zero_Resource) of
           Panic e \<Rightarrow> Panic e
         | Ret (requestMinusPod, limitMinusPod) \<Rightarrow> Ret \<lparr>
             nl_NodeRequest = capped (accumulate requestMinusPod podRequests),
             nl_NodeLimit = accumulate limitMinusPod podLimits,
             nl_NodeRequestMinusPod = capped requestMinusPod,
             nl_NodeLimitMinusPod = limitMinusPod,
             nl_Nodecapacity = zero_Resource\<lparr>r_MilliCPU := capCpu, r_Memory := capMem\<rparr>\<rparr>)"

section \<open>TargetLoadPacking\<close>

text \<open>The variables of the package, set by the construction of the plugin.\<close>

record tlp_vars =
  tv_requestsMilliCores :: i64
  tv_hostTargetUtilizationPercent :: i64
  tv_requestsMultiplier :: rat

definition tlp_New :: "(TrimaranSpec \<Rightarrow> (goerror + WatcherMetrics) outcome) \<Rightarrow> (string \<Rightarrow> rat \<times> goerror option) \<Rightarrow>
    config_object \<Rightarrow> tlp_vars \<Rightarrow> ((goerror + WatcherMetrics) \<times> tlp_vars) outcome" where
  "tlp_New collector ParseFloat obj vars =
     (case obj of
        C_TargetLoadPacking args \<Rightarrow>
          (case collector (tl_TrimaranSpec args) of
             Panic e \<Rightarrow> Panic e
           | Ret (Inl err) \<Rightarrow> Ret (Inl err, vars)
           | Ret (Inr metrics) \<Rightarrow>
               (case ParseFloat (tl_DefaultRequestsMultiplier args) of (multiplier, err) \<Rightarrow>
                  let vars' = \<lparr>tv_requestsMilliCores = MilliValue (case tl_DefaultRequests args of None \<Rightarrow> 0 | Some rl \<Rightarrow> gm_get 0 rl ResourceCPU),
                         tv_hostTargetUtilizationPercent = tl_TargetUtilization args, tv_requestsMultiplier = multiplier\<rparr>
                  in (case err of
                        Some e \<Rightarrow> Ret (Inl (''unable to parse DefaultRequestsMultiplier: '' @ e), vars')
                      | None \<Rightarrow> Ret (Inr metrics, vars'))))
      | _ \<Rightarrow> Ret (Inl ''want args to be of type TargetLoadPackingArgs'', vars))"

definition PredictUtilisation :: "tlp_vars \<Rightarrow> Container \<Rightarrow> i64" where
  "PredictUtilisation vars container =
     (if gm_has (c_Limits container) ResourceCPU then MilliValue (gm_get 0 (c_Limits container) ResourceCPU)
      else if gm_has (c_Requests container) ResourceCPU
        then int64_of_f64 (math_Round (f64_mult (f64_of_int (MilliValue (gm_get 0 (c_Requests container) ResourceCPU))) (tv_requestsMultiplier vars)))
      else tv_requestsMilliCores vars)"

definition predicted_pod :: "tlp_vars \<Rightarrow> v1_Pod \<Rightarrow> i64" where
  "predicted_pod vars pod =
     fold (\<lambda>container usage. usage + PredictUtilisation vars container) (pod_Containers pod) 0 +
     (case pod_Overhead pod of None \<Rightarrow> 0 | Some overhead \<Rightarrow> MilliValue (gm_get 0 overhead ResourceCPU))"

definition cpu_metric :: "Metric list \<Rightarrow> rat option" where
  "cpu_metric metrics = fold (\<lambda>metric found.
     if mt_Type metric = ''CPU'' \<and> (mt_Operator metric = ''AVG'' \<or> mt_Operator metric = ''Latest'') then Some (mt_Value metric) else found) metrics None"

text \<open>The pods whose load the metrics do not show yet.\<close>

definition unix_seconds :: "int \<Rightarrow> i64" where
  "unix_seconds t = word_of_int (t div second)"

definition missing :: "i64 \<Rightarrow> podInfo \<Rightarrow> bool" where
  "missing windowEnd info =
     (sint windowEnd < sint (unix_seconds (pi_Timestamp info)) \<or>
      sint (unix_seconds (pi_Timestamp info)) \<le> sint windowEnd \<and>
      sint (windowEnd - unix_seconds (pi_Timestamp info)) < metricsAgentReportingIntervalSeconds)"

definition missing_util :: "tlp_vars \<Rightarrow> i64 \<Rightarrow> podInfo list \<Rightarrow> i64" where
  "missing_util vars windowEnd infos =
     fold (\<lambda>info util. if missing windowEnd info then util + predicted_pod vars (pi_Pod info) else util) infos 0"

definition predicted_usage :: "rat \<Rightarrow> rat \<Rightarrow> i64 \<Rightarrow> i64 \<Rightarrow> rat" where
  "predicted_usage nodeCPUUtilPercent nodeCPUCapMillis curPodCPUUsage missingCPUUtilMillis =
     (let nodeCPUUtilMillis = f64_mult (f64_div nodeCPUUtilPercent 100) nodeCPUCapMillis in
      if nodeCPUCapMillis \<noteq> 0
      then f64_div (f64_mult 100 (f64_add (f64_add nodeCPUUtilMillis (f64_of_int curPodCPUUsage)) (f64_of_int missingCPUUtilMillis))) nodeCPUCapMillis
      else 0)"

definition packing_score :: "i64 \<Rightarrow> rat \<Rightarrow> i64" where
  "packing_score target predicted =
     (let t = f64_of_int target in
      if predicted > t then
        if predicted > 100 then MinNodeScore
        else int64_of_f64 (math_Round (f64_div (f64_mult t (f64_sub 100 predicted)) (f64_sub 100 t)))
      else int64_of_f64 (math_Round (f64_add (f64_div (f64_mult (f64_sub 100 t) predicted) t) t)))"

definition tlp_Score :: "(string \<Rightarrow> goerror + load_node) \<Rightarrow> tlp_vars \<Rightarrow> WatcherMetrics \<Rightarrow> scheduled_pods \<Rightarrow> v1_Pod \<Rightarrow> string \<Rightarrow> i64 \<times> Status" where
  "tlp_Score get_node vars collected cache pod nodeName =
     (case get_node nodeName of
        Inl err \<Rightarrow> (MinNodeScore, NewStatus Error (''getting node from Snapshot: '' @ err))
      | Inr node \<Rightarrow>
          (case GetNodeMetrics collected nodeName of
             (None, _) \<Rightarrow> (MinNodeScore, None)
           | (Some metrics, allMetrics) \<Rightarrow>
               (case cpu_metric metrics of
                  None \<Rightarrow> (MinNodeScore, None)
                | Some nodeCPUUtilPercent \<Rightarrow>
                    let cap = f64_of_int (MilliValue (gm_get 0 (ld_Capacity node) ResourceCPU));
                        predicted = predicted_usage nodeCPUUtilPercent cap (predicted_pod vars pod)
                          (missing_util vars (wm_WindowEnd collected) (gm_get [] cache nodeName))
                    in (packing_score (tv_hostTargetUtilizationPercent vars) predicted, NewStatus Success ''''))))"

section \<open>LoadVariationRiskBalancing\<close>

text \<open>\<open>root_pow s e\<close> is \<^verbatim>\<open>math.Pow(s, 1/e)\<close>.\<close>

definition computeScore :: "(rat \<Rightarrow> rat \<Rightarrow> rat) \<Rightarrow> ResourceStats \<Rightarrow> rat \<Rightarrow> rat \<Rightarrow> rat" where
  "computeScore root_pow rs margin sensitivity =
     (if st_Capacity rs \<le> 0 then 0
      else let rs' = rs\<lparr>st_Req := max (st_Req rs) 0,
                 st_UsedAvg := max (min (st_UsedAvg rs) (st_Capacity rs)) 0,
                 st_UsedStdev := max (min (st_UsedStdev rs) (st_Capacity rs)) 0\<rparr> in
        case GetMuSigma rs' of (mu, sigma) \<Rightarrow>
          let sigma1 = (if sensitivity \<ge> 0 then root_pow sigma sensitivity else sigma);
              sigma2 = clamp01 (f64_mult sigma1 margin);
              risk = f64_div (f64_add mu sigma2) 2
          in f64_mult (f64_sub 1 risk) 100)"

definition lvrb_Score :: "(rat \<Rightarrow> rat \<Rightarrow> rat) \<Rightarrow> (string \<Rightarrow> goerror + load_node) \<Rightarrow> LoadVariationRiskBalancingArgs \<Rightarrow> WatcherMetrics \<Rightarrow> v1_Pod \<Rightarrow> string \<Rightarrow> i64 \<times> Status" where
  "lvrb_Score root_pow get_node args collected pod nodeName =
     (case get_node nodeName of
        Inl err \<Rightarrow> (MinNodeScore, NewStatus Error (''getting node from Snapshot: '' @ err))
      | Inr node \<Rightarrow>
          (case GetNodeMetrics collected nodeName of
             (None, _) \<Rightarrow> (MinNodeScore, None)
           | (Some metrics, _) \<Rightarrow>
               let podRequest = GetResourceRequested pod;
                   compute = (\<lambda>stats. case stats of None \<Rightarrow> 0
                     | Some rs \<Rightarrow> computeScore root_pow rs (lv_SafeVarianceMargin args) (lv_SafeVarianceSensitivity args));
                   cpuStats = CreateResourceStats metrics node podRequest ResourceCPU ''CPU'';
                   memoryStats = CreateResourceStats metrics node podRequest ResourceMemory ''Memory'';
                   cpuScore = compute cpuStats;
                   memoryScore = compute memoryStats;
                   totalScore = (if memoryStats \<noteq> None \<and> cpuStats \<noteq> None then min memoryScore cpuScore else max memoryScore cpuScore)
               in (int64_of_f64 (math_Round totalScore), NewStatus Success '''')))"

definition lvrb_New :: "(TrimaranSpec \<Rightarrow> (goerror + WatcherMetrics) outcome) \<Rightarrow> config_object \<Rightarrow> (goerror + LoadVariationRiskBalancingArgs \<times> WatcherMetrics) outcome" where
  "lvrb_New collector obj =
     (case obj of
        C_LoadVariation args \<Rightarrow>
          (case collector (lv_TrimaranSpec args) of
             Panic e \<Rightarrow> Panic e
           | Ret (Inl err) \<Rightarrow> Ret (Inl err)
           | Ret (Inr metrics) \<Rightarrow> Ret (Inr (args, metrics)))
      | _ \<Rightarrow> Ret (Inl ''want args to be of type LoadVariationRiskBalancingArgs''))"

end
