(* ===== verification/Low_Risk.thy ===== *)
theory Low_Risk
  imports Trimaran_Scores
begin

text \<open>
  The LowRiskOverCommitment plugin, \<^verbatim>\<open>pkg/trimaran/lowriskovercommitment\<close>: the risk that a node is
  overused, from the limits of its pods and from a beta distribution fitted to the measured load
  (\<^verbatim>\<open>beta.go\<close>).

  Matching the moments may divide by a variance of zero, so the parameters of a distribution are
  floats with infinities and NaN, the datatype \<open>fext\<close>; elsewhere no division by zero reaches a
  result.  The regularized incomplete beta function of gonum, the square root and the power one half
  are parameters.
\<close>

section \<open>Floats with infinities\<close>

datatype fext = Fin rat | PInf | NInf | NaN

definition inf_sign :: "rat \<Rightarrow> fext" where
  "inf_sign x = (if x > 0 then PInf else if x < 0 then NInf else NaN)"

fun fx_sign :: "fext \<Rightarrow> rat" where
  "fx_sign (Fin x) = x"
| "fx_sign PInf = 1"
| "fx_sign NInf = - 1"
| "fx_sign NaN = 0"

fun fx_add :: "fext \<Rightarrow> fext \<Rightarrow> fext" where
  "fx_add (Fin x) (Fin y) = Fin (f64_add x y)"
| "fx_add PInf (Fin y) = PInf"
| "fx_add (Fin x) PInf = PInf"
| "fx_add NInf (Fin y) = NInf"
| "fx_add (Fin x) NInf = NInf"
| "fx_add PInf PInf = PInf"
| "fx_add NInf NInf = NInf"
| "fx_add _ _ = NaN"

definition fx_mult :: "fext \<Rightarrow> fext \<Rightarrow> fext" where
  "fx_mult a b = (case (a, b) of
     (Fin x, Fin y) \<Rightarrow> Fin (f64_mult x y)
   | _ \<Rightarrow> if a = NaN \<or> b = NaN then NaN else inf_sign (fx_sign a * fx_sign b))"

definition fx_div :: "fext \<Rightarrow> fext \<Rightarrow> fext" where
  "fx_div a b = (case (a, b) of
     (Fin x, Fin y) \<Rightarrow> if y = 0 then inf_sign x else Fin (f64_div x y)
   | (Fin x, PInf) \<Rightarrow> Fin 0
   | (Fin x, NInf) \<Rightarrow> Fin 0
   | (PInf, Fin y) \<Rightarrow> if y < 0 then NInf else PInf
   | (NInf, Fin y) \<Rightarrow> if y < 0 then PInf else NInf
   | _ \<Rightarrow> NaN)"

text \<open>Comparisons with a number; any comparison with NaN is false.\<close>

fun fx_less :: "fext \<Rightarrow> rat \<Rightarrow> bool" where
  "fx_less (Fin x) y = (x < y)"
| "fx_less NInf y = True"
| "fx_less _ y = False"

fun fx_greater :: "fext \<Rightarrow> rat \<Rightarrow> bool" where
  "fx_greater (Fin x) y = (x > y)"
| "fx_greater PInf y = True"
| "fx_greater _ y = False"

fun fx_max :: "fext \<Rightarrow> rat \<Rightarrow> fext" where
  "fx_max (Fin x) y = Fin (max x y)"
| "fx_max PInf y = PInf"
| "fx_max NInf y = Fin y"
| "fx_max NaN y = NaN"

section \<open>Beta distributions\<close>

record BetaDistribution =
  bd_alpha :: fext
  bd_beta :: fext
  bd_firstMoment :: fext
  bd_secondMoment :: fext
  bd_thirdMoment :: fext

definition checkValidity :: "fext \<Rightarrow> fext \<Rightarrow> bool" where
  "checkValidity alpha beta = (fx_greater alpha 0 \<and> fx_greater beta 0)"

definition computeMoments :: "BetaDistribution \<Rightarrow> BetaDistribution" where
  "computeMoments b =
     (let s = fx_add (bd_alpha b) (bd_beta b);
          m1 = fx_div (bd_alpha b) s;
          m2 = fx_div (fx_mult m1 (fx_add (bd_alpha b) (Fin 1))) (fx_add s (Fin 1));
          m3 = fx_div (fx_mult m2 (fx_add (bd_alpha b) (Fin 2))) (fx_add s (Fin 2))
      in b\<lparr>bd_firstMoment := m1, bd_secondMoment := m2, bd_thirdMoment := m3\<rparr>)"

text \<open>The constructor gives nil for parameters that are not positive, so a distribution is always valid.\<close>

definition NewBetaDistribution :: "fext \<Rightarrow> fext \<Rightarrow> BetaDistribution option" where
  "NewBetaDistribution alpha beta =
     (if \<not> checkValidity alpha beta then None
      else Some (computeMoments \<lparr>bd_alpha = alpha, bd_beta = beta, bd_firstMoment = Fin 0, bd_secondMoment = Fin 0, bd_thirdMoment = Fin 0\<rparr>))"

definition SmallestNonzeroFloat64 :: rat where
  "SmallestNonzeroFloat64 = 1 / 2 ^ 1074"

definition MatchMoments :: "rat \<Rightarrow> rat \<Rightarrow> BetaDistribution \<Rightarrow> bool \<times> BetaDistribution" where
  "MatchMoments m1 m2 b =
     (let variance = f64_sub m2 (f64_mult m1 m1);
          bound = f64_mult m1 (f64_sub 1 m1) in
      if m1 < 0 \<or> m1 > 1 \<or> variance < 0 \<or> variance \<ge> bound then (False, b)
      else let temp = fx_add (fx_div (Fin bound) (Fin variance)) (Fin (- 1));
               temp1 = fx_max temp SmallestNonzeroFloat64
           in (True, computeMoments (b\<lparr>bd_alpha := fx_mult (Fin m1) temp1, bd_beta := fx_mult (Fin (f64_sub 1 m1)) temp1\<rparr>)))"

definition GetMaxVariance :: "rat \<Rightarrow> rat" where
  "GetMaxVariance m1 = (if m1 > 0 \<and> m1 < 1 then f64_mult m1 (f64_sub 1 m1) else 0)"

record risk_math =
  rk_RegIncBeta :: "fext \<Rightarrow> fext \<Rightarrow> rat \<Rightarrow> fext"
  rk_Sqrt :: "rat \<Rightarrow> rat"
  rk_PowHalf :: "rat \<Rightarrow> rat"

definition RegularizedIncomplete :: "risk_math \<Rightarrow> rat \<Rightarrow> fext \<Rightarrow> fext \<Rightarrow> fext" where
  "RegularizedIncomplete M x a b =
     (if fx_less a 0 \<or> a = Fin 0 \<or> fx_less b 0 \<or> b = Fin 0 \<or> x < 0 \<or> x > 1 then NaN
      else if x = 0 then Fin 0
      else if x = 1 then Fin 1
      else rk_RegIncBeta M a b x)"

definition DistributionFunction :: "risk_math \<Rightarrow> BetaDistribution \<Rightarrow> rat \<Rightarrow> rat" where
  "DistributionFunction M b x =
     (case RegularizedIncomplete M x (bd_alpha b) (bd_beta b) of
        Fin p \<Rightarrow> if p < 0 \<or> p > 1 then 0 else p
      | _ \<Rightarrow> 0)"

text \<open>The last test of the source, for a probability that is NaN, cannot succeed.  The constructor
  with parameters one and one never gives nil.\<close>

definition ComputeProbability :: "risk_math \<Rightarrow> rat \<Rightarrow> rat \<Rightarrow> rat \<Rightarrow> (rat \<times> BetaDistribution option) outcome" where
  "ComputeProbability M mu sigma threshold =
     (if mu = 0 \<or> (sigma = 0 \<and> mu \<le> threshold) then Ret (1, None)
      else if sigma = 0 \<and> mu > threshold then Ret (0, None)
      else (case NewBetaDistribution (Fin 1) (Fin 1) of
              None \<Rightarrow> Panic nil_deref
            | Some betaDist \<Rightarrow>
                (case MatchMoments mu (f64_add (f64_mult sigma sigma) (f64_mult mu mu)) betaDist of
                   (False, _) \<Rightarrow> Ret (0, None)
                 | (True, b) \<Rightarrow> Ret (DistributionFunction M b threshold, Some b))))"

section \<open>The plugin\<close>

record LowRiskOverCommitment =
  lo_args :: LowRiskOverCommitmentArgs
  lo_riskLimitWeightsMap :: "(string, rat) gomap"

definition lro_New :: "(TrimaranSpec \<Rightarrow> (goerror + WatcherMetrics) outcome) \<Rightarrow> config_object \<Rightarrow> (goerror + LowRiskOverCommitment \<times> WatcherMetrics) outcome" where
  "lro_New collector obj =
     (case obj of
        C_LowRisk args \<Rightarrow>
          (case collector (lr_TrimaranSpec args) of
             Panic e \<Rightarrow> Panic e
           | Ret (Inl err) \<Rightarrow> Ret (Inl err)
           | Ret (Inr metrics) \<Rightarrow>
               let m = fold (\<lambda>(r, w) m. AList.update r w m) (lr_RiskLimitWeights args) [(ResourceCPU, 1/2), (ResourceMemory, 1/2)]
               in Ret (Inr (\<lparr>lo_args = args, lo_riskLimitWeightsMap = m\<rparr>, metrics)))
      | _ \<Rightarrow> Ret (Inl ''want args to be of type LowRiskOverCommitmentArgs''))"

record PodResourcesStateData =
  pr_podRequests :: Resource
  pr_podLimits :: Resource

definition CreatePodResourcesStateData :: "v1_Pod \<Rightarrow> PodResourcesStateData outcome" where
  "CreatePodResourcesStateData pod =
     (let requests = GetResourceRequested pod in
      case SetMaxLimits requests (GetResourceLimits pod) of
        Panic e \<Rightarrow> Panic e
      | Ret limits \<Rightarrow> Ret \<lparr>pr_podRequests = requests, pr_podLimits = limits\<rparr>)"

text \<open>The entry of the cycle state under the key of the plugin.\<close>

datatype prescore_entry = NoEntry | ResourcesEntry PodResourcesStateData | OtherEntry

definition lro_PreScore :: "v1_Pod \<Rightarrow> prescore_entry outcome" where
  "lro_PreScore pod = (case CreatePodResourcesStateData pod of Panic e \<Rightarrow> Panic e | Ret d \<Rightarrow> Ret (ResourcesEntry d))"

definition getPreScoreState :: "prescore_entry \<Rightarrow> goerror + PodResourcesStateData" where
  "getPreScoreState e = (case e of
     NoEntry \<Rightarrow> Inl ''reading PodResources from cycleState''
   | ResourcesEntry d \<Rightarrow> Inr d
   | OtherEntry \<Rightarrow> Inl ''invalid PreScore state'')"

definition MaxVarianceAllowance :: rat where
  "MaxVarianceAllowance = f64 (99 / 100)"

text \<open>The part of the risk that the measured load gives.  A capacity of zero has mean zero, and then
  the thresholds, which would be infinite or NaN, do not matter.\<close>

definition load_risk :: "risk_math \<Rightarrow> i64 \<Rightarrow> ResourceStats \<Rightarrow> i64 \<Rightarrow> i64 \<Rightarrow> i64 \<Rightarrow> rat outcome" where
  "load_risk M window stats requestMinusPod limitMinusPod capacity =
     (case GetMuSigma stats of (mu, sigma) \<Rightarrow>
        let sigma1 = f64_mult sigma (rk_PowHalf M (f64_of_int window));
            sigma2 = min sigma1 (rk_Sqrt M (f64_mult (GetMaxVariance mu) MaxVarianceAllowance));
            allocThreshold = min (max (f64_div (f64_of_int requestMinusPod) (f64_of_int capacity)) 0) 1
        in (case ComputeProbability M mu sigma2 allocThreshold of
              Panic e \<Rightarrow> Panic e
            | Ret (allocProb, fitDistribution) \<Rightarrow>
                let allocProb1 =
                  (if sint limitMinusPod < sint capacity \<and> sint requestMinusPod \<le> sint limitMinusPod then
                     let limitThreshold = f64_div (f64_of_int limitMinusPod) (f64_of_int capacity) in
                     if limitThreshold = 0 then 1
                     else (case fitDistribution of
                             None \<Rightarrow> allocProb
                           | Some fit \<Rightarrow>
                               let limitProb = DistributionFunction M fit limitThreshold in
                               if limitProb > 0 then min (max (f64_div allocProb limitProb) 0) 1 else allocProb)
                   else allocProb)
                in Ret (f64_sub 1 allocProb1)))"

definition limit_risk :: "i64 \<Rightarrow> i64 \<Rightarrow> i64 \<Rightarrow> rat" where
  "limit_risk limitv request capacity =
     (if sint capacity < sint limitv then f64_div (f64_of_int (limitv - capacity)) (f64_of_int (limitv - request)) else 0)"

definition computeRisk :: "risk_math \<Rightarrow> LowRiskOverCommitment \<Rightarrow> Metric list \<Rightarrow> string \<Rightarrow> string \<Rightarrow> load_node \<Rightarrow> NodeRequestsAndLimits \<Rightarrow> rat outcome" where
  "computeRisk M pl metrics resourceName resourceType node nl =
     (if resourceName \<noteq> ResourceCPU \<and> resourceName \<noteq> ResourceMemory then Ret 0
      else let get = (\<lambda>r. if resourceName = ResourceCPU then r_MilliCPU r else r_Memory r);
               request = get (nl_NodeRequest nl);
               limitv = get (nl_NodeLimit nl);
               requestMinusPod = get (nl_NodeRequestMinusPod nl);
               limitMinusPod = get (nl_NodeLimitMinusPod nl);
               capacity = get (nl_Nodecapacity nl);
               riskLimit = limit_risk limitv request capacity
           in (case (case CreateResourceStats metrics node zero_Resource resourceName resourceType of
                       None \<Rightarrow> Ret 0
                     | Some stats \<Rightarrow> load_risk M (lr_SmoothingWindowSize (lo_args pl)) stats requestMinusPod limitMinusPod capacity) of
                 Panic e \<Rightarrow> Panic e
               | Ret riskLoad \<Rightarrow>
                   let w = gm_get 0 (lo_riskLimitWeightsMap pl) resourceName;
                       totalRisk = f64_add (f64_mult w riskLimit) (f64_mult (f64_sub 1 w) riskLoad)
                   in Ret (min (max totalRisk 0) 1)))"

definition computeRank :: "risk_math \<Rightarrow> LowRiskOverCommitment \<Rightarrow> Metric list \<Rightarrow> load_node \<Rightarrow> Resource \<Rightarrow> Resource \<Rightarrow> rat outcome" where
  "computeRank M pl metrics node podRequests podLimits =
     (case GetNodeRequestsAndLimits node podRequests podLimits of
        Panic e \<Rightarrow> Panic e
      | Ret nl \<Rightarrow>
          (case computeRisk M pl metrics ResourceCPU ''CPU'' node nl of
             Panic e \<Rightarrow> Panic e
           | Ret riskCPU \<Rightarrow>
               (case computeRisk M pl metrics ResourceMemory ''Memory'' node nl of
                  Panic e \<Rightarrow> Panic e
                | Ret riskMemory \<Rightarrow> Ret (f64_sub 1 (max riskCPU riskMemory)))))"

definition best_effort :: "PodResourcesStateData \<Rightarrow> bool" where
  "best_effort d = (r_MilliCPU (pr_podRequests d) = 0 \<and> r_Memory (pr_podRequests d) = 0 \<and>
     r_MilliCPU (pr_podLimits d) = 0 \<and> r_Memory (pr_podLimits d) = 0)"

definition lro_Score :: "risk_math \<Rightarrow> LowRiskOverCommitment \<Rightarrow> (string \<Rightarrow> goerror + load_node) \<Rightarrow> WatcherMetrics \<Rightarrow> prescore_entry \<Rightarrow> v1_Pod \<Rightarrow> string \<Rightarrow> (i64 \<times> Status) outcome" where
  "lro_Score M pl get_node collected cycleState pod nodeName =
     (case (case getPreScoreState cycleState of Inr d \<Rightarrow> Ret d | Inl err \<Rightarrow> CreatePodResourcesStateData pod) of
        Panic e \<Rightarrow> Panic e
      | Ret podResources \<Rightarrow>
          if best_effort podResources then Ret (MinNodeScore, None)
          else (case get_node nodeName of
                  Inl err \<Rightarrow> Ret (MinNodeScore, NewStatus Error (''getting node from Snapshot: '' @ err))
                | Inr node \<Rightarrow>
                    (case GetNodeMetrics collected nodeName of
                       (None, _) \<Rightarrow> Ret (MinNodeScore, None)
                     | (Some metrics, _) \<Rightarrow>
                         (case computeRank M pl metrics node (pr_podRequests podResources) (pr_podLimits podResources) of
                            Panic e \<Rightarrow> Panic e
                          | Ret rank \<Rightarrow> Ret (int64_of_f64 (math_Round (f64_mult rank 100)), NewStatus Success '''')))))"

end
