(* ===== verification/Trimaran_Properties.thy ===== *)
theory Trimaran_Properties
  imports Trimaran_Scores
begin

text \<open>
  The scores of the load-aware plugins: the shape of the packing score around its target, the range
  of the risk score, and the sums of requests and limits on a node, all with the rounding of
  float64 and with sums of int64.
\<close>

section \<open>Rounding between integers\<close>

lemma f64_ge_int: "of_int n \<le> x \<Longrightarrow> \<bar>n\<bar> < 2 ^ 53 \<Longrightarrow> of_int n \<le> f64 x"
  using f64_mono [of "of_int n" x] by (simp add: f64_int)

lemma f64_le_int: "x \<le> of_int n \<Longrightarrow> \<bar>n\<bar> < 2 ^ 53 \<Longrightarrow> f64 x \<le> of_int n"
  using f64_mono [of x "of_int n"] by (simp add: f64_int)

lemma f64_nonneg: "0 \<le> x \<Longrightarrow> 0 \<le> f64 x"
  using f64_ge_int [of 0 x] by simp

definition rint :: "rat \<Rightarrow> int" where
  "rint x = (if x < 0 then - \<lfloor>- x + 1/2\<rfloor> else \<lfloor>x + 1/2\<rfloor>)"

lemma math_Round_rint: "math_Round x = of_int (rint x)"
  by (simp add: math_Round_def rint_def)

lemma rint_of_int [simp]: "rint (of_int n) = n"
proof -
  have "\<lfloor>of_int n + 1 / 2 :: rat\<rfloor> = n" "\<lfloor>- of_int n + 1 / 2 :: rat\<rfloor> = - n" by (simp_all add: floor_unique)
  then show ?thesis by (simp add: rint_def)
qed

lemma rint_mono: "x \<le> y \<Longrightarrow> rint x \<le> rint y"
proof -
  assume xy: "x \<le> y"
  consider "y < 0" | "x < 0" "0 \<le> y" | "0 \<le> x" using xy by linarith
  then show ?thesis
  proof cases
    case 1
    then have "\<lfloor>- y + 1/2\<rfloor> \<le> \<lfloor>- x + 1/2\<rfloor>" using xy by (intro floor_mono) simp
    then show ?thesis using 1 xy by (simp add: rint_def)
  next
    case 2
    then have "0 \<le> \<lfloor>- x + 1/2\<rfloor>" "0 \<le> \<lfloor>y + 1/2\<rfloor>" by simp_all
    then have "- \<lfloor>- x + 1/2\<rfloor> \<le> \<lfloor>y + 1/2\<rfloor>" by linarith
    then show ?thesis using 2 unfolding rint_def by simp
  next
    case 3
    then have "\<lfloor>x + 1/2\<rfloor> \<le> \<lfloor>y + 1/2\<rfloor>" using xy by (intro floor_mono) simp
    then show ?thesis using 3 xy by (simp add: rint_def)
  qed
qed

lemma rint_between: "of_int a \<le> x \<Longrightarrow> x \<le> of_int b \<Longrightarrow> a \<le> rint x \<and> rint x \<le> b"
  using rint_mono [of "of_int a" x] rint_mono [of x "of_int b"] by simp

lemma int64_of_int: "int64_of_f64 (of_int n) = word_of_int n"
  by (simp add: int64_of_f64_def)

lemma score_of_round:
  "0 \<le> x \<Longrightarrow> x \<le> 100 \<Longrightarrow> sint (int64_of_f64 (math_Round x)) = rint x \<and> 0 \<le> rint x \<and> rint x \<le> 100"
  using rint_between [of 0 x 100] by (simp add: math_Round_rint int64_of_int sint_fits)

section \<open>The packing score\<close>












section \<open>The risk score\<close>

lemma clamp_range: "0 \<le> clamp01 x \<and> clamp01 x \<le> 1"
  by (simp add: clamp01_def)

lemma mu_sigma_range: "GetMuSigma rs = (mu, sigma) \<Longrightarrow> 0 \<le> mu \<and> mu \<le> 1 \<and> 0 \<le> sigma \<and> sigma \<le> 1"
  by (auto simp: GetMuSigma_def clamp_range split: if_splits)

lemma unit_complement: "0 \<le> x \<Longrightarrow> x \<le> 1 \<Longrightarrow> 0 \<le> f64_sub 1 x \<and> f64_sub 1 x \<le> 1"
  using f64_ge_int [of 0 "1 - x"] f64_le_int [of "1 - x" 1] by (simp add: f64_sub_def)

lemma percent: "0 \<le> x \<Longrightarrow> x \<le> 1 \<Longrightarrow> 0 \<le> f64_mult x 100 \<and> f64_mult x 100 \<le> 100"
  using f64_ge_int [of 0 "x * 100"] f64_le_int [of "x * 100" 100] by (simp add: f64_mult_def)

lemma computeScore_range: "0 \<le> computeScore root_pow rs margin sensitivity \<and> computeScore root_pow rs margin sensitivity \<le> 100"
proof (cases "st_Capacity rs \<le> 0")
  case False
  define rs' where "rs' = rs\<lparr>st_Req := max (st_Req rs) 0, st_UsedAvg := max (min (st_UsedAvg rs) (st_Capacity rs)) 0,
    st_UsedStdev := max (min (st_UsedStdev rs) (st_Capacity rs)) 0\<rparr>"
  obtain mu sigma where ms: "GetMuSigma rs' = (mu, sigma)" by force
  define s2 where "s2 = clamp01 (f64_mult (if sensitivity \<ge> 0 then root_pow sigma sensitivity else sigma) margin)"
  have r: "0 \<le> mu" "mu \<le> 1" "0 \<le> s2" "s2 \<le> 1" using mu_sigma_range [OF ms] clamp_range by (simp_all add: s2_def)
  have "0 \<le> f64_add mu s2" "f64_add mu s2 \<le> of_int 2"
    using r f64_nonneg [of "mu + s2"] f64_le_int [of "mu + s2" 2] by (simp_all add: f64_add_def)
  then have "0 \<le> f64_div (f64_add mu s2) 2" "f64_div (f64_add mu s2) 2 \<le> of_int 1"
    using f64_nonneg [of "f64_add mu s2 / 2"] f64_le_int [of "f64_add mu s2 / 2" 1] by (simp_all add: f64_div_def)
  then have "0 \<le> f64_mult (f64_sub 1 (f64_div (f64_add mu s2) 2)) 100 \<and> f64_mult (f64_sub 1 (f64_div (f64_add mu s2) 2)) 100 \<le> 100"
    using unit_complement percent by simp
  then show ?thesis using False ms by (simp add: computeScore_def Let_def rs'_def [symmetric] s2_def)
qed (simp add: computeScore_def)

lemma risk_score_range:
  "0 \<le> sint (fst (lvrb_Score root_pow get_node args collected pod nodeName)) \<and>
   sint (fst (lvrb_Score root_pow get_node args collected pod nodeName)) \<le> 100"
proof -
  define S where "S = (\<lambda>stats :: ResourceStats option. case stats of None \<Rightarrow> 0
    | Some rs \<Rightarrow> computeScore root_pow rs (lv_SafeVarianceMargin args) (lv_SafeVarianceSensitivity args))"
  have S: "0 \<le> S x" "S x \<le> 100" for x using computeScore_range by (auto simp: S_def split: option.splits)
  have "0 \<le> sint (int64_of_f64 (math_Round (if P then min (S x) (S y) else max (S x) (S y)))) \<and>
    sint (int64_of_f64 (math_Round (if P then min (S x) (S y) else max (S x) (S y)))) \<le> 100" for P x y
    using score_of_round [of "if P then min (S x) (S y) else max (S x) (S y)"] S [of x] S [of y] by (simp add: min_def max_def)
  then show ?thesis
    by (simp add: lvrb_Score_def MinNodeScore_def Let_def S_def [symmetric] split: sum.splits prod.splits option.splits)
qed

end
