(* ===== verification/Low_Risk_Properties.thy ===== *)
theory Low_Risk_Properties
  imports Low_Risk Trimaran_Properties
begin

text \<open>
  The risk of overcommitment: when the plugin panics, the range of its score, and what the sums of
  requests and limits say of a node.
\<close>

section \<open>Limits raised to requests\<close>

text \<open>A pod that asks for a scalar resource and has no scalar limit at all.\<close>

definition unlimited_scalar :: "v1_Pod \<Rightarrow> bool" where
  "unlimited_scalar pod \<longleftrightarrow> r_ScalarResources (GetResourceLimits pod) = [] \<and>
     list_ex (\<lambda>(k, v). 0 < sint v) (r_ScalarResources (GetResourceRequested pod))"

lemma max_scalars_some: "limits \<noteq> [] \<Longrightarrow> \<exists>m. max_scalars reqs limits = Ret m"
proof (induction reqs arbitrary: limits)
  case (Cons e reqs)
  obtain k v where e: "e = (k, v)" by force
  have "AList.update k v limits \<noteq> []" by (cases limits) auto
  then show ?case using Cons e by simp
qed simp

lemma max_scalars_nil: "max_scalars reqs [] = (if list_ex (\<lambda>(k, v). 0 < sint v) reqs then Panic nil_map_entry else Ret [])"
  by (induction reqs) auto

lemma SetMaxLimits_cases:
  "(case SetMaxLimits requests limits of
      Panic e \<Rightarrow> e = nil_map_entry \<and> r_ScalarResources limits = [] \<and> list_ex (\<lambda>(k, v). 0 < sint v) (r_ScalarResources requests)
    | Ret l \<Rightarrow> \<not> (r_ScalarResources limits = [] \<and> list_ex (\<lambda>(k, v). 0 < sint v) (r_ScalarResources requests)) \<and>
        r_MilliCPU l = setMax (r_MilliCPU limits) (r_MilliCPU requests) \<and> r_Memory l = setMax (r_Memory limits) (r_Memory requests))"
proof (cases "r_ScalarResources limits = []")
  case True
  then show ?thesis by (simp add: SetMaxLimits_def max_scalars_nil)
next
  case False
  then show ?thesis using max_scalars_some [OF False, of "r_ScalarResources requests"] by (auto simp: SetMaxLimits_def)
qed

lemma pod_limits:
  "(case SetMaxLimits (GetResourceRequested p) (GetResourceLimits p) of Panic e \<Rightarrow> e = nil_map_entry \<and> unlimited_scalar p | Ret l \<Rightarrow> \<not> unlimited_scalar p)"
  using SetMaxLimits_cases [where requests = "GetResourceRequested p" and limits = "GetResourceLimits p"]
  by (simp add: unlimited_scalar_def split: outcome.splits)

lemma loop_panics:
  "(case requests_limits_loop ps acc of Panic e \<Rightarrow> e = nil_map_entry \<and> list_ex unlimited_scalar ps | Ret r \<Rightarrow> \<not> list_ex unlimited_scalar ps)"
proof (induction ps arbitrary: acc)
  case (Cons p ps)
  obtain a b where acc: "acc = (a, b)" by force
  show ?case
  proof (cases "SetMaxLimits (GetResourceRequested p) (GetResourceLimits p)")
    case (Ret l)
    then have "\<not> unlimited_scalar p" using pod_limits [of p] by simp
    then show ?thesis using Cons.IH [of "(accumulate a (GetResourceRequested p), accumulate b l)"] Ret acc by (simp add: Let_def split: outcome.splits)
  next
    case (Panic e)
    then show ?thesis using pod_limits [of p] acc by (simp add: Let_def)
  qed
qed simp

section \<open>Ranges\<close>

lemma prob_range: "0 \<le> DistributionFunction M b x \<and> DistributionFunction M b x \<le> 1"
  by (auto simp: DistributionFunction_def split: fext.splits)

lemma ComputeProbability_range:
  "\<exists>p d. ComputeProbability M mu sigma threshold = Ret (p, d) \<and> 0 \<le> p \<and> p \<le> 1"
proof -
  obtain b0 where b0: "NewBetaDistribution (Fin 1) (Fin 1) = Some b0"
    by (simp add: NewBetaDistribution_def checkValidity_def)
  show ?thesis
    using prob_range by (cases "MatchMoments mu (f64_add (f64_mult sigma sigma) (f64_mult mu mu)) b0")
      (auto simp: ComputeProbability_def b0 split: bool.splits)
qed

lemma load_risk_returns: "\<exists>r. load_risk M window stats rq lm cp = Ret r"
proof -
  obtain mu sigma where ms: "GetMuSigma stats = (mu, sigma)" by force
  show ?thesis using ComputeProbability_range [of M mu]
    by (auto simp: load_risk_def ms Let_def split: outcome.splits) (metis outcome.distinct(1))
qed

lemma computeRisk_range: "\<exists>r. computeRisk M pl metrics rn rt node nl = Ret r \<and> 0 \<le> r \<and> r \<le> 1"
proof -
  have "\<exists>x. (case CreateResourceStats metrics node zero_Resource rn rt of
      None \<Rightarrow> Ret 0
    | Some stats \<Rightarrow> load_risk M w stats a b c) = Ret x" for w a b c
    using load_risk_returns by (auto split: option.splits)
  then show ?thesis by (simp add: computeRisk_def Let_def split: outcome.splits) (metis outcome.distinct(1))
qed

lemma computeRank_range:
  "(case computeRank M pl metrics node rq lm of
      Panic e \<Rightarrow> e = nil_map_entry \<and> list_ex unlimited_scalar (ld_Pods node)
    | Ret r \<Rightarrow> \<not> list_ex unlimited_scalar (ld_Pods node) \<and> 0 \<le> r \<and> r \<le> 1)"
proof (cases "GetNodeRequestsAndLimits node rq lm")
  case (Ret nl)
  obtain c where c: "computeRisk M pl metrics ResourceCPU ''CPU'' node nl = Ret c" "0 \<le> c" "c \<le> 1" using computeRisk_range by blast
  obtain m where m: "computeRisk M pl metrics ResourceMemory ''Memory'' node nl = Ret m" "0 \<le> m" "m \<le> 1" using computeRisk_range by blast
  have "0 \<le> f64_sub 1 (max c m) \<and> f64_sub 1 (max c m) \<le> 1" using c m by (intro unit_complement) auto
  moreover have "\<not> list_ex unlimited_scalar (ld_Pods node)"
    using loop_panics [of "ld_Pods node" "(zero_Resource, zero_Resource)"] Ret
    by (simp add: GetNodeRequestsAndLimits_def Let_def split: outcome.splits)
  ultimately show ?thesis using Ret c m by (simp add: computeRank_def)
next
  case (Panic e)
  then show ?thesis using loop_panics [of "ld_Pods node" "(zero_Resource, zero_Resource)"]
    by (auto simp: computeRank_def GetNodeRequestsAndLimits_def Let_def split: outcome.splits prod.splits)
qed

text \<open>C37: scoring with the requests and limits that PreScore stored never leaves the range from 0 to 100,
  whatever the metrics, the weights and the mathematical functions are, and it panics exactly when a
  pod on a node with metrics asks for a scalar resource and has no scalar limit.\<close>

theorem overcommitment_score:
  "(case lro_Score M pl get_node collected (ResourcesEntry d) pod nodeName of
      Ret (s, st) \<Rightarrow> 0 \<le> sint s \<and> sint s \<le> 100
    | Panic e \<Rightarrow> e = nil_map_entry \<and> \<not> best_effort d \<and>
        (\<exists>node metrics. get_node nodeName = Inr node \<and> fst (GetNodeMetrics collected nodeName) = Some metrics \<and>
           list_ex unlimited_scalar (ld_Pods node))) \<and>
   (\<not> best_effort d \<and>
    (case get_node nodeName of Inl err \<Rightarrow> False
     | Inr node \<Rightarrow> fst (GetNodeMetrics collected nodeName) \<noteq> None \<and> list_ex unlimited_scalar (ld_Pods node)) \<longrightarrow>
      lro_Score M pl get_node collected (ResourcesEntry d) pod nodeName = Panic nil_map_entry)"
proof (cases "best_effort d")
  case True
  then show ?thesis by (simp add: lro_Score_def getPreScoreState_def MinNodeScore_def)
next
  case False
  note be = False
  show ?thesis
  proof (cases "get_node nodeName")
    case (Inl err)
    then show ?thesis using be by (simp add: lro_Score_def getPreScoreState_def MinNodeScore_def)
  next
    case (Inr node)
    show ?thesis
    proof (cases "fst (GetNodeMetrics collected nodeName)")
      case None
      then obtain am where gm: "GetNodeMetrics collected nodeName = (None, am)" by (metis prod.collapse)
      then show ?thesis using be Inr by (simp add: lro_Score_def getPreScoreState_def MinNodeScore_def)
    next
      case (Some metrics)
      then obtain am where gm: "GetNodeMetrics collected nodeName = (Some metrics, am)" by (metis prod.collapse)
      note r = computeRank_range [where M = M and pl = pl and metrics = metrics and node = node and rq = "pr_podRequests d" and lm = "pr_podLimits d"]
      show ?thesis
      proof (cases "computeRank M pl metrics node (pr_podRequests d) (pr_podLimits d)")
        case (Ret rank)
        then show ?thesis using be Inr gm r percent [of rank] score_of_round [of "f64_mult rank 100"]
          by (simp add: lro_Score_def getPreScoreState_def)
      next
        case (Panic e)
        then show ?thesis using be Inr gm r by (simp add: lro_Score_def getPreScoreState_def)
      qed
    qed
  qed
qed

definition ex_risk_math :: risk_math where
  "ex_risk_math = \<lparr>rk_RegIncBeta = (\<lambda>a b x. Fin x), rk_Sqrt = (\<lambda>x. x), rk_PowHalf = (\<lambda>x. x)\<rparr>"

definition ex_gpu_pod :: v1_Pod where
  "ex_gpu_pod = zero_pod\<lparr>pod_Containers := [\<lparr>c_Requests = [(''example.com/gpu'', 1000000000)], c_Limits = []\<rparr>]\<rparr>"

definition ex_gpu_node :: load_node where
  "ex_gpu_node = \<lparr>ld_Capacity = [], ld_Allocatable = [], ld_Pods = [ex_gpu_pod]\<rparr>"

definition ex_lro :: LowRiskOverCommitment where
  "ex_lro = \<lparr>lo_args = \<lparr>lr_TrimaranSpec = \<lparr>ts_MetricProvider = \<lparr>mp_Type = ''Prometheus'', mp_Address = '''', mp_Token = '''', mp_InsecureSkipVerify = True\<rparr>,
     ts_WatcherAddress = ''''\<rparr>, lr_SmoothingWindowSize = 5, lr_RiskLimitWeights = []\<rparr>, lo_riskLimitWeightsMap = []\<rparr>"

definition ex_cpu_data :: PodResourcesStateData where
  "ex_cpu_data = \<lparr>pr_podRequests = zero_Resource\<lparr>r_MilliCPU := 100\<rparr>, pr_podLimits = zero_Resource\<lparr>r_MilliCPU := 100\<rparr>\<rparr>"

lemma ex_gpu_unlimited: "unlimited_scalar ex_gpu_pod"
  by code_simp

theorem overcommitment_score_witness:
  "lro_Score ex_risk_math ex_lro (\<lambda>n. Inr ex_gpu_node) \<lparr>wm_NodeMetricsMap = Some [(''n1'', Some [])], wm_WindowEnd = 0\<rparr>
     (ResourcesEntry ex_cpu_data) zero_pod ''n1'' = Panic nil_map_entry"
  using overcommitment_score [where M = ex_risk_math and pl = ex_lro and get_node = "\<lambda>n. Inr ex_gpu_node" and d = ex_cpu_data
      and collected = "\<lparr>wm_NodeMetricsMap = Some [(''n1'', Some [])], wm_WindowEnd = 0\<rparr>" and pod = zero_pod and nodeName = "''n1''"]
  by (simp add: GetNodeMetrics_def ex_gpu_node_def ex_gpu_unlimited best_effort_def ex_cpu_data_def)


section \<open>Sums of requests and limits\<close>

definition pod_request :: "(Resource \<Rightarrow> i64) \<Rightarrow> v1_Pod \<Rightarrow> int" where
  "pod_request get p = sint (get (GetResourceRequested p))"

definition pod_limit :: "(Resource \<Rightarrow> i64) \<Rightarrow> v1_Pod \<Rightarrow> int" where
  "pod_limit get p = max (sint (get (GetResourceLimits p))) (pod_request get p)"

lemma sint_setMax: "sint (setMax x y) = max (sint x) (sint y)"
  by (simp add: setMax_def)

lemma sint_setMin: "sint (setMin x y) = min (sint x) (sint y)"
  by (simp add: setMin_def)

lemma add_fits: "- (2 ^ 63) \<le> sint a + sint b \<Longrightarrow> sint a + sint b < 2 ^ 63 \<Longrightarrow> sint ((a :: i64) + b) = sint a + sint b"
  using sint_fits [of "sint a + sint b"] by (simp add: of_int_add)

lemma fits_sum:
  "sint (a :: i64) = x \<Longrightarrow> 0 \<le> x \<Longrightarrow> 0 \<le> sint b \<Longrightarrow> x + sint b < 2 ^ 63 \<Longrightarrow> sint (a + b) = x + sint b"
  using add_fits [of a b] by simp

definition dimension :: "(Resource \<Rightarrow> i64) \<Rightarrow> bool" where
  "dimension get = (get = r_MilliCPU \<or> get = r_Memory)"

lemma accumulate_get: "dimension get \<Longrightarrow> get (accumulate acc r) = get acc + get r"
  by (auto simp: dimension_def accumulate_def)

lemma loop_sums:
  assumes "dimension get" and "requests_limits_loop ps (a, b) = Ret (a', b')"
    and "\<forall>p \<in> set ps. 0 \<le> pod_request get p" and "0 \<le> sint (get a)" and "sint (get a) \<le> sint (get b)"
    and "sint (get b) + sum_list (map (pod_limit get) ps) < 2 ^ 63"
  shows "sint (get a') = sint (get a) + sum_list (map (pod_request get) ps) \<and>
    sint (get b') = sint (get b) + sum_list (map (pod_limit get) ps)"
  using assms(2-)
proof (induction ps arbitrary: a b)
  case (Cons p ps)
  obtain l where l: "SetMaxLimits (GetResourceRequested p) (GetResourceLimits p) = Ret l"
    using Cons.prems(1) by (cases "SetMaxLimits (GetResourceRequested p) (GetResourceLimits p)") (simp_all add: Let_def)
  have gl: "sint (get l) = pod_limit get p"
    using SetMaxLimits_cases [where requests = "GetResourceRequested p" and limits = "GetResourceLimits p"] l assms(1)
    by (auto simp: dimension_def sint_setMax pod_limit_def pod_request_def)
  have run: "requests_limits_loop ps (accumulate a (GetResourceRequested p), accumulate b l) = Ret (a', b')"
    using Cons.prems(1) l by (simp add: Let_def)
  have nn: "0 \<le> pod_request get p" "pod_request get p \<le> pod_limit get p" "0 \<le> sum_list (map (pod_limit get) ps)"
    using Cons.prems(2) by (auto simp: pod_limit_def le_max_iff_disj intro!: sum_list_nonneg)
  have sa: "sint (get (accumulate a (GetResourceRequested p))) = sint (get a) + pod_request get p"
    using nn Cons.prems(3,4,5) by (simp add: accumulate_get [OF assms(1)] pod_request_def fits_sum [OF refl])
  have sb: "sint (get (accumulate b l)) = sint (get b) + pod_limit get p"
    using nn Cons.prems(3,4,5) gl by (simp add: accumulate_get [OF assms(1)] fits_sum [OF refl])
  show ?case using Cons.IH [OF run] Cons.prems nn sa sb by simp
qed simp

text \<open>the sums on a node whose pods ask for nothing negative and whose limits together fit: the
  request of the node is the sum of the requests, the pending pod included, capped by the capacity; its
  limit is the sum of the limits, each raised to the request.  When the limits exceed the capacity the
  divisor of the risk is positive and the risk is between 0 and 1.\<close>

theorem overcommitted_limits:
  assumes "dimension get" and "GetNodeRequestsAndLimits node rq lm = Ret nl"
    and "\<forall>p \<in> set (ld_Pods node). 0 \<le> pod_request get p"
    and "0 \<le> sint (get rq)" and "sint (get rq) \<le> sint (get lm)"
    and "sum_list (map (pod_limit get) (ld_Pods node)) + sint (get lm) < 2 ^ 63"
    and "0 \<le> sint (get (nl_Nodecapacity nl))"
  shows "sint (get (nl_NodeLimit nl)) = sum_list (map (pod_limit get) (ld_Pods node)) + sint (get lm) \<and>
    sint (get (nl_NodeRequest nl)) = min (sum_list (map (pod_request get) (ld_Pods node)) + sint (get rq)) (sint (get (nl_Nodecapacity nl))) \<and>
    (sint (get (nl_Nodecapacity nl)) < sint (get (nl_NodeLimit nl)) \<longrightarrow>
       0 < sint (get (nl_NodeLimit nl) - get (nl_NodeRequest nl)) \<and>
       0 \<le> limit_risk (get (nl_NodeLimit nl)) (get (nl_NodeRequest nl)) (get (nl_Nodecapacity nl)) \<and>
       limit_risk (get (nl_NodeLimit nl)) (get (nl_NodeRequest nl)) (get (nl_Nodecapacity nl)) \<le> 1)"
proof -
  obtain a b where lp: "requests_limits_loop (ld_Pods node) (zero_Resource, zero_Resource) = Ret (a, b)"
    using assms(2) by (cases "requests_limits_loop (ld_Pods node) (zero_Resource, zero_Resource)")
      (auto simp: GetNodeRequestsAndLimits_def Let_def)
  have z: "sint (get zero_Resource) = 0" using assms(1) by (auto simp: dimension_def zero_Resource_def)
  have nn: "0 \<le> sum_list (map (pod_request get) (ld_Pods node))" using assms(3) by (auto intro!: sum_list_nonneg)
  have le: "sum_list (map (pod_request get) (ld_Pods node)) \<le> sum_list (map (pod_limit get) (ld_Pods node))"
    by (intro sum_list_mono) (simp add: pod_limit_def)
  have s: "sint (get a) = sum_list (map (pod_request get) (ld_Pods node))" "sint (get b) = sum_list (map (pod_limit get) (ld_Pods node))"
    using loop_sums [OF assms(1) lp assms(3)] z assms(4-6) nn by simp_all
  have lim: "sint (get (nl_NodeLimit nl)) = sum_list (map (pod_limit get) (ld_Pods node)) + sint (get lm)"
  proof -
    have "get (nl_NodeLimit nl) = get b + get lm" using assms(1,2) lp accumulate_get [OF assms(1)] by (auto simp: GetNodeRequestsAndLimits_def Let_def)
    then show ?thesis using s le nn assms(4-6) by (simp add: fits_sum [OF s(2)])
  qed
  have req: "sint (get (nl_NodeRequest nl)) = min (sum_list (map (pod_request get) (ld_Pods node)) + sint (get rq)) (sint (get (nl_Nodecapacity nl)))"
  proof -
    have "get (nl_NodeRequest nl) = setMin (get a + get rq) (get (nl_Nodecapacity nl))"
      using assms(1,2) lp by (auto simp: dimension_def GetNodeRequestsAndLimits_def Let_def accumulate_def)
    then show ?thesis using s le nn assms(4-6) by (simp add: sint_setMin fits_sum [OF s(1)])
  qed
  have risk: "0 < sint (get (nl_NodeLimit nl) - get (nl_NodeRequest nl)) \<and>
       0 \<le> limit_risk (get (nl_NodeLimit nl)) (get (nl_NodeRequest nl)) (get (nl_Nodecapacity nl)) \<and>
       limit_risk (get (nl_NodeLimit nl)) (get (nl_NodeRequest nl)) (get (nl_Nodecapacity nl)) \<le> 1"
    if over: "sint (get (nl_Nodecapacity nl)) < sint (get (nl_NodeLimit nl))"
  proof -
    have r0: "0 \<le> sint (get (nl_NodeRequest nl))" "sint (get (nl_NodeRequest nl)) \<le> sint (get (nl_Nodecapacity nl))"
      using req nn assms(4,7) by simp_all
    have d: "sint (get (nl_NodeLimit nl) - get (nl_NodeRequest nl)) = sint (get (nl_NodeLimit nl)) - sint (get (nl_NodeRequest nl))"
      "sint (get (nl_NodeLimit nl) - get (nl_Nodecapacity nl)) = sint (get (nl_NodeLimit nl)) - sint (get (nl_Nodecapacity nl))"
      using over r0 sint_range64 [of "get (nl_NodeLimit nl)"] assms(7) by (simp_all add: sint_diff_fits)
    define n where "n = f64_of_int (get (nl_NodeLimit nl) - get (nl_Nodecapacity nl))"
    define m where "m = f64_of_int (get (nl_NodeLimit nl) - get (nl_NodeRequest nl))"
    have e: "n = f64 (of_int (sint (get (nl_NodeLimit nl)) - sint (get (nl_Nodecapacity nl))))"
      "m = f64 (of_int (sint (get (nl_NodeLimit nl)) - sint (get (nl_NodeRequest nl))))"
      unfolding n_def m_def f64_of_int_def d by simp_all
    have g: "0 \<le> f64 (of_int (L - C))" "f64 (of_int (L - C)) \<le> f64 (of_int (L - R))" "0 < f64 (of_int (L - R))"
      if "C < L" "R \<le> C" for L C R :: int
      using that by (auto intro!: f64_nonneg f64_mono f64_pos)
    have "0 \<le> n" unfolding e by (rule g(1) [OF over r0(2)])
    moreover have "n \<le> m" unfolding e by (rule g(2) [OF over r0(2)])
    moreover have "0 < m" unfolding e by (rule g(3) [OF over r0(2)])
    ultimately have nm: "0 \<le> n" "n \<le> m" "0 < m" by simp_all
    then have "0 \<le> n / m" "n / m \<le> of_int 1" by simp_all
    then have "0 \<le> f64_div n m" "f64_div n m \<le> 1" using f64_nonneg [of "n / m"] f64_le_int [of "n / m" 1] by (simp_all add: f64_div_def)
    then show ?thesis using over d r0 by (simp add: limit_risk_def n_def m_def)
  qed
  show ?thesis using lim req risk by blast
qed

definition ex_small_node :: load_node where
  "ex_small_node = \<lparr>ld_Capacity = [], ld_Allocatable = [(ResourceCPU, 1000000000)], ld_Pods = []\<rparr>"

theorem overcommitted_limits_witness:
  "(case GetNodeRequestsAndLimits ex_small_node (zero_Resource\<lparr>r_MilliCPU := 500\<rparr>) (zero_Resource\<lparr>r_MilliCPU := 2000\<rparr>) of
      Panic e \<Rightarrow> False
    | Ret nl \<Rightarrow> sint (r_MilliCPU (nl_NodeLimit nl)) = 2000 \<and> sint (r_MilliCPU (nl_NodeRequest nl)) = 500)"
proof -
  obtain nl where nl: "GetNodeRequestsAndLimits ex_small_node (zero_Resource\<lparr>r_MilliCPU := 500\<rparr>) (zero_Resource\<lparr>r_MilliCPU := 2000\<rparr>) = Ret nl"
    and cap: "r_MilliCPU (nl_Nodecapacity nl) = 1000"
    by (simp add: GetNodeRequestsAndLimits_def Let_def ex_small_node_def MilliValue_def ScaledValue_def)
  show ?thesis using overcommitted_limits [OF _ nl, of r_MilliCPU] nl cap
    by (simp add: dimension_def ex_small_node_def)
qed

end
