(* ===== verification/Score_Contract.thy ===== *)
theory Score_Contract
  imports Score_Properties Network_Properties Sysched_Properties Low_Risk_Properties
begin

text \<open>
  The contract between the framework and the scoring plugins: what the framework demands of the
  scores after normalization and how it weighs and adds them
  (\<^verbatim>\<open>frameworkImpl.RunScorePlugins\<close>).  The locale \<open>normalizer\<close> states what the framework relies on;
  every normalization of the plugins is shown to be one.
\<close>

section \<open>Weighing\<close>

text \<open>The loop over the plugins for one node: each score with the weight of its plugin.\<close>

fun weigh_node :: "(i64 \<times> i64) list \<Rightarrow> i64 \<Rightarrow> goerror + i64" where
  "weigh_node [] totalScore = Inr totalScore"
| "weigh_node ((weight, score) # ps) totalScore =
     (if sint score > sint MaxNodeScore \<or> sint score < sint MinNodeScore then Inl ''plugin returns an invalid score''
      else weigh_node ps (totalScore + score * weight))"

definition in_range :: "i64 \<Rightarrow> bool" where
  "in_range s \<longleftrightarrow> 0 \<le> sint s \<and> sint s \<le> 100"

lemma weigh_node_spec:
  assumes "list_all (\<lambda>(w, s). 0 \<le> sint w \<and> in_range s) ps" and "0 \<le> sint t"
    and "sint t + 100 * sum_list (map (\<lambda>(w, s). sint w) ps) < 2 ^ 63"
  shows "\<exists>r. weigh_node ps t = Inr r \<and> sint r = sint t + sum_list (map (\<lambda>(w, s). sint w * sint s) ps)"
  using assms
proof (induction ps arbitrary: t)
  case (Cons p ps)
  obtain w s where p: "p = (w, s)" by force
  have ws: "0 \<le> sint w" "0 \<le> sint s" "sint s \<le> 100" using Cons.prems(1) p by (simp_all add: in_range_def)
  have nn: "0 \<le> sum_list (map (\<lambda>(w, s). sint w) ps)" using Cons.prems(1) by (auto simp: list_all_iff intro!: sum_list_nonneg)
  have b: "sint w * sint s \<le> 100 * sint w" using mult_left_mono [OF ws(3,1)] by (simp add: mult.commute)
  have le: "sint t + sint w * sint s + 100 * sum_list (map (\<lambda>(w, s). sint w) ps) < 2 ^ 63" "0 \<le> sint w * sint s"
    using Cons.prems(3) b ws p by (auto simp: algebra_simps)
  have "sint (s * w) = sint w * sint s" using le Cons.prems(2) nn by (subst sint_mult_fits) (simp_all add: mult.commute)
  then have t: "sint (t + s * w) = sint t + sint w * sint s" using le Cons.prems(2) nn by (subst add_fits) simp_all
  show ?case using Cons.IH [of "t + s * w"] Cons.prems(1,2) le t ws p
    by (simp add: MaxNodeScore_def MinNodeScore_def add.assoc)
qed simp

section \<open>The contract\<close>

locale normalizer =
  fixes norm :: "(string \<times> i64) list \<Rightarrow> (string \<times> i64) list" and pre :: "(string \<times> i64) list \<Rightarrow> bool"
  assumes norm_length: "pre xs \<Longrightarrow> length (norm xs) = length xs"
    and norm_range: "pre xs \<Longrightarrow> list_all (\<lambda>(n, s). in_range s) (norm xs)"
begin

lemma score_accepted: "pre xs \<Longrightarrow> i < length xs \<Longrightarrow> in_range (snd (norm xs ! i))"
  using norm_range [of xs] norm_length [of xs] by (auto simp: list_all_length case_prod_beta)

end

definition fits_rescale :: "(string \<times> i64) list \<Rightarrow> bool" where
  "fits_rescale scores \<longleftrightarrow> list_all (\<lambda>(n, s). - (2 ^ 63) < sint s) scores \<and> (hi scores - lo scores) * 100 < 2 ^ 63"

lemma rescale_range:
  assumes "fits_rescale scores"
  shows "length (alloc_NormalizeScore scores) = length scores \<and> list_all (\<lambda>(n, s). in_range s) (alloc_NormalizeScore scores) \<and>
    ps_NormalizeScore scores = alloc_NormalizeScore scores"
proof -
  have a: "list_all (\<lambda>(n, s). - (2 ^ 63) < sint s) scores" "(hi scores - lo scores) * 100 < 2 ^ 63"
    using assms by (simp_all add: fits_rescale_def)
  show ?thesis using rescaled_scores [OF a] unfolding in_range_def by (metis length_map)
qed

interpretation nalloc: normalizer alloc_NormalizeScore fits_rescale
  by unfold_locales (use rescale_range in blast)+

interpretation nps: normalizer ps_NormalizeScore fits_rescale
  by unfold_locales (use rescale_range in \<open>simp_all\<close>)

definition small_counts :: "(string \<times> i64) list \<Rightarrow> bool" where
  "small_counts scores = list_all (\<lambda>(n, s). 0 \<le> sint s \<and> 100 * sint s < 2 ^ 63) scores"

lemma reversed_range:
  assumes "small_counts scores"
  shows "length (sys_NormalizeScore scores) = length scores \<and> list_all (\<lambda>(n, s). in_range s) (sys_NormalizeScore scores)"
proof -
  have "\<forall>(n, s) \<in> set scores. 0 \<le> sint s \<and> 100 * sint s < 2 ^ 63" using assms by (simp add: small_counts_def list_all_iff)
  then obtain m where m: "0 \<le> m" "\<forall>(n, s) \<in> set scores. sint s \<le> m"
    "sys_NormalizeScore scores = map (\<lambda>(n, s). (n, word_of_int (if m = 0 then 100 else 100 - 100 * sint s div m))) scores"
    using sys_NormalizeScore_spec by blast
  have "in_range (word_of_int (if m = 0 then 100 else 100 - 100 * sint s div m))" if "(n, s) \<in> set scores" for n s
  proof (cases "m = 0")
    case False
    have s: "0 \<le> sint s" "sint s \<le> m" using that m(2) assms by (auto simp: small_counts_def list_all_iff)
    then have "100 * sint s div m \<le> 100 * m div m" using m(1) by (intro zdiv_mono1) (use False in auto)
    moreover have "0 \<le> 100 * sint s div m" using s m(1) False by (simp add: pos_imp_zdiv_nonneg_iff)
    ultimately have q: "0 \<le> 100 - 100 * sint s div m" "100 - 100 * sint s div m \<le> 100" using False by simp_all
    have "sint (word_of_int (100 - 100 * sint s div m) :: i64) = 100 - 100 * sint s div m"
      using q by (intro sint_fits) simp_all
    then have "in_range (word_of_int (100 - 100 * sint s div m))" using q by (simp only: in_range_def)
    then show ?thesis using False by (simp only: if_False)
  qed (simp add: in_range_def)
  then show ?thesis unfolding m(3) by (auto simp: list_all_iff)
qed

interpretation nsys: normalizer sys_NormalizeScore small_counts
  by unfold_locales (use reversed_range in blast)+

definition close_costs :: "(string \<times> i64) list \<Rightarrow> bool" where
  "close_costs scores \<longleftrightarrow> hi scores - lo scores < 2 ^ 46 \<and> \<not> (hi scores = 0 \<and> lo scores = 0) \<and> scores \<noteq> []"

lemma costs_range:
  assumes "close_costs scores"
  shows "length (net_NormalizeScore scores) = length scores \<and> list_all (\<lambda>(n, s). in_range s) (net_NormalizeScore scores)"
proof -
  have a: "hi scores - lo scores < 2 ^ 46" "\<not> (hi scores = 0 \<and> lo scores = 0)" "scores \<noteq> []"
    using assms by (simp_all add: close_costs_def)
  obtain g where g: "map (sint \<circ> snd) (net_NormalizeScore scores) = map (g \<circ> sint \<circ> snd) scores"
    "map fst (net_NormalizeScore scores) = map fst scores" "g (lo scores) = 100" "lo scores < hi scores \<longrightarrow> g (hi scores) = 0"
    "\<forall>x y. lo scores \<le> x \<and> x \<le> y \<and> y \<le> hi scores \<longrightarrow> g y \<le> g x"
    using network_normalize [OF a] by blast
  have r: "0 \<le> g (sint s) \<and> g (sint s) \<le> 100" if "(n, s) \<in> set scores" for n s
  proof -
    have b: "lo scores \<le> sint s" "sint s \<le> hi scores" using hi_lo [OF that] by simp_all
    then have "g (sint s) \<le> g (lo scores)" "g (hi scores) \<le> g (sint s)" using g(5) by (meson order_refl order_trans)+
    moreover have "0 \<le> g (hi scores)" using g(3,4) b by (cases "lo scores = hi scores") simp_all
    ultimately show ?thesis using g(3) by simp
  qed
  have "list_all (\<lambda>v. 0 \<le> v \<and> v \<le> 100) (map (sint \<circ> snd) (net_NormalizeScore scores))"
    unfolding g(1) using r by (auto simp: list_all_iff)
  then have "list_all (\<lambda>(n, s). in_range s) (net_NormalizeScore scores)" by (simp add: list_all_iff in_range_def case_prod_beta)
  then show ?thesis using g(2) by (metis length_map)
qed

interpretation nnet: normalizer net_NormalizeScore close_costs
  by unfold_locales (use costs_range in blast)+

text \<open>Plugins that do not normalize: their scores are in range already.\<close>

interpretation nid: normalizer "\<lambda>scores. scores" "list_all (\<lambda>(n, s). in_range s)"
  by unfold_locales simp_all

lemma lvrb_in_range: "in_range (fst (lvrb_Score root_pow get_node args collected pod nodeName))"
  using risk_score_range by (simp add: in_range_def)

end
