(* ===== verification/Deep_Copy.thy ===== *)
theory Deep_Copy
  imports Prelude
begin

text \<open>
  The store in which the generated deep copies of \<^verbatim>\<open>zz_generated.deepcopy.go\<close> work, and the shapes
  these copies are made of.  An object of Go's heap is a cell at an address: an integer, a string,
  the backing array of a slice, a map, or a struct that something points to.  A pointer, slice or
  map field of a struct is an optional address, nil being \<open>None\<close>; a slice spans its backing array.
  The type of cells is a parameter here, so that every package brings its own.

  A copy reads a value that may hold addresses and gives the copied value and the store it has
  extended.  The locale \<open>deep_copier\<close> is the contract of such a copy: the copy has the contents of
  the original, lies in cells that did not exist before, and no existing cell has changed.  From it
  follows that the two objects are independent.  The shapes keep the contract: a value without
  pointers, two fields one after the other, a struct, a slice, a map, and an object behind a
  pointer.
\<close>

section \<open>The store\<close>

type_synonym addr = nat

type_synonym ptr = "addr option"

record 'c store =
  nxt :: addr
  heap :: "addr \<Rightarrow> 'c"

definition alloc :: "'c \<Rightarrow> 'c store \<Rightarrow> addr \<times> 'c store" where
  "alloc c s = (nxt s, s\<lparr>nxt := Suc (nxt s), heap := (heap s)(nxt s := c)\<rparr>)"

definition put :: "addr \<Rightarrow> 'c \<Rightarrow> 'c store \<Rightarrow> 'c store" where
  "put a c s = s\<lparr>heap := (heap s)(a := c)\<rparr>"

definition same_on :: "addr set \<Rightarrow> 'c store \<Rightarrow> 'c store \<Rightarrow> bool" where
  "same_on A s t = (\<forall>a\<in>A. heap t a = heap s a)"

definition extends :: "'c store \<Rightarrow> 'c store \<Rightarrow> bool" where
  "extends s t = (nxt s \<le> nxt t \<and> same_on {..<nxt s} s t)"

lemma extends_refl [simp]: "extends s s"
  by (simp add: extends_def same_on_def)

lemma extends_trans: "extends s t \<Longrightarrow> extends t u \<Longrightarrow> extends s u"
  by (auto simp: extends_def same_on_def)

lemma same_on_mono: "same_on B s t \<Longrightarrow> A \<subseteq> B \<Longrightarrow> same_on A s t"
  by (auto simp: same_on_def)

lemma extends_same: "extends s t \<Longrightarrow> A \<subseteq> {..<nxt s} \<Longrightarrow> same_on A s t"
  using same_on_mono by (auto simp: extends_def)

lemma extends_nxt: "extends s t \<Longrightarrow> nxt s \<le> nxt t"
  by (simp add: extends_def)

lemma extends_alloc: "alloc c s = (a, t) \<Longrightarrow> extends s t \<and> nxt t = Suc (nxt s) \<and> a = nxt s"
  by (auto simp: alloc_def extends_def same_on_def)

lemma extends_put: "extends s t \<Longrightarrow> nxt s \<le> a \<Longrightarrow> extends s (put a c t)"
  by (auto simp: extends_def same_on_def put_def)

section \<open>The contract\<close>

text \<open>
  \<open>contents\<close> is the value with every pointer replaced by what it points to, \<open>cells\<close> the addresses
  that the value reaches, and \<open>valid\<close> says that these exist and hold cells of the types the value
  needs.
\<close>

definition is_deep_copy :: "('c store \<Rightarrow> 'h \<Rightarrow> 'v) \<Rightarrow> ('c store \<Rightarrow> 'h \<Rightarrow> addr set) \<Rightarrow> ('c store \<Rightarrow> 'h \<Rightarrow> bool) \<Rightarrow>
    ('c store \<Rightarrow> 'h \<Rightarrow> 'h \<times> 'c store) \<Rightarrow> bool" where
  "is_deep_copy contents cells valid copy_value = (\<forall>s x y t. valid s x \<longrightarrow> copy_value s x = (y, t) \<longrightarrow>
     extends s t \<and> valid t x \<and> valid t y \<and> contents t y = contents s x \<and> cells t y \<subseteq> {nxt s..<nxt t} \<and>
     (\<forall>u. same_on (- cells t y) t u \<longrightarrow> contents u x = contents s x) \<and>
     (\<forall>u. same_on (- cells t x) t u \<longrightarrow> contents u y = contents s x))"

locale deep_copier =
  fixes contents :: "'c store \<Rightarrow> 'h \<Rightarrow> 'v"
    and cells :: "'c store \<Rightarrow> 'h \<Rightarrow> addr set"
    and valid :: "'c store \<Rightarrow> 'h \<Rightarrow> bool"
    and copy_value :: "'c store \<Rightarrow> 'h \<Rightarrow> 'h \<times> 'c store"
  assumes contents_local: "same_on (cells s x) s t \<Longrightarrow> contents t x = contents s x"
    and cells_local: "same_on (cells s x) s t \<Longrightarrow> cells t x = cells s x"
    and valid_local: "valid s x \<Longrightarrow> same_on (cells s x) s t \<Longrightarrow> nxt s \<le> nxt t \<Longrightarrow> valid t x"
    and valid_cells: "valid s x \<Longrightarrow> cells s x \<subseteq> {..<nxt s}"
    and copy_extends: "valid s x \<Longrightarrow> copy_value s x = (y, t) \<Longrightarrow> extends s t"
    and copy_valid: "valid s x \<Longrightarrow> copy_value s x = (y, t) \<Longrightarrow> valid t y"
    and copy_contents: "valid s x \<Longrightarrow> copy_value s x = (y, t) \<Longrightarrow> contents t y = contents s x"
    and copy_fresh: "valid s x \<Longrightarrow> copy_value s x = (y, t) \<Longrightarrow> cells t y \<subseteq> {nxt s..<nxt t}"
begin

lemma later:
  assumes "valid s x" and "extends s t"
  shows "contents t x = contents s x" and "cells t x = cells s x" and "valid t x"
proof -
  have same: "same_on (cells s x) s t" by (rule extends_same [OF assms(2) valid_cells [OF assms(1)]])
  show "contents t x = contents s x" "cells t x = cells s x" using same by (rule contents_local cells_local)+
  show "valid t x" by (rule valid_local [OF assms(1) same extends_nxt [OF assms(2)]])
qed

lemma original_kept:
  assumes "valid s x" and "copy_value s x = (y, t)"
  shows "contents t x = contents s x" and "cells t x = cells s x" and "valid t x"
  using later [OF assms(1) copy_extends [OF assms]] by auto

lemma disjoint_cells:
  assumes "valid s x" and "copy_value s x = (y, t)"
  shows "cells t x \<inter> cells t y = {}"
  using original_kept [OF assms] copy_fresh [OF assms] valid_cells [OF assms(1)] by fastforce

text \<open>Whatever is written to the cells of one of the two objects, the other keeps its contents.\<close>

lemma independent:
  assumes "valid s x" and "copy_value s x = (y, t)"
  shows "same_on (- cells t y) t u \<Longrightarrow> contents u x = contents s x"
    and "same_on (- cells t x) t u \<Longrightarrow> contents u y = contents s x"
proof -
  have d: "cells t x \<inter> cells t y = {}" by (rule disjoint_cells [OF assms])
  show "contents u x = contents s x" if "same_on (- cells t y) t u"
    using contents_local [OF same_on_mono [OF that], of x] d original_kept [OF assms] by auto
  show "contents u y = contents s x" if "same_on (- cells t x) t u"
    using contents_local [OF same_on_mono [OF that], of y] d copy_contents [OF assms] by auto
qed

lemma is_copy: "is_deep_copy contents cells valid copy_value"
  unfolding is_deep_copy_def
proof (intro allI impI conjI)
  fix s x y t
  assume v: "valid s x" and c: "copy_value s x = (y, t)"
  show "extends s t" by (rule copy_extends [OF v c])
  show "valid t x" by (rule original_kept(3) [OF v c])
  show "valid t y" by (rule copy_valid [OF v c])
  show "contents t y = contents s x" by (rule copy_contents [OF v c])
  show "cells t y \<subseteq> {nxt s..<nxt t}" by (rule copy_fresh [OF v c])
  show "contents u x = contents s x" if "same_on (- cells t y) t u" for u by (rule independent(1) [OF v c that])
  show "contents u y = contents s x" if "same_on (- cells t x) t u" for u by (rule independent(2) [OF v c that])
qed

end

named_theorems copy_simps \<open>how the copy of a struct is made of the copies of its fields\<close>

declare Un_assoc [copy_simps]

section \<open>Values without pointers\<close>

definition plain_copy :: "'c store \<Rightarrow> 'h \<Rightarrow> 'h \<times> 'c store" where
  "plain_copy s x = (x, s)"

lemma plain_copier: "deep_copier (\<lambda>s x. x) (\<lambda>s x. {}) (\<lambda>s x. True) plain_copy"
  by unfold_locales (auto simp: plain_copy_def)

section \<open>Fields one after the other\<close>

definition pair_copy :: "('c store \<Rightarrow> 'a \<Rightarrow> 'a \<times> 'c store) \<Rightarrow> ('c store \<Rightarrow> 'b \<Rightarrow> 'b \<times> 'c store) \<Rightarrow>
    'c store \<Rightarrow> 'a \<times> 'b \<Rightarrow> ('a \<times> 'b) \<times> 'c store" where
  "pair_copy first second s p = (let (a, s1) = first s (fst p); (b, s2) = second s1 (snd p) in ((a, b), s2))"

declare pair_copy_def [copy_simps]

locale copier_pair =
  f: deep_copier contents1 cells1 valid1 copy1 + g: deep_copier contents2 cells2 valid2 copy2
  for contents1 :: "'c store \<Rightarrow> 'a \<Rightarrow> 'x" and cells1 valid1 copy1
    and contents2 :: "'c store \<Rightarrow> 'b \<Rightarrow> 'y" and cells2 valid2 copy2
begin

lemma pair_steps:
  assumes "valid1 s (fst p) \<and> valid2 s (snd p)" and "pair_copy copy1 copy2 s p = (q, u)"
  obtains t where "extends s t" "extends t u"
    "valid1 t (fst q)" "contents1 t (fst q) = contents1 s (fst p)" "cells1 t (fst q) \<subseteq> {nxt s..<nxt t}"
    "valid2 u (snd q)" "contents2 u (snd q) = contents2 s (snd p)" "cells2 u (snd q) \<subseteq> {nxt t..<nxt u}"
proof -
  obtain a t where ft: "copy1 s (fst p) = (a, t)" by fastforce
  obtain b where gt: "copy2 t (snd p) = (b, u)" and q: "q = (a, b)"
    using assms(2) ft by (auto simp: pair_copy_def split: prod.splits)
  have v: "valid1 s (fst p)" "valid2 s (snd p)" using assms(1) by auto
  note first = f.copy_extends [OF v(1) ft] f.copy_valid [OF v(1) ft] f.copy_contents [OF v(1) ft] f.copy_fresh [OF v(1) ft]
  note kept = g.later [OF v(2) first(1)]
  note second = g.copy_extends [OF kept(3) gt] g.copy_valid [OF kept(3) gt] g.copy_contents [OF kept(3) gt] g.copy_fresh [OF kept(3) gt]
  show thesis using that [of t] first second kept q by simp
qed

lemma pair_copier:
  "deep_copier (\<lambda>s p. (contents1 s (fst p), contents2 s (snd p))) (\<lambda>s p. cells1 s (fst p) \<union> cells2 s (snd p))
     (\<lambda>s p. valid1 s (fst p) \<and> valid2 s (snd p)) (pair_copy copy1 copy2)"
proof
  fix s :: "'c store" and p :: "'a \<times> 'b" and q u
  assume v: "valid1 s (fst p) \<and> valid2 s (snd p)"
  then show "cells1 s (fst p) \<union> cells2 s (snd p) \<subseteq> {..<nxt s}" using f.valid_cells g.valid_cells by blast
  assume "pair_copy copy1 copy2 s p = (q, u)"
  then obtain t where t: "extends s t" "extends t u"
    "valid1 t (fst q)" "contents1 t (fst q) = contents1 s (fst p)" "cells1 t (fst q) \<subseteq> {nxt s..<nxt t}"
    "valid2 u (snd q)" "contents2 u (snd q) = contents2 s (snd p)" "cells2 u (snd q) \<subseteq> {nxt t..<nxt u}"
    using pair_steps [OF v] by metis
  note kept = f.later [OF t(3) t(2)]
  show "extends s u" by (rule extends_trans [OF t(1,2)])
  show "valid1 u (fst q) \<and> valid2 u (snd q)" using kept t by simp
  show "(contents1 u (fst q), contents2 u (snd q)) = (contents1 s (fst p), contents2 s (snd p))" using kept t by simp
  show "cells1 u (fst q) \<union> cells2 u (snd q) \<subseteq> {nxt s..<nxt u}"
    using kept t extends_nxt [OF t(1)] extends_nxt [OF t(2)] by fastforce
next
  fix s t :: "'c store" and p :: "'a \<times> 'b"
  assume "same_on (cells1 s (fst p) \<union> cells2 s (snd p)) s t"
  then have same: "same_on (cells1 s (fst p)) s t" "same_on (cells2 s (snd p)) s t" by (auto simp: same_on_def)
  show "(contents1 t (fst p), contents2 t (snd p)) = (contents1 s (fst p), contents2 s (snd p))"
    using f.contents_local [OF same(1)] g.contents_local [OF same(2)] by simp
  show "cells1 t (fst p) \<union> cells2 t (snd p) = cells1 s (fst p) \<union> cells2 s (snd p)"
    using f.cells_local [OF same(1)] g.cells_local [OF same(2)] by simp
  assume "valid1 s (fst p) \<and> valid2 s (snd p)" and "nxt s \<le> nxt t"
  then show "valid1 t (fst p) \<and> valid2 t (snd p)" using f.valid_local same(1) g.valid_local same(2) by blast
qed

end

lemma pair_deep_copier:
  assumes "deep_copier contents1 cells1 valid1 copy1" and "deep_copier contents2 cells2 valid2 copy2"
  shows "deep_copier (\<lambda>s p. (contents1 s (fst p), contents2 s (snd p))) (\<lambda>s p. cells1 s (fst p) \<union> cells2 s (snd p))
     (\<lambda>s p. valid1 s (fst p) \<and> valid2 s (snd p)) (pair_copy copy1 copy2)"
  by (rule copier_pair.pair_copier) (simp add: copier_pair_def assms)

section \<open>Structs\<close>

text \<open>
  A struct with the pointer fields \<open>parts x\<close>, written back by \<open>put_parts\<close>; \<open>view\<close> makes the
  contents of the struct from those of its pointer fields and from its other fields.
\<close>

lemma struct_copier:
  assumes "deep_copier contents1 cells1 valid1 copy1"
    and contents: "\<And>s x. contents s x = view x (contents1 s (parts x))"
    and cells: "\<And>s x. cells s x = cells1 s (parts x)"
    and valid: "\<And>s x. valid s x = valid1 s (parts x)"
    and copy_value: "\<And>s x. copy_value s x = (let (y, t) = copy1 s (parts x) in (put_parts x y, t))"
    and get_set: "\<And>x y. parts (put_parts x y) = y"
    and view_set: "\<And>x y v. view (put_parts x y) v = view x v"
  shows "deep_copier contents cells valid copy_value"
proof -
  have c: "copy_value s x = (y, t) \<Longrightarrow> \<exists>z. copy1 s (parts x) = (z, t) \<and> y = put_parts x z" for s x y t
    by (auto simp: copy_value split: prod.splits)
  note given = assms(1)
  show ?thesis
  proof
    fix s x y t
    assume v: "valid s x" and step: "copy_value s x = (y, t)"
    from v have v1: "valid1 s (parts x)" by (simp add: valid)
    from c [OF step] obtain z where z: "copy1 s (parts x) = (z, t)" and y: "y = put_parts x z" by blast
    show "extends s t" by (rule deep_copier.copy_extends [OF given v1 z])
    show "valid t y" using deep_copier.copy_valid [OF given v1 z] by (simp add: valid y get_set)
    show "contents t y = contents s x"
      using deep_copier.copy_contents [OF given v1 z] by (simp add: contents y get_set view_set)
    show "cells t y \<subseteq> {nxt s..<nxt t}" using deep_copier.copy_fresh [OF given v1 z] by (simp add: cells y get_set)
  next
    fix s t x
    assume "same_on (cells s x) s t"
    then have same: "same_on (cells1 s (parts x)) s t" by (simp add: cells)
    show "contents t x = contents s x" using deep_copier.contents_local [OF given, OF same] by (simp add: contents)
    show "cells t x = cells s x" using deep_copier.cells_local [OF given, OF same] by (simp add: cells)
    assume "valid s x" and "nxt s \<le> nxt t"
    then show "valid t x" using deep_copier.valid_local [OF given, OF _ same] by (simp add: valid)
  next
    fix s x
    assume "valid s x"
    then show "cells s x \<subseteq> {..<nxt s}" using deep_copier.valid_cells [OF given] by (simp add: valid cells)
  qed
qed


section \<open>Slices\<close>

text \<open>The loop \<^verbatim>\<open>for i := range *in { (*in)[i].DeepCopyInto(&(*out)[i]) }\<close>; with \<open>plain_copy\<close> it is Go's \<open>copy\<close>.\<close>

fun copy_each :: "('c store \<Rightarrow> 'h \<Rightarrow> 'h \<times> 'c store) \<Rightarrow> 'c store \<Rightarrow> 'h list \<Rightarrow> 'h list \<times> 'c store" where
  "copy_each copy_value s [] = ([], s)"
| "copy_each copy_value s (x # xs) =
     (let (y, s1) = copy_value s x; (ys, s2) = copy_each copy_value s1 xs in (y # ys, s2))"

definition each_cells :: "('c store \<Rightarrow> 'h \<Rightarrow> addr set) \<Rightarrow> 'c store \<Rightarrow> 'h list \<Rightarrow> addr set" where
  "each_cells cells s xs = (\<Union>x\<in>set xs. cells s x)"

definition each_valid :: "('c store \<Rightarrow> 'h \<Rightarrow> bool) \<Rightarrow> 'c store \<Rightarrow> 'h list \<Rightarrow> bool" where
  "each_valid valid s xs = list_all (valid s) xs"

definition each_contents :: "('c store \<Rightarrow> 'h \<Rightarrow> 'v) \<Rightarrow> 'c store \<Rightarrow> 'h list \<Rightarrow> 'v list" where
  "each_contents contents s xs = map (contents s) xs"

lemmas each_defs = each_cells_def each_valid_def each_contents_def

context deep_copier
begin

lemma each_local:
  assumes "same_on (each_cells cells s xs) s t"
  shows "each_contents contents t xs = each_contents contents s xs" and "each_cells cells t xs = each_cells cells s xs"
    and "each_valid valid s xs \<Longrightarrow> nxt s \<le> nxt t \<Longrightarrow> each_valid valid t xs"
proof -
  have same: "same_on (cells s x) s t" if "x \<in> set xs" for x
    using assms that by (intro same_on_mono [OF assms]) (auto simp: each_defs)
  show "each_contents contents t xs = each_contents contents s xs"
    using contents_local [OF same] by (simp add: each_contents_def)
  show "each_cells cells t xs = each_cells cells s xs"
    using cells_local [OF same] by (simp add: each_cells_def)
  show "each_valid valid s xs \<Longrightarrow> nxt s \<le> nxt t \<Longrightarrow> each_valid valid t xs"
    using valid_local [OF _ same] by (auto simp: each_valid_def list_all_iff)
qed

lemma each_cells_below: "each_valid valid s xs \<Longrightarrow> each_cells cells s xs \<subseteq> {..<nxt s}"
  using valid_cells by (fastforce simp: each_defs list_all_iff)

lemma each_later:
  assumes "each_valid valid s xs" and "extends s t"
  shows "each_contents contents t xs = each_contents contents s xs" "each_cells cells t xs = each_cells cells s xs" "each_valid valid t xs"
  using each_local [OF extends_same [OF assms(2) each_cells_below [OF assms(1)]]] assms extends_nxt by auto

lemma each_copy:
  assumes "each_valid valid s xs" and "copy_each copy_value s xs = (ys, u)"
  shows "extends s u \<and> each_valid valid u ys \<and> each_contents contents u ys = each_contents contents s xs \<and>
    each_cells cells u ys \<subseteq> {nxt s..<nxt u}"
  using assms
proof (induction xs arbitrary: s ys)
  case Nil
  then show ?case by (auto simp: each_defs)
next
  case (Cons x xs)
  obtain y t where y: "copy_value s x = (y, t)" by fastforce
  obtain zs where zs: "copy_each copy_value t xs = (zs, u)" and ys: "ys = y # zs"
    using Cons.prems(2) y by (auto split: prod.splits)
  have v: "valid s x" "each_valid valid s xs" using Cons.prems(1) by (auto simp: each_defs)
  have ext: "extends s t" by (rule copy_extends [OF v(1) y])
  note kept = each_later [OF v(2) ext]
  have rest: "extends t u \<and> each_valid valid u zs \<and> each_contents contents u zs = each_contents contents t xs \<and>
    each_cells cells u zs \<subseteq> {nxt t..<nxt u}" by (rule Cons.IH [OF kept(3) zs])
  then have tu: "extends t u" by blast
  note first = later [OF copy_valid [OF v(1) y] tu]
  have "extends s u" by (rule extends_trans [OF ext tu])
  moreover have "each_valid valid u ys" using first rest ys by (simp add: each_defs)
  moreover have "each_contents contents u ys = each_contents contents s (x # xs)"
    using first(1) copy_contents [OF v(1) y] rest kept(1) ys by (simp add: each_defs)
  moreover have "each_cells cells u ys \<subseteq> {nxt s..<nxt u}"
    using first(2) copy_fresh [OF v(1) y] rest ys extends_nxt [OF ext] extends_nxt [OF tu] by (fastforce simp: each_defs)
  ultimately show ?case by blast
qed

lemma each_copier: "deep_copier (each_contents contents) (each_cells cells) (each_valid valid) (copy_each copy_value)"
  by unfold_locales (use each_local each_cells_below each_copy in blast)+

end

section \<open>Maps\<close>

text \<open>
  The loop \<^verbatim>\<open>for key, val := range *in { (*out)[key] = val.DeepCopy() }\<close>, from an empty map; with
  \<open>plain_copy\<close> the values are assigned.
\<close>

fun copy_entries :: "('c store \<Rightarrow> 'h \<Rightarrow> 'h \<times> 'c store) \<Rightarrow> 'c store \<Rightarrow> ('k, 'h) gomap \<Rightarrow> ('k, 'h) gomap \<Rightarrow> ('k, 'h) gomap \<times> 'c store" where
  "copy_entries copy_value s [] out = (out, s)"
| "copy_entries copy_value s ((key, val) # rest) out =
     (let (val', s1) = copy_value s val in copy_entries copy_value s1 rest (AList.update key val' out))"

definition map_copy :: "('c store \<Rightarrow> 'h \<Rightarrow> 'h \<times> 'c store) \<Rightarrow> 'c store \<Rightarrow> ('k, 'h) gomap \<Rightarrow> ('k, 'h) gomap \<times> 'c store" where
  "map_copy copy_value s m = copy_entries copy_value s m []"

definition map_contents :: "('c store \<Rightarrow> 'h \<Rightarrow> 'v) \<Rightarrow> 'c store \<Rightarrow> ('k, 'h) gomap \<Rightarrow> ('k, 'v) gomap" where
  "map_contents contents s m = map (\<lambda>(k, v). (k, contents s v)) m"

definition map_cells :: "('c store \<Rightarrow> 'h \<Rightarrow> addr set) \<Rightarrow> 'c store \<Rightarrow> ('k, 'h) gomap \<Rightarrow> addr set" where
  "map_cells cells s m = each_cells cells s (map snd m)"

definition map_valid :: "('c store \<Rightarrow> 'h \<Rightarrow> bool) \<Rightarrow> 'c store \<Rightarrow> ('k, 'h) gomap \<Rightarrow> bool" where
  "map_valid valid s m = (gm_wf m \<and> each_valid valid s (map snd m))"

lemma update_new: "k \<notin> fst ` set m \<Longrightarrow> AList.update k v m = m @ [(k, v)]"
  by (induction m) auto

lemma copy_entries_each:
  assumes "gm_wf m" and "fst ` set m \<inter> fst ` set out = {}"
  shows "copy_entries copy_value s m out =
    (let (vs, t) = copy_each copy_value s (map snd m) in (out @ zip (map fst m) vs, t))"
  using assms
proof (induction m arbitrary: s out)
  case (Cons p m)
  obtain k v where p: "p = (k, v)" by fastforce
  have "gm_wf m" "fst ` set m \<inter> fst ` set (out @ [(k, w)]) = {}" for w
    using Cons.prems p by (auto simp: gm_wf_def)
  then show ?case using Cons.IH Cons.prems p by (simp add: update_new split: prod.splits)
qed simp

lemma map_copy_each:
  "gm_wf m \<Longrightarrow> map_copy copy_value s m = (let (vs, t) = copy_each copy_value s (map snd m) in (zip (map fst m) vs, t))"
  by (simp add: map_copy_def copy_entries_each)

lemma copy_each_length: "copy_each copy_value s xs = (ys, t) \<Longrightarrow> length ys = length xs"
  by (induction xs arbitrary: s ys) (auto split: prod.splits)

lemma map_contents_zip: "map_contents contents s m = zip (map fst m) (each_contents contents s (map snd m))"
  by (induction m) (auto simp: map_contents_def each_defs)

context deep_copier
begin

lemma map_copier: "deep_copier (map_contents contents) (map_cells cells) (map_valid valid) (map_copy copy_value)"
proof
  fix s m q u
  assume "map_valid valid s m"
  then have wf: "gm_wf m" and v: "each_valid valid s (map snd m)" by (auto simp: map_valid_def)
  then show "map_cells cells s m \<subseteq> {..<nxt s}" by (simp add: map_cells_def each_cells_below)
  assume "map_copy copy_value s m = (q, u)"
  then obtain vs where vs: "copy_each copy_value s (map snd m) = (vs, u)" and q: "q = zip (map fst m) vs"
    by (auto simp: map_copy_each [OF wf] split: prod.splits)
  have len: "length vs = length m" using copy_each_length [OF vs] by simp
  have keys: "map fst q = map fst m" "map snd q = vs" using q len by simp_all
  note each = each_copy [OF v vs]
  show "extends s u" using each by blast
  show "map_valid valid u q" using each wf keys by (simp add: map_valid_def gm_wf_def)
  show "map_contents contents u q = map_contents contents s m" using each keys by (simp add: map_contents_zip)
  show "map_cells cells u q \<subseteq> {nxt s..<nxt u}" using each keys by (simp add: map_cells_def)
next
  fix s t m
  assume "same_on (map_cells cells s m) s t"
  then have same: "same_on (each_cells cells s (map snd m)) s t" by (simp add: map_cells_def)
  show "map_contents contents t m = map_contents contents s m" using each_local(1) [OF same] by (simp add: map_contents_zip)
  show "map_cells cells t m = map_cells cells s m" using each_local(2) [OF same] by (simp add: map_cells_def)
  assume "map_valid valid s m" and "nxt s \<le> nxt t"
  then show "map_valid valid t m" using each_local(3) [OF same] by (simp add: map_valid_def)
qed

end

section \<open>Objects behind a pointer\<close>

text \<open>
  \<^verbatim>\<open>if p != nil { out := new(T); p.DeepCopyInto(out) }\<close>: \<open>un\<close> and \<open>mk\<close> take a value of type T out of
  its cell and put it there, \<open>zero\<close> is the cell that \<^verbatim>\<open>new\<close> and \<^verbatim>\<open>make\<close> allocate.
\<close>

definition box_copy :: "'c \<Rightarrow> ('c \<Rightarrow> 'h) \<Rightarrow> ('h \<Rightarrow> 'c) \<Rightarrow> ('c store \<Rightarrow> 'h \<Rightarrow> 'h \<times> 'c store) \<Rightarrow>
    'c store \<Rightarrow> ptr \<Rightarrow> ptr \<times> 'c store" where
  "box_copy zero un mk copy_value s p = (case p of
     None \<Rightarrow> (None, s)
   | Some a \<Rightarrow>
       (let (out, s1) = alloc zero s; (v, s2) = copy_value s1 (un (heap s1 a)) in (Some out, put out (mk v) s2)))"

definition box_contents :: "('c \<Rightarrow> 'h) \<Rightarrow> ('c store \<Rightarrow> 'h \<Rightarrow> 'v) \<Rightarrow> 'c store \<Rightarrow> ptr \<Rightarrow> 'v option" where
  "box_contents un contents s p = map_option (\<lambda>a. contents s (un (heap s a))) p"

definition box_cells :: "('c \<Rightarrow> 'h) \<Rightarrow> ('c store \<Rightarrow> 'h \<Rightarrow> addr set) \<Rightarrow> 'c store \<Rightarrow> ptr \<Rightarrow> addr set" where
  "box_cells un cells s p = (case p of None \<Rightarrow> {} | Some a \<Rightarrow> insert a (cells s (un (heap s a))))"

definition box_valid :: "('c \<Rightarrow> 'h) \<Rightarrow> ('h \<Rightarrow> 'c) \<Rightarrow> ('c store \<Rightarrow> 'h \<Rightarrow> bool) \<Rightarrow> 'c store \<Rightarrow> ptr \<Rightarrow> bool" where
  "box_valid un mk valid s p = (case p of None \<Rightarrow> True | Some a \<Rightarrow>
     a < nxt s \<and> heap s a = mk (un (heap s a)) \<and> valid s (un (heap s a)))"

lemmas box_defs = box_contents_def box_cells_def box_valid_def

lemma put_same: "a \<notin> A \<Longrightarrow> same_on A s (put a c s)"
  by (auto simp: same_on_def put_def)

lemma put_simps [simp]: "nxt (put a c s) = nxt s" "heap (put a c s) a = c"
  by (auto simp: put_def)

context deep_copier
begin

lemma box_local:
  assumes "same_on (box_cells un cells s p) s t"
  shows "box_contents un contents t p = box_contents un contents s p" and "box_cells un cells t p = box_cells un cells s p"
    and "box_valid un mk valid s p \<Longrightarrow> nxt s \<le> nxt t \<Longrightarrow> box_valid un mk valid t p"
proof -
  have cell: "heap t a = heap s a" and same: "same_on (cells s (un (heap s a))) s t" if "p = Some a" for a
    using assms that by (auto simp: box_defs same_on_def)
  show "box_contents un contents t p = box_contents un contents s p"
    using contents_local [OF same] cell by (cases p) (simp_all add: box_contents_def)
  show "box_cells un cells t p = box_cells un cells s p"
    using cells_local [OF same] cell by (cases p) (simp_all add: box_cells_def)
  show "box_valid un mk valid s p \<Longrightarrow> nxt s \<le> nxt t \<Longrightarrow> box_valid un mk valid t p"
    using valid_local [OF _ same] cell by (cases p) (auto simp: box_valid_def)
qed

text \<open>The copied object is at the first free address, and no pointer in it leads back there.\<close>

lemma box_steps:
  assumes "\<And>v. un (mk v) = v" and v: "box_valid un mk valid s (Some a)"
    and step: "box_copy zero un mk copy_value s (Some a) = (q, u)"
  shows "extends s u \<and> box_valid un mk valid u q \<and>
    box_contents un contents u q = box_contents un contents s (Some a) \<and> box_cells un cells u q \<subseteq> {nxt s..<nxt u} \<and>
    q = Some (nxt s) \<and> nxt s \<notin> cells u (un (heap u (nxt s)))"
proof -
  let ?x = "un (heap s a)"
  obtain out t where t: "alloc zero s = (out, t)" by fastforce
  note al = extends_alloc [OF t]
  have vx: "valid s ?x" and a: "a < nxt s" using v by (auto simp: box_defs)
  have ha: "heap t a = heap s a" using al a by (auto simp: extends_def same_on_def)
  obtain y w where y: "copy_value t ?x = (y, w)" by fastforce
  have q: "q = Some out" and u: "u = put out (mk y) w" using step t y ha by (auto simp: box_copy_def)
  note kept = later [OF vx conjunct1 [OF al]]
  note tw = copy_extends [OF kept(3) y]
  note fresh = copy_fresh [OF kept(3) y]
  have out: "out \<notin> cells w y" "out = nxt s" "nxt t = Suc (nxt s)" using fresh al by auto
  have same: "same_on (cells w y) w u" unfolding u by (rule put_same [OF out(1)])
  have in_u: "contents u y = contents s ?x" "cells u y = cells w y" "valid u y"
    using contents_local [OF same] cells_local [OF same] valid_local [OF copy_valid [OF kept(3) y] same]
      copy_contents [OF kept(3) y] kept(1) u by simp_all
  have "extends s u" unfolding u using extends_put [OF extends_trans [OF conjunct1 [OF al] tw]] out by simp
  moreover have "nxt u = nxt w" "nxt t \<le> nxt w" using u extends_nxt [OF tw] by simp_all
  ultimately show ?thesis using in_u fresh out u q assms(1) by (auto simp: box_defs)
qed

lemma box_copier:
  assumes "\<And>v. un (mk v) = v"
  shows "deep_copier (box_contents un contents) (box_cells un cells) (box_valid un mk valid) (box_copy zero un mk copy_value)"
proof
  fix s p q u
  assume v: "box_valid un mk valid s p"
  show "box_cells un cells s p \<subseteq> {..<nxt s}"
    using v valid_cells by (cases p) (auto simp: box_defs)
  assume step: "box_copy zero un mk copy_value s p = (q, u)"
  have "extends s u \<and> box_valid un mk valid u q \<and>
    box_contents un contents u q = box_contents un contents s p \<and> box_cells un cells u q \<subseteq> {nxt s..<nxt u}"
  proof (cases p)
    case None
    then show ?thesis using step by (auto simp: box_copy_def box_defs)
  next
    case (Some a)
    then show ?thesis using box_steps [where un = un and mk = mk, OF assms] v step by simp
  qed
  then show "extends s u" "box_valid un mk valid u q" "box_contents un contents u q = box_contents un contents s p"
    "box_cells un cells u q \<subseteq> {nxt s..<nxt u}" by auto
next
  fix s t p
  assume "same_on (box_cells un cells s p) s t"
  note same = box_local [OF this]
  show "box_contents un contents t p = box_contents un contents s p" "box_cells un cells t p = box_cells un cells s p"
    by (rule same)+
  show "box_valid un mk valid t p" if "box_valid un mk valid s p" "nxt s \<le> nxt t" using same(3) that by simp
qed

end

end
