(* ===== verification/Deep_Copy_Cells.thy ===== *)
theory Deep_Copy_Cells
  imports Deep_Copy Plugin_Args
begin

text \<open>
  The cells of the store: what the pointers, slices and maps of the plugins' arguments and of the
  two custom resources lead to.  A struct whose fields are addresses has the prefix \<open>h\<close>, for its form in the heap;
  the record without it has the contents in place of the addresses, as the rest of the development
  uses it.  The embedded TypeMeta, two strings that every copy assigns, is left out as there.

  The copies of a pointer to an integer, string, bool or float64, of a slice and of a map are the
  statements that \<^verbatim>\<open>deepcopy-gen\<close> writes for a field of that type.
\<close>

section \<open>Structs that other objects point to or hold\<close>

record hv1_ScoringStrategy =
  hvss_Type :: string
  hvss_Resources :: ptr

record hv1_NodeResourceTopologyCache =
  hvnc_ForeignPodsDetect :: ptr
  hvnc_ResyncMethod :: ptr
  hvnc_InformerMode :: ptr

record hNodeResourceTopologyCache =
  hnc_ForeignPodsDetect :: ptr
  hnc_ResyncMethod :: ptr
  hnc_InformerMode :: ptr

record hapi_OwnerReference =
  hao_APIVersion :: string
  hao_Kind :: string
  hao_Name :: string
  hao_UID :: string
  hao_Controller :: ptr
  hao_BlockOwnerDeletion :: ptr

record hapi_FieldsV1 =
  haf_Raw :: ptr

record hapi_ManagedFieldsEntry =
  ham_Manager :: string
  ham_Operation :: string
  ham_APIVersion :: string
  ham_Time :: ptr
  ham_FieldsType :: string
  ham_FieldsV1 :: ptr
  ham_Subresource :: string

record hapi_ObjectMeta =
  hom_Name :: string
  hom_GenerateName :: string
  hom_Namespace :: string
  hom_SelfLink :: string
  hom_UID :: string
  hom_ResourceVersion :: string
  hom_Generation :: i64
  hom_CreationTimestamp :: int
  hom_DeletionTimestamp :: ptr
  hom_DeletionGracePeriodSeconds :: ptr
  hom_Labels :: ptr
  hom_Annotations :: ptr
  hom_OwnerReferences :: ptr
  hom_Finalizers :: ptr
  hom_ManagedFields :: ptr

record api_PodGroupStatus =
  apt_Phase :: string
  apt_OccupiedBy :: string
  apt_Running :: i32
  apt_Succeeded :: i32
  apt_Failed :: i32
  apt_ScheduleStartTime :: "int option"

record hapi_ElasticQuotaSpec =
  haes_Min :: ptr
  haes_Max :: ptr

record hapi_ElasticQuotaStatus =
  haet_Used :: ptr

record hapi_ElasticQuota =
  haeq_ObjectMeta :: hapi_ObjectMeta
  haeq_Spec :: hapi_ElasticQuotaSpec
  haeq_Status :: hapi_ElasticQuotaStatus

record hapi_PodGroupSpec =
  haps_MinMember :: i32
  haps_MinResources :: ptr
  haps_ScheduleTimeoutSeconds :: ptr

record hapi_PodGroup =
  hapg_ObjectMeta :: hapi_ObjectMeta
  hapg_Spec :: hapi_PodGroupSpec
  hapg_Status :: api_PodGroupStatus

text \<open>A quantity keeps its value in the struct, or behind a pointer to an \<^verbatim>\<open>inf.Dec\<close> when that is set.\<close>

record hquantity =
  hq_amount :: quantity
  hq_Dec :: ptr

datatype 'o cell = CZero
  | CI64 (un_CI64: i64) | CI32 (un_CI32: i32) | CString (un_CString: string) | CBool (un_CBool: bool)
  | CFloat64 (un_CFloat64: rat) | CTime (un_CTime: int) | CDec (un_CDec: int)
  | CStrings (un_CStrings: "string list") | CSpecs (un_CSpecs: "ResourceSpec list") | CBytes (un_CBytes: "8 word list")
  | CWeights (un_CWeights: "(string, rat) gomap") | CLabels (un_CLabels: "(string, string) gomap")
  | CResources (un_CResources: "(string, hquantity) gomap")
  | CV1Strategy (un_CV1Strategy: hv1_ScoringStrategy) | CV1Cache (un_CV1Cache: hv1_NodeResourceTopologyCache)
  | CCache (un_CCache: hNodeResourceTopologyCache)
  | COwners (un_COwners: "hapi_OwnerReference list") | CFields (un_CFields: hapi_FieldsV1)
  | CManaged (un_CManaged: "hapi_ManagedFieldsEntry list")
  | CQuotas (un_CQuotas: "hapi_ElasticQuota list") | CGroups (un_CGroups: "hapi_PodGroup list")
  | CObject (un_CObject: 'o)

definition opt_list :: "'a list option \<Rightarrow> 'a list" where
  "opt_list p = (case p of None \<Rightarrow> [] | Some xs \<Rightarrow> xs)"

text \<open>\<^verbatim>\<open>DeepCopy\<close> is the same for every type: nil for nil, else a new object that \<^verbatim>\<open>DeepCopyInto\<close> fills.\<close>

definition new_copy :: "('o cell store \<Rightarrow> 'o \<Rightarrow> 'o \<times> 'o cell store) \<Rightarrow> 'o cell store \<Rightarrow> ptr \<Rightarrow> ptr \<times> 'o cell store" where
  "new_copy into s inp = (case inp of
     None \<Rightarrow> (None, s)
   | Some a \<Rightarrow>
       (let (out, s1) = alloc CZero s; (v, s2) = into s1 (un_CObject (heap s1 a)) in (Some out, put out (CObject v) s2)))"

lemma new_copy_box: "new_copy into = box_copy CZero un_CObject CObject into"
  by (simp add: fun_eq_iff new_copy_def box_copy_def)

abbreviation object_contents where "object_contents contents \<equiv> box_contents un_CObject contents"
abbreviation object_cells where "object_cells cells \<equiv> box_cells un_CObject cells"
abbreviation object_valid where "object_valid valid \<equiv> box_valid un_CObject CObject valid"

lemma new_copy_copier:
  "deep_copier contents cells valid into \<Longrightarrow>
   deep_copier (object_contents contents) (object_cells cells) (object_valid valid) (new_copy into)"
  unfolding new_copy_box by (rule deep_copier.box_copier) simp_all

section \<open>Pointers to values\<close>

abbreviation i64_contents where "i64_contents \<equiv> box_contents un_CI64 (\<lambda>s x. x)"
abbreviation i64_cells where "i64_cells \<equiv> box_cells un_CI64 (\<lambda>s x. {})"
abbreviation i64_valid where "i64_valid \<equiv> box_valid un_CI64 CI64 (\<lambda>s x. True)"
abbreviation copy_i64 where "copy_i64 \<equiv> box_copy CZero un_CI64 CI64 plain_copy"

lemma i64_copier: "deep_copier i64_contents i64_cells i64_valid copy_i64"
  by (rule deep_copier.box_copier [OF plain_copier]) simp

abbreviation i32_contents where "i32_contents \<equiv> box_contents un_CI32 (\<lambda>s x. x)"
abbreviation i32_cells where "i32_cells \<equiv> box_cells un_CI32 (\<lambda>s x. {})"
abbreviation i32_valid where "i32_valid \<equiv> box_valid un_CI32 CI32 (\<lambda>s x. True)"
abbreviation copy_i32 where "copy_i32 \<equiv> box_copy CZero un_CI32 CI32 plain_copy"

lemma i32_copier: "deep_copier i32_contents i32_cells i32_valid copy_i32"
  by (rule deep_copier.box_copier [OF plain_copier]) simp

abbreviation str_contents where "str_contents \<equiv> box_contents un_CString (\<lambda>s x. x)"
abbreviation str_cells where "str_cells \<equiv> box_cells un_CString (\<lambda>s x. {})"
abbreviation str_valid where "str_valid \<equiv> box_valid un_CString CString (\<lambda>s x. True)"
abbreviation copy_str where "copy_str \<equiv> box_copy CZero un_CString CString plain_copy"

lemma str_copier: "deep_copier str_contents str_cells str_valid copy_str"
  by (rule deep_copier.box_copier [OF plain_copier]) simp

abbreviation bool_contents where "bool_contents \<equiv> box_contents un_CBool (\<lambda>s x. x)"
abbreviation bool_cells where "bool_cells \<equiv> box_cells un_CBool (\<lambda>s x. {})"
abbreviation bool_valid where "bool_valid \<equiv> box_valid un_CBool CBool (\<lambda>s x. True)"
abbreviation copy_bool where "copy_bool \<equiv> box_copy CZero un_CBool CBool plain_copy"

lemma bool_copier: "deep_copier bool_contents bool_cells bool_valid copy_bool"
  by (rule deep_copier.box_copier [OF plain_copier]) simp

abbreviation f64_contents where "f64_contents \<equiv> box_contents un_CFloat64 (\<lambda>s x. x)"
abbreviation f64_cells where "f64_cells \<equiv> box_cells un_CFloat64 (\<lambda>s x. {})"
abbreviation f64_valid where "f64_valid \<equiv> box_valid un_CFloat64 CFloat64 (\<lambda>s x. True)"
abbreviation copy_f64 where "copy_f64 \<equiv> box_copy CZero un_CFloat64 CFloat64 plain_copy"

lemma f64_copier: "deep_copier f64_contents f64_cells f64_valid copy_f64"
  by (rule deep_copier.box_copier [OF plain_copier]) simp

abbreviation time_contents where "time_contents \<equiv> box_contents un_CTime (\<lambda>s x. x)"
abbreviation time_cells where "time_cells \<equiv> box_cells un_CTime (\<lambda>s x. {})"
abbreviation time_valid where "time_valid \<equiv> box_valid un_CTime CTime (\<lambda>s x. True)"
abbreviation copy_time where "copy_time \<equiv> box_copy CZero un_CTime CTime plain_copy"

lemma time_copier: "deep_copier time_contents time_cells time_valid copy_time"
  by (rule deep_copier.box_copier [OF plain_copier]) simp

abbreviation dec_contents where "dec_contents \<equiv> box_contents un_CDec (\<lambda>s x. x)"
abbreviation dec_cells where "dec_cells \<equiv> box_cells un_CDec (\<lambda>s x. {})"
abbreviation dec_valid where "dec_valid \<equiv> box_valid un_CDec CDec (\<lambda>s x. True)"
abbreviation copy_dec where "copy_dec \<equiv> box_copy CZero un_CDec CDec plain_copy"

lemma dec_copier: "deep_copier dec_contents dec_cells dec_valid copy_dec"
  by (rule deep_copier.box_copier [OF plain_copier]) simp

section \<open>Slices and maps of values without pointers\<close>

lemmas each_plain = deep_copier.each_copier [OF plain_copier]

lemmas map_plain = deep_copier.map_copier [OF plain_copier]

abbreviation strings_contents where "strings_contents \<equiv> box_contents un_CStrings (each_contents (\<lambda>s x. x))"
abbreviation strings_cells where "strings_cells \<equiv> box_cells un_CStrings (each_cells (\<lambda>s x. {}))"
abbreviation strings_valid where "strings_valid \<equiv> box_valid un_CStrings CStrings (each_valid (\<lambda>s x. True))"
abbreviation copy_strings where "copy_strings \<equiv> box_copy CZero un_CStrings CStrings (copy_each plain_copy)"

lemma strings_copier: "deep_copier strings_contents strings_cells strings_valid copy_strings"
  by (rule deep_copier.box_copier [OF each_plain]) simp

abbreviation specs_contents where "specs_contents \<equiv> box_contents un_CSpecs (each_contents (\<lambda>s x. x))"
abbreviation specs_cells where "specs_cells \<equiv> box_cells un_CSpecs (each_cells (\<lambda>s x. {}))"
abbreviation specs_valid where "specs_valid \<equiv> box_valid un_CSpecs CSpecs (each_valid (\<lambda>s x. True))"
abbreviation copy_specs where "copy_specs \<equiv> box_copy CZero un_CSpecs CSpecs (copy_each plain_copy)"

lemma specs_copier: "deep_copier specs_contents specs_cells specs_valid copy_specs"
  by (rule deep_copier.box_copier [OF each_plain]) simp

abbreviation bytes_contents where "bytes_contents \<equiv> box_contents un_CBytes (each_contents (\<lambda>s x. x))"
abbreviation bytes_cells where "bytes_cells \<equiv> box_cells un_CBytes (each_cells (\<lambda>s x. {}))"
abbreviation bytes_valid where "bytes_valid \<equiv> box_valid un_CBytes CBytes (each_valid (\<lambda>s x. True))"
abbreviation copy_bytes where "copy_bytes \<equiv> box_copy CZero un_CBytes CBytes (copy_each plain_copy)"

lemma bytes_copier: "deep_copier bytes_contents bytes_cells bytes_valid copy_bytes"
  by (rule deep_copier.box_copier [OF each_plain]) simp

abbreviation weights_contents where "weights_contents \<equiv> box_contents un_CWeights (map_contents (\<lambda>s x. x))"
abbreviation weights_cells where "weights_cells \<equiv> box_cells un_CWeights (map_cells (\<lambda>s x. {}))"
abbreviation weights_valid where "weights_valid \<equiv> box_valid un_CWeights CWeights (map_valid (\<lambda>s x. True))"
abbreviation copy_weights where "copy_weights \<equiv> box_copy CZero un_CWeights CWeights (map_copy plain_copy)"

lemma weights_copier: "deep_copier weights_contents weights_cells weights_valid copy_weights"
  by (rule deep_copier.box_copier [OF map_plain]) simp

abbreviation labels_contents where "labels_contents \<equiv> box_contents un_CLabels (map_contents (\<lambda>s x. x))"
abbreviation labels_cells where "labels_cells \<equiv> box_cells un_CLabels (map_cells (\<lambda>s x. {}))"
abbreviation labels_valid where "labels_valid \<equiv> box_valid un_CLabels CLabels (map_valid (\<lambda>s x. True))"
abbreviation copy_labels where "copy_labels \<equiv> box_copy CZero un_CLabels CLabels (map_copy plain_copy)"

lemma labels_copier: "deep_copier labels_contents labels_cells labels_valid copy_labels"
  by (rule deep_copier.box_copier [OF map_plain]) simp

section \<open>Resource lists\<close>

definition Quantity_contents :: "'o cell store \<Rightarrow> hquantity \<Rightarrow> quantity" where
  "Quantity_contents s q = (case dec_contents s (hq_Dec q) of None \<Rightarrow> hq_amount q | Some d \<Rightarrow> d)"

definition Quantity_cells :: "'o cell store \<Rightarrow> hquantity \<Rightarrow> addr set" where
  "Quantity_cells s q = dec_cells s (hq_Dec q)"

definition Quantity_valid :: "'o cell store \<Rightarrow> hquantity \<Rightarrow> bool" where
  "Quantity_valid s q = dec_valid s (hq_Dec q)"

definition Quantity_DeepCopyInto :: "'o cell store \<Rightarrow> hquantity \<Rightarrow> hquantity \<times> 'o cell store" where
  "Quantity_DeepCopyInto s q = (let (d, t) = copy_dec s (hq_Dec q) in (q\<lparr>hq_Dec := d\<rparr>, t))"

lemma Quantity_copier: "deep_copier Quantity_contents Quantity_cells Quantity_valid Quantity_DeepCopyInto"
  by (rule struct_copier [OF dec_copier, where parts = hq_Dec and put_parts = "\<lambda>q d. q\<lparr>hq_Dec := d\<rparr>"
      and view = "\<lambda>q v. case v of None \<Rightarrow> hq_amount q | Some d \<Rightarrow> d"])
    (simp_all add: Quantity_contents_def Quantity_cells_def Quantity_valid_def Quantity_DeepCopyInto_def split: option.splits)

lemmas map_quantities = deep_copier.map_copier [OF Quantity_copier]

abbreviation resources_contents where "resources_contents \<equiv> box_contents un_CResources (map_contents Quantity_contents)"
abbreviation resources_cells where "resources_cells \<equiv> box_cells un_CResources (map_cells Quantity_cells)"
abbreviation resources_valid where "resources_valid \<equiv> box_valid un_CResources CResources (map_valid Quantity_valid)"
abbreviation copy_resources where "copy_resources \<equiv> box_copy CZero un_CResources CResources (map_copy Quantity_DeepCopyInto)"

lemma resources_copier: "deep_copier resources_contents resources_cells resources_valid copy_resources"
  by (rule deep_copier.box_copier [OF map_quantities]) simp

end
