(* ===== verification/Deep_Copy_Args.thy ===== *)
theory Deep_Copy_Args
  imports Deep_Copy_Cells
begin

text \<open>
  The deep copies of the plugins' arguments: \<^verbatim>\<open>apis/config/v1/zz_generated.deepcopy.go\<close> and
  \<^verbatim>\<open>apis/config/zz_generated.deepcopy.go\<close>.  For every type \<open>T\<close> its form in the heap, the contents,
  reached cells and validity of a value, and the three methods.  \<open>T_DeepCopyInto\<close> gets the struct
  that the receiver points to and gives the one that it writes to \<^verbatim>\<open>*out\<close>; the fields that it does
  not mention are those of \<^verbatim>\<open>*out = *in\<close>.  \<open>T_copier\<close> is the contract of the copy.  The types without
  pointers are copied by the assignment alone.
\<close>

section \<open>Versioned types\<close>

record hv1_CoschedulingArgs =
  hvco_PermitWaitingTimeSeconds :: ptr
  hvco_PodGroupBackoffSeconds :: ptr

definition v1_CoschedulingArgs_contents :: "'o cell store \<Rightarrow> hv1_CoschedulingArgs \<Rightarrow> v1_CoschedulingArgs" where
  "v1_CoschedulingArgs_contents s x = \<lparr>vco_PermitWaitingTimeSeconds = i64_contents s (hvco_PermitWaitingTimeSeconds x),
     vco_PodGroupBackoffSeconds = i64_contents s (hvco_PodGroupBackoffSeconds x)\<rparr>"

definition v1_CoschedulingArgs_cells :: "'o cell store \<Rightarrow> hv1_CoschedulingArgs \<Rightarrow> addr set" where
  "v1_CoschedulingArgs_cells s x = i64_cells s (hvco_PermitWaitingTimeSeconds x) \<union> i64_cells s (hvco_PodGroupBackoffSeconds x)"

definition v1_CoschedulingArgs_valid :: "'o cell store \<Rightarrow> hv1_CoschedulingArgs \<Rightarrow> bool" where
  "v1_CoschedulingArgs_valid s x = (i64_valid s (hvco_PermitWaitingTimeSeconds x) \<and> i64_valid s (hvco_PodGroupBackoffSeconds x))"

definition v1_CoschedulingArgs_DeepCopyInto :: "'o cell store \<Rightarrow> hv1_CoschedulingArgs \<Rightarrow> hv1_CoschedulingArgs \<times> 'o cell store" where
  "v1_CoschedulingArgs_DeepCopyInto s inp =
     (let (permitWaitingTimeSeconds', s1) = copy_i64 s (hvco_PermitWaitingTimeSeconds inp);
          (podGroupBackoffSeconds', s2) = copy_i64 s1 (hvco_PodGroupBackoffSeconds inp)
      in (inp\<lparr>hvco_PermitWaitingTimeSeconds := permitWaitingTimeSeconds',
        hvco_PodGroupBackoffSeconds := podGroupBackoffSeconds'\<rparr>, s2))"

lemmas v1_CoschedulingArgs_defs = v1_CoschedulingArgs_contents_def v1_CoschedulingArgs_cells_def v1_CoschedulingArgs_valid_def v1_CoschedulingArgs_DeepCopyInto_def

lemma v1_CoschedulingArgs_copier:
  "deep_copier v1_CoschedulingArgs_contents v1_CoschedulingArgs_cells v1_CoschedulingArgs_valid v1_CoschedulingArgs_DeepCopyInto"
  by (rule struct_copier [OF pair_deep_copier [OF i64_copier i64_copier],
      where parts = "\<lambda>x. (hvco_PermitWaitingTimeSeconds x, hvco_PodGroupBackoffSeconds x)"
      and put_parts = "\<lambda>x (a1, a2). x\<lparr>hvco_PermitWaitingTimeSeconds := a1, hvco_PodGroupBackoffSeconds := a2\<rparr>"
      and view = "\<lambda>x (a1, a2). \<lparr>vco_PermitWaitingTimeSeconds = a1, vco_PodGroupBackoffSeconds = a2\<rparr>"])
    (simp_all add: v1_CoschedulingArgs_defs copy_simps split: prod.splits)

definition v1_CoschedulingArgs_DeepCopy :: "hv1_CoschedulingArgs cell store \<Rightarrow> ptr \<Rightarrow> ptr \<times> hv1_CoschedulingArgs cell store" where
  "v1_CoschedulingArgs_DeepCopy = new_copy v1_CoschedulingArgs_DeepCopyInto"

definition v1_CoschedulingArgs_DeepCopyObject :: "hv1_CoschedulingArgs cell store \<Rightarrow> ptr \<Rightarrow> ptr \<times> hv1_CoschedulingArgs cell store" where
  "v1_CoschedulingArgs_DeepCopyObject s p = (let (c, t) = v1_CoschedulingArgs_DeepCopy s p in (case c of Some out \<Rightarrow> (Some out, t) | None \<Rightarrow> (None, t)))"

record hv1_MetricProviderSpec =
  hvmp_Type :: string
  hvmp_Address :: ptr
  hvmp_Token :: ptr
  hvmp_InsecureSkipVerify :: ptr

definition v1_MetricProviderSpec_contents :: "'o cell store \<Rightarrow> hv1_MetricProviderSpec \<Rightarrow> v1_MetricProviderSpec" where
  "v1_MetricProviderSpec_contents s x = \<lparr>vmp_Type = hvmp_Type x, vmp_Address = str_contents s (hvmp_Address x),
     vmp_Token = str_contents s (hvmp_Token x),
     vmp_InsecureSkipVerify = bool_contents s (hvmp_InsecureSkipVerify x)\<rparr>"

definition v1_MetricProviderSpec_cells :: "'o cell store \<Rightarrow> hv1_MetricProviderSpec \<Rightarrow> addr set" where
  "v1_MetricProviderSpec_cells s x = str_cells s (hvmp_Address x) \<union> str_cells s (hvmp_Token x) \<union>
     bool_cells s (hvmp_InsecureSkipVerify x)"

definition v1_MetricProviderSpec_valid :: "'o cell store \<Rightarrow> hv1_MetricProviderSpec \<Rightarrow> bool" where
  "v1_MetricProviderSpec_valid s x = (str_valid s (hvmp_Address x) \<and> str_valid s (hvmp_Token x) \<and> bool_valid s (hvmp_InsecureSkipVerify x))"

definition v1_MetricProviderSpec_DeepCopyInto :: "'o cell store \<Rightarrow> hv1_MetricProviderSpec \<Rightarrow> hv1_MetricProviderSpec \<times> 'o cell store" where
  "v1_MetricProviderSpec_DeepCopyInto s inp =
     (let (address', s1) = copy_str s (hvmp_Address inp);
          (token', s2) = copy_str s1 (hvmp_Token inp);
          (insecureSkipVerify', s3) = copy_bool s2 (hvmp_InsecureSkipVerify inp)
      in (inp\<lparr>hvmp_Address := address', hvmp_Token := token', hvmp_InsecureSkipVerify := insecureSkipVerify'\<rparr>, s3))"

lemmas v1_MetricProviderSpec_defs = v1_MetricProviderSpec_contents_def v1_MetricProviderSpec_cells_def v1_MetricProviderSpec_valid_def v1_MetricProviderSpec_DeepCopyInto_def

lemma v1_MetricProviderSpec_copier:
  "deep_copier v1_MetricProviderSpec_contents v1_MetricProviderSpec_cells v1_MetricProviderSpec_valid v1_MetricProviderSpec_DeepCopyInto"
  by (rule struct_copier [OF pair_deep_copier [OF str_copier pair_deep_copier [OF str_copier bool_copier]],
      where parts = "\<lambda>x. (hvmp_Address x, (hvmp_Token x, hvmp_InsecureSkipVerify x))"
      and put_parts = "\<lambda>x (a1, (a2, a3)). x\<lparr>hvmp_Address := a1, hvmp_Token := a2,
        hvmp_InsecureSkipVerify := a3\<rparr>"
      and view = "\<lambda>x (a1, (a2, a3)). \<lparr>vmp_Type = hvmp_Type x, vmp_Address = a1, vmp_Token = a2, vmp_InsecureSkipVerify = a3\<rparr>"])
    (simp_all add: v1_MetricProviderSpec_defs copy_simps split: prod.splits)

definition v1_MetricProviderSpec_DeepCopy :: "hv1_MetricProviderSpec cell store \<Rightarrow> ptr \<Rightarrow> ptr \<times> hv1_MetricProviderSpec cell store" where
  "v1_MetricProviderSpec_DeepCopy = new_copy v1_MetricProviderSpec_DeepCopyInto"

record hv1_TrimaranSpec =
  hvts_MetricProvider :: hv1_MetricProviderSpec
  hvts_WatcherAddress :: ptr

definition v1_TrimaranSpec_contents :: "'o cell store \<Rightarrow> hv1_TrimaranSpec \<Rightarrow> v1_TrimaranSpec" where
  "v1_TrimaranSpec_contents s x = \<lparr>vts_MetricProvider = v1_MetricProviderSpec_contents s (hvts_MetricProvider x),
     vts_WatcherAddress = str_contents s (hvts_WatcherAddress x)\<rparr>"

definition v1_TrimaranSpec_cells :: "'o cell store \<Rightarrow> hv1_TrimaranSpec \<Rightarrow> addr set" where
  "v1_TrimaranSpec_cells s x = v1_MetricProviderSpec_cells s (hvts_MetricProvider x) \<union> str_cells s (hvts_WatcherAddress x)"

definition v1_TrimaranSpec_valid :: "'o cell store \<Rightarrow> hv1_TrimaranSpec \<Rightarrow> bool" where
  "v1_TrimaranSpec_valid s x = (v1_MetricProviderSpec_valid s (hvts_MetricProvider x) \<and> str_valid s (hvts_WatcherAddress x))"

definition v1_TrimaranSpec_DeepCopyInto :: "'o cell store \<Rightarrow> hv1_TrimaranSpec \<Rightarrow> hv1_TrimaranSpec \<times> 'o cell store" where
  "v1_TrimaranSpec_DeepCopyInto s inp =
     (let (metricProvider', s1) = v1_MetricProviderSpec_DeepCopyInto s (hvts_MetricProvider inp);
          (watcherAddress', s2) = copy_str s1 (hvts_WatcherAddress inp)
      in (inp\<lparr>hvts_MetricProvider := metricProvider', hvts_WatcherAddress := watcherAddress'\<rparr>, s2))"

lemmas v1_TrimaranSpec_defs = v1_TrimaranSpec_contents_def v1_TrimaranSpec_cells_def v1_TrimaranSpec_valid_def v1_TrimaranSpec_DeepCopyInto_def

lemma v1_TrimaranSpec_copier:
  "deep_copier v1_TrimaranSpec_contents v1_TrimaranSpec_cells v1_TrimaranSpec_valid v1_TrimaranSpec_DeepCopyInto"
  by (rule struct_copier [OF pair_deep_copier [OF v1_MetricProviderSpec_copier str_copier],
      where parts = "\<lambda>x. (hvts_MetricProvider x, hvts_WatcherAddress x)"
      and put_parts = "\<lambda>x (a1, a2). x\<lparr>hvts_MetricProvider := a1, hvts_WatcherAddress := a2\<rparr>"
      and view = "\<lambda>x (a1, a2). \<lparr>vts_MetricProvider = a1, vts_WatcherAddress = a2\<rparr>"])
    (simp_all add: v1_TrimaranSpec_defs copy_simps split: prod.splits)

definition v1_TrimaranSpec_DeepCopy :: "hv1_TrimaranSpec cell store \<Rightarrow> ptr \<Rightarrow> ptr \<times> hv1_TrimaranSpec cell store" where
  "v1_TrimaranSpec_DeepCopy = new_copy v1_TrimaranSpec_DeepCopyInto"

record hv1_LoadVariationRiskBalancingArgs =
  hvlv_TrimaranSpec :: hv1_TrimaranSpec
  hvlv_SafeVarianceMargin :: ptr
  hvlv_SafeVarianceSensitivity :: ptr

definition v1_LoadVariationRiskBalancingArgs_contents :: "'o cell store \<Rightarrow> hv1_LoadVariationRiskBalancingArgs \<Rightarrow> v1_LoadVariationRiskBalancingArgs" where
  "v1_LoadVariationRiskBalancingArgs_contents s x = \<lparr>vlv_TrimaranSpec = v1_TrimaranSpec_contents s (hvlv_TrimaranSpec x),
     vlv_SafeVarianceMargin = f64_contents s (hvlv_SafeVarianceMargin x),
     vlv_SafeVarianceSensitivity = f64_contents s (hvlv_SafeVarianceSensitivity x)\<rparr>"

definition v1_LoadVariationRiskBalancingArgs_cells :: "'o cell store \<Rightarrow> hv1_LoadVariationRiskBalancingArgs \<Rightarrow> addr set" where
  "v1_LoadVariationRiskBalancingArgs_cells s x = v1_TrimaranSpec_cells s (hvlv_TrimaranSpec x) \<union> f64_cells s (hvlv_SafeVarianceMargin x) \<union>
     f64_cells s (hvlv_SafeVarianceSensitivity x)"

definition v1_LoadVariationRiskBalancingArgs_valid :: "'o cell store \<Rightarrow> hv1_LoadVariationRiskBalancingArgs \<Rightarrow> bool" where
  "v1_LoadVariationRiskBalancingArgs_valid s x = (v1_TrimaranSpec_valid s (hvlv_TrimaranSpec x) \<and> f64_valid s (hvlv_SafeVarianceMargin x) \<and>
     f64_valid s (hvlv_SafeVarianceSensitivity x))"

definition v1_LoadVariationRiskBalancingArgs_DeepCopyInto :: "'o cell store \<Rightarrow> hv1_LoadVariationRiskBalancingArgs \<Rightarrow> hv1_LoadVariationRiskBalancingArgs \<times> 'o cell store" where
  "v1_LoadVariationRiskBalancingArgs_DeepCopyInto s inp =
     (let (trimaranSpec', s1) = v1_TrimaranSpec_DeepCopyInto s (hvlv_TrimaranSpec inp);
          (safeVarianceMargin', s2) = copy_f64 s1 (hvlv_SafeVarianceMargin inp);
          (safeVarianceSensitivity', s3) = copy_f64 s2 (hvlv_SafeVarianceSensitivity inp)
      in (inp\<lparr>hvlv_TrimaranSpec := trimaranSpec', hvlv_SafeVarianceMargin := safeVarianceMargin',
        hvlv_SafeVarianceSensitivity := safeVarianceSensitivity'\<rparr>, s3))"

lemmas v1_LoadVariationRiskBalancingArgs_defs = v1_LoadVariationRiskBalancingArgs_contents_def v1_LoadVariationRiskBalancingArgs_cells_def v1_LoadVariationRiskBalancingArgs_valid_def v1_LoadVariationRiskBalancingArgs_DeepCopyInto_def

lemma v1_LoadVariationRiskBalancingArgs_copier:
  "deep_copier v1_LoadVariationRiskBalancingArgs_contents v1_LoadVariationRiskBalancingArgs_cells v1_LoadVariationRiskBalancingArgs_valid v1_LoadVariationRiskBalancingArgs_DeepCopyInto"
  by (rule struct_copier [OF pair_deep_copier [OF v1_TrimaranSpec_copier pair_deep_copier [OF f64_copier f64_copier]],
      where parts = "\<lambda>x. (hvlv_TrimaranSpec x, (hvlv_SafeVarianceMargin x, hvlv_SafeVarianceSensitivity x))"
      and put_parts = "\<lambda>x (a1, (a2, a3)). x\<lparr>hvlv_TrimaranSpec := a1, hvlv_SafeVarianceMargin := a2,
        hvlv_SafeVarianceSensitivity := a3\<rparr>"
      and view = "\<lambda>x (a1, (a2, a3)). \<lparr>vlv_TrimaranSpec = a1, vlv_SafeVarianceMargin = a2, vlv_SafeVarianceSensitivity = a3\<rparr>"])
    (simp_all add: v1_LoadVariationRiskBalancingArgs_defs copy_simps split: prod.splits)

definition v1_LoadVariationRiskBalancingArgs_DeepCopy :: "hv1_LoadVariationRiskBalancingArgs cell store \<Rightarrow> ptr \<Rightarrow> ptr \<times> hv1_LoadVariationRiskBalancingArgs cell store" where
  "v1_LoadVariationRiskBalancingArgs_DeepCopy = new_copy v1_LoadVariationRiskBalancingArgs_DeepCopyInto"

definition v1_LoadVariationRiskBalancingArgs_DeepCopyObject :: "hv1_LoadVariationRiskBalancingArgs cell store \<Rightarrow> ptr \<Rightarrow> ptr \<times> hv1_LoadVariationRiskBalancingArgs cell store" where
  "v1_LoadVariationRiskBalancingArgs_DeepCopyObject s p = (let (c, t) = v1_LoadVariationRiskBalancingArgs_DeepCopy s p in (case c of Some out \<Rightarrow> (Some out, t) | None \<Rightarrow> (None, t)))"

record hv1_LowRiskOverCommitmentArgs =
  hvlr_TrimaranSpec :: hv1_TrimaranSpec
  hvlr_SmoothingWindowSize :: ptr
  hvlr_RiskLimitWeights :: ptr

definition v1_LowRiskOverCommitmentArgs_contents :: "'o cell store \<Rightarrow> hv1_LowRiskOverCommitmentArgs \<Rightarrow> v1_LowRiskOverCommitmentArgs" where
  "v1_LowRiskOverCommitmentArgs_contents s x = \<lparr>vlr_TrimaranSpec = v1_TrimaranSpec_contents s (hvlr_TrimaranSpec x),
     vlr_SmoothingWindowSize = i64_contents s (hvlr_SmoothingWindowSize x),
     vlr_RiskLimitWeights = opt_list (weights_contents s (hvlr_RiskLimitWeights x))\<rparr>"

definition v1_LowRiskOverCommitmentArgs_cells :: "'o cell store \<Rightarrow> hv1_LowRiskOverCommitmentArgs \<Rightarrow> addr set" where
  "v1_LowRiskOverCommitmentArgs_cells s x = v1_TrimaranSpec_cells s (hvlr_TrimaranSpec x) \<union> i64_cells s (hvlr_SmoothingWindowSize x) \<union>
     weights_cells s (hvlr_RiskLimitWeights x)"

definition v1_LowRiskOverCommitmentArgs_valid :: "'o cell store \<Rightarrow> hv1_LowRiskOverCommitmentArgs \<Rightarrow> bool" where
  "v1_LowRiskOverCommitmentArgs_valid s x = (v1_TrimaranSpec_valid s (hvlr_TrimaranSpec x) \<and> i64_valid s (hvlr_SmoothingWindowSize x) \<and>
     weights_valid s (hvlr_RiskLimitWeights x))"

definition v1_LowRiskOverCommitmentArgs_DeepCopyInto :: "'o cell store \<Rightarrow> hv1_LowRiskOverCommitmentArgs \<Rightarrow> hv1_LowRiskOverCommitmentArgs \<times> 'o cell store" where
  "v1_LowRiskOverCommitmentArgs_DeepCopyInto s inp =
     (let (trimaranSpec', s1) = v1_TrimaranSpec_DeepCopyInto s (hvlr_TrimaranSpec inp);
          (smoothingWindowSize', s2) = copy_i64 s1 (hvlr_SmoothingWindowSize inp);
          (riskLimitWeights', s3) = copy_weights s2 (hvlr_RiskLimitWeights inp)
      in (inp\<lparr>hvlr_TrimaranSpec := trimaranSpec', hvlr_SmoothingWindowSize := smoothingWindowSize',
        hvlr_RiskLimitWeights := riskLimitWeights'\<rparr>, s3))"

lemmas v1_LowRiskOverCommitmentArgs_defs = v1_LowRiskOverCommitmentArgs_contents_def v1_LowRiskOverCommitmentArgs_cells_def v1_LowRiskOverCommitmentArgs_valid_def v1_LowRiskOverCommitmentArgs_DeepCopyInto_def

lemma v1_LowRiskOverCommitmentArgs_copier:
  "deep_copier v1_LowRiskOverCommitmentArgs_contents v1_LowRiskOverCommitmentArgs_cells v1_LowRiskOverCommitmentArgs_valid v1_LowRiskOverCommitmentArgs_DeepCopyInto"
  by (rule struct_copier [OF pair_deep_copier [OF v1_TrimaranSpec_copier pair_deep_copier [OF i64_copier weights_copier]],
      where parts = "\<lambda>x. (hvlr_TrimaranSpec x, (hvlr_SmoothingWindowSize x, hvlr_RiskLimitWeights x))"
      and put_parts = "\<lambda>x (a1, (a2, a3)). x\<lparr>hvlr_TrimaranSpec := a1, hvlr_SmoothingWindowSize := a2,
        hvlr_RiskLimitWeights := a3\<rparr>"
      and view = "\<lambda>x (a1, (a2, a3)). \<lparr>vlr_TrimaranSpec = a1, vlr_SmoothingWindowSize = a2, vlr_RiskLimitWeights = opt_list (a3)\<rparr>"])
    (simp_all add: v1_LowRiskOverCommitmentArgs_defs copy_simps split: prod.splits)

definition v1_LowRiskOverCommitmentArgs_DeepCopy :: "hv1_LowRiskOverCommitmentArgs cell store \<Rightarrow> ptr \<Rightarrow> ptr \<times> hv1_LowRiskOverCommitmentArgs cell store" where
  "v1_LowRiskOverCommitmentArgs_DeepCopy = new_copy v1_LowRiskOverCommitmentArgs_DeepCopyInto"

definition v1_LowRiskOverCommitmentArgs_DeepCopyObject :: "hv1_LowRiskOverCommitmentArgs cell store \<Rightarrow> ptr \<Rightarrow> ptr \<times> hv1_LowRiskOverCommitmentArgs cell store" where
  "v1_LowRiskOverCommitmentArgs_DeepCopyObject s p = (let (c, t) = v1_LowRiskOverCommitmentArgs_DeepCopy s p in (case c of Some out \<Rightarrow> (Some out, t) | None \<Rightarrow> (None, t)))"

record hv1_NetworkOverheadArgs =
  hvno_Namespaces :: ptr
  hvno_WeightsName :: ptr
  hvno_NetworkTopologyName :: ptr

definition v1_NetworkOverheadArgs_contents :: "'o cell store \<Rightarrow> hv1_NetworkOverheadArgs \<Rightarrow> v1_NetworkOverheadArgs" where
  "v1_NetworkOverheadArgs_contents s x = \<lparr>vno_Namespaces = opt_list (strings_contents s (hvno_Namespaces x)),
     vno_WeightsName = str_contents s (hvno_WeightsName x),
     vno_NetworkTopologyName = str_contents s (hvno_NetworkTopologyName x)\<rparr>"

definition v1_NetworkOverheadArgs_cells :: "'o cell store \<Rightarrow> hv1_NetworkOverheadArgs \<Rightarrow> addr set" where
  "v1_NetworkOverheadArgs_cells s x = strings_cells s (hvno_Namespaces x) \<union> str_cells s (hvno_WeightsName x) \<union>
     str_cells s (hvno_NetworkTopologyName x)"

definition v1_NetworkOverheadArgs_valid :: "'o cell store \<Rightarrow> hv1_NetworkOverheadArgs \<Rightarrow> bool" where
  "v1_NetworkOverheadArgs_valid s x = (strings_valid s (hvno_Namespaces x) \<and> str_valid s (hvno_WeightsName x) \<and>
     str_valid s (hvno_NetworkTopologyName x))"

definition v1_NetworkOverheadArgs_DeepCopyInto :: "'o cell store \<Rightarrow> hv1_NetworkOverheadArgs \<Rightarrow> hv1_NetworkOverheadArgs \<times> 'o cell store" where
  "v1_NetworkOverheadArgs_DeepCopyInto s inp =
     (let (namespaces', s1) = copy_strings s (hvno_Namespaces inp);
          (weightsName', s2) = copy_str s1 (hvno_WeightsName inp);
          (networkTopologyName', s3) = copy_str s2 (hvno_NetworkTopologyName inp)
      in (inp\<lparr>hvno_Namespaces := namespaces', hvno_WeightsName := weightsName',
        hvno_NetworkTopologyName := networkTopologyName'\<rparr>, s3))"

lemmas v1_NetworkOverheadArgs_defs = v1_NetworkOverheadArgs_contents_def v1_NetworkOverheadArgs_cells_def v1_NetworkOverheadArgs_valid_def v1_NetworkOverheadArgs_DeepCopyInto_def

lemma v1_NetworkOverheadArgs_copier:
  "deep_copier v1_NetworkOverheadArgs_contents v1_NetworkOverheadArgs_cells v1_NetworkOverheadArgs_valid v1_NetworkOverheadArgs_DeepCopyInto"
  by (rule struct_copier [OF pair_deep_copier [OF strings_copier pair_deep_copier [OF str_copier str_copier]],
      where parts = "\<lambda>x. (hvno_Namespaces x, (hvno_WeightsName x, hvno_NetworkTopologyName x))"
      and put_parts = "\<lambda>x (a1, (a2, a3)). x\<lparr>hvno_Namespaces := a1, hvno_WeightsName := a2,
        hvno_NetworkTopologyName := a3\<rparr>"
      and view = "\<lambda>x (a1, (a2, a3)). \<lparr>vno_Namespaces = opt_list (a1), vno_WeightsName = a2, vno_NetworkTopologyName = a3\<rparr>"])
    (simp_all add: v1_NetworkOverheadArgs_defs copy_simps split: prod.splits)

definition v1_NetworkOverheadArgs_DeepCopy :: "hv1_NetworkOverheadArgs cell store \<Rightarrow> ptr \<Rightarrow> ptr \<times> hv1_NetworkOverheadArgs cell store" where
  "v1_NetworkOverheadArgs_DeepCopy = new_copy v1_NetworkOverheadArgs_DeepCopyInto"

definition v1_NetworkOverheadArgs_DeepCopyObject :: "hv1_NetworkOverheadArgs cell store \<Rightarrow> ptr \<Rightarrow> ptr \<times> hv1_NetworkOverheadArgs cell store" where
  "v1_NetworkOverheadArgs_DeepCopyObject s p = (let (c, t) = v1_NetworkOverheadArgs_DeepCopy s p in (case c of Some out \<Rightarrow> (Some out, t) | None \<Rightarrow> (None, t)))"

definition v1_NodeResourceTopologyCache_contents :: "'o cell store \<Rightarrow> hv1_NodeResourceTopologyCache \<Rightarrow> v1_NodeResourceTopologyCache" where
  "v1_NodeResourceTopologyCache_contents s x = \<lparr>vnc_ForeignPodsDetect = str_contents s (hvnc_ForeignPodsDetect x),
     vnc_ResyncMethod = str_contents s (hvnc_ResyncMethod x),
     vnc_InformerMode = str_contents s (hvnc_InformerMode x)\<rparr>"

definition v1_NodeResourceTopologyCache_cells :: "'o cell store \<Rightarrow> hv1_NodeResourceTopologyCache \<Rightarrow> addr set" where
  "v1_NodeResourceTopologyCache_cells s x = str_cells s (hvnc_ForeignPodsDetect x) \<union> str_cells s (hvnc_ResyncMethod x) \<union>
     str_cells s (hvnc_InformerMode x)"

definition v1_NodeResourceTopologyCache_valid :: "'o cell store \<Rightarrow> hv1_NodeResourceTopologyCache \<Rightarrow> bool" where
  "v1_NodeResourceTopologyCache_valid s x = (str_valid s (hvnc_ForeignPodsDetect x) \<and> str_valid s (hvnc_ResyncMethod x) \<and>
     str_valid s (hvnc_InformerMode x))"

definition v1_NodeResourceTopologyCache_DeepCopyInto :: "'o cell store \<Rightarrow> hv1_NodeResourceTopologyCache \<Rightarrow> hv1_NodeResourceTopologyCache \<times> 'o cell store" where
  "v1_NodeResourceTopologyCache_DeepCopyInto s inp =
     (let (foreignPodsDetect', s1) = copy_str s (hvnc_ForeignPodsDetect inp);
          (resyncMethod', s2) = copy_str s1 (hvnc_ResyncMethod inp);
          (informerMode', s3) = copy_str s2 (hvnc_InformerMode inp)
      in (inp\<lparr>hvnc_ForeignPodsDetect := foreignPodsDetect', hvnc_ResyncMethod := resyncMethod',
        hvnc_InformerMode := informerMode'\<rparr>, s3))"

lemmas v1_NodeResourceTopologyCache_defs = v1_NodeResourceTopologyCache_contents_def v1_NodeResourceTopologyCache_cells_def v1_NodeResourceTopologyCache_valid_def v1_NodeResourceTopologyCache_DeepCopyInto_def

lemma v1_NodeResourceTopologyCache_copier:
  "deep_copier v1_NodeResourceTopologyCache_contents v1_NodeResourceTopologyCache_cells v1_NodeResourceTopologyCache_valid v1_NodeResourceTopologyCache_DeepCopyInto"
  by (rule struct_copier [OF pair_deep_copier [OF str_copier pair_deep_copier [OF str_copier str_copier]],
      where parts = "\<lambda>x. (hvnc_ForeignPodsDetect x, (hvnc_ResyncMethod x, hvnc_InformerMode x))"
      and put_parts = "\<lambda>x (a1, (a2, a3)). x\<lparr>hvnc_ForeignPodsDetect := a1, hvnc_ResyncMethod := a2,
        hvnc_InformerMode := a3\<rparr>"
      and view = "\<lambda>x (a1, (a2, a3)). \<lparr>vnc_ForeignPodsDetect = a1, vnc_ResyncMethod = a2, vnc_InformerMode = a3\<rparr>"])
    (simp_all add: v1_NodeResourceTopologyCache_defs copy_simps split: prod.splits)

definition v1_NodeResourceTopologyCache_DeepCopy :: "hv1_NodeResourceTopologyCache cell store \<Rightarrow> ptr \<Rightarrow> ptr \<times> hv1_NodeResourceTopologyCache cell store" where
  "v1_NodeResourceTopologyCache_DeepCopy = new_copy v1_NodeResourceTopologyCache_DeepCopyInto"

abbreviation v1_cache_contents where "v1_cache_contents \<equiv> box_contents un_CV1Cache v1_NodeResourceTopologyCache_contents"
abbreviation v1_cache_cells where "v1_cache_cells \<equiv> box_cells un_CV1Cache v1_NodeResourceTopologyCache_cells"
abbreviation v1_cache_valid where "v1_cache_valid \<equiv> box_valid un_CV1Cache CV1Cache v1_NodeResourceTopologyCache_valid"
abbreviation copy_v1_cache where "copy_v1_cache \<equiv> box_copy CZero un_CV1Cache CV1Cache v1_NodeResourceTopologyCache_DeepCopyInto"

lemma v1_cache_copier: "deep_copier v1_cache_contents v1_cache_cells v1_cache_valid copy_v1_cache"
  by (rule deep_copier.box_copier [OF v1_NodeResourceTopologyCache_copier]) simp

definition v1_ScoringStrategy_contents :: "'o cell store \<Rightarrow> hv1_ScoringStrategy \<Rightarrow> v1_ScoringStrategy" where
  "v1_ScoringStrategy_contents s x = \<lparr>vss_Type = hvss_Type x, vss_Resources = opt_list (specs_contents s (hvss_Resources x))\<rparr>"

definition v1_ScoringStrategy_cells :: "'o cell store \<Rightarrow> hv1_ScoringStrategy \<Rightarrow> addr set" where
  "v1_ScoringStrategy_cells s x = specs_cells s (hvss_Resources x)"

definition v1_ScoringStrategy_valid :: "'o cell store \<Rightarrow> hv1_ScoringStrategy \<Rightarrow> bool" where
  "v1_ScoringStrategy_valid s x = (specs_valid s (hvss_Resources x))"

definition v1_ScoringStrategy_DeepCopyInto :: "'o cell store \<Rightarrow> hv1_ScoringStrategy \<Rightarrow> hv1_ScoringStrategy \<times> 'o cell store" where
  "v1_ScoringStrategy_DeepCopyInto s inp =
     (let (resources', s1) = copy_specs s (hvss_Resources inp)
      in (inp\<lparr>hvss_Resources := resources'\<rparr>, s1))"

lemmas v1_ScoringStrategy_defs = v1_ScoringStrategy_contents_def v1_ScoringStrategy_cells_def v1_ScoringStrategy_valid_def v1_ScoringStrategy_DeepCopyInto_def

lemma v1_ScoringStrategy_copier:
  "deep_copier v1_ScoringStrategy_contents v1_ScoringStrategy_cells v1_ScoringStrategy_valid v1_ScoringStrategy_DeepCopyInto"
  by (rule struct_copier [OF specs_copier,
      where parts = "\<lambda>x. hvss_Resources x"
      and put_parts = "\<lambda>x a1. x\<lparr>hvss_Resources := a1\<rparr>"
      and view = "\<lambda>x a1. \<lparr>vss_Type = hvss_Type x, vss_Resources = opt_list (a1)\<rparr>"])
    (simp_all add: v1_ScoringStrategy_defs copy_simps split: prod.splits)

definition v1_ScoringStrategy_DeepCopy :: "hv1_ScoringStrategy cell store \<Rightarrow> ptr \<Rightarrow> ptr \<times> hv1_ScoringStrategy cell store" where
  "v1_ScoringStrategy_DeepCopy = new_copy v1_ScoringStrategy_DeepCopyInto"

abbreviation v1_strategy_contents where "v1_strategy_contents \<equiv> box_contents un_CV1Strategy v1_ScoringStrategy_contents"
abbreviation v1_strategy_cells where "v1_strategy_cells \<equiv> box_cells un_CV1Strategy v1_ScoringStrategy_cells"
abbreviation v1_strategy_valid where "v1_strategy_valid \<equiv> box_valid un_CV1Strategy CV1Strategy v1_ScoringStrategy_valid"
abbreviation copy_v1_strategy where "copy_v1_strategy \<equiv> box_copy CZero un_CV1Strategy CV1Strategy v1_ScoringStrategy_DeepCopyInto"

lemma v1_strategy_copier: "deep_copier v1_strategy_contents v1_strategy_cells v1_strategy_valid copy_v1_strategy"
  by (rule deep_copier.box_copier [OF v1_ScoringStrategy_copier]) simp

record hv1_NodeResourceTopologyMatchArgs =
  hvnm_ScoringStrategy :: ptr
  hvnm_CacheResyncPeriodSeconds :: ptr
  hvnm_DiscardReservedNodes :: bool
  hvnm_Cache :: ptr

definition v1_NodeResourceTopologyMatchArgs_contents :: "'o cell store \<Rightarrow> hv1_NodeResourceTopologyMatchArgs \<Rightarrow> v1_NodeResourceTopologyMatchArgs" where
  "v1_NodeResourceTopologyMatchArgs_contents s x = \<lparr>vnm_ScoringStrategy = v1_strategy_contents s (hvnm_ScoringStrategy x),
     vnm_CacheResyncPeriodSeconds = i64_contents s (hvnm_CacheResyncPeriodSeconds x),
     vnm_DiscardReservedNodes = hvnm_DiscardReservedNodes x, vnm_Cache = v1_cache_contents s (hvnm_Cache x)\<rparr>"

definition v1_NodeResourceTopologyMatchArgs_cells :: "'o cell store \<Rightarrow> hv1_NodeResourceTopologyMatchArgs \<Rightarrow> addr set" where
  "v1_NodeResourceTopologyMatchArgs_cells s x = v1_strategy_cells s (hvnm_ScoringStrategy x) \<union> i64_cells s (hvnm_CacheResyncPeriodSeconds x) \<union>
     v1_cache_cells s (hvnm_Cache x)"

definition v1_NodeResourceTopologyMatchArgs_valid :: "'o cell store \<Rightarrow> hv1_NodeResourceTopologyMatchArgs \<Rightarrow> bool" where
  "v1_NodeResourceTopologyMatchArgs_valid s x = (v1_strategy_valid s (hvnm_ScoringStrategy x) \<and> i64_valid s (hvnm_CacheResyncPeriodSeconds x) \<and>
     v1_cache_valid s (hvnm_Cache x))"

definition v1_NodeResourceTopologyMatchArgs_DeepCopyInto :: "'o cell store \<Rightarrow> hv1_NodeResourceTopologyMatchArgs \<Rightarrow> hv1_NodeResourceTopologyMatchArgs \<times> 'o cell store" where
  "v1_NodeResourceTopologyMatchArgs_DeepCopyInto s inp =
     (let (scoringStrategy', s1) = copy_v1_strategy s (hvnm_ScoringStrategy inp);
          (cacheResyncPeriodSeconds', s2) = copy_i64 s1 (hvnm_CacheResyncPeriodSeconds inp);
          (cache', s3) = copy_v1_cache s2 (hvnm_Cache inp)
      in (inp\<lparr>hvnm_ScoringStrategy := scoringStrategy', hvnm_CacheResyncPeriodSeconds := cacheResyncPeriodSeconds',
        hvnm_Cache := cache'\<rparr>, s3))"

lemmas v1_NodeResourceTopologyMatchArgs_defs = v1_NodeResourceTopologyMatchArgs_contents_def v1_NodeResourceTopologyMatchArgs_cells_def v1_NodeResourceTopologyMatchArgs_valid_def v1_NodeResourceTopologyMatchArgs_DeepCopyInto_def

lemma v1_NodeResourceTopologyMatchArgs_copier:
  "deep_copier v1_NodeResourceTopologyMatchArgs_contents v1_NodeResourceTopologyMatchArgs_cells v1_NodeResourceTopologyMatchArgs_valid v1_NodeResourceTopologyMatchArgs_DeepCopyInto"
  by (rule struct_copier [OF pair_deep_copier [OF v1_strategy_copier pair_deep_copier [OF i64_copier v1_cache_copier]],
      where parts = "\<lambda>x. (hvnm_ScoringStrategy x, (hvnm_CacheResyncPeriodSeconds x, hvnm_Cache x))"
      and put_parts = "\<lambda>x (a1, (a2, a3)). x\<lparr>hvnm_ScoringStrategy := a1, hvnm_CacheResyncPeriodSeconds := a2,
        hvnm_Cache := a3\<rparr>"
      and view = "\<lambda>x (a1, (a2, a3)). \<lparr>vnm_ScoringStrategy = a1, vnm_CacheResyncPeriodSeconds = a2,
      vnm_DiscardReservedNodes = hvnm_DiscardReservedNodes x, vnm_Cache = a3\<rparr>"])
    (simp_all add: v1_NodeResourceTopologyMatchArgs_defs copy_simps split: prod.splits)

interpretation v1_match: deep_copier v1_NodeResourceTopologyMatchArgs_contents v1_NodeResourceTopologyMatchArgs_cells v1_NodeResourceTopologyMatchArgs_valid v1_NodeResourceTopologyMatchArgs_DeepCopyInto
  by (rule v1_NodeResourceTopologyMatchArgs_copier)

definition v1_NodeResourceTopologyMatchArgs_DeepCopy :: "hv1_NodeResourceTopologyMatchArgs cell store \<Rightarrow> ptr \<Rightarrow> ptr \<times> hv1_NodeResourceTopologyMatchArgs cell store" where
  "v1_NodeResourceTopologyMatchArgs_DeepCopy = new_copy v1_NodeResourceTopologyMatchArgs_DeepCopyInto"

definition v1_NodeResourceTopologyMatchArgs_DeepCopyObject :: "hv1_NodeResourceTopologyMatchArgs cell store \<Rightarrow> ptr \<Rightarrow> ptr \<times> hv1_NodeResourceTopologyMatchArgs cell store" where
  "v1_NodeResourceTopologyMatchArgs_DeepCopyObject s p = (let (c, t) = v1_NodeResourceTopologyMatchArgs_DeepCopy s p in (case c of Some out \<Rightarrow> (Some out, t) | None \<Rightarrow> (None, t)))"

record hv1_NodeResourcesAllocatableArgs =
  hval_Resources :: ptr
  hval_Mode :: string

definition v1_NodeResourcesAllocatableArgs_contents :: "'o cell store \<Rightarrow> hv1_NodeResourcesAllocatableArgs \<Rightarrow> v1_NodeResourcesAllocatableArgs" where
  "v1_NodeResourcesAllocatableArgs_contents s x = \<lparr>val_Resources = opt_list (specs_contents s (hval_Resources x)), val_Mode = hval_Mode x\<rparr>"

definition v1_NodeResourcesAllocatableArgs_cells :: "'o cell store \<Rightarrow> hv1_NodeResourcesAllocatableArgs \<Rightarrow> addr set" where
  "v1_NodeResourcesAllocatableArgs_cells s x = specs_cells s (hval_Resources x)"

definition v1_NodeResourcesAllocatableArgs_valid :: "'o cell store \<Rightarrow> hv1_NodeResourcesAllocatableArgs \<Rightarrow> bool" where
  "v1_NodeResourcesAllocatableArgs_valid s x = (specs_valid s (hval_Resources x))"

definition v1_NodeResourcesAllocatableArgs_DeepCopyInto :: "'o cell store \<Rightarrow> hv1_NodeResourcesAllocatableArgs \<Rightarrow> hv1_NodeResourcesAllocatableArgs \<times> 'o cell store" where
  "v1_NodeResourcesAllocatableArgs_DeepCopyInto s inp =
     (let (resources', s1) = copy_specs s (hval_Resources inp)
      in (inp\<lparr>hval_Resources := resources'\<rparr>, s1))"

lemmas v1_NodeResourcesAllocatableArgs_defs = v1_NodeResourcesAllocatableArgs_contents_def v1_NodeResourcesAllocatableArgs_cells_def v1_NodeResourcesAllocatableArgs_valid_def v1_NodeResourcesAllocatableArgs_DeepCopyInto_def

lemma v1_NodeResourcesAllocatableArgs_copier:
  "deep_copier v1_NodeResourcesAllocatableArgs_contents v1_NodeResourcesAllocatableArgs_cells v1_NodeResourcesAllocatableArgs_valid v1_NodeResourcesAllocatableArgs_DeepCopyInto"
  by (rule struct_copier [OF specs_copier,
      where parts = "\<lambda>x. hval_Resources x"
      and put_parts = "\<lambda>x a1. x\<lparr>hval_Resources := a1\<rparr>"
      and view = "\<lambda>x a1. \<lparr>val_Resources = opt_list (a1), val_Mode = hval_Mode x\<rparr>"])
    (simp_all add: v1_NodeResourcesAllocatableArgs_defs copy_simps split: prod.splits)

definition v1_NodeResourcesAllocatableArgs_DeepCopy :: "hv1_NodeResourcesAllocatableArgs cell store \<Rightarrow> ptr \<Rightarrow> ptr \<times> hv1_NodeResourcesAllocatableArgs cell store" where
  "v1_NodeResourcesAllocatableArgs_DeepCopy = new_copy v1_NodeResourcesAllocatableArgs_DeepCopyInto"

definition v1_NodeResourcesAllocatableArgs_DeepCopyObject :: "hv1_NodeResourcesAllocatableArgs cell store \<Rightarrow> ptr \<Rightarrow> ptr \<times> hv1_NodeResourcesAllocatableArgs cell store" where
  "v1_NodeResourcesAllocatableArgs_DeepCopyObject s p = (let (c, t) = v1_NodeResourcesAllocatableArgs_DeepCopy s p in (case c of Some out \<Rightarrow> (Some out, t) | None \<Rightarrow> (None, t)))"

record hv1_PreemptionTolerationArgs =
  hvpt_MinCandidateNodesPercentage :: ptr
  hvpt_MinCandidateNodesAbsolute :: ptr

definition v1_PreemptionTolerationArgs_contents :: "'o cell store \<Rightarrow> hv1_PreemptionTolerationArgs \<Rightarrow> v1_PreemptionTolerationArgs" where
  "v1_PreemptionTolerationArgs_contents s x = \<lparr>vpt_MinCandidateNodesPercentage = i32_contents s (hvpt_MinCandidateNodesPercentage x),
     vpt_MinCandidateNodesAbsolute = i32_contents s (hvpt_MinCandidateNodesAbsolute x)\<rparr>"

definition v1_PreemptionTolerationArgs_cells :: "'o cell store \<Rightarrow> hv1_PreemptionTolerationArgs \<Rightarrow> addr set" where
  "v1_PreemptionTolerationArgs_cells s x = i32_cells s (hvpt_MinCandidateNodesPercentage x) \<union> i32_cells s (hvpt_MinCandidateNodesAbsolute x)"

definition v1_PreemptionTolerationArgs_valid :: "'o cell store \<Rightarrow> hv1_PreemptionTolerationArgs \<Rightarrow> bool" where
  "v1_PreemptionTolerationArgs_valid s x = (i32_valid s (hvpt_MinCandidateNodesPercentage x) \<and> i32_valid s (hvpt_MinCandidateNodesAbsolute x))"

definition v1_PreemptionTolerationArgs_DeepCopyInto :: "'o cell store \<Rightarrow> hv1_PreemptionTolerationArgs \<Rightarrow> hv1_PreemptionTolerationArgs \<times> 'o cell store" where
  "v1_PreemptionTolerationArgs_DeepCopyInto s inp =
     (let (minCandidateNodesPercentage', s1) = copy_i32 s (hvpt_MinCandidateNodesPercentage inp);
          (minCandidateNodesAbsolute', s2) = copy_i32 s1 (hvpt_MinCandidateNodesAbsolute inp)
      in (inp\<lparr>hvpt_MinCandidateNodesPercentage := minCandidateNodesPercentage',
        hvpt_MinCandidateNodesAbsolute := minCandidateNodesAbsolute'\<rparr>, s2))"

lemmas v1_PreemptionTolerationArgs_defs = v1_PreemptionTolerationArgs_contents_def v1_PreemptionTolerationArgs_cells_def v1_PreemptionTolerationArgs_valid_def v1_PreemptionTolerationArgs_DeepCopyInto_def

lemma v1_PreemptionTolerationArgs_copier:
  "deep_copier v1_PreemptionTolerationArgs_contents v1_PreemptionTolerationArgs_cells v1_PreemptionTolerationArgs_valid v1_PreemptionTolerationArgs_DeepCopyInto"
  by (rule struct_copier [OF pair_deep_copier [OF i32_copier i32_copier],
      where parts = "\<lambda>x. (hvpt_MinCandidateNodesPercentage x, hvpt_MinCandidateNodesAbsolute x)"
      and put_parts = "\<lambda>x (a1, a2). x\<lparr>hvpt_MinCandidateNodesPercentage := a1,
        hvpt_MinCandidateNodesAbsolute := a2\<rparr>"
      and view = "\<lambda>x (a1, a2). \<lparr>vpt_MinCandidateNodesPercentage = a1, vpt_MinCandidateNodesAbsolute = a2\<rparr>"])
    (simp_all add: v1_PreemptionTolerationArgs_defs copy_simps split: prod.splits)

definition v1_PreemptionTolerationArgs_DeepCopy :: "hv1_PreemptionTolerationArgs cell store \<Rightarrow> ptr \<Rightarrow> ptr \<times> hv1_PreemptionTolerationArgs cell store" where
  "v1_PreemptionTolerationArgs_DeepCopy = new_copy v1_PreemptionTolerationArgs_DeepCopyInto"

definition v1_PreemptionTolerationArgs_DeepCopyObject :: "hv1_PreemptionTolerationArgs cell store \<Rightarrow> ptr \<Rightarrow> ptr \<times> hv1_PreemptionTolerationArgs cell store" where
  "v1_PreemptionTolerationArgs_DeepCopyObject s p = (let (c, t) = v1_PreemptionTolerationArgs_DeepCopy s p in (case c of Some out \<Rightarrow> (Some out, t) | None \<Rightarrow> (None, t)))"

record hv1_SySchedArgs =
  hvsy_DefaultProfileNamespace :: ptr
  hvsy_DefaultProfileName :: ptr

definition v1_SySchedArgs_contents :: "'o cell store \<Rightarrow> hv1_SySchedArgs \<Rightarrow> v1_SySchedArgs" where
  "v1_SySchedArgs_contents s x = \<lparr>vsy_DefaultProfileNamespace = str_contents s (hvsy_DefaultProfileNamespace x),
     vsy_DefaultProfileName = str_contents s (hvsy_DefaultProfileName x)\<rparr>"

definition v1_SySchedArgs_cells :: "'o cell store \<Rightarrow> hv1_SySchedArgs \<Rightarrow> addr set" where
  "v1_SySchedArgs_cells s x = str_cells s (hvsy_DefaultProfileNamespace x) \<union> str_cells s (hvsy_DefaultProfileName x)"

definition v1_SySchedArgs_valid :: "'o cell store \<Rightarrow> hv1_SySchedArgs \<Rightarrow> bool" where
  "v1_SySchedArgs_valid s x = (str_valid s (hvsy_DefaultProfileNamespace x) \<and> str_valid s (hvsy_DefaultProfileName x))"

definition v1_SySchedArgs_DeepCopyInto :: "'o cell store \<Rightarrow> hv1_SySchedArgs \<Rightarrow> hv1_SySchedArgs \<times> 'o cell store" where
  "v1_SySchedArgs_DeepCopyInto s inp =
     (let (defaultProfileNamespace', s1) = copy_str s (hvsy_DefaultProfileNamespace inp);
          (defaultProfileName', s2) = copy_str s1 (hvsy_DefaultProfileName inp)
      in (inp\<lparr>hvsy_DefaultProfileNamespace := defaultProfileNamespace', hvsy_DefaultProfileName := defaultProfileName'\<rparr>, s2))"

lemmas v1_SySchedArgs_defs = v1_SySchedArgs_contents_def v1_SySchedArgs_cells_def v1_SySchedArgs_valid_def v1_SySchedArgs_DeepCopyInto_def

lemma v1_SySchedArgs_copier:
  "deep_copier v1_SySchedArgs_contents v1_SySchedArgs_cells v1_SySchedArgs_valid v1_SySchedArgs_DeepCopyInto"
  by (rule struct_copier [OF pair_deep_copier [OF str_copier str_copier],
      where parts = "\<lambda>x. (hvsy_DefaultProfileNamespace x, hvsy_DefaultProfileName x)"
      and put_parts = "\<lambda>x (a1, a2). x\<lparr>hvsy_DefaultProfileNamespace := a1, hvsy_DefaultProfileName := a2\<rparr>"
      and view = "\<lambda>x (a1, a2). \<lparr>vsy_DefaultProfileNamespace = a1, vsy_DefaultProfileName = a2\<rparr>"])
    (simp_all add: v1_SySchedArgs_defs copy_simps split: prod.splits)

definition v1_SySchedArgs_DeepCopy :: "hv1_SySchedArgs cell store \<Rightarrow> ptr \<Rightarrow> ptr \<times> hv1_SySchedArgs cell store" where
  "v1_SySchedArgs_DeepCopy = new_copy v1_SySchedArgs_DeepCopyInto"

definition v1_SySchedArgs_DeepCopyObject :: "hv1_SySchedArgs cell store \<Rightarrow> ptr \<Rightarrow> ptr \<times> hv1_SySchedArgs cell store" where
  "v1_SySchedArgs_DeepCopyObject s p = (let (c, t) = v1_SySchedArgs_DeepCopy s p in (case c of Some out \<Rightarrow> (Some out, t) | None \<Rightarrow> (None, t)))"

record hv1_TargetLoadPackingArgs =
  hvtl_TrimaranSpec :: hv1_TrimaranSpec
  hvtl_DefaultRequests :: ptr
  hvtl_DefaultRequestsMultiplier :: ptr
  hvtl_TargetUtilization :: ptr

definition v1_TargetLoadPackingArgs_contents :: "'o cell store \<Rightarrow> hv1_TargetLoadPackingArgs \<Rightarrow> v1_TargetLoadPackingArgs" where
  "v1_TargetLoadPackingArgs_contents s x = \<lparr>vtl_TrimaranSpec = v1_TrimaranSpec_contents s (hvtl_TrimaranSpec x),
     vtl_DefaultRequests = resources_contents s (hvtl_DefaultRequests x),
     vtl_DefaultRequestsMultiplier = str_contents s (hvtl_DefaultRequestsMultiplier x),
     vtl_TargetUtilization = i64_contents s (hvtl_TargetUtilization x)\<rparr>"

definition v1_TargetLoadPackingArgs_cells :: "'o cell store \<Rightarrow> hv1_TargetLoadPackingArgs \<Rightarrow> addr set" where
  "v1_TargetLoadPackingArgs_cells s x = v1_TrimaranSpec_cells s (hvtl_TrimaranSpec x) \<union> resources_cells s (hvtl_DefaultRequests x) \<union>
     str_cells s (hvtl_DefaultRequestsMultiplier x) \<union> i64_cells s (hvtl_TargetUtilization x)"

definition v1_TargetLoadPackingArgs_valid :: "'o cell store \<Rightarrow> hv1_TargetLoadPackingArgs \<Rightarrow> bool" where
  "v1_TargetLoadPackingArgs_valid s x = (v1_TrimaranSpec_valid s (hvtl_TrimaranSpec x) \<and> resources_valid s (hvtl_DefaultRequests x) \<and>
     str_valid s (hvtl_DefaultRequestsMultiplier x) \<and> i64_valid s (hvtl_TargetUtilization x))"

definition v1_TargetLoadPackingArgs_DeepCopyInto :: "'o cell store \<Rightarrow> hv1_TargetLoadPackingArgs \<Rightarrow> hv1_TargetLoadPackingArgs \<times> 'o cell store" where
  "v1_TargetLoadPackingArgs_DeepCopyInto s inp =
     (let (trimaranSpec', s1) = v1_TrimaranSpec_DeepCopyInto s (hvtl_TrimaranSpec inp);
          (defaultRequests', s2) = copy_resources s1 (hvtl_DefaultRequests inp);
          (defaultRequestsMultiplier', s3) = copy_str s2 (hvtl_DefaultRequestsMultiplier inp);
          (targetUtilization', s4) = copy_i64 s3 (hvtl_TargetUtilization inp)
      in (inp\<lparr>hvtl_TrimaranSpec := trimaranSpec', hvtl_DefaultRequests := defaultRequests',
        hvtl_DefaultRequestsMultiplier := defaultRequestsMultiplier', hvtl_TargetUtilization := targetUtilization'\<rparr>, s4))"

lemmas v1_TargetLoadPackingArgs_defs = v1_TargetLoadPackingArgs_contents_def v1_TargetLoadPackingArgs_cells_def v1_TargetLoadPackingArgs_valid_def v1_TargetLoadPackingArgs_DeepCopyInto_def

lemma v1_TargetLoadPackingArgs_copier:
  "deep_copier v1_TargetLoadPackingArgs_contents v1_TargetLoadPackingArgs_cells v1_TargetLoadPackingArgs_valid v1_TargetLoadPackingArgs_DeepCopyInto"
  by (rule struct_copier [OF pair_deep_copier [OF v1_TrimaranSpec_copier pair_deep_copier [OF resources_copier pair_deep_copier [OF str_copier i64_copier]]],
      where parts = "\<lambda>x. (hvtl_TrimaranSpec x, (hvtl_DefaultRequests x, (hvtl_DefaultRequestsMultiplier x, hvtl_TargetUtilization x)))"
      and put_parts = "\<lambda>x (a1, (a2, (a3, a4))). x\<lparr>hvtl_TrimaranSpec := a1, hvtl_DefaultRequests := a2,
        hvtl_DefaultRequestsMultiplier := a3, hvtl_TargetUtilization := a4\<rparr>"
      and view = "\<lambda>x (a1, (a2, (a3, a4))). \<lparr>vtl_TrimaranSpec = a1, vtl_DefaultRequests = a2, vtl_DefaultRequestsMultiplier = a3,
      vtl_TargetUtilization = a4\<rparr>"])
    (simp_all add: v1_TargetLoadPackingArgs_defs copy_simps split: prod.splits)

interpretation v1_packing: deep_copier v1_TargetLoadPackingArgs_contents v1_TargetLoadPackingArgs_cells v1_TargetLoadPackingArgs_valid v1_TargetLoadPackingArgs_DeepCopyInto
  by (rule v1_TargetLoadPackingArgs_copier)

definition v1_TargetLoadPackingArgs_DeepCopy :: "hv1_TargetLoadPackingArgs cell store \<Rightarrow> ptr \<Rightarrow> ptr \<times> hv1_TargetLoadPackingArgs cell store" where
  "v1_TargetLoadPackingArgs_DeepCopy = new_copy v1_TargetLoadPackingArgs_DeepCopyInto"

definition v1_TargetLoadPackingArgs_DeepCopyObject :: "hv1_TargetLoadPackingArgs cell store \<Rightarrow> ptr \<Rightarrow> ptr \<times> hv1_TargetLoadPackingArgs cell store" where
  "v1_TargetLoadPackingArgs_DeepCopyObject s p = (let (c, t) = v1_TargetLoadPackingArgs_DeepCopy s p in (case c of Some out \<Rightarrow> (Some out, t) | None \<Rightarrow> (None, t)))"

record hv1_TopologicalSortArgs =
  hvto_Namespaces :: ptr

definition v1_TopologicalSortArgs_contents :: "'o cell store \<Rightarrow> hv1_TopologicalSortArgs \<Rightarrow> v1_TopologicalSortArgs" where
  "v1_TopologicalSortArgs_contents s x = \<lparr>vto_Namespaces = opt_list (strings_contents s (hvto_Namespaces x))\<rparr>"

definition v1_TopologicalSortArgs_cells :: "'o cell store \<Rightarrow> hv1_TopologicalSortArgs \<Rightarrow> addr set" where
  "v1_TopologicalSortArgs_cells s x = strings_cells s (hvto_Namespaces x)"

definition v1_TopologicalSortArgs_valid :: "'o cell store \<Rightarrow> hv1_TopologicalSortArgs \<Rightarrow> bool" where
  "v1_TopologicalSortArgs_valid s x = (strings_valid s (hvto_Namespaces x))"

definition v1_TopologicalSortArgs_DeepCopyInto :: "'o cell store \<Rightarrow> hv1_TopologicalSortArgs \<Rightarrow> hv1_TopologicalSortArgs \<times> 'o cell store" where
  "v1_TopologicalSortArgs_DeepCopyInto s inp =
     (let (namespaces', s1) = copy_strings s (hvto_Namespaces inp)
      in (inp\<lparr>hvto_Namespaces := namespaces'\<rparr>, s1))"

lemmas v1_TopologicalSortArgs_defs = v1_TopologicalSortArgs_contents_def v1_TopologicalSortArgs_cells_def v1_TopologicalSortArgs_valid_def v1_TopologicalSortArgs_DeepCopyInto_def

lemma v1_TopologicalSortArgs_copier:
  "deep_copier v1_TopologicalSortArgs_contents v1_TopologicalSortArgs_cells v1_TopologicalSortArgs_valid v1_TopologicalSortArgs_DeepCopyInto"
  by (rule struct_copier [OF strings_copier,
      where parts = "\<lambda>x. hvto_Namespaces x"
      and put_parts = "\<lambda>x a1. x\<lparr>hvto_Namespaces := a1\<rparr>"
      and view = "\<lambda>x a1. \<lparr>vto_Namespaces = opt_list (a1)\<rparr>"])
    (simp_all add: v1_TopologicalSortArgs_defs copy_simps split: prod.splits)

definition v1_TopologicalSortArgs_DeepCopy :: "hv1_TopologicalSortArgs cell store \<Rightarrow> ptr \<Rightarrow> ptr \<times> hv1_TopologicalSortArgs cell store" where
  "v1_TopologicalSortArgs_DeepCopy = new_copy v1_TopologicalSortArgs_DeepCopyInto"

definition v1_TopologicalSortArgs_DeepCopyObject :: "hv1_TopologicalSortArgs cell store \<Rightarrow> ptr \<Rightarrow> ptr \<times> hv1_TopologicalSortArgs cell store" where
  "v1_TopologicalSortArgs_DeepCopyObject s p = (let (c, t) = v1_TopologicalSortArgs_DeepCopy s p in (case c of Some out \<Rightarrow> (Some out, t) | None \<Rightarrow> (None, t)))"

record hv1_WAMArgs =
  hvwa_Test :: ptr

definition v1_WAMArgs_contents :: "'o cell store \<Rightarrow> hv1_WAMArgs \<Rightarrow> v1_WAMArgs" where
  "v1_WAMArgs_contents s x = \<lparr>vwa_Test = str_contents s (hvwa_Test x)\<rparr>"

definition v1_WAMArgs_cells :: "'o cell store \<Rightarrow> hv1_WAMArgs \<Rightarrow> addr set" where
  "v1_WAMArgs_cells s x = str_cells s (hvwa_Test x)"

definition v1_WAMArgs_valid :: "'o cell store \<Rightarrow> hv1_WAMArgs \<Rightarrow> bool" where
  "v1_WAMArgs_valid s x = (str_valid s (hvwa_Test x))"

definition v1_WAMArgs_DeepCopyInto :: "'o cell store \<Rightarrow> hv1_WAMArgs \<Rightarrow> hv1_WAMArgs \<times> 'o cell store" where
  "v1_WAMArgs_DeepCopyInto s inp =
     (let (test', s1) = copy_str s (hvwa_Test inp)
      in (inp\<lparr>hvwa_Test := test'\<rparr>, s1))"

lemmas v1_WAMArgs_defs = v1_WAMArgs_contents_def v1_WAMArgs_cells_def v1_WAMArgs_valid_def v1_WAMArgs_DeepCopyInto_def

lemma v1_WAMArgs_copier:
  "deep_copier v1_WAMArgs_contents v1_WAMArgs_cells v1_WAMArgs_valid v1_WAMArgs_DeepCopyInto"
  by (rule struct_copier [OF str_copier,
      where parts = "\<lambda>x. hvwa_Test x"
      and put_parts = "\<lambda>x a1. x\<lparr>hvwa_Test := a1\<rparr>"
      and view = "\<lambda>x a1. \<lparr>vwa_Test = a1\<rparr>"])
    (simp_all add: v1_WAMArgs_defs copy_simps split: prod.splits)

definition v1_WAMArgs_DeepCopy :: "hv1_WAMArgs cell store \<Rightarrow> ptr \<Rightarrow> ptr \<times> hv1_WAMArgs cell store" where
  "v1_WAMArgs_DeepCopy = new_copy v1_WAMArgs_DeepCopyInto"

definition v1_WAMArgs_DeepCopyObject :: "hv1_WAMArgs cell store \<Rightarrow> ptr \<Rightarrow> ptr \<times> hv1_WAMArgs cell store" where
  "v1_WAMArgs_DeepCopyObject s p = (let (c, t) = v1_WAMArgs_DeepCopy s p in (case c of Some out \<Rightarrow> (Some out, t) | None \<Rightarrow> (None, t)))"

section \<open>Internal types\<close>

definition CoschedulingArgs_DeepCopyInto :: "'o cell store \<Rightarrow> CoschedulingArgs \<Rightarrow> CoschedulingArgs \<times> 'o cell store" where
  "CoschedulingArgs_DeepCopyInto s inp = (inp, s)"

lemma CoschedulingArgs_copier: "deep_copier (\<lambda>s x. x) (\<lambda>s x. {}) (\<lambda>s x. True) CoschedulingArgs_DeepCopyInto"
  by unfold_locales (auto simp: CoschedulingArgs_DeepCopyInto_def)

definition CoschedulingArgs_DeepCopy :: "CoschedulingArgs cell store \<Rightarrow> ptr \<Rightarrow> ptr \<times> CoschedulingArgs cell store" where
  "CoschedulingArgs_DeepCopy = new_copy CoschedulingArgs_DeepCopyInto"

definition CoschedulingArgs_DeepCopyObject :: "CoschedulingArgs cell store \<Rightarrow> ptr \<Rightarrow> ptr \<times> CoschedulingArgs cell store" where
  "CoschedulingArgs_DeepCopyObject s p = (let (c, t) = CoschedulingArgs_DeepCopy s p in (case c of Some out \<Rightarrow> (Some out, t) | None \<Rightarrow> (None, t)))"

definition MetricProviderSpec_DeepCopyInto :: "'o cell store \<Rightarrow> MetricProviderSpec \<Rightarrow> MetricProviderSpec \<times> 'o cell store" where
  "MetricProviderSpec_DeepCopyInto s inp = (inp, s)"

lemma MetricProviderSpec_copier: "deep_copier (\<lambda>s x. x) (\<lambda>s x. {}) (\<lambda>s x. True) MetricProviderSpec_DeepCopyInto"
  by unfold_locales (auto simp: MetricProviderSpec_DeepCopyInto_def)

definition MetricProviderSpec_DeepCopy :: "MetricProviderSpec cell store \<Rightarrow> ptr \<Rightarrow> ptr \<times> MetricProviderSpec cell store" where
  "MetricProviderSpec_DeepCopy = new_copy MetricProviderSpec_DeepCopyInto"

definition TrimaranSpec_DeepCopyInto :: "'o cell store \<Rightarrow> TrimaranSpec \<Rightarrow> TrimaranSpec \<times> 'o cell store" where
  "TrimaranSpec_DeepCopyInto s inp = (inp, s)"

lemma TrimaranSpec_copier: "deep_copier (\<lambda>s x. x) (\<lambda>s x. {}) (\<lambda>s x. True) TrimaranSpec_DeepCopyInto"
  by unfold_locales (auto simp: TrimaranSpec_DeepCopyInto_def)

definition TrimaranSpec_DeepCopy :: "TrimaranSpec cell store \<Rightarrow> ptr \<Rightarrow> ptr \<times> TrimaranSpec cell store" where
  "TrimaranSpec_DeepCopy = new_copy TrimaranSpec_DeepCopyInto"

definition LoadVariationRiskBalancingArgs_DeepCopyInto :: "'o cell store \<Rightarrow> LoadVariationRiskBalancingArgs \<Rightarrow> LoadVariationRiskBalancingArgs \<times> 'o cell store" where
  "LoadVariationRiskBalancingArgs_DeepCopyInto s inp = (inp, s)"

lemma LoadVariationRiskBalancingArgs_copier: "deep_copier (\<lambda>s x. x) (\<lambda>s x. {}) (\<lambda>s x. True) LoadVariationRiskBalancingArgs_DeepCopyInto"
  by unfold_locales (auto simp: LoadVariationRiskBalancingArgs_DeepCopyInto_def)

definition LoadVariationRiskBalancingArgs_DeepCopy :: "LoadVariationRiskBalancingArgs cell store \<Rightarrow> ptr \<Rightarrow> ptr \<times> LoadVariationRiskBalancingArgs cell store" where
  "LoadVariationRiskBalancingArgs_DeepCopy = new_copy LoadVariationRiskBalancingArgs_DeepCopyInto"

definition LoadVariationRiskBalancingArgs_DeepCopyObject :: "LoadVariationRiskBalancingArgs cell store \<Rightarrow> ptr \<Rightarrow> ptr \<times> LoadVariationRiskBalancingArgs cell store" where
  "LoadVariationRiskBalancingArgs_DeepCopyObject s p = (let (c, t) = LoadVariationRiskBalancingArgs_DeepCopy s p in (case c of Some out \<Rightarrow> (Some out, t) | None \<Rightarrow> (None, t)))"

definition PreemptionTolerationArgs_DeepCopyInto :: "'o cell store \<Rightarrow> PreemptionTolerationArgs \<Rightarrow> PreemptionTolerationArgs \<times> 'o cell store" where
  "PreemptionTolerationArgs_DeepCopyInto s inp = (inp, s)"

lemma PreemptionTolerationArgs_copier: "deep_copier (\<lambda>s x. x) (\<lambda>s x. {}) (\<lambda>s x. True) PreemptionTolerationArgs_DeepCopyInto"
  by unfold_locales (auto simp: PreemptionTolerationArgs_DeepCopyInto_def)

definition PreemptionTolerationArgs_DeepCopy :: "PreemptionTolerationArgs cell store \<Rightarrow> ptr \<Rightarrow> ptr \<times> PreemptionTolerationArgs cell store" where
  "PreemptionTolerationArgs_DeepCopy = new_copy PreemptionTolerationArgs_DeepCopyInto"

definition PreemptionTolerationArgs_DeepCopyObject :: "PreemptionTolerationArgs cell store \<Rightarrow> ptr \<Rightarrow> ptr \<times> PreemptionTolerationArgs cell store" where
  "PreemptionTolerationArgs_DeepCopyObject s p = (let (c, t) = PreemptionTolerationArgs_DeepCopy s p in (case c of Some out \<Rightarrow> (Some out, t) | None \<Rightarrow> (None, t)))"

definition SySchedArgs_DeepCopyInto :: "'o cell store \<Rightarrow> SySchedArgs \<Rightarrow> SySchedArgs \<times> 'o cell store" where
  "SySchedArgs_DeepCopyInto s inp = (inp, s)"

lemma SySchedArgs_copier: "deep_copier (\<lambda>s x. x) (\<lambda>s x. {}) (\<lambda>s x. True) SySchedArgs_DeepCopyInto"
  by unfold_locales (auto simp: SySchedArgs_DeepCopyInto_def)

definition SySchedArgs_DeepCopy :: "SySchedArgs cell store \<Rightarrow> ptr \<Rightarrow> ptr \<times> SySchedArgs cell store" where
  "SySchedArgs_DeepCopy = new_copy SySchedArgs_DeepCopyInto"

definition SySchedArgs_DeepCopyObject :: "SySchedArgs cell store \<Rightarrow> ptr \<Rightarrow> ptr \<times> SySchedArgs cell store" where
  "SySchedArgs_DeepCopyObject s p = (let (c, t) = SySchedArgs_DeepCopy s p in (case c of Some out \<Rightarrow> (Some out, t) | None \<Rightarrow> (None, t)))"

record hLowRiskOverCommitmentArgs =
  hlr_TrimaranSpec :: TrimaranSpec
  hlr_SmoothingWindowSize :: i64
  hlr_RiskLimitWeights :: ptr

definition LowRiskOverCommitmentArgs_contents :: "'o cell store \<Rightarrow> hLowRiskOverCommitmentArgs \<Rightarrow> LowRiskOverCommitmentArgs" where
  "LowRiskOverCommitmentArgs_contents s x = \<lparr>lr_TrimaranSpec = hlr_TrimaranSpec x, lr_SmoothingWindowSize = hlr_SmoothingWindowSize x,
     lr_RiskLimitWeights = opt_list (weights_contents s (hlr_RiskLimitWeights x))\<rparr>"

definition LowRiskOverCommitmentArgs_cells :: "'o cell store \<Rightarrow> hLowRiskOverCommitmentArgs \<Rightarrow> addr set" where
  "LowRiskOverCommitmentArgs_cells s x = weights_cells s (hlr_RiskLimitWeights x)"

definition LowRiskOverCommitmentArgs_valid :: "'o cell store \<Rightarrow> hLowRiskOverCommitmentArgs \<Rightarrow> bool" where
  "LowRiskOverCommitmentArgs_valid s x = (weights_valid s (hlr_RiskLimitWeights x))"

definition LowRiskOverCommitmentArgs_DeepCopyInto :: "'o cell store \<Rightarrow> hLowRiskOverCommitmentArgs \<Rightarrow> hLowRiskOverCommitmentArgs \<times> 'o cell store" where
  "LowRiskOverCommitmentArgs_DeepCopyInto s inp =
     (let (riskLimitWeights', s1) = copy_weights s (hlr_RiskLimitWeights inp)
      in (inp\<lparr>hlr_RiskLimitWeights := riskLimitWeights'\<rparr>, s1))"

lemmas LowRiskOverCommitmentArgs_defs = LowRiskOverCommitmentArgs_contents_def LowRiskOverCommitmentArgs_cells_def LowRiskOverCommitmentArgs_valid_def LowRiskOverCommitmentArgs_DeepCopyInto_def

lemma LowRiskOverCommitmentArgs_copier:
  "deep_copier LowRiskOverCommitmentArgs_contents LowRiskOverCommitmentArgs_cells LowRiskOverCommitmentArgs_valid LowRiskOverCommitmentArgs_DeepCopyInto"
  by (rule struct_copier [OF weights_copier,
      where parts = "\<lambda>x. hlr_RiskLimitWeights x"
      and put_parts = "\<lambda>x a1. x\<lparr>hlr_RiskLimitWeights := a1\<rparr>"
      and view = "\<lambda>x a1. \<lparr>lr_TrimaranSpec = hlr_TrimaranSpec x, lr_SmoothingWindowSize = hlr_SmoothingWindowSize x,
      lr_RiskLimitWeights = opt_list (a1)\<rparr>"])
    (simp_all add: LowRiskOverCommitmentArgs_defs copy_simps split: prod.splits)

definition LowRiskOverCommitmentArgs_DeepCopy :: "hLowRiskOverCommitmentArgs cell store \<Rightarrow> ptr \<Rightarrow> ptr \<times> hLowRiskOverCommitmentArgs cell store" where
  "LowRiskOverCommitmentArgs_DeepCopy = new_copy LowRiskOverCommitmentArgs_DeepCopyInto"

definition LowRiskOverCommitmentArgs_DeepCopyObject :: "hLowRiskOverCommitmentArgs cell store \<Rightarrow> ptr \<Rightarrow> ptr \<times> hLowRiskOverCommitmentArgs cell store" where
  "LowRiskOverCommitmentArgs_DeepCopyObject s p = (let (c, t) = LowRiskOverCommitmentArgs_DeepCopy s p in (case c of Some out \<Rightarrow> (Some out, t) | None \<Rightarrow> (None, t)))"

record hNetworkOverheadArgs =
  hino_Namespaces :: ptr
  hino_WeightsName :: string
  hino_NetworkTopologyName :: string

definition NetworkOverheadArgs_contents :: "'o cell store \<Rightarrow> hNetworkOverheadArgs \<Rightarrow> NetworkOverheadArgs" where
  "NetworkOverheadArgs_contents s x = \<lparr>ino_Namespaces = opt_list (strings_contents s (hino_Namespaces x)), ino_WeightsName = hino_WeightsName x,
     ino_NetworkTopologyName = hino_NetworkTopologyName x\<rparr>"

definition NetworkOverheadArgs_cells :: "'o cell store \<Rightarrow> hNetworkOverheadArgs \<Rightarrow> addr set" where
  "NetworkOverheadArgs_cells s x = strings_cells s (hino_Namespaces x)"

definition NetworkOverheadArgs_valid :: "'o cell store \<Rightarrow> hNetworkOverheadArgs \<Rightarrow> bool" where
  "NetworkOverheadArgs_valid s x = (strings_valid s (hino_Namespaces x))"

definition NetworkOverheadArgs_DeepCopyInto :: "'o cell store \<Rightarrow> hNetworkOverheadArgs \<Rightarrow> hNetworkOverheadArgs \<times> 'o cell store" where
  "NetworkOverheadArgs_DeepCopyInto s inp =
     (let (namespaces', s1) = copy_strings s (hino_Namespaces inp)
      in (inp\<lparr>hino_Namespaces := namespaces'\<rparr>, s1))"

lemmas NetworkOverheadArgs_defs = NetworkOverheadArgs_contents_def NetworkOverheadArgs_cells_def NetworkOverheadArgs_valid_def NetworkOverheadArgs_DeepCopyInto_def

lemma NetworkOverheadArgs_copier:
  "deep_copier NetworkOverheadArgs_contents NetworkOverheadArgs_cells NetworkOverheadArgs_valid NetworkOverheadArgs_DeepCopyInto"
  by (rule struct_copier [OF strings_copier,
      where parts = "\<lambda>x. hino_Namespaces x"
      and put_parts = "\<lambda>x a1. x\<lparr>hino_Namespaces := a1\<rparr>"
      and view = "\<lambda>x a1. \<lparr>ino_Namespaces = opt_list (a1), ino_WeightsName = hino_WeightsName x,
      ino_NetworkTopologyName = hino_NetworkTopologyName x\<rparr>"])
    (simp_all add: NetworkOverheadArgs_defs copy_simps split: prod.splits)

definition NetworkOverheadArgs_DeepCopy :: "hNetworkOverheadArgs cell store \<Rightarrow> ptr \<Rightarrow> ptr \<times> hNetworkOverheadArgs cell store" where
  "NetworkOverheadArgs_DeepCopy = new_copy NetworkOverheadArgs_DeepCopyInto"

definition NetworkOverheadArgs_DeepCopyObject :: "hNetworkOverheadArgs cell store \<Rightarrow> ptr \<Rightarrow> ptr \<times> hNetworkOverheadArgs cell store" where
  "NetworkOverheadArgs_DeepCopyObject s p = (let (c, t) = NetworkOverheadArgs_DeepCopy s p in (case c of Some out \<Rightarrow> (Some out, t) | None \<Rightarrow> (None, t)))"

definition NodeResourceTopologyCache_contents :: "'o cell store \<Rightarrow> hNodeResourceTopologyCache \<Rightarrow> NodeResourceTopologyCache" where
  "NodeResourceTopologyCache_contents s x = \<lparr>nc_ForeignPodsDetect = str_contents s (hnc_ForeignPodsDetect x),
     nc_ResyncMethod = str_contents s (hnc_ResyncMethod x), nc_InformerMode = str_contents s (hnc_InformerMode x)\<rparr>"

definition NodeResourceTopologyCache_cells :: "'o cell store \<Rightarrow> hNodeResourceTopologyCache \<Rightarrow> addr set" where
  "NodeResourceTopologyCache_cells s x = str_cells s (hnc_ForeignPodsDetect x) \<union> str_cells s (hnc_ResyncMethod x) \<union>
     str_cells s (hnc_InformerMode x)"

definition NodeResourceTopologyCache_valid :: "'o cell store \<Rightarrow> hNodeResourceTopologyCache \<Rightarrow> bool" where
  "NodeResourceTopologyCache_valid s x = (str_valid s (hnc_ForeignPodsDetect x) \<and> str_valid s (hnc_ResyncMethod x) \<and>
     str_valid s (hnc_InformerMode x))"

definition NodeResourceTopologyCache_DeepCopyInto :: "'o cell store \<Rightarrow> hNodeResourceTopologyCache \<Rightarrow> hNodeResourceTopologyCache \<times> 'o cell store" where
  "NodeResourceTopologyCache_DeepCopyInto s inp =
     (let (foreignPodsDetect', s1) = copy_str s (hnc_ForeignPodsDetect inp);
          (resyncMethod', s2) = copy_str s1 (hnc_ResyncMethod inp);
          (informerMode', s3) = copy_str s2 (hnc_InformerMode inp)
      in (inp\<lparr>hnc_ForeignPodsDetect := foreignPodsDetect', hnc_ResyncMethod := resyncMethod',
        hnc_InformerMode := informerMode'\<rparr>, s3))"

lemmas NodeResourceTopologyCache_defs = NodeResourceTopologyCache_contents_def NodeResourceTopologyCache_cells_def NodeResourceTopologyCache_valid_def NodeResourceTopologyCache_DeepCopyInto_def

lemma NodeResourceTopologyCache_copier:
  "deep_copier NodeResourceTopologyCache_contents NodeResourceTopologyCache_cells NodeResourceTopologyCache_valid NodeResourceTopologyCache_DeepCopyInto"
  by (rule struct_copier [OF pair_deep_copier [OF str_copier pair_deep_copier [OF str_copier str_copier]],
      where parts = "\<lambda>x. (hnc_ForeignPodsDetect x, (hnc_ResyncMethod x, hnc_InformerMode x))"
      and put_parts = "\<lambda>x (a1, (a2, a3)). x\<lparr>hnc_ForeignPodsDetect := a1, hnc_ResyncMethod := a2,
        hnc_InformerMode := a3\<rparr>"
      and view = "\<lambda>x (a1, (a2, a3)). \<lparr>nc_ForeignPodsDetect = a1, nc_ResyncMethod = a2, nc_InformerMode = a3\<rparr>"])
    (simp_all add: NodeResourceTopologyCache_defs copy_simps split: prod.splits)

definition NodeResourceTopologyCache_DeepCopy :: "hNodeResourceTopologyCache cell store \<Rightarrow> ptr \<Rightarrow> ptr \<times> hNodeResourceTopologyCache cell store" where
  "NodeResourceTopologyCache_DeepCopy = new_copy NodeResourceTopologyCache_DeepCopyInto"

abbreviation cache_contents where "cache_contents \<equiv> box_contents un_CCache NodeResourceTopologyCache_contents"
abbreviation cache_cells where "cache_cells \<equiv> box_cells un_CCache NodeResourceTopologyCache_cells"
abbreviation cache_valid where "cache_valid \<equiv> box_valid un_CCache CCache NodeResourceTopologyCache_valid"
abbreviation copy_cache where "copy_cache \<equiv> box_copy CZero un_CCache CCache NodeResourceTopologyCache_DeepCopyInto"

lemma cache_copier: "deep_copier cache_contents cache_cells cache_valid copy_cache"
  by (rule deep_copier.box_copier [OF NodeResourceTopologyCache_copier]) simp

record hScoringStrategy =
  hss_Type :: string
  hss_Resources :: ptr

definition ScoringStrategy_contents :: "'o cell store \<Rightarrow> hScoringStrategy \<Rightarrow> ScoringStrategy" where
  "ScoringStrategy_contents s x = \<lparr>ss_Type = hss_Type x, ss_Resources = opt_list (specs_contents s (hss_Resources x))\<rparr>"

definition ScoringStrategy_cells :: "'o cell store \<Rightarrow> hScoringStrategy \<Rightarrow> addr set" where
  "ScoringStrategy_cells s x = specs_cells s (hss_Resources x)"

definition ScoringStrategy_valid :: "'o cell store \<Rightarrow> hScoringStrategy \<Rightarrow> bool" where
  "ScoringStrategy_valid s x = (specs_valid s (hss_Resources x))"

definition ScoringStrategy_DeepCopyInto :: "'o cell store \<Rightarrow> hScoringStrategy \<Rightarrow> hScoringStrategy \<times> 'o cell store" where
  "ScoringStrategy_DeepCopyInto s inp =
     (let (resources', s1) = copy_specs s (hss_Resources inp)
      in (inp\<lparr>hss_Resources := resources'\<rparr>, s1))"

lemmas ScoringStrategy_defs = ScoringStrategy_contents_def ScoringStrategy_cells_def ScoringStrategy_valid_def ScoringStrategy_DeepCopyInto_def

lemma ScoringStrategy_copier:
  "deep_copier ScoringStrategy_contents ScoringStrategy_cells ScoringStrategy_valid ScoringStrategy_DeepCopyInto"
  by (rule struct_copier [OF specs_copier,
      where parts = "\<lambda>x. hss_Resources x"
      and put_parts = "\<lambda>x a1. x\<lparr>hss_Resources := a1\<rparr>"
      and view = "\<lambda>x a1. \<lparr>ss_Type = hss_Type x, ss_Resources = opt_list (a1)\<rparr>"])
    (simp_all add: ScoringStrategy_defs copy_simps split: prod.splits)

definition ScoringStrategy_DeepCopy :: "hScoringStrategy cell store \<Rightarrow> ptr \<Rightarrow> ptr \<times> hScoringStrategy cell store" where
  "ScoringStrategy_DeepCopy = new_copy ScoringStrategy_DeepCopyInto"

record hNodeResourceTopologyMatchArgs =
  hnm_ScoringStrategy :: hScoringStrategy
  hnm_CacheResyncPeriodSeconds :: i64
  hnm_DiscardReservedNodes :: bool
  hnm_Cache :: ptr

definition NodeResourceTopologyMatchArgs_contents :: "'o cell store \<Rightarrow> hNodeResourceTopologyMatchArgs \<Rightarrow> NodeResourceTopologyMatchArgs" where
  "NodeResourceTopologyMatchArgs_contents s x = \<lparr>nm_ScoringStrategy = ScoringStrategy_contents s (hnm_ScoringStrategy x),
     nm_CacheResyncPeriodSeconds = hnm_CacheResyncPeriodSeconds x,
     nm_DiscardReservedNodes = hnm_DiscardReservedNodes x, nm_Cache = cache_contents s (hnm_Cache x)\<rparr>"

definition NodeResourceTopologyMatchArgs_cells :: "'o cell store \<Rightarrow> hNodeResourceTopologyMatchArgs \<Rightarrow> addr set" where
  "NodeResourceTopologyMatchArgs_cells s x = ScoringStrategy_cells s (hnm_ScoringStrategy x) \<union> cache_cells s (hnm_Cache x)"

definition NodeResourceTopologyMatchArgs_valid :: "'o cell store \<Rightarrow> hNodeResourceTopologyMatchArgs \<Rightarrow> bool" where
  "NodeResourceTopologyMatchArgs_valid s x = (ScoringStrategy_valid s (hnm_ScoringStrategy x) \<and> cache_valid s (hnm_Cache x))"

definition NodeResourceTopologyMatchArgs_DeepCopyInto :: "'o cell store \<Rightarrow> hNodeResourceTopologyMatchArgs \<Rightarrow> hNodeResourceTopologyMatchArgs \<times> 'o cell store" where
  "NodeResourceTopologyMatchArgs_DeepCopyInto s inp =
     (let (scoringStrategy', s1) = ScoringStrategy_DeepCopyInto s (hnm_ScoringStrategy inp);
          (cache', s2) = copy_cache s1 (hnm_Cache inp)
      in (inp\<lparr>hnm_ScoringStrategy := scoringStrategy', hnm_Cache := cache'\<rparr>, s2))"

lemmas NodeResourceTopologyMatchArgs_defs = NodeResourceTopologyMatchArgs_contents_def NodeResourceTopologyMatchArgs_cells_def NodeResourceTopologyMatchArgs_valid_def NodeResourceTopologyMatchArgs_DeepCopyInto_def

lemma NodeResourceTopologyMatchArgs_copier:
  "deep_copier NodeResourceTopologyMatchArgs_contents NodeResourceTopologyMatchArgs_cells NodeResourceTopologyMatchArgs_valid NodeResourceTopologyMatchArgs_DeepCopyInto"
  by (rule struct_copier [OF pair_deep_copier [OF ScoringStrategy_copier cache_copier],
      where parts = "\<lambda>x. (hnm_ScoringStrategy x, hnm_Cache x)"
      and put_parts = "\<lambda>x (a1, a2). x\<lparr>hnm_ScoringStrategy := a1, hnm_Cache := a2\<rparr>"
      and view = "\<lambda>x (a1, a2). \<lparr>nm_ScoringStrategy = a1, nm_CacheResyncPeriodSeconds = hnm_CacheResyncPeriodSeconds x,
      nm_DiscardReservedNodes = hnm_DiscardReservedNodes x, nm_Cache = a2\<rparr>"])
    (simp_all add: NodeResourceTopologyMatchArgs_defs copy_simps split: prod.splits)

definition NodeResourceTopologyMatchArgs_DeepCopy :: "hNodeResourceTopologyMatchArgs cell store \<Rightarrow> ptr \<Rightarrow> ptr \<times> hNodeResourceTopologyMatchArgs cell store" where
  "NodeResourceTopologyMatchArgs_DeepCopy = new_copy NodeResourceTopologyMatchArgs_DeepCopyInto"

definition NodeResourceTopologyMatchArgs_DeepCopyObject :: "hNodeResourceTopologyMatchArgs cell store \<Rightarrow> ptr \<Rightarrow> ptr \<times> hNodeResourceTopologyMatchArgs cell store" where
  "NodeResourceTopologyMatchArgs_DeepCopyObject s p = (let (c, t) = NodeResourceTopologyMatchArgs_DeepCopy s p in (case c of Some out \<Rightarrow> (Some out, t) | None \<Rightarrow> (None, t)))"

record hNodeResourcesAllocatableArgs =
  haa_Resources :: ptr
  haa_Mode :: string

definition NodeResourcesAllocatableArgs_contents :: "'o cell store \<Rightarrow> hNodeResourcesAllocatableArgs \<Rightarrow> NodeResourcesAllocatableArgs" where
  "NodeResourcesAllocatableArgs_contents s x = \<lparr>aa_Resources = opt_list (specs_contents s (haa_Resources x)), aa_Mode = haa_Mode x\<rparr>"

definition NodeResourcesAllocatableArgs_cells :: "'o cell store \<Rightarrow> hNodeResourcesAllocatableArgs \<Rightarrow> addr set" where
  "NodeResourcesAllocatableArgs_cells s x = specs_cells s (haa_Resources x)"

definition NodeResourcesAllocatableArgs_valid :: "'o cell store \<Rightarrow> hNodeResourcesAllocatableArgs \<Rightarrow> bool" where
  "NodeResourcesAllocatableArgs_valid s x = (specs_valid s (haa_Resources x))"

definition NodeResourcesAllocatableArgs_DeepCopyInto :: "'o cell store \<Rightarrow> hNodeResourcesAllocatableArgs \<Rightarrow> hNodeResourcesAllocatableArgs \<times> 'o cell store" where
  "NodeResourcesAllocatableArgs_DeepCopyInto s inp =
     (let (resources', s1) = copy_specs s (haa_Resources inp)
      in (inp\<lparr>haa_Resources := resources'\<rparr>, s1))"

lemmas NodeResourcesAllocatableArgs_defs = NodeResourcesAllocatableArgs_contents_def NodeResourcesAllocatableArgs_cells_def NodeResourcesAllocatableArgs_valid_def NodeResourcesAllocatableArgs_DeepCopyInto_def

lemma NodeResourcesAllocatableArgs_copier:
  "deep_copier NodeResourcesAllocatableArgs_contents NodeResourcesAllocatableArgs_cells NodeResourcesAllocatableArgs_valid NodeResourcesAllocatableArgs_DeepCopyInto"
  by (rule struct_copier [OF specs_copier,
      where parts = "\<lambda>x. haa_Resources x"
      and put_parts = "\<lambda>x a1. x\<lparr>haa_Resources := a1\<rparr>"
      and view = "\<lambda>x a1. \<lparr>aa_Resources = opt_list (a1), aa_Mode = haa_Mode x\<rparr>"])
    (simp_all add: NodeResourcesAllocatableArgs_defs copy_simps split: prod.splits)

definition NodeResourcesAllocatableArgs_DeepCopy :: "hNodeResourcesAllocatableArgs cell store \<Rightarrow> ptr \<Rightarrow> ptr \<times> hNodeResourcesAllocatableArgs cell store" where
  "NodeResourcesAllocatableArgs_DeepCopy = new_copy NodeResourcesAllocatableArgs_DeepCopyInto"

definition NodeResourcesAllocatableArgs_DeepCopyObject :: "hNodeResourcesAllocatableArgs cell store \<Rightarrow> ptr \<Rightarrow> ptr \<times> hNodeResourcesAllocatableArgs cell store" where
  "NodeResourcesAllocatableArgs_DeepCopyObject s p = (let (c, t) = NodeResourcesAllocatableArgs_DeepCopy s p in (case c of Some out \<Rightarrow> (Some out, t) | None \<Rightarrow> (None, t)))"

record hTargetLoadPackingArgs =
  htl_TrimaranSpec :: TrimaranSpec
  htl_DefaultRequests :: ptr
  htl_DefaultRequestsMultiplier :: string
  htl_TargetUtilization :: i64

definition TargetLoadPackingArgs_contents :: "'o cell store \<Rightarrow> hTargetLoadPackingArgs \<Rightarrow> TargetLoadPackingArgs" where
  "TargetLoadPackingArgs_contents s x = \<lparr>tl_TrimaranSpec = htl_TrimaranSpec x, tl_DefaultRequests = resources_contents s (htl_DefaultRequests x),
     tl_DefaultRequestsMultiplier = htl_DefaultRequestsMultiplier x, tl_TargetUtilization = htl_TargetUtilization x\<rparr>"

definition TargetLoadPackingArgs_cells :: "'o cell store \<Rightarrow> hTargetLoadPackingArgs \<Rightarrow> addr set" where
  "TargetLoadPackingArgs_cells s x = resources_cells s (htl_DefaultRequests x)"

definition TargetLoadPackingArgs_valid :: "'o cell store \<Rightarrow> hTargetLoadPackingArgs \<Rightarrow> bool" where
  "TargetLoadPackingArgs_valid s x = (resources_valid s (htl_DefaultRequests x))"

definition TargetLoadPackingArgs_DeepCopyInto :: "'o cell store \<Rightarrow> hTargetLoadPackingArgs \<Rightarrow> hTargetLoadPackingArgs \<times> 'o cell store" where
  "TargetLoadPackingArgs_DeepCopyInto s inp =
     (let (defaultRequests', s1) = copy_resources s (htl_DefaultRequests inp)
      in (inp\<lparr>htl_DefaultRequests := defaultRequests'\<rparr>, s1))"

lemmas TargetLoadPackingArgs_defs = TargetLoadPackingArgs_contents_def TargetLoadPackingArgs_cells_def TargetLoadPackingArgs_valid_def TargetLoadPackingArgs_DeepCopyInto_def

lemma TargetLoadPackingArgs_copier:
  "deep_copier TargetLoadPackingArgs_contents TargetLoadPackingArgs_cells TargetLoadPackingArgs_valid TargetLoadPackingArgs_DeepCopyInto"
  by (rule struct_copier [OF resources_copier,
      where parts = "\<lambda>x. htl_DefaultRequests x"
      and put_parts = "\<lambda>x a1. x\<lparr>htl_DefaultRequests := a1\<rparr>"
      and view = "\<lambda>x a1. \<lparr>tl_TrimaranSpec = htl_TrimaranSpec x, tl_DefaultRequests = a1,
      tl_DefaultRequestsMultiplier = htl_DefaultRequestsMultiplier x, tl_TargetUtilization = htl_TargetUtilization x\<rparr>"])
    (simp_all add: TargetLoadPackingArgs_defs copy_simps split: prod.splits)

definition TargetLoadPackingArgs_DeepCopy :: "hTargetLoadPackingArgs cell store \<Rightarrow> ptr \<Rightarrow> ptr \<times> hTargetLoadPackingArgs cell store" where
  "TargetLoadPackingArgs_DeepCopy = new_copy TargetLoadPackingArgs_DeepCopyInto"

definition TargetLoadPackingArgs_DeepCopyObject :: "hTargetLoadPackingArgs cell store \<Rightarrow> ptr \<Rightarrow> ptr \<times> hTargetLoadPackingArgs cell store" where
  "TargetLoadPackingArgs_DeepCopyObject s p = (let (c, t) = TargetLoadPackingArgs_DeepCopy s p in (case c of Some out \<Rightarrow> (Some out, t) | None \<Rightarrow> (None, t)))"

record hTopologicalSortArgs =
  hito_Namespaces :: ptr

definition TopologicalSortArgs_contents :: "'o cell store \<Rightarrow> hTopologicalSortArgs \<Rightarrow> TopologicalSortArgs" where
  "TopologicalSortArgs_contents s x = \<lparr>ito_Namespaces = opt_list (strings_contents s (hito_Namespaces x))\<rparr>"

definition TopologicalSortArgs_cells :: "'o cell store \<Rightarrow> hTopologicalSortArgs \<Rightarrow> addr set" where
  "TopologicalSortArgs_cells s x = strings_cells s (hito_Namespaces x)"

definition TopologicalSortArgs_valid :: "'o cell store \<Rightarrow> hTopologicalSortArgs \<Rightarrow> bool" where
  "TopologicalSortArgs_valid s x = (strings_valid s (hito_Namespaces x))"

definition TopologicalSortArgs_DeepCopyInto :: "'o cell store \<Rightarrow> hTopologicalSortArgs \<Rightarrow> hTopologicalSortArgs \<times> 'o cell store" where
  "TopologicalSortArgs_DeepCopyInto s inp =
     (let (namespaces', s1) = copy_strings s (hito_Namespaces inp)
      in (inp\<lparr>hito_Namespaces := namespaces'\<rparr>, s1))"

lemmas TopologicalSortArgs_defs = TopologicalSortArgs_contents_def TopologicalSortArgs_cells_def TopologicalSortArgs_valid_def TopologicalSortArgs_DeepCopyInto_def

lemma TopologicalSortArgs_copier:
  "deep_copier TopologicalSortArgs_contents TopologicalSortArgs_cells TopologicalSortArgs_valid TopologicalSortArgs_DeepCopyInto"
  by (rule struct_copier [OF strings_copier,
      where parts = "\<lambda>x. hito_Namespaces x"
      and put_parts = "\<lambda>x a1. x\<lparr>hito_Namespaces := a1\<rparr>"
      and view = "\<lambda>x a1. \<lparr>ito_Namespaces = opt_list (a1)\<rparr>"])
    (simp_all add: TopologicalSortArgs_defs copy_simps split: prod.splits)

definition TopologicalSortArgs_DeepCopy :: "hTopologicalSortArgs cell store \<Rightarrow> ptr \<Rightarrow> ptr \<times> hTopologicalSortArgs cell store" where
  "TopologicalSortArgs_DeepCopy = new_copy TopologicalSortArgs_DeepCopyInto"

definition TopologicalSortArgs_DeepCopyObject :: "hTopologicalSortArgs cell store \<Rightarrow> ptr \<Rightarrow> ptr \<times> hTopologicalSortArgs cell store" where
  "TopologicalSortArgs_DeepCopyObject s p = (let (c, t) = TopologicalSortArgs_DeepCopy s p in (case c of Some out \<Rightarrow> (Some out, t) | None \<Rightarrow> (None, t)))"

record hWAMArgs =
  hiwa_Test :: ptr

definition WAMArgs_contents :: "'o cell store \<Rightarrow> hWAMArgs \<Rightarrow> WAMArgs" where
  "WAMArgs_contents s x = \<lparr>iwa_Test = str_contents s (hiwa_Test x)\<rparr>"

definition WAMArgs_cells :: "'o cell store \<Rightarrow> hWAMArgs \<Rightarrow> addr set" where
  "WAMArgs_cells s x = str_cells s (hiwa_Test x)"

definition WAMArgs_valid :: "'o cell store \<Rightarrow> hWAMArgs \<Rightarrow> bool" where
  "WAMArgs_valid s x = (str_valid s (hiwa_Test x))"

definition WAMArgs_DeepCopyInto :: "'o cell store \<Rightarrow> hWAMArgs \<Rightarrow> hWAMArgs \<times> 'o cell store" where
  "WAMArgs_DeepCopyInto s inp =
     (let (test', s1) = copy_str s (hiwa_Test inp)
      in (inp\<lparr>hiwa_Test := test'\<rparr>, s1))"

lemmas WAMArgs_defs = WAMArgs_contents_def WAMArgs_cells_def WAMArgs_valid_def WAMArgs_DeepCopyInto_def

lemma WAMArgs_copier:
  "deep_copier WAMArgs_contents WAMArgs_cells WAMArgs_valid WAMArgs_DeepCopyInto"
  by (rule struct_copier [OF str_copier,
      where parts = "\<lambda>x. hiwa_Test x"
      and put_parts = "\<lambda>x a1. x\<lparr>hiwa_Test := a1\<rparr>"
      and view = "\<lambda>x a1. \<lparr>iwa_Test = a1\<rparr>"])
    (simp_all add: WAMArgs_defs copy_simps split: prod.splits)

definition WAMArgs_DeepCopy :: "hWAMArgs cell store \<Rightarrow> ptr \<Rightarrow> ptr \<times> hWAMArgs cell store" where
  "WAMArgs_DeepCopy = new_copy WAMArgs_DeepCopyInto"

definition WAMArgs_DeepCopyObject :: "hWAMArgs cell store \<Rightarrow> ptr \<Rightarrow> ptr \<times> hWAMArgs cell store" where
  "WAMArgs_DeepCopyObject s p = (let (c, t) = WAMArgs_DeepCopy s p in (case c of Some out \<Rightarrow> (Some out, t) | None \<Rightarrow> (None, t)))"

end
