(* ===== verification/Deep_Copy_Objects.thy ===== *)
theory Deep_Copy_Objects
  imports Deep_Copy_Cells
begin

text \<open>
  The deep copies of the custom resources: \<^verbatim>\<open>apis/scheduling/v1alpha1/zz_generated.deepcopy.go\<close> for
  elastic quotas and pod groups and their lists, with the copies of the metadata that they call
  (\<^verbatim>\<open>ObjectMeta\<close>, \<^verbatim>\<open>ListMeta\<close>, owner references and managed fields of the vendored apimachinery).
  The layout is that of the arguments' copies.  A time is copied by assignment.
\<close>

section \<open>Metadata\<close>

record api_OwnerReference =
  ao_APIVersion :: string
  ao_Kind :: string
  ao_Name :: string
  ao_UID :: string
  ao_Controller :: "bool option"
  ao_BlockOwnerDeletion :: "bool option"

definition api_OwnerReference_contents :: "'o cell store \<Rightarrow> hapi_OwnerReference \<Rightarrow> api_OwnerReference" where
  "api_OwnerReference_contents s x = \<lparr>ao_APIVersion = hao_APIVersion x, ao_Kind = hao_Kind x, ao_Name = hao_Name x, ao_UID = hao_UID x,
     ao_Controller = bool_contents s (hao_Controller x),
     ao_BlockOwnerDeletion = bool_contents s (hao_BlockOwnerDeletion x)\<rparr>"

definition api_OwnerReference_cells :: "'o cell store \<Rightarrow> hapi_OwnerReference \<Rightarrow> addr set" where
  "api_OwnerReference_cells s x = bool_cells s (hao_Controller x) \<union> bool_cells s (hao_BlockOwnerDeletion x)"

definition api_OwnerReference_valid :: "'o cell store \<Rightarrow> hapi_OwnerReference \<Rightarrow> bool" where
  "api_OwnerReference_valid s x = (bool_valid s (hao_Controller x) \<and> bool_valid s (hao_BlockOwnerDeletion x))"

definition api_OwnerReference_DeepCopyInto :: "'o cell store \<Rightarrow> hapi_OwnerReference \<Rightarrow> hapi_OwnerReference \<times> 'o cell store" where
  "api_OwnerReference_DeepCopyInto s inp =
     (let (controller', s1) = copy_bool s (hao_Controller inp);
          (blockOwnerDeletion', s2) = copy_bool s1 (hao_BlockOwnerDeletion inp)
      in (inp\<lparr>hao_Controller := controller', hao_BlockOwnerDeletion := blockOwnerDeletion'\<rparr>, s2))"

lemmas api_OwnerReference_defs = api_OwnerReference_contents_def api_OwnerReference_cells_def api_OwnerReference_valid_def api_OwnerReference_DeepCopyInto_def

lemma api_OwnerReference_copier:
  "deep_copier api_OwnerReference_contents api_OwnerReference_cells api_OwnerReference_valid api_OwnerReference_DeepCopyInto"
  by (rule struct_copier [OF pair_deep_copier [OF bool_copier bool_copier],
      where parts = "\<lambda>x. (hao_Controller x, hao_BlockOwnerDeletion x)"
      and put_parts = "\<lambda>x (a1, a2). x\<lparr>hao_Controller := a1, hao_BlockOwnerDeletion := a2\<rparr>"
      and view = "\<lambda>x (a1, a2). \<lparr>ao_APIVersion = hao_APIVersion x, ao_Kind = hao_Kind x, ao_Name = hao_Name x, ao_UID = hao_UID x,
      ao_Controller = a1, ao_BlockOwnerDeletion = a2\<rparr>"])
    (simp_all add: api_OwnerReference_defs copy_simps split: prod.splits)

lemmas each_owner = deep_copier.each_copier [OF api_OwnerReference_copier]

abbreviation owners_contents where "owners_contents \<equiv> box_contents un_COwners (each_contents api_OwnerReference_contents)"
abbreviation owners_cells where "owners_cells \<equiv> box_cells un_COwners (each_cells api_OwnerReference_cells)"
abbreviation owners_valid where "owners_valid \<equiv> box_valid un_COwners COwners (each_valid api_OwnerReference_valid)"
abbreviation copy_owners where "copy_owners \<equiv> box_copy CZero un_COwners COwners (copy_each api_OwnerReference_DeepCopyInto)"

lemma owners_copier: "deep_copier owners_contents owners_cells owners_valid copy_owners"
  by (rule deep_copier.box_copier [OF each_owner]) simp

record api_FieldsV1 =
  af_Raw :: "8 word list"

definition api_FieldsV1_contents :: "'o cell store \<Rightarrow> hapi_FieldsV1 \<Rightarrow> api_FieldsV1" where
  "api_FieldsV1_contents s x = \<lparr>af_Raw = opt_list (bytes_contents s (haf_Raw x))\<rparr>"

definition api_FieldsV1_cells :: "'o cell store \<Rightarrow> hapi_FieldsV1 \<Rightarrow> addr set" where
  "api_FieldsV1_cells s x = bytes_cells s (haf_Raw x)"

definition api_FieldsV1_valid :: "'o cell store \<Rightarrow> hapi_FieldsV1 \<Rightarrow> bool" where
  "api_FieldsV1_valid s x = (bytes_valid s (haf_Raw x))"

definition api_FieldsV1_DeepCopyInto :: "'o cell store \<Rightarrow> hapi_FieldsV1 \<Rightarrow> hapi_FieldsV1 \<times> 'o cell store" where
  "api_FieldsV1_DeepCopyInto s inp =
     (let (raw', s1) = copy_bytes s (haf_Raw inp)
      in (inp\<lparr>haf_Raw := raw'\<rparr>, s1))"

lemmas api_FieldsV1_defs = api_FieldsV1_contents_def api_FieldsV1_cells_def api_FieldsV1_valid_def api_FieldsV1_DeepCopyInto_def

lemma api_FieldsV1_copier:
  "deep_copier api_FieldsV1_contents api_FieldsV1_cells api_FieldsV1_valid api_FieldsV1_DeepCopyInto"
  by (rule struct_copier [OF bytes_copier,
      where parts = "\<lambda>x. haf_Raw x"
      and put_parts = "\<lambda>x a1. x\<lparr>haf_Raw := a1\<rparr>"
      and view = "\<lambda>x a1. \<lparr>af_Raw = opt_list (a1)\<rparr>"])
    (simp_all add: api_FieldsV1_defs copy_simps split: prod.splits)

abbreviation fields_contents where "fields_contents \<equiv> box_contents un_CFields api_FieldsV1_contents"
abbreviation fields_cells where "fields_cells \<equiv> box_cells un_CFields api_FieldsV1_cells"
abbreviation fields_valid where "fields_valid \<equiv> box_valid un_CFields CFields api_FieldsV1_valid"
abbreviation copy_fields where "copy_fields \<equiv> box_copy CZero un_CFields CFields api_FieldsV1_DeepCopyInto"

lemma fields_copier: "deep_copier fields_contents fields_cells fields_valid copy_fields"
  by (rule deep_copier.box_copier [OF api_FieldsV1_copier]) simp

record api_ManagedFieldsEntry =
  am_Manager :: string
  am_Operation :: string
  am_APIVersion :: string
  am_Time :: "int option"
  am_FieldsType :: string
  am_FieldsV1 :: "api_FieldsV1 option"
  am_Subresource :: string

definition api_ManagedFieldsEntry_contents :: "'o cell store \<Rightarrow> hapi_ManagedFieldsEntry \<Rightarrow> api_ManagedFieldsEntry" where
  "api_ManagedFieldsEntry_contents s x = \<lparr>am_Manager = ham_Manager x, am_Operation = ham_Operation x, am_APIVersion = ham_APIVersion x,
     am_Time = time_contents s (ham_Time x), am_FieldsType = ham_FieldsType x,
     am_FieldsV1 = fields_contents s (ham_FieldsV1 x), am_Subresource = ham_Subresource x\<rparr>"

definition api_ManagedFieldsEntry_cells :: "'o cell store \<Rightarrow> hapi_ManagedFieldsEntry \<Rightarrow> addr set" where
  "api_ManagedFieldsEntry_cells s x = time_cells s (ham_Time x) \<union> fields_cells s (ham_FieldsV1 x)"

definition api_ManagedFieldsEntry_valid :: "'o cell store \<Rightarrow> hapi_ManagedFieldsEntry \<Rightarrow> bool" where
  "api_ManagedFieldsEntry_valid s x = (time_valid s (ham_Time x) \<and> fields_valid s (ham_FieldsV1 x))"

definition api_ManagedFieldsEntry_DeepCopyInto :: "'o cell store \<Rightarrow> hapi_ManagedFieldsEntry \<Rightarrow> hapi_ManagedFieldsEntry \<times> 'o cell store" where
  "api_ManagedFieldsEntry_DeepCopyInto s inp =
     (let (time', s1) = copy_time s (ham_Time inp);
          (fieldsV1', s2) = copy_fields s1 (ham_FieldsV1 inp)
      in (inp\<lparr>ham_Time := time', ham_FieldsV1 := fieldsV1'\<rparr>, s2))"

lemmas api_ManagedFieldsEntry_defs = api_ManagedFieldsEntry_contents_def api_ManagedFieldsEntry_cells_def api_ManagedFieldsEntry_valid_def api_ManagedFieldsEntry_DeepCopyInto_def

lemma api_ManagedFieldsEntry_copier:
  "deep_copier api_ManagedFieldsEntry_contents api_ManagedFieldsEntry_cells api_ManagedFieldsEntry_valid api_ManagedFieldsEntry_DeepCopyInto"
  by (rule struct_copier [OF pair_deep_copier [OF time_copier fields_copier],
      where parts = "\<lambda>x. (ham_Time x, ham_FieldsV1 x)"
      and put_parts = "\<lambda>x (a1, a2). x\<lparr>ham_Time := a1, ham_FieldsV1 := a2\<rparr>"
      and view = "\<lambda>x (a1, a2). \<lparr>am_Manager = ham_Manager x, am_Operation = ham_Operation x, am_APIVersion = ham_APIVersion x, am_Time = a1,
      am_FieldsType = ham_FieldsType x, am_FieldsV1 = a2, am_Subresource = ham_Subresource x\<rparr>"])
    (simp_all add: api_ManagedFieldsEntry_defs copy_simps split: prod.splits)

lemmas each_managed = deep_copier.each_copier [OF api_ManagedFieldsEntry_copier]

abbreviation managed_contents where "managed_contents \<equiv> box_contents un_CManaged (each_contents api_ManagedFieldsEntry_contents)"
abbreviation managed_cells where "managed_cells \<equiv> box_cells un_CManaged (each_cells api_ManagedFieldsEntry_cells)"
abbreviation managed_valid where "managed_valid \<equiv> box_valid un_CManaged CManaged (each_valid api_ManagedFieldsEntry_valid)"
abbreviation copy_managed where "copy_managed \<equiv> box_copy CZero un_CManaged CManaged (copy_each api_ManagedFieldsEntry_DeepCopyInto)"

lemma managed_copier: "deep_copier managed_contents managed_cells managed_valid copy_managed"
  by (rule deep_copier.box_copier [OF each_managed]) simp

record api_ObjectMeta =
  om_Name :: string
  om_GenerateName :: string
  om_Namespace :: string
  om_SelfLink :: string
  om_UID :: string
  om_ResourceVersion :: string
  om_Generation :: i64
  om_CreationTimestamp :: int
  om_DeletionTimestamp :: "int option"
  om_DeletionGracePeriodSeconds :: "i64 option"
  om_Labels :: "(string, string) gomap option"
  om_Annotations :: "(string, string) gomap option"
  om_OwnerReferences :: "api_OwnerReference list"
  om_Finalizers :: "string list"
  om_ManagedFields :: "api_ManagedFieldsEntry list"

definition api_ObjectMeta_contents :: "'o cell store \<Rightarrow> hapi_ObjectMeta \<Rightarrow> api_ObjectMeta" where
  "api_ObjectMeta_contents s x = \<lparr>om_Name = hom_Name x, om_GenerateName = hom_GenerateName x, om_Namespace = hom_Namespace x,
     om_SelfLink = hom_SelfLink x, om_UID = hom_UID x, om_ResourceVersion = hom_ResourceVersion x,
     om_Generation = hom_Generation x, om_CreationTimestamp = hom_CreationTimestamp x,
     om_DeletionTimestamp = time_contents s (hom_DeletionTimestamp x),
     om_DeletionGracePeriodSeconds = i64_contents s (hom_DeletionGracePeriodSeconds x),
     om_Labels = labels_contents s (hom_Labels x), om_Annotations = labels_contents s (hom_Annotations x),
     om_OwnerReferences = opt_list (owners_contents s (hom_OwnerReferences x)),
     om_Finalizers = opt_list (strings_contents s (hom_Finalizers x)),
     om_ManagedFields = opt_list (managed_contents s (hom_ManagedFields x))\<rparr>"

definition api_ObjectMeta_cells :: "'o cell store \<Rightarrow> hapi_ObjectMeta \<Rightarrow> addr set" where
  "api_ObjectMeta_cells s x = time_cells s (hom_DeletionTimestamp x) \<union> i64_cells s (hom_DeletionGracePeriodSeconds x) \<union>
     labels_cells s (hom_Labels x) \<union> labels_cells s (hom_Annotations x) \<union>
     owners_cells s (hom_OwnerReferences x) \<union> strings_cells s (hom_Finalizers x) \<union>
     managed_cells s (hom_ManagedFields x)"

definition api_ObjectMeta_valid :: "'o cell store \<Rightarrow> hapi_ObjectMeta \<Rightarrow> bool" where
  "api_ObjectMeta_valid s x = (time_valid s (hom_DeletionTimestamp x) \<and> i64_valid s (hom_DeletionGracePeriodSeconds x) \<and>
     labels_valid s (hom_Labels x) \<and> labels_valid s (hom_Annotations x) \<and>
     owners_valid s (hom_OwnerReferences x) \<and> strings_valid s (hom_Finalizers x) \<and>
     managed_valid s (hom_ManagedFields x))"

definition api_ObjectMeta_DeepCopyInto :: "'o cell store \<Rightarrow> hapi_ObjectMeta \<Rightarrow> hapi_ObjectMeta \<times> 'o cell store" where
  "api_ObjectMeta_DeepCopyInto s inp =
     (let (deletionTimestamp', s1) = copy_time s (hom_DeletionTimestamp inp);
          (deletionGracePeriodSeconds', s2) = copy_i64 s1 (hom_DeletionGracePeriodSeconds inp);
          (labels', s3) = copy_labels s2 (hom_Labels inp);
          (annotations', s4) = copy_labels s3 (hom_Annotations inp);
          (ownerReferences', s5) = copy_owners s4 (hom_OwnerReferences inp);
          (finalizers', s6) = copy_strings s5 (hom_Finalizers inp);
          (managedFields', s7) = copy_managed s6 (hom_ManagedFields inp)
      in (inp\<lparr>hom_DeletionTimestamp := deletionTimestamp', hom_DeletionGracePeriodSeconds := deletionGracePeriodSeconds',
        hom_Labels := labels', hom_Annotations := annotations', hom_OwnerReferences := ownerReferences',
        hom_Finalizers := finalizers', hom_ManagedFields := managedFields'\<rparr>, s7))"

lemmas api_ObjectMeta_defs = api_ObjectMeta_contents_def api_ObjectMeta_cells_def api_ObjectMeta_valid_def api_ObjectMeta_DeepCopyInto_def

lemma api_ObjectMeta_copier:
  "deep_copier api_ObjectMeta_contents api_ObjectMeta_cells api_ObjectMeta_valid api_ObjectMeta_DeepCopyInto"
  by (rule struct_copier [OF pair_deep_copier [OF time_copier pair_deep_copier [OF i64_copier pair_deep_copier [OF labels_copier pair_deep_copier [OF labels_copier pair_deep_copier [OF owners_copier pair_deep_copier [OF strings_copier managed_copier]]]]]],
      where parts = "\<lambda>x. (hom_DeletionTimestamp x, (hom_DeletionGracePeriodSeconds x, (hom_Labels x, (hom_Annotations x, (hom_OwnerReferences x, (hom_Finalizers x, hom_ManagedFields x))))))"
      and put_parts = "\<lambda>x (a1, (a2, (a3, (a4, (a5, (a6, a7)))))). x\<lparr>hom_DeletionTimestamp := a1,
        hom_DeletionGracePeriodSeconds := a2, hom_Labels := a3, hom_Annotations := a4, hom_OwnerReferences := a5,
        hom_Finalizers := a6, hom_ManagedFields := a7\<rparr>"
      and view = "\<lambda>x (a1, (a2, (a3, (a4, (a5, (a6, a7)))))). \<lparr>om_Name = hom_Name x, om_GenerateName = hom_GenerateName x, om_Namespace = hom_Namespace x,
      om_SelfLink = hom_SelfLink x, om_UID = hom_UID x, om_ResourceVersion = hom_ResourceVersion x,
      om_Generation = hom_Generation x, om_CreationTimestamp = hom_CreationTimestamp x, om_DeletionTimestamp = a1,
      om_DeletionGracePeriodSeconds = a2, om_Labels = a3, om_Annotations = a4, om_OwnerReferences = opt_list (a5),
      om_Finalizers = opt_list (a6), om_ManagedFields = opt_list (a7)\<rparr>"])
    (simp_all add: api_ObjectMeta_defs copy_simps split: prod.splits)

record api_ListMeta =
  lm_SelfLink :: string
  lm_ResourceVersion :: string
  lm_Continue :: string
  lm_RemainingItemCount :: "i64 option"

record hapi_ListMeta =
  hlm_SelfLink :: string
  hlm_ResourceVersion :: string
  hlm_Continue :: string
  hlm_RemainingItemCount :: ptr

definition api_ListMeta_contents :: "'o cell store \<Rightarrow> hapi_ListMeta \<Rightarrow> api_ListMeta" where
  "api_ListMeta_contents s x = \<lparr>lm_SelfLink = hlm_SelfLink x, lm_ResourceVersion = hlm_ResourceVersion x, lm_Continue = hlm_Continue x,
     lm_RemainingItemCount = i64_contents s (hlm_RemainingItemCount x)\<rparr>"

definition api_ListMeta_cells :: "'o cell store \<Rightarrow> hapi_ListMeta \<Rightarrow> addr set" where
  "api_ListMeta_cells s x = i64_cells s (hlm_RemainingItemCount x)"

definition api_ListMeta_valid :: "'o cell store \<Rightarrow> hapi_ListMeta \<Rightarrow> bool" where
  "api_ListMeta_valid s x = (i64_valid s (hlm_RemainingItemCount x))"

definition api_ListMeta_DeepCopyInto :: "'o cell store \<Rightarrow> hapi_ListMeta \<Rightarrow> hapi_ListMeta \<times> 'o cell store" where
  "api_ListMeta_DeepCopyInto s inp =
     (let (remainingItemCount', s1) = copy_i64 s (hlm_RemainingItemCount inp)
      in (inp\<lparr>hlm_RemainingItemCount := remainingItemCount'\<rparr>, s1))"

lemmas api_ListMeta_defs = api_ListMeta_contents_def api_ListMeta_cells_def api_ListMeta_valid_def api_ListMeta_DeepCopyInto_def

lemma api_ListMeta_copier:
  "deep_copier api_ListMeta_contents api_ListMeta_cells api_ListMeta_valid api_ListMeta_DeepCopyInto"
  by (rule struct_copier [OF i64_copier,
      where parts = "\<lambda>x. hlm_RemainingItemCount x"
      and put_parts = "\<lambda>x a1. x\<lparr>hlm_RemainingItemCount := a1\<rparr>"
      and view = "\<lambda>x a1. \<lparr>lm_SelfLink = hlm_SelfLink x, lm_ResourceVersion = hlm_ResourceVersion x, lm_Continue = hlm_Continue x,
      lm_RemainingItemCount = a1\<rparr>"])
    (simp_all add: api_ListMeta_defs copy_simps split: prod.splits)

section \<open>Elastic quotas and pod groups\<close>

record api_ElasticQuotaSpec =
  aes_Min :: "ResourceList option"
  aes_Max :: "ResourceList option"

definition api_ElasticQuotaSpec_contents :: "'o cell store \<Rightarrow> hapi_ElasticQuotaSpec \<Rightarrow> api_ElasticQuotaSpec" where
  "api_ElasticQuotaSpec_contents s x = \<lparr>aes_Min = resources_contents s (haes_Min x), aes_Max = resources_contents s (haes_Max x)\<rparr>"

definition api_ElasticQuotaSpec_cells :: "'o cell store \<Rightarrow> hapi_ElasticQuotaSpec \<Rightarrow> addr set" where
  "api_ElasticQuotaSpec_cells s x = resources_cells s (haes_Min x) \<union> resources_cells s (haes_Max x)"

definition api_ElasticQuotaSpec_valid :: "'o cell store \<Rightarrow> hapi_ElasticQuotaSpec \<Rightarrow> bool" where
  "api_ElasticQuotaSpec_valid s x = (resources_valid s (haes_Min x) \<and> resources_valid s (haes_Max x))"

definition api_ElasticQuotaSpec_DeepCopyInto :: "'o cell store \<Rightarrow> hapi_ElasticQuotaSpec \<Rightarrow> hapi_ElasticQuotaSpec \<times> 'o cell store" where
  "api_ElasticQuotaSpec_DeepCopyInto s inp =
     (let (min', s1) = copy_resources s (haes_Min inp);
          (max', s2) = copy_resources s1 (haes_Max inp)
      in (inp\<lparr>haes_Min := min', haes_Max := max'\<rparr>, s2))"

lemmas api_ElasticQuotaSpec_defs = api_ElasticQuotaSpec_contents_def api_ElasticQuotaSpec_cells_def api_ElasticQuotaSpec_valid_def api_ElasticQuotaSpec_DeepCopyInto_def

lemma api_ElasticQuotaSpec_copier:
  "deep_copier api_ElasticQuotaSpec_contents api_ElasticQuotaSpec_cells api_ElasticQuotaSpec_valid api_ElasticQuotaSpec_DeepCopyInto"
  by (rule struct_copier [OF pair_deep_copier [OF resources_copier resources_copier],
      where parts = "\<lambda>x. (haes_Min x, haes_Max x)"
      and put_parts = "\<lambda>x (a1, a2). x\<lparr>haes_Min := a1, haes_Max := a2\<rparr>"
      and view = "\<lambda>x (a1, a2). \<lparr>aes_Min = a1, aes_Max = a2\<rparr>"])
    (simp_all add: api_ElasticQuotaSpec_defs copy_simps split: prod.splits)

definition api_ElasticQuotaSpec_DeepCopy :: "hapi_ElasticQuotaSpec cell store \<Rightarrow> ptr \<Rightarrow> ptr \<times> hapi_ElasticQuotaSpec cell store" where
  "api_ElasticQuotaSpec_DeepCopy = new_copy api_ElasticQuotaSpec_DeepCopyInto"

record api_ElasticQuotaStatus =
  aet_Used :: "ResourceList option"

definition api_ElasticQuotaStatus_contents :: "'o cell store \<Rightarrow> hapi_ElasticQuotaStatus \<Rightarrow> api_ElasticQuotaStatus" where
  "api_ElasticQuotaStatus_contents s x = \<lparr>aet_Used = resources_contents s (haet_Used x)\<rparr>"

definition api_ElasticQuotaStatus_cells :: "'o cell store \<Rightarrow> hapi_ElasticQuotaStatus \<Rightarrow> addr set" where
  "api_ElasticQuotaStatus_cells s x = resources_cells s (haet_Used x)"

definition api_ElasticQuotaStatus_valid :: "'o cell store \<Rightarrow> hapi_ElasticQuotaStatus \<Rightarrow> bool" where
  "api_ElasticQuotaStatus_valid s x = (resources_valid s (haet_Used x))"

definition api_ElasticQuotaStatus_DeepCopyInto :: "'o cell store \<Rightarrow> hapi_ElasticQuotaStatus \<Rightarrow> hapi_ElasticQuotaStatus \<times> 'o cell store" where
  "api_ElasticQuotaStatus_DeepCopyInto s inp =
     (let (used', s1) = copy_resources s (haet_Used inp)
      in (inp\<lparr>haet_Used := used'\<rparr>, s1))"

lemmas api_ElasticQuotaStatus_defs = api_ElasticQuotaStatus_contents_def api_ElasticQuotaStatus_cells_def api_ElasticQuotaStatus_valid_def api_ElasticQuotaStatus_DeepCopyInto_def

lemma api_ElasticQuotaStatus_copier:
  "deep_copier api_ElasticQuotaStatus_contents api_ElasticQuotaStatus_cells api_ElasticQuotaStatus_valid api_ElasticQuotaStatus_DeepCopyInto"
  by (rule struct_copier [OF resources_copier,
      where parts = "\<lambda>x. haet_Used x"
      and put_parts = "\<lambda>x a1. x\<lparr>haet_Used := a1\<rparr>"
      and view = "\<lambda>x a1. \<lparr>aet_Used = a1\<rparr>"])
    (simp_all add: api_ElasticQuotaStatus_defs copy_simps split: prod.splits)

definition api_ElasticQuotaStatus_DeepCopy :: "hapi_ElasticQuotaStatus cell store \<Rightarrow> ptr \<Rightarrow> ptr \<times> hapi_ElasticQuotaStatus cell store" where
  "api_ElasticQuotaStatus_DeepCopy = new_copy api_ElasticQuotaStatus_DeepCopyInto"

record api_ElasticQuota =
  aeq_ObjectMeta :: api_ObjectMeta
  aeq_Spec :: api_ElasticQuotaSpec
  aeq_Status :: api_ElasticQuotaStatus

definition api_ElasticQuota_contents :: "'o cell store \<Rightarrow> hapi_ElasticQuota \<Rightarrow> api_ElasticQuota" where
  "api_ElasticQuota_contents s x = \<lparr>aeq_ObjectMeta = api_ObjectMeta_contents s (haeq_ObjectMeta x),
     aeq_Spec = api_ElasticQuotaSpec_contents s (haeq_Spec x),
     aeq_Status = api_ElasticQuotaStatus_contents s (haeq_Status x)\<rparr>"

definition api_ElasticQuota_cells :: "'o cell store \<Rightarrow> hapi_ElasticQuota \<Rightarrow> addr set" where
  "api_ElasticQuota_cells s x = api_ObjectMeta_cells s (haeq_ObjectMeta x) \<union> api_ElasticQuotaSpec_cells s (haeq_Spec x) \<union>
     api_ElasticQuotaStatus_cells s (haeq_Status x)"

definition api_ElasticQuota_valid :: "'o cell store \<Rightarrow> hapi_ElasticQuota \<Rightarrow> bool" where
  "api_ElasticQuota_valid s x = (api_ObjectMeta_valid s (haeq_ObjectMeta x) \<and> api_ElasticQuotaSpec_valid s (haeq_Spec x) \<and>
     api_ElasticQuotaStatus_valid s (haeq_Status x))"

definition api_ElasticQuota_DeepCopyInto :: "'o cell store \<Rightarrow> hapi_ElasticQuota \<Rightarrow> hapi_ElasticQuota \<times> 'o cell store" where
  "api_ElasticQuota_DeepCopyInto s inp =
     (let (objectMeta', s1) = api_ObjectMeta_DeepCopyInto s (haeq_ObjectMeta inp);
          (spec', s2) = api_ElasticQuotaSpec_DeepCopyInto s1 (haeq_Spec inp);
          (status', s3) = api_ElasticQuotaStatus_DeepCopyInto s2 (haeq_Status inp)
      in (inp\<lparr>haeq_ObjectMeta := objectMeta', haeq_Spec := spec', haeq_Status := status'\<rparr>, s3))"

lemmas api_ElasticQuota_defs = api_ElasticQuota_contents_def api_ElasticQuota_cells_def api_ElasticQuota_valid_def api_ElasticQuota_DeepCopyInto_def

lemma api_ElasticQuota_copier:
  "deep_copier api_ElasticQuota_contents api_ElasticQuota_cells api_ElasticQuota_valid api_ElasticQuota_DeepCopyInto"
  by (rule struct_copier [OF pair_deep_copier [OF api_ObjectMeta_copier pair_deep_copier [OF api_ElasticQuotaSpec_copier api_ElasticQuotaStatus_copier]],
      where parts = "\<lambda>x. (haeq_ObjectMeta x, (haeq_Spec x, haeq_Status x))"
      and put_parts = "\<lambda>x (a1, (a2, a3)). x\<lparr>haeq_ObjectMeta := a1, haeq_Spec := a2, haeq_Status := a3\<rparr>"
      and view = "\<lambda>x (a1, (a2, a3)). \<lparr>aeq_ObjectMeta = a1, aeq_Spec = a2, aeq_Status = a3\<rparr>"])
    (simp_all add: api_ElasticQuota_defs copy_simps split: prod.splits)

interpretation elastic_quota: deep_copier api_ElasticQuota_contents api_ElasticQuota_cells api_ElasticQuota_valid api_ElasticQuota_DeepCopyInto
  by (rule api_ElasticQuota_copier)

definition api_ElasticQuota_DeepCopy :: "hapi_ElasticQuota cell store \<Rightarrow> ptr \<Rightarrow> ptr \<times> hapi_ElasticQuota cell store" where
  "api_ElasticQuota_DeepCopy = new_copy api_ElasticQuota_DeepCopyInto"

definition api_ElasticQuota_DeepCopyObject :: "hapi_ElasticQuota cell store \<Rightarrow> ptr \<Rightarrow> ptr \<times> hapi_ElasticQuota cell store" where
  "api_ElasticQuota_DeepCopyObject s p = (let (c, t) = api_ElasticQuota_DeepCopy s p in (case c of Some out \<Rightarrow> (Some out, t) | None \<Rightarrow> (None, t)))"

lemmas each_quota = deep_copier.each_copier [OF api_ElasticQuota_copier]

abbreviation eqs_contents where "eqs_contents \<equiv> box_contents un_CQuotas (each_contents api_ElasticQuota_contents)"
abbreviation eqs_cells where "eqs_cells \<equiv> box_cells un_CQuotas (each_cells api_ElasticQuota_cells)"
abbreviation eqs_valid where "eqs_valid \<equiv> box_valid un_CQuotas CQuotas (each_valid api_ElasticQuota_valid)"
abbreviation copy_eqs where "copy_eqs \<equiv> box_copy CZero un_CQuotas CQuotas (copy_each api_ElasticQuota_DeepCopyInto)"

lemma eqs_copier: "deep_copier eqs_contents eqs_cells eqs_valid copy_eqs"
  by (rule deep_copier.box_copier [OF each_quota]) simp

record api_ElasticQuotaList =
  ael_ListMeta :: api_ListMeta
  ael_Items :: "api_ElasticQuota list"

record hapi_ElasticQuotaList =
  hael_ListMeta :: hapi_ListMeta
  hael_Items :: ptr

definition api_ElasticQuotaList_contents :: "'o cell store \<Rightarrow> hapi_ElasticQuotaList \<Rightarrow> api_ElasticQuotaList" where
  "api_ElasticQuotaList_contents s x = \<lparr>ael_ListMeta = api_ListMeta_contents s (hael_ListMeta x), ael_Items = opt_list (eqs_contents s (hael_Items x))\<rparr>"

definition api_ElasticQuotaList_cells :: "'o cell store \<Rightarrow> hapi_ElasticQuotaList \<Rightarrow> addr set" where
  "api_ElasticQuotaList_cells s x = api_ListMeta_cells s (hael_ListMeta x) \<union> eqs_cells s (hael_Items x)"

definition api_ElasticQuotaList_valid :: "'o cell store \<Rightarrow> hapi_ElasticQuotaList \<Rightarrow> bool" where
  "api_ElasticQuotaList_valid s x = (api_ListMeta_valid s (hael_ListMeta x) \<and> eqs_valid s (hael_Items x))"

definition api_ElasticQuotaList_DeepCopyInto :: "'o cell store \<Rightarrow> hapi_ElasticQuotaList \<Rightarrow> hapi_ElasticQuotaList \<times> 'o cell store" where
  "api_ElasticQuotaList_DeepCopyInto s inp =
     (let (listMeta', s1) = api_ListMeta_DeepCopyInto s (hael_ListMeta inp);
          (items', s2) = copy_eqs s1 (hael_Items inp)
      in (inp\<lparr>hael_ListMeta := listMeta', hael_Items := items'\<rparr>, s2))"

lemmas api_ElasticQuotaList_defs = api_ElasticQuotaList_contents_def api_ElasticQuotaList_cells_def api_ElasticQuotaList_valid_def api_ElasticQuotaList_DeepCopyInto_def

lemma api_ElasticQuotaList_copier:
  "deep_copier api_ElasticQuotaList_contents api_ElasticQuotaList_cells api_ElasticQuotaList_valid api_ElasticQuotaList_DeepCopyInto"
  by (rule struct_copier [OF pair_deep_copier [OF api_ListMeta_copier eqs_copier],
      where parts = "\<lambda>x. (hael_ListMeta x, hael_Items x)"
      and put_parts = "\<lambda>x (a1, a2). x\<lparr>hael_ListMeta := a1, hael_Items := a2\<rparr>"
      and view = "\<lambda>x (a1, a2). \<lparr>ael_ListMeta = a1, ael_Items = opt_list (a2)\<rparr>"])
    (simp_all add: api_ElasticQuotaList_defs copy_simps split: prod.splits)

interpretation elastic_quotas: deep_copier api_ElasticQuotaList_contents api_ElasticQuotaList_cells api_ElasticQuotaList_valid api_ElasticQuotaList_DeepCopyInto
  by (rule api_ElasticQuotaList_copier)

definition api_ElasticQuotaList_DeepCopy :: "hapi_ElasticQuotaList cell store \<Rightarrow> ptr \<Rightarrow> ptr \<times> hapi_ElasticQuotaList cell store" where
  "api_ElasticQuotaList_DeepCopy = new_copy api_ElasticQuotaList_DeepCopyInto"

definition api_ElasticQuotaList_DeepCopyObject :: "hapi_ElasticQuotaList cell store \<Rightarrow> ptr \<Rightarrow> ptr \<times> hapi_ElasticQuotaList cell store" where
  "api_ElasticQuotaList_DeepCopyObject s p = (let (c, t) = api_ElasticQuotaList_DeepCopy s p in (case c of Some out \<Rightarrow> (Some out, t) | None \<Rightarrow> (None, t)))"

record api_PodGroupSpec =
  aps_MinMember :: i32
  aps_MinResources :: "ResourceList option"
  aps_ScheduleTimeoutSeconds :: "i32 option"

definition api_PodGroupSpec_contents :: "'o cell store \<Rightarrow> hapi_PodGroupSpec \<Rightarrow> api_PodGroupSpec" where
  "api_PodGroupSpec_contents s x = \<lparr>aps_MinMember = haps_MinMember x, aps_MinResources = resources_contents s (haps_MinResources x),
     aps_ScheduleTimeoutSeconds = i32_contents s (haps_ScheduleTimeoutSeconds x)\<rparr>"

definition api_PodGroupSpec_cells :: "'o cell store \<Rightarrow> hapi_PodGroupSpec \<Rightarrow> addr set" where
  "api_PodGroupSpec_cells s x = resources_cells s (haps_MinResources x) \<union> i32_cells s (haps_ScheduleTimeoutSeconds x)"

definition api_PodGroupSpec_valid :: "'o cell store \<Rightarrow> hapi_PodGroupSpec \<Rightarrow> bool" where
  "api_PodGroupSpec_valid s x = (resources_valid s (haps_MinResources x) \<and> i32_valid s (haps_ScheduleTimeoutSeconds x))"

definition api_PodGroupSpec_DeepCopyInto :: "'o cell store \<Rightarrow> hapi_PodGroupSpec \<Rightarrow> hapi_PodGroupSpec \<times> 'o cell store" where
  "api_PodGroupSpec_DeepCopyInto s inp =
     (let (minResources', s1) = copy_resources s (haps_MinResources inp);
          (scheduleTimeoutSeconds', s2) = copy_i32 s1 (haps_ScheduleTimeoutSeconds inp)
      in (inp\<lparr>haps_MinResources := minResources', haps_ScheduleTimeoutSeconds := scheduleTimeoutSeconds'\<rparr>, s2))"

lemmas api_PodGroupSpec_defs = api_PodGroupSpec_contents_def api_PodGroupSpec_cells_def api_PodGroupSpec_valid_def api_PodGroupSpec_DeepCopyInto_def

lemma api_PodGroupSpec_copier:
  "deep_copier api_PodGroupSpec_contents api_PodGroupSpec_cells api_PodGroupSpec_valid api_PodGroupSpec_DeepCopyInto"
  by (rule struct_copier [OF pair_deep_copier [OF resources_copier i32_copier],
      where parts = "\<lambda>x. (haps_MinResources x, haps_ScheduleTimeoutSeconds x)"
      and put_parts = "\<lambda>x (a1, a2). x\<lparr>haps_MinResources := a1, haps_ScheduleTimeoutSeconds := a2\<rparr>"
      and view = "\<lambda>x (a1, a2). \<lparr>aps_MinMember = haps_MinMember x, aps_MinResources = a1, aps_ScheduleTimeoutSeconds = a2\<rparr>"])
    (simp_all add: api_PodGroupSpec_defs copy_simps split: prod.splits)

definition api_PodGroupSpec_DeepCopy :: "hapi_PodGroupSpec cell store \<Rightarrow> ptr \<Rightarrow> ptr \<times> hapi_PodGroupSpec cell store" where
  "api_PodGroupSpec_DeepCopy = new_copy api_PodGroupSpec_DeepCopyInto"

text \<open>The status has no pointers; \<^verbatim>\<open>ScheduleStartTime.DeepCopyInto\<close> is an assignment.\<close>

definition api_PodGroupStatus_DeepCopyInto :: "'o cell store \<Rightarrow> api_PodGroupStatus \<Rightarrow> api_PodGroupStatus \<times> 'o cell store" where
  "api_PodGroupStatus_DeepCopyInto s inp = (inp, s)"

lemma api_PodGroupStatus_copier: "deep_copier (\<lambda>s x. x) (\<lambda>s x. {}) (\<lambda>s x. True) api_PodGroupStatus_DeepCopyInto"
  by unfold_locales (auto simp: api_PodGroupStatus_DeepCopyInto_def)

definition api_PodGroupStatus_DeepCopy :: "api_PodGroupStatus cell store \<Rightarrow> ptr \<Rightarrow> ptr \<times> api_PodGroupStatus cell store" where
  "api_PodGroupStatus_DeepCopy = new_copy api_PodGroupStatus_DeepCopyInto"

record api_PodGroup =
  apg_ObjectMeta :: api_ObjectMeta
  apg_Spec :: api_PodGroupSpec
  apg_Status :: api_PodGroupStatus

definition api_PodGroup_contents :: "'o cell store \<Rightarrow> hapi_PodGroup \<Rightarrow> api_PodGroup" where
  "api_PodGroup_contents s x = \<lparr>apg_ObjectMeta = api_ObjectMeta_contents s (hapg_ObjectMeta x),
     apg_Spec = api_PodGroupSpec_contents s (hapg_Spec x), apg_Status = hapg_Status x\<rparr>"

definition api_PodGroup_cells :: "'o cell store \<Rightarrow> hapi_PodGroup \<Rightarrow> addr set" where
  "api_PodGroup_cells s x = api_ObjectMeta_cells s (hapg_ObjectMeta x) \<union> api_PodGroupSpec_cells s (hapg_Spec x)"

definition api_PodGroup_valid :: "'o cell store \<Rightarrow> hapi_PodGroup \<Rightarrow> bool" where
  "api_PodGroup_valid s x = (api_ObjectMeta_valid s (hapg_ObjectMeta x) \<and> api_PodGroupSpec_valid s (hapg_Spec x))"

definition api_PodGroup_DeepCopyInto :: "'o cell store \<Rightarrow> hapi_PodGroup \<Rightarrow> hapi_PodGroup \<times> 'o cell store" where
  "api_PodGroup_DeepCopyInto s inp =
     (let (objectMeta', s1) = api_ObjectMeta_DeepCopyInto s (hapg_ObjectMeta inp);
          (spec', s2) = api_PodGroupSpec_DeepCopyInto s1 (hapg_Spec inp)
      in (inp\<lparr>hapg_ObjectMeta := objectMeta', hapg_Spec := spec'\<rparr>, s2))"

lemmas api_PodGroup_defs = api_PodGroup_contents_def api_PodGroup_cells_def api_PodGroup_valid_def api_PodGroup_DeepCopyInto_def

lemma api_PodGroup_copier:
  "deep_copier api_PodGroup_contents api_PodGroup_cells api_PodGroup_valid api_PodGroup_DeepCopyInto"
  by (rule struct_copier [OF pair_deep_copier [OF api_ObjectMeta_copier api_PodGroupSpec_copier],
      where parts = "\<lambda>x. (hapg_ObjectMeta x, hapg_Spec x)"
      and put_parts = "\<lambda>x (a1, a2). x\<lparr>hapg_ObjectMeta := a1, hapg_Spec := a2\<rparr>"
      and view = "\<lambda>x (a1, a2). \<lparr>apg_ObjectMeta = a1, apg_Spec = a2, apg_Status = hapg_Status x\<rparr>"])
    (simp_all add: api_PodGroup_defs copy_simps split: prod.splits)

interpretation pod_group: deep_copier api_PodGroup_contents api_PodGroup_cells api_PodGroup_valid api_PodGroup_DeepCopyInto
  by (rule api_PodGroup_copier)

definition api_PodGroup_DeepCopy :: "hapi_PodGroup cell store \<Rightarrow> ptr \<Rightarrow> ptr \<times> hapi_PodGroup cell store" where
  "api_PodGroup_DeepCopy = new_copy api_PodGroup_DeepCopyInto"

definition api_PodGroup_DeepCopyObject :: "hapi_PodGroup cell store \<Rightarrow> ptr \<Rightarrow> ptr \<times> hapi_PodGroup cell store" where
  "api_PodGroup_DeepCopyObject s p = (let (c, t) = api_PodGroup_DeepCopy s p in (case c of Some out \<Rightarrow> (Some out, t) | None \<Rightarrow> (None, t)))"

lemmas each_group = deep_copier.each_copier [OF api_PodGroup_copier]

abbreviation pgs_contents where "pgs_contents \<equiv> box_contents un_CGroups (each_contents api_PodGroup_contents)"
abbreviation pgs_cells where "pgs_cells \<equiv> box_cells un_CGroups (each_cells api_PodGroup_cells)"
abbreviation pgs_valid where "pgs_valid \<equiv> box_valid un_CGroups CGroups (each_valid api_PodGroup_valid)"
abbreviation copy_pgs where "copy_pgs \<equiv> box_copy CZero un_CGroups CGroups (copy_each api_PodGroup_DeepCopyInto)"

lemma pgs_copier: "deep_copier pgs_contents pgs_cells pgs_valid copy_pgs"
  by (rule deep_copier.box_copier [OF each_group]) simp

record api_PodGroupList =
  apl_ListMeta :: api_ListMeta
  apl_Items :: "api_PodGroup list"

record hapi_PodGroupList =
  hapl_ListMeta :: hapi_ListMeta
  hapl_Items :: ptr

definition api_PodGroupList_contents :: "'o cell store \<Rightarrow> hapi_PodGroupList \<Rightarrow> api_PodGroupList" where
  "api_PodGroupList_contents s x = \<lparr>apl_ListMeta = api_ListMeta_contents s (hapl_ListMeta x), apl_Items = opt_list (pgs_contents s (hapl_Items x))\<rparr>"

definition api_PodGroupList_cells :: "'o cell store \<Rightarrow> hapi_PodGroupList \<Rightarrow> addr set" where
  "api_PodGroupList_cells s x = api_ListMeta_cells s (hapl_ListMeta x) \<union> pgs_cells s (hapl_Items x)"

definition api_PodGroupList_valid :: "'o cell store \<Rightarrow> hapi_PodGroupList \<Rightarrow> bool" where
  "api_PodGroupList_valid s x = (api_ListMeta_valid s (hapl_ListMeta x) \<and> pgs_valid s (hapl_Items x))"

definition api_PodGroupList_DeepCopyInto :: "'o cell store \<Rightarrow> hapi_PodGroupList \<Rightarrow> hapi_PodGroupList \<times> 'o cell store" where
  "api_PodGroupList_DeepCopyInto s inp =
     (let (listMeta', s1) = api_ListMeta_DeepCopyInto s (hapl_ListMeta inp);
          (items', s2) = copy_pgs s1 (hapl_Items inp)
      in (inp\<lparr>hapl_ListMeta := listMeta', hapl_Items := items'\<rparr>, s2))"

lemmas api_PodGroupList_defs = api_PodGroupList_contents_def api_PodGroupList_cells_def api_PodGroupList_valid_def api_PodGroupList_DeepCopyInto_def

lemma api_PodGroupList_copier:
  "deep_copier api_PodGroupList_contents api_PodGroupList_cells api_PodGroupList_valid api_PodGroupList_DeepCopyInto"
  by (rule struct_copier [OF pair_deep_copier [OF api_ListMeta_copier pgs_copier],
      where parts = "\<lambda>x. (hapl_ListMeta x, hapl_Items x)"
      and put_parts = "\<lambda>x (a1, a2). x\<lparr>hapl_ListMeta := a1, hapl_Items := a2\<rparr>"
      and view = "\<lambda>x (a1, a2). \<lparr>apl_ListMeta = a1, apl_Items = opt_list (a2)\<rparr>"])
    (simp_all add: api_PodGroupList_defs copy_simps split: prod.splits)

interpretation pod_groups: deep_copier api_PodGroupList_contents api_PodGroupList_cells api_PodGroupList_valid api_PodGroupList_DeepCopyInto
  by (rule api_PodGroupList_copier)

definition api_PodGroupList_DeepCopy :: "hapi_PodGroupList cell store \<Rightarrow> ptr \<Rightarrow> ptr \<times> hapi_PodGroupList cell store" where
  "api_PodGroupList_DeepCopy = new_copy api_PodGroupList_DeepCopyInto"

definition api_PodGroupList_DeepCopyObject :: "hapi_PodGroupList cell store \<Rightarrow> ptr \<Rightarrow> ptr \<times> hapi_PodGroupList cell store" where
  "api_PodGroupList_DeepCopyObject s p = (let (c, t) = api_PodGroupList_DeepCopy s p in (case c of Some out \<Rightarrow> (Some out, t) | None \<Rightarrow> (None, t)))"

end
