(* ===== verification/Deep_Copy_Properties.thy ===== *)
theory Deep_Copy_Properties
  imports Deep_Copy_Args Deep_Copy_Objects Pod_Groups
begin

text \<open>
  The deep copies keep their contract: what \<^verbatim>\<open>DeepCopyObject\<close> gives for the arguments of any plugin and
  for the custom resources has the contents of the original and shares nothing with it.  This is
  what the rest of the development relies on when it passes arguments and objects as values, as in
  the reconciliation of pod groups, which changes a copy and compares it with the original.
\<close>

section \<open>The copies of every type\<close>

lemma copy_object_same: "(let (c, t) = deep_copy s p in (case c of Some out \<Rightarrow> (Some out, t) | None \<Rightarrow> (None, t))) = deep_copy s p"
  by (auto split: prod.splits option.splits)

lemma object_is_copy:
  assumes "deep_copier contents cells valid into" and "\<And>s p. copy_value s p = new_copy into s p"
  shows "is_deep_copy (object_contents contents) (object_cells cells) (object_valid valid) copy_value"
proof -
  have "copy_value = new_copy into" using assms(2) by blast
  then show ?thesis using deep_copier.is_copy [OF new_copy_copier [OF assms(1)]] by simp
qed

lemmas v1_copy_defs =
  v1_CoschedulingArgs_DeepCopy_def v1_CoschedulingArgs_DeepCopyObject_def
  v1_LoadVariationRiskBalancingArgs_DeepCopy_def v1_LoadVariationRiskBalancingArgs_DeepCopyObject_def
  v1_LowRiskOverCommitmentArgs_DeepCopy_def v1_LowRiskOverCommitmentArgs_DeepCopyObject_def
  v1_NetworkOverheadArgs_DeepCopy_def v1_NetworkOverheadArgs_DeepCopyObject_def
  v1_NodeResourceTopologyMatchArgs_DeepCopy_def v1_NodeResourceTopologyMatchArgs_DeepCopyObject_def
  v1_NodeResourcesAllocatableArgs_DeepCopy_def v1_NodeResourcesAllocatableArgs_DeepCopyObject_def
  v1_PreemptionTolerationArgs_DeepCopy_def v1_PreemptionTolerationArgs_DeepCopyObject_def
  v1_SySchedArgs_DeepCopy_def v1_SySchedArgs_DeepCopyObject_def
  v1_TargetLoadPackingArgs_DeepCopy_def v1_TargetLoadPackingArgs_DeepCopyObject_def
  v1_TopologicalSortArgs_DeepCopy_def v1_TopologicalSortArgs_DeepCopyObject_def
  v1_WAMArgs_DeepCopy_def v1_WAMArgs_DeepCopyObject_def

abbreviation copies where
  "copies contents cells valid \<equiv> is_deep_copy (object_contents contents) (object_cells cells) (object_valid valid)"

text \<open>C38: the copy of the versioned arguments of any plugin has the contents of the original in cells that
  were not allocated before; no existing cell has changed, and whatever is then written to the
  cells of one of the two, the other keeps its contents.\<close>

theorem args_copies:
  "copies v1_CoschedulingArgs_contents v1_CoschedulingArgs_cells v1_CoschedulingArgs_valid v1_CoschedulingArgs_DeepCopyObject \<and>
   copies v1_LoadVariationRiskBalancingArgs_contents v1_LoadVariationRiskBalancingArgs_cells v1_LoadVariationRiskBalancingArgs_valid
     v1_LoadVariationRiskBalancingArgs_DeepCopyObject \<and>
   copies v1_LowRiskOverCommitmentArgs_contents v1_LowRiskOverCommitmentArgs_cells v1_LowRiskOverCommitmentArgs_valid
     v1_LowRiskOverCommitmentArgs_DeepCopyObject \<and>
   copies v1_NetworkOverheadArgs_contents v1_NetworkOverheadArgs_cells v1_NetworkOverheadArgs_valid v1_NetworkOverheadArgs_DeepCopyObject \<and>
   copies v1_NodeResourceTopologyMatchArgs_contents v1_NodeResourceTopologyMatchArgs_cells v1_NodeResourceTopologyMatchArgs_valid
     v1_NodeResourceTopologyMatchArgs_DeepCopyObject \<and>
   copies v1_NodeResourcesAllocatableArgs_contents v1_NodeResourcesAllocatableArgs_cells v1_NodeResourcesAllocatableArgs_valid
     v1_NodeResourcesAllocatableArgs_DeepCopyObject \<and>
   copies v1_PreemptionTolerationArgs_contents v1_PreemptionTolerationArgs_cells v1_PreemptionTolerationArgs_valid
     v1_PreemptionTolerationArgs_DeepCopyObject \<and>
   copies v1_SySchedArgs_contents v1_SySchedArgs_cells v1_SySchedArgs_valid v1_SySchedArgs_DeepCopyObject \<and>
   copies v1_TargetLoadPackingArgs_contents v1_TargetLoadPackingArgs_cells v1_TargetLoadPackingArgs_valid v1_TargetLoadPackingArgs_DeepCopyObject \<and>
   copies v1_TopologicalSortArgs_contents v1_TopologicalSortArgs_cells v1_TopologicalSortArgs_valid v1_TopologicalSortArgs_DeepCopyObject \<and>
   copies v1_WAMArgs_contents v1_WAMArgs_cells v1_WAMArgs_valid v1_WAMArgs_DeepCopyObject"
  by (intro conjI;
      rule object_is_copy, rule v1_CoschedulingArgs_copier v1_LoadVariationRiskBalancingArgs_copier
        v1_LowRiskOverCommitmentArgs_copier v1_NetworkOverheadArgs_copier v1_NodeResourceTopologyMatchArgs_copier
        v1_NodeResourcesAllocatableArgs_copier v1_PreemptionTolerationArgs_copier v1_SySchedArgs_copier
        v1_TargetLoadPackingArgs_copier v1_TopologicalSortArgs_copier v1_WAMArgs_copier,
      simp only: v1_copy_defs copy_object_same)

section \<open>An example\<close>

text \<open>Arguments whose default request has its amount in an \<^verbatim>\<open>inf.Dec\<close>.\<close>

definition packing_store :: "hv1_TargetLoadPackingArgs cell store" where
  "packing_store = \<lparr>nxt = 3, heap = (\<lambda>a. CZero)(
     0 := CDec 5,
     1 := CResources [(''cpu'', \<lparr>hq_amount = 0, hq_Dec = Some 0\<rparr>)],
     2 := CObject \<lparr>hvtl_TrimaranSpec = \<lparr>hvts_MetricProvider = \<lparr>hvmp_Type = '''', hvmp_Address = None, hvmp_Token = None, hvmp_InsecureSkipVerify = None\<rparr>,
            hvts_WatcherAddress = None\<rparr>,
          hvtl_DefaultRequests = Some 1, hvtl_DefaultRequestsMultiplier = None, hvtl_TargetUtilization = None\<rparr>)\<rparr>"

lemmas packing_defs = packing_store_def v1_TargetLoadPackingArgs_defs v1_TrimaranSpec_defs v1_MetricProviderSpec_defs
  Quantity_contents_def Quantity_cells_def Quantity_valid_def Quantity_DeepCopyInto_def box_defs box_copy_def new_copy_def
  map_contents_def map_cells_def map_valid_def map_copy_def each_defs plain_copy_def alloc_def put_def gm_wf_def

definition packing_copied :: "ptr \<times> hv1_TargetLoadPackingArgs cell store" where
  "packing_copied = v1_TargetLoadPackingArgs_DeepCopyObject packing_store (Some 2)"

theorem args_copies_witness:
  "object_contents v1_TargetLoadPackingArgs_contents (put 5 (CDec 7) (snd packing_copied)) (Some 2) =
     object_contents v1_TargetLoadPackingArgs_contents packing_store (Some 2) \<and>
   object_contents v1_TargetLoadPackingArgs_contents (put 5 (CDec 7) (snd packing_copied)) (fst packing_copied) \<noteq>
     object_contents v1_TargetLoadPackingArgs_contents packing_store (Some 2)"
proof -
  have valid: "object_valid v1_TargetLoadPackingArgs_valid packing_store (Some 2)" by (simp add: packing_defs)
  have copied: "v1_TargetLoadPackingArgs_DeepCopyObject packing_store (Some 2) = (fst packing_copied, snd packing_copied)"
    by (simp add: packing_copied_def)
  have "5 \<in> object_cells v1_TargetLoadPackingArgs_cells (snd packing_copied) (fst packing_copied)"
    by (simp add: packing_copied_def v1_TargetLoadPackingArgs_DeepCopyObject_def v1_TargetLoadPackingArgs_DeepCopy_def packing_defs)
  then have "same_on (- object_cells v1_TargetLoadPackingArgs_cells (snd packing_copied) (fst packing_copied))
      (snd packing_copied) (put 5 (CDec 7) (snd packing_copied))"
    by (intro put_same) simp
  then have "object_contents v1_TargetLoadPackingArgs_contents (put 5 (CDec 7) (snd packing_copied)) (Some 2) =
     object_contents v1_TargetLoadPackingArgs_contents packing_store (Some 2)"
    using args_copies valid copied unfolding is_deep_copy_def by blast
  moreover have "object_contents v1_TargetLoadPackingArgs_contents (put 5 (CDec 7) (snd packing_copied)) (fst packing_copied) \<noteq>
     object_contents v1_TargetLoadPackingArgs_contents packing_store (Some 2)"
    by (simp add: packing_copied_def v1_TargetLoadPackingArgs_DeepCopyObject_def v1_TargetLoadPackingArgs_DeepCopy_def packing_defs)
  ultimately show ?thesis by blast
qed


section \<open>Internal arguments\<close>

lemmas config_copy_defs =
  CoschedulingArgs_DeepCopy_def CoschedulingArgs_DeepCopyObject_def
  LoadVariationRiskBalancingArgs_DeepCopy_def LoadVariationRiskBalancingArgs_DeepCopyObject_def
  LowRiskOverCommitmentArgs_DeepCopy_def LowRiskOverCommitmentArgs_DeepCopyObject_def
  NetworkOverheadArgs_DeepCopy_def NetworkOverheadArgs_DeepCopyObject_def
  NodeResourceTopologyMatchArgs_DeepCopy_def NodeResourceTopologyMatchArgs_DeepCopyObject_def
  NodeResourcesAllocatableArgs_DeepCopy_def NodeResourcesAllocatableArgs_DeepCopyObject_def
  PreemptionTolerationArgs_DeepCopy_def PreemptionTolerationArgs_DeepCopyObject_def
  SySchedArgs_DeepCopy_def SySchedArgs_DeepCopyObject_def
  TargetLoadPackingArgs_DeepCopy_def TargetLoadPackingArgs_DeepCopyObject_def
  TopologicalSortArgs_DeepCopy_def TopologicalSortArgs_DeepCopyObject_def
  WAMArgs_DeepCopy_def WAMArgs_DeepCopyObject_def

theorem config_copies:
  "copies (\<lambda>s x. x) (\<lambda>s x. {}) (\<lambda>s x. True) CoschedulingArgs_DeepCopyObject \<and>
   copies (\<lambda>s x. x) (\<lambda>s x. {}) (\<lambda>s x. True) LoadVariationRiskBalancingArgs_DeepCopyObject \<and>
   copies (\<lambda>s x. x) (\<lambda>s x. {}) (\<lambda>s x. True) PreemptionTolerationArgs_DeepCopyObject \<and>
   copies (\<lambda>s x. x) (\<lambda>s x. {}) (\<lambda>s x. True) SySchedArgs_DeepCopyObject \<and>
   copies LowRiskOverCommitmentArgs_contents LowRiskOverCommitmentArgs_cells LowRiskOverCommitmentArgs_valid LowRiskOverCommitmentArgs_DeepCopyObject \<and>
   copies NetworkOverheadArgs_contents NetworkOverheadArgs_cells NetworkOverheadArgs_valid NetworkOverheadArgs_DeepCopyObject \<and>
   copies NodeResourceTopologyMatchArgs_contents NodeResourceTopologyMatchArgs_cells NodeResourceTopologyMatchArgs_valid
     NodeResourceTopologyMatchArgs_DeepCopyObject \<and>
   copies NodeResourcesAllocatableArgs_contents NodeResourcesAllocatableArgs_cells NodeResourcesAllocatableArgs_valid
     NodeResourcesAllocatableArgs_DeepCopyObject \<and>
   copies TargetLoadPackingArgs_contents TargetLoadPackingArgs_cells TargetLoadPackingArgs_valid TargetLoadPackingArgs_DeepCopyObject \<and>
   copies TopologicalSortArgs_contents TopologicalSortArgs_cells TopologicalSortArgs_valid TopologicalSortArgs_DeepCopyObject \<and>
   copies WAMArgs_contents WAMArgs_cells WAMArgs_valid WAMArgs_DeepCopyObject"
  by (intro conjI;
      rule object_is_copy, rule CoschedulingArgs_copier LoadVariationRiskBalancingArgs_copier
        LowRiskOverCommitmentArgs_copier NetworkOverheadArgs_copier NodeResourceTopologyMatchArgs_copier
        NodeResourcesAllocatableArgs_copier PreemptionTolerationArgs_copier SySchedArgs_copier
        TargetLoadPackingArgs_copier TopologicalSortArgs_copier WAMArgs_copier,
      simp only: config_copy_defs copy_object_same)

section \<open>Custom resources\<close>

lemma resource_lists_copied:
  "copies api_ElasticQuotaList_contents api_ElasticQuotaList_cells api_ElasticQuotaList_valid api_ElasticQuotaList_DeepCopyObject \<and>
   copies api_PodGroupList_contents api_PodGroupList_cells api_PodGroupList_valid api_PodGroupList_DeepCopyObject \<and>
   copies api_ElasticQuota_contents api_ElasticQuota_cells api_ElasticQuota_valid api_ElasticQuota_DeepCopyObject \<and>
   copies api_PodGroup_contents api_PodGroup_cells api_PodGroup_valid api_PodGroup_DeepCopyObject"
  by (intro conjI;
      rule object_is_copy, rule api_ElasticQuotaList_copier api_PodGroupList_copier api_ElasticQuota_copier api_PodGroup_copier,
      simp only: api_ElasticQuotaList_DeepCopyObject_def api_PodGroupList_DeepCopyObject_def api_ElasticQuota_DeepCopyObject_def
        api_PodGroup_DeepCopyObject_def api_ElasticQuotaList_DeepCopy_def api_PodGroupList_DeepCopy_def
        api_ElasticQuota_DeepCopy_def api_PodGroup_DeepCopy_def copy_object_same)

text \<open>\<^verbatim>\<open>pgCopy.Status = status\<close> for a pod group at an address.\<close>

definition set_status :: "addr \<Rightarrow> api_PodGroupStatus \<Rightarrow> hapi_PodGroup cell store \<Rightarrow> hapi_PodGroup cell store" where
  "set_status a status s = put a (CObject ((un_CObject (heap s a))\<lparr>hapg_Status := status\<rparr>)) s"

lemma status_only:
  "api_PodGroup_contents s (x\<lparr>hapg_Status := status\<rparr>) = (api_PodGroup_contents s x)\<lparr>apg_Status := status\<rparr>"
  "api_PodGroup_cells s (x\<lparr>hapg_Status := status\<rparr>) = api_PodGroup_cells s x"
  by (simp_all add: api_PodGroup_defs)

text \<open>C39: the controller of pod groups copies a group and writes a status to the copy: the copy then has the
  contents of the group with that status, and the group itself is as before, so that the patch
  made from the two holds the change of status and nothing else.\<close>

theorem pod_group_copy:
  assumes "object_valid api_PodGroup_valid s (Some a)" and "api_PodGroup_DeepCopy s (Some a) = (q, t)"
  shows "\<exists>b. q = Some b \<and> b \<noteq> a \<and>
    object_contents api_PodGroup_contents (set_status b status t) (Some a) = object_contents api_PodGroup_contents s (Some a) \<and>
    object_contents api_PodGroup_contents (set_status b status t) (Some b) =
      map_option (\<lambda>g. g\<lparr>apg_Status := status\<rparr>) (object_contents api_PodGroup_contents s (Some a))"
proof -
  let ?b = "nxt s"
  let ?y = "un_CObject (heap t ?b)"
  let ?u = "set_status ?b status t"
  have box: "box_copy CZero un_CObject CObject api_PodGroup_DeepCopyInto s (Some a) = (q, t)"
    using assms(2) by (simp add: api_PodGroup_DeepCopy_def new_copy_box)
  have out: "q = Some ?b" "?b \<notin> api_PodGroup_cells t ?y"
    using pod_group.box_steps [OF _ assms(1) box] by simp_all
  have copied: "copies api_PodGroup_contents api_PodGroup_cells api_PodGroup_valid (box_copy CZero un_CObject CObject api_PodGroup_DeepCopyInto)"
    by (rule deep_copier.is_copy [OF pod_group.box_copier]) simp
  have "same_on (- object_cells api_PodGroup_cells t q) t ?u"
    unfolding set_status_def by (rule put_same) (simp add: out box_cells_def)
  then have orig: "object_contents api_PodGroup_contents ?u (Some a) = object_contents api_PodGroup_contents s (Some a)"
    using copied assms(1) box unfolding is_deep_copy_def by blast
  have same: "same_on (api_PodGroup_cells t (?y\<lparr>hapg_Status := status\<rparr>)) t ?u"
    unfolding set_status_def by (rule put_same) (simp add: status_only out)
  have "object_contents api_PodGroup_contents t q = object_contents api_PodGroup_contents s (Some a)"
    using copied assms(1) box unfolding is_deep_copy_def by blast
  then have "api_PodGroup_contents t ?y = api_PodGroup_contents s (un_CObject (heap s a))"
    by (simp add: out box_contents_def)
  then have "object_contents api_PodGroup_contents ?u (Some ?b) =
      map_option (\<lambda>g. g\<lparr>apg_Status := status\<rparr>) (object_contents api_PodGroup_contents s (Some a))"
    using pod_group.contents_local [OF same] by (simp add: box_contents_def status_only set_status_def)
  moreover have "?b \<noteq> a" using assms(1) by (auto simp: box_valid_def)
  ultimately show ?thesis using out orig by blast
qed


text \<open>A pod group with labels and a minimum of resources.\<close>

definition group_meta :: hapi_ObjectMeta where
  "group_meta = \<lparr>hom_Name = ''gang'', hom_GenerateName = '''', hom_Namespace = ''ns'', hom_SelfLink = '''', hom_UID = ''u'', hom_ResourceVersion = '''',
     hom_Generation = 1, hom_CreationTimestamp = 0, hom_DeletionTimestamp = None, hom_DeletionGracePeriodSeconds = None,
     hom_Labels = Some 0, hom_Annotations = None, hom_OwnerReferences = None, hom_Finalizers = None, hom_ManagedFields = None\<rparr>"

definition new_status :: "string \<Rightarrow> api_PodGroupStatus" where
  "new_status phase = \<lparr>apt_Phase = phase, apt_OccupiedBy = '''', apt_Running = 0, apt_Succeeded = 0, apt_Failed = 0, apt_ScheduleStartTime = None\<rparr>"

definition group_store :: "hapi_PodGroup cell store" where
  "group_store = \<lparr>nxt = 3, heap = (\<lambda>a. CZero)(
     0 := CLabels [(''app'', ''x'')],
     1 := CResources [(''cpu'', \<lparr>hq_amount = 4, hq_Dec = None\<rparr>)],
     2 := CObject \<lparr>hapg_ObjectMeta = group_meta,
            hapg_Spec = \<lparr>haps_MinMember = 2, haps_MinResources = Some 1, haps_ScheduleTimeoutSeconds = None\<rparr>,
            hapg_Status = new_status ''''\<rparr>)\<rparr>"

theorem pod_group_copy_witness:
  "\<exists>q t b. api_PodGroup_DeepCopy group_store (Some 2) = (q, t) \<and> q = Some b \<and>
    object_contents api_PodGroup_contents (set_status b (new_status ''Pending'') t) (Some 2) =
      object_contents api_PodGroup_contents group_store (Some 2)"
proof -
  obtain q t where copied: "api_PodGroup_DeepCopy group_store (Some 2) = (q, t)" by fastforce
  have "object_valid api_PodGroup_valid group_store (Some 2)"
    by (simp add: group_store_def group_meta_def api_PodGroup_valid_def api_ObjectMeta_valid_def api_PodGroupSpec_valid_def
        box_valid_def map_valid_def each_valid_def gm_wf_def Quantity_valid_def)
  from pod_group_copy [where status = "new_status ''Pending''", OF this copied] show ?thesis using copied by blast
qed


end
