(* ===== verification/Preemption_Evaluator.thy ===== *)
theory Preemption_Evaluator
  imports Preemption Disruption_Budgets
begin

text \<open>
  The evaluator that both preempting plugins hand their methods to (vendored
  \<^verbatim>\<open>framework/preemption/preemption.go\<close>): it asks the plugin for victims on every node where
  preemption may help, has the extenders look at the candidates, picks the best one and evicts
  its victims.  The methods of the plugin are a record; the contract of that record is the
  locale \<open>preemption_interface\<close>.

  The nodes are checked by parallel workers which stop once there are enough candidates.  The
  model takes the indices whose check ran, in the order in which their results were added, as an
  argument (\<open>order\<close>); the lemmas hold for every such order.  The evictions of one candidate are
  done one after the other and stop at the first error.  A map is ranged over in the order of
  its list.  The world \<open>'w\<close> is what the API server holds.
\<close>

section \<open>Data\<close>

record Victims =
  vi_Pods :: "v1_Pod list"
  vi_NumPDBViolations :: i64

type_synonym candidate = "string \<times> Victims"

record plugin_methods =
  pm_GetOffsetAndNumCandidates :: "i32 \<Rightarrow> (i32 \<times> i32) outcome"
  pm_CandidatesToVictimsMap :: "candidate list \<Rightarrow> (string, Victims) gomap"
  pm_PodEligibleToPreemptOthers :: "v1_Pod \<Rightarrow> Status \<Rightarrow> bool \<times> string"
  pm_SelectVictimsOnNode :: "v1_Pod \<Rightarrow> NodeInfo \<Rightarrow> PodDisruptionBudget list \<Rightarrow> (v1_Pod list \<times> nat \<times> Status) outcome"

record extender =
  ex_SupportsPreemption :: bool
  ex_IsInterested :: "v1_Pod \<Rightarrow> bool"
  ex_ProcessPreemption :: "v1_Pod \<Rightarrow> (string, Victims) gomap \<Rightarrow> goerror + (string, Victims) gomap"
  ex_IsIgnorable :: bool

record 'w evaluator =
  ev_GetPod :: "string \<Rightarrow> string \<Rightarrow> goerror + v1_Pod"
  ev_NodeInfos :: "goerror + NodeInfo list"
  ev_ListPdbs :: "goerror + PodDisruptionBudget list"
  ev_Extenders :: "extender list"
  ev_NominatedPodsForNode :: "string \<Rightarrow> v1_Pod list"
  ev_FitError :: "v1_Pod \<Rightarrow> (string, Status) gomap \<Rightarrow> string"
  ev_now :: int
  ev_IsWaitingPod :: "string \<Rightarrow> bool"
  ev_Reject :: "v1_Pod \<Rightarrow> 'w \<Rightarrow> 'w"
  ev_PatchPodStatus :: "v1_Pod \<Rightarrow> v1_Pod \<Rightarrow> 'w \<Rightarrow> goerror option \<times> 'w"
  ev_DeletePod :: "v1_Pod \<Rightarrow> 'w \<Rightarrow> goerror option \<times> 'w"
  ev_ClearNominatedNodeName :: "v1_Pod list \<Rightarrow> 'w \<Rightarrow> 'w"

definition AsStatus :: "goerror \<Rightarrow> Status" where
  "AsStatus e = NewStatus Error e"

section \<open>Candidates\<close>

definition nodesWherePreemptionMightHelp :: "NodeInfo list \<Rightarrow> (string, Status) gomap \<Rightarrow> NodeInfo list \<times> (string, Status) gomap" where
  "nodesWherePreemptionMightHelp nodes m =
     (let hopeless = (\<lambda>node. status_Code (gm_get None m (ni_Name node)) = UnschedulableAndUnresolvable)
      in (filter (\<lambda>node. \<not> hopeless node) nodes,
          fold (\<lambda>node. AList.update (ni_Name node) (NewStatus UnschedulableAndUnresolvable ''Preemption is not helpful for scheduling''))
            (filter hopeless nodes) []))"

text \<open>What the checks have added so far: the two lists of candidates, the statuses and the errors.\<close>

record dry_run =
  dr_nonViolating :: "candidate list"
  dr_violating :: "candidate list"
  dr_statuses :: "(string, Status) gomap"
  dr_errs :: "goerror list"

definition checkNode :: "plugin_methods \<Rightarrow> v1_Pod \<Rightarrow> PodDisruptionBudget list \<Rightarrow> NodeInfo \<Rightarrow> dry_run \<Rightarrow> dry_run outcome" where
  "checkNode P pod pdbs node d =
     (case pm_SelectVictimsOnNode P pod node pdbs of
        Panic e \<Rightarrow> Panic e
      | Ret (pods, numPDBViolations, status) \<Rightarrow>
          if IsSuccess status \<and> length pods \<noteq> 0 then
            let c = (ni_Name node, \<lparr>vi_Pods = pods, vi_NumPDBViolations = of_nat numPDBViolations\<rparr>)
            in Ret (if numPDBViolations = 0 then d\<lparr>dr_nonViolating := dr_nonViolating d @ [c]\<rparr>
                    else d\<lparr>dr_violating := dr_violating d @ [c]\<rparr>)
          else
            let status = (if IsSuccess status then AsStatus (''expected at least one victim pod on node '' @ ni_Name node) else status);
                d = (if status_Code status = Error then d\<lparr>dr_errs := dr_errs d @ [(case status of Some (c, m) \<Rightarrow> m | None \<Rightarrow> '''')]\<rparr> else d)
            in Ret (d\<lparr>dr_statuses := AList.update (ni_Name node) status (dr_statuses d)\<rparr>))"

fun checkNodes :: "plugin_methods \<Rightarrow> v1_Pod \<Rightarrow> PodDisruptionBudget list \<Rightarrow> NodeInfo list \<Rightarrow> dry_run \<Rightarrow> dry_run outcome" where
  "checkNodes P pod pdbs [] d = Ret d"
| "checkNodes P pod pdbs (node # nodes) d =
     (case checkNode P pod pdbs node d of Panic e \<Rightarrow> Panic e | Ret d' \<Rightarrow> checkNodes P pod pdbs nodes d')"

text \<open>
  The lists of candidates have room for \<open>numCandidates\<close>; what is added beyond is dropped.
  \<^verbatim>\<open>NewAggregate\<close> gives no error for no errors.
\<close>

definition DryRunPreemption ::
  "plugin_methods \<Rightarrow> nat list \<Rightarrow> v1_Pod \<Rightarrow> NodeInfo list \<Rightarrow> PodDisruptionBudget list \<Rightarrow> i32 \<Rightarrow> i32 \<Rightarrow>
    (candidate list \<times> (string, Status) gomap \<times> goerror option) outcome" where
  "DryRunPreemption P order pod potentialNodes pdbs offset numCandidates =
     (if sint numCandidates < 0 then Panic ''makeslice: len out of range''
      else
        let picked = map (\<lambda>i. potentialNodes ! ((nat (sint offset) + i) mod length potentialNodes)) order
        in case checkNodes P pod pdbs picked \<lparr>dr_nonViolating = [], dr_violating = [], dr_statuses = [], dr_errs = []\<rparr> of
             Panic e \<Rightarrow> Panic e
           | Ret d \<Rightarrow>
               let k = nat (sint numCandidates)
               in Ret (take k (dr_nonViolating d) @ take k (dr_violating d), dr_statuses d,
                       (case dr_errs d of [] \<Rightarrow> None | e # es \<Rightarrow> Some e)))"

text \<open>The result: the candidates, the statuses, the error and the world.\<close>

definition findCandidates ::
  "plugin_methods \<Rightarrow> 'w evaluator \<Rightarrow> nat list \<Rightarrow> v1_Pod \<Rightarrow> (string, Status) gomap \<Rightarrow> 'w \<Rightarrow>
    (candidate list \<times> (string, Status) gomap \<times> goerror option \<times> 'w) outcome" where
  "findCandidates P E order pod m w =
     (case ev_NodeInfos E of
        Inl err \<Rightarrow> Ret ([], [], Some err, w)
      | Inr allNodes \<Rightarrow>
          if length allNodes = 0 then Ret ([], [], Some ''no nodes available'', w)
          else
            (case nodesWherePreemptionMightHelp allNodes m of
               (potentialNodes, unschedulableNodeStatus) \<Rightarrow>
                 if length potentialNodes = 0 then Ret ([], unschedulableNodeStatus, None, ev_ClearNominatedNodeName E [pod] w)
                 else
                   (case ev_ListPdbs E of
                      Inl err \<Rightarrow> Ret ([], [], Some err, w)
                    | Inr pdbs \<Rightarrow>
                        (case pm_GetOffsetAndNumCandidates P (of_nat (length potentialNodes)) of
                           Panic e \<Rightarrow> Panic e
                         | Ret (offset, numCandidates) \<Rightarrow>
                             (case DryRunPreemption P order pod potentialNodes pdbs offset numCandidates of
                                Panic e \<Rightarrow> Panic e
                              | Ret (candidates, nodeStatuses, err) \<Rightarrow>
                                  Ret (candidates, fold (\<lambda>(n, s). AList.update n s) unschedulableNodeStatus nodeStatuses, err, w))))))"

section \<open>Extenders\<close>

text \<open>The check of one extender's answer: the victims that are left, or an error.\<close>

fun reported_victims :: "bool \<Rightarrow> (string, Victims) gomap \<Rightarrow> goerror + (string, Victims) gomap" where
  "reported_victims ignorable [] = Inr []"
| "reported_victims ignorable ((nodeName, victims) # rest) =
     (if vi_Pods victims = [] then
        (if ignorable then reported_victims ignorable rest
         else Inl (''expected at least one victim pod on node '' @ nodeName))
      else (case reported_victims ignorable rest of Inl e \<Rightarrow> Inl e | Inr r \<Rightarrow> Inr ((nodeName, victims) # r)))"

fun ask_extenders :: "extender list \<Rightarrow> v1_Pod \<Rightarrow> (string, Victims) gomap \<Rightarrow> goerror + (string, Victims) gomap" where
  "ask_extenders [] pod victimsMap = Inr victimsMap"
| "ask_extenders (x # xs) pod victimsMap =
     (if \<not> ex_SupportsPreemption x \<or> \<not> ex_IsInterested x pod then ask_extenders xs pod victimsMap
      else (case ex_ProcessPreemption x pod victimsMap of
              Inl err \<Rightarrow> if ex_IsIgnorable x then ask_extenders xs pod victimsMap else Inl err
            | Inr answer \<Rightarrow>
                (case reported_victims (ex_IsIgnorable x) answer of
                   Inl err \<Rightarrow> Inl err
                 | Inr victimsMap' \<Rightarrow> if victimsMap' = [] then Inr [] else ask_extenders xs pod victimsMap')))"

definition callExtenders ::
  "plugin_methods \<Rightarrow> 'w evaluator \<Rightarrow> v1_Pod \<Rightarrow> candidate list \<Rightarrow> goerror + candidate list" where
  "callExtenders P E pod candidates =
     (if length (ev_Extenders E) = 0 then Inr candidates
      else
        let victimsMap = pm_CandidatesToVictimsMap P candidates
        in if length victimsMap = 0 then Inr candidates
           else ask_extenders (ev_Extenders E) pod victimsMap)"

section \<open>The best candidate\<close>

definition GetEarliestPodStartTime :: "int \<Rightarrow> Victims \<Rightarrow> int option" where
  "GetEarliestPodStartTime now victims =
     (case vi_Pods victims of
        [] \<Rightarrow> None
      | p # ps \<Rightarrow>
          Some (fst (fold (\<lambda>pod (earliest, maxPriority).
              if PodPriority pod = maxPriority then
                (if GetPodStartTime now pod < earliest then (GetPodStartTime now pod, maxPriority) else (earliest, maxPriority))
              else if sint (PodPriority pod) > sint maxPriority then (GetPodStartTime now pod, PodPriority pod)
              else (earliest, maxPriority))
            (p # ps) (GetPodStartTime now p, PodPriority p))))"

text \<open>The five scores of a node, the most important first.  The first victim of no victims is a panic.\<close>

definition minNumPDBViolatingScoreFunc :: "Victims \<Rightarrow> i64 outcome" where
  "minNumPDBViolatingScoreFunc v = Ret (- vi_NumPDBViolations v)"

definition minHighestPriorityScoreFunc :: "Victims \<Rightarrow> i64 outcome" where
  "minHighestPriorityScoreFunc v =
     (case vi_Pods v of [] \<Rightarrow> Panic index_out_of_range | p # ps \<Rightarrow> Ret (- word_of_int (sint (PodPriority p))))"

definition minSumPrioritiesScoreFunc :: "Victims \<Rightarrow> i64 outcome" where
  "minSumPrioritiesScoreFunc v =
     Ret (- fold (\<lambda>pod sumPriorities. sumPriorities + (word_of_int (sint (PodPriority pod)) + 2147483648)) (vi_Pods v) 0)"

definition minNumPodsScoreFunc :: "Victims \<Rightarrow> i64 outcome" where
  "minNumPodsScoreFunc v = Ret (- of_nat (length (vi_Pods v)))"

definition latestStartTimeScoreFunc :: "int \<Rightarrow> Victims \<Rightarrow> i64 outcome" where
  "latestStartTimeScoreFunc now v =
     Ret (case GetEarliestPodStartTime now v of None \<Rightarrow> word_of_int (- (2 ^ 63)) | Some t \<Rightarrow> word_of_int t)"

definition scoreFuncs :: "int \<Rightarrow> (Victims \<Rightarrow> i64 outcome) list" where
  "scoreFuncs now = [minNumPDBViolatingScoreFunc, minHighestPriorityScoreFunc, minSumPrioritiesScoreFunc, minNumPodsScoreFunc,
     latestStartTimeScoreFunc now]"

text \<open>One pass of the loop over the score functions.\<close>

fun keep_best :: "(Victims \<Rightarrow> i64 outcome) \<Rightarrow> candidate list \<Rightarrow> i64 \<Rightarrow> candidate list \<Rightarrow> candidate list outcome" where
  "keep_best f [] maxScore selectedNodes = Ret selectedNodes"
| "keep_best f (node # nodes) maxScore selectedNodes =
     (case f (snd node) of
        Panic e \<Rightarrow> Panic e
      | Ret score \<Rightarrow>
          let (maxScore, selectedNodes) = (if sint score > sint maxScore then (score, []) else (maxScore, selectedNodes));
              selectedNodes = (if score = maxScore then selectedNodes @ [node] else selectedNodes)
          in keep_best f nodes maxScore selectedNodes)"

fun pick_node :: "(Victims \<Rightarrow> i64 outcome) list \<Rightarrow> candidate list \<Rightarrow> string outcome" where
  "pick_node [] allCandidates = (case allCandidates of [] \<Rightarrow> Panic index_out_of_range | c # cs \<Rightarrow> Ret (fst c))"
| "pick_node (f # fs) allCandidates =
     (case keep_best f allCandidates (word_of_int (- (2 ^ 63))) [] of
        Panic e \<Rightarrow> Panic e
      | Ret selectedNodes \<Rightarrow> if length selectedNodes = 1 then Ret (fst (hd selectedNodes)) else pick_node fs selectedNodes)"

definition pickOneNodeForPreemption :: "int \<Rightarrow> (string, Victims) gomap \<Rightarrow> string outcome" where
  "pickOneNodeForPreemption now nodesToVictims =
     (if length nodesToVictims = 0 then Ret '''' else pick_node (scoreFuncs now) nodesToVictims)"

text \<open>Both plugins give no score functions of their own.\<close>

definition SelectCandidate :: "plugin_methods \<Rightarrow> int \<Rightarrow> candidate list \<Rightarrow> candidate option outcome" where
  "SelectCandidate P now candidates =
     (case candidates of
        [] \<Rightarrow> Ret None
      | [c] \<Rightarrow> Ret (Some c)
      | c # cs \<Rightarrow>
          let victimsMap = pm_CandidatesToVictimsMap P candidates
          in (case pickOneNodeForPreemption now victimsMap of
                Panic e \<Rightarrow> Panic e
              | Ret candidateNode \<Rightarrow>
                  (case map_of victimsMap candidateNode of
                     Some victims \<Rightarrow> Ret (Some (candidateNode, victims))
                   | None \<Rightarrow> Ret (Some c))))"

section \<open>Eviction\<close>

text \<open>The DisruptionTarget condition is patched onto the victim first; the feature is on by default.\<close>

definition preemptPod :: "'w evaluator \<Rightarrow> v1_Pod \<Rightarrow> v1_Pod \<Rightarrow> 'w \<Rightarrow> goerror option \<times> 'w" where
  "preemptPod E pod victim w =
     (if ev_IsWaitingPod E (pod_UID victim) then (None, ev_Reject E victim w)
      else (case ev_PatchPodStatus E pod victim w of
              (Some err, w) \<Rightarrow> (Some err, w)
            | (None, w) \<Rightarrow> ev_DeletePod E victim w))"

fun preempt_all :: "'w evaluator \<Rightarrow> v1_Pod \<Rightarrow> v1_Pod list \<Rightarrow> 'w \<Rightarrow> goerror option \<times> 'w" where
  "preempt_all E pod [] w = (None, w)"
| "preempt_all E pod (victim # victims) w =
     (case preemptPod E pod victim w of (Some err, w) \<Rightarrow> (Some err, w) | (None, w) \<Rightarrow> preempt_all E pod victims w)"

definition getLowerPriorityNominatedPods :: "'w evaluator \<Rightarrow> v1_Pod \<Rightarrow> string \<Rightarrow> v1_Pod list" where
  "getLowerPriorityNominatedPods E pod nodeName =
     filter (\<lambda>p. sint (PodPriority p) < sint (PodPriority pod)) (ev_NominatedPodsForNode E nodeName)"

definition prepareCandidate :: "'w evaluator \<Rightarrow> candidate \<Rightarrow> v1_Pod \<Rightarrow> 'w \<Rightarrow> Status \<times> 'w" where
  "prepareCandidate E c pod w =
     (case preempt_all E pod (vi_Pods (snd c)) w of
        (Some err, w) \<Rightarrow> (AsStatus err, w)
      | (None, w) \<Rightarrow> (None, ev_ClearNominatedNodeName E (getLowerPriorityNominatedPods E pod (fst c)) w))"

section \<open>Preempt\<close>

text \<open>The result is the nominated node, \<open>None\<close> for a nil result, with the status and the world.\<close>

definition Preempt ::
  "plugin_methods \<Rightarrow> 'w evaluator \<Rightarrow> nat list \<Rightarrow> v1_Pod \<Rightarrow> (string, Status) gomap \<Rightarrow> 'w \<Rightarrow> (string option \<times> Status \<times> 'w) outcome" where
  "Preempt P E order pod m w =
     (case ev_GetPod E (pod_Namespace pod) (pod_Name pod) of
        Inl err \<Rightarrow> Ret (None, AsStatus err, w)
      | Inr pod \<Rightarrow>
          (case pm_PodEligibleToPreemptOthers P pod (gm_get None m (pod_NominatedNodeName pod)) of
             (False, msg) \<Rightarrow> Ret (None, NewStatus Unschedulable msg, w)
           | (True, _) \<Rightarrow>
               (case findCandidates P E order pod m w of
                  Panic e \<Rightarrow> Panic e
                | Ret (candidates, nodeToStatusMap, err, w) \<Rightarrow>
                    if candidates = [] then
                      (case err of
                         Some e \<Rightarrow> Ret (None, AsStatus e, w)
                       | None \<Rightarrow> Ret (Some '''', NewStatus Unschedulable (ev_FitError E pod nodeToStatusMap), w))
                    else
                      (case callExtenders P E pod candidates of
                         Inl e \<Rightarrow> Ret (None, AsStatus e, w)
                       | Inr candidates \<Rightarrow>
                           (case SelectCandidate P (ev_now E) candidates of
                              Panic e \<Rightarrow> Panic e
                            | Ret None \<Rightarrow> Ret (None, NewStatus Unschedulable ''no candidate node for preemption'', w)
                            | Ret (Some best) \<Rightarrow>
                                if fst best = '''' then Ret (None, NewStatus Unschedulable ''no candidate node for preemption'', w)
                                else (case prepareCandidate E best pod w of
                                        (status, w) \<Rightarrow>
                                          if IsSuccess status then Ret (Some (fst best), NewStatus Success '''', w)
                                          else Ret (None, status, w)))))))"


section \<open>The pick is the best candidate\<close>

text \<open>
  \<open>scored f g cs\<close>: the score function \<open>f\<close> returns the value of \<open>g\<close> on all candidates.  One pass
  keeps exactly the candidates with the highest score.
\<close>

definition scored :: "(Victims \<Rightarrow> i64 outcome) \<Rightarrow> (Victims \<Rightarrow> i64) \<Rightarrow> candidate list \<Rightarrow> bool" where
  "scored f g cs = list_all (\<lambda>c. f (snd c) = Ret (g (snd c))) cs"

definition top_score :: "(Victims \<Rightarrow> i64) \<Rightarrow> candidate list \<Rightarrow> i64 \<Rightarrow> i64" where
  "top_score g cs m = fold (\<lambda>c m. if sint (g (snd c)) > sint m then g (snd c) else m) cs m"

lemma top_score_simps [simp]:
  "top_score g [] m = m"
  "top_score g (c # cs) m = top_score g cs (if sint (g (snd c)) > sint m then g (snd c) else m)"
  by (simp_all add: top_score_def)

lemma top_score_ge: "sint m \<le> sint (top_score g cs m) \<and> (\<forall>c \<in> set cs. sint (g (snd c)) \<le> sint (top_score g cs m))"
proof (induction cs arbitrary: m)
  case (Cons c cs)
  from Cons.IH [of m] Cons.IH [of "g (snd c)"] show ?case by auto
qed simp

lemma top_score_cases: "top_score g cs m = m \<or> (\<exists>c \<in> set cs. g (snd c) = top_score g cs m)"
proof (induction cs arbitrary: m)
  case (Cons c cs)
  from Cons.IH [of m] Cons.IH [of "g (snd c)"] show ?case by auto
qed simp

lemma keep_best_eq:
  "scored f g cs \<Longrightarrow> keep_best f cs m sel =
     Ret ((if top_score g cs m = m then sel else []) @ filter (\<lambda>c. g (snd c) = top_score g cs m) cs)"
proof (induction cs arbitrary: m sel)
  case Nil
  then show ?case by simp
next
  case (Cons c cs)
  have c: "f (snd c) = Ret (g (snd c))" and cs: "scored f g cs" using Cons.prems by (auto simp: scored_def)
  let ?m = "if sint (g (snd c)) > sint m then g (snd c) else m"
  have top: "top_score g (c # cs) m = top_score g cs ?m" by simp
  have ge: "sint ?m \<le> sint (top_score g cs ?m)" using top_score_ge by blast
  show ?case
  proof (cases "sint (g (snd c)) > sint m")
    case True
    then have "top_score g cs (g (snd c)) \<noteq> m" using ge by auto
    with True show ?thesis using c Cons.IH [OF cs, of "g (snd c)" "[c]"] top by auto
  next
    case False
    then have le: "sint (g (snd c)) \<le> sint m" by simp
    then have "g (snd c) \<noteq> top_score g cs m" if "g (snd c) \<noteq> m"
      using that ge False by (auto dest!: signed_word_eqI)
    with False show ?thesis using c Cons.IH [OF cs] top by auto
  qed
qed

lemma min_sint: "sint (word_of_int (- (2 ^ 63)) :: i64) = - (2 ^ 63)"
  by simp

lemma keep_best_top:
  assumes "scored f g cs" and "cs \<noteq> []"
  obtains sel where "keep_best f cs (word_of_int (- (2 ^ 63))) [] = Ret sel" and "sel \<noteq> []" and "set sel \<subseteq> set cs"
    and "\<forall>c \<in> set sel. \<forall>d \<in> set cs. sint (g (snd d)) \<le> sint (g (snd c))"
    and "\<forall>c \<in> set sel. \<forall>d \<in> set cs - set sel. sint (g (snd d)) < sint (g (snd c))"
proof -
  let ?m = "word_of_int (- (2 ^ 63)) :: i64"
  let ?M = "top_score g cs ?m"
  let ?sel = "filter (\<lambda>c. g (snd c) = ?M) cs"
  have kb: "keep_best f cs ?m [] = Ret ?sel" using keep_best_eq [OF assms(1), of ?m "[]"] by simp
  have ge: "sint (g (snd c)) \<le> sint ?M" if "c \<in> set cs" for c using top_score_ge that by blast
  have "?sel \<noteq> []"
  proof (cases "?M = ?m")
    case True
    have "sint ?m \<le> sint (g (snd (hd cs)))" using sint_ge [of "g (snd (hd cs))"] by simp
    then have "g (snd (hd cs)) = ?M" using ge [of "hd cs"] True assms(2) by (simp add: signed_word_eqI)
    then show ?thesis using assms(2) hd_in_set [OF assms(2)] by (auto simp: filter_empty_conv)
  next
    case False
    then show ?thesis using top_score_cases [of g cs ?m] by (auto simp: filter_empty_conv)
  qed
  moreover have "sint (g (snd d)) < sint ?M" if "d \<in> set cs - set ?sel" for d
    using ge [of d] that by (auto simp: order_less_le signed_word_eqI)
  ultimately show ?thesis using that [OF kb] ge by auto
qed

fun lex_le :: "int list \<Rightarrow> int list \<Rightarrow> bool" where
  "lex_le (x # xs) (y # ys) = (x < y \<or> x = y \<and> lex_le xs ys)"
| "lex_le _ _ = True"

definition score_vector :: "(Victims \<Rightarrow> i64) list \<Rightarrow> candidate \<Rightarrow> int list" where
  "score_vector gs c = map (\<lambda>g. sint (g (snd c))) gs"

lemma pick_node_best:
  assumes "list_all2 (\<lambda>f g. scored f g cs) fs gs" and "cs \<noteq> []"
  shows "\<exists>c \<in> set cs. pick_node fs cs = Ret (fst c) \<and> (\<forall>d \<in> set cs. lex_le (score_vector gs d) (score_vector gs c))"
  using assms
proof (induction fs arbitrary: gs cs)
  case Nil
  then show ?case by (cases cs) (auto simp: score_vector_def)
next
  case (Cons f fs)
  obtain g gs' where gs: "gs = g # gs'" and f: "scored f g cs" and rest: "list_all2 (\<lambda>f g. scored f g cs) fs gs'"
    using Cons.prems(1) by (cases gs) auto
  obtain sel where sel: "keep_best f cs (word_of_int (- (2 ^ 63))) [] = Ret sel" "sel \<noteq> []" "set sel \<subseteq> set cs"
    "\<forall>c \<in> set sel. \<forall>d \<in> set cs. sint (g (snd d)) \<le> sint (g (snd c))"
    "\<forall>c \<in> set sel. \<forall>d \<in> set cs - set sel. sint (g (snd d)) < sint (g (snd c))"
    using keep_best_top [OF f Cons.prems(2)] by blast
  have mono: "list_all2 (\<lambda>f g. scored f g sel) fs gs'"
    using rest by (rule list_all2_mono) (use sel(3) in \<open>auto simp: scored_def list_all_iff\<close>)
  obtain c where c: "c \<in> set sel" "pick_node (f # fs) cs = Ret (fst c)" "\<forall>d \<in> set sel. lex_le (score_vector gs' d) (score_vector gs' c)"
  proof (cases "length sel = 1")
    case True
    then obtain c where s: "sel = [c]" by (cases sel) auto
    have refl: "lex_le v v" for v by (induction v) auto
    show ?thesis using that [of c] s sel(1) refl by simp
  next
    case False
    then show ?thesis using Cons.IH [OF mono sel(2)] sel(1) that by auto
  qed
  have "lex_le (score_vector gs d) (score_vector gs c)" if "d \<in> set cs" for d
    using that c sel(4,5) by (cases "d \<in> set sel") (auto simp: score_vector_def gs order_le_less)
  then show ?case using c sel(3) by blast
qed


definition victim_scores :: "int \<Rightarrow> (Victims \<Rightarrow> i64) list" where
  "victim_scores now =
     [\<lambda>v. - vi_NumPDBViolations v,
      \<lambda>v. - word_of_int (sint (PodPriority (hd (vi_Pods v)))),
      \<lambda>v. - fold (\<lambda>pod sum_so_far. sum_so_far + (word_of_int (sint (PodPriority pod)) + 2147483648)) (vi_Pods v) 0,
      \<lambda>v. - of_nat (length (vi_Pods v)),
      \<lambda>v. case GetEarliestPodStartTime now v of None \<Rightarrow> word_of_int (- (2 ^ 63)) | Some t \<Rightarrow> word_of_int t]"

definition some_victims :: "candidate list \<Rightarrow> bool" where
  "some_victims cs = list_all (\<lambda>c. vi_Pods (snd c) \<noteq> []) cs"

lemma scoreFuncs_scored: "some_victims cs \<Longrightarrow> list_all2 (\<lambda>f g. scored f g cs) (scoreFuncs now) (victim_scores now)"
  by (auto simp: scoreFuncs_def victim_scores_def scored_def some_victims_def list_all_iff neq_Nil_conv minNumPDBViolatingScoreFunc_def
      minHighestPriorityScoreFunc_def minSumPrioritiesScoreFunc_def minNumPodsScoreFunc_def latestStartTimeScoreFunc_def split: list.splits)

text \<open>\<open>outranks now c d\<close>: the node of \<open>c\<close> is at least as good a choice as that of \<open>d\<close>.\<close>

definition outranks :: "int \<Rightarrow> candidate \<Rightarrow> candidate \<Rightarrow> bool" where
  "outranks now c d = lex_le (score_vector (victim_scores now) d) (score_vector (victim_scores now) c)"

lemma pickOneNode_best:
  assumes "some_victims m" and "m \<noteq> []"
  shows "\<exists>c \<in> set m. pickOneNodeForPreemption now m = Ret (fst c) \<and> (\<forall>d \<in> set m. outranks now c d)"
  using pick_node_best [OF scoreFuncs_scored [OF assms(1), of now] assms(2)] assms(2)
  by (auto simp: pickOneNodeForPreemption_def outranks_def)

section \<open>Where candidates come from\<close>

definition candidate_of :: "plugin_methods \<Rightarrow> v1_Pod \<Rightarrow> PodDisruptionBudget list \<Rightarrow> NodeInfo \<Rightarrow> candidate \<Rightarrow> bool" where
  "candidate_of P pod pdbs node c = (fst c = ni_Name node \<and> vi_Pods (snd c) \<noteq> [] \<and>
     (\<exists>n status. pm_SelectVictimsOnNode P pod node pdbs = Ret (vi_Pods (snd c), n, status) \<and> IsSuccess status \<and>
        vi_NumPDBViolations (snd c) = of_nat n))"

lemma checkNode_candidates:
  assumes "checkNode P pod pdbs node d = Ret d'" and "c \<in> set (dr_nonViolating d' @ dr_violating d')"
  shows "c \<in> set (dr_nonViolating d @ dr_violating d) \<or> candidate_of P pod pdbs node c"
  using assms by (auto simp: checkNode_def candidate_of_def Let_def split: outcome.splits if_splits)

lemma checkNodes_candidates:
  assumes "checkNodes P pod pdbs nodes d = Ret d'" and "c \<in> set (dr_nonViolating d' @ dr_violating d')"
  shows "c \<in> set (dr_nonViolating d @ dr_violating d) \<or> (\<exists>node \<in> set nodes. candidate_of P pod pdbs node c)"
  using assms
proof (induction nodes arbitrary: d)
  case (Cons node nodes)
  then obtain d1 where d1: "checkNode P pod pdbs node d = Ret d1" "checkNodes P pod pdbs nodes d1 = Ret d'"
    by (auto split: outcome.splits)
  from Cons.IH [OF d1(2) Cons.prems(2)] show ?case using checkNode_candidates [OF d1(1), of c] by auto
qed simp

lemma DryRun_candidates:
  assumes "DryRunPreemption P order pod nodes pdbs offset numCandidates = Ret (cs, statuses, err)" and "c \<in> set cs" and "nodes \<noteq> []"
  shows "\<exists>node \<in> set nodes. candidate_of P pod pdbs node c"
proof -
  let ?picked = "map (\<lambda>i. nodes ! ((nat (sint offset) + i) mod length nodes)) order"
  obtain d where d: "checkNodes P pod pdbs ?picked \<lparr>dr_nonViolating = [], dr_violating = [], dr_statuses = [], dr_errs = []\<rparr> = Ret d"
    and cs: "cs = take (nat (sint numCandidates)) (dr_nonViolating d) @ take (nat (sint numCandidates)) (dr_violating d)"
    using assms(1) by (auto simp: DryRunPreemption_def Let_def split: if_splits outcome.splits)
  have "c \<in> set (dr_nonViolating d @ dr_violating d)" using assms(2) cs by (auto dest: in_set_takeD)
  from checkNodes_candidates [OF d this] obtain node where "node \<in> set ?picked" "candidate_of P pod pdbs node c" by auto
  moreover have "set ?picked \<subseteq> set nodes" using assms(3) by auto
  ultimately show ?thesis by blast
qed

definition helpful :: "(string, Status) gomap \<Rightarrow> NodeInfo \<Rightarrow> bool" where
  "helpful m node = (status_Code (gm_get None m (ni_Name node)) \<noteq> UnschedulableAndUnresolvable)"

lemma findCandidates_sound:
  assumes "findCandidates P E order pod m w = Ret (cs, statuses, err, w')" and "cs \<noteq> []"
  shows "w' = w \<and> (\<exists>nodes pdbs. ev_NodeInfos E = Inr nodes \<and> ev_ListPdbs E = Inr pdbs \<and>
    (\<forall>c \<in> set cs. \<exists>node \<in> set nodes. helpful m node \<and> candidate_of P pod pdbs node c))"
proof -
  have h: "helpful m = (\<lambda>node. status_Code (gm_get None m (ni_Name node)) \<noteq> UnschedulableAndUnresolvable)"
    by (simp add: fun_eq_iff helpful_def)
  obtain nodes pdbs offset k st' where n: "ev_NodeInfos E = Inr nodes" "ev_ListPdbs E = Inr pdbs"
    and dry: "DryRunPreemption P order pod (filter (helpful m) nodes) pdbs offset k = Ret (cs, st', err)"
    and ne: "filter (helpful m) nodes \<noteq> []" and w: "w' = w"
    using assms
    by (auto simp: findCandidates_def nodesWherePreemptionMightHelp_def h Let_def filter_empty_conv
        split: sum.splits if_splits outcome.splits prod.splits)
  have "\<exists>node \<in> set nodes. helpful m node \<and> candidate_of P pod pdbs node c" if "c \<in> set cs" for c
    using DryRun_candidates [OF dry that ne] by auto
  then show ?thesis using n w by blast
qed

section \<open>The contract of a preempting plugin\<close>

text \<open>
  What the evaluator relies on: the victims on a node are pods of the node that the preemptor may
  evict (\<open>allowed\<close>), and the map of candidates has their victims.
\<close>

definition node_ok :: "NodeInfo \<Rightarrow> bool" where
  "node_ok node = (keyed (ni_Pods node) \<and> ni_len node = length (ni_arr node))"

locale preemption_interface =
  fixes P :: plugin_methods and allowed :: "v1_Pod \<Rightarrow> v1_Pod \<Rightarrow> bool"
  assumes select_sound: "pm_SelectVictimsOnNode P pod node pdbs = Ret (vs, n, status) \<Longrightarrow> IsSuccess status \<Longrightarrow> node_ok node \<Longrightarrow>
      mset vs \<subseteq># mset (ni_Pods node) \<and> (\<forall>p \<in> set vs. allowed pod p)"
    and map_sound: "set (pm_CandidatesToVictimsMap P cs) \<subseteq> set cs"
    and map_names: "fst ` set (pm_CandidatesToVictimsMap P cs) = fst ` set cs"
    and map_wf: "gm_wf (pm_CandidatesToVictimsMap P cs)"
begin

lemma SelectCandidate_sound:
  assumes "some_victims cs" and "cs \<noteq> []"
  shows "\<exists>c \<in> set cs. SelectCandidate P now cs = Ret (Some c) \<and>
    (length cs = 1 \<or> (\<forall>d \<in> set (pm_CandidatesToVictimsMap P cs). outranks now c d))"
proof (cases "length cs = 1")
  case True
  then obtain c where "cs = [c]" by (cases cs) auto
  then show ?thesis by (simp add: SelectCandidate_def)
next
  case False
  let ?m = "pm_CandidatesToVictimsMap P cs"
  have m: "some_victims ?m" "?m \<noteq> []"
    using assms map_sound [of cs] map_names [of cs] by (auto simp: some_victims_def list_all_iff)
  obtain c where c: "c \<in> set ?m" "pickOneNodeForPreemption now ?m = Ret (fst c)" "\<forall>d \<in> set ?m. outranks now c d"
    using pickOneNode_best [OF m] by blast
  have "map_of ?m (fst c) = Some (snd c)" using map_of_is_SomeI [of ?m "fst c" "snd c"] map_wf [of cs] c(1) by (simp add: gm_wf_def)
  moreover obtain a b rest where "cs = a # b # rest" using assms(2) False by (cases cs; cases "tl cs") auto
  ultimately have "SelectCandidate P now cs = Ret (Some c)" using c(2) by (simp add: SelectCandidate_def)
  then show ?thesis using c(1,3) map_sound by blast
qed

lemma Preempt_nominates:
  assumes "Preempt P E order pod m w = Ret (nominated, status, w')" and "IsSuccess status" and "ev_Extenders E = []"
    and "\<forall>nodes. ev_NodeInfos E = Inr nodes \<longrightarrow> list_all node_ok nodes"
  shows "\<exists>pod' nodes node vs w1. ev_GetPod E (pod_Namespace pod) (pod_Name pod) = Inr pod' \<and>
    fst (pm_PodEligibleToPreemptOthers P pod' (gm_get None m (pod_NominatedNodeName pod'))) \<and>
    ev_NodeInfos E = Inr nodes \<and> node \<in> set nodes \<and> helpful m node \<and> nominated = Some (ni_Name node) \<and>
    vs \<noteq> [] \<and> mset vs \<subseteq># mset (ni_Pods node) \<and> (\<forall>p \<in> set vs. allowed pod' p) \<and>
    preempt_all E pod' vs w = (None, w1) \<and>
    w' = ev_ClearNominatedNodeName E (getLowerPriorityNominatedPods E pod' (ni_Name node)) w1"
proof -
  obtain pod' cs statuses err w0 best w1 where pod': "ev_GetPod E (pod_Namespace pod) (pod_Name pod) = Inr pod'"
    and eligible: "fst (pm_PodEligibleToPreemptOthers P pod' (gm_get None m (pod_NominatedNodeName pod')))"
    and find: "findCandidates P E order pod' m w = Ret (cs, statuses, err, w0)" and ne: "cs \<noteq> []"
    and best: "SelectCandidate P (ev_now E) cs = Ret (Some best)"
    and prep: "prepareCandidate E best pod' w0 = (None, w')" and nom: "nominated = Some (fst best)"
    using assms(1-3)
    by (auto simp: Preempt_def callExtenders_def prepareCandidate_def AsStatus_def
        split: sum.splits prod.splits bool.splits outcome.splits if_splits option.splits)
  obtain nodes pdbs where nodes: "w0 = w" "ev_NodeInfos E = Inr nodes"
    and from_nodes: "\<forall>c \<in> set cs. \<exists>node \<in> set nodes. helpful m node \<and> candidate_of P pod' pdbs node c"
    using findCandidates_sound [OF find ne] by blast
  have "some_victims cs" using from_nodes by (auto simp: some_victims_def list_all_iff candidate_of_def)
  then have "best \<in> set cs" using SelectCandidate_sound [OF _ ne, of "ev_now E"] best by auto
  then obtain node where node: "node \<in> set nodes" "helpful m node" "candidate_of P pod' pdbs node best" using from_nodes by blast
  have "node_ok node" using assms(4) nodes(2) node(1) by (auto simp: list_all_iff)
  then have "mset (vi_Pods (snd best)) \<subseteq># mset (ni_Pods node) \<and> (\<forall>p \<in> set (vi_Pods (snd best)). allowed pod' p)"
    using select_sound node(3) by (auto simp: candidate_of_def)
  moreover obtain w1 where "preempt_all E pod' (vi_Pods (snd best)) w = (None, w1)"
    "w' = ev_ClearNominatedNodeName E (getLowerPriorityNominatedPods E pod' (fst best)) w1"
    using prep nodes(1) by (auto simp: prepareCandidate_def AsStatus_def NewStatus_def split: prod.splits option.splits)
  ultimately show ?thesis
    using pod' eligible nodes(2) node nom unfolding candidate_of_def by metis
qed

end


end
