(* ===== verification/Post_Filter.thy ===== *)
theory Post_Filter
  imports Preemption_Evaluator Capacity_Properties Toleration_Properties Plugin_Args
begin

text \<open>
  The PostFilter extension points of CapacityScheduling and PreemptionToleration, which run the
  evaluator with the methods of the plugin, and the constructor of PreemptionToleration.  The two
  plugins keep the contract \<open>preemption_interface\<close>, so what the evaluator does with it holds for both.
  The counter of preemption attempts is left out.
\<close>

section \<open>Methods of the plugins\<close>

fun chosen :: "(v1_Pod list \<times> nat \<times> Status \<times> NodeInfo \<times> 'st) outcome \<Rightarrow> (v1_Pod list \<times> nat \<times> Status) outcome" where
  "chosen (Ret (vs, n, status, ni, st)) = Ret (vs, n, status)"
| "chosen (Panic e) = Panic e"

definition cap_methods :: "sort_fn \<Rightarrow> int \<times> int \<Rightarrow> cap_state fhandle \<Rightarrow> cap_state \<Rightarrow> plugin_methods" where
  "cap_methods srt now H state = \<lparr>
     pm_GetOffsetAndNumCandidates = (\<lambda>n. Ret (cap_GetOffsetAndNumCandidates n)),
     pm_CandidatesToVictimsMap = CandidatesToVictimsMap,
     pm_PodEligibleToPreemptOthers = cap_PodEligibleToPreemptOthers H state,
     pm_SelectVictimsOnNode = (\<lambda>pod node pdbs. chosen (cap_SelectVictimsOnNode srt now H state pod node pdbs))\<rparr>"

text \<open>The evaluator works on the nodes and nominations of the framework handle.\<close>

definition with_handle :: "'st fhandle \<Rightarrow> 'w evaluator \<Rightarrow> 'w evaluator" where
  "with_handle H E = E\<lparr>ev_NodeInfos := fh_NodeInfos H, ev_NominatedPodsForNode := fh_NominatedPodsForNode H\<rparr>"

definition cap_PostFilter ::
  "sort_fn \<Rightarrow> int \<times> int \<Rightarrow> cap_state fhandle \<Rightarrow> 'w evaluator \<Rightarrow> nat list \<Rightarrow> cap_state \<Rightarrow> v1_Pod \<Rightarrow> (string, Status) gomap \<Rightarrow> 'w \<Rightarrow>
    (string option \<times> Status \<times> 'w) outcome" where
  "cap_PostFilter srt now H E order state pod m w = Preempt (cap_methods srt now H state) (with_handle H E) order pod m w"

record PreemptionToleration =
  pl_args :: PreemptionTolerationArgs
  pl_curTime :: int

text \<open>\<^verbatim>\<open>ValidateDefaultPreemptionArgs\<close>: the errors found, in order; the aggregate of none is nil.\<close>

definition ValidateDefaultPreemptionArgs :: "PreemptionTolerationArgs \<Rightarrow> goerror list" where
  "ValidateDefaultPreemptionArgs args =
     (let pct = ipt_MinCandidateNodesPercentage args; absolute = ipt_MinCandidateNodesAbsolute args in
      (if sint pct < 0 \<or> sint pct > 100 then [''minCandidateNodesPercentage: not in valid range [0, 100]''] else []) @
      (if sint absolute < 0 then [''minCandidateNodesAbsolute: not in valid range [0, inf)''] else []) @
      (if pct = 0 \<and> absolute = 0
       then [''minCandidateNodesPercentage: cannot be zero at the same time as minCandidateNodesAbsolute'',
             ''minCandidateNodesAbsolute: cannot be zero at the same time as minCandidateNodesPercentage'']
       else []))"

definition pt_New :: "config_object option \<Rightarrow> goerror list + PreemptionToleration" where
  "pt_New rawArgs =
     (case rawArgs of
        Some (C_PreemptionToleration args) \<Rightarrow>
          (case ValidateDefaultPreemptionArgs args of
             [] \<Rightarrow> Inr \<lparr>pl_args = args, pl_curTime = 0\<rparr>
           | errs \<Rightarrow> Inl errs)
      | _ \<Rightarrow> Inl [''got args of another type, want *PreemptionTolerationArgs''])"

definition pt_methods ::
  "sort_fn \<Rightarrow> int \<times> int \<Rightarrow> (string \<Rightarrow> goerror + PriorityClass) \<Rightarrow> (i32 \<Rightarrow> i32) \<Rightarrow> PreemptionToleration \<Rightarrow> 'st fhandle \<Rightarrow> 'st \<Rightarrow> plugin_methods" where
  "pt_methods srt clk pcLister Int31n pl H state = \<lparr>
     pm_GetOffsetAndNumCandidates = pt_GetOffsetAndNumCandidates Int31n (ipt_MinCandidateNodesPercentage (pl_args pl))
       (ipt_MinCandidateNodesAbsolute (pl_args pl)),
     pm_CandidatesToVictimsMap = pt_CandidatesToVictimsMap,
     pm_PodEligibleToPreemptOthers = pt_PodEligibleToPreemptOthers H,
     pm_SelectVictimsOnNode = (\<lambda>pod node pdbs. chosen (pt_SelectVictimsOnNode srt clk pcLister (pl_curTime pl) H state pod node pdbs))\<rparr>"

text \<open>The plugin takes the time of the call before it runs the evaluator.\<close>

definition pt_PostFilter ::
  "sort_fn \<Rightarrow> int \<times> int \<Rightarrow> (string \<Rightarrow> goerror + PriorityClass) \<Rightarrow> (i32 \<Rightarrow> i32) \<Rightarrow> int \<Rightarrow> 'st fhandle \<Rightarrow> 'w evaluator \<Rightarrow> nat list \<Rightarrow>
    'st \<Rightarrow> v1_Pod \<Rightarrow> (string, Status) gomap \<Rightarrow> PreemptionToleration \<times> 'w \<Rightarrow>
    PreemptionToleration \<times> (string option \<times> Status \<times> 'w) outcome" where
  "pt_PostFilter srt clk pcLister Int31n now H E order state pod m s =
     (let pl = (fst s)\<lparr>pl_curTime := now\<rparr>
      in (pl, Preempt (pt_methods srt clk pcLister Int31n pl H state) (with_handle H E) order pod m (snd s)))"

section \<open>Both keep the contract\<close>

lemma set_update: "set (AList.update k v m) \<subseteq> insert (k, v) (set m)"
  by (induction m) auto

lemma fold_update_sound:
  "set (fold (\<lambda>(name, victims) m. AList.update name victims m) cs start) \<subseteq> set cs \<union> set start"
proof (induction cs arbitrary: start)
  case (Cons c cs)
  show ?case using Cons.IH [of "AList.update (fst c) (snd c) start"] set_update [of "fst c" "snd c" start] by (cases c) auto
qed simp

lemma fold_update_names:
  "fst ` set (fold (\<lambda>(name, victims) m. AList.update name victims m) cs start) = fst ` set cs \<union> fst ` set start"
proof (induction cs arbitrary: start)
  case (Cons c cs)
  then show ?case by (cases c) (simp add: dom_update)
qed simp

lemma fold_update_wf:
  "gm_wf start \<Longrightarrow> gm_wf (fold (\<lambda>(name, victims) m. AList.update name victims m) cs start)"
proof (induction cs arbitrary: start)
  case (Cons c cs)
  then show ?case by (cases c) (simp add: gm_wf_def distinct_update)
qed simp

lemma victims_map:
  "set (CandidatesToVictimsMap cs) \<subseteq> set cs" "fst ` set (CandidatesToVictimsMap cs) = fst ` set cs" "gm_wf (CandidatesToVictimsMap cs)"
  using fold_update_sound [of cs "[]"] fold_update_names [of cs "[]"] fold_update_wf [of "[]" cs]
  by (simp_all add: CandidatesToVictimsMap_def gm_wf_def)

lemma victims_map_copy: "pt_CandidatesToVictimsMap = CandidatesToVictimsMap"
  by (simp add: fun_eq_iff pt_CandidatesToVictimsMap_def CandidatesToVictimsMap_def)

lemma chosen_Ret: "chosen r = Ret (vs, n, status) \<Longrightarrow> \<exists>ni st. r = Ret (vs, n, status, ni, st)"
  by (cases r rule: chosen.cases) auto




definition pt_allowed :: "(string \<Rightarrow> goerror + PriorityClass) \<Rightarrow> int \<Rightarrow> v1_Pod \<Rightarrow> v1_Pod \<Rightarrow> bool" where
  "pt_allowed pcLister now pod p =
     (sint (PodPriority p) < sint (PodPriority pod) \<and> ExemptedFromPreemption pcLister now p pod = Inr False)"

sublocale sort_slice \<subseteq> tolerated: preemption_interface "pt_methods srt clk pcLister Int31n pl H state" "pt_allowed pcLister (pl_curTime pl)"
  for clk pcLister Int31n pl H state
proof
  fix pod node pdbs vs n status
  assume "pm_SelectVictimsOnNode (pt_methods srt clk pcLister Int31n pl H state) pod node pdbs = Ret (vs, n, status)"
    and ok: "IsSuccess status" "node_ok node"
  then obtain ni st where "pt_SelectVictimsOnNode srt clk pcLister (pl_curTime pl) H state pod node pdbs = Ret (vs, n, status, ni, st)"
    using chosen_Ret by (fastforce simp: pt_methods_def)
  from pt_SelectVictims_spec [OF sort_slice_axioms _ _ this ok(1)] ok(2)
  have "mset vs + mset (ni_Pods ni) = mset (ni_Pods node)" "\<forall>p \<in> set vs. pt_allowed pcLister (pl_curTime pl) pod p"
    by (auto simp: node_ok_def pt_allowed_def)
  then show "mset vs \<subseteq># mset (ni_Pods node) \<and> (\<forall>p \<in> set vs. pt_allowed pcLister (pl_curTime pl) pod p)" by (metis mset_subset_eq_add_left)
qed (simp_all add: pt_methods_def victims_map_copy victims_map)


context sort_slice
begin

lemmas tolerated_nominates = tolerated.Preempt_nominates

end

section \<open>What PostFilter does\<close>

text \<open>A pod that may not preempt changes nothing.\<close>

theorem ineligible_changes_nothing:
  assumes "ev_GetPod E (pod_Namespace pod) (pod_Name pod) = Inr pod'"
    and "cap_PodEligibleToPreemptOthers H state pod' (gm_get None m (pod_NominatedNodeName pod')) = (False, msg)"
  shows "cap_PostFilter srt now H E order state pod m w = Ret (None, NewStatus Unschedulable msg, w)"
  using assms by (simp add: cap_PostFilter_def Preempt_def cap_methods_def with_handle_def)



text \<open>PreemptionToleration takes the time of the call and evicts only pods that are not exempt at that time.\<close>

theorem toleration_post_filter:
  assumes "sort_slice srt" and "fh_NodeInfos H = Inr nodes" and "list_all node_ok nodes" and "ev_Extenders E = []"
    and "pt_PostFilter srt clk pcLister Int31n now H E order state pod m (pl, w) = (pl', Ret (nominated, status, w'))" and "IsSuccess status"
  shows "pl_curTime pl' = now \<and> (\<exists>pod' node vs w1. ev_GetPod E (pod_Namespace pod) (pod_Name pod) = Inr pod' \<and>
    node \<in> set nodes \<and> nominated = Some (ni_Name node) \<and> vs \<noteq> [] \<and> mset vs \<subseteq># mset (ni_Pods node) \<and>
    (\<forall>p \<in> set vs. sint (PodPriority p) < sint (PodPriority pod') \<and> ExemptedFromPreemption pcLister now p pod' = Inr False) \<and>
    preempt_all (with_handle H E) pod' vs w = (None, w1))"
proof -
  have pl: "pl' = pl\<lparr>pl_curTime := now\<rparr>"
    and run: "Preempt (pt_methods srt clk pcLister Int31n pl' H state) (with_handle H E) order pod m w = Ret (nominated, status, w')"
    using assms(5) by (auto simp: pt_PostFilter_def Let_def)
  from sort_slice.tolerated_nominates [OF assms(1) run assms(6)] assms(2-4) pl
  show ?thesis by (fastforce simp: with_handle_def pt_allowed_def)
qed

section \<open>An example\<close>








end
