(* ===== verification/Plugin_Start.thy ===== *)
theory Plugin_Start
  imports Coscheduling Queue_Sorts Network_Overhead Plugin_Args Pod_Group_Controller Elastic_Quota_Controller
begin

text \<open>
  How the other parts start: the constructors of Coscheduling, NetworkOverhead and TopologicalSort,
  the process of the controllers (\<^verbatim>\<open>cmd/controller/app\<close>) with the wiring of the two reconcilers, and the
  unused helper \<^verbatim>\<open>CreateMergePatch\<close>.  A client is a name for what the library makes; whether it can be
  made is a parameter.
\<close>

section \<open>Plugins\<close>

definition Second :: Duration where
  "Second = 1000000000"

record CoschedulingPlugin =
  cs_pgMgr :: PodGroupManager
  cs_scheduleTimeout :: Duration
  cs_pgBackoff :: "Duration option"

definition co_New :: "(goerror + string) \<Rightarrow> config_object option \<Rightarrow> goerror + CoschedulingPlugin" where
  "co_New new_client obj =
     (case obj of
        Some (C_Coscheduling args) \<Rightarrow>
          (case new_client of
             Inl err \<Rightarrow> Inl err
           | Inr client \<Rightarrow>
               let scheduleTimeDuration = ico_PermitWaitingTimeSeconds args * Second;
                   plugin = \<lparr>cs_pgMgr = NewPodGroupManager, cs_scheduleTimeout = scheduleTimeDuration, cs_pgBackoff = None\<rparr>
               in if sint (ico_PodGroupBackoffSeconds args) < 0 then Inl ''parse arguments failed''
                  else if sint (ico_PodGroupBackoffSeconds args) > 0
                  then Inr (plugin\<lparr>cs_pgBackoff := Some (ico_PodGroupBackoffSeconds args * Second)\<rparr>)
                  else Inr plugin)
      | _ \<Rightarrow> Inl ''want args to be of type CoschedulingArgs'')"

definition co_Reserve :: Status where
  "co_Reserve = None"

definition net_getArgs :: "config_object option \<Rightarrow> goerror + NetworkOverheadArgs" where
  "net_getArgs obj = (case obj of
     Some (C_NetworkOverhead args) \<Rightarrow> Inr args
   | _ \<Rightarrow> Inl ''want args to be of type NetworkOverhead'')"

record NetworkOverheadPlugin =
  np_namespaces :: "string list"
  np_weightsName :: string
  np_ntName :: string

definition net_New :: "(goerror + string) \<Rightarrow> config_object option \<Rightarrow> goerror + NetworkOverheadPlugin" where
  "net_New new_client obj =
     (case net_getArgs obj of
        Inl err \<Rightarrow> Inl err
      | Inr args \<Rightarrow>
          (case new_client of
             Inl err \<Rightarrow> Inl err
           | Inr client \<Rightarrow> Inr \<lparr>np_namespaces = ino_Namespaces args, np_weightsName = ino_WeightsName args, np_ntName = ino_NetworkTopologyName args\<rparr>))"

text \<open>The plugin as the environment that its methods read.\<close>

definition net_configured :: "NetworkOverheadPlugin \<Rightarrow> net_env \<Rightarrow> net_env" where
  "net_configured p E = E\<lparr>no_namespaces := np_namespaces p, no_weightsName := np_weightsName p, no_ntName := np_ntName p\<rparr>"

definition ts_getArgs :: "config_object option \<Rightarrow> goerror + TopologicalSortArgs" where
  "ts_getArgs obj = (case obj of
     Some (C_TopologicalSort args) \<Rightarrow> Inr args
   | _ \<Rightarrow> Inl ''want args to be of type TopologicalSortArgs'')"

definition ts_New :: "(goerror + string) \<Rightarrow> config_object option \<Rightarrow> goerror + string list" where
  "ts_New new_client obj =
     (case ts_getArgs obj of
        Inl err \<Rightarrow> Inl err
      | Inr args \<Rightarrow> (case new_client of Inl err \<Rightarrow> Inl err | Inr client \<Rightarrow> Inr (ito_Namespaces args)))"

section \<open>Controllers\<close>

record ServerRunOptions =
  so_MetricsAddr :: string
  so_ProbeAddr :: string
  so_ApiServerQPS :: i64
  so_ApiServerBurst :: i64
  so_Workers :: i64
  so_EnableLeaderElection :: bool

text \<open>The options before the command line is read.\<close>

definition addAllFlags :: "ServerRunOptions" where
  "addAllFlags = \<lparr>so_MetricsAddr = '':8080'', so_ProbeAddr = '':8081'', so_ApiServerQPS = 5, so_ApiServerBurst = 10,
     so_Workers = 1, so_EnableLeaderElection = False\<rparr>"

definition NewServerRunOptions :: ServerRunOptions where
  "NewServerRunOptions = addAllFlags"

record rest_Config =
  rc_QPS :: rat
  rc_Burst :: i64

record manager_options =
  mo_MetricsAddr :: string
  mo_ProbeAddr :: string
  mo_LeaderElection :: bool
  mo_LeaderElectionID :: string
  mo_LeaderElectionNamespace :: string

text \<open>
  A reconciler is wired to the manager by the map from watched pods to requests, the kind of its own
  objects and the number of workers.
\<close>

record wiring =
  wi_Recorder :: string
  wi_PodRequests :: "v1_Pod \<Rightarrow> (string \<times> string) list"
  wi_For :: string
  wi_MaxConcurrentReconciles :: i64

definition pg_SetupWithManager :: "i64 \<Rightarrow> wiring" where
  "pg_SetupWithManager workers = \<lparr>wi_Recorder = ''PodGroupController'', wi_PodRequests = (\<lambda>pod. podToPodGroup (Some pod)),
     wi_For = ''PodGroup'', wi_MaxConcurrentReconciles = workers\<rparr>"

definition eq_SetupWithManager :: "i64 \<Rightarrow> wiring" where
  "eq_SetupWithManager workers = \<lparr>wi_Recorder = ''ElasticQuotaController'', wi_PodRequests = (\<lambda>pod. [(pod_Namespace pod, pod_Name pod)]),
     wi_For = ''ElasticQuota'', wi_MaxConcurrentReconciles = workers\<rparr>"

text \<open>
  What the controller runtime does: \<^verbatim>\<open>GetConfigOrDie\<close> makes a new configuration on every call or ends
  the process; the other steps may fail.
\<close>

record runtime_steps =
  ru_GetConfig :: "goerror + rest_Config"
  ru_NewManager :: "rest_Config \<Rightarrow> manager_options \<Rightarrow> goerror option"
  ru_Complete :: "wiring \<Rightarrow> goerror option"
  ru_AddHealthzCheck :: "goerror option"
  ru_AddReadyzCheck :: "goerror option"
  ru_Start :: "goerror option"

text \<open>How the process ends, with the configuration of the manager and the controllers added to it.\<close>

datatype run_end = Died goerror | RunError goerror | Ran rest_Config manager_options "wiring list"

definition controllers_Run :: "runtime_steps \<Rightarrow> ServerRunOptions \<Rightarrow> run_end" where
  "controllers_Run R s =
     (case ru_GetConfig R of
        Inl e \<Rightarrow> Died e
      | Inr config0 \<Rightarrow>
          let config = config0\<lparr>rc_QPS := rat_of_int (sint (so_ApiServerQPS s)), rc_Burst := so_ApiServerBurst s\<rparr>
          in (case ru_GetConfig R of
                Inl e \<Rightarrow> Died e
              | Inr mgr_config \<Rightarrow>
                  let options = \<lparr>mo_MetricsAddr = so_MetricsAddr s, mo_ProbeAddr = so_ProbeAddr s,
                        mo_LeaderElection = so_EnableLeaderElection s, mo_LeaderElectionID = ''sched-plugins-controllers'',
                        mo_LeaderElectionNamespace = ''kube-system''\<rparr>;
                      groups = pg_SetupWithManager (so_Workers s); quotas = eq_SetupWithManager (so_Workers s)
                  in (case ru_NewManager R mgr_config options of Some err \<Rightarrow> RunError err
                    | None \<Rightarrow> (case ru_Complete R groups of Some err \<Rightarrow> RunError err
                    | None \<Rightarrow> (case ru_Complete R quotas of Some err \<Rightarrow> RunError err
                    | None \<Rightarrow> (case ru_AddHealthzCheck R of Some err \<Rightarrow> RunError err
                    | None \<Rightarrow> (case ru_AddReadyzCheck R of Some err \<Rightarrow> RunError err
                    | None \<Rightarrow> (case ru_Start R of Some err \<Rightarrow> RunError err
                    | None \<Rightarrow> Ran mgr_config options [groups, quotas]))))))))"

section \<open>A patch\<close>

definition CreateMergePatch :: "('o \<Rightarrow> goerror + string) \<Rightarrow> (string \<Rightarrow> string \<Rightarrow> goerror + string) \<Rightarrow> 'o \<Rightarrow> 'o \<Rightarrow> goerror + string" where
  "CreateMergePatch marshal CreateTwoWayMergePatch original new =
     (case marshal original of
        Inl err \<Rightarrow> Inl err
      | Inr pvByte \<Rightarrow>
          (case marshal new of
             Inl err \<Rightarrow> Inl err
           | Inr cloneByte \<Rightarrow> (case CreateTwoWayMergePatch pvByte cloneByte of Inl err \<Rightarrow> Inl err | Inr patch \<Rightarrow> Inr patch)))"

section \<open>Facts\<close>

text \<open>
  The manager talks to the API server with the rates of a fresh configuration: the options \<open>qps\<close> and
  \<open>burst\<close> are set on a configuration that is never used.
\<close>

theorem rate_options_ignored:
  assumes "controllers_Run R s = Ran config options wired"
  shows "ru_GetConfig R = Inr config"
    and "controllers_Run R (s\<lparr>so_ApiServerQPS := qps, so_ApiServerBurst := burst\<rparr>) = Ran config options wired"
  using assms by (auto simp: controllers_Run_def Let_def split: sum.splits option.splits)

text \<open>A change of a pod leads to a request for its group, if it has one, and for the quotas of its namespace.\<close>

theorem pod_requests:
  assumes "controllers_Run R s = Ran config options wired"
  shows "concat (map (\<lambda>x. map (\<lambda>r. (wi_For x, r)) (wi_PodRequests x pod)) wired) =
    (if GetPodGroupLabel pod = '''' then [] else [(''PodGroup'', pod_Namespace pod, GetPodGroupLabel pod)]) @
    [(''ElasticQuota'', pod_Namespace pod, pod_Name pod)]"
  using assms
  by (auto simp: controllers_Run_def Let_def pg_SetupWithManager_def eq_SetupWithManager_def podToPodGroup_def
      split: sum.splits option.splits)

lemma sint_times_Second:
  assumes "\<bar>sint x\<bar> \<le> 9223372036"
  shows "sint (x * Second) = sint x * 1000000000"
proof -
  have "sint (x * Second) = signed_take_bit 63 (sint x * 1000000000)"
    using sint_sbintrunc' [where 'a = 64, of "sint x * sint Second"] by (simp add: Second_def)
  also have "\<dots> = sint x * 1000000000" by (rule signed_take_bit_int_eq_self) (use assms in auto)
  finally show ?thesis .
qed

text \<open>
  Coscheduling is built from any waiting time, negative ones included; the time is exact up to 292
  years of seconds and wraps around beyond.
\<close>

theorem coscheduling_built:
  assumes "0 \<le> sint (ico_PodGroupBackoffSeconds args)"
  obtains p where "co_New (Inr client) (Some (C_Coscheduling args)) = Inr p"
    and "\<bar>sint (ico_PermitWaitingTimeSeconds args)\<bar> \<le> 9223372036 \<Longrightarrow>
      sint (cs_scheduleTimeout p) = sint (ico_PermitWaitingTimeSeconds args) * 1000000000"
    and "cs_pgBackoff p = (if ico_PodGroupBackoffSeconds args = 0 then None else Some (ico_PodGroupBackoffSeconds args * Second))"
proof -
  let ?p = "\<lparr>cs_pgMgr = NewPodGroupManager, cs_scheduleTimeout = ico_PermitWaitingTimeSeconds args * Second,
     cs_pgBackoff = (if ico_PodGroupBackoffSeconds args = 0 then None else Some (ico_PodGroupBackoffSeconds args * Second))\<rparr>"
  have "sint (ico_PodGroupBackoffSeconds args) > 0 \<longleftrightarrow> ico_PodGroupBackoffSeconds args \<noteq> 0"
    using assms by (auto simp: order_less_le dest: signed_word_eqI [where v = 0, simplified])
  then have "co_New (Inr client) (Some (C_Coscheduling args)) = Inr ?p" using assms by (simp add: co_New_def Let_def)
  then show ?thesis using that sint_times_Second by simp
qed

theorem waiting_time_wraps:
  "\<exists>p. co_New (Inr client) (Some (C_Coscheduling \<lparr>ico_PermitWaitingTimeSeconds = 9223372037, ico_PodGroupBackoffSeconds = 0\<rparr>)) = Inr p \<and>
     sint (cs_scheduleTimeout p) < 0"
  by (simp add: co_New_def Let_def Second_def)

theorem plugins_want_their_args:
  "net_New client obj = Inr p \<Longrightarrow> \<exists>args. obj = Some (C_NetworkOverhead args) \<and> no_namespaces (net_configured p E) = ino_Namespaces args"
  "ts_New client obj = Inr names \<Longrightarrow> \<exists>args. obj = Some (C_TopologicalSort args) \<and> names = ito_Namespaces args"
  "co_New client obj = Inr c \<Longrightarrow> \<exists>args. obj = Some (C_Coscheduling args) \<and> 0 \<le> sint (ico_PodGroupBackoffSeconds args)"
  by (auto simp: net_New_def net_getArgs_def net_configured_def ts_New_def ts_getArgs_def co_New_def Let_def
      split: option.splits config_object.splits sum.splits if_splits)

end
