(* ===== verification/Wam_Config.thy ===== *)
theory Wam_Config
  imports Wam_Plugin
begin

text \<open>
  How the two processes start: the configuration of the manager (\<^verbatim>\<open>wam/pkg/config/config.go\<close>, with
  the part of viper that it uses), its \<^verbatim>\<open>main\<close> (\<^verbatim>\<open>wam/cmd/wam/main.go\<close>) and the constructor of the
  scheduler plugin (\<^verbatim>\<open>New\<close> of \<^verbatim>\<open>wam-scheduler/pkg/wam/plugin.go\<close>).  The environment of a process is a
  map of variables.  The Kubernetes client, the RPC server and the Redis client are what the
  libraries make of their options; whether they succeed is a parameter.
\<close>

section \<open>Configuration\<close>

record Server =
  sv_Address :: string

record Redis =
  rd_Host :: string
  rd_Port :: string
  rd_Password :: string

record Config =
  cf_Server :: Server
  cf_Redis :: Redis

definition defaultConfig :: Config where
  "defaultConfig = \<lparr>cf_Server = \<lparr>sv_Address = ''''\<rparr>, cf_Redis = \<lparr>rd_Host = '''', rd_Port = '''', rd_Password = ''''\<rparr>\<rparr>"

text \<open>The environment: \<^verbatim>\<open>os.LookupEnv\<close>; \<^verbatim>\<open>os.Getenv\<close> gives the empty string for a missing variable.\<close>

type_synonym environment = "string \<Rightarrow> string option"

definition Getenv :: "environment \<Rightarrow> string \<Rightarrow> string" where
  "Getenv env k = (case env k of None \<Rightarrow> '''' | Some v \<Rightarrow> v)"

text \<open>Case mapping of ASCII letters.\<close>

definition to_upper :: "char \<Rightarrow> char" where
  "to_upper c = (let n = of_char c :: nat in if 97 \<le> n \<and> n \<le> 122 then char_of (n - 32) else c)"

definition to_lower :: "char \<Rightarrow> char" where
  "to_lower c = (let n = of_char c :: nat in if 65 \<le> n \<and> n \<le> 90 then char_of (n + 32) else c)"

fun split_on :: "char \<Rightarrow> string \<Rightarrow> string list" where
  "split_on d [] = [[]]"
| "split_on d (c # cs) =
     (if c = d then [] # split_on d cs
      else (case split_on d cs of [] \<Rightarrow> [[c]] | w # ws \<Rightarrow> (c # w) # ws))"

fun join_with :: "string \<Rightarrow> string list \<Rightarrow> string" where
  "join_with d [] = ''''"
| "join_with d [w] = w"
| "join_with d (w # ws) = w @ d @ join_with d ws"

text \<open>
  A configuration file as viper holds it.  \<^verbatim>\<open>yaml.Marshal\<close> writes the fields of a struct under their
  names in lower case; viper reads the text straight back, so that only the tree matters.
\<close>

datatype setting = Leaf string | Node "(string \<times> setting) list"

definition yaml_Marshal :: "Config \<Rightarrow> goerror + (string \<times> setting) list" where
  "yaml_Marshal c = Inr
     [(''server'', Node [(''address'', Leaf (sv_Address (cf_Server c)))]),
      (''redis'', Node [(''host'', Leaf (rd_Host (cf_Redis c))), (''port'', Leaf (rd_Port (cf_Redis c))),
        (''password'', Leaf (rd_Password (cf_Redis c)))])]"

fun flattenAndMergeMap :: "string \<Rightarrow> (string \<times> setting) list \<Rightarrow> string list" where
  "flattenAndMergeMap pre [] = []"
| "flattenAndMergeMap pre ((k, Leaf v) # m) = map to_lower (pre @ k) # flattenAndMergeMap pre m"
| "flattenAndMergeMap pre ((k, Node m') # m) = flattenAndMergeMap (pre @ k @ ''.'') m' @ flattenAndMergeMap pre m"

text \<open>The replacer of the configuration turns a dot into an underscore; an empty variable counts as unset.\<close>

definition getEnv :: "environment \<Rightarrow> string \<Rightarrow> string option" where
  "getEnv env key = (case env (map (\<lambda>c. if c = CHR ''.'' then CHR ''_'' else c) key) of
     None \<Rightarrow> None
   | Some v \<Rightarrow> if v = '''' then None else Some v)"

definition isPathShadowedInAutoEnv :: "environment \<Rightarrow> string list \<Rightarrow> bool" where
  "isPathShadowedInAutoEnv env path =
     list_ex (\<lambda>i. getEnv env (map to_upper (join_with ''.'' (take i path))) \<noteq> None) [1..<length path]"

fun searchMap :: "(string \<times> setting) list \<Rightarrow> string list \<Rightarrow> string option" where
  "searchMap m [] = None"
| "searchMap m (k # path) = (case map_of m k of
     None \<Rightarrow> None
   | Some (Leaf v) \<Rightarrow> (if path = [] then Some v else None)
   | Some (Node m') \<Rightarrow> searchMap m' path)"

definition viper_find :: "environment \<Rightarrow> (string \<times> setting) list \<Rightarrow> string \<Rightarrow> string option" where
  "viper_find env cfg lcaseKey =
     (let path = split_on (CHR ''.'') lcaseKey in
      case getEnv env (map to_upper lcaseKey) of
        Some v \<Rightarrow> Some v
      | None \<Rightarrow> if length path > 1 \<and> isPathShadowedInAutoEnv env path then None else searchMap cfg path)"

definition getSettings :: "environment \<Rightarrow> (string \<times> setting) list \<Rightarrow> string list \<Rightarrow> (string list \<times> string) list" where
  "getSettings env cfg keys = List.map_filter (\<lambda>k. map_option (\<lambda>v. (split_on (CHR ''.'') k, v)) (viper_find env cfg k)) keys"

text \<open>A field takes the setting whose path has its tags, in any case, and else keeps its value.\<close>

definition decode_field :: "(string list \<times> string) list \<Rightarrow> string list \<Rightarrow> string \<Rightarrow> string" where
  "decode_field settings tags old =
     (case find (\<lambda>(path, v). map (map to_lower) path = map (map to_lower) tags) settings of
        None \<Rightarrow> old
      | Some (path, v) \<Rightarrow> v)"

definition Unmarshal :: "environment \<Rightarrow> (string \<times> setting) list \<Rightarrow> Config \<Rightarrow> goerror + Config" where
  "Unmarshal env cfg config =
     (let settings = getSettings env cfg (flattenAndMergeMap '''' cfg) in
      Inr \<lparr>cf_Server = \<lparr>sv_Address = decode_field settings [''SERVER'', ''ADDRESS''] (sv_Address (cf_Server config))\<rparr>,
           cf_Redis = \<lparr>rd_Host = decode_field settings [''REDIS'', ''HOST''] (rd_Host (cf_Redis config)),
             rd_Port = decode_field settings [''REDIS'', ''PORT''] (rd_Port (cf_Redis config)),
             rd_Password = decode_field settings [''REDIS'', ''PASSWORD''] (rd_Password (cf_Redis config))\<rparr>\<rparr>)"

definition zero_Config :: Config where
  "zero_Config = \<lparr>cf_Server = \<lparr>sv_Address = ''''\<rparr>, cf_Redis = \<lparr>rd_Host = '''', rd_Port = '''', rd_Password = ''''\<rparr>\<rparr>"

definition config_New :: "environment \<Rightarrow> goerror + Config" where
  "config_New env =
     (case yaml_Marshal defaultConfig of
        Inl err \<Rightarrow> Inl err
      | Inr cfg \<Rightarrow> Unmarshal env cfg zero_Config)"

section \<open>The manager\<close>

record Options =
  ro_Addr :: string
  ro_Password :: string
  ro_DB :: nat

record kube_start =
  ks_BuildConfigFromFlags :: "goerror + string"
  ks_InClusterConfig :: "goerror + string"
  ks_NewForConfig :: "string \<Rightarrow> goerror + string"

text \<open>Both processes make their client from the configuration in the home directory or in the cluster.\<close>

definition kube_client :: "kube_start \<Rightarrow> goerror + string" where
  "kube_client K =
     (case (case ks_BuildConfigFromFlags K of Inl e \<Rightarrow> ks_InClusterConfig K | Inr c \<Rightarrow> Inr c) of
        Inl e \<Rightarrow> Inl e
      | Inr kubeConfig \<Rightarrow> ks_NewForConfig K kubeConfig)"

text \<open>
  How \<^verbatim>\<open>main\<close> ends: a fatal error, a panic, or a return.  In the last two cases it has come as far as
  the service, which is at \<open>/rpc\<close> of the address and works on the Kubernetes and the Redis client.
\<close>

record ActionService =
  as_k8sClient :: string
  as_rdb :: Options

definition NewActionService :: "string \<Rightarrow> Options \<Rightarrow> ActionService" where
  "NewActionService k8sClient rdb = \<lparr>as_k8sClient = k8sClient, as_rdb = rdb\<rparr>"

datatype main_end = Fatal goerror | Panicked goerror "ActionService option" | Returned ActionService

definition wam_main :: "environment \<Rightarrow> kube_start \<Rightarrow> (ActionService \<Rightarrow> goerror option) \<Rightarrow>
    (string \<Rightarrow> ActionService \<Rightarrow> goerror option) \<Rightarrow> main_end" where
  "wam_main env K RegisterService ListenAndServe =
     (case config_New env of
        Inl err \<Rightarrow> Fatal err
      | Inr config \<Rightarrow>
          (case kube_client K of
             Inl err \<Rightarrow> Fatal err
           | Inr k8sClient \<Rightarrow>
               let rdb = \<lparr>ro_Addr = rd_Host (cf_Redis config) @ '':'' @ rd_Port (cf_Redis config),
                          ro_Password = rd_Password (cf_Redis config), ro_DB = 0\<rparr>;
                   s = NewActionService k8sClient rdb
               in (case RegisterService s of
                     Some err \<Rightarrow> Panicked err None
                   | None \<Rightarrow>
                       (case ListenAndServe (sv_Address (cf_Server config)) s of
                          Some err \<Rightarrow> Panicked err (Some s)
                        | None \<Rightarrow> Returned s))))"

section \<open>The scheduler plugin\<close>

record WAM =
  wp_rdb :: Options
  wp_k8sClient :: string

text \<open>\<^verbatim>\<open>log.Fatal\<close> ends the scheduler: \<open>Inl\<close>.  The plugin looks at none of its arguments.\<close>

definition WAM_New :: "environment \<Rightarrow> kube_start \<Rightarrow> (Options \<Rightarrow> goerror option) \<Rightarrow> 'args \<Rightarrow> goerror + WAM" where
  "WAM_New env K Ping args =
     (case kube_client K of
        Inl err \<Rightarrow> Inl err
      | Inr k8sClient \<Rightarrow>
          let rdb = \<lparr>ro_Addr = Getenv env ''WAM_REDIS_HOST'' @ '':'' @ Getenv env ''WAM_REDIS_PORT'',
                     ro_Password = Getenv env ''WAM_REDIS_PASSWORD'', ro_DB = 0\<rparr>
          in (case Ping rdb of
                Some err \<Rightarrow> Inl ''error connecting to Redis''
              | None \<Rightarrow> Inr \<lparr>wp_rdb = rdb, wp_k8sClient = k8sClient\<rparr>))"

section \<open>What a process reads\<close>

definition matches :: "string list \<Rightarrow> string list \<Rightarrow> bool" where
  "matches path tags = (map (map to_lower) path = map (map to_lower) tags)"

lemma decode_settings:
  "decode_field (getSettings env cfg []) tags old = old"
  "decode_field (getSettings env cfg (k # ks)) tags old =
     (if matches (split_on (CHR ''.'') k) tags
      then (case viper_find env cfg k of None \<Rightarrow> decode_field (getSettings env cfg ks) tags old | Some v \<Rightarrow> v)
      else decode_field (getSettings env cfg ks) tags old)"
  by (auto simp: decode_field_def getSettings_def matches_def List.map_filter_def split: option.splits)

text \<open>A key whose default is the empty string has the value of its variable, whatever shadows it.\<close>

lemma setting_value:
  assumes "map (\<lambda>c. if c = CHR ''.'' then CHR ''_'' else c) (map to_upper key) = variable"
    and "searchMap cfg (split_on (CHR ''.'') key) = Some ''''"
  shows "(case viper_find env cfg key of None \<Rightarrow> '''' | Some v \<Rightarrow> v) = Getenv env variable"
  using assms by (auto simp: viper_find_def getEnv_def Getenv_def Let_def split: option.splits)

definition empty_file :: "(string \<times> setting) list" where
  "empty_file = [(''server'', Node [(''address'', Leaf '''')]),
     (''redis'', Node [(''host'', Leaf ''''), (''port'', Leaf ''''), (''password'', Leaf '''')])]"

lemma empty_file_keys:
  "flattenAndMergeMap '''' empty_file = [''server.address'', ''redis.host'', ''redis.port'', ''redis.password'']"
  by code_simp

lemma variables:
  "map (\<lambda>c. if c = CHR ''.'' then CHR ''_'' else c) (map to_upper ''server.address'') = ''SERVER_ADDRESS''"
  "map (\<lambda>c. if c = CHR ''.'' then CHR ''_'' else c) (map to_upper ''redis.host'') = ''REDIS_HOST''"
  "map (\<lambda>c. if c = CHR ''.'' then CHR ''_'' else c) (map to_upper ''redis.port'') = ''REDIS_PORT''"
  "map (\<lambda>c. if c = CHR ''.'' then CHR ''_'' else c) (map to_upper ''redis.password'') = ''REDIS_PASSWORD''"
  by code_simp+

lemma empty_values:
  "searchMap empty_file (split_on (CHR ''.'') ''server.address'') = Some ''''"
  "searchMap empty_file (split_on (CHR ''.'') ''redis.host'') = Some ''''"
  "searchMap empty_file (split_on (CHR ''.'') ''redis.port'') = Some ''''"
  "searchMap empty_file (split_on (CHR ''.'') ''redis.password'') = Some ''''"
  by code_simp+

lemma tag_matches:
  "map (\<lambda>k. map (matches (split_on (CHR ''.'') k)) [[''SERVER'', ''ADDRESS''], [''REDIS'', ''HOST''], [''REDIS'', ''PORT''], [''REDIS'', ''PASSWORD'']])
     [''server.address'', ''redis.host'', ''redis.port'', ''redis.password''] =
   [[True, False, False, False], [False, True, False, False], [False, False, True, False], [False, False, False, True]]"
  by code_simp

theorem config_from_env:
  "config_New env = Inr \<lparr>cf_Server = \<lparr>sv_Address = Getenv env ''SERVER_ADDRESS''\<rparr>,
     cf_Redis = \<lparr>rd_Host = Getenv env ''REDIS_HOST'', rd_Port = Getenv env ''REDIS_PORT'', rd_Password = Getenv env ''REDIS_PASSWORD''\<rparr>\<rparr>"
proof -
  have "config_New env = Unmarshal env empty_file zero_Config"
    by (simp add: config_New_def yaml_Marshal_def defaultConfig_def empty_file_def)
  moreover note setting_value [OF variables(1) empty_values(1)] setting_value [OF variables(2) empty_values(2)]
    setting_value [OF variables(3) empty_values(3)] setting_value [OF variables(4) empty_values(4)]
  ultimately show ?thesis
    using tag_matches by (simp add: Unmarshal_def empty_file_keys decode_settings zero_Config_def del: split_on.simps cong: option.case_cong)
qed

text \<open>
  The manager and the plugin talk to the same Redis server when the variables of the two processes
  agree; only the plugin checks that the server answers.
\<close>

theorem same_redis:
  assumes "wam_main env K RegisterService ListenAndServe \<in> {Returned s, Panicked err (Some s)}"
    and "WAM_New env' K' Ping args = Inr p"
    and "Getenv env' ''WAM_REDIS_HOST'' = Getenv env ''REDIS_HOST''" and "Getenv env' ''WAM_REDIS_PORT'' = Getenv env ''REDIS_PORT''"
    and "Getenv env' ''WAM_REDIS_PASSWORD'' = Getenv env ''REDIS_PASSWORD''"
  shows "as_rdb s = wp_rdb p \<and> Ping (as_rdb s) = None"
  using assms
  by (auto simp: wam_main_def WAM_New_def config_from_env NewActionService_def Let_def split: sum.splits option.splits)

text \<open>How the manager ends, by the services it starts from.\<close>

theorem main_ends:
  "wam_main env K RegisterService ListenAndServe =
     (case kube_client K of
        Inl err \<Rightarrow> Fatal err
      | Inr client \<Rightarrow>
          (let s = \<lparr>as_k8sClient = client, as_rdb = \<lparr>ro_Addr = Getenv env ''REDIS_HOST'' @ '':'' @ Getenv env ''REDIS_PORT'',
                     ro_Password = Getenv env ''REDIS_PASSWORD'', ro_DB = 0\<rparr>\<rparr>
           in case RegisterService s of
                Some err \<Rightarrow> Panicked err None
              | None \<Rightarrow> (case ListenAndServe (Getenv env ''SERVER_ADDRESS'') s of None \<Rightarrow> Returned s | Some err \<Rightarrow> Panicked err (Some s))))"
  by (simp add: wam_main_def config_from_env NewActionService_def Let_def split: sum.splits option.splits)


end
