(* ===== verification/Spec2Isabelle.thy ===== *)
theory Spec2Isabelle
  imports Wam_Move_Properties Capacity_Properties Toleration_Properties Coscheduling_Properties
    Controller_Properties Nrt_Score_Properties Args_Properties Handler_Properties Score_Contract
    Deep_Copy_Properties Post_Filter Plugin_Start Wam_Config
begin

text \<open>
  A verification library for the Workload Actions Manager (\<^verbatim>\<open>src/wam\<close>) and its scheduler
  (\<^verbatim>\<open>src/wam-scheduler\<close>, a fork of the Kubernetes scheduler plugins with a plugin of its own).

  \<^bold>\<open>The program.\<close>  The manager is a JSON-RPC service with four actions on Kubernetes
  workloads: create a replica on a chosen node, delete a chosen pod, move a pod and swap pods
  between two nodes.  A create pushes a scheduling suggestion (an identifier and a node) to a
  Redis list named after the workload and increments the replicas of its deployment.  The WAM
  plugin of the scheduler pops the suggestion in PreFilter when the new pod arrives, keeps it
  in the cycle state, lets Filter pass only the suggested node, and PostBind annotates the pod
  with the identifier, which is what a move waits for.  The other plugins of the scheduler are
  independent of the manager: elastic quotas with preemption, preemption toleration,
  coscheduling of pod groups, network-aware placement, placement on NUMA cells, scores by
  allocatable resources, by pod state, by system calls and by measured load, and queue orders.
  Two controllers keep the status of pod groups and quotas.  Every plugin gets its arguments from
  the configuration through the defaults and conversions of \<^verbatim>\<open>apis/config\<close>.

  \<^bold>\<open>Conventions.\<close>  Go's int32 and int64 are words that wrap (\<open>i32\<close>, \<open>i64\<close>); a Go map is an
  association list whose order is the iteration order; a call that may panic returns
  \<open>'a outcome\<close>; an error value is a string, a fallible call returns a sum.  Float64 is the
  rational it stands for, with every operation rounded to 53 bits, float32 to 24 (\<open>Float64\<close>); where
  a division by zero can reach a result the type has infinities and NaN.  What is outside
  (the API server, Redis, informers, the framework handle, the clock) is a record of functions
  that the operations take as an argument.  Where a property relies on what such a service
  promises, the promise is a locale, and each locale is interpreted on an executable service.
  Log output is left out.

  \<^bold>\<open>Theories.\<close>
  \<^item> \<open>Prelude\<close>, \<open>K8s_Objects\<close>, \<open>Framework\<close>, \<open>Resource_Names\<close>, \<open>Resources\<close>, \<open>Float64\<close>: Go types and
    maps, API objects, statuses, resource names and vectors, rounding.
  \<^item> \<open>Wam_Services\<close>, \<open>Wam_Create\<close>, \<open>Wam_Delete\<close>, \<open>Wam_Move\<close>, \<open>Wam_Swap\<close>, \<open>Wam_Rpc\<close>: the actions
    (\<^verbatim>\<open>src/wam/pkg/actions\<close>), one definition per handler and helper, over the record \<open>services\<close>.
    \<open>Wam_Plugin\<close>: the plugin (\<^verbatim>\<open>src/wam-scheduler/pkg/wam/plugin.go\<close>).  \<open>Wam_Interleaving\<close>: the create
    handler cut at its service calls, so that concurrent requests interleave; four steps are
    proved to be enough.  \<open>Suggestion_Json\<close>: the JSON form of a suggestion and its round trip.
    \<open>Wam_Cluster\<close>: an executable cluster on which the laws of the services are proved.  The
    polling loop of a swap has fuel 11, proved to be enough because every round sleeps one of
    ten seconds.
  \<^item> \<open>Wam_Properties\<close>, \<open>Wam_Move_Properties\<close>: creates commit or roll back, no increment is lost under
    any interleaving, the suggestion reaches Filter, deletes touch little, moves delete after
    waiting, swaps return and exchange the nodes, and where the actions fail.
  \<^item> \<open>Elastic_Quota\<close>, \<open>Capacity_Scheduling\<close>, \<open>Preemption\<close>, \<open>Disruption_Budgets\<close>, \<open>Capacity_Preemption\<close>,
    \<open>Capacity_Properties\<close>: \<^verbatim>\<open>pkg/capacityscheduling\<close>; the used amount of a quota is the sum of the
    requests of its pods in every reachable state, PreFilter decides by maximum and minimum,
    and a choice of victims conserves the pods of a node although it removes from the slice it
    ranges over.
  \<^item> \<open>Preemption_Toleration\<close>, \<open>Toleration_Properties\<close>: \<^verbatim>\<open>pkg/preemptiontoleration\<close>.
  \<^item> \<open>Ttl_Cache\<close>, \<open>Pod_Groups\<close>, \<open>Coscheduling_Core\<close>, \<open>Coscheduling\<close>, \<open>Coscheduling_Properties\<close>:
    \<^verbatim>\<open>pkg/coscheduling\<close> with the expiring caches it uses; all or nothing for a group, the resource
    check, backing off, the queue order.
  \<^item> \<open>Pod_Group_Controller\<close>, \<open>Elastic_Quota_Controller\<close>, \<open>Controller_Properties\<close>: \<^verbatim>\<open>pkg/controllers\<close>;
    groups settle after three reconciliations, the status of a quota is the sum over its
    running pods.
  \<^item> \<open>Node_Scores\<close>, \<open>Score_Properties\<close>: \<^verbatim>\<open>pkg/noderesources\<close> and \<^verbatim>\<open>pkg/podstate\<close>; the range and order of
    the scores.
  \<^item> \<open>Network_Topology\<close>, \<open>Network_Overhead\<close>, \<open>Queue_Sorts\<close>, \<open>Network_Properties\<close>: \<^verbatim>\<open>pkg/networkaware\<close> and
    \<^verbatim>\<open>pkg/qos\<close>; the halving searches find what a scan finds, Filter and Score count and sum over
    the listed costs.

  \<^item> \<open>Nrt_Objects\<close>, \<open>Nrt_Cache\<close>, \<open>Nrt_Filter\<close>, \<open>Nrt_Score\<close> and their properties:
    \<^verbatim>\<open>pkg/noderesourcetopology\<close>.  The caches have one interface, the locale \<open>nrt_cache\<close>, interpreted on
    the three of them; the pessimistic one answers the last topology less everything reserved
    since.  The filter decides by cells at pod and at container scope, the search for cells finds the
    fewest and closest, the allocation scores are weighted averages.
  \<^item> \<open>Plugin_Args\<close>, \<open>Args_Properties\<close>: \<^verbatim>\<open>apis/config\<close>; the arguments in both versions, defaults,
    conversions, validation and the construction of the topology plugin.  Decoded arguments are
    complete, with one panic, and survive the way to the versioned form and back.
  \<^item> \<open>Sysched\<close>, \<open>Sysched_Properties\<close>: \<^verbatim>\<open>pkg/sysched\<close>; the tracked pods refine a register of the events,
    the score counts extraneous system calls.
  \<^item> \<open>Trimaran_Handler\<close>, \<open>Handler_Properties\<close>, \<open>Trimaran_Scores\<close>, \<open>Trimaran_Properties\<close>, \<open>Low_Risk\<close>,
    \<open>Low_Risk_Properties\<close>: \<^verbatim>\<open>pkg/trimaran\<close>; the recent entries of the cache are those of a journal,
    the packing score rises to its target and falls above it, the risk scores stay in range.
    \<^verbatim>\<open>sort.Search\<close> terminates by the measure of its interval.
  \<^item> \<open>Score_Contract\<close>: what the framework demands of scores, the locale \<open>normalizer\<close>, interpreted on
    every normalization of the plugins; below, the composition of four of them.

  \<^item> \<open>Preemption_Evaluator\<close>, \<open>Post_Filter\<close>: the evaluator of the framework that runs a preemption and the
    PostFilter of the two preempting plugins.  The methods that a plugin lends to the evaluator
    are the locale \<open>preemption_interface\<close>, a sublocale of which both plugins are; what is evicted for
    a nominated node are pods of that node that the plugin allows, and the pick among several
    candidates is the best by five scores in turn.
  \<^item> \<open>Wam_Config\<close>, \<open>Plugin_Start\<close>: how the manager, the WAM plugin, other plugins and the controllers
    start (\<^verbatim>\<open>wam/pkg/config\<close>, \<^verbatim>\<open>wam/cmd\<close>, \<^verbatim>\<open>cmd/controller\<close>, the constructors); the configuration of the manager
    is what the environment says, and two findings about options.
  \<^item> \<open>Deep_Copy\<close>, \<open>Deep_Copy_Cells\<close>, \<open>Deep_Copy_Args\<close>, \<open>Deep_Copy_Objects\<close>, \<open>Deep_Copy_Properties\<close>: the generated
    deep copies of arguments and custom resources, over a store of addresses with an allocation
    counter.  The contract of a copy is the locale \<open>deep_copier\<close>; structs, slices, maps and pointers
    keep it, and with it a copy has the contents of the original and shares nothing with it.
    The rest of the development passes these objects as values, which this justifies.

  \<^bold>\<open>Not modelled.\<close>  Making clients, starting informers and tickers, and the parsing of flags; the process of
  the scheduler, which registers the WAM plugin with kube-scheduler; the generated clients and the
  registration of types with schemes; \<^verbatim>\<open>pkg/crossnodepreemption\<close>, which is commented out as a whole;
  helpers that only print or log.  \<^verbatim>\<open>math.Pow\<close>, \<^verbatim>\<open>math.Sqrt\<close>, \<^verbatim>\<open>strconv.ParseFloat\<close> and the incomplete
  beta function of gonum are parameters; no property depends on what they return.  The parallel
  checks of the evaluator appear as the order in which they end, its evictions one after the other.
\<close>

section \<open>Scores of several plugins\<close>

text \<open>C34: a profile with the allocatable, system call, network and load variation plugins: when the raw
  scores are within the bounds of their normalizations and the weights are not too large, the
  framework accepts the scores of every node and its total is the weighted sum, without overflow.\<close>

theorem scores_combine:
  assumes "fits_rescale a" and "small_counts b" and "close_costs c"
    and "i < length a" and "i < length b" and "i < length c"
    and "0 \<le> sint w1" and "0 \<le> sint w2" and "0 \<le> sint w3" and "0 \<le> sint w4"
    and "100 * (sint w1 + sint w2 + sint w3 + sint w4) < 2 ^ 63"
  shows "\<exists>total_score.
    weigh_node [(w1, snd (alloc_NormalizeScore a ! i)), (w2, snd (sys_NormalizeScore b ! i)), (w3, snd (net_NormalizeScore c ! i)),
        (w4, fst (lvrb_Score root_pow get_node args collected pod nodeName))] 0 = Inr total_score \<and>
    sint total_score = sint w1 * sint (snd (alloc_NormalizeScore a ! i)) + sint w2 * sint (snd (sys_NormalizeScore b ! i)) +
      sint w3 * sint (snd (net_NormalizeScore c ! i)) + sint w4 * sint (fst (lvrb_Score root_pow get_node args collected pod nodeName))"
proof -
  define scores where "scores = [(w1, snd (alloc_NormalizeScore a ! i)), (w2, snd (sys_NormalizeScore b ! i)),
    (w3, snd (net_NormalizeScore c ! i)), (w4, fst (lvrb_Score root_pow get_node args collected pod nodeName))]"
  have "list_all (\<lambda>(w, s). 0 \<le> sint w \<and> in_range s) scores"
    using assms nalloc.score_accepted nsys.score_accepted nnet.score_accepted lvrb_in_range by (simp add: scores_def)
  then show ?thesis using weigh_node_spec [of scores 0] assms(11) by (simp add: scores_def add.assoc)
qed

definition two_scores :: "(string \<times> i64) list" where
  "two_scores = [(''n1'', 3), (''n2'', 10)]"

definition no_stats :: LoadVariationRiskBalancingArgs where
  "no_stats = \<lparr>lv_TrimaranSpec = \<lparr>ts_MetricProvider = \<lparr>mp_Type = '''', mp_Address = '''', mp_Token = '''', mp_InsecureSkipVerify = False\<rparr>,
     ts_WatcherAddress = ''''\<rparr>, lv_SafeVarianceMargin = 1, lv_SafeVarianceSensitivity = 1\<rparr>"

theorem scores_combine_witness:
  "\<exists>total_score.
    weigh_node [(1, snd (alloc_NormalizeScore two_scores ! 0)), (2, snd (sys_NormalizeScore two_scores ! 0)),
        (1, snd (net_NormalizeScore two_scores ! 0)), (1, fst (lvrb_Score (\<lambda>s e. s) (\<lambda>n. Inl ''gone'') no_stats empty_metrics zero_pod ''n1''))] 0
      = Inr total_score"
proof -
  have m: "hi two_scores = 10" "lo two_scores = 3" by (simp_all add: hi_def lo_def two_scores_def)
  then have pre: "fits_rescale two_scores" "small_counts two_scores" "close_costs two_scores"
    by (simp_all add: fits_rescale_def small_counts_def close_costs_def) (simp_all add: two_scores_def)
  have len: "0 < length two_scores" by (simp add: two_scores_def)
  show ?thesis
    using scores_combine [OF pre len len len, of 1 2 1 1 "\<lambda>s e. s" "\<lambda>n. Inl ''gone''" no_stats empty_metrics zero_pod "''n1''"]
    by (auto simp del: weigh_node.simps)
qed

end
